(* ===== verification/Waxum_Prelude.thy ===== *)
theory Waxum_Prelude
  imports Main
begin

text \<open>
  Vocabulary shared by every component of the gateway model: the names of the types the
  Rust code uses, saturating arithmetic, the part of \<open>str\<close> the code relies on, and the
  generic lemmas on lists and options the component theories prove with.

  Strings are character lists read as ASCII text, so \<open>trim_str\<close> strips the ASCII white
  space that \<open>str::trim\<close> strips; the Unicode white space beyond ASCII is out of scope.
  Two clocks appear: \<open>instant\<close> is the monotonic clock of \<open>std::time::Instant\<close> in
  nanoseconds, \<open>unix\<close> is a UTC time in whole seconds. Time stamps that the code stores as
  \<open>%Y-%m-%d %H:%M:%S\<close> text are modelled by the second they denote: the format is an order
  embedding for the years 0 to 9999, so the SQL comparisons agree.
\<close>

type_synonym instant = nat
type_synonym unix = int

named_theorems table_simps \<open>unfolding rules for the table operations of the SQL statements\<close>
named_theorems frame_simps \<open>what an operation leaves unchanged\<close>

section \<open>Saturating arithmetic\<close>

definition sat_succ :: "nat \<Rightarrow> nat \<Rightarrow> nat" where
  "sat_succ w n = min (n + 1) (2 ^ w - 1)"

definition sat :: "nat \<Rightarrow> nat \<Rightarrow> nat" where
  "sat w n = min n (2 ^ w - 1)"

lemma sat_succ_less [simp]: "n + 1 < 2 ^ w \<Longrightarrow> sat_succ w n = n + 1"
  by (simp add: sat_succ_def)

lemma sat_succ_pos: "0 < w \<Longrightarrow> 0 < sat_succ w n"
  using one_less_power [of "2::nat" w] by (simp add: sat_succ_def)

definition secs :: "nat \<Rightarrow> instant" where
  "secs n = n * 1000000000"

lemma secs_mono [simp]: "secs m \<le> secs n \<longleftrightarrow> m \<le> n" "secs m < secs n \<longleftrightarrow> m < n"
  by (auto simp: secs_def)

lemma secs_add: "secs (m + n) = secs m + secs n"
  by (simp add: secs_def algebra_simps)

section \<open>Text\<close>

definition is_ws :: "char \<Rightarrow> bool" where
  "is_ws c \<longleftrightarrow> of_char c \<in> {9, 10, 11, 12, 13, 32 :: nat}"

definition trim_str :: "string \<Rightarrow> string" where
  "trim_str s = rev (dropWhile is_ws (rev (dropWhile is_ws s)))"

definition is_digit :: "char \<Rightarrow> bool" where
  "is_digit c \<longleftrightarrow> (48 :: nat) \<le> of_char c \<and> of_char c \<le> (57 :: nat)"

definition is_alnum :: "char \<Rightarrow> bool" where
  "is_alnum c \<longleftrightarrow> is_digit c \<or> ((65 :: nat) \<le> of_char c \<and> of_char c \<le> (90 :: nat))
     \<or> ((97 :: nat) \<le> of_char c \<and> of_char c \<le> (122 :: nat))"

definition starts_with :: "string \<Rightarrow> string \<Rightarrow> bool" where
  "starts_with p s \<longleftrightarrow> take (length p) s = p"

definition ends_with :: "string \<Rightarrow> string \<Rightarrow> bool" where
  "ends_with p s \<longleftrightarrow> starts_with (rev p) (rev s)"

lemma starts_with_append [simp]: "starts_with p (p @ s)"
  by (simp add: starts_with_def)

lemma starts_withE:
  assumes "starts_with p s"
  obtains t where "s = p @ t"
proof -
  have "s = take (length p) s @ drop (length p) s" by simp
  with assms have "s = p @ drop (length p) s" by (simp add: starts_with_def)
  then show thesis by (rule that)
qed

lemma starts_with_Nil [simp]: "starts_with [] s"
  by (simp add: starts_with_def)

lemma dropWhile_idem: "dropWhile P (dropWhile P xs) = dropWhile P xs"
  by (induction xs) auto

lemma dropWhile_rev_dropWhile:
  "dropWhile P (rev (dropWhile P (rev (dropWhile P xs)))) = rev (dropWhile P (rev (dropWhile P xs)))"
proof (cases "dropWhile P xs")
  case Nil
  show ?thesis unfolding Nil by simp
next
  case (Cons y ys)
  then have "\<not> P y" by (metis hd_dropWhile list.distinct(1) list.sel(1))
  then have "dropWhile P (rev ys @ [y]) = dropWhile P (rev ys) @ [y]"
    by (auto simp: dropWhile_append dropWhile_eq_Nil_conv)
  then show ?thesis unfolding Cons using \<open>\<not> P y\<close> by simp
qed

lemma trim_str_idem [simp]: "trim_str (trim_str s) = trim_str s"
  by (simp add: trim_str_def dropWhile_rev_dropWhile dropWhile_idem)

definition lower_char :: "char \<Rightarrow> char" where
  "lower_char c = (if (65 :: nat) \<le> of_char c \<and> of_char c \<le> (90 :: nat)
     then char_of (of_char c + (32 :: nat)) else c)"

definition to_ascii_lowercase :: "string \<Rightarrow> string" where
  "to_ascii_lowercase = map lower_char"

text \<open>
  \<open>str::split\<close> on one character: never the empty list, an empty text gives one empty part.
\<close>

fun split_on :: "char \<Rightarrow> string \<Rightarrow> string list" where
  "split_on d [] = [[]]"
| "split_on d (c # cs) =
     (if c = d then [] # split_on d cs
      else (case split_on d cs of [] \<Rightarrow> [[c]] | p # ps \<Rightarrow> (c # p) # ps))"

lemma split_on_nonempty [simp]: "split_on d s \<noteq> []"
  by (induction s) (auto split: list.splits)

fun join_with :: "string \<Rightarrow> string list \<Rightarrow> string" where
  "join_with sep [] = []"
| "join_with sep [x] = x"
| "join_with sep (x # y # ys) = x @ sep @ join_with sep (y # ys)"

lemma split_on_join: "join_with [d] (split_on d s) = s"
proof (induction s)
  case (Cons c cs)
  then show ?case
    by (cases "split_on d cs"; cases "tl (split_on d cs)") (auto split: list.splits)
qed simp

lemma split_on_free: "d \<notin> set s \<Longrightarrow> split_on d s = [s]"
  by (induction s) auto

lemma split_on_append: "d \<notin> set p \<Longrightarrow> split_on d (p @ d # s) = p # split_on d s"
  by (induction p) auto

lemma split_on_join_with:
  "ps \<noteq> [] \<Longrightarrow> (\<And>p. p \<in> set ps \<Longrightarrow> d \<notin> set p) \<Longrightarrow> split_on d (join_with [d] ps) = ps"
proof (induction ps)
  case (Cons p ps)
  show ?case
  proof (cases ps)
    case Nil
    with Cons.prems show ?thesis by (simp add: split_on_free)
  next
    case (Cons q qs)
    with Cons.IH Cons.prems show ?thesis by (auto simp: split_on_append)
  qed
qed simp

text \<open>Decimal numbers: \<open>str::parse\<close> for \<open>u64\<close>/\<open>usize\<close> and \<open>i64\<close>, and \<open>to_string\<close>.\<close>

definition digits_value :: "string \<Rightarrow> nat" where
  "digits_value = foldl (\<lambda>n c. 10 * n + (of_char c - 48)) 0"

definition parse_digits :: "string \<Rightarrow> nat option" where
  "parse_digits s = (if s \<noteq> [] \<and> list_all is_digit s then Some (digits_value s) else None)"

definition parse_unsigned :: "nat \<Rightarrow> string \<Rightarrow> nat option" where
  "parse_unsigned w s =
     (case parse_digits (if starts_with ''+'' s then tl s else s) of
        None \<Rightarrow> None | Some n \<Rightarrow> if n < 2 ^ w then Some n else None)"

definition parse_i64 :: "string \<Rightarrow> int option" where
  "parse_i64 s =
     (if starts_with ''-'' s
      then (case parse_digits (tl s) of
              None \<Rightarrow> None | Some n \<Rightarrow> if n \<le> 2 ^ 63 then Some (- int n) else None)
      else (case parse_digits (if starts_with ''+'' s then tl s else s) of
              None \<Rightarrow> None | Some n \<Rightarrow> if n < 2 ^ 63 then Some (int n) else None))"

lemma parse_unsigned_bound: "parse_unsigned w s = Some n \<Longrightarrow> n < 2 ^ w"
  by (auto simp: parse_unsigned_def split: option.splits if_splits)

fun show_nat :: "nat \<Rightarrow> string" where
  "show_nat n = (if n < 10 then [char_of (n + 48)] else show_nat (n div 10) @ [char_of (n mod 10 + 48)])"

declare show_nat.simps [simp del]

definition show_int :: "int \<Rightarrow> string" where
  "show_int i = (if i < 0 then ''-'' @ show_nat (nat (- i)) else show_nat (nat i))"

section \<open>Lists\<close>

lemma filter_map_if_unchanged:
  "(\<And>x. x \<in> set xs \<Longrightarrow> P (f x) = P x) \<Longrightarrow> (\<And>x. x \<in> set xs \<Longrightarrow> P x \<Longrightarrow> f x = x) \<Longrightarrow>
   filter P (map f xs) = filter P xs"
  by (induction xs) auto

lemma find_eq_Some_iff_distinct:
  "distinct (map k xs) \<Longrightarrow> find (\<lambda>x. k x = i) xs = Some y \<longleftrightarrow> y \<in> set xs \<and> k y = i"
  by (induction xs) (auto simp: image_iff)

lemma find_None_iff_notin: "find (\<lambda>x. k x = i) xs = None \<longleftrightarrow> i \<notin> k ` set xs"
  by (auto simp: find_None_iff)

text \<open>The first index of a range, split off at its lower end.\<close>

lemma first_between_Suc:
  "(\<exists>i. a \<le> i \<and> i < a + Suc k \<and> P i \<and> (\<forall>j. a \<le> j \<and> j < i \<longrightarrow> \<not> S j)) \<longleftrightarrow>
   P a \<or> (\<not> S a \<and> (\<exists>i. Suc a \<le> i \<and> i < Suc a + k \<and> P i \<and> (\<forall>j. Suc a \<le> j \<and> j < i \<longrightarrow> \<not> S j)))"
  (is "?L \<longleftrightarrow> ?R")
proof
  assume ?L
  then obtain i where i: "a \<le> i" "i < a + Suc k" "P i" "\<And>j. a \<le> j \<Longrightarrow> j < i \<Longrightarrow> \<not> S j" by blast
  show ?R
  proof (cases "i = a")
    case False
    with i(1,2) have "Suc a \<le> i" "i < Suc a + k" by simp_all
    with i show ?thesis by (intro disjI2 conjI exI [of _ i]) auto
  qed (use i in simp)
next
  assume ?R
  then show ?L
  proof
    assume "P a"
    then show ?L by (intro exI [of _ a]) auto
  next
    assume "\<not> S a \<and> (\<exists>i. Suc a \<le> i \<and> i < Suc a + k \<and> P i \<and> (\<forall>j. Suc a \<le> j \<and> j < i \<longrightarrow> \<not> S j))"
    then obtain i where i: "\<not> S a" "Suc a \<le> i" "i < Suc a + k" "P i"
      "\<And>j. Suc a \<le> j \<Longrightarrow> j < i \<Longrightarrow> \<not> S j" by blast
    have "\<not> S j" if "a \<le> j" "j < i" for j using that i(1,5) by (cases "j = a") simp_all
    with i show ?L by (intro exI [of _ i]) simp
  qed
qed

lemma find_key_SomeD: "find P xs = Some y \<Longrightarrow> y \<in> set xs \<and> P y"
  by (induction xs) (auto split: if_splits)

end
