(* ===== verification/Api_Error.thy ===== *)
theory Api_Error
  imports Waxum_Prelude
begin

text \<open>
  JSON values as \<open>serde_json::Value\<close> has them (integers, and a real kept as its text), the
  accessors the gateway uses, and the error type of every handler with its HTTP response
  (\<open>src/error.rs\<close>). Parsing and printing JSON text is the library's and an argument wherever
  it is needed.
\<close>

datatype json =
    JNull
  | JBool bool
  | JInt int
  | JReal string
  | JStr string
  | JArr "json list"
  | JObj "(string \<times> json) list"

fun json_get :: "string \<Rightarrow> json \<Rightarrow> json option" where
  "json_get k (JObj fs) = map_of fs k"
| "json_get k _ = None"

fun json_as_str :: "json \<Rightarrow> string option" where
  "json_as_str (JStr s) = Some s"
| "json_as_str _ = None"

fun json_as_bool :: "json \<Rightarrow> bool option" where
  "json_as_bool (JBool b) = Some b"
| "json_as_bool _ = None"

fun json_as_u64 :: "json \<Rightarrow> nat option" where
  "json_as_u64 (JInt i) = (if 0 \<le> i \<and> i < 2 ^ 64 then Some (nat i) else None)"
| "json_as_u64 _ = None"

datatype api_error =
    NotAuthenticated
  | NotConnected
  | AlreadyConnected
  | SessionNotFound string
  | InvalidJid string
  | MessageNotFound string
  | ContactNotFound string
  | GroupNotFound string
  | MediaUploadFailed string
  | MediaDownloadFailed string
  | WebhookAlreadyExists string
  | WebhookNotFound string
  | TokenNotFound string
  | RateLimited
  | NewChatLimit int int int
  | TemporaryBan string
  | Internal string
  | BadRequest string
  | Forbidden string
  | SessionError string
  | NatsError string

fun error_message :: "api_error \<Rightarrow> string" where
  "error_message NotAuthenticated = ''Not authenticated''"
| "error_message NotConnected = ''Client not connected''"
| "error_message AlreadyConnected = ''Client already connected''"
| "error_message (SessionNotFound s) = ''Session not found: '' @ s"
| "error_message (InvalidJid s) = ''Invalid JID: '' @ s"
| "error_message (MessageNotFound s) = ''Message not found: '' @ s"
| "error_message (ContactNotFound s) = ''Contact not found: '' @ s"
| "error_message (GroupNotFound s) = ''Group not found: '' @ s"
| "error_message (MediaUploadFailed s) = ''Media upload failed: '' @ s"
| "error_message (MediaDownloadFailed s) = ''Media download failed: '' @ s"
| "error_message (WebhookAlreadyExists s) = ''Webhook already registered: '' @ s"
| "error_message (WebhookNotFound s) = ''Webhook not found: '' @ s"
| "error_message (TokenNotFound s) = ''Token not found or already revoked: '' @ s"
| "error_message RateLimited = ''Rate limited''"
| "error_message (NewChatLimit max_new_chats window_hours retry_after_secs) =
     ''New-chat limit reached: '' @ show_int max_new_chats @ '' new chats per '' @ show_int window_hours
     @ '' h. Existing chats are not affected. Retry in '' @ show_int retry_after_secs @ '' s.''"
| "error_message (TemporaryBan s) = ''Temporary ban: '' @ s"
| "error_message (Internal s) = ''Internal error: '' @ s"
| "error_message (BadRequest s) = ''Bad request: '' @ s"
| "error_message (Forbidden s) = ''Forbidden: '' @ s"
| "error_message (SessionError s) = ''Session error: '' @ s"
| "error_message (NatsError s) = ''NATS error: '' @ s"

fun status_code :: "api_error \<Rightarrow> nat" where
  "status_code NotAuthenticated = 401"
| "status_code NotConnected = 503"
| "status_code AlreadyConnected = 409"
| "status_code (SessionNotFound _) = 404"
| "status_code (InvalidJid _) = 400"
| "status_code (MessageNotFound _) = 404"
| "status_code (ContactNotFound _) = 404"
| "status_code (GroupNotFound _) = 404"
| "status_code (MediaUploadFailed _) = 500"
| "status_code (MediaDownloadFailed _) = 500"
| "status_code (WebhookAlreadyExists _) = 409"
| "status_code (WebhookNotFound _) = 404"
| "status_code (TokenNotFound _) = 404"
| "status_code RateLimited = 429"
| "status_code (NewChatLimit _ _ _) = 429"
| "status_code (TemporaryBan _) = 429"
| "status_code (Internal _) = 500"
| "status_code (BadRequest _) = 400"
| "status_code (Forbidden _) = 403"
| "status_code (SessionError _) = 500"
| "status_code (NatsError _) = 500"

record http_response =
  rsp_status :: nat
  rsp_headers :: "(string \<times> string) list"
  rsp_body :: json

definition into_response :: "api_error \<Rightarrow> http_response" where
  "into_response e = \<lparr>
     rsp_status = status_code e,
     rsp_headers = (case e of NewChatLimit _ _ retry \<Rightarrow> [(''retry-after'', show_int retry)] | _ \<Rightarrow> []),
     rsp_body = JObj [(''success'', JBool False),
       (''error'', JObj [(''code'', JInt (int (status_code e))), (''message'', JStr (error_message e))])] \<rparr>"

text \<open>\<open>SuccessResponse::with_message\<close> (\<open>src/api/common.rs\<close>).\<close>

definition success_with_message :: "string \<Rightarrow> json" where
  "success_with_message m = JObj [(''success'', JBool True), (''message'', JStr m)]"

lemma status_code_range: "status_code e \<in> {400, 401, 403, 404, 409, 429, 500, 503}"
  by (cases e) simp_all

lemma internal_iff_500: "status_code e = 500 \<longleftrightarrow>
  (\<exists>s. e \<in> {Internal s, SessionError s, MediaUploadFailed s, MediaDownloadFailed s, NatsError s})"
  by (cases e) auto

text \<open>Every error becomes a response whose body names the status it is sent with, always a
  4xx or 5xx, with the error's own message; \<open>Retry-After\<close> is sent for the new-chat limit and
  for nothing else.\<close>

theorem error_response_shape:
  "rsp_status (into_response e) = status_code e \<and>
   status_code e \<in> {400, 401, 403, 404, 409, 429, 500, 503} \<and>
   Option.bind (json_get ''error'' (rsp_body (into_response e))) (json_get ''code'')
     = Some (JInt (int (rsp_status (into_response e)))) \<and>
   Option.bind (json_get ''error'' (rsp_body (into_response e))) (json_get ''message'')
     = Some (JStr (error_message e)) \<and>
   (rsp_headers (into_response e) \<noteq> [] \<longleftrightarrow> (\<exists>m w r. e = NewChatLimit m w r))"
  using status_code_range [of e] by (cases e) (simp_all add: into_response_def)

end
