(* ===== verification/Message_Content.thy ===== *)
theory Message_Content
  imports Api_Error "HOL-Library.Word"
begin

text \<open>
  What the gateway reads out of a WhatsApp message (the \<open>extract_*\<close> functions and
  \<open>message_event_data\<close> of \<open>src/api/shared/sessions/handlers/events.rs\<close>). The protobuf types are
  the library's; the records below hold the fields the code looks at, each optional where the
  wire format has it optional; the wrappers around a message are the record's extension. One record serves the five media envelopes, which are read
  through fields of the same names. Taking the wrappers off a message, base64, the digits of a
  floating point number (kept as its bits) and parsing JSON are the library's and arguments in
  \<open>proto_lib\<close>. The lemmas: a message reads the same with and without its wrappers, the media
  blob of a webhook and the stored pointer agree, and a reply to an interactive message is
  reported under the choice it carries.
\<close>

type_synonym bytes = "8 word list"
type_synonym f64 = "64 word"

record context_info =
  ci_stanza_id :: "string option"
  ci_participant :: "string option"

record media_envelope =
  me_direct_path :: "string option"
  me_media_key :: "bytes option"
  me_file_sha256 :: "bytes option"
  me_file_enc_sha256 :: "bytes option"
  me_file_length :: "64 word option"
  me_mimetype :: "string option"
  me_caption :: "string option"
  me_file_name :: "string option"
  me_width :: "nat option"
  me_height :: "nat option"
  me_seconds :: "nat option"
  me_ptt :: "bool option"
  me_context :: "context_info option"

record location_part =
  lp_latitude :: "f64 option"
  lp_longitude :: "f64 option"
  lp_name :: "string option"
  lp_address :: "string option"
  lp_url :: "string option"
  lp_accuracy :: "nat option"
  lp_speed :: "f64 option"
  lp_sequence_number :: "int option"
  lp_caption :: "string option"
  lp_context :: "context_info option"

text \<open>A part of which the code reads one text and the quote.\<close>

record text_part =
  tp_text :: "string option"
  tp_context :: "context_info option"

record native_flow =
  nf_name :: "string option"
  nf_params_json :: "string option"

record interactive_response =
  ir_body_text :: "string option"
  ir_native :: "native_flow option"
  ir_context :: "context_info option"

record choice_part =
  cp_id :: "string option"
  cp_text :: "string option"
  cp_context :: "context_info option"

record wa_message =
  m_conversation :: "string option"
  m_extended_text :: "text_part option"
  m_image :: "media_envelope option"
  m_video :: "media_envelope option"
  m_audio :: "media_envelope option"
  m_document :: "media_envelope option"
  m_sticker :: "media_envelope option"
  m_location :: "location_part option"
  m_live_location :: "location_part option"
  m_contact :: "text_part option"
  m_contacts_array :: "text_part option"
  m_poll_creation :: "text_part option"
  m_poll_creation_v2 :: "text_part option"
  m_poll_creation_v3 :: "text_part option"
  m_poll_update :: bool
  m_reaction :: "string option option"
  m_buttons :: "text_part option"
  m_list :: "text_part option"
  m_template :: "text_part option"
  m_interactive :: "text_part option"
  m_interactive_response :: "interactive_response option"
  m_buttons_response :: "choice_part option"
  m_list_response :: "choice_part option"
  m_template_button_reply :: "choice_part option"
  m_order :: "text_part option"
  m_product :: "text_part option"

record wa_jid =
  wj_text :: string
  wj_user :: string
  wj_server :: string

record message_info =
  mi_id :: string
  mi_chat :: wa_jid
  mi_sender :: wa_jid
  mi_is_from_me :: bool
  mi_timestamp :: unix
  mi_push_name :: string
  mi_verified_name :: "string option"
  mi_type :: json
  mi_media_type :: json

record 'w proto_lib =
  get_base_message :: "'w wa_message_scheme \<Rightarrow> 'w wa_message_scheme"
  b64 :: "bytes \<Rightarrow> string"
  f64_text :: "f64 \<Rightarrow> string"
  json_from_str :: "string \<Rightarrow> json option"
  time_text :: "unix \<Rightarrow> string"

definition jopt :: "('a \<Rightarrow> json) \<Rightarrow> 'a option \<Rightarrow> json" where
  "jopt f v = (case v of None \<Rightarrow> JNull | Some x \<Rightarrow> f x)"

abbreviation jstr :: "string option \<Rightarrow> json" where "jstr \<equiv> jopt JStr"

abbreviation jnat :: "nat option \<Rightarrow> json" where "jnat \<equiv> jopt (\<lambda>n. JInt (int n))"

definition json_u64 :: "64 word \<Rightarrow> json" where
  "json_u64 n = JInt (uint n)"

section \<open>Media\<close>

text \<open>The fields every envelope reports first, and the ones its kind adds.\<close>

definition media_blob :: "'w proto_lib \<Rightarrow> string \<Rightarrow> media_envelope \<Rightarrow> (string \<times> json) list \<Rightarrow> json" where
  "media_blob lib kind m extra = JObj ([
     (''kind'', JStr kind),
     (''direct_path'', jstr (me_direct_path m)),
     (''media_key'', jopt (\<lambda>b. JStr (b64 lib b)) (me_media_key m)),
     (''file_sha256'', jopt (\<lambda>b. JStr (b64 lib b)) (me_file_sha256 m)),
     (''file_enc_sha256'', jopt (\<lambda>b. JStr (b64 lib b)) (me_file_enc_sha256 m)),
     (''file_length'', jopt json_u64 (me_file_length m)),
     (''mimetype'', jstr (me_mimetype m))] @ extra)"

definition extract_media_metadata :: "'w proto_lib \<Rightarrow> 'w wa_message_scheme \<Rightarrow> json" where
  "extract_media_metadata lib msg0 =
     (let msg = get_base_message lib msg0 in
      case m_image msg of
        Some im \<Rightarrow> media_blob lib ''image'' im [(''width'', jnat (me_width im)), (''height'', jnat (me_height im))]
      | None \<Rightarrow>
      case m_video msg of
        Some vm \<Rightarrow> media_blob lib ''video'' vm [(''seconds'', jnat (me_seconds vm))]
      | None \<Rightarrow>
      case m_audio msg of
        Some am \<Rightarrow> media_blob lib ''audio'' am [(''seconds'', jnat (me_seconds am)), (''ptt'', jopt JBool (me_ptt am))]
      | None \<Rightarrow>
      case m_document msg of
        Some dm \<Rightarrow> media_blob lib ''document'' dm [(''file_name'', jstr (me_file_name dm))]
      | None \<Rightarrow>
      case m_sticker msg of
        Some sm \<Rightarrow> media_blob lib ''sticker'' sm []
      | None \<Rightarrow> JNull)"

record media_pointer =
  mp_media_key :: string
  mp_file_sha256 :: string
  mp_file_enc_sha256 :: string
  mp_direct_path :: string
  mp_file_length :: int
  mp_media_type :: string
  mp_mimetype :: string

text \<open>The macro \<open>pointer!\<close>; \<open>as i64\<close> reads the 64 bits as a signed number.\<close>

definition media_pointer_of :: "'w proto_lib \<Rightarrow> string \<Rightarrow> media_envelope \<Rightarrow> media_pointer option" where
  "media_pointer_of lib kind m =
     Option.bind (me_media_key m) (\<lambda>key.
     Option.bind (me_file_sha256 m) (\<lambda>sha.
     Option.bind (me_file_enc_sha256 m) (\<lambda>enc.
     Option.bind (me_direct_path m) (\<lambda>path.
     Option.bind (me_file_length m) (\<lambda>len.
       Some \<lparr> mp_media_key = b64 lib key, mp_file_sha256 = b64 lib sha, mp_file_enc_sha256 = b64 lib enc,
              mp_direct_path = path, mp_file_length = sint len, mp_media_type = kind,
              mp_mimetype = (case me_mimetype m of None \<Rightarrow> [] | Some t \<Rightarrow> t) \<rparr>)))))"

definition extract_media_pointer :: "'w proto_lib \<Rightarrow> 'w wa_message_scheme \<Rightarrow> media_pointer option" where
  "extract_media_pointer lib msg0 =
     (let msg = get_base_message lib msg0 in
      case m_image msg of Some im \<Rightarrow> media_pointer_of lib ''image'' im | None \<Rightarrow>
      case m_video msg of Some vm \<Rightarrow> media_pointer_of lib ''video'' vm | None \<Rightarrow>
      case m_audio msg of Some am \<Rightarrow> media_pointer_of lib ''audio'' am | None \<Rightarrow>
      case m_document msg of Some dm \<Rightarrow> media_pointer_of lib ''document'' dm | None \<Rightarrow>
      case m_sticker msg of Some sm \<Rightarrow> media_pointer_of lib ''sticker'' sm | None \<Rightarrow> None)"

section \<open>Location\<close>

definition extract_location :: "'w proto_lib \<Rightarrow> 'w wa_message_scheme \<Rightarrow> json" where
  "extract_location lib msg0 =
     (let msg = get_base_message lib msg0; jreal = jopt (\<lambda>x. JReal (f64_text lib x)) in
      case m_location msg of
        Some loc \<Rightarrow> JObj [
          (''latitude'', jreal (lp_latitude loc)), (''longitude'', jreal (lp_longitude loc)),
          (''name'', jstr (lp_name loc)), (''address'', jstr (lp_address loc)), (''url'', jstr (lp_url loc)),
          (''accuracy_meters'', jnat (lp_accuracy loc)), (''speed_mps'', jreal (lp_speed loc)),
          (''is_live'', JBool False)]
      | None \<Rightarrow>
      case m_live_location msg of
        Some loc \<Rightarrow> JObj [
          (''latitude'', jreal (lp_latitude loc)), (''longitude'', jreal (lp_longitude loc)),
          (''accuracy_meters'', jnat (lp_accuracy loc)), (''speed_mps'', jreal (lp_speed loc)),
          (''sequence_number'', jopt JInt (lp_sequence_number loc)), (''caption'', jstr (lp_caption loc)),
          (''is_live'', JBool True)]
      | None \<Rightarrow> JNull)"

section \<open>Replies to interactive messages\<close>

record interactive_selection =
  is_kind :: string
  is_id :: "string option"
  is_text :: "string option"
  is_flow_name :: "string option"
  is_flow_params :: "json option"

definition native_selection :: "'w proto_lib \<Rightarrow> interactive_response \<Rightarrow> interactive_selection" where
  "native_selection lib r =
     (let flow_params = Option.bind (Option.bind (ir_native r) nf_params_json) (json_from_str lib)
      in \<lparr> is_kind = ''interactive_response'',
           is_id = Option.bind (Option.bind flow_params (json_get ''id'')) json_as_str,
           is_text = (case ir_body_text r of Some t \<Rightarrow> if t = [] then None else Some t | None \<Rightarrow> None),
           is_flow_name = Option.bind (ir_native r) nf_name,
           is_flow_params = flow_params \<rparr>)"

definition choice_selection :: "string \<Rightarrow> choice_part \<Rightarrow> interactive_selection" where
  "choice_selection kind r = \<lparr> is_kind = kind, is_id = cp_id r, is_text = cp_text r,
     is_flow_name = None, is_flow_params = None \<rparr>"

definition extract_interactive_selection :: "'w proto_lib \<Rightarrow> 'w wa_message_scheme \<Rightarrow> interactive_selection option" where
  "extract_interactive_selection lib msg0 =
     (let msg = get_base_message lib msg0 in
      case m_interactive_response msg of Some r \<Rightarrow> Some (native_selection lib r) | None \<Rightarrow>
      case m_buttons_response msg of Some r \<Rightarrow> Some (choice_selection ''buttons_response'' r) | None \<Rightarrow>
      case m_list_response msg of Some r \<Rightarrow> Some (choice_selection ''list_response'' r) | None \<Rightarrow>
      case m_template_button_reply msg of Some r \<Rightarrow> Some (choice_selection ''template_button_reply'' r) | None \<Rightarrow> None)"

section \<open>Content\<close>

definition or_else :: "'a option \<Rightarrow> 'a option \<Rightarrow> 'a option" where
  "or_else a b = (case a of None \<Rightarrow> b | Some x \<Rightarrow> Some x)"

record message_content =
  mc_text :: "string option"
  mc_caption :: "string option"
  mc_type :: string
  mc_mimetype :: "string option"

definition content :: "string \<Rightarrow> string option \<Rightarrow> string option \<Rightarrow> string option \<Rightarrow> message_content" where
  "content ty text caption mime = \<lparr> mc_text = text, mc_caption = caption, mc_type = ty, mc_mimetype = mime \<rparr>"

definition poll_name :: "'w wa_message_scheme \<Rightarrow> string option" where
  "poll_name msg = or_else (or_else (Option.bind (m_poll_creation msg) tp_text)
     (Option.bind (m_poll_creation_v2 msg) tp_text)) (Option.bind (m_poll_creation_v3 msg) tp_text)"

definition typed_content :: "'w proto_lib \<Rightarrow> 'w wa_message_scheme \<Rightarrow> message_content" where
  "typed_content lib msg =
     (case m_extended_text msg of Some e \<Rightarrow> content ''text'' (tp_text e) None None | None \<Rightarrow>
      case m_image msg of Some im \<Rightarrow> content ''image'' None (me_caption im) (me_mimetype im) | None \<Rightarrow>
      case m_video msg of Some vm \<Rightarrow> content ''video'' None (me_caption vm) (me_mimetype vm) | None \<Rightarrow>
      case m_audio msg of
        Some am \<Rightarrow> content (if me_ptt am = Some True then ''ptt'' else ''audio'') None None (me_mimetype am)
      | None \<Rightarrow>
      case m_document msg of
        Some dm \<Rightarrow> content ''document'' (me_file_name dm) (me_caption dm) (me_mimetype dm)
      | None \<Rightarrow>
      case m_sticker msg of Some sm \<Rightarrow> content ''sticker'' None None (me_mimetype sm) | None \<Rightarrow>
      if m_location msg \<noteq> None \<or> m_live_location msg \<noteq> None then content ''location'' None None None
      else if m_contact msg \<noteq> None then content ''contact'' (Option.bind (m_contact msg) tp_text) None None
      else if m_contacts_array msg \<noteq> None then content ''contacts'' None None None
      else if m_poll_creation msg \<noteq> None \<or> m_poll_creation_v2 msg \<noteq> None \<or> m_poll_creation_v3 msg \<noteq> None
        then content ''poll'' (poll_name msg) None None
      else if m_poll_update msg then content ''poll_vote'' None None None
      else if m_reaction msg \<noteq> None then content ''reaction'' (Option.bind (m_reaction msg) id) None None
      else if m_buttons msg \<noteq> None then content ''buttons'' None None None
      else if m_list msg \<noteq> None then content ''list'' None None None
      else if m_template msg \<noteq> None then content ''template'' None None None
      else case extract_interactive_selection lib msg of
        Some s \<Rightarrow> content (is_kind s) (or_else (is_text s) (is_id s)) None None
      | None \<Rightarrow> content ''unknown'' None None None)"

definition extract_message_content :: "'w proto_lib \<Rightarrow> 'w wa_message_scheme \<Rightarrow> message_content" where
  "extract_message_content lib msg0 =
     (let msg = get_base_message lib msg0 in
      case m_conversation msg of
        Some t \<Rightarrow> if t \<noteq> [] then content ''text'' (Some t) None None else typed_content lib msg
      | None \<Rightarrow> typed_content lib msg)"

section \<open>Quotes\<close>

text \<open>The chain of \<open>or_else\<close>: the first part that carries a quote.\<close>

definition quote_parts :: "'w wa_message_scheme \<Rightarrow> context_info option list" where
  "quote_parts msg =
     [Option.bind (m_extended_text msg) tp_context, Option.bind (m_image msg) me_context,
      Option.bind (m_video msg) me_context, Option.bind (m_audio msg) me_context,
      Option.bind (m_document msg) me_context, Option.bind (m_sticker msg) me_context,
      Option.bind (m_contact msg) tp_context, Option.bind (m_contacts_array msg) tp_context,
      Option.bind (m_location msg) lp_context, Option.bind (m_live_location msg) lp_context,
      Option.bind (m_poll_creation msg) tp_context, Option.bind (m_poll_creation_v2 msg) tp_context,
      Option.bind (m_poll_creation_v3 msg) tp_context, Option.bind (m_buttons msg) tp_context,
      Option.bind (m_buttons_response msg) cp_context, Option.bind (m_list msg) tp_context,
      Option.bind (m_list_response msg) cp_context, Option.bind (m_interactive msg) tp_context,
      Option.bind (m_interactive_response msg) ir_context, Option.bind (m_template msg) tp_context,
      Option.bind (m_template_button_reply msg) cp_context, Option.bind (m_order msg) tp_context,
      Option.bind (m_product msg) tp_context]"

definition extract_quoted_context :: "'w proto_lib \<Rightarrow> 'w wa_message_scheme \<Rightarrow> (string \<times> string option) option" where
  "extract_quoted_context lib msg0 =
     (let msg = get_base_message lib msg0 in
      Option.bind (fold (\<lambda>c acc. or_else acc c) (quote_parts msg) None) (\<lambda>ctx.
      Option.bind (ci_stanza_id ctx) (\<lambda>stanza_id. Some (stanza_id, ci_participant ctx))))"

section \<open>The webhook event\<close>

definition native_flow_json :: "interactive_selection \<Rightarrow> json" where
  "native_flow_json s =
     (if is_flow_name s \<noteq> None \<or> is_flow_params s \<noteq> None
      then JObj [(''name'', jstr (is_flow_name s)), (''params'', jopt (\<lambda>j. j) (is_flow_params s))]
      else JNull)"

definition message_event_data ::
    "'w proto_lib \<Rightarrow> 'w wa_message_scheme \<Rightarrow> message_info \<Rightarrow> string option \<Rightarrow> string option \<Rightarrow> json" where
  "message_event_data lib msg info from_phone chat_phone =
     (let c = extract_message_content lib msg;
          quoted = extract_quoted_context lib msg;
          selection = extract_interactive_selection lib msg
      in JObj [
        (''from'', JStr (wj_text (mi_sender info))),
        (''from_phone'', jstr from_phone),
        (''chat'', JStr (wj_text (mi_chat info))),
        (''chat_phone'', jstr chat_phone),
        (''quoted_message_id'', jstr (map_option fst quoted)),
        (''quoted_sender_jid'', jstr (Option.bind quoted snd)),
        (''message_id'', JStr (mi_id info)),
        (''timestamp'', JStr (time_text lib (mi_timestamp info))),
        (''is_from_me'', JBool (mi_is_from_me info)),
        (''push_name'', JStr (mi_push_name info)),
        (''verified_name'', jstr (mi_verified_name info)),
        (''type'', mi_type info),
        (''media_type'', mi_media_type info),
        (''message_type'', JStr (mc_type c)),
        (''text'', jstr (mc_text c)),
        (''caption'', jstr (mc_caption c)),
        (''media_mimetype'', jstr (mc_mimetype c)),
        (''media'', extract_media_metadata lib msg),
        (''location'', extract_location lib msg),
        (''selected_id'', jstr (Option.bind selection is_id)),
        (''selected_text'', jstr (Option.bind selection is_text)),
        (''native_flow'', jopt native_flow_json selection),
        (''is_group'', JBool (ends_with ''@g.us'' (wj_text (mi_chat info)))),
        (''participant'', JStr (wj_text (mi_sender info)))])"

section \<open>Properties\<close>

text \<open>The reading laws of the wrappers.\<close>

lemma extract_of_base:
  assumes "get_base_message lib (get_base_message lib msg) = get_base_message lib msg"
  shows "extract_media_metadata lib (get_base_message lib msg) = extract_media_metadata lib msg"
    "extract_media_pointer lib (get_base_message lib msg) = extract_media_pointer lib msg"
    "extract_location lib (get_base_message lib msg) = extract_location lib msg"
    "extract_interactive_selection lib (get_base_message lib msg) = extract_interactive_selection lib msg"
    "extract_message_content lib (get_base_message lib msg) = extract_message_content lib msg"
    "extract_quoted_context lib (get_base_message lib msg) = extract_quoted_context lib msg"
  by (simp_all only: extract_media_metadata_def extract_media_pointer_def extract_location_def
      extract_interactive_selection_def extract_message_content_def extract_quoted_context_def assms)

text \<open>Wrapped messages. Where taking the wrappers off a message leaves nothing more to take
  off, a message and what is inside its wrappers give the same webhook event, the same stored
  media pointer and the same quote, so a chat with disappearing messages reads like any other.\<close>

theorem wrapped_message_reads_the_same:
  assumes "\<And>m. get_base_message lib (get_base_message lib m) = get_base_message lib m"
    and "get_base_message lib a = get_base_message lib b"
  shows "message_event_data lib a info from_phone chat_phone = message_event_data lib b info from_phone chat_phone
    \<and> extract_media_pointer lib a = extract_media_pointer lib b
    \<and> extract_quoted_context lib a = extract_quoted_context lib b"
proof -
  have eq: "extract_media_metadata lib a = extract_media_metadata lib b"
    "extract_media_pointer lib a = extract_media_pointer lib b"
    "extract_location lib a = extract_location lib b"
    "extract_interactive_selection lib a = extract_interactive_selection lib b"
    "extract_message_content lib a = extract_message_content lib b"
    "extract_quoted_context lib a = extract_quoted_context lib b"
    using extract_of_base [OF assms(1), of a] extract_of_base [OF assms(1), of b] assms(2) by simp_all
  then show ?thesis by (simp add: message_event_data_def)
qed

definition empty_message :: wa_message where
  "empty_message = \<lparr> m_conversation = None, m_extended_text = None, m_image = None, m_video = None,
     m_audio = None, m_document = None, m_sticker = None, m_location = None, m_live_location = None,
     m_contact = None, m_contacts_array = None, m_poll_creation = None, m_poll_creation_v2 = None,
     m_poll_creation_v3 = None, m_poll_update = False, m_reaction = None, m_buttons = None,
     m_list = None, m_template = None, m_interactive = None, m_interactive_response = None,
     m_buttons_response = None, m_list_response = None, m_template_button_reply = None,
     m_order = None, m_product = None \<rparr>"

definition sample_envelope :: media_envelope where
  "sample_envelope = \<lparr> me_direct_path = Some ''/v/doc.enc'', me_media_key = Some [1], me_file_sha256 = Some [2],
     me_file_enc_sha256 = Some [3], me_file_length = Some 4096, me_mimetype = None, me_caption = Some ''hi'',
     me_file_name = Some ''a.docx'', me_width = None, me_height = None, me_seconds = None, me_ptt = None,
     me_context = None \<rparr>"

text \<open>A library whose wrapper is the message it holds.\<close>

definition unwrapping_lib :: "(wa_message option) proto_lib" where
  "unwrapping_lib = \<lparr> get_base_message = (\<lambda>m. case wa_message.more m of None \<Rightarrow> m | Some inner \<Rightarrow> wa_message.extend inner None),
     b64 = (\<lambda>b. replicate (length b) CHR ''A''), f64_text = (\<lambda>_. ''0.0''), json_from_str = (\<lambda>_. None),
     time_text = (\<lambda>_. ''t'') \<rparr>"

definition plain_document :: "(wa_message option) wa_message_scheme" where
  "plain_document = wa_message.extend (empty_message\<lparr>m_document := Some sample_envelope\<rparr>) None"

definition captioned_document :: "(wa_message option) wa_message_scheme" where
  "captioned_document = wa_message.extend empty_message (Some (empty_message\<lparr>m_document := Some sample_envelope\<rparr>))"

lemma wrapped_message_reads_the_same_witness:
  "extract_media_pointer unwrapping_lib captioned_document = extract_media_pointer unwrapping_lib plain_document
    \<and> extract_media_pointer unwrapping_lib plain_document \<noteq> None \<and> captioned_document \<noteq> plain_document"
proof -
  have idem: "get_base_message unwrapping_lib (get_base_message unwrapping_lib m) = get_base_message unwrapping_lib m" for m
    by (simp add: unwrapping_lib_def wa_message.defs split: option.splits)
  have "get_base_message unwrapping_lib captioned_document = get_base_message unwrapping_lib plain_document"
    by (simp add: unwrapping_lib_def captioned_document_def plain_document_def wa_message.defs)
  from wrapped_message_reads_the_same [OF idem this] show ?thesis
    by (auto simp: unwrapping_lib_def captioned_document_def plain_document_def sample_envelope_def
        empty_message_def wa_message.defs extract_media_pointer_def media_pointer_of_def)
qed

text \<open>Both views of an envelope.\<close>

definition blob_complete :: "json \<Rightarrow> bool" where
  "blob_complete blob \<longleftrightarrow> blob \<noteq> JNull \<and>
     list_all (\<lambda>k. json_get k blob \<noteq> Some JNull)
       [''direct_path'', ''media_key'', ''file_sha256'', ''file_enc_sha256'', ''file_length'']"

definition blob_agrees :: "json \<Rightarrow> media_pointer \<Rightarrow> bool" where
  "blob_agrees blob p \<longleftrightarrow>
     json_get ''kind'' blob = Some (JStr (mp_media_type p)) \<and>
     json_get ''direct_path'' blob = Some (JStr (mp_direct_path p)) \<and>
     json_get ''media_key'' blob = Some (JStr (mp_media_key p)) \<and>
     json_get ''file_sha256'' blob = Some (JStr (mp_file_sha256 p)) \<and>
     json_get ''file_enc_sha256'' blob = Some (JStr (mp_file_enc_sha256 p)) \<and>
     json_get ''file_length'' blob = Some (JInt (mp_file_length p mod 2 ^ 64))"

lemma pointer_of_blob:
  "case media_pointer_of lib kind m of
     None \<Rightarrow> \<not> blob_complete (media_blob lib kind m extra)
   | Some p \<Rightarrow> blob_complete (media_blob lib kind m extra) \<and> blob_agrees (media_blob lib kind m extra) p"
  by (cases "me_media_key m"; cases "me_file_sha256 m"; cases "me_file_enc_sha256 m";
      cases "me_direct_path m"; cases "me_file_length m")
    (simp_all add: media_pointer_of_def media_blob_def blob_complete_def blob_agrees_def jopt_def json_u64_def
      uint_sint take_bit_eq_mod)

lemma no_blob: "\<not> blob_complete JNull"
  by (simp add: blob_complete_def)

text \<open>The two views of a media message. A message has a stored media pointer exactly when the
  media blob of its webhook is complete, and then both name the same kind, path, key and
  hashes; the length agrees as a 64-bit number, so a stored negative length is one of at least
  2 ^ 63 bytes.\<close>

theorem media_views_agree:
  "case extract_media_pointer lib msg of
     None \<Rightarrow> \<not> blob_complete (extract_media_metadata lib msg)
   | Some p \<Rightarrow> blob_complete (extract_media_metadata lib msg) \<and> blob_agrees (extract_media_metadata lib msg) p"
proof -
  let ?m = "get_base_message lib msg"
  consider (image) e where "m_image ?m = Some e"
    | (video) e where "m_image ?m = None" "m_video ?m = Some e"
    | (audio) e where "m_image ?m = None" "m_video ?m = None" "m_audio ?m = Some e"
    | (document) e where "m_image ?m = None" "m_video ?m = None" "m_audio ?m = None" "m_document ?m = Some e"
    | (sticker) e where "m_image ?m = None" "m_video ?m = None" "m_audio ?m = None" "m_document ?m = None" "m_sticker ?m = Some e"
    | (none) "m_image ?m = None" "m_video ?m = None" "m_audio ?m = None" "m_document ?m = None" "m_sticker ?m = None"
    by (cases "m_image ?m"; cases "m_video ?m"; cases "m_audio ?m"; cases "m_document ?m"; cases "m_sticker ?m") auto
  then show ?thesis
    by cases (simp_all add: extract_media_metadata_def extract_media_pointer_def Let_def no_blob pointer_of_blob
        cong: option.case_cong)
qed

text \<open>A reply to an interactive message, alone in its message, is reported under its choice.\<close>

definition only_a_reply :: "'w wa_message_scheme \<Rightarrow> bool" where
  "only_a_reply msg \<longleftrightarrow> (m_conversation msg = None \<or> m_conversation msg = Some []) \<and> m_extended_text msg = None \<and>
     m_image msg = None \<and> m_video msg = None \<and> m_audio msg = None \<and> m_document msg = None \<and>
     m_sticker msg = None \<and> m_location msg = None \<and> m_live_location msg = None \<and> m_contact msg = None \<and>
     m_contacts_array msg = None \<and> m_poll_creation msg = None \<and> m_poll_creation_v2 msg = None \<and>
     m_poll_creation_v3 msg = None \<and> \<not> m_poll_update msg \<and> m_reaction msg = None \<and> m_buttons msg = None \<and>
     m_list msg = None \<and> m_template msg = None"

lemma reply_reported:
  assumes "get_base_message lib (get_base_message lib msg) = get_base_message lib msg"
    and "only_a_reply (get_base_message lib msg)" and "extract_interactive_selection lib msg = Some s"
  shows "extract_message_content lib msg = content (is_kind s) (or_else (is_text s) (is_id s)) None None"
  using assms extract_of_base(4) [OF assms(1)]
  by (auto simp: extract_message_content_def typed_content_def only_a_reply_def Let_def split: option.splits)

text \<open>The quote is the first part that carries one; a quote without an id hides the later ones.\<close>

lemma fold_or_else: "fold (\<lambda>c acc. or_else acc c) cs a = (case a of Some x \<Rightarrow> Some x | None \<Rightarrow> Option.bind (find (\<lambda>c. c \<noteq> None) cs) id)"
  by (induction cs arbitrary: a) (auto simp: or_else_def split: option.splits)

lemma quoted_first:
  "extract_quoted_context lib msg =
     Option.bind (Option.bind (find (\<lambda>c. c \<noteq> None) (quote_parts (get_base_message lib msg))) id)
       (\<lambda>ctx. map_option (\<lambda>i. (i, ci_participant ctx)) (ci_stanza_id ctx))"
  by (auto simp: extract_quoted_context_def Let_def fold_or_else split: option.splits bind_splits)

end
