(* ===== verification/Sql_Store.thy ===== *)
theory Sql_Store
  imports Waxum_Prelude
begin

text \<open>
  The database as the gateway sees it. A table is the list of its rows in insertion order; a
  statement is a function on the tables that either takes effect as a whole or fails with a
  driver error and changes nothing. Which statements fail is not the gateway's choice: the
  list \<open>db_faults\<close> says it for the statements to come, in order (\<open>None\<close>, or the end of the
  list, is success), so a statement proved for every \<open>db_faults\<close> holds at every failure
  point. Each component extends \<open>db\<close> with its own tables; the operations are polymorphic
  in the extension. Text keys compare exactly, as under a binary collation.

  The three drivers run the same statements; where they differ in a way the code can see,
  \<open>db_driver\<close> decides: MySQL counts only the rows an UPDATE really changed, and LIKE ignores
  case on SQLite.
\<close>

datatype driver = Postgres | MySQL | SQLite

record db =
  db_driver :: driver
  db_faults :: "string option list"
  db_now :: unix

definition db_stmt ::
    "('w db_scheme \<Rightarrow> 'a \<times> 'w db_scheme) \<Rightarrow> 'w db_scheme \<Rightarrow> (string + 'a) \<times> 'w db_scheme" where
  "db_stmt f w =
     (case db_faults w of
        Some e # fs \<Rightarrow> (Inl e, w\<lparr>db_faults := fs\<rparr>)
      | _ \<Rightarrow> (let (a, w') = f (w\<lparr>db_faults := tl (db_faults w)\<rparr>) in (Inr a, w')))"

text \<open>\<open>?\<close>: the rest runs on success, an error is returned at once.\<close>

definition db_bind ::
    "('w \<Rightarrow> ('e + 'a) \<times> 'w) \<Rightarrow> ('a \<Rightarrow> 'w \<Rightarrow> ('e + 'b) \<times> 'w) \<Rightarrow> 'w \<Rightarrow> ('e + 'b) \<times> 'w" where
  "db_bind m k w = (case m w of (Inl e, w') \<Rightarrow> (Inl e, w') | (Inr a, w') \<Rightarrow> k a w')"

definition db_return :: "'a \<Rightarrow> 'w \<Rightarrow> ('e + 'a) \<times> 'w" where
  "db_return a w = (Inr a, w)"

definition db_fail :: "'e \<Rightarrow> 'w \<Rightarrow> ('e + 'a) \<times> 'w" where
  "db_fail e w = (Inl e, w)"

definition db_map_err :: "('e \<Rightarrow> 'f) \<Rightarrow> ('w \<Rightarrow> ('e + 'a) \<times> 'w) \<Rightarrow> 'w \<Rightarrow> ('f + 'a) \<times> 'w" where
  "db_map_err g m w = (case m w of (Inl e, w') \<Rightarrow> (Inl (g e), w') | (Inr a, w') \<Rightarrow> (Inr a, w'))"

text \<open>\<open>let _ = stmt.await\<close>: the outcome is dropped, the effect stays.\<close>

definition db_ignore :: "('w \<Rightarrow> ('e + 'a) \<times> 'w) \<Rightarrow> 'w \<Rightarrow> 'w" where
  "db_ignore m w = snd (m w)"

text \<open>An INSERT that the primary key may refuse; the message stands for the driver's own.\<close>

definition db_insert ::
    "('w db_scheme \<Rightarrow> bool) \<Rightarrow> ('w db_scheme \<Rightarrow> 'w db_scheme) \<Rightarrow> 'w db_scheme \<Rightarrow> (string + unit) \<times> 'w db_scheme" where
  "db_insert taken ins =
     db_bind (db_stmt (\<lambda>w. if taken w then (False, w) else (True, ins w)))
       (\<lambda>ok. if ok then db_return () else db_fail ''unique constraint violated'')"

lemma db_bind_simps [simp]:
  "m w = (Inl e, w') \<Longrightarrow> db_bind m k w = (Inl e, w')"
  "m w = (Inr a, w') \<Longrightarrow> db_bind m k w = k a w'"
  by (simp_all add: db_bind_def)

lemma db_bind_return [simp]: "db_bind (db_return a) k = k a" "db_bind m db_return = m"
  by (auto simp: db_bind_def db_return_def fun_eq_iff split: prod.splits sum.splits)

lemma db_bind_assoc: "db_bind (db_bind m k) h = db_bind m (\<lambda>a. db_bind (k a) h)"
  by (auto simp: db_bind_def fun_eq_iff split: prod.splits sum.splits)

lemma db_return_eq [simp]: "db_return a w = (Inr b, w') \<longleftrightarrow> b = a \<and> w' = w"
  "db_return a w \<noteq> (Inl e, w')"
  by (auto simp: db_return_def)

lemma db_bind_Inr_iff:
  "db_bind m k w = (Inr b, w'') \<longleftrightarrow> (\<exists>a w'. m w = (Inr a, w') \<and> k a w' = (Inr b, w''))"
  by (auto simp: db_bind_def split: prod.splits sum.splits)

lemma db_bind_Inl_iff:
  "db_bind m k w = (Inl e, w'') \<longleftrightarrow>
     m w = (Inl e, w'') \<or> (\<exists>a w'. m w = (Inr a, w') \<and> k a w' = (Inl e, w''))"
  by (auto simp: db_bind_def split: prod.splits sum.splits)

lemma db_stmt_Inr_iff:
  "db_stmt f w = (Inr a, w') \<longleftrightarrow>
     (\<forall>e fs. db_faults w \<noteq> Some e # fs) \<and> f (w\<lparr>db_faults := tl (db_faults w)\<rparr>) = (a, w')"
  by (auto simp: db_stmt_def split: list.splits option.splits prod.splits)

lemma db_stmt_Inl_iff:
  "db_stmt f w = (Inl e, w') \<longleftrightarrow>
     (\<exists>fs. db_faults w = Some e # fs \<and> w' = w\<lparr>db_faults := fs\<rparr>)"
  by (auto simp: db_stmt_def split: list.splits option.splits prod.splits)

lemma db_stmt_cases:
  obtains (failed) e fs where "db_faults w = Some e # fs" "db_stmt f w = (Inl e, w\<lparr>db_faults := fs\<rparr>)"
  | (ok) a w' where "f (w\<lparr>db_faults := tl (db_faults w)\<rparr>) = (a, w')" "db_stmt f w = (Inr a, w')"
proof (cases "fst (db_stmt f w)")
  case (Inl e)
  then have "db_stmt f w = (Inl e, snd (db_stmt f w))" by (metis prod.collapse)
  then show thesis using failed by (auto simp: db_stmt_Inl_iff)
next
  case (Inr a)
  then have "db_stmt f w = (Inr a, snd (db_stmt f w))" by (metis prod.collapse)
  then show thesis using ok by (auto simp: db_stmt_Inr_iff)
qed

lemma db_map_err_run: "m w = (Inr a, w') \<Longrightarrow> db_map_err g m w = (Inr a, w')"
  by (simp add: db_map_err_def)

lemma db_faults_same [simp]: "db_faults w = fs \<Longrightarrow> w\<lparr>db_faults := fs\<rparr> = w"
  by (cases w) simp

lemma db_stmt_no_faults [simp]:
  "db_faults w = [] \<Longrightarrow> db_stmt f w = (Inr (fst (f w)), snd (f w))"
  by (simp add: db_stmt_def split_beta)

text \<open>A statement keeps whatever its effect on the tables keeps.\<close>

lemma db_stmt_keeps:
  assumes "\<And>u. P u \<Longrightarrow> P (snd (f u))" and "\<And>u fs. P u \<Longrightarrow> P (u\<lparr>db_faults := fs\<rparr>)" and "P w"
  shows "P (snd (db_stmt f w))"
  using assms by (cases f w rule: db_stmt_cases) (auto, metis snd_conv)

lemma db_bind_keeps:
  assumes "\<And>u. P u \<Longrightarrow> P (snd (m u))" and "\<And>a u. P u \<Longrightarrow> P (snd (k a u))" and "P w"
  shows "P (snd (db_bind m k w))"
  using assms by (auto simp: db_bind_def split: prod.splits sum.splits) (metis snd_conv)+

section \<open>Rows\<close>

definition update_where :: "('r \<Rightarrow> bool) \<Rightarrow> ('r \<Rightarrow> 'r) \<Rightarrow> 'r list \<Rightarrow> 'r list" where
  "update_where P f rows = map (\<lambda>r. if P r then f r else r) rows"

definition delete_where :: "('r \<Rightarrow> bool) \<Rightarrow> 'r list \<Rightarrow> 'r list" where
  "delete_where P rows = filter (\<lambda>r. \<not> P r) rows"

definition count_where :: "('r \<Rightarrow> bool) \<Rightarrow> 'r list \<Rightarrow> nat" where
  "count_where P rows = length (filter P rows)"

text \<open>The number of affected rows an UPDATE reports.\<close>

definition affected :: "driver \<Rightarrow> ('r \<Rightarrow> bool) \<Rightarrow> ('r \<Rightarrow> 'r) \<Rightarrow> 'r list \<Rightarrow> nat" where
  "affected drv P f rows = count_where (\<lambda>r. P r \<and> (drv = MySQL \<longrightarrow> f r \<noteq> r)) rows"

text \<open>
  \<open>ORDER BY\<close>: a stable sort by the named column. Rows that tie come in an order the standard
  leaves open; \<open>rank\<close>, an argument of the operations that sort, fixes one.
\<close>

definition order_by :: "('r \<Rightarrow> 'k :: linorder) \<Rightarrow> ('r \<Rightarrow> nat) \<Rightarrow> 'r list \<Rightarrow> 'r list" where
  "order_by key rank rows = sort_key key (sort_key rank rows)"

definition order_by_desc :: "('r \<Rightarrow> int) \<Rightarrow> ('r \<Rightarrow> nat) \<Rightarrow> 'r list \<Rightarrow> 'r list" where
  "order_by_desc key rank rows = sort_key (\<lambda>r. - key r) (sort_key rank rows)"

lemma update_where_simps [simp, table_simps]:
  "update_where P f [] = []"
  "update_where P f (r # rows) = (if P r then f r else r) # update_where P f rows"
  "update_where P f (xs @ ys) = update_where P f xs @ update_where P f ys"
  "length (update_where P f rows) = length rows"
  by (simp_all add: update_where_def)

lemma set_update_where: "set (update_where P f rows) = f ` {r \<in> set rows. P r} \<union> {r \<in> set rows. \<not> P r}"
  by (auto simp: update_where_def)

lemma update_whereE:
  assumes "x \<in> set (update_where P f rows)"
  obtains r where "r \<in> set rows" and "x = (if P r then f r else r)"
  using assms by (auto simp: update_where_def)

lemma list_ex_update_where_other:
  "(\<And>r. P r \<Longrightarrow> \<not> Q r \<and> \<not> Q (f r)) \<Longrightarrow> list_ex Q (update_where P f rows) = list_ex Q rows"
  by (induction rows) auto

lemma set_delete_where [simp]: "set (delete_where P rows) = {r \<in> set rows. \<not> P r}"
  by (auto simp: delete_where_def)

lemma set_order_by [simp]: "set (order_by key rank rows) = set rows"
  by (simp add: order_by_def)

lemma set_order_by_desc [simp]: "set (order_by_desc key' rank rows) = set rows"
  by (simp add: order_by_desc_def)

lemma length_order_by [simp]: "length (order_by key rank rows) = length rows"
  by (simp add: order_by_def)

lemma sorted_order_by: "sorted (map key (order_by key rank rows))"
  by (simp add: order_by_def)

lemma map_update_where_key:
  "(\<And>r. P r \<Longrightarrow> k (f r) = k r) \<Longrightarrow> map k (update_where P f rows) = map k rows"
  by (simp add: update_where_def)

lemma filter_update_where_other:
  "(\<And>r. Q r \<Longrightarrow> \<not> P r) \<Longrightarrow> (\<And>r. P r \<Longrightarrow> \<not> Q (f r)) \<Longrightarrow>
   filter Q (update_where P f rows) = filter Q rows"
  by (induction rows) auto

lemma count_where_simps [simp, table_simps]:
  "count_where P [] = 0"
  "count_where P (r # rows) = (if P r then 1 else 0) + count_where P rows"
  "count_where P (xs @ ys) = count_where P xs + count_where P ys"
  by (simp_all add: count_where_def)

lemma count_where_le: "count_where P rows \<le> length rows"
  by (simp add: count_where_def)

lemma count_where_0_iff: "count_where P rows = 0 \<longleftrightarrow> (\<forall>r \<in> set rows. \<not> P r)"
  by (auto simp: count_where_def filter_empty_conv)

lemma count_where_split:
  "count_where P rows = count_where (\<lambda>r. P r \<and> Q r) rows + count_where (\<lambda>r. P r \<and> \<not> Q r) rows"
  by (induction rows) auto

lemma affected_pos_iff:
  "0 < affected drv P f rows \<longleftrightarrow> (\<exists>r \<in> set rows. P r \<and> (drv = MySQL \<longrightarrow> f r \<noteq> r))"
  using count_where_0_iff [of "\<lambda>r. P r \<and> (drv = MySQL \<longrightarrow> f r \<noteq> r)" rows]
  by (auto simp: affected_def)

lemma affected_changing:
  "(\<And>r. r \<in> set rows \<Longrightarrow> P r \<Longrightarrow> f r \<noteq> r) \<Longrightarrow> affected drv P f rows = count_where P rows"
  unfolding affected_def count_where_def by (rule arg_cong [where f = length], rule filter_cong) auto

section \<open>The contract of a conditional claim\<close>

text \<open>
  Several workers may read the same due row; each then runs an UPDATE whose WHERE repeats
  the expected state, and goes on only when it affected a row. \<open>eligible\<close> is the WHERE,
  \<open>claim\<close> the statement with whether it affected a row.
\<close>

locale claim_protocol =
  fixes eligible :: "'i \<Rightarrow> 's \<Rightarrow> bool"
    and claim :: "'i \<Rightarrow> 's \<Rightarrow> bool \<times> 's"
  assumes claim_wins: "fst (claim i s) = eligible i s"
    and claim_takes: "\<not> eligible i (snd (claim i s))"
    and claim_frame: "j \<noteq> i \<Longrightarrow> eligible j (snd (claim i s)) = eligible j s"
begin

lemma claim_once: "\<not> fst (claim i (snd (claim i s)))"
  by (simp add: claim_wins claim_takes)

fun claims :: "'i list \<Rightarrow> 's \<Rightarrow> bool list" where
  "claims [] s = []"
| "claims (i # is) s = fst (claim i s) # claims is (snd (claim i s))"

lemma claims_winners:
  "length (filter (\<lambda>(j, b). j = i \<and> b) (zip is (claims is s))) =
     (if eligible i s \<and> i \<in> set is then 1 else 0)"
proof (induction "is" arbitrary: s)
  case (Cons j js)
  show ?case
    using Cons.IH [of "snd (claim j s)"]
    by (cases "j = i") (auto simp: claim_wins claim_takes claim_frame split: if_splits)
qed simp

end

end
