(* ===== verification/Status_Codec.thy ===== *)
theory Status_Codec
  imports Waxum_Prelude
begin

text \<open>
  The gateway stores its enums as text: each has an \<open>as_str\<close> and a \<open>from_str\<close> that gives a
  default for an unknown text. The locale states that contract once (\<open>emb\<close> is the identity
  where \<open>from_str\<close> returns the enum, and \<open>Some\<close> where it returns an option) and derives
  injectivity and the exact preimages; the theories of the enums interpret it.
\<close>

locale status_codec =
  fixes as_str :: "'a \<Rightarrow> string"
    and from_str :: "string \<Rightarrow> 'b"
    and emb :: "'a \<Rightarrow> 'b"
    and fallback :: 'b
  assumes emb_inj: "emb a = emb b \<Longrightarrow> a = b"
    and decode_encode: "from_str (as_str a) = emb a"
    and decode_unknown: "s \<notin> range as_str \<Longrightarrow> from_str s = fallback"
begin

lemma as_str_inj: "as_str a = as_str b \<longleftrightarrow> a = b"
  by (metis decode_encode emb_inj)

lemma decode_cases:
  obtains (known) a where "s = as_str a" and "from_str s = emb a"
  | (unknown) "s \<notin> range as_str" and "from_str s = fallback"
proof (cases "s \<in> range as_str")
  case True
  then obtain a where "s = as_str a" by blast
  with decode_encode show thesis by (intro known) auto
next
  case False
  with decode_unknown show thesis by (intro unknown)
qed

lemma decode_eq_emb:
  "emb a \<noteq> fallback \<Longrightarrow> from_str s = emb a \<longleftrightarrow> s = as_str a"
proof (cases s rule: decode_cases)
  case (known b)
  then show ?thesis using emb_inj as_str_inj by auto
next
  case unknown
  then show "emb a \<noteq> fallback \<Longrightarrow> from_str s = emb a \<longleftrightarrow> s = as_str a" by auto
qed

lemma decode_eq_fallback:
  "from_str s = fallback \<longleftrightarrow> s \<notin> range as_str \<or> (\<exists>a. s = as_str a \<and> emb a = fallback)"
proof (cases s rule: decode_cases)
  case (known a)
  then show ?thesis using decode_encode by (auto simp: as_str_inj)
next
  case unknown
  then show ?thesis by simp
qed

end

end
