(* ===== verification/Webhook_Event.thy ===== *)
theory Webhook_Event
  imports Status_Codec
begin

text \<open>
  The event names a webhook can subscribe to (\<open>WebhookEvent\<close> of
  \<open>src/api/shared/webhooks/models.rs\<close>) with their textual form, the parser and the
  subscription filter.
\<close>

datatype webhook_event =
  EvAll
  | EvMessage
  | EvReceipt
  | EvPresence
  | EvChatPresence
  | EvGroupUpdate
  | EvJoinedGroup
  | EvQrCode
  | EvPairCode
  | EvConnected
  | EvDisconnected
  | EvLoggedOut
  | EvAccountLocked
  | EvPictureUpdate
  | EvUserAboutUpdate
  | EvPushNameUpdate
  | EvContactUpdate
  | EvDeviceListUpdate
  | EvPinUpdate
  | EvMuteUpdate
  | EvArchiveUpdate
  | EvMarkChatAsRead
  | EvUndecryptableMessage
  | EvClientOutdated
  | EvOfflineSyncPreview
  | EvOfflineSyncCompleted
  | EvScheduledSent
  | EvScheduledFailed
  | EvBlastProgress
  | EvBlastCompleted
  | EvCallLogSync
  | EvStreamError
  | EvEncDecryptFailed

fun webhook_event_as_str :: "webhook_event \<Rightarrow> string" where
  "webhook_event_as_str EvAll = ''all''"
| "webhook_event_as_str EvMessage = ''message''"
| "webhook_event_as_str EvReceipt = ''receipt''"
| "webhook_event_as_str EvPresence = ''presence''"
| "webhook_event_as_str EvChatPresence = ''chat_presence''"
| "webhook_event_as_str EvGroupUpdate = ''group_update''"
| "webhook_event_as_str EvJoinedGroup = ''joined_group''"
| "webhook_event_as_str EvQrCode = ''qr_code''"
| "webhook_event_as_str EvPairCode = ''pair_code''"
| "webhook_event_as_str EvConnected = ''connected''"
| "webhook_event_as_str EvDisconnected = ''disconnected''"
| "webhook_event_as_str EvLoggedOut = ''logged_out''"
| "webhook_event_as_str EvAccountLocked = ''account_locked''"
| "webhook_event_as_str EvPictureUpdate = ''picture_update''"
| "webhook_event_as_str EvUserAboutUpdate = ''user_about_update''"
| "webhook_event_as_str EvPushNameUpdate = ''push_name_update''"
| "webhook_event_as_str EvContactUpdate = ''contact_update''"
| "webhook_event_as_str EvDeviceListUpdate = ''device_list_update''"
| "webhook_event_as_str EvPinUpdate = ''pin_update''"
| "webhook_event_as_str EvMuteUpdate = ''mute_update''"
| "webhook_event_as_str EvArchiveUpdate = ''archive_update''"
| "webhook_event_as_str EvMarkChatAsRead = ''mark_chat_as_read''"
| "webhook_event_as_str EvUndecryptableMessage = ''undecryptable_message''"
| "webhook_event_as_str EvClientOutdated = ''client_outdated''"
| "webhook_event_as_str EvOfflineSyncPreview = ''offline_sync_preview''"
| "webhook_event_as_str EvOfflineSyncCompleted = ''offline_sync_completed''"
| "webhook_event_as_str EvScheduledSent = ''scheduled_sent''"
| "webhook_event_as_str EvScheduledFailed = ''scheduled_failed''"
| "webhook_event_as_str EvBlastProgress = ''blast_progress''"
| "webhook_event_as_str EvBlastCompleted = ''blast_completed''"
| "webhook_event_as_str EvCallLogSync = ''call_log_sync''"
| "webhook_event_as_str EvStreamError = ''stream_error''"
| "webhook_event_as_str EvEncDecryptFailed = ''enc_decrypt_failed''"

definition webhook_event_names :: "(string \<times> webhook_event) list" where
  "webhook_event_names = [(''all'', EvAll),
     (''message'', EvMessage),
     (''receipt'', EvReceipt),
     (''presence'', EvPresence),
     (''chat_presence'', EvChatPresence),
     (''group_update'', EvGroupUpdate),
     (''joined_group'', EvJoinedGroup),
     (''qr_code'', EvQrCode),
     (''pair_code'', EvPairCode),
     (''connected'', EvConnected),
     (''disconnected'', EvDisconnected),
     (''logged_out'', EvLoggedOut),
     (''account_locked'', EvAccountLocked),
     (''picture_update'', EvPictureUpdate),
     (''user_about_update'', EvUserAboutUpdate),
     (''push_name_update'', EvPushNameUpdate),
     (''contact_update'', EvContactUpdate),
     (''device_list_update'', EvDeviceListUpdate),
     (''pin_update'', EvPinUpdate),
     (''mute_update'', EvMuteUpdate),
     (''archive_update'', EvArchiveUpdate),
     (''mark_chat_as_read'', EvMarkChatAsRead),
     (''undecryptable_message'', EvUndecryptableMessage),
     (''client_outdated'', EvClientOutdated),
     (''offline_sync_preview'', EvOfflineSyncPreview),
     (''offline_sync_completed'', EvOfflineSyncCompleted),
     (''scheduled_sent'', EvScheduledSent),
     (''scheduled_failed'', EvScheduledFailed),
     (''blast_progress'', EvBlastProgress),
     (''blast_completed'', EvBlastCompleted),
     (''call_log_sync'', EvCallLogSync),
     (''stream_error'', EvStreamError),
     (''enc_decrypt_failed'', EvEncDecryptFailed)]"

definition webhook_event_from_str :: "string \<Rightarrow> webhook_event option" where
  "webhook_event_from_str s = map_of webhook_event_names s"

fun webhook_event_matches :: "webhook_event \<Rightarrow> string \<Rightarrow> bool" where
  "webhook_event_matches EvAll event = True"
| "webhook_event_matches EvMessage event = (event = ''message'')"
| "webhook_event_matches EvReceipt event = (event = ''receipt'')"
| "webhook_event_matches EvPresence event = (event = ''presence'')"
| "webhook_event_matches EvChatPresence event = (event = ''chat_presence'')"
| "webhook_event_matches EvGroupUpdate event = (event = ''group_update'')"
| "webhook_event_matches EvJoinedGroup event = (event = ''joined_group'')"
| "webhook_event_matches EvQrCode event = (event = ''qr_code'')"
| "webhook_event_matches EvPairCode event = (event = ''pair_code'')"
| "webhook_event_matches EvConnected event = (event = ''connected'')"
| "webhook_event_matches EvDisconnected event = (event = ''disconnected'')"
| "webhook_event_matches EvLoggedOut event = (event = ''logged_out'')"
| "webhook_event_matches EvAccountLocked event = (event = ''account_locked'')"
| "webhook_event_matches EvPictureUpdate event = (event = ''picture_update'')"
| "webhook_event_matches EvUserAboutUpdate event = (event = ''user_about_update'')"
| "webhook_event_matches EvPushNameUpdate event = (event = ''push_name_update'')"
| "webhook_event_matches EvContactUpdate event = (event = ''contact_update'')"
| "webhook_event_matches EvDeviceListUpdate event = (event = ''device_list_update'')"
| "webhook_event_matches EvPinUpdate event = (event = ''pin_update'')"
| "webhook_event_matches EvMuteUpdate event = (event = ''mute_update'')"
| "webhook_event_matches EvArchiveUpdate event = (event = ''archive_update'')"
| "webhook_event_matches EvMarkChatAsRead event = (event = ''mark_chat_as_read'')"
| "webhook_event_matches EvUndecryptableMessage event = (event = ''undecryptable_message'')"
| "webhook_event_matches EvClientOutdated event = (event = ''client_outdated'')"
| "webhook_event_matches EvOfflineSyncPreview event = (event = ''offline_sync_preview'')"
| "webhook_event_matches EvOfflineSyncCompleted event = (event = ''offline_sync_completed'')"
| "webhook_event_matches EvScheduledSent event = (event = ''scheduled_sent'')"
| "webhook_event_matches EvScheduledFailed event = (event = ''scheduled_failed'')"
| "webhook_event_matches EvBlastProgress event = (event = ''blast_progress'')"
| "webhook_event_matches EvBlastCompleted event = (event = ''blast_completed'')"
| "webhook_event_matches EvCallLogSync event = (event = ''call_log_sync'')"
| "webhook_event_matches EvStreamError event = (event = ''stream_error'')"
| "webhook_event_matches EvEncDecryptFailed event = (event = ''enc_decrypt_failed'')"

lemma webhook_event_decode_encode: "webhook_event_from_str (webhook_event_as_str e) = Some e"
  by (cases e) (simp_all add: webhook_event_from_str_def webhook_event_names_def)

lemma webhook_event_names_sound:
  "list_all (\<lambda>(s, e). s = webhook_event_as_str e) webhook_event_names"
  by (simp add: webhook_event_names_def)

lemma webhook_event_from_str_SomeD:
  assumes "webhook_event_from_str s = Some e"
  shows "s = webhook_event_as_str e"
  using webhook_event_names_sound map_of_SomeD [OF assms [unfolded webhook_event_from_str_def]]
  by (auto simp: list_all_iff)

interpretation event_codec: status_codec webhook_event_as_str webhook_event_from_str Some None
proof unfold_locales
  show "webhook_event_from_str s = None" if "s \<notin> range webhook_event_as_str" for s
    using that webhook_event_from_str_SomeD [of s] by (cases "webhook_event_from_str s") auto
qed (simp_all add: webhook_event_decode_encode)

lemma webhook_event_matches_iff:
  "webhook_event_matches e event \<longleftrightarrow> e = EvAll \<or> event = webhook_event_as_str e"
  by (cases e) simp_all

text \<open>
  A webhook's subscription list selects an event exactly when it names the event or holds
  the wildcard.
\<close>

definition subscribed :: "webhook_event list \<Rightarrow> string \<Rightarrow> bool" where
  "subscribed evs event \<longleftrightarrow> list_ex (\<lambda>e. webhook_event_matches e event) evs"

lemma subscribed_iff:
  "subscribed evs event \<longleftrightarrow> EvAll \<in> set evs \<or> (\<exists>e \<in> set evs. webhook_event_as_str e = event)"
  by (auto simp: subscribed_def list_ex_iff webhook_event_matches_iff)

end
