(* ===== verification/Session_Db.thy ===== *)
theory Session_Db
  imports Sql_Store Webhook_Event
begin

text \<open>
  \<open>SessionManager\<close> of \<open>src/db/session.rs\<close>: the tables \<open>sessions\<close>, \<open>webhooks\<close>, \<open>contacts\<close>
  and \<open>webhook_dlq\<close>, and every operation on them, with the enum \<open>SessionStatus\<close> and the
  record types the operations return. The lemmas at the end: a stored webhook is read back
  as it was registered, credentials are read back only for a Cloud API session, and deleting a
  session leaves nothing of it behind at any failure point that is not reported.
\<close>

datatype session_status =
  StDisconnected | StConnecting | StWaitingForQr | StWaitingForPairCode | StConnected | StLoggedIn

fun session_status_as_str :: "session_status \<Rightarrow> string" where
  "session_status_as_str StDisconnected = ''disconnected''"
| "session_status_as_str StConnecting = ''connecting''"
| "session_status_as_str StWaitingForQr = ''waiting_for_qr''"
| "session_status_as_str StWaitingForPairCode = ''waiting_for_pair_code''"
| "session_status_as_str StConnected = ''connected''"
| "session_status_as_str StLoggedIn = ''logged_in''"

definition session_status_from_str :: "string \<Rightarrow> session_status" where
  "session_status_from_str s =
     (if s = ''connecting'' then StConnecting
      else if s = ''waiting_for_qr'' then StWaitingForQr
      else if s = ''waiting_for_pair_code'' then StWaitingForPairCode
      else if s = ''connected'' then StConnected
      else if s = ''logged_in'' then StLoggedIn
      else StDisconnected)"

lemma session_status_decode_encode: "session_status_from_str (session_status_as_str s) = s"
  by (cases s) (simp_all add: session_status_from_str_def)

lemma session_status_from_str_known:
  "session_status_from_str s \<noteq> StDisconnected \<Longrightarrow> s = session_status_as_str (session_status_from_str s)"
  by (simp add: session_status_from_str_def split: if_splits)

interpretation session_status_codec: status_codec
  session_status_as_str session_status_from_str "\<lambda>s. s" StDisconnected
proof unfold_locales
  show "session_status_from_str s = StDisconnected" if "s \<notin> range session_status_as_str" for s
    using that session_status_from_str_known [of s] by blast
qed (simp_all add: session_status_decode_encode)

record session_info =
  si_id :: string
  si_name :: "string option"
  si_phone_number :: "string option"
  si_push_name :: "string option"
  si_status :: session_status
  si_created_at :: unix
  si_updated_at :: unix
  si_last_connected_at :: "unix option"
  si_is_logged_in :: bool
  si_provider :: string
  si_cloud_waba_id :: "string option"
  si_cloud_phone_number_id :: "string option"
  si_cloud_business_id :: "string option"
  si_cloud_app_id :: "string option"

record webhook_config =
  wc_url :: string
  wc_events :: "webhook_event list"
  wc_secret :: "string option"
  wc_enabled :: bool

record cloud_credentials =
  cc_waba_id :: string
  cc_phone_number_id :: string
  cc_access_token :: string
  cc_app_secret :: string
  cc_webhook_verify_token :: string
  cc_flow_private_key :: "string option"
  cc_flow_forward_url :: "string option"

record connect_cloud_request =
  rq_waba_id :: string
  rq_phone_number_id :: string
  rq_business_id :: "string option"
  rq_access_token :: string
  rq_app_id :: "string option"
  rq_app_secret :: string
  rq_webhook_verify_token :: string

section \<open>Tables\<close>

record session_row =
  s_id :: string
  s_name :: "string option"
  s_storage_path :: string
  s_phone_number :: "string option"
  s_push_name :: "string option"
  s_status :: string
  s_is_logged_in :: bool
  s_created_at :: unix
  s_updated_at :: unix
  s_last_connected_at :: "unix option"
  s_provider :: string
  s_waba_id :: "string option"
  s_phone_number_id :: "string option"
  s_business_id :: "string option"
  s_access_token :: "string option"
  s_app_id :: "string option"
  s_app_secret :: "string option"
  s_verify_token :: "string option"
  s_flow_private_key :: "string option"
  s_flow_forward_url :: "string option"

record webhook_row =
  w_id :: string
  w_session :: string
  w_url :: string
  w_events :: string
  w_secret :: "string option"
  w_enabled :: bool
  w_disabled_at :: "unix option"
  w_disabled_reason :: "string option"

record contact_row =
  ct_session :: string
  ct_jid :: string
  ct_phone :: "string option"
  ct_lid_jid :: "string option"
  ct_full_name :: "string option"
  ct_first_name :: "string option"
  ct_push_name :: "string option"
  ct_business_name :: "string option"
  ct_source :: string
  ct_updated_at :: unix

record dlq_row =
  dr_session :: string
  dr_url :: string
  dr_event :: string
  dr_payload :: string
  dr_error :: string
  dr_attempts :: int
  dr_at :: unix

record session_db = db +
  sessions :: "session_row list"
  webhook_rows :: "webhook_row list"
  contact_rows :: "contact_row list"
  dlq_rows :: "dlq_row list"

definition row_to_session :: "session_row \<Rightarrow> session_info" where
  "row_to_session r = \<lparr>
     si_id = s_id r, si_name = s_name r, si_phone_number = s_phone_number r,
     si_push_name = s_push_name r, si_status = session_status_from_str (s_status r),
     si_created_at = s_created_at r, si_updated_at = s_updated_at r,
     si_last_connected_at = s_last_connected_at r, si_is_logged_in = s_is_logged_in r,
     si_provider = s_provider r, si_cloud_waba_id = s_waba_id r,
     si_cloud_phone_number_id = s_phone_number_id r, si_cloud_business_id = s_business_id r,
     si_cloud_app_id = s_app_id r \<rparr>"

definition events_of_column :: "string \<Rightarrow> webhook_event list" where
  "events_of_column raw =
     List.map_filter (\<lambda>s. webhook_event_from_str (trim_str s)) (filter (\<lambda>s. s \<noteq> []) (split_on (CHR '','') raw))"

definition row_to_webhook :: "webhook_row \<Rightarrow> string \<times> webhook_config" where
  "row_to_webhook r = (w_id r, \<lparr> wc_url = w_url r, wc_events = events_of_column (w_events r),
     wc_secret = w_secret r, wc_enabled = w_enabled r \<rparr>)"

section \<open>Sessions\<close>

definition new_session_row :: "unix \<Rightarrow> string \<Rightarrow> string option \<Rightarrow> string \<Rightarrow> session_row" where
  "new_session_row now key name path = \<lparr>
     s_id = key, s_name = Some (case name of None \<Rightarrow> [] | Some n \<Rightarrow> n), s_storage_path = path,
     s_phone_number = None, s_push_name = None, s_status = ''disconnected'', s_is_logged_in = False,
     s_created_at = now, s_updated_at = now, s_last_connected_at = None,
     s_provider = ''whatsapp_web'', s_waba_id = None, s_phone_number_id = None,
     s_business_id = None, s_access_token = None, s_app_id = None, s_app_secret = None,
     s_verify_token = None, s_flow_private_key = None, s_flow_forward_url = None \<rparr>"

definition find_session :: "string \<Rightarrow> 'w session_db_scheme \<Rightarrow> session_row option" where
  "find_session key w = find (\<lambda>r. s_id r = key) (sessions w)"

definition get_session :: "string \<Rightarrow> 'w session_db_scheme \<Rightarrow> (string + session_info option) \<times> 'w session_db_scheme" where
  "get_session key = db_stmt (\<lambda>w. (map_option row_to_session (find_session key w), w))"

definition insert_session ::
    "string \<Rightarrow> string option \<Rightarrow> string \<Rightarrow> 'w session_db_scheme \<Rightarrow> (string + unit) \<times> 'w session_db_scheme" where
  "insert_session key name path =
     db_insert (\<lambda>w. find_session key w \<noteq> None)
       (\<lambda>w. w\<lparr>sessions := sessions w @ [new_session_row (db_now w) key name path]\<rparr>)"

definition create_session ::
    "string \<Rightarrow> string option \<Rightarrow> string \<Rightarrow> 'w session_db_scheme \<Rightarrow> (string + session_info) \<times> 'w session_db_scheme" where
  "create_session key name path w =
     (if db_driver w = Postgres
      then db_bind (insert_session key name path)
             (\<lambda>_ u. db_return (row_to_session (new_session_row (db_now u) key name path)) u) w
      else db_bind (insert_session key name path)
             (\<lambda>_. db_bind (get_session key)
                (\<lambda>s. case s of Some i \<Rightarrow> db_return i
                            | None \<Rightarrow> db_fail ''Failed to fetch created session'')) w)"

definition get_storage_path :: "string \<Rightarrow> 'w session_db_scheme \<Rightarrow> (string + string option) \<times> 'w session_db_scheme" where
  "get_storage_path key = db_stmt (\<lambda>w. (map_option s_storage_path (find_session key w), w))"

definition list_sessions ::
    "(session_row \<Rightarrow> nat) \<Rightarrow> 'w session_db_scheme \<Rightarrow> (string + session_info list) \<times> 'w session_db_scheme" where
  "list_sessions rank = db_stmt (\<lambda>w. (map row_to_session (order_by_desc s_created_at rank (sessions w)), w))"

definition update_session ::
    "string \<Rightarrow> (unix \<Rightarrow> session_row \<Rightarrow> session_row) \<Rightarrow> 'w session_db_scheme \<Rightarrow> (string + unit) \<times> 'w session_db_scheme" where
  "update_session key f =
     db_stmt (\<lambda>w. ((), w\<lparr>sessions := update_where (\<lambda>r. s_id r = key) (f (db_now w)) (sessions w)\<rparr>))"

definition update_session_status ::
    "string \<Rightarrow> session_status \<Rightarrow> bool \<Rightarrow> 'w session_db_scheme \<Rightarrow> (string + unit) \<times> 'w session_db_scheme" where
  "update_session_status key status is_logged_in =
     update_session key (\<lambda>now r. r\<lparr>s_status := session_status_as_str status,
       s_is_logged_in := is_logged_in, s_updated_at := now\<rparr>)"

definition coalesce :: "'a option \<Rightarrow> 'a option \<Rightarrow> 'a option" where
  "coalesce a b = (case a of None \<Rightarrow> b | Some x \<Rightarrow> Some x)"

definition update_session_info ::
    "string \<Rightarrow> string option \<Rightarrow> string option \<Rightarrow> 'w session_db_scheme \<Rightarrow> (string + unit) \<times> 'w session_db_scheme" where
  "update_session_info key phone push =
     update_session key (\<lambda>now r. r\<lparr>s_phone_number := coalesce phone (s_phone_number r),
       s_push_name := coalesce push (s_push_name r), s_updated_at := now\<rparr>)"

definition connect_cloud ::
    "string \<Rightarrow> connect_cloud_request \<Rightarrow> 'w session_db_scheme \<Rightarrow> (string + unit) \<times> 'w session_db_scheme" where
  "connect_cloud key req =
     update_session key (\<lambda>now r. r\<lparr>s_provider := ''whatsapp_cloud'', s_waba_id := Some (rq_waba_id req),
       s_phone_number_id := Some (rq_phone_number_id req), s_business_id := rq_business_id req,
       s_access_token := Some (rq_access_token req), s_app_id := rq_app_id req,
       s_app_secret := Some (rq_app_secret req), s_verify_token := Some (rq_webhook_verify_token req),
       s_updated_at := now\<rparr>)"

definition set_flow_endpoint ::
    "string \<Rightarrow> string \<Rightarrow> string option \<Rightarrow> 'w session_db_scheme \<Rightarrow> (string + unit) \<times> 'w session_db_scheme" where
  "set_flow_endpoint key pem forward =
     update_session key (\<lambda>now r. r\<lparr>s_flow_private_key := Some pem, s_flow_forward_url := forward,
       s_updated_at := now\<rparr>)"

text \<open>
  A NULL credential column of a Cloud API session reads as the empty text on MySQL and
  SQLite; on Postgres \<open>r.get\<close> panics there, which \<open>connect_cloud\<close> excludes (it fills all five).
\<close>

definition or_empty :: "string option \<Rightarrow> string" where
  "or_empty v = (case v of None \<Rightarrow> [] | Some s \<Rightarrow> s)"

definition row_to_credentials :: "session_row \<Rightarrow> cloud_credentials option" where
  "row_to_credentials r =
     (if s_provider r = ''whatsapp_cloud''
      then Some \<lparr> cc_waba_id = or_empty (s_waba_id r), cc_phone_number_id = or_empty (s_phone_number_id r),
             cc_access_token = or_empty (s_access_token r), cc_app_secret = or_empty (s_app_secret r),
             cc_webhook_verify_token = or_empty (s_verify_token r),
             cc_flow_private_key = s_flow_private_key r, cc_flow_forward_url = s_flow_forward_url r \<rparr>
      else None)"

definition get_cloud_credentials ::
    "string \<Rightarrow> 'w session_db_scheme \<Rightarrow> (string + cloud_credentials option) \<times> 'w session_db_scheme" where
  "get_cloud_credentials key =
     db_stmt (\<lambda>w. (Option.bind (find_session key w) row_to_credentials, w))"

definition update_last_connected :: "string \<Rightarrow> 'w session_db_scheme \<Rightarrow> (string + unit) \<times> 'w session_db_scheme" where
  "update_last_connected key =
     update_session key (\<lambda>now r. r\<lparr>s_last_connected_at := Some now, s_updated_at := now\<rparr>)"

definition purge_dependents :: "string \<Rightarrow> 'w session_db_scheme \<Rightarrow> (string + unit) \<times> 'w session_db_scheme" where
  "purge_dependents sid =
     db_bind (db_stmt (\<lambda>w. ((), w\<lparr>webhook_rows := delete_where (\<lambda>r. w_session r = sid) (webhook_rows w)\<rparr>)))
       (\<lambda>_. db_bind (db_stmt (\<lambda>w. ((), w\<lparr>contact_rows := delete_where (\<lambda>r. ct_session r = sid) (contact_rows w)\<rparr>)))
         (\<lambda>_. db_stmt (\<lambda>w. ((), w\<lparr>dlq_rows := delete_where (\<lambda>r. dr_session r = sid) (dlq_rows w)\<rparr>))))"

definition delete_session :: "string \<Rightarrow> 'w session_db_scheme \<Rightarrow> (string + bool) \<times> 'w session_db_scheme" where
  "delete_session key =
     db_bind (purge_dependents key)
       (\<lambda>_. db_stmt (\<lambda>w. (0 < count_where (\<lambda>r. s_id r = key) (sessions w),
          w\<lparr>sessions := delete_where (\<lambda>r. s_id r = key) (sessions w)\<rparr>)))"

section \<open>Webhooks\<close>

definition enable_row :: "webhook_row \<Rightarrow> webhook_row" where
  "enable_row r = r\<lparr>w_enabled := True, w_disabled_at := None, w_disabled_reason := None\<rparr>"

definition auto_disabled :: "driver \<Rightarrow> webhook_row \<Rightarrow> bool" where
  "auto_disabled drv r \<longleftrightarrow> \<not> w_enabled r \<and>
     (case w_disabled_reason r of
        None \<Rightarrow> False
      | Some s \<Rightarrow> starts_with ''100 consecutive failures'' (if drv = SQLite then to_ascii_lowercase s else s))"

definition restore_auto_disabled_webhooks :: "'w session_db_scheme \<Rightarrow> (string + nat) \<times> 'w session_db_scheme" where
  "restore_auto_disabled_webhooks =
     db_stmt (\<lambda>w. (affected (db_driver w) (auto_disabled (db_driver w)) enable_row (webhook_rows w),
       w\<lparr>webhook_rows := update_where (auto_disabled (db_driver w)) enable_row (webhook_rows w)\<rparr>))"

definition enable_webhook :: "string \<Rightarrow> 'w session_db_scheme \<Rightarrow> (string + bool) \<times> 'w session_db_scheme" where
  "enable_webhook key =
     db_stmt (\<lambda>w. (0 < affected (db_driver w) (\<lambda>r. w_id r = key) enable_row (webhook_rows w),
       w\<lparr>webhook_rows := update_where (\<lambda>r. w_id r = key) enable_row (webhook_rows w)\<rparr>))"

definition create_webhook ::
    "string \<Rightarrow> string \<Rightarrow> webhook_config \<Rightarrow> 'w session_db_scheme \<Rightarrow> (string + unit) \<times> 'w session_db_scheme" where
  "create_webhook key sid config =
     db_insert (\<lambda>w. \<exists>r \<in> set (webhook_rows w). w_id r = key)
       (\<lambda>w. w\<lparr>webhook_rows := webhook_rows w @ [\<lparr> w_id = key, w_session = sid, w_url = wc_url config,
          w_events = join_with '','' (map webhook_event_as_str (wc_events config)),
          w_secret = wc_secret config, w_enabled = wc_enabled config,
          w_disabled_at = None, w_disabled_reason = None \<rparr>]\<rparr>)"

definition get_webhooks_db ::
    "string \<Rightarrow> 'w session_db_scheme \<Rightarrow> (string + (string \<times> webhook_config) list) \<times> 'w session_db_scheme" where
  "get_webhooks_db sid =
     db_stmt (\<lambda>w. (map row_to_webhook (filter (\<lambda>r. w_session r = sid) (webhook_rows w)), w))"

definition delete_webhook :: "string \<Rightarrow> 'w session_db_scheme \<Rightarrow> (string + bool) \<times> 'w session_db_scheme" where
  "delete_webhook key =
     db_stmt (\<lambda>w. (0 < count_where (\<lambda>r. w_id r = key) (webhook_rows w),
       w\<lparr>webhook_rows := delete_where (\<lambda>r. w_id r = key) (webhook_rows w)\<rparr>))"

text \<open>
  \<open>record_failure\<close> of \<open>src/db/webhook_dlq.rs\<close>: best effort, a failed insert is only logged.
\<close>

definition record_failure ::
    "string \<Rightarrow> string \<Rightarrow> string \<Rightarrow> string \<Rightarrow> string \<Rightarrow> int \<Rightarrow> 'w session_db_scheme \<Rightarrow> 'w session_db_scheme" where
  "record_failure sid url event payload err attempts =
     db_ignore (db_stmt (\<lambda>w. ((), w\<lparr>dlq_rows := dlq_rows w @ [\<lparr> dr_session = sid, dr_url = url,
       dr_event = event, dr_payload = payload, dr_error = err, dr_attempts = attempts,
       dr_at = db_now w \<rparr>]\<rparr>)))"

section \<open>Properties\<close>

lemma event_names_plain:
  "CHR '','' \<notin> set (webhook_event_as_str e) \<and> webhook_event_as_str e \<noteq> [] \<and>
   trim_str (webhook_event_as_str e) = webhook_event_as_str e"
  by (cases e) (simp_all add: trim_str_def is_ws_def)

lemma events_column_roundtrip:
  "events_of_column (join_with '','' (map webhook_event_as_str evs)) = evs"
proof (cases "evs = []")
  case True
  then show ?thesis by (simp add: events_of_column_def map_filter_def)
next
  case False
  then have "split_on (CHR '','') (join_with '','' (map webhook_event_as_str evs)) = map webhook_event_as_str evs"
    using event_names_plain by (intro split_on_join_with) auto
  moreover have "filter (\<lambda>s. s \<noteq> []) (map webhook_event_as_str evs) = map webhook_event_as_str evs"
    using event_names_plain by (simp add: filter_id_conv)
  ultimately show ?thesis
    using event_names_plain
    by (simp add: events_of_column_def map_filter_def comp_def webhook_event_decode_encode)
qed

text \<open>A webhook that was stored is read back exactly as it was registered, with its
  subscription list in order, after the webhooks the session already had; the other sessions
  see no change.\<close>

theorem create_webhook_roundtrip:
  assumes "create_webhook wid sid cfg w = (Inr (), w')" and "db_faults w' = []"
    and "get_webhooks_db sid (w\<lparr>db_faults := []\<rparr>) = (Inr old, u)"
  shows "fst (get_webhooks_db sid w') = Inr (old @ [(wid, cfg)]) \<and>
    (\<forall>other. other = sid \<or> fst (get_webhooks_db other w') = fst (get_webhooks_db other (w\<lparr>db_faults := []\<rparr>)))"
proof -
  have rows: "webhook_rows w' = webhook_rows w @ [\<lparr> w_id = wid, w_session = sid, w_url = wc_url cfg,
      w_events = join_with '','' (map webhook_event_as_str (wc_events cfg)),
      w_secret = wc_secret cfg, w_enabled = wc_enabled cfg,
      w_disabled_at = None, w_disabled_reason = None \<rparr>]"
    using assms(1)
    by (auto simp: create_webhook_def db_insert_def db_bind_Inr_iff db_stmt_Inr_iff db_fail_def split: if_splits)
  with assms(2,3) show ?thesis
    by (auto simp: get_webhooks_db_def row_to_webhook_def events_column_roundtrip)
qed

definition empty_session_db :: "driver \<Rightarrow> unix \<Rightarrow> session_db" where
  "empty_session_db drv now = \<lparr> db_driver = drv, db_faults = [], db_now = now, sessions = [],
     webhook_rows = [], contact_rows = [], dlq_rows = [] \<rparr>"

definition demo_webhook :: webhook_config where
  "demo_webhook = \<lparr> wc_url = ''https://x.org/h'', wc_events = [EvMessage, EvReceipt],
     wc_secret = Some ''k'', wc_enabled = True \<rparr>"

lemma create_webhook_roundtrip_witness:
  "fst (get_webhooks_db ''s'' (snd (create_webhook ''w'' ''s'' demo_webhook (empty_session_db MySQL 0))))
    = Inr [(''w'', demo_webhook)]"
  using create_webhook_roundtrip [of "''w''" "''s''" demo_webhook "empty_session_db MySQL 0"
      "snd (create_webhook ''w'' ''s'' demo_webhook (empty_session_db MySQL 0))" "[]" "empty_session_db MySQL 0"]
  by (simp add: empty_session_db_def create_webhook_def db_insert_def db_bind_def db_return_def
      get_webhooks_db_def)

text \<open>What is left of a session in the four tables, and what the tables hold of the others.\<close>

definition session_traces :: "string \<Rightarrow> 'w session_db_scheme \<Rightarrow> nat" where
  "session_traces sid w = count_where (\<lambda>r. s_id r = sid) (sessions w)
     + count_where (\<lambda>r. w_session r = sid) (webhook_rows w)
     + count_where (\<lambda>r. ct_session r = sid) (contact_rows w)
     + count_where (\<lambda>r. dr_session r = sid) (dlq_rows w)"

definition others :: "string \<Rightarrow> 'w session_db_scheme \<Rightarrow>
    session_row list \<times> webhook_row list \<times> contact_row list \<times> dlq_row list" where
  "others sid w = (filter (\<lambda>r. s_id r \<noteq> sid) (sessions w), filter (\<lambda>r. w_session r \<noteq> sid) (webhook_rows w),
     filter (\<lambda>r. ct_session r \<noteq> sid) (contact_rows w), filter (\<lambda>r. dr_session r \<noteq> sid) (dlq_rows w))"

lemma filter_not_delete_where [simp]:
  "filter (\<lambda>r. k r \<noteq> x) (delete_where (\<lambda>r. k r = x) rows) = filter (\<lambda>r. k r \<noteq> x) rows"
  "count_where (\<lambda>r. k r = x) (delete_where (\<lambda>r. k r = x) rows) = 0"
  by (induction rows) (auto simp: delete_where_def)

lemma purge_dependents_spec:
  "others sid (snd (purge_dependents sid w)) = others sid w \<and>
   sessions (snd (purge_dependents sid w)) = sessions w \<and>
   (isl (fst (purge_dependents sid w)) \<or>
      session_traces sid (snd (purge_dependents sid w)) = count_where (\<lambda>r. s_id r = sid) (sessions w))"
proof -
  let ?f1 = "\<lambda>w :: 'a session_db_scheme. ((), w\<lparr>webhook_rows := delete_where (\<lambda>r. w_session r = sid) (webhook_rows w)\<rparr>)"
  let ?f2 = "\<lambda>w :: 'a session_db_scheme. ((), w\<lparr>contact_rows := delete_where (\<lambda>r. ct_session r = sid) (contact_rows w)\<rparr>)"
  let ?f3 = "\<lambda>w :: 'a session_db_scheme. ((), w\<lparr>dlq_rows := delete_where (\<lambda>r. dr_session r = sid) (dlq_rows w)\<rparr>)"
  note defs = purge_dependents_def others_def session_traces_def
  show ?thesis
  proof (cases ?f1 w rule: db_stmt_cases)
    case (failed e fs)
    then show ?thesis by (simp add: defs)
  next
    case ok1: (ok a w1)
    show ?thesis
    proof (cases ?f2 w1 rule: db_stmt_cases)
      case (failed e fs)
      with ok1 show ?thesis by (clarsimp simp: defs)
    next
      case ok2: (ok b w2)
      show ?thesis
      proof (cases ?f3 w2 rule: db_stmt_cases)
        case (failed e fs)
        with ok1 ok2 show ?thesis by (clarsimp simp: defs)
      next
        case (ok c w3)
        with ok1 ok2 show ?thesis by (clarsimp simp: defs)
      qed
    qed
  qed
qed

text \<open>Deleting a session, whichever of its statements fails: on success nothing of the
  session is left in any table and the answer says whether it existed; on an error the
  session itself is still there, so the call can be repeated. No other session's rows are
  touched either way.\<close>

theorem delete_session_complete:
  "(case fst (delete_session sid w) of
      Inr existed \<Rightarrow> session_traces sid (snd (delete_session sid w)) = 0 \<and>
        existed = (0 < count_where (\<lambda>r. s_id r = sid) (sessions w))
    | Inl e \<Rightarrow> sessions (snd (delete_session sid w)) = sessions w) \<and>
   others sid (snd (delete_session sid w)) = others sid w"
proof -
  obtain r w1 where p: "purge_dependents sid w = (r, w1)" by fastforce
  have spec: "others sid w1 = others sid w" "sessions w1 = sessions w"
    "isl r \<or> session_traces sid w1 = count_where (\<lambda>r. s_id r = sid) (sessions w)"
    using purge_dependents_spec [of sid w] by (simp_all add: p)
  show ?thesis
  proof (cases r)
    case (Inl e)
    with spec show ?thesis by (simp add: delete_session_def db_bind_def p)
  next
    case (Inr x)
    with spec have z: "session_traces sid w1 = count_where (\<lambda>r. s_id r = sid) (sessions w)" by simp
    have "delete_session sid w = db_stmt (\<lambda>w. (0 < count_where (\<lambda>r. s_id r = sid) (sessions w),
          w\<lparr>sessions := delete_where (\<lambda>r. s_id r = sid) (sessions w)\<rparr>)) w1"
      by (simp add: delete_session_def p Inr)
    then show ?thesis using spec(1,2) z
      by (auto simp: db_stmt_def others_def session_traces_def split: list.splits option.splits)
  qed
qed

text \<open>Cloud credentials: after \<open>connect_cloud\<close> on a stored session its credentials are those
  of the request, with the flow key and URL it had before; every other session's credentials
  are unchanged.\<close>

theorem connect_cloud_credentials:
  assumes "find_session sid w = Some r" and "connect_cloud sid req w = (Inr (), w')"
    and "db_faults w' = []"
  shows "fst (get_cloud_credentials sid w') = Inr (Some \<lparr> cc_waba_id = rq_waba_id req,
      cc_phone_number_id = rq_phone_number_id req, cc_access_token = rq_access_token req,
      cc_app_secret = rq_app_secret req, cc_webhook_verify_token = rq_webhook_verify_token req,
      cc_flow_private_key = s_flow_private_key r, cc_flow_forward_url = s_flow_forward_url r \<rparr>) \<and>
    (\<forall>other. other = sid \<or> find_session other w' = find_session other w)"
proof -
  have find_update: "find (\<lambda>r. s_id r = k) (update_where (\<lambda>r. s_id r = sid) f rows) =
      (if k = sid then map_option f (find (\<lambda>r. s_id r = k) rows) else find (\<lambda>r. s_id r = k) rows)"
    if "\<And>r. s_id (f r) = s_id r" for f k and rows :: "session_row list"
    using that by (induction rows) auto
  have ex: "\<exists>f. sessions w' = update_where (\<lambda>r. s_id r = sid) f (sessions w) \<and> (\<forall>r. s_id (f r) = s_id r) \<and>
      row_to_credentials (f r) = Some \<lparr> cc_waba_id = rq_waba_id req,
      cc_phone_number_id = rq_phone_number_id req, cc_access_token = rq_access_token req,
      cc_app_secret = rq_app_secret req, cc_webhook_verify_token = rq_webhook_verify_token req,
      cc_flow_private_key = s_flow_private_key r, cc_flow_forward_url = s_flow_forward_url r \<rparr>"
    using assms(2) by (auto simp: connect_cloud_def update_session_def db_stmt_Inr_iff
        row_to_credentials_def or_empty_def)
  with assms(1,3) show ?thesis
    by (auto simp: get_cloud_credentials_def find_session_def find_update split: if_splits)
qed

definition demo_cloud :: connect_cloud_request where
  "demo_cloud = \<lparr> rq_waba_id = ''1'', rq_phone_number_id = ''2'', rq_business_id = None,
     rq_access_token = ''t'', rq_app_id = None, rq_app_secret = ''a'', rq_webhook_verify_token = ''v'' \<rparr>"

lemma connect_cloud_credentials_witness:
  "fst (get_cloud_credentials ''s'' (snd (connect_cloud ''s'' demo_cloud
      ((empty_session_db SQLite 7)\<lparr>sessions := [new_session_row 7 ''s'' None ''p'']\<rparr>))))
   = Inr (Some \<lparr> cc_waba_id = ''1'', cc_phone_number_id = ''2'', cc_access_token = ''t'',
      cc_app_secret = ''a'', cc_webhook_verify_token = ''v'', cc_flow_private_key = None,
      cc_flow_forward_url = None \<rparr>)"
  using connect_cloud_credentials [of "''s''"
      "(empty_session_db SQLite 7)\<lparr>sessions := [new_session_row 7 ''s'' None ''p'']\<rparr>"
      "new_session_row 7 ''s'' None ''p''" demo_cloud
      "snd (connect_cloud ''s'' demo_cloud ((empty_session_db SQLite 7)\<lparr>sessions := [new_session_row 7 ''s'' None ''p'']\<rparr>))"]
  by (simp add: empty_session_db_def find_session_def new_session_row_def connect_cloud_def
      update_session_def demo_cloud_def)

end
