(* ===== verification/Dash_Map.thy ===== *)
theory Dash_Map
  imports Waxum_Prelude "HOL-Library.AList"
begin

text \<open>
  The concurrent hash maps of the gateway (\<open>DashMap\<close>) as association lists with distinct
  keys: one shard lock guards each entry, so every operation is atomic on its key. The
  order of the list stands for the map's unspecified iteration order; no lemma depends on
  it. The locale states the laws the components use; its interpretation below discharges
  them for the association lists.
\<close>

type_synonym 'v dash = "(string \<times> 'v) list"

definition dm_ok :: "'v dash \<Rightarrow> bool" where
  "dm_ok m \<longleftrightarrow> distinct (map fst m)"

definition dm_get :: "'v dash \<Rightarrow> string \<Rightarrow> 'v option" where
  "dm_get m k = map_of m k"

definition dm_put :: "string \<Rightarrow> 'v \<Rightarrow> 'v dash \<Rightarrow> 'v dash" where
  "dm_put k v m = AList.update k v m"

definition dm_remove :: "string \<Rightarrow> 'v dash \<Rightarrow> 'v dash" where
  "dm_remove k m = AList.delete k m"

definition dm_or :: "'v \<Rightarrow> 'v dash \<Rightarrow> string \<Rightarrow> 'v" where
  "dm_or d m k = (case dm_get m k of None \<Rightarrow> d | Some v \<Rightarrow> v)"

definition dm_map_values :: "('v \<Rightarrow> 'v) \<Rightarrow> 'v dash \<Rightarrow> 'v dash" where
  "dm_map_values f m = map (\<lambda>(k, v). (k, f v)) m"

locale keyed_store =
  fixes empty :: 'm
    and get :: "'m \<Rightarrow> 'k \<Rightarrow> 'v option"
    and put :: "'k \<Rightarrow> 'v \<Rightarrow> 'm \<Rightarrow> 'm"
    and remove :: "'k \<Rightarrow> 'm \<Rightarrow> 'm"
    and wf :: "'m \<Rightarrow> bool"
  assumes get_empty: "get empty k = None"
    and get_put: "get (put k v m) j = (if j = k then Some v else get m j)"
    and get_remove: "wf m \<Longrightarrow> get (remove k m) j = (if j = k then None else get m j)"
    and wf_empty: "wf empty"
    and wf_put: "wf m \<Longrightarrow> wf (put k v m)"
    and wf_remove: "wf m \<Longrightarrow> wf (remove k m)"
begin

lemma get_put_same: "get (put k v m) k = Some v"
  by (simp add: get_put)

lemma get_put_other: "j \<noteq> k \<Longrightarrow> get (put k v m) j = get m j"
  by (simp add: get_put)

lemma get_put_put: "get (put k v (put k u m)) j = get (put k v m) j"
  by (simp add: get_put)

lemma all_put: "(\<forall>j w. get m j = Some w \<longrightarrow> P j w) \<Longrightarrow> P k v \<Longrightarrow>
  get (put k v m) j = Some w \<Longrightarrow> P j w"
  by (auto simp: get_put split: if_splits)

lemma all_remove: "wf m \<Longrightarrow> (\<forall>j w. get m j = Some w \<longrightarrow> P j w) \<Longrightarrow>
  get (remove k m) j = Some w \<Longrightarrow> P j w"
  by (auto simp: get_remove split: if_splits)

end

lemma dm_get_put: "dm_get (dm_put k v m) j = (if j = k then Some v else dm_get m j)"
  by (simp add: dm_get_def dm_put_def update_conv')

lemma dm_get_remove: "dm_get (dm_remove k m) j = (if j = k then None else dm_get m j)"
  by (simp add: dm_get_def dm_remove_def delete_conv')

lemma dm_ok_Nil: "dm_ok []"
  by (simp add: dm_ok_def)

lemma dm_ok_put: "dm_ok m \<Longrightarrow> dm_ok (dm_put k v m)"
  by (simp add: dm_ok_def dm_put_def distinct_update)

lemma dm_ok_remove: "dm_ok m \<Longrightarrow> dm_ok (dm_remove k m)"
  by (simp add: dm_ok_def dm_remove_def distinct_delete)

interpretation dash: keyed_store "[]" dm_get dm_put dm_remove dm_ok
  by unfold_locales
    (auto simp: dm_get_put dm_get_remove dm_ok_Nil dm_ok_put dm_ok_remove, simp add: dm_get_def)

declare dm_get_put [simp] dm_get_remove [simp] dm_ok_put [simp] dm_ok_remove [simp] dm_ok_Nil [simp]

lemma dm_get_Nil [simp]: "dm_get [] k = None"
  by (simp add: dm_get_def)

lemma dm_get_SomeD: "dm_get m k = Some v \<Longrightarrow> (k, v) \<in> set m"
  by (simp add: dm_get_def map_of_SomeD)

lemma dm_get_iff: "dm_ok m \<Longrightarrow> dm_get m k = Some v \<longleftrightarrow> (k, v) \<in> set m"
  by (simp add: dm_ok_def dm_get_def)

lemma dm_get_map_values [simp]: "dm_get (dm_map_values f m) k = map_option f (dm_get m k)"
  by (simp add: dm_get_def dm_map_values_def map_of_map)

lemma dm_ok_map_values [simp]: "dm_ok (dm_map_values f m) = dm_ok m"
  by (simp add: dm_ok_def dm_map_values_def split_def comp_def)

lemma dm_ok_tl: "dm_ok (x # m) \<Longrightarrow> dm_ok m"
  by (simp add: dm_ok_def)

end
