(* ===== verification/Webhook_Circuit.thy ===== *)
theory Webhook_Circuit
  imports Dash_Map "HOL-Library.Word"
begin

text \<open>
  The per-URL circuit breaker of webhook delivery (\<open>CircuitState\<close> and the
  \<open>webhook_circuit_*\<close>, \<open>webhook_record_*\<close> methods of \<open>AppState\<close> in \<open>src/state.rs\<close>).
  Each operation reads the monotonic clock once; the reading is its argument \<open>now\<close>.
  The lemmas give the reachable states of the breaker under any sequence of operations,
  and from them that a suspended receiver is always probed again.
\<close>

record circuit =
  failures :: nat
  opened_until :: "instant option"
  last_event :: instant
  trips :: nat
  circuit_error :: "string option"
  skipped :: nat
  probe_started :: "instant option"

definition circuit_default :: "instant \<Rightarrow> circuit" where
  "circuit_default now = \<lparr> failures = 0, opened_until = None, last_event = now, trips = 0,
     circuit_error = None, skipped = 0, probe_started = None \<rparr>"

datatype failure_action = Noop | Suspended instant

record circuit_snapshot =
  snap_open :: bool
  snap_failures :: nat
  snap_retry_in_secs :: "nat option"
  snap_last_error :: "string option"
  snap_skipped :: nat

text \<open>The shift is on \<open>u64\<close>; its amount is at most 4, so nothing is lost.\<close>

definition webhook_cooldown :: "nat \<Rightarrow> instant" where
  "webhook_cooldown n = secs (unat (min (push_bit (min n 4) (300 :: 64 word)) 3600))"

definition OPEN_THRESHOLD :: nat where "OPEN_THRESHOLD = 25"
definition PROBE_TIMEOUT :: instant where "PROBE_TIMEOUT = secs 600"

definition webhook_circuit_allows :: "instant \<Rightarrow> string \<Rightarrow> circuit dash \<Rightarrow> bool \<times> circuit dash" where
  "webhook_circuit_allows now url m =
     (case dm_get m url of
        None \<Rightarrow> (True, m)
      | Some c \<Rightarrow>
          (case opened_until c of
             None \<Rightarrow> (True, m)
           | Some until \<Rightarrow>
               if now < until then (False, m)
               else (case probe_started c of
                       Some started \<Rightarrow>
                         if now - started < PROBE_TIMEOUT then (False, m)
                         else (True, dm_put url (c\<lparr>probe_started := Some now\<rparr>) m)
                     | None \<Rightarrow> (True, dm_put url (c\<lparr>probe_started := Some now\<rparr>) m))))"

definition webhook_circuit_snapshot :: "instant \<Rightarrow> string \<Rightarrow> circuit dash \<Rightarrow> circuit_snapshot" where
  "webhook_circuit_snapshot now url m =
     (case dm_get m url of
        None \<Rightarrow> \<lparr> snap_open = False, snap_failures = 0, snap_retry_in_secs = None,
                  snap_last_error = None, snap_skipped = 0 \<rparr>
      | Some c \<Rightarrow>
          let remaining = (case opened_until c of
                             None \<Rightarrow> None
                           | Some u \<Rightarrow> if now \<le> u then Some (u - now) else None)
          in \<lparr> snap_open = (remaining \<noteq> None), snap_failures = failures c,
               snap_retry_in_secs = map_option (\<lambda>d. d div 1000000000) remaining,
               snap_last_error = circuit_error c, snap_skipped = skipped c \<rparr>)"

definition webhook_circuits_open_count :: "instant \<Rightarrow> circuit dash \<Rightarrow> nat" where
  "webhook_circuits_open_count now m =
     length (filter (\<lambda>(url, c). case opened_until c of None \<Rightarrow> False | Some u \<Rightarrow> now < u) m)"

definition webhook_record_success :: "instant \<Rightarrow> string \<Rightarrow> circuit dash \<Rightarrow> bool \<times> circuit dash" where
  "webhook_record_success now url m =
     (case dm_get m url of
        None \<Rightarrow> (False, m)
      | Some c \<Rightarrow>
          (opened_until c \<noteq> None,
           dm_put url (c\<lparr>failures := 0, opened_until := None, trips := 0, circuit_error := None,
                         probe_started := None, last_event := now\<rparr>) m))"

definition webhook_record_failure ::
    "instant \<Rightarrow> string \<Rightarrow> string \<Rightarrow> circuit dash \<Rightarrow> failure_action \<times> circuit dash" where
  "webhook_record_failure now url err m =
     (let e = (dm_or (circuit_default now) m url)
                \<lparr>last_event := now, circuit_error := Some (take 200 err)\<rparr>
      in if opened_until e \<noteq> None
         then (if probe_started e = None
               then (Noop, dm_put url (e\<lparr>probe_started := None\<rparr>) m)
               else let n = sat_succ 32 (trips e); cooldown = webhook_cooldown n
                    in (Suspended cooldown,
                        dm_put url (e\<lparr>probe_started := None, trips := n,
                                      opened_until := Some (now + cooldown)\<rparr>) m))
         else let f = sat_succ 32 (failures e)
              in if f < OPEN_THRESHOLD then (Noop, dm_put url (e\<lparr>failures := f\<rparr>) m)
                 else let cooldown = webhook_cooldown (trips e)
                      in (Suspended cooldown,
                          dm_put url (e\<lparr>failures := f, opened_until := Some (now + cooldown)\<rparr>) m))"

definition webhook_note_skipped :: "string \<Rightarrow> circuit dash \<Rightarrow> circuit dash" where
  "webhook_note_skipped url m =
     (case dm_get m url of
        None \<Rightarrow> m
      | Some c \<Rightarrow> dm_put url (c\<lparr>skipped := sat_succ 64 (skipped c)\<rparr>) m)"

definition reset_circuit :: "instant \<Rightarrow> circuit \<Rightarrow> circuit" where
  "reset_circuit now c =
     (if opened_until c \<noteq> None
      then c\<lparr>failures := 0, opened_until := None, trips := 0, circuit_error := None,
             skipped := 0, probe_started := None, last_event := now\<rparr>
      else c)"

definition reenable_all_open_circuits :: "instant \<Rightarrow> circuit dash \<Rightarrow> string list \<times> circuit dash" where
  "reenable_all_open_circuits now m =
     (map fst (filter (\<lambda>(url, c). opened_until c \<noteq> None) m), dm_map_values (reset_circuit now) m)"

section \<open>Cooldowns\<close>

lemma webhook_cooldown_table:
  "webhook_cooldown 0 = secs 300" "webhook_cooldown (Suc 0) = secs 600"
  "webhook_cooldown 1 = secs 600" "webhook_cooldown 2 = secs 1200"
  "webhook_cooldown 3 = secs 2400" "4 \<le> n \<Longrightarrow> webhook_cooldown n = secs 3600"
  by (simp_all add: webhook_cooldown_def min_def push_bit_eq_mult)

lemma nat_upto_4_cases:
  obtains "n = 0" | "n = 1" | "n = 2" | "n = 3" | "4 \<le> (n :: nat)"
  by linarith

lemma webhook_cooldown_bounds: "secs 300 \<le> webhook_cooldown n \<and> webhook_cooldown n \<le> secs 3600"
  by (cases n rule: nat_upto_4_cases) (simp_all add: webhook_cooldown_table)

lemma webhook_cooldown_mono: "m \<le> n \<Longrightarrow> webhook_cooldown m \<le> webhook_cooldown n"
  by (cases m rule: nat_upto_4_cases; cases n rule: nat_upto_4_cases)
    (simp_all add: webhook_cooldown_table)

section \<open>Reachable states of the breaker\<close>

text \<open>
  Everything that can happen to the table: a delivery asks for admission, a delivery
  reports success or failure, a skipped event is counted, the operator re-enables every
  open circuit, and \<open>set_webhook_enabled\<close> drops the entry of a URL.
\<close>

datatype circuit_event =
    Ask string
  | Report_ok string
  | Report_fail string string
  | Note_skipped string
  | Reenable_all
  | Forget string

fun circuit_step :: "instant \<Rightarrow> circuit_event \<Rightarrow> circuit dash \<Rightarrow> circuit dash" where
  "circuit_step now (Ask url) m = snd (webhook_circuit_allows now url m)"
| "circuit_step now (Report_ok url) m = snd (webhook_record_success now url m)"
| "circuit_step now (Report_fail url err) m = snd (webhook_record_failure now url err m)"
| "circuit_step now (Note_skipped url) m = webhook_note_skipped url m"
| "circuit_step now Reenable_all m = snd (reenable_all_open_circuits now m)"
| "circuit_step now (Forget url) m = dm_remove url m"

inductive circuit_reach :: "instant \<Rightarrow> circuit dash \<Rightarrow> bool" where
  start: "circuit_reach now []"
| step: "circuit_reach now m \<Longrightarrow> now \<le> now' \<Longrightarrow> circuit_reach now' (circuit_step now' ev m)"

definition circuit_wf :: "instant \<Rightarrow> circuit \<Rightarrow> bool" where
  "circuit_wf now c \<longleftrightarrow> last_event c \<le> now \<and> trips c < 2 ^ 32 \<and>
     (case opened_until c of
        None \<Rightarrow> failures c < OPEN_THRESHOLD \<and> trips c = 0 \<and> probe_started c = None
      | Some u \<Rightarrow> failures c = OPEN_THRESHOLD \<and> u \<le> last_event c + secs 3600 \<and>
          (case probe_started c of None \<Rightarrow> True | Some p \<Rightarrow> u \<le> p \<and> p \<le> now))"

definition circuits_wf :: "instant \<Rightarrow> circuit dash \<Rightarrow> bool" where
  "circuits_wf now m \<longleftrightarrow> dm_ok m \<and> (\<forall>url c. dm_get m url = Some c \<longrightarrow> circuit_wf now c)"

lemma circuit_wf_mono: "circuit_wf now c \<Longrightarrow> now \<le> now' \<Longrightarrow> circuit_wf now' c"
  by (auto simp: circuit_wf_def split: option.splits)

lemma circuits_wfI:
  "dm_ok m \<Longrightarrow> (\<And>url c. dm_get m url = Some c \<Longrightarrow> circuit_wf now c) \<Longrightarrow> circuits_wf now m"
  by (simp add: circuits_wf_def)

lemma circuits_wfD:
  "circuits_wf now m \<Longrightarrow> dm_get m url = Some c \<Longrightarrow> circuit_wf now c"
  "circuits_wf now m \<Longrightarrow> dm_ok m"
  by (auto simp: circuits_wf_def)

lemma circuits_wf_put: "circuits_wf now m \<Longrightarrow> circuit_wf now c \<Longrightarrow> circuits_wf now (dm_put url c m)"
  by (auto simp: circuits_wf_def split: if_splits)

lemma circuits_wf_mono: "circuits_wf now m \<Longrightarrow> now \<le> now' \<Longrightarrow> circuits_wf now' m"
  by (auto simp: circuits_wf_def intro: circuit_wf_mono)

lemma circuit_wf_default: "circuit_wf now (circuit_default now)"
  by (simp add: circuit_wf_def circuit_default_def OPEN_THRESHOLD_def)

lemma circuit_wf_or:
  "circuits_wf now m \<Longrightarrow> circuit_wf now (dm_or (circuit_default now) m url)"
  by (auto simp: dm_or_def circuit_wf_default dest: circuits_wfD split: option.splits)

lemma allows_wf: "circuits_wf now m \<Longrightarrow> circuits_wf now (snd (webhook_circuit_allows now url m))"
  by (auto simp: webhook_circuit_allows_def circuit_wf_def dest: circuits_wfD(1)
      intro!: circuits_wf_put split: option.splits)

lemma success_wf: "circuits_wf now m \<Longrightarrow> circuits_wf now (snd (webhook_record_success now url m))"
  by (auto simp: webhook_record_success_def circuit_wf_def OPEN_THRESHOLD_def dest: circuits_wfD(1)
      intro!: circuits_wf_put split: option.splits)

lemma skipped_wf: "circuits_wf now m \<Longrightarrow> circuits_wf now (webhook_note_skipped url m)"
  by (auto simp: webhook_note_skipped_def circuit_wf_def dest: circuits_wfD(1)
      intro!: circuits_wf_put split: option.splits)

lemma failure_wf:
  assumes "circuits_wf now m"
  shows "circuits_wf now (snd (webhook_record_failure now url err m))"
proof -
  define c where "c = dm_or (circuit_default now) m url"
  have wf: "circuit_wf now c" unfolding c_def using assms by (rule circuit_wf_or)
  have cool: "now + webhook_cooldown n \<le> now + secs 3600" for n
    using webhook_cooldown_bounds [of n] by simp
  have u32: "sat_succ 32 n < 2 ^ 32" for n by (simp add: sat_succ_def)
  show ?thesis
  proof (cases "opened_until c")
    case None
    with wf have "failures c < 25" by (simp add: circuit_wf_def OPEN_THRESHOLD_def)
    then have "sat_succ 32 (failures c) = failures c + 1" by simp
    with None wf assms cool show ?thesis
      by (auto simp: webhook_record_failure_def c_def [symmetric] circuit_wf_def OPEN_THRESHOLD_def
          Let_def intro!: circuits_wf_put)
  next
    case (Some u)
    with wf assms cool u32 show ?thesis
      by (auto simp: webhook_record_failure_def c_def [symmetric] circuit_wf_def Let_def
          intro!: circuits_wf_put split: option.splits)
  qed
qed

lemma reset_circuit_wf: "circuit_wf now c \<Longrightarrow> circuit_wf now (reset_circuit now c)"
  by (cases "opened_until c") (simp_all add: reset_circuit_def circuit_wf_def OPEN_THRESHOLD_def)

lemma reenable_wf: "circuits_wf now m \<Longrightarrow> circuits_wf now (snd (reenable_all_open_circuits now m))"
  by (auto simp: circuits_wf_def reenable_all_open_circuits_def reset_circuit_wf)

lemma forget_wf: "circuits_wf now m \<Longrightarrow> circuits_wf now (dm_remove url m)"
  by (auto simp: circuits_wf_def split: if_splits)

lemmas circuit_op_wf = allows_wf success_wf failure_wf skipped_wf reenable_wf forget_wf

lemma circuit_step_wf: "circuits_wf now m \<Longrightarrow> circuits_wf now (circuit_step now ev m)"
  by (cases ev) (simp_all add: circuit_op_wf)

lemma circuit_reach_wf: "circuit_reach now m \<Longrightarrow> circuits_wf now m"
proof (induction rule: circuit_reach.induct)
  case (start now)
  show ?case by (simp add: circuits_wf_def)
next
  case (step now m now' ev)
  then show ?case by (blast intro: circuit_step_wf circuits_wf_mono)
qed

section \<open>Properties\<close>

text \<open>C3. A suspended receiver is never given up: whatever has happened to the breaker up
  to time \<open>now\<close>, a delivery to any URL that asks an hour later is let through.\<close>

theorem circuit_always_probed_again:
  assumes "circuit_reach now m" and "now + secs 3600 \<le> t"
  shows "fst (webhook_circuit_allows t url m)"
proof (cases "dm_get m url")
  case None
  then show ?thesis by (simp add: webhook_circuit_allows_def)
next
  case (Some c)
  have wf: "circuit_wf now c"
    using circuit_reach_wf [OF assms(1)] Some by (rule circuits_wfD(1))
  show ?thesis
  proof (cases "opened_until c")
    case None
    with Some show ?thesis by (simp add: webhook_circuit_allows_def)
  next
    case (Some u)
    with wf assms(2) have "u \<le> t" by (auto simp: circuit_wf_def)
    moreover have "PROBE_TIMEOUT \<le> t - p" if "probe_started c = Some p" for p
      using wf Some that assms(2) by (auto simp: circuit_wf_def PROBE_TIMEOUT_def secs_def)
    ultimately show ?thesis using Some \<open>dm_get m url = Some c\<close>
      by (auto simp: webhook_circuit_allows_def not_less split: option.splits)
  qed
qed

fun fail_run :: "(instant \<times> string) list \<Rightarrow> string \<Rightarrow> circuit dash \<Rightarrow> failure_action list \<times> circuit dash" where
  "fail_run [] url m = ([], m)"
| "fail_run ((now, err) # rs) url m =
     (let (a, m1) = webhook_record_failure now url err m; (as, m2) = fail_run rs url m1
      in (a # as, m2))"

lemma fail_run_open:
  "dm_get m url = Some c \<Longrightarrow> opened_until c = Some u \<Longrightarrow> probe_started c = None \<Longrightarrow>
   fst (fail_run rs url m) = replicate (length rs) Noop"
proof (induction rs arbitrary: m c)
  case (Cons r rs)
  obtain now err where r: "r = (now, err)" by (cases r)
  let ?c = "c\<lparr>last_event := now, circuit_error := Some (take 200 err), probe_started := None\<rparr>"
  have "webhook_record_failure now url err m = (Noop, dm_put url ?c m)"
    using Cons.prems by (simp add: webhook_record_failure_def dm_or_def)
  moreover have "fst (fail_run rs url (dm_put url ?c m)) = replicate (length rs) Noop"
    using Cons.prems by (intro Cons.IH [of _ ?c]) simp_all
  ultimately show ?case by (simp add: r split_beta)
qed simp

lemma fail_run_closed:
  "opened_until (dm_or (circuit_default t) m url) = None \<Longrightarrow>
   probe_started (dm_or (circuit_default t) m url) = None \<Longrightarrow>
   trips (dm_or (circuit_default t) m url) = 0 \<Longrightarrow>
   failures (dm_or (circuit_default t) m url) + k = 25 \<Longrightarrow> 0 < k \<Longrightarrow>
   fst (fail_run rs url m) =
     (if length rs < k then replicate (length rs) Noop
      else replicate (k - 1) Noop @ Suspended (secs 300) # replicate (length rs - k) Noop)"
proof (induction rs arbitrary: m k t)
  case (Cons r rs)
  obtain now err where r: "r = (now, err)" by (cases r)
  define c where "c = dm_or (circuit_default now) m url"
  have c: "opened_until c = None" "probe_started c = None" "trips c = 0" "failures c + k = 25"
    using Cons.prems by (auto simp: c_def dm_or_def circuit_default_def split: option.splits)
  let ?e = "c\<lparr>last_event := now, circuit_error := Some (take 200 err)\<rparr>"
  show ?case
  proof (cases "k = 1")
    case True
    let ?c = "?e\<lparr>failures := 25, opened_until := Some (now + secs 300)\<rparr>"
    have "webhook_record_failure now url err m = (Suspended (secs 300), dm_put url ?c m)"
      using c True by (simp add: webhook_record_failure_def c_def [symmetric] OPEN_THRESHOLD_def
          webhook_cooldown_table Let_def)
    moreover have "fst (fail_run rs url (dm_put url ?c m)) = replicate (length rs) Noop"
      using c by (intro fail_run_open [of _ _ ?c "now + secs 300"]) simp_all
    ultimately show ?thesis using True by (simp add: r split_beta)
  next
    case False
    let ?c = "?e\<lparr>failures := failures c + 1\<rparr>"
    have "webhook_record_failure now url err m = (Noop, dm_put url ?c m)"
      using c False Cons.prems(5)
      by (simp add: webhook_record_failure_def c_def [symmetric] OPEN_THRESHOLD_def Let_def)
    moreover have "fst (fail_run rs url (dm_put url ?c m)) =
      (if length rs < k - 1 then replicate (length rs) Noop
       else replicate (k - 1 - 1) Noop @ Suspended (secs 300) # replicate (length rs - (k - 1)) Noop)"
      using c False Cons.prems(5) by (intro Cons.IH [of now]) (simp_all add: dm_or_def)
    ultimately show ?thesis using False Cons.prems(5)
      by (cases k; cases "k - 1") (auto simp: r split_beta)
  qed
qed simp

text \<open>The breaker opens on exactly the 25th failure in a row, for five minutes; the
  failures before it and the stragglers that land while it is open do nothing.\<close>

theorem circuit_opens_at_threshold:
  assumes "dm_get m url = None"
  shows "fst (fail_run rs url m) =
    (if length rs < 25 then replicate (length rs) Noop
     else replicate 24 Noop @ Suspended (secs 300) # replicate (length rs - 25) Noop)"
  using fail_run_closed [of 0 m url 25 rs] assms
  by (simp add: dm_or_def circuit_default_def)

lemma circuit_always_probed_again_witness:
  "fst (webhook_circuit_allows (secs 3600) ''u''
     (circuit_step 0 (Report_fail ''u'' ''e'') []))"
  by (rule circuit_always_probed_again [OF circuit_reach.step [OF circuit_reach.start]]) simp_all

lemma circuit_opens_at_threshold_witness:
  "fst (fail_run (replicate 26 (5, ''timeout'')) ''u'' [])
     = replicate 24 Noop @ [Suspended (secs 300), Noop]"
  using circuit_opens_at_threshold [of "[]" "''u''" "replicate 26 (5, ''timeout'')"] by simp

text \<open>
  \<open>quiet url ev\<close>: the event reports no outcome for \<open>url\<close> and does not drop or reset its
  entry; anything may happen to the other URLs, and further deliveries to \<open>url\<close> may ask.
\<close>

fun quiet :: "string \<Rightarrow> circuit_event \<Rightarrow> bool" where
  "quiet url (Report_ok u) = (u \<noteq> url)"
| "quiet url (Report_fail u e) = (u \<noteq> url)"
| "quiet url Reenable_all = False"
| "quiet url (Forget u) = (u \<noteq> url)"
| "quiet url (Ask u) = True"
| "quiet url (Note_skipped u) = True"

definition circuit_trace :: "(instant \<times> circuit_event) list \<Rightarrow> circuit dash \<Rightarrow> circuit dash" where
  "circuit_trace evs = fold (\<lambda>(now, ev). circuit_step now ev) evs"

definition probing :: "instant \<Rightarrow> string \<Rightarrow> circuit dash \<Rightarrow> bool" where
  "probing t url m \<longleftrightarrow> (case dm_get m url of None \<Rightarrow> False
     | Some c \<Rightarrow> opened_until c \<noteq> None \<and> probe_started c = Some t)"

lemma probing_refused:
  "probing t url m \<Longrightarrow> t' < t + PROBE_TIMEOUT \<Longrightarrow> t \<le> t' \<Longrightarrow>
   webhook_circuit_allows t' url m = (False, m)"
  by (auto simp: probing_def webhook_circuit_allows_def split: option.splits)

lemma probing_step:
  assumes "probing t url m" and "quiet url ev" and "t \<le> now" and "now < t + PROBE_TIMEOUT"
  shows "probing t url (circuit_step now ev m)"
proof (cases ev)
  case (Ask u)
  show ?thesis
  proof (cases "u = url")
    case True
    with Ask assms show ?thesis by (simp add: probing_refused)
  next
    case False
    with Ask assms show ?thesis
      by (auto simp: probing_def webhook_circuit_allows_def split: option.splits)
  qed
next
  case (Report_ok u)
  with assms show ?thesis by (simp add: probing_def webhook_record_success_def split: option.splits)
next
  case (Report_fail u e)
  with assms show ?thesis by (simp add: probing_def webhook_record_failure_def Let_def split: option.splits)
next
  case (Note_skipped u)
  with assms show ?thesis by (auto simp: probing_def webhook_note_skipped_def split: option.splits)
qed (use assms in \<open>simp_all add: probing_def\<close>)

lemma probing_trace:
  "probing t url m \<Longrightarrow> list_all (\<lambda>(now, ev). t \<le> now \<and> now < t + PROBE_TIMEOUT \<and> quiet url ev) evs \<Longrightarrow>
   probing t url (circuit_trace evs m)"
  by (induction evs arbitrary: m) (auto simp: circuit_trace_def intro: probing_step)

text \<open>One probe at a time: when a suspended circuit lets a delivery through at \<open>t\<close>, every
  other delivery to that URL that asks in the next ten minutes is refused, whatever else
  happens in between, until the probe reports its outcome or the operator intervenes.\<close>

theorem circuit_single_probe:
  assumes "dm_get m url = Some c" and "opened_until c = Some u"
    and "fst (webhook_circuit_allows t url m)"
    and "list_all (\<lambda>(now, ev). t \<le> now \<and> now < t + PROBE_TIMEOUT \<and> quiet url ev) evs"
    and "t \<le> t'" and "t' < t + PROBE_TIMEOUT"
  shows "\<not> fst (webhook_circuit_allows t' url
           (circuit_trace evs (snd (webhook_circuit_allows t url m))))"
proof -
  have "probing t url (snd (webhook_circuit_allows t url m))"
    using assms(1-3) by (auto simp: probing_def webhook_circuit_allows_def split: option.splits if_splits)
  then have "probing t url (circuit_trace evs (snd (webhook_circuit_allows t url m)))"
    using assms(4) by (rule probing_trace)
  with assms(5,6) show ?thesis by (simp add: probing_refused)
qed

definition open_circuit :: "instant \<Rightarrow> circuit" where
  "open_circuit u = (circuit_default 0)\<lparr>failures := 25, opened_until := Some u\<rparr>"

lemma circuit_single_probe_witness:
  "\<not> fst (webhook_circuit_allows (secs 301) ''u''
      (circuit_trace [(secs 300, Ask ''u''), (secs 301, Report_fail ''v'' ''e'')]
         (snd (webhook_circuit_allows (secs 300) ''u'' [(''u'', open_circuit (secs 300))]))))"
  by (rule circuit_single_probe [where c = "open_circuit (secs 300)" and u = "secs 300"])
    (simp_all add: dm_get_def open_circuit_def circuit_default_def webhook_circuit_allows_def
      PROBE_TIMEOUT_def secs_def)

text \<open>A success closes the circuit whatever its state: the next delivery is let through,
  and suspending the receiver again takes 25 new failures, for the first cooldown of five
  minutes. The caller is told whether a suspension ended.\<close>

theorem circuit_success_closes:
  assumes "dm_get m url = Some c"
  shows "fst (webhook_record_success now url m) = (opened_until c \<noteq> None) \<and>
    fst (webhook_circuit_allows t url (snd (webhook_record_success now url m))) \<and>
    fst (fail_run rs url (snd (webhook_record_success now url m))) =
      (if length rs < 25 then replicate (length rs) Noop
       else replicate 24 Noop @ Suspended (secs 300) # replicate (length rs - 25) Noop)"
proof (intro conjI)
  show "fst (webhook_record_success now url m) = (opened_until c \<noteq> None)"
    using assms by (simp add: webhook_record_success_def)
  show "fst (webhook_circuit_allows t url (snd (webhook_record_success now url m)))"
    using assms by (simp add: webhook_record_success_def webhook_circuit_allows_def)
  show "fst (fail_run rs url (snd (webhook_record_success now url m))) =
      (if length rs < 25 then replicate (length rs) Noop
       else replicate 24 Noop @ Suspended (secs 300) # replicate (length rs - 25) Noop)"
    using assms fail_run_closed [of 0 "snd (webhook_record_success now url m)" url 25 rs]
    by (simp add: webhook_record_success_def dm_or_def)
qed

lemma circuit_success_closes_witness:
  "fst (fail_run (replicate 3 (secs 10, ''e'')) ''u''
      (snd (webhook_record_success (secs 9) ''u'' [(''u'', open_circuit (secs 8))])))
   = [Noop, Noop, Noop]"
  using circuit_success_closes [of "[(''u'', open_circuit (secs 8))]" "''u''" _ "secs 9" 0
      "replicate 3 (secs 10, ''e'')"]
  by (simp add: dm_get_def numeral_3_eq_3)

text \<open>A run of probes against a receiver that keeps failing: each asks, then reports.\<close>

fun probe_run :: "(instant \<times> string) list \<Rightarrow> string \<Rightarrow> circuit dash \<Rightarrow> (bool \<times> failure_action) list" where
  "probe_run [] url m = []"
| "probe_run ((now, err) # rs) url m =
     (let (ok, m1) = webhook_circuit_allows now url m;
          (a, m2) = webhook_record_failure now url err m1
      in (ok, a) # probe_run rs url m2)"

fun spaced :: "instant \<Rightarrow> instant list \<Rightarrow> bool" where
  "spaced u [] = True"
| "spaced u (t # ts) = (u \<le> t \<and> spaced (t + secs 3600) ts)"

lemma spaced_mono: "spaced u ts \<Longrightarrow> v \<le> u \<Longrightarrow> spaced v ts"
  by (cases ts) auto

lemma probe_run_ladder:
  "dm_get m url = Some c \<Longrightarrow> opened_until c = Some u \<Longrightarrow> probe_started c = None \<Longrightarrow>
   trips c + length rs < 2 ^ 32 - 1 \<Longrightarrow> spaced u (map fst rs) \<Longrightarrow>
   probe_run rs url m =
     map (\<lambda>n. (True, Suspended (webhook_cooldown n))) [trips c + 1 ..< trips c + 1 + length rs]"
proof (induction rs arbitrary: m c u)
  case (Cons r rs)
  obtain now err where r: "r = (now, err)" by (cases r)
  have now: "u \<le> now" and sp: "spaced (now + secs 3600) (map fst rs)"
    using Cons.prems(5) by (simp_all add: r)
  define c1 where "c1 = c\<lparr>probe_started := Some now\<rparr>"
  define c2 where "c2 = c1\<lparr>last_event := now, circuit_error := Some (take 200 err),
    probe_started := None, trips := trips c + 1,
    opened_until := Some (now + webhook_cooldown (trips c + 1))\<rparr>"
  have c2: "trips c2 = trips c + 1" "probe_started c2 = None"
    "opened_until c2 = Some (now + webhook_cooldown (trips c + 1))"
    by (simp_all add: c2_def)
  have ask: "webhook_circuit_allows now url m = (True, dm_put url c1 m)"
    using Cons.prems now by (simp add: webhook_circuit_allows_def c1_def)
  have "webhook_record_failure now url err (dm_put url c1 m) =
      (Suspended (webhook_cooldown (trips c + 1)), dm_put url c2 (dm_put url c1 m))"
    using Cons.prems
    by (simp add: webhook_record_failure_def dm_or_def c1_def c2_def Let_def)
  moreover have "probe_run rs url (dm_put url c2 (dm_put url c1 m)) =
      map (\<lambda>n. (True, Suspended (webhook_cooldown n))) [trips c2 + 1 ..< trips c2 + 1 + length rs]"
    using Cons.prems c2 sp webhook_cooldown_bounds [of "trips c + 1"]
    by (intro Cons.IH [of _ c2 "now + webhook_cooldown (trips c + 1)"])
      (auto intro: spaced_mono)
  ultimately show ?case using ask by (simp add: r c2 upt_conv_Cons del: upt_Suc)
qed simp

text \<open>The cooldown ladder: a receiver that fails every hourly probe after its first
  suspension is suspended for 10, 20 and 40 minutes and then an hour each time, and every
  one of these probes is let through.\<close>

theorem circuit_probe_ladder:
  assumes "dm_get m url = Some c" and "opened_until c = Some u" and "probe_started c = None"
    and "trips c = 0" and "length rs < 2 ^ 32 - 1" and "spaced u (map fst rs)"
  shows "probe_run rs url m =
    map (\<lambda>s. (True, Suspended (secs s)))
      (take (length rs) ([600, 1200, 2400] @ replicate (length rs) 3600))"
proof -
  have ladder: "map webhook_cooldown [1 ..< n + 1] =
      map secs (take n ([600, 1200, 2400] @ replicate n 3600))" for n
  proof (rule nth_equalityI)
    fix i assume "i < length (map webhook_cooldown [1 ..< n + 1])"
    then have i: "i < n" by (simp del: upt_Suc)
    show "map webhook_cooldown [1 ..< n + 1] ! i =
      map secs (take n ([600, 1200, 2400] @ replicate n 3600)) ! i"
    proof (cases "i < 3")
      case True
      then have "i = 0 \<or> i = 1 \<or> i = 2" by linarith
      with i show ?thesis
        by (auto simp: nth_append webhook_cooldown_table numeral_2_eq_2 numeral_3_eq_3
            webhook_cooldown_table(4,5) [unfolded numeral_2_eq_2 numeral_3_eq_3] simp del: upt_Suc)
    next
      case False
      with i show ?thesis by (simp add: webhook_cooldown_table nth_append del: upt_Suc)
    qed
  qed (simp del: upt_Suc)
  have "probe_run rs url m = map (Pair True \<circ> Suspended) (map webhook_cooldown [1 ..< length rs + 1])"
    using probe_run_ladder [OF assms(1-3) _ assms(6)] assms(4,5) by (simp add: comp_def add.commute)
  also have "\<dots> = map (Pair True \<circ> Suspended)
      (map secs (take (length rs) ([600, 1200, 2400] @ replicate (length rs) 3600)))"
    unfolding ladder ..
  finally show ?thesis by (simp only: list.map_comp comp_def)
qed

lemma circuit_probe_ladder_witness:
  "probe_run [(secs 10, ''e''), (secs 4000, ''e''), (secs 8000, ''e''), (secs 12000, ''e'')] ''u''
     [(''u'', open_circuit (secs 5))]
   = map (Pair True) [Suspended (secs 600), Suspended (secs 1200), Suspended (secs 2400), Suspended (secs 3600)]"
  using circuit_probe_ladder [of "[(''u'', open_circuit (secs 5))]" "''u''" "open_circuit (secs 5)"
      "secs 5" "[(secs 10, ''e''), (secs 4000, ''e''), (secs 8000, ''e''), (secs 12000, ''e'')]"]
  by (simp add: dm_get_def open_circuit_def circuit_default_def secs_def)

end
