(* ===== verification/Gateway_Config.thy ===== *)
theory Gateway_Config
  imports Waxum_Prelude
begin

text \<open>
  The policies read once from the environment at start-up (\<open>src/state.rs\<close>): webhook
  retries and the account-lock cooldown ladder, and the delay before each delivery attempt.
  The environment is a function from variable names to optional values.
\<close>

type_synonym environment = "string \<Rightarrow> string option"

record webhook_retry_config =
  max_attempts :: nat
  retry_on_4xx :: bool
  dlq_capacity :: nat

definition parse_positive_usize :: "string option \<Rightarrow> nat option" where
  "parse_positive_usize v =
     (case Option.bind v (parse_unsigned 64) of
        None \<Rightarrow> None | Some n \<Rightarrow> if n > 0 then Some n else None)"

definition webhook_retry_from_env :: "environment \<Rightarrow> webhook_retry_config" where
  "webhook_retry_from_env env = \<lparr>
     max_attempts = (case parse_positive_usize (env ''WEBHOOK_RETRY_MAX_ATTEMPTS'') of
                       None \<Rightarrow> 3 | Some n \<Rightarrow> n),
     retry_on_4xx = (case env ''WEBHOOK_RETRY_ON_4XX'' of
                       None \<Rightarrow> True
                     | Some v \<Rightarrow> to_ascii_lowercase v \<notin> {''0'', ''false'', ''no'', ''off''}),
     dlq_capacity = (case parse_positive_usize (env ''WEBHOOK_DLQ_CAPACITY'') of
                       None \<Rightarrow> 100 | Some n \<Rightarrow> n) \<rparr>"

lemma parse_positive_usize_pos: "parse_positive_usize v = Some n \<Longrightarrow> 0 < n \<and> n < 2 ^ 64"
  by (auto simp: parse_positive_usize_def bind_eq_Some_conv dest: parse_unsigned_bound
      split: option.splits if_splits)

definition retry_config_ok :: "webhook_retry_config \<Rightarrow> bool" where
  "retry_config_ok c \<longleftrightarrow> 0 < max_attempts c \<and> max_attempts c < 2 ^ 64 \<and>
     0 < dlq_capacity c \<and> dlq_capacity c < 2 ^ 64"

lemma webhook_retry_from_env_ok: "retry_config_ok (webhook_retry_from_env env)"
  using parse_positive_usize_pos
  by (auto simp: retry_config_ok_def webhook_retry_from_env_def split: option.splits)

text \<open>The account-lock ladder: a comma-separated list of positive seconds.\<close>

definition positive_i64s :: "string \<Rightarrow> int list" where
  "positive_i64s raw =
     filter (\<lambda>n. 0 < n) (List.map_filter (\<lambda>s. parse_i64 (trim_str s)) (split_on (CHR '','') raw))"

definition account_lock_schedule_from_env :: "environment \<Rightarrow> int list" where
  "account_lock_schedule_from_env env =
     (case map_option positive_i64s (env ''ACCOUNT_LOCK_BACKOFF_SECS'') of
        None \<Rightarrow> [300, 900, 3600]
      | Some v \<Rightarrow> if v = [] then [300, 900, 3600] else v)"

lemma account_lock_schedule_ok:
  "account_lock_schedule_from_env env \<noteq> [] \<and> (\<forall>n \<in> set (account_lock_schedule_from_env env). 0 < n)"
  by (auto simp: account_lock_schedule_from_env_def positive_i64s_def split: option.splits)

text \<open>
  Delay in seconds before attempt \<open>n\<close> (from 0): \<open>u64::saturating_mul\<close> and
  \<open>u64::saturating_pow\<close>, with the exponent cast from \<open>usize\<close> to \<open>u32\<close>.
\<close>

definition webhook_retry_delay :: "nat \<Rightarrow> nat" where
  "webhook_retry_delay n =
     (if n = 0 then 0 else if n = 1 then 5 else if n = 2 then 30
      else min (sat 64 (60 * sat 64 (2 ^ ((n - 3) mod 2 ^ 32)))) 300)"

lemma webhook_retry_delay_le: "webhook_retry_delay n \<le> 300"
  by (simp add: webhook_retry_delay_def)

lemma webhook_retry_delay_table:
  "map webhook_retry_delay [0..<8] = [0, 5, 30, 60, 120, 240, 300, 300]"
  by (simp add: webhook_retry_delay_def sat_def upt_rec)

lemma two_pow_ge_8: "3 \<le> (k :: nat) \<Longrightarrow> (8 :: nat) \<le> 2 ^ k"
  using power_increasing [of 3 k "2 :: nat"] by simp

lemma webhook_retry_delay_capped:
  assumes "6 \<le> n" and "n < 2 ^ 32"
  shows "webhook_retry_delay n = 300"
proof -
  have "(8 :: nat) \<le> 2 ^ ((n - 3) mod 2 ^ 32)"
    using assms by (intro two_pow_ge_8) simp
  then have "(8 :: nat) \<le> sat 64 (2 ^ ((n - 3) mod 2 ^ 32))"
    by (simp add: sat_def)
  then have "480 \<le> 60 * sat 64 (2 ^ ((n - 3) mod 2 ^ 32))" by simp
  then have "480 \<le> sat 64 (60 * sat 64 (2 ^ ((n - 3) mod 2 ^ 32)))"
    by (simp add: sat_def)
  with assms show ?thesis by (simp add: webhook_retry_delay_def)
qed

lemma webhook_retry_delay_mono:
  assumes "m \<le> n" and "n < 2 ^ 32"
  shows "webhook_retry_delay m \<le> webhook_retry_delay n"
proof (cases "n < 8")
  case True
  have small: "\<forall>a < 8. \<forall>b < 8. a \<le> b \<longrightarrow> map webhook_retry_delay [0..<8] ! a \<le> map webhook_retry_delay [0..<8] ! b"
    unfolding webhook_retry_delay_table by (simp add: All_less_Suc numeral_eq_Suc)
  from True assms show ?thesis using small by simp
next
  case False
  with assms show ?thesis
    using webhook_retry_delay_capped [of n] webhook_retry_delay_le [of m] by simp
qed

end
