(* ===== verification/Bounded_Ring.thy ===== *)
theory Bounded_Ring
  imports Waxum_Prelude
begin

text \<open>
  The interface that the gateway's bounded buffers share: the ring of console events, the
  dead-letter ring of a session and the window of recently forwarded message keys are all
  a queue that drops its oldest elements when a new one would exceed a capacity. The laws
  are stated once; each component interprets the locale on its own push operation.
  \<open>ok x s\<close> says when pushing \<open>x\<close> in state \<open>s\<close> changes the ring at all; the extension
  \<open>open_ring\<close> is for the buffers that accept every element.
\<close>

locale bounded_ring =
  fixes items :: "'s \<Rightarrow> 'x list"
    and cap :: "'s \<Rightarrow> nat"
    and inv :: "'s \<Rightarrow> bool"
    and ok :: "'x \<Rightarrow> 's \<Rightarrow> bool"
    and push :: "'x \<Rightarrow> 's \<Rightarrow> 's"
  assumes cap_pos: "inv s \<Longrightarrow> 0 < cap s"
    and within: "inv s \<Longrightarrow> length (items s) \<le> cap s"
    and push_inv: "inv s \<Longrightarrow> ok x s \<Longrightarrow> inv (push x s)"
    and push_cap: "inv s \<Longrightarrow> ok x s \<Longrightarrow> cap (push x s) = cap s"
    and items_push: "inv s \<Longrightarrow> ok x s \<Longrightarrow>
      items (push x s) = drop (length (items s) + 1 - cap s) (items s @ [x])"
begin

lemma push_last: "inv s \<Longrightarrow> ok x s \<Longrightarrow> items (push x s) \<noteq> [] \<and> last (items (push x s)) = x"
  using cap_pos [of s] within [of s] by (auto simp: items_push last_drop)

lemma push_grows: "inv s \<Longrightarrow> ok x s \<Longrightarrow> length (items s) < cap s \<Longrightarrow> items (push x s) = items s @ [x]"
  by (simp add: items_push)

lemma push_evicts:
  assumes "inv s" and "ok x s" and "length (items s) = cap s"
  shows "items (push x s) = tl (items s) @ [x]"
  using assms cap_pos [of s] by (cases "items s") (auto simp: items_push)

lemma push_keeps_newer:
  assumes "inv s" and "ok x s"
  shows "set (items (push x s)) \<subseteq> insert x (set (items s))"
proof -
  have "set (items (push x s)) \<subseteq> set (items s @ [x])"
    unfolding items_push [OF assms] by (rule set_drop_subset)
  then show ?thesis by simp
qed

lemma push_newest:
  assumes "inv s" and "ok x s"
  shows "rev (items (push x s)) = take (cap s) (x # rev (items s))"
proof (cases "length (items s) < cap s")
  case True
  with assms show ?thesis by (simp add: push_grows)
next
  case False
  with assms within [of s] have full: "length (items s) = cap s" by simp
  obtain c where c: "cap s = Suc c" using cap_pos [OF assms(1)] by (cases "cap s") auto
  from full c obtain y ys where ys: "items s = y # ys" and "length ys = c"
    by (cases "items s") auto
  with full c assms show ?thesis by (simp add: push_evicts)
qed

end

locale open_ring = bounded_ring +
  assumes always_ok: "ok x s"
begin

lemma fold_inv: "inv s \<Longrightarrow> inv (fold push xs s) \<and> cap (fold push xs s) = cap s"
  by (induction xs arbitrary: s) (auto simp: push_inv push_cap always_ok)

lemma fold_newest:
  "inv s \<Longrightarrow> rev (items (fold push xs s)) = take (cap s) (rev xs @ rev (items s))"
proof (induction xs arbitrary: s)
  case Nil
  then show ?case using within by simp
next
  case (Cons x xs)
  have "rev (items (fold push xs (push x s)))
      = take (cap s) (rev xs @ rev (items (push x s)))"
    using Cons by (simp add: push_inv push_cap always_ok)
  also have "\<dots> = take (cap s) (rev xs @ x # rev (items s))"
    using Cons.prems by (simp add: push_newest always_ok min_def)
  finally show ?case by simp
qed

lemma fold_within: "inv s \<Longrightarrow> length (items (fold push xs s)) \<le> cap s"
  by (metis fold_inv within)

end

end
