(* ===== verification/Webhook_Hub.thy ===== *)
theory Webhook_Hub
  imports Session_Db Webhook_Circuit Gateway_Config Bounded_Ring Api_Error
begin

text \<open>
  Webhook delivery in \<open>AppState\<close> (\<open>src/state.rs\<close>): the ring of console events, the registry of
  webhooks, the dead-letter ring of each session, the fan-out of an event and one delivery run
  with its retries. The state \<open>hub\<close> extends the database of \<open>Session_Db\<close> with the in-memory
  parts; its clocks are the current readings of the monotonic clock (\<open>hub_mono\<close>), of the wall
  clock in seconds (\<open>db_now\<close>) and in milliseconds (\<open>hub_ms\<close>).

  A delivery task runs beside everything else: it reads the state only once all its
  requests are done, so \<open>deliver_attempts\<close> computes the requests and their outcome from the
  receiver's answers alone, and \<open>deliver_webhook\<close> applies the outcome to the state found then.
\<close>

record console_event =
  ev_session :: string
  ev_type :: string
  ev_summary :: string
  ev_at_ms :: int

record dlq_entry =
  dlq_id :: string
  dlq_session :: string
  dlq_url :: string
  dlq_event :: string
  dlq_payload :: string
  dlq_secret :: "string option"
  dlq_error :: string
  dlq_attempts :: nat
  dlq_failed_at :: unix

record hub = session_db +
  hub_mono :: instant
  hub_ms :: int
  hub_retry :: webhook_retry_config
  hub_webhooks :: "webhook_config dash dash"
  hub_circuits :: "circuit dash"
  hub_dlq :: "dlq_entry list dash"
  hub_ring :: "console_event list"

text \<open>
  What the libraries provide: JSON text, the HMAC-SHA256 of a message as hexadecimal
  (\<open>None\<close> if the key is refused), the text of an HTTP status, and fresh identifiers.
\<close>

record libs =
  parse_json :: "string \<Rightarrow> json option"
  print_json :: "json \<Rightarrow> string"
  hmac_sha256 :: "string \<Rightarrow> (string \<Rightarrow> string) option"
  status_text :: "nat \<Rightarrow> string"

section \<open>The ring of console events\<close>

definition first_nonempty :: "string list \<Rightarrow> string option" where
  "first_nonempty xs = find (\<lambda>s. s \<noteq> []) xs"

text \<open>\<open>CHR 0x97\<close> stands for the dash of the source text, one character there too.\<close>

definition summarize_event :: "libs \<Rightarrow> string \<Rightarrow> string \<Rightarrow> string" where
  "summarize_event lib event payload =
     (case parse_json lib payload of
        None \<Rightarrow> []
      | Some parsed \<Rightarrow>
          let data = (case json_get ''data'' parsed of None \<Rightarrow> parsed | Some d \<Rightarrow> d);
              txt = (\<lambda>key. or_empty (Option.bind (json_get key data) json_as_str));
              line =
                (if event = ''message'' then
                   let who = or_empty (first_nonempty [txt ''push_name'', txt ''from_phone'', txt ''chat'']);
                       body = (case first_nonempty [txt ''text'', txt ''caption''] of
                                 Some b \<Rightarrow> b | None \<Rightarrow> ''['' @ txt ''message_type'' @ '']'');
                       direction = (if Option.bind (json_get ''is_from_me'' data) json_as_bool = Some True
                                    then ''to'' else ''from'')
                   in direction @ '' '' @ who @ '': '' @ body
                 else if event = ''qr_code'' then ''new QR ready to scan''
                 else if event = ''pair_code'' then ''pair code issued''
                 else if event = ''webhook_suspended'' then
                   txt ''url'' @ '' '' @ [CHR 0x97] @ '' retry in ''
                   @ show_nat ((case Option.bind (json_get ''retry_in_seconds'' data) json_as_u64 of
                                  None \<Rightarrow> 0 | Some n \<Rightarrow> n) div 60)
                   @ '' min ('' @ txt ''last_error'' @ '')''
                 else if event = ''webhook_resumed'' then txt ''url''
                 else if event = ''pairing_code_error'' \<or> event = ''pair_error'' then txt ''error''
                 else if event \<in> {''disconnected'', ''logged_out'', ''connect_failure'', ''account_locked''}
                   then txt ''reason''
                 else if event = ''receipt'' then txt ''type''
                 else [])
          in take 140 line)"

definition RING_MAX :: nat where "RING_MAX = 200"

definition ring_push :: "console_event \<Rightarrow> console_event list \<Rightarrow> console_event list" where
  "ring_push e ring = (if length ring \<ge> RING_MAX then tl ring else ring) @ [e]"

definition push_event :: "libs \<Rightarrow> string \<Rightarrow> string \<Rightarrow> string \<Rightarrow> 'h hub_scheme \<Rightarrow> 'h hub_scheme" where
  "push_event lib sid event payload h =
     h\<lparr>hub_ring := ring_push \<lparr> ev_session = sid, ev_type = event,
        ev_summary = summarize_event lib event payload, ev_at_ms = hub_ms h \<rparr> (hub_ring h)\<rparr>"

definition recent_events :: "nat \<Rightarrow> 'h hub_scheme \<Rightarrow> console_event list" where
  "recent_events limit h = take limit (rev (hub_ring h))"

interpretation event_ring: open_ring
  "\<lambda>r. r" "\<lambda>_. RING_MAX" "\<lambda>r. length r \<le> RING_MAX" "\<lambda>_ _. True" ring_push
proof unfold_locales
  fix s :: "console_event list" and x
  assume "length s \<le> RING_MAX"
  then show "ring_push x s = drop (length s + 1 - RING_MAX) (s @ [x])"
    by (cases s) (auto simp: ring_push_def RING_MAX_def le_Suc_eq drop_Suc)
qed (auto simp: ring_push_def RING_MAX_def)

section \<open>The registry\<close>

definition register_webhook_mem :: "string \<Rightarrow> string \<Rightarrow> webhook_config \<Rightarrow> 'h hub_scheme \<Rightarrow> 'h hub_scheme" where
  "register_webhook_mem sid wid config h =
     h\<lparr>hub_webhooks := dm_put sid (dm_put wid config (dm_or [] (hub_webhooks h) sid)) (hub_webhooks h)\<rparr>"

definition get_webhooks :: "string \<Rightarrow> 'h hub_scheme \<Rightarrow> (string \<times> webhook_config) list" where
  "get_webhooks sid h = dm_or [] (hub_webhooks h) sid"

definition remove_webhook ::
    "string \<Rightarrow> string \<Rightarrow> 'h hub_scheme \<Rightarrow> webhook_config option \<times> 'h hub_scheme" where
  "remove_webhook sid wid h =
     (case dm_get (hub_webhooks h) sid of
        None \<Rightarrow> (None, h)
      | Some m \<Rightarrow> (dm_get m wid, h\<lparr>hub_webhooks := dm_put sid (dm_remove wid m) (hub_webhooks h)\<rparr>))"

definition set_webhook_enabled ::
    "string \<Rightarrow> string \<Rightarrow> bool \<Rightarrow> 'h hub_scheme \<Rightarrow> bool \<times> 'h hub_scheme" where
  "set_webhook_enabled sid wid on h =
     (case dm_get (hub_webhooks h) sid of
        None \<Rightarrow> (False, h)
      | Some m \<Rightarrow>
          (case dm_get m wid of
             None \<Rightarrow> (False, h)
           | Some config \<Rightarrow>
               (True, h\<lparr>hub_webhooks := dm_put sid (dm_put wid (config\<lparr>wc_enabled := on\<rparr>) m) (hub_webhooks h),
                        hub_circuits := dm_remove (wc_url config) (hub_circuits h)\<rparr>)))"

definition purge_webhooks_for_session :: "string \<Rightarrow> 'h hub_scheme \<Rightarrow> 'h hub_scheme" where
  "purge_webhooks_for_session sid h =
     h\<lparr>hub_webhooks := dm_remove sid (hub_webhooks h), hub_dlq := dm_remove sid (hub_dlq h)\<rparr>"

section \<open>The dead-letter ring\<close>

text \<open>
  \<open>while ring.len() >= capacity { ring.pop_front() }\<close>. With capacity 0 the loop never ends,
  which is the result \<open>None\<close>.
\<close>

partial_function (option) dlq_evict :: "nat \<Rightarrow> 'a list \<Rightarrow> 'a list option" where
  "dlq_evict capacity ring =
     (if length ring \<ge> capacity then dlq_evict capacity (tl ring) else Some ring)"

definition dlq_ring_push :: "'a \<Rightarrow> nat \<Rightarrow> 'a list \<Rightarrow> 'a list option" where
  "dlq_ring_push e capacity ring = map_option (\<lambda>r. r @ [e]) (dlq_evict capacity ring)"

definition webhook_dlq_push :: "dlq_entry \<Rightarrow> 'h hub_scheme \<Rightarrow> 'h hub_scheme option" where
  "webhook_dlq_push e h =
     (case dlq_ring_push e (dlq_capacity (hub_retry h)) (dm_or [] (hub_dlq h) (dlq_session e)) of
        None \<Rightarrow> None
      | Some ring \<Rightarrow> Some (h\<lparr>hub_dlq := dm_put (dlq_session e) ring (hub_dlq h)\<rparr>))"

definition webhook_dlq_list :: "string \<Rightarrow> 'h hub_scheme \<Rightarrow> dlq_entry list" where
  "webhook_dlq_list sid h = rev (dm_or [] (hub_dlq h) sid)"

definition webhook_dlq_take ::
    "string \<Rightarrow> string \<Rightarrow> 'h hub_scheme \<Rightarrow> dlq_entry option \<times> 'h hub_scheme" where
  "webhook_dlq_take sid eid h =
     (case dm_get (hub_dlq h) sid of
        None \<Rightarrow> (None, h)
      | Some ring \<Rightarrow>
          (case find (\<lambda>e. dlq_id e = eid) ring of
             None \<Rightarrow> (None, h)
           | Some e \<Rightarrow>
               (Some e, h\<lparr>hub_dlq := dm_put sid
                  (takeWhile (\<lambda>e. dlq_id e \<noteq> eid) ring @ tl (dropWhile (\<lambda>e. dlq_id e \<noteq> eid) ring))
                  (hub_dlq h)\<rparr>)))"

lemma dlq_evict_result: "0 < capacity \<Longrightarrow> dlq_evict capacity ring = Some (drop (length ring + 1 - capacity) ring)"
proof (induction ring)
  case Nil
  then show ?case by (simp add: dlq_evict.simps)
next
  case (Cons x ring)
  then show ?case by (subst dlq_evict.simps) (auto simp: Suc_diff_le)
qed

lemma dlq_push_result:
  "0 < capacity \<Longrightarrow>
   dlq_ring_push e capacity ring = Some (drop (length ring + 1 - capacity) (ring @ [e]))"
  by (simp add: dlq_ring_push_def dlq_evict_result)

interpretation dlq_ring: open_ring
  snd fst "\<lambda>(capacity, ring). 0 < capacity \<and> length ring \<le> capacity" "\<lambda>_ _. True"
  "\<lambda>e (capacity, ring). (capacity, the (dlq_ring_push e capacity ring))"
  by unfold_locales (auto simp: dlq_push_result)

end
