(* ===== verification/Webhook_Delivery.thy ===== *)
theory Webhook_Delivery
  imports Webhook_Hub "HOL-Library.Sublist"
begin

text \<open>
  One delivery run (\<open>deliver_webhook\<close>) and the fan-out of an event to the webhooks of a
  session (\<open>broadcast_to_webhooks\<close>), both in \<open>src/state.rs\<close>. The receiver is a function from
  the number of the attempt and the request to its answer, arbitrary in every lemma; so are
  the wall-clock readings of the attempts.
\<close>

record http_request =
  req_url :: string
  req_headers :: "(string \<times> string) list"
  req_body :: string

datatype reply = Responded nat | TransportError string

record receiver =
  answer :: "nat \<Rightarrow> http_request \<Rightarrow> reply"
  sent_at :: "nat \<Rightarrow> unix"

definition is_success_status :: "nat \<Rightarrow> bool" where
  "is_success_status s \<longleftrightarrow> 200 \<le> s \<and> s < 300"

definition is_client_error :: "nat \<Rightarrow> bool" where
  "is_client_error s \<longleftrightarrow> 400 \<le> s \<and> s < 500"

definition WEBHOOK_SIGNATURE_VERSION :: string where
  "WEBHOOK_SIGNATURE_VERSION = ''v2''"

definition build_request ::
    "libs \<Rightarrow> string \<Rightarrow> string option \<Rightarrow> string \<Rightarrow> unix \<Rightarrow> http_request" where
  "build_request lib url secret payload timestamp =
     \<lparr> req_url = url,
       req_headers =
         [(''Content-Type'', ''application/json''),
          (''X-Webhook-Timestamp'', show_int timestamp),
          (''X-Webhook-Signature-Version'', WEBHOOK_SIGNATURE_VERSION)] @
         (case secret of
            None \<Rightarrow> []
          | Some s \<Rightarrow>
              (case hmac_sha256 lib s of
                 None \<Rightarrow> []
               | Some mac \<Rightarrow> [(''X-Webhook-Signature'',
                   ''sha256='' @ mac (show_int timestamp @ ''.'' @ payload))])),
       req_body = payload \<rparr>"

datatype run_outcome = Accepted | GaveUp "string option"

text \<open>Refused for good: a 4xx other than 408 and 429 when 4xx are not to be retried.\<close>

definition not_retried :: "webhook_retry_config \<Rightarrow> nat \<Rightarrow> bool" where
  "not_retried cfg status \<longleftrightarrow>
     \<not> retry_on_4xx cfg \<and> is_client_error status \<and> status \<noteq> 408 \<and> status \<noteq> 429"

text \<open>
  The attempt loop: \<open>attempt\<close> is the loop variable, \<open>k\<close> the attempts left, \<open>last_err\<close> the last
  error. The result lists the requests with the delay slept before each.
\<close>

fun deliver_attempts ::
    "libs \<Rightarrow> webhook_retry_config \<Rightarrow> receiver \<Rightarrow> string \<Rightarrow> string option \<Rightarrow> string
     \<Rightarrow> nat \<Rightarrow> nat \<Rightarrow> string option \<Rightarrow> (nat \<times> http_request) list \<times> run_outcome" where
  "deliver_attempts lib cfg rcv url secret payload attempt 0 last_err = ([], GaveUp last_err)"
| "deliver_attempts lib cfg rcv url secret payload attempt (Suc k) last_err =
     (let delay = webhook_retry_delay attempt;
          req = build_request lib url secret payload (sent_at rcv attempt)
      in case answer rcv attempt req of
           Responded status \<Rightarrow>
             if is_success_status status then ([(delay, req)], Accepted)
             else if not_retried cfg status
                  then ([(delay, req)], GaveUp (Some (''HTTP '' @ status_text lib status)))
                  else (let (reqs, out) = deliver_attempts lib cfg rcv url secret payload (Suc attempt) k
                              (Some (''HTTP '' @ status_text lib status))
                        in ((delay, req) # reqs, out))
         | TransportError e \<Rightarrow>
             (let (reqs, out) = deliver_attempts lib cfg rcv url secret payload (Suc attempt) k (Some e)
              in ((delay, req) # reqs, out)))"

definition deliver_run ::
    "libs \<Rightarrow> webhook_retry_config \<Rightarrow> receiver \<Rightarrow> string \<Rightarrow> string option \<Rightarrow> string
     \<Rightarrow> (nat \<times> http_request) list \<times> run_outcome" where
  "deliver_run lib cfg rcv url secret payload =
     deliver_attempts lib cfg rcv url secret payload 0 (max (max_attempts cfg) 1) None"

definition suspended_note :: "libs \<Rightarrow> string \<Rightarrow> instant \<Rightarrow> string \<Rightarrow> string" where
  "suspended_note lib url cooldown err =
     print_json lib (JObj [(''url'', JStr url), (''retry_in_seconds'', JInt (int (cooldown div 1000000000))),
       (''last_error'', JStr err)])"

text \<open>
  The end of the run, in the state \<open>h\<close> found then. \<open>uuid\<close> is the fresh identifier of the
  dead letter. \<open>None\<close> is the endless eviction loop of a zero capacity. The number of attempts
  goes to the database \<open>as i32\<close>, which wraps.
\<close>

definition as_i32 :: "nat \<Rightarrow> int" where
  "as_i32 n = (if n mod 2 ^ 32 < 2 ^ 31 then int (n mod 2 ^ 32) else int (n mod 2 ^ 32) - 2 ^ 32)"

definition deliver_webhook ::
    "libs \<Rightarrow> receiver \<Rightarrow> string \<Rightarrow> string \<Rightarrow> string \<Rightarrow> string \<Rightarrow> string option \<Rightarrow> string
     \<Rightarrow> 'h hub_scheme \<Rightarrow> (bool \<times> 'h hub_scheme) option" where
  "deliver_webhook lib rcv uuid sid event url secret payload h =
     (case snd (deliver_run lib (hub_retry h) rcv url secret payload) of
        Accepted \<Rightarrow>
          (let (resumed, cs) = webhook_record_success (hub_mono h) url (hub_circuits h);
               h1 = h\<lparr>hub_circuits := cs\<rparr>
           in Some (True,
                if resumed then push_event lib sid ''webhook_resumed'' (print_json lib (JObj [(''url'', JStr url)])) h1
                else h1))
      | GaveUp None \<Rightarrow> Some (False, h)
      | GaveUp (Some err) \<Rightarrow>
          (let (action, cs) = webhook_record_failure (hub_mono h) url err (hub_circuits h);
               h1 = h\<lparr>hub_circuits := cs\<rparr>;
               h2 = (case action of
                       Suspended cooldown \<Rightarrow> push_event lib sid ''webhook_suspended'' (suspended_note lib url cooldown err) h1
                     | Noop \<Rightarrow> h1)
           in case webhook_dlq_push
                     \<lparr> dlq_id = uuid, dlq_session = sid, dlq_url = url, dlq_event = event,
                       dlq_payload = payload, dlq_secret = secret, dlq_error = err,
                       dlq_attempts = max (max_attempts (hub_retry h)) 1, dlq_failed_at = db_now h \<rparr> h2 of
                None \<Rightarrow> None
              | Some h3 \<Rightarrow> Some (False,
                  record_failure sid url event payload err (as_i32 (max (max_attempts (hub_retry h)) 1)) h3)))"

record delivery =
  dl_session :: string
  dl_event :: string
  dl_url :: string
  dl_secret :: "string option"
  dl_payload :: string

text \<open>The fan-out: the result lists the delivery tasks it spawns, in order.\<close>

fun broadcast_loop ::
    "string \<Rightarrow> string \<Rightarrow> string \<Rightarrow> (string \<times> webhook_config) list \<Rightarrow> 'h hub_scheme
     \<Rightarrow> delivery list \<times> 'h hub_scheme" where
  "broadcast_loop sid event payload [] h = ([], h)"
| "broadcast_loop sid event payload ((wid, config) # rest) h =
     (if \<not> wc_enabled config then broadcast_loop sid event payload rest h
      else if \<not> subscribed (wc_events config) event then broadcast_loop sid event payload rest h
      else
        let (ok, cs) = webhook_circuit_allows (hub_mono h) (wc_url config) (hub_circuits h);
            h1 = h\<lparr>hub_circuits := cs\<rparr>
        in if \<not> ok
           then broadcast_loop sid event payload rest
                  (h1\<lparr>hub_circuits := webhook_note_skipped (wc_url config) (hub_circuits h1)\<rparr>)
           else
             let (ds, h2) = broadcast_loop sid event payload rest h1
             in (\<lparr> dl_session = sid, dl_event = event, dl_url = wc_url config,
                   dl_secret = wc_secret config, dl_payload = payload \<rparr> # ds, h2))"

definition broadcast_to_webhooks ::
    "libs \<Rightarrow> string \<Rightarrow> string \<Rightarrow> string \<Rightarrow> 'h hub_scheme \<Rightarrow> delivery list \<times> 'h hub_scheme" where
  "broadcast_to_webhooks lib sid event payload h =
     (let h1 = push_event lib sid event payload h
      in broadcast_loop sid event payload (get_webhooks sid h1) h1)"

section \<open>The requests of a run\<close>

definition accepted_by :: "receiver \<Rightarrow> nat \<Rightarrow> http_request \<Rightarrow> bool" where
  "accepted_by rcv i req \<longleftrightarrow> (\<exists>s. answer rcv i req = Responded s \<and> is_success_status s)"

definition refused_by :: "webhook_retry_config \<Rightarrow> receiver \<Rightarrow> nat \<Rightarrow> http_request \<Rightarrow> bool" where
  "refused_by cfg rcv i req \<longleftrightarrow> (\<exists>s. answer rcv i req = Responded s \<and> \<not> is_success_status s \<and> not_retried cfg s)"

text \<open>What a receiver that retries are for sees: the first decisive attempt, if any.\<close>

definition stops_at :: "libs \<Rightarrow> webhook_retry_config \<Rightarrow> receiver \<Rightarrow> string \<Rightarrow> string option \<Rightarrow> string \<Rightarrow> nat \<Rightarrow> bool" where
  "stops_at lib cfg rcv url secret payload i \<longleftrightarrow>
     (let req = build_request lib url secret payload (sent_at rcv i)
      in accepted_by rcv i req \<or> refused_by cfg rcv i req)"

lemma deliver_attempts_requests:
  "fst (deliver_attempts lib cfg rcv url secret payload a k last_err) =
     map (\<lambda>i. (webhook_retry_delay i, build_request lib url secret payload (sent_at rcv i)))
       (let stop = takeWhile (\<lambda>i. \<not> stops_at lib cfg rcv url secret payload i) [a ..< a + k]
        in if length stop < k then stop @ [a + length stop] else stop)"
proof (induction k arbitrary: a last_err)
  case (Suc k)
  have upt: "[a ..< a + Suc k] = a # [Suc a ..< Suc a + k]" by (simp add: upt_conv_Cons del: upt_Suc)
  show ?case
    unfolding upt
    using Suc.IH [of "Suc a"]
    by (auto simp: stops_at_def accepted_by_def refused_by_def Let_def split_beta
        split: reply.splits if_splits)
qed simp

lemma deliver_attempts_outcome:
  "snd (deliver_attempts lib cfg rcv url secret payload a k last_err) = Accepted \<longleftrightarrow>
     (\<exists>i. a \<le> i \<and> i < a + k \<and> accepted_by rcv i (build_request lib url secret payload (sent_at rcv i)) \<and>
        (\<forall>j. a \<le> j \<and> j < i \<longrightarrow> \<not> stops_at lib cfg rcv url secret payload j))"
proof (induction k arbitrary: a last_err)
  case (Suc k)
  let ?req = "\<lambda>i. build_request lib url secret payload (sent_at rcv i)"
  show ?case
    unfolding first_between_Suc
    by (auto simp: Suc.IH stops_at_def accepted_by_def refused_by_def Let_def split_beta
        split: reply.splits if_splits)
qed simp

lemma deliver_attempts_some_error:
  "snd (deliver_attempts lib cfg rcv url secret payload a k last_err) = GaveUp None \<Longrightarrow> k = 0 \<and> last_err = None"
  by (induction k arbitrary: a last_err) (auto simp: Let_def split_beta split: reply.splits if_splits)

text \<open>C1. A delivery run succeeds exactly when the receiver accepts one of the configured number
  of attempts and gave no final answer before that one.\<close>

theorem deliver_succeeds_iff:
  "(\<exists>h'. deliver_webhook lib rcv uuid sid event url secret payload h = Some (True, h')) \<longleftrightarrow>
   (\<exists>i. i < max (max_attempts (hub_retry h)) 1 \<and>
      accepted_by rcv i (build_request lib url secret payload (sent_at rcv i)) \<and>
      list_all (\<lambda>j. \<not> stops_at lib (hub_retry h) rcv url secret payload j) [0 ..< i])"
proof -
  have "(\<exists>h'. deliver_webhook lib rcv uuid sid event url secret payload h = Some (True, h')) \<longleftrightarrow>
      snd (deliver_run lib (hub_retry h) rcv url secret payload) = Accepted"
    by (auto simp: deliver_webhook_def Let_def split_beta split: run_outcome.splits option.splits)
  then show ?thesis
    by (simp add: deliver_run_def deliver_attempts_outcome list_all_iff Ball_def)
qed

text \<open>The requests of a run: at least one and at most the configured number, the first at
  once and each later one after its back-off delay; a run ends before the limit only at an
  attempt the receiver accepted or refused for good. Every request carries the payload
  unchanged, and with a secret a signature over exactly the time stamp it names and that
  payload.\<close>

theorem deliver_requests:
  "\<exists>n. 1 \<le> n \<and> n \<le> max (max_attempts cfg) 1 \<and>
     fst (deliver_run lib cfg rcv url secret payload) =
       map (\<lambda>i. (webhook_retry_delay i,
             \<lparr> req_url = url,
               req_headers = [(''Content-Type'', ''application/json''),
                 (''X-Webhook-Timestamp'', show_int (sent_at rcv i)),
                 (''X-Webhook-Signature-Version'', ''v2'')] @
                 (case Option.bind secret (hmac_sha256 lib) of None \<Rightarrow> []
                  | Some mac \<Rightarrow> [(''X-Webhook-Signature'',
                      ''sha256='' @ mac (show_int (sent_at rcv i) @ ''.'' @ payload))]),
               req_body = payload \<rparr>)) [0 ..< n] \<and>
     list_all (\<lambda>i. \<not> stops_at lib cfg rcv url secret payload i) [0 ..< n - 1] \<and>
     (n = max (max_attempts cfg) 1 \<or> stops_at lib cfg rcv url secret payload (n - 1))"
proof -
  define k where "k = max (max_attempts cfg) 1"
  define S where "S = stops_at lib cfg rcv url secret payload"
  define stop where "stop = takeWhile (\<lambda>i. \<not> S i) [0 ..< k]"
  have req: "build_request lib url secret payload t =
      \<lparr> req_url = url, req_headers = [(''Content-Type'', ''application/json''),
         (''X-Webhook-Timestamp'', show_int t), (''X-Webhook-Signature-Version'', ''v2'')] @
         (case Option.bind secret (hmac_sha256 lib) of None \<Rightarrow> []
          | Some mac \<Rightarrow> [(''X-Webhook-Signature'', ''sha256='' @ mac (show_int t @ ''.'' @ payload))]),
        req_body = payload \<rparr>" for t
    by (simp add: build_request_def WEBHOOK_SIGNATURE_VERSION_def split: option.splits)
  have stop: "stop = [0 ..< length stop]"
    unfolding stop_def by (metis (no_types) add_0 length_upt minus_nat.diff_0 takeWhile_eq_take take_upt
        length_takeWhile_le)
  have le: "length stop \<le> k" unfolding stop_def using length_takeWhile_le [of _ "[0 ..< k]"] by simp
  have before: "list_all (\<lambda>i. \<not> S i) [0 ..< length stop]"
    using set_takeWhileD [of _ "\<lambda>i. \<not> S i" "[0 ..< k]"] stop by (metis list_all_iff stop_def)
  have at: "S (length stop)" if "length stop < k"
    using nth_length_takeWhile [of "\<lambda>i. \<not> S i" "[0 ..< k]"] that by (simp add: stop_def)
  define n where "n = (if length stop < k then Suc (length stop) else length stop)"
  have "[0 ..< n] = (if length stop < k then stop @ [0 + length stop] else stop)"
    using stop by (auto simp: n_def)
  then have "fst (deliver_run lib cfg rcv url secret payload) =
      map (\<lambda>i. (webhook_retry_delay i, build_request lib url secret payload (sent_at rcv i))) [0 ..< n]"
    unfolding deliver_run_def deliver_attempts_requests k_def [symmetric] S_def [symmetric] Let_def
    by (simp add: stop_def)
  moreover have "1 \<le> n \<and> n \<le> k" using le by (auto simp: n_def k_def)
  moreover have "list_all (\<lambda>i. \<not> S i) [0 ..< n - 1]"
    using before by (cases "length stop < k") (auto simp: n_def list_all_iff)
  moreover have "n = k \<or> S (n - 1)" using at le by (auto simp: n_def)
  ultimately show ?thesis unfolding req k_def S_def by blast
qed

section \<open>The effect of a run\<close>

definition hub_ok :: "'h hub_scheme \<Rightarrow> bool" where
  "hub_ok h \<longleftrightarrow> retry_config_ok (hub_retry h) \<and>
     (\<forall>sid. length (dm_or [] (hub_dlq h) sid) \<le> dlq_capacity (hub_retry h))"

lemma push_event_frame [simp]:
  "hub_dlq (push_event lib sid event payload h) = hub_dlq h"
  "hub_circuits (push_event lib sid event payload h) = hub_circuits h"
  "hub_webhooks (push_event lib sid event payload h) = hub_webhooks h"
  "hub_retry (push_event lib sid event payload h) = hub_retry h"
  "hub_mono (push_event lib sid event payload h) = hub_mono h"
  "db_now (push_event lib sid event payload h) = db_now h"
  by (simp_all add: push_event_def)

lemma record_failure_frame [simp]:
  fixes h :: "'h hub_scheme"
  shows "hub_dlq (record_failure sid url event payload err n h) = hub_dlq h"
    and "hub_circuits (record_failure sid url event payload err n h) = hub_circuits h"
    and "hub_webhooks (record_failure sid url event payload err n h) = hub_webhooks h"
    and "hub_retry (record_failure sid url event payload err n h) = hub_retry h"
    and "hub_ring (record_failure sid url event payload err n h) = hub_ring h"
  by (simp_all add: record_failure_def db_ignore_def db_stmt_def split: list.splits option.splits)

lemma rev_drop_take: "rev (drop (length r + 1 - c) (r @ [x])) = take c (x # rev r)"
proof -
  have "rev (drop (length ys - c) ys) = take c (rev ys)" for ys :: "'a list"
    by (cases "c \<le> length ys") (simp_all add: rev_drop)
  from this [of "r @ [x]"] show ?thesis by simp
qed

lemma dlq_push_spec:
  assumes "0 < dlq_capacity (hub_retry h)"
  obtains h' where "webhook_dlq_push e h = Some h'"
    and "webhook_dlq_list (dlq_session e) h'
      = take (dlq_capacity (hub_retry h)) (e # webhook_dlq_list (dlq_session e) h)"
    and "\<And>sid. sid \<noteq> dlq_session e \<Longrightarrow> dm_or [] (hub_dlq h') sid = dm_or [] (hub_dlq h) sid"
    and "hub_circuits h' = hub_circuits h" and "hub_webhooks h' = hub_webhooks h"
    and "hub_retry h' = hub_retry h"
proof -
  define ring where "ring = dm_or [] (hub_dlq h) (dlq_session e)"
  define r' where "r' = drop (length ring + 1 - dlq_capacity (hub_retry h)) (ring @ [e])"
  have push: "webhook_dlq_push e h = Some (h\<lparr>hub_dlq := dm_put (dlq_session e) r' (hub_dlq h)\<rparr>)"
    using assms by (simp only: webhook_dlq_push_def dlq_push_result ring_def r'_def option.case)
  have rev: "rev r' = take (dlq_capacity (hub_retry h)) (e # webhook_dlq_list (dlq_session e) h)"
    unfolding r'_def webhook_dlq_list_def ring_def by (rule rev_drop_take)
  show thesis
    by (rule that [OF push]) (use rev in \<open>simp_all add: webhook_dlq_list_def dm_or_def\<close>)
qed

lemma deliver_outcome:
  assumes "hub_ok h"
  shows "case deliver_webhook lib rcv uuid sid event url secret payload h of
      None \<Rightarrow> False
    | Some (ok, h') \<Rightarrow>
        hub_webhooks h' = hub_webhooks h \<and> hub_ok h' \<and>
        (\<forall>other. other = sid \<or> webhook_dlq_list other h' = webhook_dlq_list other h) \<and>
        (if ok
         then webhook_dlq_list sid h' = webhook_dlq_list sid h \<and>
              hub_circuits h' = snd (webhook_record_success (hub_mono h) url (hub_circuits h))
         else \<exists>err. hub_circuits h' = snd (webhook_record_failure (hub_mono h) url err (hub_circuits h)) \<and>
              webhook_dlq_list sid h' = take (dlq_capacity (hub_retry h))
                (\<lparr> dlq_id = uuid, dlq_session = sid, dlq_url = url, dlq_event = event,
                   dlq_payload = payload, dlq_secret = secret, dlq_error = err,
                   dlq_attempts = max_attempts (hub_retry h), dlq_failed_at = db_now h \<rparr>
                 # webhook_dlq_list sid h))"
proof (cases "snd (deliver_run lib (hub_retry h) rcv url secret payload)")
  case Accepted
  with assms show ?thesis
    by (auto simp: deliver_webhook_def Let_def split_beta webhook_dlq_list_def hub_ok_def)
next
  case (GaveUp res)
  have pos: "0 < max_attempts (hub_retry h)" "0 < dlq_capacity (hub_retry h)"
    using assms by (simp_all add: hub_ok_def retry_config_ok_def)
  have mx: "max (max_attempts (hub_retry h)) 1 = max_attempts (hub_retry h)" using pos by simp
  from GaveUp obtain err where err: "res = Some err"
    using deliver_attempts_some_error [of lib "hub_retry h" rcv url secret payload 0
        "max (max_attempts (hub_retry h)) 1" None]
    by (cases res) (auto simp: deliver_run_def)
  define entry where "entry = \<lparr> dlq_id = uuid, dlq_session = sid, dlq_url = url, dlq_event = event,
      dlq_payload = payload, dlq_secret = secret, dlq_error = err,
      dlq_attempts = max_attempts (hub_retry h), dlq_failed_at = db_now h \<rparr>"
  define action where "action = fst (webhook_record_failure (hub_mono h) url err (hub_circuits h))"
  define h1 where "h1 = h\<lparr>hub_circuits := snd (webhook_record_failure (hub_mono h) url err (hub_circuits h))\<rparr>"
  define h2 where "h2 = (case action of
      Suspended cooldown \<Rightarrow> push_event lib sid ''webhook_suspended'' (suspended_note lib url cooldown err) h1
    | Noop \<Rightarrow> h1)"
  have h2: "hub_dlq h2 = hub_dlq h" "hub_retry h2 = hub_retry h" "hub_webhooks h2 = hub_webhooks h"
    "hub_circuits h2 = snd (webhook_record_failure (hub_mono h) url err (hub_circuits h))"
    by (simp_all add: h2_def h1_def split: failure_action.split)
  have "0 < dlq_capacity (hub_retry h2)" using pos h2 by simp
  then obtain h3 where h3: "webhook_dlq_push entry h2 = Some h3"
      "webhook_dlq_list sid h3 = take (dlq_capacity (hub_retry h2)) (entry # webhook_dlq_list sid h2)"
      "\<And>o'. o' \<noteq> sid \<Longrightarrow> dm_or [] (hub_dlq h3) o' = dm_or [] (hub_dlq h2) o'"
      "hub_circuits h3 = hub_circuits h2" "hub_webhooks h3 = hub_webhooks h2" "hub_retry h3 = hub_retry h2"
    by (rule dlq_push_spec [where e = entry]) (simp add: entry_def)
  define h4 where "h4 = record_failure sid url event payload err (as_i32 (max_attempts (hub_retry h))) h3"
  have "deliver_webhook lib rcv uuid sid event url secret payload h = Some (False, h4)"
    unfolding deliver_webhook_def GaveUp err run_outcome.case option.case Let_def split_beta mx
      h1_def [symmetric] action_def [symmetric] h2_def [symmetric] entry_def [symmetric]
    by (simp add: h3(1) h4_def)
  moreover have "length (dm_or [] (hub_dlq h4) o') \<le> dlq_capacity (hub_retry h)" for o'
  proof (cases "o' = sid")
    case True
    have "length (webhook_dlq_list sid h4) \<le> dlq_capacity (hub_retry h)"
      using h3(2) h2 by (simp add: h4_def webhook_dlq_list_def)
    with True show ?thesis by (simp add: webhook_dlq_list_def)
  next
    case False
    with assms h3(3) h2 show ?thesis by (simp add: h4_def hub_ok_def)
  qed
  moreover have "webhook_dlq_list sid h4 = take (dlq_capacity (hub_retry h)) (entry # webhook_dlq_list sid h)"
    using h3(2) h2 by (simp add: h4_def webhook_dlq_list_def)
  moreover have "\<forall>other. other = sid \<or> webhook_dlq_list other h4 = webhook_dlq_list other h"
    using h3(3) h2 by (auto simp: h4_def webhook_dlq_list_def)
  ultimately show ?thesis
    using assms h2 h3 by (auto simp: h4_def hub_ok_def entry_def)
qed

text \<open>C2. What a delivery run leaves behind. It always ends. When it succeeded the circuit of the
  URL is reset and nothing is dead-lettered; when it failed, one dead letter with the event,
  the unchanged payload and the secret is the newest of its session's ring, which keeps the
  newest entries up to its capacity, and the failure is counted against the URL. No other
  session's ring and no registered webhook is touched.\<close>

theorem deliver_effect:
  assumes "hub_ok h"
  shows "case deliver_webhook lib rcv uuid sid event url secret payload h of
      None \<Rightarrow> False
    | Some (ok, h') \<Rightarrow>
        hub_webhooks h' = hub_webhooks h \<and> hub_ok h' \<and>
        (\<forall>other. other = sid \<or> webhook_dlq_list other h' = webhook_dlq_list other h) \<and>
        (if ok
         then webhook_dlq_list sid h' = webhook_dlq_list sid h \<and>
              hub_circuits h' = snd (webhook_record_success (hub_mono h) url (hub_circuits h))
         else \<exists>err. hub_circuits h' = snd (webhook_record_failure (hub_mono h) url err (hub_circuits h)) \<and>
              webhook_dlq_list sid h' = take (dlq_capacity (hub_retry h))
                (\<lparr> dlq_id = uuid, dlq_session = sid, dlq_url = url, dlq_event = event,
                   dlq_payload = payload, dlq_secret = secret, dlq_error = err,
                   dlq_attempts = max_attempts (hub_retry h), dlq_failed_at = db_now h \<rparr>
                 # webhook_dlq_list sid h))"
  using assms by (rule deliver_outcome)

definition demo_libs :: libs where
  "demo_libs = \<lparr> parse_json = (\<lambda>s. None), print_json = (\<lambda>j. ''{}''),
     hmac_sha256 = (\<lambda>k. Some (\<lambda>m. k @ m)), status_text = show_nat \<rparr>"

definition demo_hub :: "webhook_retry_config \<Rightarrow> hub" where
  "demo_hub cfg = \<lparr> db_driver = SQLite, db_faults = [], db_now = 100, sessions = [], webhook_rows = [],
     contact_rows = [], dlq_rows = [], hub_mono = 0, hub_ms = 100000, hub_retry = cfg,
     hub_webhooks = [], hub_circuits = [], hub_dlq = [], hub_ring = [] \<rparr>"

definition demo_retry :: webhook_retry_config where
  "demo_retry = \<lparr> max_attempts = 5, retry_on_4xx = False, dlq_capacity = 2 \<rparr>"

definition gone_receiver :: receiver where
  "gone_receiver = \<lparr> answer = (\<lambda>i r. Responded 410), sent_at = (\<lambda>i. 100) \<rparr>"

lemma demo_hub_ok: "hub_ok (demo_hub demo_retry)"
  by (simp add: hub_ok_def demo_hub_def demo_retry_def retry_config_ok_def dm_or_def)

lemma deliver_effect_witness:
  "deliver_webhook demo_libs gone_receiver ''i'' ''s'' ''message'' ''u'' None ''p'' (demo_hub demo_retry) \<noteq> None"
  using deliver_effect [OF demo_hub_ok, where lib = demo_libs and rcv = gone_receiver and
      uuid = "''i''" and sid = "''s''" and event = "''message''" and url = "''u''" and secret = None and
      payload = "''p''"]
  by (auto split: option.splits)

text \<open>The number of attempts in a dead letter is the configured limit and not the number
  made: with 4xx retries off, a receiver that refuses the first request for good is asked
  once, and its dead letter says the full count.\<close>

theorem dead_letter_overstates_attempts:
  assumes "hub_ok h" and "refused_by (hub_retry h) rcv 0 (build_request lib url secret payload (sent_at rcv 0))"
  shows "length (fst (deliver_run lib (hub_retry h) rcv url secret payload)) = 1 \<and>
    (\<exists>h'. deliver_webhook lib rcv uuid sid event url secret payload h = Some (False, h') \<and>
       map dlq_attempts (take 1 (webhook_dlq_list sid h')) = [max_attempts (hub_retry h)])"
proof -
  have pos: "0 < max_attempts (hub_retry h)" "0 < dlq_capacity (hub_retry h)"
    using assms(1) by (simp_all add: hub_ok_def retry_config_ok_def)
  then obtain k where k: "max (max_attempts (hub_retry h)) 1 = Suc k"
    by (metis Suc_pred max_def less_one not_less)
  obtain s where s: "answer rcv 0 (build_request lib url secret payload (sent_at rcv 0)) = Responded s"
      "\<not> is_success_status s" "not_retried (hub_retry h) s"
    using assms(2) by (auto simp: refused_by_def)
  have run: "deliver_run lib (hub_retry h) rcv url secret payload =
      ([(0, build_request lib url secret payload (sent_at rcv 0))], GaveUp (Some (''HTTP '' @ status_text lib s)))"
    unfolding deliver_run_def k using s by (simp add: webhook_retry_delay_def)
  note outcome = deliver_outcome [OF assms(1), where lib = lib and rcv = rcv and uuid = uuid and
      sid = sid and event = event and url = url and secret = secret and payload = payload]
  have "\<nexists>h'. deliver_webhook lib rcv uuid sid event url secret payload h = Some (True, h')"
    by (auto simp: deliver_webhook_def run Let_def split_beta split: option.splits)
  then obtain h' where h': "deliver_webhook lib rcv uuid sid event url secret payload h = Some (False, h')"
    using outcome by (cases "deliver_webhook lib rcv uuid sid event url secret payload h") auto
  with outcome pos run
  show ?thesis by (cases "dlq_capacity (hub_retry h)") auto
qed

lemma dead_letter_overstates_attempts_witness:
  "length (fst (deliver_run demo_libs demo_retry gone_receiver ''u'' None ''p'')) = 1 \<and>
   (\<exists>h'. deliver_webhook demo_libs gone_receiver ''i'' ''s'' ''message'' ''u'' None ''p'' (demo_hub demo_retry)
       = Some (False, h') \<and> map dlq_attempts (take 1 (webhook_dlq_list ''s'' h')) = [5])"
  using dead_letter_overstates_attempts [OF demo_hub_ok, of gone_receiver demo_libs "''u''" None "''p''"
      "''i''" "''s''" "''message''"]
  by (simp add: refused_by_def gone_receiver_def is_success_status_def not_retried_def demo_hub_def
      demo_retry_def is_client_error_def)

section \<open>The fan-out\<close>

definition wanted :: "string \<Rightarrow> string \<Rightarrow> string \<Rightarrow> (string \<times> webhook_config) list \<Rightarrow> delivery list" where
  "wanted sid event payload ws =
     map (\<lambda>(wid, config). \<lparr> dl_session = sid, dl_event = event, dl_url = wc_url config,
            dl_secret = wc_secret config, dl_payload = payload \<rparr>)
       (filter (\<lambda>(wid, config). wc_enabled config \<and> subscribed (wc_events config) event) ws)"

definition circuit_closed :: "string \<Rightarrow> circuit dash \<Rightarrow> bool" where
  "circuit_closed url m \<longleftrightarrow> (case dm_get m url of None \<Rightarrow> True | Some c \<Rightarrow> opened_until c = None)"

lemma allows_other [frame_simps]:
  "v \<noteq> u \<Longrightarrow> dm_get (snd (webhook_circuit_allows now u m)) v = dm_get m v"
  by (simp add: webhook_circuit_allows_def split: option.splits)

lemma skipped_other [frame_simps]:
  "v \<noteq> u \<Longrightarrow> dm_get (webhook_note_skipped u m) v = dm_get m v"
  by (simp add: webhook_note_skipped_def split: option.splits)

lemma allows_closed: "circuit_closed u m \<Longrightarrow> webhook_circuit_allows now u m = (True, m)"
  by (cases "dm_get m u") (simp_all add: circuit_closed_def webhook_circuit_allows_def)

text \<open>How many deliveries to \<open>u\<close> get through at one instant: all of them on a closed circuit,
  otherwise the one probe if it is due.\<close>

definition admitted :: "instant \<Rightarrow> string \<Rightarrow> circuit dash \<Rightarrow> delivery list \<Rightarrow> delivery list" where
  "admitted now u m ds =
     (if circuit_closed u m then ds else if fst (webhook_circuit_allows now u m) then take 1 ds else [])"

lemma admitted_cong:
  "dm_get m u = dm_get m' u \<Longrightarrow> admitted now u m ds = admitted now u m' ds"
  by (simp add: admitted_def circuit_closed_def webhook_circuit_allows_def split: option.splits)

lemma admitted_after_allow:
  assumes "fst (webhook_circuit_allows now u m)"
  shows "admitted now u m (d # ds) = d # admitted now u (snd (webhook_circuit_allows now u m)) ds"
  using assms
  by (auto simp: admitted_def circuit_closed_def webhook_circuit_allows_def PROBE_TIMEOUT_def secs_def
      split: option.splits if_splits)

lemma admitted_after_skip:
  assumes "\<not> fst (webhook_circuit_allows now u m)"
  shows "admitted now u m ds = []"
    and "admitted now u (webhook_note_skipped u (snd (webhook_circuit_allows now u m))) ds = []"
  using assms
  by (auto simp: admitted_def circuit_closed_def webhook_circuit_allows_def webhook_note_skipped_def
      split: option.splits if_splits)

lemma broadcast_loop_spec:
  "subseq (fst (broadcast_loop sid event payload ws h)) (wanted sid event payload ws) \<and>
   filter (\<lambda>d. dl_url d = u) (fst (broadcast_loop sid event payload ws h))
     = admitted (hub_mono h) u (hub_circuits h) (filter (\<lambda>d. dl_url d = u) (wanted sid event payload ws))"
proof (induction ws arbitrary: h)
  case Nil
  show ?case by (simp add: wanted_def admitted_def)
next
  case (Cons w ws)
  obtain wid config where w: "w = (wid, config)" by (cases w)
  define d where "d = \<lparr> dl_session = sid, dl_event = event, dl_url = wc_url config,
            dl_secret = wc_secret config, dl_payload = payload \<rparr>"
  show ?case
  proof (cases "wc_enabled config \<and> subscribed (wc_events config) event")
    case False
    then have "wanted sid event payload (w # ws) = wanted sid event payload ws"
      by (auto simp: wanted_def w)
    with False Cons.IH [of h] show ?thesis by (auto simp: w)
  next
    case True
    then have want: "wanted sid event payload (w # ws) = d # wanted sid event payload ws"
      by (simp add: wanted_def w d_def)
    obtain ok cs where ask: "webhook_circuit_allows (hub_mono h) (wc_url config) (hub_circuits h) = (ok, cs)"
      by fastforce
    show ?thesis
    proof (cases ok)
      case ok: True
      let ?h = "h\<lparr>hub_circuits := cs\<rparr>"
      have loop: "fst (broadcast_loop sid event payload (w # ws) h) = d # fst (broadcast_loop sid event payload ws ?h)"
        using True ok by (simp add: w ask d_def split_beta Let_def)
      show ?thesis
        using Cons.IH [of ?h] ask ok admitted_after_allow [of "hub_mono h" u "hub_circuits h" d]
          admitted_cong [of cs u "hub_circuits h"] allows_other [of u "wc_url config" "hub_mono h" "hub_circuits h"]
        by (cases "wc_url config = u") (auto simp: loop want d_def)
    next
      case skip: False
      let ?h = "h\<lparr>hub_circuits := webhook_note_skipped (wc_url config) cs\<rparr>"
      have loop: "fst (broadcast_loop sid event payload (w # ws) h) = fst (broadcast_loop sid event payload ws ?h)"
        using True skip by (simp add: w ask)
      show ?thesis
        using Cons.IH [of ?h] ask skip admitted_after_skip [of "hub_mono h" u "hub_circuits h"]
          admitted_cong [of "webhook_note_skipped (wc_url config) cs" u "hub_circuits h"]
          allows_other [of u "wc_url config" "hub_mono h" "hub_circuits h"] skipped_other [of u "wc_url config" cs]
        by (cases "wc_url config = u") (auto simp: loop want d_def)
    qed
  qed
qed

lemma broadcast_loop_ring [frame_simps]:
  "hub_ring (snd (broadcast_loop sid event payload ws h)) = hub_ring h"
proof (induction ws arbitrary: h)
  case (Cons w ws)
  then show ?case by (cases w) (auto simp: Let_def split_beta)
qed simp

text \<open>The fan-out of an event spawns, in order, deliveries only to enabled webhooks of the
  session that subscribe to the event, with the webhook's secret and the unchanged payload;
  per URL it spawns all of them while the circuit is closed, none while it is suspended, and
  just one, the probe, when the cooldown is over. The event becomes the newest of the console's
  ring, which drops its oldest event when it already holds 200.\<close>

theorem broadcast_targets:
  "subseq (fst (broadcast_to_webhooks lib sid event payload h)) (wanted sid event payload (get_webhooks sid h)) \<and>
   filter (\<lambda>d. dl_url d = u) (fst (broadcast_to_webhooks lib sid event payload h))
     = (let ds = filter (\<lambda>d. dl_url d = u) (wanted sid event payload (get_webhooks sid h))
        in if circuit_closed u (hub_circuits h) then ds
           else if fst (webhook_circuit_allows (hub_mono h) u (hub_circuits h)) then take 1 ds else []) \<and>
   (\<forall>limit. recent_events limit (snd (broadcast_to_webhooks lib sid event payload h))
     = take limit (\<lparr> ev_session = sid, ev_type = event, ev_summary = summarize_event lib event payload,
         ev_at_ms = hub_ms h \<rparr> # rev (if 200 \<le> length (hub_ring h) then tl (hub_ring h) else hub_ring h)))"
  using broadcast_loop_spec [of sid event payload "get_webhooks sid h" "push_event lib sid event payload h" u]
  by (simp add: broadcast_to_webhooks_def get_webhooks_def admitted_def Let_def recent_events_def
      frame_simps push_event_def ring_push_def RING_MAX_def)

end
