(* ===== verification/Recent_Ids.thy ===== *)
theory Recent_Ids
  imports Bounded_Ring
begin

text \<open>
  \<open>RecentMessageIds\<close> of \<open>src/state.rs\<close>: the window of message keys a session has
  forwarded, kept as a queue for the eviction order and a set for the membership test.
  The lemmas show that the two agree, that the window never exceeds its capacity, and that
  a key is suppressed exactly while it is among the last \<open>capacity\<close> keys that were let
  through.
\<close>

record recent_ids =
  order :: "string list"
  seen :: "string set"
  capacity :: nat

definition recent_ids_new :: "nat \<Rightarrow> recent_ids" where
  "recent_ids_new cap = \<lparr> order = [], seen = {}, capacity = max cap 1 \<rparr>"

definition first_sighting :: "string \<Rightarrow> recent_ids \<Rightarrow> bool \<times> recent_ids" where
  "first_sighting key r =
     (if key \<in> seen r then (False, r)
      else
        let r1 = (if length (order r) \<ge> capacity r
                  then (case order r of
                          [] \<Rightarrow> r
                        | oldest # rest \<Rightarrow> r\<lparr>order := rest, seen := seen r - {oldest}\<rparr>)
                  else r)
        in (True, r1\<lparr>order := order r1 @ [key], seen := insert key (seen r1)\<rparr>))"

definition recent_inv :: "recent_ids \<Rightarrow> bool" where
  "recent_inv r \<longleftrightarrow> 0 < capacity r \<and> length (order r) \<le> capacity r \<and> distinct (order r) \<and>
     seen r = set (order r)"

lemma recent_invD:
  assumes "recent_inv r"
  shows "0 < capacity r" "length (order r) \<le> capacity r" "distinct (order r)"
    "seen r = set (order r)"
  using assms by (auto simp: recent_inv_def)

lemma recent_inv_new: "recent_inv (recent_ids_new cap)"
  by (simp add: recent_inv_def recent_ids_new_def)

lemma first_sighting_known:
  "key \<in> seen r \<Longrightarrow> first_sighting key r = (False, r)"
  by (simp add: first_sighting_def)

lemma first_sighting_fresh:
  assumes "recent_inv r" and "key \<notin> seen r"
  shows "first_sighting key r =
    (True, r\<lparr>order := drop (length (order r) + 1 - capacity r) (order r @ [key]),
             seen := set (drop (length (order r) + 1 - capacity r) (order r @ [key]))\<rparr>)"
proof (cases "length (order r) < capacity r")
  case True
  with assms show ?thesis by (simp add: first_sighting_def recent_inv_def)
next
  case False
  with assms(1) obtain x xs where xs: "order r = x # xs" and "capacity r = Suc (length xs)"
    by (cases "order r") (auto simp: recent_inv_def)
  with assms show ?thesis
    by (auto simp: first_sighting_def recent_inv_def)
qed

lemma recent_inv_push:
  assumes "recent_inv r" and "key \<notin> seen r"
  shows "recent_inv (snd (first_sighting key r))"
proof -
  have "distinct (order r @ [key])" using assms by (simp add: recent_inv_def)
  then have "distinct (drop (length (order r) + 1 - capacity r) (order r @ [key]))"
    by (rule distinct_drop)
  moreover have "length (drop (length (order r) + 1 - capacity r) (order r @ [key])) \<le> capacity r"
    using assms by (auto simp: recent_inv_def)
  ultimately show ?thesis using assms(1)
    unfolding first_sighting_fresh [OF assms] by (simp only: recent_inv_def snd_conv) simp
qed

lemma first_sighting_inv: "recent_inv r \<Longrightarrow> recent_inv (snd (first_sighting key r))"
  by (cases "key \<in> seen r") (simp_all add: first_sighting_known recent_inv_push)

lemma first_sighting_capacity [frame_simps]:
  "capacity (snd (first_sighting key r)) = capacity r"
  by (auto simp: first_sighting_def Let_def split: list.splits)

lemma first_sighting_result: "recent_inv r \<Longrightarrow> fst (first_sighting key r) \<longleftrightarrow> key \<notin> set (order r)"
  by (auto simp: recent_inv_def first_sighting_known first_sighting_fresh)

interpretation dedup: bounded_ring
  order capacity recent_inv "\<lambda>k r. k \<notin> seen r" "\<lambda>k r. snd (first_sighting k r)"
proof unfold_locales
  show "recent_inv (snd (first_sighting x s))" if "recent_inv s" and "x \<notin> seen s" for s x
    using that by (rule recent_inv_push)
qed (simp_all add: first_sighting_capacity first_sighting_fresh recent_invD)

text \<open>
  The keys a session forwards over a stream of deliveries: those whose first sighting is
  reported, in order, with the window the stream leaves behind.
\<close>

fun forward_run :: "string list \<Rightarrow> recent_ids \<Rightarrow> string list \<times> recent_ids" where
  "forward_run [] r = ([], r)"
| "forward_run (k # ks) r =
     (let (fresh, r1) = first_sighting k r; (out, r2) = forward_run ks r1
      in (if fresh then k # out else out, r2))"

text \<open>
  The abstract specification: a stream is forwarded key by key unless the key is one of
  the last \<open>n\<close> forwarded. \<open>out\<close> is what has been forwarded so far, newest first.
\<close>

fun window_spec :: "nat \<Rightarrow> string list \<Rightarrow> string list \<Rightarrow> string list" where
  "window_spec n out [] = []"
| "window_spec n out (k # ks) =
     (if k \<in> set (take n out) then window_spec n out ks
      else k # window_spec n (k # out) ks)"

lemma forward_run_refines_window:
  "recent_inv r \<Longrightarrow> rev (order r) = take (capacity r) out \<Longrightarrow>
   fst (forward_run ks r) = window_spec (capacity r) out ks"
proof (induction ks arbitrary: r out)
  case (Cons k ks)
  have eq: "seen r = set (take (capacity r) out)"
    using Cons.prems by (metis recent_inv_def set_rev)
  show ?case
  proof (cases "k \<in> seen r")
    case True
    with Cons eq show ?thesis by (simp add: first_sighting_known split_beta)
  next
    case False
    let ?r = "snd (first_sighting k r)"
    have "rev (order ?r) = take (capacity r) (k # rev (order r))"
      using Cons.prems(1) False by (rule dedup.push_newest)
    also have "\<dots> = take (capacity r) (k # out)"
      using Cons.prems by (cases "capacity r") (auto simp: min_def)
    finally have "fst (forward_run ks ?r) = window_spec (capacity r) (k # out) ks"
      using Cons.IH [of ?r "k # out"] Cons.prems(1)
      by (simp add: first_sighting_inv first_sighting_capacity)
    with False eq Cons.prems(1) show ?thesis
      by (simp add: split_beta first_sighting_fresh)
  qed
qed simp

text \<open>De-duplication implements its specification. Over any stream of keys, a new window of any size
  lets through exactly the keys the specification lets through: those not among the last
  \<open>n\<close> keys let through before them, where \<open>n\<close> is the size asked for, or 1 for 0.\<close>

theorem dedup_refines_window: "fst (forward_run ks (recent_ids_new n)) = window_spec (max n 1) [] ks"
  using forward_run_refines_window [of "recent_ids_new n" "[]" ks] recent_inv_new [of n]
  by (simp add: recent_ids_new_def)

lemma forward_run_inv: "recent_inv r \<Longrightarrow> recent_inv (snd (forward_run ks r))"
  by (induction ks arbitrary: r) (auto simp: split_beta first_sighting_inv)

lemma window_spec_no_repeat_within:
  assumes "length out + length ks \<le> n" and "distinct out"
  shows "distinct (rev out @ window_spec n out ks)"
  using assms
proof (induction ks arbitrary: out)
  case (Cons k ks)
  show ?case
  proof (cases "k \<in> set (take n out)")
    case True
    with Cons show ?thesis by simp
  next
    case False
    then have "k \<notin> set out" using Cons.prems by simp
    with Cons.IH [of "k # out"] Cons.prems False show ?thesis by simp
  qed
qed simp

end
