(* ===== verification/Session_Runtime.thy ===== *)
theory Session_Runtime
  imports Session_Db Recent_Ids Dash_Map Gateway_Config
begin

text \<open>
  The in-memory runtime of a session (\<open>SessionState\<close> of \<open>src/state.rs\<close>) and the table of
  runtimes in \<open>AppState\<close>. Every operation that reads the UTC clock takes the reading \<open>now\<close>. The
  WhatsApp client is a library object: its identity (the \<open>Arc\<close> it is shared by) and what the
  code observes of it are the fields of \<open>client\<close>, and the leases installed beside it are plain
  values. \<open>lock_strikes\<close> is a \<open>u32\<close> and saturates. What is sent on the event channel is kept by
  the lifecycle theories.
\<close>

record client_stats =
  frames_received :: nat
  messages_received :: nat
  messages_suppressed_duplicate :: nat
  events_dropped :: nat
  reconnects :: nat
  reconnect_errors :: nat
  last_data_received_ms :: nat

record client =
  cl_id :: nat
  cl_socket_connected :: bool
  cl_logged_in :: bool
  cl_phone :: "string option"
  cl_push_name :: string
  cl_paused :: bool
  cl_stats :: client_stats

record pair_state =
  last_qr_at :: "unix option"
  last_pair_code_at :: "unix option"
  pair_code_expires_at :: "unix option"
  pair_last_error :: "string option"
  pair_attempts :: nat

definition pair_state_default :: pair_state where
  "pair_state_default = \<lparr> last_qr_at = None, last_pair_code_at = None, pair_code_expires_at = None,
     pair_last_error = None, pair_attempts = 0 \<rparr>"

record session_state =
  ss_client :: "client option"
  ss_qr_codes :: "string list"
  ss_pair_code :: "string option"
  ss_status :: session_status
  ss_storage_path :: string
  ss_logout_history :: "unix list"
  ss_pair_state :: pair_state
  ss_reconnecting_since :: "unix option"
  ss_lock_cooldown_until :: "unix option"
  ss_lock_strikes :: nat
  ss_auto_reconnect :: bool
  ss_skip_history_sync :: bool
  ss_lease :: bool
  ss_chat_store :: bool
  ss_chat_store_subscription :: bool
  ss_recent_ids :: recent_ids
  ss_messages_forwarded :: nat
  ss_last_message_forwarded_at :: unix

definition session_state_new :: "string \<Rightarrow> session_state" where
  "session_state_new path = \<lparr> ss_client = None, ss_qr_codes = [], ss_pair_code = None,
     ss_status = StDisconnected, ss_storage_path = path, ss_logout_history = [],
     ss_pair_state = pair_state_default, ss_reconnecting_since = None,
     ss_lock_cooldown_until = None, ss_lock_strikes = 0, ss_auto_reconnect = True,
     ss_skip_history_sync = False, ss_lease = False, ss_chat_store = False,
     ss_chat_store_subscription = False, ss_recent_ids = recent_ids_new 4096,
     ss_messages_forwarded = 0, ss_last_message_forwarded_at = 0 \<rparr>"

text \<open>\<open>None\<close> is the panic of \<open>schedule.len() - 1\<close> on an empty schedule.\<close>

definition record_lock_cooldown ::
    "int list \<Rightarrow> unix \<Rightarrow> session_state \<Rightarrow> ((int \<times> unix) \<times> session_state) option" where
  "record_lock_cooldown schedule now s =
     (if schedule = [] then None
      else let strikes = sat_succ 32 (ss_lock_strikes s);
               idx = min (strikes - 1) (length schedule - 1);
               cooldown = schedule ! idx; until = now + cooldown
           in Some ((cooldown, until),
                s\<lparr>ss_lock_strikes := strikes, ss_lock_cooldown_until := Some until\<rparr>))"

definition clear_lock_cooldown :: "session_state \<Rightarrow> session_state" where
  "clear_lock_cooldown s = s\<lparr>ss_lock_cooldown_until := None, ss_lock_strikes := 0\<rparr>"

definition lock_cooldown_remaining :: "unix \<Rightarrow> session_state \<Rightarrow> int option" where
  "lock_cooldown_remaining now s =
     (case ss_lock_cooldown_until s of
        None \<Rightarrow> None
      | Some until \<Rightarrow> let remaining = until - now in if remaining > 0 then Some remaining else None)"

definition mark_reconnecting_now :: "unix \<Rightarrow> session_state \<Rightarrow> session_state" where
  "mark_reconnecting_now now s =
     (if ss_reconnecting_since s = None then s\<lparr>ss_reconnecting_since := Some now\<rparr> else s)"

definition clear_reconnecting :: "session_state \<Rightarrow> session_state" where
  "clear_reconnecting s = s\<lparr>ss_reconnecting_since := None\<rparr>"

definition reconnecting_for_secs :: "unix \<Rightarrow> session_state \<Rightarrow> int option" where
  "reconnecting_for_secs now s = map_option (\<lambda>since. max (now - since) 0) (ss_reconnecting_since s)"

definition clear_logout_history :: "session_state \<Rightarrow> session_state" where
  "clear_logout_history s = s\<lparr>ss_logout_history := []\<rparr>"

definition record_logout_and_should_purge :: "unix \<Rightarrow> session_state \<Rightarrow> bool \<times> session_state" where
  "record_logout_and_should_purge now s =
     (let hist = filter (\<lambda>t. now - t < 600) (ss_logout_history s) @ [now]
      in (length hist \<ge> 3, s\<lparr>ss_logout_history := hist\<rparr>))"

definition update_pair_state :: "(pair_state \<Rightarrow> pair_state) \<Rightarrow> session_state \<Rightarrow> session_state" where
  "update_pair_state f s = s\<lparr>ss_pair_state := f (ss_pair_state s)\<rparr>"

definition clear_pair_state :: "session_state \<Rightarrow> session_state" where
  "clear_pair_state s = s\<lparr>ss_pair_state := pair_state_default\<rparr>"

definition client_ready :: "client \<Rightarrow> bool" where
  "client_ready c \<longleftrightarrow> cl_socket_connected c \<and> cl_logged_in c"

definition get_live_client :: "session_state \<Rightarrow> client option" where
  "get_live_client s =
     (case ss_client s of None \<Rightarrow> None | Some c \<Rightarrow> if client_ready c then Some c else None)"

definition is_alive :: "session_state \<Rightarrow> bool" where
  "is_alive s = (case ss_client s of Some c \<Rightarrow> client_ready c | None \<Rightarrow> False)"

definition socket_alive :: "session_state \<Rightarrow> bool" where
  "socket_alive s = (case ss_client s of Some c \<Rightarrow> cl_socket_connected c | None \<Rightarrow> False)"

definition set_client :: "client option \<Rightarrow> session_state \<Rightarrow> session_state" where
  "set_client c s =
     (let s1 = (if c = None then s\<lparr>ss_lease := False, ss_chat_store := False,
                                   ss_chat_store_subscription := False\<rparr> else s)
      in s1\<lparr>ss_client := c\<rparr>)"

definition set_enc_decrypt_failed_lease :: "session_state \<Rightarrow> session_state" where
  "set_enc_decrypt_failed_lease s = s\<lparr>ss_lease := True\<rparr>"

definition set_chat_store :: "session_state \<Rightarrow> session_state" where
  "set_chat_store s = s\<lparr>ss_chat_store := True, ss_chat_store_subscription := True\<rparr>"

definition effective_status :: "session_state \<Rightarrow> session_status" where
  "effective_status s =
     (if ss_status s = StLoggedIn \<and> \<not> is_alive s then StConnecting else ss_status s)"

section \<open>The table of runtimes\<close>

definition get_or_create_session ::
    "string \<Rightarrow> string \<Rightarrow> session_state dash \<Rightarrow> session_state \<times> session_state dash" where
  "get_or_create_session sid path m =
     (case dm_get m sid of
        Some s \<Rightarrow> (s, m)
      | None \<Rightarrow> (session_state_new path, dm_put sid (session_state_new path) m))"

definition get_session_mem :: "string \<Rightarrow> session_state dash \<Rightarrow> session_state option" where
  "get_session_mem sid m = dm_get m sid"

definition remove_session_mem ::
    "string \<Rightarrow> session_state dash \<Rightarrow> session_state option \<times> session_state dash" where
  "remove_session_mem sid m = (dm_get m sid, dm_remove sid m)"

section \<open>Properties\<close>

fun lock_run :: "int list \<Rightarrow> unix list \<Rightarrow> session_state \<Rightarrow> (int \<times> unix) list option" where
  "lock_run schedule [] s = Some []"
| "lock_run schedule (now # nows) s =
     (case record_lock_cooldown schedule now s of
        None \<Rightarrow> None
      | Some (r, s') \<Rightarrow> map_option ((#) r) (lock_run schedule nows s'))"

lemma lock_run_ladder:
  "schedule \<noteq> [] \<Longrightarrow> ss_lock_strikes s + length nows < 2 ^ 32 \<Longrightarrow>
   lock_run schedule nows s =
     Some (map (\<lambda>(k, now). (schedule ! min k (length schedule - 1), now + schedule ! min k (length schedule - 1)))
       (zip [ss_lock_strikes s ..< ss_lock_strikes s + length nows] nows))"
proof (induction nows arbitrary: s)
  case (Cons now nows)
  then show ?case by (simp add: record_lock_cooldown_def Let_def upt_conv_Cons del: upt_Suc)
qed simp

text \<open>The account-lock ladder under any environment setting: with the schedule read from
  the environment no lock ever fails to give a positive cooldown, the k-th lock in a row
  waits the k-th entry of the schedule, the last entry repeats, and a manual reconnect
  starts the ladder again.\<close>

theorem lock_cooldown_ladder:
  assumes "length nows < 2 ^ 32"
  shows "let schedule = account_lock_schedule_from_env env;
             step = (\<lambda>k. schedule ! min k (length schedule - 1))
    in schedule \<noteq> [] \<and> list_all (\<lambda>d. 0 < d) schedule \<and>
       lock_run schedule nows (clear_lock_cooldown s) =
         Some (map (\<lambda>(k, now). (step k, now + step k)) (zip [0 ..< length nows] nows)) \<and>
       lock_cooldown_remaining now (clear_lock_cooldown s) = None"
  using assms(1) account_lock_schedule_ok [of env]
    lock_run_ladder [of "account_lock_schedule_from_env env" "clear_lock_cooldown s" nows]
  by (auto simp: Let_def clear_lock_cooldown_def lock_cooldown_remaining_def list_all_iff)

lemma lock_cooldown_ladder_witness:
  "lock_run (account_lock_schedule_from_env (\<lambda>_. None)) [0, 1000, 5000, 10000]
      (clear_lock_cooldown (session_state_new ''p''))
    = Some [(300, 300), (900, 1900), (3600, 8600), (3600, 13600)]"
  using lock_cooldown_ladder [of "[0, 1000, 5000, 10000]" "\<lambda>_. None"
      "session_state_new ''p''" 0]
  by (simp add: account_lock_schedule_from_env_def Let_def upt_rec del: lock_run.simps)

fun logout_run :: "unix list \<Rightarrow> session_state \<Rightarrow> bool list" where
  "logout_run [] s = []"
| "logout_run (now # nows) s =
     (let (purge, s') = record_logout_and_should_purge now s in purge # logout_run nows s')"

lemma filter_retained:
  "sorted (ts @ now # nows) \<Longrightarrow> t \<in> set (now # nows) \<Longrightarrow>
   filter (\<lambda>x. t - x < 600) (filter (\<lambda>x. now - x < (600 :: int)) ts) = filter (\<lambda>x. t - x < 600) ts"
  by (auto simp: sorted_append intro!: filter_cong)

lemma logout_run_window:
  assumes "sorted (ts @ nows)"
    and "\<And>t. t \<in> set nows \<Longrightarrow> filter (\<lambda>x. t - x < 600) (ss_logout_history s) = filter (\<lambda>x. t - x < 600) ts"
  shows "logout_run nows s = map (\<lambda>i. 3 \<le> length (filter (\<lambda>x. nows ! i - x < 600) (ts @ take (Suc i) nows))) [0 ..< length nows]"
  using assms
proof (induction nows arbitrary: s ts)
  case (Cons now nows)
  let ?s = "snd (record_logout_and_should_purge now s)"
  have hist: "ss_logout_history ?s = filter (\<lambda>x. now - x < 600) ts @ [now]"
    using Cons.prems(2) [of now] by (simp add: record_logout_and_should_purge_def Let_def)
  have "logout_run nows ?s = map (\<lambda>i. 3 \<le> length (filter (\<lambda>x. nows ! i - x < 600)
      ((ts @ [now]) @ take (Suc i) nows))) [0 ..< length nows]"
  proof (rule Cons.IH)
    show "sorted ((ts @ [now]) @ nows)" using Cons.prems(1) by simp
    show "filter (\<lambda>x. t - x < 600) (ss_logout_history ?s) = filter (\<lambda>x. t - x < 600) (ts @ [now])"
      if "t \<in> set nows" for t
      using filter_retained [OF Cons.prems(1), of t] that by (simp add: hist)
  qed
  moreover have "fst (record_logout_and_should_purge now s) =
      (3 \<le> length (filter (\<lambda>x. now - x < 600) (ts @ [now])))"
    using Cons.prems(2) [of now] by (simp add: record_logout_and_should_purge_def Let_def)
  moreover have "[0 ..< length (now # nows)] = 0 # map Suc [0 ..< length nows]"
    by (simp add: upt_conv_Cons map_Suc_upt del: upt_Suc)
  ultimately show ?case by (simp add: split_beta comp_def)
qed simp

text \<open>Auto-purge: over a session's logouts in the order they happen, a logout asks for the
  purge exactly when it is at least the third within the last ten minutes; forgetting the
  history makes the next two harmless.\<close>

theorem purge_iff_three_logouts_in_window:
  assumes "sorted nows"
  shows "logout_run nows (clear_logout_history s) =
    map (\<lambda>i. 3 \<le> length (filter (\<lambda>t. nows ! i - t < 600) (take (Suc i) nows))) [0 ..< length nows]"
  using logout_run_window [of "[]" nows "clear_logout_history s"] assms
  by (simp add: clear_logout_history_def)

lemma purge_iff_three_logouts_in_window_witness:
  "logout_run [0, 500, 700, 1000, 1200] (clear_logout_history (session_state_new ''p''))
    = [False, False, False, True, True]"
  using purge_iff_three_logouts_in_window [of "[0, 500, 700, 1000, 1200]" "session_state_new ''p''"]
  by (simp add: upt_rec numeral_2_eq_2)

text \<open>The status shown is logged in only while the client is; the leases never outlive it.\<close>

lemma effective_logged_in_alive:
  "effective_status s = StLoggedIn \<Longrightarrow> is_alive s \<and> get_live_client s \<noteq> None"
  by (auto simp: effective_status_def is_alive_def get_live_client_def split: if_splits option.splits)

lemma set_client_None_drops:
  "ss_client (set_client None s) = None \<and> \<not> ss_lease (set_client None s) \<and>
   \<not> ss_chat_store (set_client None s) \<and> \<not> ss_chat_store_subscription (set_client None s)"
  by (simp add: set_client_def Let_def)

lemma reconnecting_keeps_start:
  "ss_reconnecting_since (mark_reconnecting_now t (mark_reconnecting_now u s))
    = ss_reconnecting_since (mark_reconnecting_now u s)"
  by (simp add: mark_reconnecting_now_def)

end
