(* ===== verification/Gateway_State.thy ===== *)
theory Gateway_State
  imports Webhook_Delivery Session_Runtime
begin

text \<open>
  The part of \<open>AppState\<close> the background workers and the message endpoints share: the webhook
  hub, the session runtimes, and the delivery tasks handed to the async runtime so far, in
  order. The interfaces of the code they call but that is not modelled are collected here:
  JIDs (a library) and the send functions behind each endpoint.
\<close>

record gateway = hub +
  gw_sessions :: "session_state dash"
  gw_spawned :: "delivery list"

definition gw_broadcast :: "libs \<Rightarrow> string \<Rightarrow> webhook_event \<Rightarrow> json \<Rightarrow> 'g gateway_scheme \<Rightarrow> 'g gateway_scheme" where
  "gw_broadcast lib sid event payload g =
     (let (ds, g1) = broadcast_to_webhooks lib sid (webhook_event_as_str event) (print_json lib payload) g
      in g1\<lparr>gw_spawned := gw_spawned g1 @ ds\<rparr>)"

record message_response =
  mr_message_id :: string
  mr_timestamp :: int
  mr_to :: string

record jid_lib =
  jid_parse :: "string \<Rightarrow> string option"
  jid_pn :: "string \<Rightarrow> string"

text \<open>\<open>parse_jid\<close> of \<open>src/api/shared/messages/handlers/common.rs\<close>; a JID is its canonical text.\<close>

definition parse_jid :: "jid_lib \<Rightarrow> string \<Rightarrow> api_error + string" where
  "parse_jid jl s =
     (let t = trim_str s in
      if t = [] then Inl (InvalidJid s)
      else if CHR ''@'' \<in> set t then
        (case jid_parse jl t of Some j \<Rightarrow> Inr j | None \<Rightarrow> Inl (InvalidJid t))
      else let digits = filter is_digit t in
        if digits = [] then Inl (InvalidJid t) else Inr (jid_pn jl digits))"

text \<open>Insertion into a JSON object.\<close>

fun fields_insert :: "string \<Rightarrow> json \<Rightarrow> (string \<times> json) list \<Rightarrow> (string \<times> json) list" where
  "fields_insert k v [] = [(k, v)]"
| "fields_insert k v ((k', v') # fs) = (if k' = k then (k, v) # fs else (k', v') # fields_insert k v fs)"

lemma map_of_fields_insert [simp]:
  "map_of (fields_insert k v fs) j = (if j = k then Some v else map_of fs j)"
  by (induction fs) auto

text \<open>A broadcast only touches the circuits, the event ring and the list of spawned tasks.\<close>

lemma broadcast_loop_more:
  "\<exists>cs. snd (broadcast_loop sid event payload ws h) = h\<lparr>hub_circuits := cs\<rparr>"
proof (induction ws arbitrary: h)
  case Nil
  show ?case by (rule exI [of _ "hub_circuits h"]) simp
next
  case (Cons w ws)
  obtain wid config where w: "w = (wid, config)" by (cases w)
  obtain ok cs where ask: "webhook_circuit_allows (hub_mono h) (wc_url config) (hub_circuits h) = (ok, cs)"
    by fastforce
  show ?case
    using Cons.IH [of h] Cons.IH [of "h\<lparr>hub_circuits := cs\<rparr>"]
      Cons.IH [of "h\<lparr>hub_circuits := webhook_note_skipped (wc_url config) cs\<rparr>"]
    by (auto simp: w ask split_beta Let_def)
qed

lemma gw_broadcast_shape:
  obtains cs ring ds where
    "gw_broadcast lib sid event payload g = g\<lparr>hub_circuits := cs, hub_ring := ring, gw_spawned := gw_spawned g @ ds\<rparr>"
proof -
  let ?s = "webhook_event_as_str event" and ?p = "print_json lib payload"
  obtain ring where push: "push_event lib sid ?s ?p g = g\<lparr>hub_ring := ring\<rparr>"
    by (simp add: push_event_def)
  obtain cs where cs: "snd (broadcast_loop sid ?s ?p (get_webhooks sid (g\<lparr>hub_ring := ring\<rparr>))
      (g\<lparr>hub_ring := ring\<rparr>)) = g\<lparr>hub_ring := ring, hub_circuits := cs\<rparr>"
    using broadcast_loop_more by blast
  show thesis
    by (rule that [where cs = cs and ring = ring and ds = "fst (broadcast_to_webhooks lib sid ?s ?p g)"])
      (simp add: gw_broadcast_def broadcast_to_webhooks_def Let_def split_beta push cs)
qed

lemma gw_broadcast_frame [simp]:
  "gateway.more (gw_broadcast lib sid event payload g) = gateway.more g"
  "db_now (gw_broadcast lib sid event payload g) = db_now g"
  "db_faults (gw_broadcast lib sid event payload g) = db_faults g"
  "db_driver (gw_broadcast lib sid event payload g) = db_driver g"
  "gw_sessions (gw_broadcast lib sid event payload g) = gw_sessions g"
  by (rule gw_broadcast_shape [of lib sid event payload g]; simp)+

end
