(* ===== verification/New_Chat_Db.thy ===== *)
theory New_Chat_Db
  imports Gateway_State
begin

text \<open>
  The store of the new-chat counter (\<open>src/db/new_chats.rs\<close>): the tables \<open>new_chats\<close>,
  \<open>new_chat_limits\<close> and \<open>new_chat_incidents\<close>, the two columns of \<open>messages\<close> it reads, and
  every statement on them. \<open>nc_recorded\<close> is the task-local list of the send that runs, \<open>None\<close>
  outside a scope.
\<close>

record new_chat_row =
  nc_session :: string
  nc_chat :: string
  nc_created_at :: int

record limit_row =
  nl_session :: string
  nl_max_new_chats :: int
  nl_window_hours :: int

record incident =
  in_occurred_at :: int
  in_reason :: string
  in_last_3h :: int
  in_last_6h :: int
  in_last_12h :: int
  in_last_24h :: int

record new_chat_db = gateway +
  message_chats :: "(string \<times> string) list"
  new_chats :: "new_chat_row list"
  new_chat_limits :: "limit_row list"
  new_chat_incidents :: "(string \<times> incident) list"
  nc_recorded :: "(string \<times> string) list option"

type_synonym ('w, 'a) new_chat_op = "'w new_chat_db_scheme \<Rightarrow> (string + 'a) \<times> 'w new_chat_db_scheme"

text \<open>The placeholders of a statement for Postgres.\<close>

fun number_placeholders :: "nat \<Rightarrow> string \<Rightarrow> string" where
  "number_placeholders n [] = []"
| "number_placeholders n (ch # s) =
     (if ch = CHR ''?'' then CHR ''$'' # show_int (int (n + 1)) @ number_placeholders (n + 1) s
      else ch # number_placeholders n s)"

definition pg_sql :: "string \<Rightarrow> string" where
  "pg_sql sql = number_placeholders 0 sql"

definition of_chat :: "string \<Rightarrow> string \<Rightarrow> new_chat_row \<Rightarrow> bool" where
  "of_chat sid jid r \<longleftrightarrow> nc_session r = sid \<and> nc_chat r = jid"

fun chat_known :: "string \<Rightarrow> string list \<Rightarrow> ('w, bool) new_chat_op" where
  "chat_known sid [] = db_return False"
| "chat_known sid (jid # jids) =
     db_bind (db_stmt (\<lambda>w. (list_ex (of_chat sid jid) (new_chats w), w))) (\<lambda>started.
       if started then db_return True
       else db_bind (db_stmt (\<lambda>w. (list_ex (\<lambda>m. m = (sid, jid)) (message_chats w), w))) (\<lambda>messaged.
         if messaged then db_return True else chat_known sid jids))"

text \<open>All three dialects ignore the insert when the key is taken.\<close>

definition record_chat :: "string \<Rightarrow> string \<Rightarrow> int \<Rightarrow> ('w, unit) new_chat_op" where
  "record_chat sid jid now = db_stmt (\<lambda>w. ((),
     if list_ex (of_chat sid jid) (new_chats w) then w
     else w\<lparr>new_chats := new_chats w @ [\<lparr> nc_session = sid, nc_chat = jid, nc_created_at = now \<rparr>]\<rparr>))"

definition forget_chat :: "string \<Rightarrow> string \<Rightarrow> ('w, unit) new_chat_op" where
  "forget_chat sid jid = db_stmt (\<lambda>w. ((), w\<lparr>new_chats := delete_where (of_chat sid jid) (new_chats w)\<rparr>))"

definition started_times :: "string \<Rightarrow> int \<Rightarrow> new_chat_row list \<Rightarrow> int list" where
  "started_times sid since rows = sort (map nc_created_at (filter (\<lambda>r. nc_session r = sid \<and> since < nc_created_at r) rows))"

definition started_since :: "string \<Rightarrow> int \<Rightarrow> ('w, int list) new_chat_op" where
  "started_since sid since = db_stmt (\<lambda>w. (started_times sid since (new_chats w), w))"

definition find_limit :: "string \<Rightarrow> limit_row list \<Rightarrow> (int \<times> int) option" where
  "find_limit sid rows = map_option (\<lambda>l. (nl_max_new_chats l, nl_window_hours l)) (find (\<lambda>l. nl_session l = sid) rows)"

definition get_limit :: "string \<Rightarrow> ('w, (int \<times> int) option) new_chat_op" where
  "get_limit sid = db_stmt (\<lambda>w. (find_limit sid (new_chat_limits w), w))"

definition set_limit :: "string \<Rightarrow> (int \<times> int) option \<Rightarrow> ('w, unit) new_chat_op" where
  "set_limit sid limit =
     db_bind (db_stmt (\<lambda>w. ((), w\<lparr>new_chat_limits := delete_where (\<lambda>l. nl_session l = sid) (new_chat_limits w)\<rparr>))) (\<lambda>_.
       case limit of
         None \<Rightarrow> db_return ()
       | Some (max_new_chats, window_hours) \<Rightarrow>
           db_insert (\<lambda>w. list_ex (\<lambda>l. nl_session l = sid) (new_chat_limits w))
             (\<lambda>w. w\<lparr>new_chat_limits := new_chat_limits w
                @ [\<lparr> nl_session = sid, nl_max_new_chats = max_new_chats, nl_window_hours = window_hours \<rparr>]\<rparr>))"

definition of_incident :: "string \<Rightarrow> int \<Rightarrow> string \<times> incident \<Rightarrow> bool" where
  "of_incident sid at i \<longleftrightarrow> fst i = sid \<and> in_occurred_at (snd i) = at"

definition record_incident :: "string \<Rightarrow> incident \<Rightarrow> ('w, unit) new_chat_op" where
  "record_incident sid i =
     db_bind (db_stmt (\<lambda>w. ((), w\<lparr>new_chat_incidents := delete_where (of_incident sid (in_occurred_at i)) (new_chat_incidents w)\<rparr>)))
       (\<lambda>_. db_insert (\<lambda>w. list_ex (of_incident sid (in_occurred_at i)) (new_chat_incidents w))
         (\<lambda>w. w\<lparr>new_chat_incidents := new_chat_incidents w @ [(sid, i\<lparr>in_reason := take 180 (in_reason i)\<rparr>)]\<rparr>))"

text \<open>The rows of one session have distinct times, so the order needs no tie-break.\<close>

definition incidents :: "string \<Rightarrow> ('w, incident list) new_chat_op" where
  "incidents sid = db_stmt (\<lambda>w. (take 50 (map snd (order_by_desc (\<lambda>i. in_occurred_at (snd i)) (\<lambda>_. 0)
     (filter (\<lambda>i. fst i = sid) (new_chat_incidents w)))), w))"

definition purge_new_chats :: "string \<Rightarrow> 'w new_chat_db_scheme \<Rightarrow> 'w new_chat_db_scheme" where
  "purge_new_chats sid w =
     db_ignore (db_stmt (\<lambda>w. ((), w\<lparr>new_chat_incidents := delete_where (\<lambda>i. fst i = sid) (new_chat_incidents w)\<rparr>)))
       (db_ignore (db_stmt (\<lambda>w. ((), w\<lparr>new_chat_limits := delete_where (\<lambda>l. nl_session l = sid) (new_chat_limits w)\<rparr>)))
         (db_ignore (db_stmt (\<lambda>w. ((), w\<lparr>new_chats := delete_where (\<lambda>r. nc_session r = sid) (new_chats w)\<rparr>))) w))"

section \<open>Lemmas\<close>

lemma sorted_started_times [simp]: "sorted (started_times sid since rows)"
  by (simp add: started_times_def)

lemma set_started_times:
  "set (started_times sid since rows) = nc_created_at ` {r \<in> set rows. nc_session r = sid \<and> since < nc_created_at r}"
  by (simp add: started_times_def)

lemma length_started_times:
  "length (started_times sid since rows) = count_where (\<lambda>r. nc_session r = sid \<and> since < nc_created_at r) rows"
  by (simp add: started_times_def count_where_def)

lemma filter_started_times:
  assumes "since \<le> t"
  shows "filter (\<lambda>s. t < s) (started_times sid since rows) = started_times sid t rows"
proof -
  have "filter (\<lambda>s. t < s) (map nc_created_at (filter (\<lambda>r. nc_session r = sid \<and> since < nc_created_at r) rows))
      = map nc_created_at (filter (\<lambda>r. nc_session r = sid \<and> t < nc_created_at r) rows)"
    using assms by (induction rows) auto
  then show ?thesis by (simp add: started_times_def filter_sort)
qed

lemma db_read_cases:
  obtains (failed) e fs where "db_faults w = Some e # fs" "db_stmt (\<lambda>w. (g w, w)) w = (Inl e, w\<lparr>db_faults := fs\<rparr>)"
  | (ok) "db_stmt (\<lambda>w. (g w, w)) w = (Inr (g (w\<lparr>db_faults := tl (db_faults w)\<rparr>)), w\<lparr>db_faults := tl (db_faults w)\<rparr>)"
proof (cases "\<lambda>w. (g w, w)" w rule: db_stmt_cases)
  case (ok a w')
  then show thesis using that(2) by auto
qed (rule that(1))

text \<open>Looking a chat up changes nothing but the faults it meets.\<close>

definition known_chat :: "string \<Rightarrow> string list \<Rightarrow> 'w new_chat_db_scheme \<Rightarrow> bool" where
  "known_chat sid jids w \<longleftrightarrow>
     (\<exists>jid \<in> set jids. list_ex (of_chat sid jid) (new_chats w) \<or> (sid, jid) \<in> set (message_chats w))"

lemma known_chat_simps [simp]:
  "known_chat sid [] w = False"
  "known_chat sid (jid # jids) w \<longleftrightarrow>
     list_ex (of_chat sid jid) (new_chats w) \<or> (sid, jid) \<in> set (message_chats w) \<or> known_chat sid jids w"
  "known_chat sid jids (w\<lparr>db_faults := fs\<rparr>) = known_chat sid jids w"
  by (auto simp: known_chat_def)

lemma chat_known_frame:
  "\<exists>fs. snd (chat_known sid jids w) = w\<lparr>db_faults := fs\<rparr> \<and> (db_faults w = [] \<longrightarrow> fs = []) \<and>
     (\<forall>b. fst (chat_known sid jids w) = Inr b \<longrightarrow> b = known_chat sid jids w)"
proof (induction jids arbitrary: w)
  case Nil
  show ?case by (rule exI [of _ "db_faults w"]) (simp add: db_return_def)
next
  case (Cons jid jids)
  have nf: "list_ex (\<lambda>m. m = (sid, jid)) ms = ((sid, jid) \<in> set ms)" for ms by (auto simp: list_ex_iff)
  show ?case
  proof (cases rule: db_read_cases [of w "\<lambda>w. list_ex (of_chat sid jid) (new_chats w)"])
    case failed
    then show ?thesis by (auto intro: exI)
  next
    case ok
    let ?w1 = "w\<lparr>db_faults := tl (db_faults w)\<rparr>"
    show ?thesis
    proof (cases rule: db_read_cases [of ?w1 "\<lambda>w. list_ex (\<lambda>m. m = (sid, jid)) (message_chats w)"])
      case m: failed
      show ?thesis using ok m by (auto simp: db_return_def)
    next
      case m: ok
      show ?thesis
        using ok m Cons.IH [of "w\<lparr>db_faults := tl (tl (db_faults w))\<rparr>"] by (auto simp: db_return_def nf)
    qed
  qed
qed

end
