(* ===== verification/Session_Tags.thy ===== *)
theory Session_Tags
  imports New_Chat_Db "HOL-Library.List_Lexorder" "HOL-Library.Char_ord" "HOL-Library.Product_Lexorder"
begin

text \<open>
  The tags of a session (\<open>src/state.rs\<close>, \<open>src/api/shared/tags/handlers.rs\<close>) and the state of
  the session endpoints: the tag map, the file it is saved to after every change, and the
  calls made to the file system. A \<open>HashSet\<close> is a list without repetitions; \<open>fs_faults\<close> says
  which of the file system calls to come fail. The JSON in the file is read back as the map it
  was written from.
\<close>

record admin = new_chat_db +
  session_tags :: "string list dash"
  tags_file :: "string list dash option"
  fs_faults :: "bool list"
  dirs_created :: "string list"
  dirs_removed :: "string list"
  connects_spawned :: "string list"
  base_storage_path :: string

definition fs_call :: "('w admin_scheme \<Rightarrow> 'w admin_scheme) \<Rightarrow> 'w admin_scheme \<Rightarrow> bool \<times> 'w admin_scheme" where
  "fs_call f w = (case fs_faults w of
      True # fs \<Rightarrow> (False, w\<lparr>fs_faults := fs\<rparr>)
    | _ \<Rightarrow> (True, f (w\<lparr>fs_faults := tl (fs_faults w)\<rparr>)))"

definition persist_tags :: "'w admin_scheme \<Rightarrow> 'w admin_scheme" where
  "persist_tags w = snd (fs_call (\<lambda>w. w\<lparr>tags_file := Some (session_tags w)\<rparr>) w)"

definition load_tags :: "'w admin_scheme \<Rightarrow> 'w admin_scheme" where
  "load_tags w = (case tags_file w of
      None \<Rightarrow> w
    | Some m \<Rightarrow> w\<lparr>session_tags := fold (\<lambda>(sid, tags). dm_put sid (remdups tags)) m (session_tags w)\<rparr>)"

definition tags_of :: "string \<Rightarrow> 'w admin_scheme \<Rightarrow> string list" where
  "tags_of sid w = dm_or [] (session_tags w) sid"

definition list_tags :: "string \<Rightarrow> 'w admin_scheme \<Rightarrow> string list" where
  "list_tags sid w = sort (tags_of sid w)"

definition set_tags :: "string \<Rightarrow> string list \<Rightarrow> 'w admin_scheme \<Rightarrow> 'w admin_scheme" where
  "set_tags sid tags w =
     (let cleaned = remdups (filter (\<lambda>t. t \<noteq> []) (map trim_str tags))
      in persist_tags (if cleaned = [] then w\<lparr>session_tags := dm_remove sid (session_tags w)\<rparr>
                       else w\<lparr>session_tags := dm_put sid cleaned (session_tags w)\<rparr>))"

definition add_tag :: "string \<Rightarrow> string \<Rightarrow> 'w admin_scheme \<Rightarrow> bool \<times> 'w admin_scheme" where
  "add_tag sid raw w =
     (let tag = trim_str raw in
      if tag = [] then (False, w)
      else let old = tags_of sid w; inserted = (tag \<notin> set old);
               w1 = w\<lparr>session_tags := dm_put sid (if inserted then old @ [tag] else old) (session_tags w)\<rparr>
           in (inserted, if inserted then persist_tags w1 else w1))"

definition remove_tag :: "string \<Rightarrow> string \<Rightarrow> 'w admin_scheme \<Rightarrow> bool \<times> 'w admin_scheme" where
  "remove_tag sid tag w =
     (case dm_get (session_tags w) sid of
        None \<Rightarrow> (False, w)
      | Some old \<Rightarrow>
          (let changed = (tag \<in> set old); new = removeAll tag old;
               w1 = w\<lparr>session_tags := (if new = [] then dm_remove sid (session_tags w) else dm_put sid new (session_tags w))\<rparr>
           in (changed, if changed then persist_tags w1 else w1)))"

definition sessions_with_tag :: "string \<Rightarrow> 'w admin_scheme \<Rightarrow> string list" where
  "sessions_with_tag tag w = map fst (filter (\<lambda>(sid, tags). tag \<in> set tags) (session_tags w))"

definition all_session_ids_with_tags :: "'w admin_scheme \<Rightarrow> string list" where
  "all_session_ids_with_tags w = map fst (session_tags w)"

definition drop_tags_for :: "string \<Rightarrow> 'w admin_scheme \<Rightarrow> 'w admin_scheme" where
  "drop_tags_for sid w =
     (if dm_get (session_tags w) sid \<noteq> None then persist_tags (w\<lparr>session_tags := dm_remove sid (session_tags w)\<rparr>) else w)"

section \<open>The tag endpoints\<close>

type_synonym ('w, 'a) admin_handler = "'w admin_scheme \<Rightarrow> (api_error + 'a) \<times> 'w admin_scheme"

record tag_mutate_response =
  tm_session_id :: string
  tm_tag :: string
  tm_changed :: bool
  tm_tags :: "string list"

definition list_session_tags :: "string \<Rightarrow> ('w, string \<times> string list) admin_handler" where
  "list_session_tags sid w = (Inr (sid, list_tags sid w), w)"

definition replace_session_tags :: "string \<Rightarrow> string list \<Rightarrow> ('w, string \<times> string list) admin_handler" where
  "replace_session_tags sid tags w = (let w1 = set_tags sid tags w in (Inr (sid, list_tags sid w1), w1))"

definition add_session_tag :: "string \<Rightarrow> string \<Rightarrow> ('w, tag_mutate_response) admin_handler" where
  "add_session_tag sid tag w =
     (if trim_str tag = [] then (Inl (BadRequest ''tag is empty''), w)
      else let (changed, w1) = add_tag sid tag w
           in (Inr \<lparr> tm_session_id = sid, tm_tag = tag, tm_changed = changed, tm_tags = list_tags sid w1 \<rparr>, w1))"

definition remove_session_tag :: "string \<Rightarrow> string \<Rightarrow> ('w, tag_mutate_response) admin_handler" where
  "remove_session_tag sid tag w =
     (let (changed, w1) = remove_tag sid tag w
      in (Inr \<lparr> tm_session_id = sid, tm_tag = tag, tm_changed = changed, tm_tags = list_tags sid w1 \<rparr>, w1))"

fun count_up :: "string \<Rightarrow> (string \<times> nat) list \<Rightarrow> (string \<times> nat) list" where
  "count_up t [] = [(t, 1)]"
| "count_up t ((u, n) # cs) = (if u = t then (u, n + 1) # cs else (u, n) # count_up t cs)"

definition list_all_tags :: "('w, (string \<times> nat) list) admin_handler" where
  "list_all_tags w =
     (let tags = concat (map (\<lambda>sid. list_tags sid w) (all_session_ids_with_tags w))
      in (Inr (sort_key (\<lambda>(t, n). (- int n, t)) (fold count_up tags [])), w))"

section \<open>The map and its file\<close>

datatype tag_op = SetTags string "string list" | AddTag string string | RemoveTag string string | DropTags string

fun tag_run :: "tag_op list \<Rightarrow> 'w admin_scheme \<Rightarrow> 'w admin_scheme" where
  "tag_run [] w = w"
| "tag_run (SetTags sid tags # ops) w = tag_run ops (set_tags sid tags w)"
| "tag_run (AddTag sid tag # ops) w = tag_run ops (snd (add_tag sid tag w))"
| "tag_run (RemoveTag sid tag # ops) w = tag_run ops (snd (remove_tag sid tag w))"
| "tag_run (DropTags sid # ops) w = tag_run ops (drop_tags_for sid w)"

definition restart :: "'w admin_scheme \<Rightarrow> 'w admin_scheme" where
  "restart w = load_tags (w\<lparr>session_tags := []\<rparr>)"

text \<open>No entry is empty, no tag repeats, and tags are trimmed; the file holds the map.\<close>

definition tags_ok :: "string list \<Rightarrow> bool" where
  "tags_ok tags \<longleftrightarrow> tags \<noteq> [] \<and> distinct tags \<and> (\<forall>t \<in> set tags. t \<noteq> [] \<and> trim_str t = t)"

definition tags_saved :: "'w admin_scheme \<Rightarrow> bool" where
  "tags_saved w \<longleftrightarrow> fs_faults w = [] \<and> dm_ok (session_tags w) \<and>
     (\<forall>sid tags. dm_get (session_tags w) sid = Some tags \<longrightarrow> tags_ok tags) \<and>
     (tags_file w = Some (session_tags w) \<or> tags_file w = None \<and> session_tags w = [])"

lemma persist_tags_saved:
  assumes "fs_faults w = []" and "dm_ok m" and "\<And>sid tags. dm_get m sid = Some tags \<Longrightarrow> tags_ok tags"
  shows "tags_saved (persist_tags (w\<lparr>session_tags := m\<rparr>))"
  using assms by (simp add: persist_tags_def fs_call_def tags_saved_def)

lemma tags_savedD:
  assumes "tags_saved w"
  shows "fs_faults w = []" "dm_ok (session_tags w)" "dm_get (session_tags w) sid = Some tags \<Longrightarrow> tags_ok tags"
  using assms by (auto simp: tags_saved_def)

lemma set_tags_saved:
  assumes "tags_saved w"
  shows "tags_saved (set_tags sid tags w)"
proof -
  let ?c = "remdups (filter (\<lambda>t. t \<noteq> []) (map trim_str tags))"
  have "tags_ok ?c" if "?c \<noteq> []" using that by (auto simp: tags_ok_def)
  then show ?thesis
    using tags_savedD [OF assms] unfolding set_tags_def Let_def
    by (auto split: if_splits intro!: persist_tags_saved)
qed

lemma add_tag_saved:
  assumes "tags_saved w"
  shows "tags_saved (snd (add_tag sid raw w))"
proof (cases "trim_str raw = [] \<or> trim_str raw \<in> set (tags_of sid w)")
  case True
  have "session_tags w = dm_put sid (tags_of sid w) (session_tags w)" if "trim_str raw \<in> set (tags_of sid w)"
    using that by (cases "dm_get (session_tags w) sid")
      (auto simp: tags_of_def dm_or_def dm_put_def dm_get_def intro!: update_triv [symmetric])
  then show ?thesis using True assms by (auto simp: add_tag_def Let_def)
next
  case False
  have "tags_ok (tags_of sid w @ [trim_str raw])"
    using False tags_savedD(3) [OF assms, of sid]
    by (cases "dm_get (session_tags w) sid") (auto simp: tags_of_def dm_or_def tags_ok_def)
  then show ?thesis
    using False tags_savedD [OF assms] by (auto simp: add_tag_def Let_def split: if_splits intro!: persist_tags_saved)
qed

lemma remove_tag_saved:
  assumes "tags_saved w"
  shows "tags_saved (snd (remove_tag sid tag w))"
proof (cases "dm_get (session_tags w) sid")
  case (Some old)
  then have old: "tags_ok old" using tags_savedD(3) [OF assms] by blast
  show ?thesis
  proof (cases "tag \<in> set old")
    case True
    have "tags_ok (removeAll tag old)" if "removeAll tag old \<noteq> []"
      using old that by (auto simp: tags_ok_def distinct_removeAll)
    then show ?thesis
      using Some True tags_savedD [OF assms]
      by (auto simp: remove_tag_def Let_def split: if_splits intro!: persist_tags_saved)
  next
    case False
    then have "removeAll tag old = old" "old \<noteq> []" using old by (simp_all add: tags_ok_def)
    moreover have "dm_put sid old (session_tags w) = session_tags w"
      using Some by (simp add: dm_put_def dm_get_def update_triv)
    ultimately show ?thesis using Some False assms by (simp add: remove_tag_def Let_def)
  qed
qed (use assms in \<open>simp add: remove_tag_def\<close>)

lemma drop_tags_saved: "tags_saved w \<Longrightarrow> tags_saved (drop_tags_for sid w)"
  by (auto simp: drop_tags_for_def intro!: persist_tags_saved dest: tags_savedD(1,2) tags_savedD(3) split: if_splits)

lemma tag_run_saved: "tags_saved w \<Longrightarrow> tags_saved (tag_run ops w)"
proof (induction ops arbitrary: w)
  case (Cons op ops)
  then show ?case by (cases op) (simp_all add: set_tags_saved add_tag_saved remove_tag_saved drop_tags_saved)
qed simp

lemma load_fold:
  "dm_ok m \<Longrightarrow> dm_get (fold (\<lambda>(sid, tags). dm_put sid (remdups tags)) m acc) k
     = (case dm_get m k of Some tags \<Rightarrow> Some (remdups tags) | None \<Rightarrow> dm_get acc k)"
proof (induction m arbitrary: acc)
  case (Cons x m)
  obtain s t where x: "x = (s, t)" by (cases x)
  have "dm_get m s = None" using Cons.prems by (auto simp: x dm_ok_def dm_get_def map_of_eq_None_iff)
  then show ?case
    using Cons.IH [OF dm_ok_tl [OF Cons.prems]] by (auto simp: x dm_get_def [of "_ # _"] dm_get_def [symmetric] split: option.splits)
qed simp

text \<open>The tags survive a restart. After any sequence of tag operations, on a file system that
  takes the writes and from an empty gateway, the map is well formed (no session without
  tags in it, no tag twice, none blank or padded) and a restart reads back for every session
  the same tags.\<close>

theorem tags_survive_restart:
  assumes "session_tags w = []" and "tags_file w = None" and "fs_faults w = []"
  shows "tags_saved (tag_run ops w) \<and> dm_get (session_tags (restart (tag_run ops w))) sid = dm_get (session_tags (tag_run ops w)) sid \<and>
    list_tags sid (restart (tag_run ops w)) = list_tags sid (tag_run ops w)"
proof -
  let ?w = "tag_run ops w"
  have ok: "tags_saved ?w" using assms by (intro tag_run_saved) (simp add: tags_saved_def)
  have "dm_get (session_tags (restart ?w)) sid = dm_get (session_tags ?w) sid"
  proof (cases "tags_file ?w")
    case None
    then show ?thesis using ok by (auto simp: tags_saved_def restart_def load_tags_def)
  next
    case (Some m)
    then have m: "m = session_tags ?w" using ok by (auto simp: tags_saved_def)
    have "remdups tags = tags" if "dm_get (session_tags ?w) sid = Some tags" for tags
      using tags_savedD(3) [OF ok that] by (simp add: tags_ok_def distinct_remdups_id)
    then show ?thesis
      using Some load_fold [OF tags_savedD(2) [OF ok], of "[]" sid]
      by (auto simp: restart_def load_tags_def m split: option.splits)
  qed
  then show ?thesis using ok by (simp add: list_tags_def tags_of_def dm_or_def)
qed

definition no_tags :: admin where
  "no_tags = \<lparr> db_driver = SQLite, db_faults = [], db_now = 0,
     sessions = [], webhook_rows = [], contact_rows = [], dlq_rows = [],
     hub_mono = 0, hub_ms = 0, hub_retry = \<lparr> max_attempts = 1, retry_on_4xx = False, dlq_capacity = 1 \<rparr>,
     hub_webhooks = [], hub_circuits = [], hub_dlq = [], hub_ring = [],
     gw_sessions = [], gw_spawned = [], message_chats = [], new_chats = [], new_chat_limits = [], new_chat_incidents = [],
     nc_recorded = None, session_tags = [], tags_file = None, fs_faults = [], dirs_created = [], dirs_removed = [],
     connects_spawned = [], base_storage_path = ''/data'' \<rparr>"

lemma tags_survive_restart_witness:
  "list_tags ''s'' (restart (tag_run [SetTags ''s'' [''vip'', ''b''], AddTag ''t'' ''x'', AddTag ''s'' ''cs'', RemoveTag ''s'' ''b''] no_tags))
     = [''cs'', ''vip'']"
proof -
  let ?ops = "[SetTags ''s'' [''vip'', ''b''], AddTag ''t'' ''x'', AddTag ''s'' ''cs'', RemoveTag ''s'' ''b'']"
  have start: "session_tags no_tags = []" "tags_file no_tags = None" "fs_faults no_tags = []"
    by (simp_all add: no_tags_def)
  have "list_tags ''s'' (tag_run ?ops no_tags) = [''cs'', ''vip'']"
    by (simp add: no_tags_def set_tags_def add_tag_def remove_tag_def persist_tags_def fs_call_def Let_def trim_str_def is_ws_def
        tags_of_def dm_or_def dm_get_def dm_put_def list_tags_def less_eq_char_def)
  then show ?thesis using tags_survive_restart [OF start, of ?ops "''s''"] by simp
qed

end
