(* ===== verification/Token_Store.thy ===== *)
theory Token_Store
  imports Session_Db
begin

text \<open>
  Minted bearer tokens (\<open>src/db/tokens.rs\<close>): the tables \<open>tokens\<close>, \<open>token_sessions\<close> and
  \<open>token_session_prefixes\<close> over those of the sessions, and every statement on them. The
  primary and foreign keys of the schema refuse an insert.
\<close>

record token_row =
  t_id :: string
  t_name :: "string option"
  t_created_at :: unix
  t_expires_at :: "unix option"
  t_revoked_at :: "unix option"

record token_db = session_db +
  tokens :: "token_row list"
  token_sessions :: "(string \<times> string) list"
  token_prefixes :: "(string \<times> string) list"

type_synonym ('w, 'a) token_op = "'w token_db_scheme \<Rightarrow> (string + 'a) \<times> 'w token_db_scheme"

record token_record =
  tr_id :: string
  tr_name :: "string option"
  tr_session_ids :: "string list"
  tr_session_prefixes :: "string list"
  tr_created_at :: unix
  tr_expires_at :: "unix option"
  tr_revoked_at :: "unix option"

record token_status =
  ts_revoked :: bool
  ts_session_ids :: "string list"
  ts_session_prefixes :: "string list"

definition covers :: "token_status \<Rightarrow> string \<Rightarrow> bool" where
  "covers st sid \<longleftrightarrow> sid \<in> set (ts_session_ids st) \<or> list_ex (\<lambda>p. starts_with p sid) (ts_session_prefixes st)"

definition find_token :: "string \<Rightarrow> 'w token_db_scheme \<Rightarrow> token_row option" where
  "find_token tid w = find (\<lambda>t. t_id t = tid) (tokens w)"

text \<open>The column is filled by its default, which on MySQL is the epoch and not the time.\<close>

definition token_created_at :: "driver \<Rightarrow> unix \<Rightarrow> unix" where
  "token_created_at drv now = (if drv = MySQL then 0 else now)"

definition insert_token :: "string \<Rightarrow> string option \<Rightarrow> unix option \<Rightarrow> ('w, unit) token_op" where
  "insert_token tid name expires_at =
     db_insert (\<lambda>w. find_token tid w \<noteq> None)
       (\<lambda>w. w\<lparr>tokens := tokens w @ [\<lparr> t_id = tid, t_name = name, t_created_at = token_created_at (db_driver w) (db_now w),
          t_expires_at = expires_at, t_revoked_at = None \<rparr>]\<rparr>)"

definition insert_token_session :: "string \<Rightarrow> string \<Rightarrow> ('w, unit) token_op" where
  "insert_token_session tid sid =
     db_insert (\<lambda>w. (tid, sid) \<in> set (token_sessions w) \<or> find_session sid w = None \<or> find_token tid w = None)
       (\<lambda>w. w\<lparr>token_sessions := token_sessions w @ [(tid, sid)]\<rparr>)"

definition insert_token_prefix :: "string \<Rightarrow> string \<Rightarrow> ('w, unit) token_op" where
  "insert_token_prefix tid prefix =
     db_insert (\<lambda>w. (tid, prefix) \<in> set (token_prefixes w) \<or> find_token tid w = None)
       (\<lambda>w. w\<lparr>token_prefixes := token_prefixes w @ [(tid, prefix)]\<rparr>)"

fun for_each :: "('a \<Rightarrow> ('w, unit) token_op) \<Rightarrow> 'a list \<Rightarrow> ('w, unit) token_op" where
  "for_each f [] = db_return ()"
| "for_each f (x # xs) = db_bind (f x) (\<lambda>_. for_each f xs)"

definition create_token ::
    "string \<Rightarrow> string option \<Rightarrow> unix option \<Rightarrow> string list \<Rightarrow> string list \<Rightarrow> ('w, unit) token_op" where
  "create_token tid name expires_at session_ids session_prefixes =
     db_bind (insert_token tid name expires_at) (\<lambda>_.
       db_bind (for_each (insert_token_session tid) session_ids) (\<lambda>_.
         for_each (insert_token_prefix tid) session_prefixes))"

definition values_of :: "string \<Rightarrow> (string \<times> string) list \<Rightarrow> string list" where
  "values_of tid rows = map snd (filter (\<lambda>r. fst r = tid) rows)"

definition token_status_of :: "string \<Rightarrow> ('w, token_status option) token_op" where
  "token_status_of tid =
     db_bind (db_stmt (\<lambda>w. (map_option t_revoked_at (find_token tid w), w))) (\<lambda>row.
       case row of
         None \<Rightarrow> db_return None
       | Some revoked_at \<Rightarrow>
           db_bind (db_stmt (\<lambda>w. (values_of tid (token_sessions w), w))) (\<lambda>session_ids.
             db_bind (db_stmt (\<lambda>w. (values_of tid (token_prefixes w), w))) (\<lambda>prefixes.
               db_return (Some \<lparr> ts_revoked = (revoked_at \<noteq> None), ts_session_ids = session_ids,
                                 ts_session_prefixes = prefixes \<rparr>))))"

fun with_scopes :: "token_record list \<Rightarrow> ('w, token_record list) token_op" where
  "with_scopes [] = db_return []"
| "with_scopes (r # rs) =
     db_bind (token_status_of (tr_id r)) (\<lambda>st.
       db_bind (with_scopes rs) (\<lambda>out. db_return
         ((case st of None \<Rightarrow> r
            | Some s \<Rightarrow> r\<lparr>tr_session_ids := ts_session_ids s, tr_session_prefixes := ts_session_prefixes s\<rparr>) # out)))"

definition list_tokens_db :: "(token_row \<Rightarrow> nat) \<Rightarrow> nat \<Rightarrow> nat \<Rightarrow> ('w, token_record list) token_op" where
  "list_tokens_db rank limit offset =
     db_bind (db_stmt (\<lambda>w. (take (max 1 (min 1000 limit)) (drop offset (order_by_desc t_created_at rank (tokens w))), w)))
       (\<lambda>rows. with_scopes (map (\<lambda>t. \<lparr> tr_id = t_id t, tr_name = t_name t, tr_session_ids = [], tr_session_prefixes = [],
          tr_created_at = t_created_at t, tr_expires_at = t_expires_at t, tr_revoked_at = t_revoked_at t \<rparr>) rows))"

definition revoke_row :: "unix \<Rightarrow> token_row \<Rightarrow> token_row" where
  "revoke_row now t = t\<lparr>t_revoked_at := Some now\<rparr>"

definition revocable :: "string \<Rightarrow> token_row \<Rightarrow> bool" where
  "revocable tid t \<longleftrightarrow> t_id t = tid \<and> t_revoked_at t = None"

definition revoke_db :: "string \<Rightarrow> ('w, bool) token_op" where
  "revoke_db tid = db_stmt (\<lambda>w.
     (0 < affected (db_driver w) (revocable tid) (revoke_row (db_now w)) (tokens w),
      w\<lparr>tokens := update_where (revocable tid) (revoke_row (db_now w)) (tokens w)\<rparr>))"

section \<open>Lemmas\<close>

lemma find_append: "find P (xs @ ys) = (case find P xs of None \<Rightarrow> find P ys | Some x \<Rightarrow> Some x)"
  by (induction xs) simp_all

lemma token_status_run:
  "db_faults w = [] \<Longrightarrow> token_status_of tid w =
     (Inr (map_option (\<lambda>t. \<lparr> ts_revoked = (t_revoked_at t \<noteq> None), ts_session_ids = values_of tid (token_sessions w),
        ts_session_prefixes = values_of tid (token_prefixes w) \<rparr>) (find_token tid w)), w)"
  by (auto simp: token_status_of_def db_bind_def db_return_def split: option.splits)

text \<open>The look-up changes nothing but the faults it meets.\<close>

lemma token_status_frame:
  assumes "token_status_of tid w = (res, w')"
  shows "tokens w' = tokens w" and "token_sessions w' = token_sessions w" and "token_prefixes w' = token_prefixes w"
    and "sessions w' = sessions w"
    and "res = Inr (Some st) \<Longrightarrow> \<exists>t. find_token tid w = Some t \<and> ts_revoked st = (t_revoked_at t \<noteq> None) \<and>
      ts_session_ids st = values_of tid (token_sessions w) \<and> ts_session_prefixes st = values_of tid (token_prefixes w)"
    and "res = Inr None \<Longrightarrow> find_token tid w = None"
  using assms by (auto simp: token_status_of_def db_bind_def db_stmt_def db_return_def find_token_def
      split: list.splits option.splits)

text \<open>What a loop of inserts that went through has stored, whatever failed elsewhere.\<close>

lemma insert_Inr:
  "db_insert taken ins w = (Inr u, w') \<Longrightarrow> w' = ins (w\<lparr>db_faults := tl (db_faults w)\<rparr>)"
  by (auto simp: db_insert_def db_bind_def db_stmt_def db_return_def db_fail_def
      split: list.splits option.splits if_splits)

lemma for_each_sessions:
  "for_each (insert_token_session tid) sids w = (Inr u, w') \<Longrightarrow>
   token_sessions w' = token_sessions w @ map (Pair tid) sids \<and> token_prefixes w' = token_prefixes w \<and>
   tokens w' = tokens w \<and> db_now w' = db_now w \<and> (db_faults w = [] \<longrightarrow> db_faults w' = [])"
proof (induction sids arbitrary: w)
  case (Cons sid sids)
  obtain u1 w1 where w1: "insert_token_session tid sid w = (Inr u1, w1)" "for_each (insert_token_session tid) sids w1 = (Inr u, w')"
    using Cons.prems by (auto simp: db_bind_Inr_iff)
  have "w1 = (let v = w\<lparr>db_faults := tl (db_faults w)\<rparr> in v\<lparr>token_sessions := token_sessions v @ [(tid, sid)]\<rparr>)"
    using insert_Inr [OF w1(1) [unfolded insert_token_session_def]] by (simp add: Let_def)
  then show ?case using Cons.IH [OF w1(2)] by (simp add: Let_def)
qed (simp add: db_return_def)

lemma for_each_prefixes:
  "for_each (insert_token_prefix tid) ps w = (Inr u, w') \<Longrightarrow>
   token_prefixes w' = token_prefixes w @ map (Pair tid) ps \<and> token_sessions w' = token_sessions w \<and>
   tokens w' = tokens w \<and> db_now w' = db_now w \<and> (db_faults w = [] \<longrightarrow> db_faults w' = [])"
proof (induction ps arbitrary: w)
  case (Cons p ps)
  obtain u1 w1 where w1: "insert_token_prefix tid p w = (Inr u1, w1)" "for_each (insert_token_prefix tid) ps w1 = (Inr u, w')"
    using Cons.prems by (auto simp: db_bind_Inr_iff)
  have "w1 = (let v = w\<lparr>db_faults := tl (db_faults w)\<rparr> in v\<lparr>token_prefixes := token_prefixes v @ [(tid, p)]\<rparr>)"
    using insert_Inr [OF w1(1) [unfolded insert_token_prefix_def]] by (simp add: Let_def)
  then show ?case using Cons.IH [OF w1(2)] by (simp add: Let_def)
qed (simp add: db_return_def)

lemma create_token_Inr:
  assumes "create_token tid name expires_at sids ps w = (Inr u, w')"
  shows "\<exists>t. tokens w' = tokens w @ [t] \<and> t_id t = tid \<and> t_revoked_at t = None \<and>
    token_sessions w' = token_sessions w @ map (Pair tid) sids \<and> token_prefixes w' = token_prefixes w @ map (Pair tid) ps \<and>
    db_now w' = db_now w \<and> (db_faults w = [] \<longrightarrow> db_faults w' = [])"
proof -
  obtain u1 w1 u2 w2 where w: "insert_token tid name expires_at w = (Inr u1, w1)"
      "for_each (insert_token_session tid) sids w1 = (Inr u2, w2)" "for_each (insert_token_prefix tid) ps w2 = (Inr u, w')"
    using assms by (auto simp: create_token_def db_bind_Inr_iff)
  obtain t where "tokens w1 = tokens w @ [t]" "t_id t = tid" "t_revoked_at t = None"
      "token_sessions w1 = token_sessions w" "token_prefixes w1 = token_prefixes w" "db_now w1 = db_now w" "db_faults w = [] \<longrightarrow> db_faults w1 = []"
    using insert_Inr [OF w(1) [unfolded insert_token_def]] by simp
  then show ?thesis using for_each_sessions [OF w(2)] for_each_prefixes [OF w(3)] by auto
qed

lemma values_of_append [simp]: "values_of tid (rows @ rows') = values_of tid rows @ values_of tid rows'"
  by (simp add: values_of_def)

lemma values_of_pairs [simp]: "values_of tid (map (Pair tid) xs) = xs"
  by (induction xs) (simp_all add: values_of_def)

lemma values_of_none: "tid \<notin> fst ` set rows \<Longrightarrow> values_of tid rows = []"
  by (auto simp: values_of_def filter_empty_conv)

end
