(* ===== verification/Jwt_Auth.thy ===== *)
theory Jwt_Auth
  imports Token_Store Api_Error "HOL-Library.Word"
begin

text \<open>
  Bearer authentication (\<open>src/middleware/jwt.rs\<close>), the part of the console that shares it
  (\<open>src/console/mod.rs\<close>, \<open>src/console/handlers.rs\<close>) and the token endpoints
  (\<open>src/api/shared/tokens/handlers.rs\<close>). Encoding and decoding a JWT is a library and an
  argument; a request is its method, its path as sent, and the two headers read.
\<close>

unbundle bit_operations_syntax

section \<open>Comparing secrets\<close>

definition bytes_of :: "string \<Rightarrow> 8 word list" where
  "bytes_of s = map (\<lambda>c. word_of_nat (of_char c)) s"

definition constant_time_eq :: "string \<Rightarrow> string \<Rightarrow> bool" where
  "constant_time_eq a b =
     (if length (bytes_of a) \<noteq> length (bytes_of b) then False
      else foldl (\<lambda>acc (x, y). acc OR (x XOR y)) 0 (zip (bytes_of a) (bytes_of b)) = 0)"

section \<open>Claims\<close>

record claims =
  cl_sub :: string
  cl_role :: string
  cl_exp :: nat
  cl_iat :: nat
  cl_jti :: "string option"

datatype jwt_error = ExpiredSignature | InvalidToken | InvalidSignature | OtherJwtError

record jwt_lib =
  jwt_encode :: "string \<Rightarrow> claims \<Rightarrow> string"
  jwt_decode :: "string \<Rightarrow> unix \<Rightarrow> string \<Rightarrow> jwt_error + claims"

text \<open>The environment of the process: the variables read and the fallback secret drawn once.\<close>

record auth_config =
  ac_superadmin_token :: "string option"
  ac_jwt_secret :: "string option"
  ac_fallback_secret :: string

definition auth_secret :: "auth_config \<Rightarrow> string" where
  "auth_secret cfg = (case ac_jwt_secret cfg of Some s \<Rightarrow> s | None \<Rightarrow> ac_fallback_secret cfg)"

text \<open>\<open>as usize\<close> of an i64 time stamp wraps at 64 bits.\<close>

definition as_usize :: "int \<Rightarrow> nat" where
  "as_usize i = nat (i mod 2 ^ 64)"

definition generate_token :: "jwt_lib \<Rightarrow> auth_config \<Rightarrow> unix \<Rightarrow> string \<Rightarrow> string \<Rightarrow> int \<Rightarrow> string option \<Rightarrow> string" where
  "generate_token jl cfg now subject role expires_in_hours jti =
     jwt_encode jl (auth_secret cfg) \<lparr> cl_sub = subject, cl_role = role, cl_exp = as_usize (now + expires_in_hours * 3600),
       cl_iat = as_usize now, cl_jti = jti \<rparr>"

definition validate_token :: "jwt_lib \<Rightarrow> auth_config \<Rightarrow> unix \<Rightarrow> string \<Rightarrow> jwt_error + claims" where
  "validate_token jl cfg now token = jwt_decode jl (auth_secret cfg) now token"

definition is_superadmin :: "claims \<Rightarrow> bool" where
  "is_superadmin c \<longleftrightarrow> cl_role c = ''superadmin''"

section \<open>The middleware\<close>

record auth_request =
  rq_method :: string
  rq_path :: string
  rq_authorization :: "string option"
  rq_cookie :: "string option"

datatype auth_outcome = Pass "token_status option" | Unauthorized string | ForbiddenBy string

definition is_console_path :: "string \<Rightarrow> bool" where
  "is_console_path path \<longleftrightarrow>
     path \<in> {''/'', ''/login'', ''/logout'', ''/data'', ''/assets/console.css'', ''/assets/playground.js'', ''/assets/logo.png''} \<or>
     starts_with ''/drawer/'' path \<or> starts_with ''/qr-svg/'' path \<or> starts_with ''/s/'' path \<or>
     (starts_with ''/sessions'' path \<and> \<not> starts_with ''/api/'' path)"

definition exempt :: "string \<Rightarrow> bool" where
  "exempt path \<longleftrightarrow> path \<in> {''/health'', ''/livez'', ''/readyz'', ''/metrics''} \<or>
     ends_with ''/cloud/webhook'' path \<or> ends_with ''/cloud/flow-endpoint/exchange'' path \<or> is_console_path path"

definition strip_prefix :: "string \<Rightarrow> string \<Rightarrow> string option" where
  "strip_prefix p s = (if starts_with p s then Some (drop (length p) s) else None)"

fun first_some :: "'a option list \<Rightarrow> 'a option" where
  "first_some [] = None"
| "first_some (None # xs) = first_some xs"
| "first_some (Some x # xs) = Some x"

definition cookie_token :: "string option \<Rightarrow> string option" where
  "cookie_token cookie = (case cookie of None \<Rightarrow> None
     | Some raw \<Rightarrow> first_some (map (\<lambda>part. strip_prefix ''waxum_console='' (trim_str part)) (split_on (CHR '';'') raw)))"

definition request_token :: "auth_request \<Rightarrow> string option" where
  "request_token rq =
     (case Option.bind (rq_authorization rq) (strip_prefix ''Bearer '') of
        Some t \<Rightarrow> Some t
      | None \<Rightarrow> cookie_token (rq_cookie rq))"

definition session_id_from_path :: "string \<Rightarrow> string option" where
  "session_id_from_path path =
     (case strip_prefix ''/api/v1/sessions/'' path of
        None \<Rightarrow> None
      | Some rest \<Rightarrow> (let i = hd (split_on (CHR ''/'') rest)
                    in if i = [] \<or> i \<in> {''purge'', ''disconnect-all'', ''reconnect-all'', ''search''} then None else Some i))"

definition scoped_collection_access :: "string \<Rightarrow> string \<Rightarrow> token_status \<Rightarrow> bool" where
  "scoped_collection_access rmethod path status =
     (if path \<notin> {''/api/v1/sessions'', ''/api/v1/sessions/''} then False
      else if rmethod = ''GET'' then True
      else if rmethod = ''POST'' then ts_session_prefixes status \<noteq> []
      else False)"

definition in_scope :: "auth_request \<Rightarrow> token_status \<Rightarrow> bool" where
  "in_scope rq status =
     (case session_id_from_path (rq_path rq) of
        Some requested \<Rightarrow> covers status requested
      | None \<Rightarrow> scoped_collection_access (rq_method rq) (rq_path rq) status)"

definition is_superadmin_token :: "auth_config \<Rightarrow> string \<Rightarrow> bool" where
  "is_superadmin_token cfg token =
     (case ac_superadmin_token cfg of Some t \<Rightarrow> t \<noteq> [] \<and> constant_time_eq token t | None \<Rightarrow> False)"

definition check_scope :: "auth_request \<Rightarrow> string \<Rightarrow> 'w token_db_scheme \<Rightarrow> auth_outcome \<times> 'w token_db_scheme" where
  "check_scope rq jti w =
     (case token_status_of jti w of
        (Inl _, w') \<Rightarrow> (Unauthorized ''Token status lookup failed'', w')
      | (Inr None, w') \<Rightarrow> (ForbiddenBy ''Token is no longer valid'', w')
      | (Inr (Some status), w') \<Rightarrow>
          (if ts_revoked status then (ForbiddenBy ''Token has been revoked'', w')
           else if \<not> in_scope rq status then (ForbiddenBy ''Token is not authorized for this session'', w')
           else (Pass (Some status), w')))"

definition jwt_error_message :: "jwt_error \<Rightarrow> string" where
  "jwt_error_message e = (case e of ExpiredSignature \<Rightarrow> ''Token has expired'' | InvalidToken \<Rightarrow> ''Invalid token format''
     | InvalidSignature \<Rightarrow> ''Invalid token signature'' | OtherJwtError \<Rightarrow> ''Token validation failed'')"

definition jwt_auth_middleware ::
    "jwt_lib \<Rightarrow> auth_config \<Rightarrow> auth_request \<Rightarrow> 'w token_db_scheme \<Rightarrow> auth_outcome \<times> 'w token_db_scheme" where
  "jwt_auth_middleware jl cfg rq w =
     (if exempt (rq_path rq) then (Pass None, w)
      else case request_token rq of
        None \<Rightarrow> (Unauthorized ''Missing or invalid Authorization header. Use: Bearer <token>'', w)
      | Some token \<Rightarrow>
          if is_superadmin_token cfg token then (Pass None, w)
          else (case validate_token jl cfg (db_now w) token of
              Inl e \<Rightarrow> (Unauthorized (jwt_error_message e), w)
            | Inr c \<Rightarrow>
                if \<not> is_superadmin c then (ForbiddenBy ''Superadmin role required'', w)
                else (case cl_jti c of None \<Rightarrow> (Pass None, w) | Some jti \<Rightarrow> check_scope rq jti w)))"

text \<open>The console accepts the operator's credential only.\<close>

definition token_is_superadmin :: "jwt_lib \<Rightarrow> auth_config \<Rightarrow> unix \<Rightarrow> string \<Rightarrow> bool" where
  "token_is_superadmin jl cfg now token =
     (if is_superadmin_token cfg token then True
      else case validate_token jl cfg now token of
        Inr c \<Rightarrow> is_superadmin c \<and> cl_jti c = None
      | Inl _ \<Rightarrow> False)"

definition get_superadmin_token :: "jwt_lib \<Rightarrow> auth_config \<Rightarrow> unix \<Rightarrow> string \<times> bool" where
  "get_superadmin_token jl cfg now =
     (case ac_superadmin_token cfg of
        Some t \<Rightarrow> if t \<noteq> [] then (t, True) else (generate_token jl cfg now ''superadmin'' ''superadmin'' (24 * 365) None, False)
      | None \<Rightarrow> (generate_token jl cfg now ''superadmin'' ''superadmin'' (24 * 365) None, False))"

section \<open>The token endpoints\<close>

type_synonym ('w, 'a) token_handler = "'w token_db_scheme \<Rightarrow> (api_error + 'a) \<times> 'w token_db_scheme"

record mint_request =
  mq_name :: "string option"
  mq_session_ids :: "string list"
  mq_session_prefixes :: "string list"
  mq_expires_in_hours :: "int option"

record mint_response =
  mp_id :: string
  mp_token :: string
  mp_name :: "string option"
  mp_session_ids :: "string list"
  mp_session_prefixes :: "string list"
  mp_expires_at :: unix

definition valid_session_prefix :: "string \<Rightarrow> bool" where
  "valid_session_prefix p \<longleftrightarrow> length p \<ge> 3 \<and> list_all (\<lambda>c. is_alnum c \<or> c \<in> {CHR ''-'', CHR ''_''}) p"

fun require_sessions :: "string list \<Rightarrow> ('w, unit) token_handler" where
  "require_sessions [] = db_return ()"
| "require_sessions (sid # sids) =
     db_bind (db_map_err Internal (get_session sid)) (\<lambda>s.
       case s of None \<Rightarrow> (\<lambda>w. (Inl (SessionNotFound sid), w)) | Some _ \<Rightarrow> require_sessions sids)"

text \<open>
  \<open>Utc::now() + Duration::hours(h)\<close> panics past the last second chrono can represent, the end
  of the year 262142; \<open>None\<close> is that panic.
\<close>

definition MAX_UTC :: unix where "MAX_UTC = 8210266876799"

definition add_hours :: "unix \<Rightarrow> int \<Rightarrow> unix option" where
  "add_hours now h = (if now + h * 3600 \<le> MAX_UTC then Some (now + h * 3600) else None)"

definition mint_token ::
    "jwt_lib \<Rightarrow> auth_config \<Rightarrow> string \<Rightarrow> mint_request \<Rightarrow> 'w token_db_scheme
     \<Rightarrow> ((api_error + mint_response) \<times> 'w token_db_scheme) option" where
  "mint_token jl cfg uuid rq w =
     (if mq_session_ids rq = [] \<and> mq_session_prefixes rq = []
      then Some (Inl (BadRequest ''at least one of session_ids / session_prefixes is required''), w)
      else case find (\<lambda>p. \<not> valid_session_prefix p) (mq_session_prefixes rq) of
        Some p \<Rightarrow> Some (Inl (BadRequest (''invalid session prefix '' @ p
            @ '': use at least 3 characters of A-Z a-z 0-9 - _'')), w)
      | None \<Rightarrow>
          (case require_sessions (mq_session_ids rq) w of
             (Inl e, w1) \<Rightarrow> Some (Inl e, w1)
           | (Inr _, w1) \<Rightarrow>
               let hours = max 1 (case mq_expires_in_hours rq of None \<Rightarrow> 24 * 30 | Some h \<Rightarrow> h)
               in (case add_hours (db_now w1) hours of
                     None \<Rightarrow> None
                   | Some expires_at \<Rightarrow>
                       Some (db_bind (db_map_err Internal (create_token uuid (mq_name rq) (Some expires_at)
                            (mq_session_ids rq) (mq_session_prefixes rq))) (\<lambda>_ w2.
                         (Inr \<lparr> mp_id = uuid, mp_token = generate_token jl cfg (db_now w2) uuid ''superadmin'' hours (Some uuid),
                            mp_name = mq_name rq, mp_session_ids = mq_session_ids rq,
                            mp_session_prefixes = mq_session_prefixes rq, mp_expires_at = expires_at \<rparr>, w2)) w1))))"

record token_summary =
  sy_id :: string
  sy_name :: "string option"
  sy_session_ids :: "string list"
  sy_session_prefixes :: "string list"
  sy_created_at :: unix
  sy_expires_at :: "unix option"
  sy_revoked :: bool

definition list_tokens :: "(token_row \<Rightarrow> nat) \<Rightarrow> ('w, token_summary list \<times> nat) token_handler" where
  "list_tokens rank =
     db_bind (db_map_err Internal (list_tokens_db rank 1000 0)) (\<lambda>rs w.
       (Inr (map (\<lambda>r. \<lparr> sy_id = tr_id r, sy_name = tr_name r, sy_session_ids = tr_session_ids r,
          sy_session_prefixes = tr_session_prefixes r, sy_created_at = tr_created_at r,
          sy_expires_at = tr_expires_at r, sy_revoked = (tr_revoked_at r \<noteq> None) \<rparr>) rs, length rs), w))"

definition revoke_token :: "string \<Rightarrow> ('w, json) token_handler" where
  "revoke_token tid =
     db_bind (db_map_err Internal (revoke_db tid)) (\<lambda>revoked w.
       if revoked then (Inr (success_with_message ''Token revoked''), w) else (Inl (TokenNotFound tid), w))"

end
