(* ===== verification/Net_Guard.thy ===== *)
theory Net_Guard
  imports Waxum_Prelude "HOL-Library.Word"
begin

unbundle bit_operations_syntax

text \<open>
  The SSRF guard (\<open>src/net_guard.rs\<close>): which addresses count as public, the eager check of a
  caller-supplied URL and the resolver every outgoing connection goes through. URL parsing,
  name resolution and the printing of addresses belong to the libraries \<open>url\<close> and \<open>tokio\<close>
  and are arguments. The lemmas show that the byte tests of the code are exactly the
  published address blocks.
\<close>

datatype ipv4 = V4 "8 word" "8 word" "8 word" "8 word"

datatype ipv6 =
  V6 "16 word" "16 word" "16 word" "16 word" "16 word" "16 word" "16 word" "16 word"

datatype ip_addr = IpV4 ipv4 | IpV6 ipv6

section \<open>The address predicates of the standard library\<close>

fun v4_is_private :: "ipv4 \<Rightarrow> bool" where
  "v4_is_private (V4 a b c d) \<longleftrightarrow>
     a = 10 \<or> (a = 172 \<and> 16 \<le> b \<and> b \<le> 31) \<or> (a = 192 \<and> b = 168)"

fun v4_is_loopback :: "ipv4 \<Rightarrow> bool" where
  "v4_is_loopback (V4 a b c d) \<longleftrightarrow> a = 127"

fun v4_is_link_local :: "ipv4 \<Rightarrow> bool" where
  "v4_is_link_local (V4 a b c d) \<longleftrightarrow> a = 169 \<and> b = 254"

fun v4_is_multicast :: "ipv4 \<Rightarrow> bool" where
  "v4_is_multicast (V4 a b c d) \<longleftrightarrow> 224 \<le> a \<and> a \<le> 239"

fun v4_is_broadcast :: "ipv4 \<Rightarrow> bool" where
  "v4_is_broadcast (V4 a b c d) \<longleftrightarrow> a = 255 \<and> b = 255 \<and> c = 255 \<and> d = 255"

fun v4_is_documentation :: "ipv4 \<Rightarrow> bool" where
  "v4_is_documentation (V4 a b c d) \<longleftrightarrow>
     (a = 192 \<and> b = 0 \<and> c = 2) \<or> (a = 198 \<and> b = 51 \<and> c = 100) \<or> (a = 203 \<and> b = 0 \<and> c = 113)"

fun v4_is_unspecified :: "ipv4 \<Rightarrow> bool" where
  "v4_is_unspecified (V4 a b c d) \<longleftrightarrow> a = 0 \<and> b = 0 \<and> c = 0 \<and> d = 0"

fun v6_is_loopback :: "ipv6 \<Rightarrow> bool" where
  "v6_is_loopback (V6 a b c d e f g h) \<longleftrightarrow>
     a = 0 \<and> b = 0 \<and> c = 0 \<and> d = 0 \<and> e = 0 \<and> f = 0 \<and> g = 0 \<and> h = 1"

fun v6_is_unspecified :: "ipv6 \<Rightarrow> bool" where
  "v6_is_unspecified (V6 a b c d e f g h) \<longleftrightarrow>
     a = 0 \<and> b = 0 \<and> c = 0 \<and> d = 0 \<and> e = 0 \<and> f = 0 \<and> g = 0 \<and> h = 0"

fun v6_is_multicast :: "ipv6 \<Rightarrow> bool" where
  "v6_is_multicast (V6 a b c d e f g h) \<longleftrightarrow> a AND 0xff00 = 0xff00"

fun to_ipv4_mapped :: "ipv6 \<Rightarrow> ipv4 option" where
  "to_ipv4_mapped (V6 a b c d e f g h) =
     (if a = 0 \<and> b = 0 \<and> c = 0 \<and> d = 0 \<and> e = 0 \<and> f = 0xffff
      then Some (V4 (ucast (drop_bit 8 g)) (ucast g) (ucast (drop_bit 8 h)) (ucast h))
      else None)"

section \<open>The guard\<close>

fun is_globally_routable_v4 :: "ipv4 \<Rightarrow> bool" where
  "is_globally_routable_v4 (V4 a b c d) =
     (if v4_is_private (V4 a b c d) \<or> v4_is_loopback (V4 a b c d) \<or> v4_is_link_local (V4 a b c d)
         \<or> v4_is_multicast (V4 a b c d) \<or> v4_is_broadcast (V4 a b c d)
         \<or> v4_is_documentation (V4 a b c d) \<or> v4_is_unspecified (V4 a b c d)
      then False
      else if a = 0 then False
      else if a = 100 \<and> b AND 0xc0 = 64 then False
      else True)"

fun is_globally_routable_v6 :: "ipv6 \<Rightarrow> bool" where
  "is_globally_routable_v6 (V6 a b c d e f g h) =
     (if v6_is_loopback (V6 a b c d e f g h) \<or> v6_is_unspecified (V6 a b c d e f g h)
         \<or> v6_is_multicast (V6 a b c d e f g h)
      then False
      else if a AND 0xfe00 = 0xfc00 then False
      else if a AND 0xffc0 = 0xfe80 then False
      else True)"

fun is_globally_routable :: "ip_addr \<Rightarrow> bool" where
  "is_globally_routable (IpV4 v4) = is_globally_routable_v4 v4"
| "is_globally_routable (IpV6 v6) =
     (case to_ipv4_mapped v6 of
        Some mapped \<Rightarrow> is_globally_routable_v4 mapped
      | None \<Rightarrow> is_globally_routable_v6 v6)"

record parsed_url =
  url_scheme :: string
  url_host :: "string option"
  url_port_or_default :: "nat option"

record net_world =
  parse_url :: "string \<Rightarrow> string + parsed_url"
  lookup_host :: "string \<Rightarrow> nat \<Rightarrow> string + ip_addr list"
  show_ip :: "ip_addr \<Rightarrow> string"

definition validate_public_url :: "net_world \<Rightarrow> string \<Rightarrow> string + parsed_url" where
  "validate_public_url net raw =
     (case parse_url net raw of
        Inl e \<Rightarrow> Inl (''invalid URL: '' @ e)
      | Inr url \<Rightarrow>
          if url_scheme url \<noteq> ''http'' \<and> url_scheme url \<noteq> ''https''
          then Inl (''unsupported URL scheme '' @ [CHR 0x27] @ url_scheme url @ [CHR 0x27]
                    @ '', only http/https are allowed'')
          else (case url_host url of
             None \<Rightarrow> Inl ''URL has no host''
           | Some host \<Rightarrow>
               (let port = (case url_port_or_default url of None \<Rightarrow> 80 | Some p \<Rightarrow> p) in
                case lookup_host net host port of
                  Inl e \<Rightarrow> Inl (''failed to resolve host '' @ [CHR 0x27] @ host @ [CHR 0x27] @ '': '' @ e)
                | Inr addrs \<Rightarrow>
                    if addrs = [] then Inl (''host '' @ [CHR 0x27] @ host @ [CHR 0x27] @ '' did not resolve to any address'')
                    else (case find (\<lambda>a. \<not> is_globally_routable a) addrs of
                       Some a \<Rightarrow> Inl ([CHR 0x27] @ host @ [CHR 0x27] @ '' resolves to a non-public address (''
                                      @ show_ip net a @ ''), refusing'')
                     | None \<Rightarrow> Inr url))))"

definition resolve :: "net_world \<Rightarrow> string \<Rightarrow> string + ip_addr list" where
  "resolve net host =
     (case lookup_host net host 0 of
        Inl e \<Rightarrow> Inl e
      | Inr addrs \<Rightarrow>
          if addrs = [] then Inl (''host '' @ [CHR 0x27] @ host @ [CHR 0x27] @ '' did not resolve to any address'')
          else (case find (\<lambda>a. \<not> is_globally_routable a) addrs of
             Some a \<Rightarrow> Inl (''refusing to connect: '' @ [CHR 0x27] @ host @ [CHR 0x27]
                            @ '' resolves to non-public address '' @ show_ip net a)
           | None \<Rightarrow> Inr addrs))"

section \<open>Address blocks\<close>

fun v4_value :: "ipv4 \<Rightarrow> nat" where
  "v4_value (V4 a b c d) = unat a * 2 ^ 24 + unat b * 2 ^ 16 + unat c * 2 ^ 8 + unat d"

text \<open>\<open>in_block4 net len ip\<close>: the address is in \<open>net/len\<close>.\<close>

definition in_block4 :: "ipv4 \<Rightarrow> nat \<Rightarrow> ipv4 \<Rightarrow> bool" where
  "in_block4 net len ip \<longleftrightarrow> v4_value ip div 2 ^ (32 - len) = v4_value net div 2 ^ (32 - len)"

definition special_blocks4 :: "(ipv4 \<times> nat) list" where
  "special_blocks4 =
     [(V4 0 0 0 0, 8), (V4 10 0 0 0, 8), (V4 100 64 0 0, 10), (V4 127 0 0 0, 8),
      (V4 169 254 0 0, 16), (V4 172 16 0 0, 12), (V4 192 0 2 0, 24), (V4 192 168 0 0, 16),
      (V4 198 51 100 0, 24), (V4 203 0 113 0, 24), (V4 224 0 0 0, 4), (V4 255 255 255 255, 32)]"

lemma byte_lt: "unat (b :: 8 word) < 256"
  using unsigned_less [of b, where 'a = nat] by simp

lemma word16_lt: "unat (b :: 16 word) < 65536"
  using unsigned_less [of b, where 'a = nat] by simp

lemma block_4: "v4_value (V4 a b c d) div 2 ^ 28 = unat a div 16"
  and block_8: "v4_value (V4 a b c d) div 2 ^ 24 = unat a"
  and block_10: "v4_value (V4 a b c d) div 2 ^ 22 = unat a * 4 + unat b div 64"
  and block_12: "v4_value (V4 a b c d) div 2 ^ 20 = unat a * 16 + unat b div 16"
  and block_16: "v4_value (V4 a b c d) div 2 ^ 16 = unat a * 256 + unat b"
  and block_24: "v4_value (V4 a b c d) div 2 ^ 8 = unat a * 65536 + unat b * 256 + unat c"
  using byte_lt [of a] byte_lt [of b] byte_lt [of c] byte_lt [of d] by simp_all

lemma word_eq_unat: "(x :: 'a :: len word) = y \<longleftrightarrow> unat x = unat y"
  by (simp add: word_unat_eq_iff)

lemma word_le_unat: "(x :: 'a :: len word) \<le> y \<longleftrightarrow> unat x \<le> unat y"
  by (simp add: word_le_nat_alt)

lemma digits_eq:
  assumes "(y :: nat) < m"
  shows "x * m + y = n \<longleftrightarrow> x = n div m \<and> y = n mod m"
  using assms by (metis add.commute div_mod_decomp div_mult_self3 div_less add_0 mod_less mod_mult_self3
      nat_less_le not_less_zero)

lemma digits_eq3:
  assumes "(y :: nat) < m" and "z < k"
  shows "(x * m + y) * k + z = n \<longleftrightarrow> x = n div k div m \<and> y = n div k mod m \<and> z = n mod k"
  using digits_eq [OF assms(2), of "x * m + y" n] digits_eq [OF assms(1), of x "n div k"] by auto

lemma div_64_lt: "unat (b :: 8 word) div 64 < 4" and div_16_lt: "unat (b :: 8 word) div 16 < 16"
  using byte_lt [of b] by simp_all

lemma in_block4_simps:
  "in_block4 net 4 (V4 a b c d) \<longleftrightarrow> unat a div 16 = v4_value net div 2 ^ 28"
  "in_block4 net 8 (V4 a b c d) \<longleftrightarrow> unat a = v4_value net div 2 ^ 24"
  "in_block4 net 10 (V4 a b c d) \<longleftrightarrow>
     unat a = v4_value net div 2 ^ 22 div 4 \<and> unat b div 64 = v4_value net div 2 ^ 22 mod 4"
  "in_block4 net 12 (V4 a b c d) \<longleftrightarrow>
     unat a = v4_value net div 2 ^ 20 div 16 \<and> unat b div 16 = v4_value net div 2 ^ 20 mod 16"
  "in_block4 net 16 (V4 a b c d) \<longleftrightarrow>
     unat a = v4_value net div 2 ^ 16 div 256 \<and> unat b = v4_value net div 2 ^ 16 mod 256"
  "in_block4 net 24 (V4 a b c d) \<longleftrightarrow>
     unat a = v4_value net div 2 ^ 8 div 256 div 256 \<and> unat b = v4_value net div 2 ^ 8 div 256 mod 256 \<and>
     unat c = v4_value net div 2 ^ 8 mod 256"
  "in_block4 net 32 (V4 a b c d) \<longleftrightarrow>
     unat a = v4_value net div 256 div 256 div 256 \<and> unat b = v4_value net div 256 div 256 mod 256 \<and>
     unat c = v4_value net div 256 mod 256 \<and> unat d = v4_value net mod 256"
proof -
  have v: "v4_value (V4 a b c d) = ((unat a * 256 + unat b) * 256 + unat c) * 256 + unat d" by simp
  have "v4_value (V4 a b c d) div 2 ^ 8 = (unat a * 256 + unat b) * 256 + unat c"
    unfolding block_24 by simp
  then show
    "in_block4 net 24 (V4 a b c d) \<longleftrightarrow>
       unat a = v4_value net div 2 ^ 8 div 256 div 256 \<and> unat b = v4_value net div 2 ^ 8 div 256 mod 256 \<and>
       unat c = v4_value net div 2 ^ 8 mod 256"
    using digits_eq3 [OF byte_lt byte_lt, of "unat a" b c "v4_value net div 2 ^ 8"]
    by (simp add: in_block4_def)
  show "in_block4 net 32 (V4 a b c d) \<longleftrightarrow>
     unat a = v4_value net div 256 div 256 div 256 \<and> unat b = v4_value net div 256 div 256 mod 256 \<and>
     unat c = v4_value net div 256 mod 256 \<and> unat d = v4_value net mod 256"
    unfolding in_block4_def v using digits_eq [OF byte_lt, of "(unat a * 256 + unat b) * 256 + unat c" d "v4_value net"]
      digits_eq3 [OF byte_lt byte_lt, of "unat a" b c "v4_value net div 256"] by auto
qed (use block_4 [of a b c d] block_8 [of a b c d] block_10 [of a b c d] block_12 [of a b c d]
      block_16 [of a b c d] in \<open>simp_all add: in_block4_def digits_eq [OF byte_lt]
        digits_eq [OF div_64_lt] digits_eq [OF div_16_lt] del: v4_value.simps\<close>)

lemma div_16_range: "x div 16 = n \<longleftrightarrow> n * 16 \<le> x \<and> x \<le> n * 16 + (15 :: nat)"
  by (auto simp: div_nat_eqI)

lemma and_not_mask: "(x :: 'a :: len word) AND NOT (mask k) = push_bit k (drop_bit k x)"
  by (rule bit_word_eqI) (auto simp: bit_simps)

lemma unat_and_not_mask: "unat ((x :: 'a :: len word) AND NOT (mask k)) = (unat x div 2 ^ k) * 2 ^ k"
proof -
  have "(unat x div 2 ^ k) * 2 ^ k < 2 ^ LENGTH('a)"
    using unsigned_less [of x, where 'a = nat] by (meson div_times_less_eq_dividend le_less_trans)
  then show ?thesis
    unfolding and_not_mask unsigned_push_bit_eq unsigned_drop_bit_eq
    by (simp add: push_bit_eq_mult drop_bit_eq_div take_bit_eq_mod)
qed

text \<open>The bit tests of the code, as ranges.\<close>

lemma and_c0: "(b :: 8 word) AND 0xc0 = 64 \<longleftrightarrow> unat b div 64 = 1"
proof -
  have "NOT (mask 6) = (0xc0 :: 8 word)" by (simp add: mask_eq_exp_minus_1)
  then have "unat (b AND 0xc0) = (unat b div 64) * 64" using unat_and_not_mask [of b 6] by simp
  then show ?thesis by (auto simp: word_eq_unat)
qed

lemma and_ff00: "(a :: 16 word) AND 0xff00 = 0xff00 \<longleftrightarrow> 0xff00 \<le> a"
proof -
  have "NOT (mask 8) = (0xff00 :: 16 word)" by (simp add: mask_eq_exp_minus_1)
  then have "unat (a AND 0xff00) = (unat a div 256) * 256" using unat_and_not_mask [of a 8] by simp
  then show ?thesis using word16_lt [of a] by (auto simp: word_eq_unat word_le_unat)
qed

lemma and_fe00: "(a :: 16 word) AND 0xfe00 = 0xfc00 \<longleftrightarrow> 0xfc00 \<le> a \<and> a \<le> 0xfdff"
proof -
  have "NOT (mask 9) = (0xfe00 :: 16 word)" by (simp add: mask_eq_exp_minus_1)
  then have "unat (a AND 0xfe00) = (unat a div 512) * 512" using unat_and_not_mask [of a 9] by simp
  then show ?thesis by (auto simp: word_eq_unat word_le_unat)
qed

lemma and_ffc0: "(a :: 16 word) AND 0xffc0 = 0xfe80 \<longleftrightarrow> 0xfe80 \<le> a \<and> a \<le> 0xfebf"
proof -
  have "NOT (mask 6) = (0xffc0 :: 16 word)" by (simp add: mask_eq_exp_minus_1)
  then have "unat (a AND 0xffc0) = (unat a div 64) * 64" using unat_and_not_mask [of a 6] by simp
  then show ?thesis by (auto simp: word_eq_unat word_le_unat)
qed

section \<open>Properties\<close>

text \<open>The IPv4 test of the guard is exactly membership in none of the published special
  blocks: this network, private, carrier-grade NAT, loopback, link local, documentation,
  multicast and broadcast.\<close>

theorem routable_v4_iff_no_special_block:
  "is_globally_routable_v4 ip \<longleftrightarrow> \<not> list_ex (\<lambda>(net, len). in_block4 net len ip) special_blocks4"
proof (cases ip)
  case (V4 a b c d)
  show ?thesis
    using and_c0 [of b]
    by (simp add: V4 special_blocks4_def in_block4_simps word_eq_unat word_le_unat div_16_range)
qed

text \<open>IPv6: the loopback and unspecified addresses and the ranges \<open>fc00::/7\<close>, \<open>fe80::/10\<close>
  and \<open>ff00::/8\<close> are refused, an IPv4-mapped address is judged by the address it carries, and
  everything else is let through.\<close>

theorem routable_v6_ranges:
  "is_globally_routable (IpV6 (V6 s0 s1 s2 s3 s4 s5 s6 s7)) \<longleftrightarrow>
   (if s0 = 0 \<and> s1 = 0 \<and> s2 = 0 \<and> s3 = 0 \<and> s4 = 0 \<and> s5 = 0xffff
    then is_globally_routable_v4 (V4 (ucast (drop_bit 8 s6)) (ucast s6) (ucast (drop_bit 8 s7)) (ucast s7))
    else \<not> (s0 = 0 \<and> s1 = 0 \<and> s2 = 0 \<and> s3 = 0 \<and> s4 = 0 \<and> s5 = 0 \<and> s6 = 0 \<and> (s7 = 0 \<or> s7 = 1)) \<and>
      \<not> (0xfc00 \<le> s0 \<and> s0 \<le> 0xfdff) \<and> \<not> (0xfe80 \<le> s0 \<and> s0 \<le> 0xfebf) \<and> \<not> 0xff00 \<le> s0)"
  by (auto simp: and_ff00 and_fe00 and_ffc0)

lemma find_None_all: "find (\<lambda>a. \<not> P a) xs = None \<longleftrightarrow> list_all P xs"
  by (auto simp: find_None_iff list_all_iff)

text \<open>
  The public addresses, from the published blocks and not from the byte tests of the code. An
  IPv6 address that carries an IPv4 address (\<open>::ffff:0:0/96\<close>) is public when that one is.
\<close>

fun public_address :: "ip_addr \<Rightarrow> bool" where
  "public_address (IpV4 ip) \<longleftrightarrow> \<not> list_ex (\<lambda>(net, len). in_block4 net len ip) special_blocks4"
| "public_address (IpV6 (V6 s0 s1 s2 s3 s4 s5 s6 s7)) \<longleftrightarrow>
     (if s0 = 0 \<and> s1 = 0 \<and> s2 = 0 \<and> s3 = 0 \<and> s4 = 0 \<and> s5 = 0xffff
      then \<not> list_ex (\<lambda>(net, len). in_block4 net len (V4 (ucast (drop_bit 8 s6)) (ucast s6) (ucast (drop_bit 8 s7)) (ucast s7)))
        special_blocks4
      else \<not> (s0 = 0 \<and> s1 = 0 \<and> s2 = 0 \<and> s3 = 0 \<and> s4 = 0 \<and> s5 = 0 \<and> s6 = 0 \<and> (s7 = 0 \<or> s7 = 1)) \<and>
        \<not> (0xfc00 \<le> s0 \<and> s0 \<le> 0xfdff) \<and> \<not> (0xfe80 \<le> s0 \<and> s0 \<le> 0xfebf) \<and> \<not> 0xff00 \<le> s0)"

lemma routable_public: "is_globally_routable = public_address"
proof
  fix a show "is_globally_routable a = public_address a"
  proof (cases a rule: public_address.cases)
    case (1 ip)
    then show ?thesis by (simp add: routable_v4_iff_no_special_block)
  next
    case (2 s0 s1 s2 s3 s4 s5 s6 s7)
    then show ?thesis by (simp only: routable_v6_ranges routable_v4_iff_no_special_block public_address.simps)
  qed
qed

lemma resolve_iff: "resolve net name = Inr ips \<longleftrightarrow> lookup_host net name 0 = Inr ips \<and> ips \<noteq> [] \<and> list_all public_address ips"
  unfolding routable_public [symmetric] find_None_all [symmetric]
  by (simp add: resolve_def split: sum.split option.split) auto

lemma validate_accepts:
  "validate_public_url net raw = Inr url \<longleftrightarrow>
     parse_url net raw = Inr url \<and> url_scheme url \<in> {''http'', ''https''} \<and>
     (\<exists>host addrs. url_host url = Some host \<and>
        lookup_host net host (case url_port_or_default url of None \<Rightarrow> 80 | Some p \<Rightarrow> p) = Inr addrs \<and>
        addrs \<noteq> [] \<and> list_all public_address addrs)"
proof (cases "parse_url net raw")
  case (Inr u)
  show ?thesis
  proof (cases "url_host u")
    case (Some host)
    show ?thesis
    proof (cases "lookup_host net host (case url_port_or_default u of None \<Rightarrow> 80 | Some p \<Rightarrow> p)")
      case lookup: (Inr addrs)
      have "validate_public_url net raw = Inr url \<longleftrightarrow>
          u = url \<and> url_scheme u \<in> {''http'', ''https''} \<and> addrs \<noteq> [] \<and> list_all is_globally_routable addrs"
        unfolding find_None_all [symmetric]
        by (simp add: validate_public_url_def Inr Some lookup Let_def split: option.split)
      then show ?thesis using Inr Some lookup by (auto simp: routable_public)
    qed (use Inr Some in \<open>auto simp: validate_public_url_def Let_def\<close>)
  qed (use Inr in \<open>auto simp: validate_public_url_def\<close>)
qed (simp add: validate_public_url_def)

text \<open>A URL whose host resolves, and only to public addresses.\<close>

definition public_target :: "net_world \<Rightarrow> string \<Rightarrow> parsed_url \<Rightarrow> bool" where
  "public_target net raw url \<longleftrightarrow> parse_url net raw = Inr url \<and> url_scheme url \<in> {''http'', ''https''} \<and>
     (\<exists>host addrs. url_host url = Some host \<and>
        lookup_host net host (case url_port_or_default url of None \<Rightarrow> 80 | Some p \<Rightarrow> p) = Inr addrs \<and>
        addrs \<noteq> [] \<and> list_all public_address addrs)"

lemma validate_iff: "validate_public_url net raw = Inr url \<longleftrightarrow> public_target net raw url"
  by (simp only: validate_accepts public_target_def)

text \<open>C25. The guard lets exactly the public addresses through. \<open>validate_public_url\<close> accepts a URL
  exactly when it is http or https and its host resolves to at least one address and only to
  public ones; the resolver hands the client its addresses exactly when there is one and all
  are public. An address is public when it is in none of the blocks of \<open>special_blocks4\<close>
  (0/8, 10/8, 100.64/10, 127/8, 169.254/16, 172.16/12, 192.0.2/24, 192.168/16, 198.51.100/24,
  203.0.113/24, 224/4, 255.255.255.255), and for IPv6 neither unspecified, loopback nor in
  \<open>fc00::/7\<close>, \<open>fe80::/10\<close> and \<open>ff00::/8\<close>, an IPv4-mapped address being judged by the IPv4
  address it carries.\<close>

theorem guard_accepts_only_public:
  "(validate_public_url net raw = Inr url \<longleftrightarrow>
      parse_url net raw = Inr url \<and> url_scheme url \<in> {''http'', ''https''} \<and>
      (\<exists>host addrs. url_host url = Some host \<and>
         lookup_host net host (case url_port_or_default url of None \<Rightarrow> 80 | Some p \<Rightarrow> p) = Inr addrs \<and>
         addrs \<noteq> [] \<and> list_all public_address addrs)) \<and>
   (resolve net name = Inr ips \<longleftrightarrow> lookup_host net name 0 = Inr ips \<and> ips \<noteq> [] \<and> list_all public_address ips)"
  unfolding validate_accepts resolve_iff by simp

end
