(* ===== verification/Webhook_Api.thy ===== *)
theory Webhook_Api
  imports Webhook_Delivery Net_Guard "HOL-Library.Multiset"
begin

text \<open>
  The webhook endpoints (\<open>src/api/shared/webhooks/handlers.rs\<close>) over the registry, the
  dead-letter ring and the database. A handler takes the state to a response, \<open>Inl\<close> an error,
  and the state it leaves; the replay endpoint also spawns a delivery.
\<close>

type_synonym ('h, 'a) handler = "'h hub_scheme \<Rightarrow> (api_error + 'a) \<times> 'h hub_scheme"

definition require_session :: "string \<Rightarrow> ('h, unit) handler" where
  "require_session sid h =
     (case get_session sid h of
        (Inl e, h') \<Rightarrow> (Inl (Internal e), h')
      | (Inr None, h') \<Rightarrow> (Inl (SessionNotFound sid), h')
      | (Inr (Some _), h') \<Rightarrow> (Inr (), h'))"

definition list_webhooks :: "string \<Rightarrow> ('h, (string \<times> webhook_config) list) handler" where
  "list_webhooks sid = db_bind (require_session sid) (\<lambda>_ h. (Inr (get_webhooks sid h), h))"

record register_webhook_request =
  rw_url :: string
  rw_events :: "webhook_event list"
  rw_secret :: "string option"

definition register_webhook ::
    "net_world \<Rightarrow> string \<Rightarrow> string \<Rightarrow> register_webhook_request \<Rightarrow> ('h, webhook_config) handler" where
  "register_webhook net uuid sid request =
     db_bind (require_session sid) (\<lambda>_ h.
       case validate_public_url net (rw_url request) of
         Inl e \<Rightarrow> (Inl (BadRequest e), h)
       | Inr _ \<Rightarrow>
           if list_ex (\<lambda>(_, w). wc_url w = rw_url request) (get_webhooks sid h)
           then (Inl (WebhookAlreadyExists (rw_url request)), h)
           else
             let config = \<lparr> wc_url = rw_url request, wc_events = rw_events request,
                            wc_secret = rw_secret request, wc_enabled = True \<rparr>;
                 h1 = register_webhook_mem sid uuid config h
             in (Inr config, db_ignore (create_webhook uuid sid config) h1))"

definition unregister_webhook :: "string \<Rightarrow> string \<Rightarrow> ('h, json) handler" where
  "unregister_webhook sid wid h =
     (let (removed, h1) = remove_webhook sid wid h
      in if removed = None then (Inl (WebhookNotFound wid), h1)
         else (Inr (success_with_message ''Webhook unregistered''), db_ignore (delete_webhook wid) h1))"

definition reenable_webhook :: "string \<Rightarrow> string \<Rightarrow> ('h, json) handler" where
  "reenable_webhook sid wid =
     db_bind (db_map_err Internal (enable_webhook wid)) (\<lambda>flipped h.
       if \<not> flipped then (Inl (WebhookNotFound wid), h)
       else (Inr (success_with_message ''Webhook re-enabled''), snd (set_webhook_enabled sid wid True h)))"

definition list_webhook_dlq :: "string \<Rightarrow> ('h, dlq_entry list) handler" where
  "list_webhook_dlq sid = db_bind (require_session sid) (\<lambda>_ h. (Inr (webhook_dlq_list sid h), h))"

definition replay_webhook_dlq_entry ::
    "string \<Rightarrow> string \<Rightarrow> 'h hub_scheme \<Rightarrow> ((api_error + delivery) \<times> 'h hub_scheme) option" where
  "replay_webhook_dlq_entry sid eid h =
     (case webhook_dlq_take sid eid h of
        (None, h1) \<Rightarrow> Some (Inl (WebhookNotFound eid), h1)
      | (Some e, h1) \<Rightarrow>
          (let (ok, cs) = webhook_circuit_allows (hub_mono h1) (dlq_url e) (hub_circuits h1);
               h2 = h1\<lparr>hub_circuits := cs\<rparr>
           in if \<not> ok
              then map_option (\<lambda>h3. (Inl (BadRequest (''webhook circuit is OPEN for '' @ dlq_url e @ '' ''
                       @ [CHR 0x97] @ '' replay skipped, try again later'')), h3))
                     (webhook_dlq_push e h2)
              else Some (Inr \<lparr> dl_session = dlq_session e, dl_event = dlq_event e, dl_url = dlq_url e,
                               dl_secret = dlq_secret e, dl_payload = dlq_payload e \<rparr>, h2)))"

section \<open>Properties\<close>

lemma require_session_frame:
  "snd (require_session sid h) = h\<lparr>db_faults := tl (db_faults h)\<rparr>"
  by (cases "db_faults h")
    (auto simp: require_session_def get_session_def db_stmt_def split: option.splits)

lemma require_session_registry [frame_simps]:
  "hub_webhooks (snd (require_session sid h)) = hub_webhooks h"
  "hub_dlq (snd (require_session sid h)) = hub_dlq h"
  "sessions (snd (require_session sid h)) = sessions h"
  by (simp_all add: require_session_frame)

lemma require_session_Inr:
  "fst (require_session sid h) = Inr u \<Longrightarrow> find_session sid h \<noteq> None"
  by (auto simp: require_session_def get_session_def db_stmt_def find_session_def
      split: option.splits list.splits)

lemma ignore_create_frame [frame_simps]:
  fixes h :: "'h hub_scheme"
  shows "hub_webhooks (db_ignore (create_webhook uuid sid config) h) = hub_webhooks h"
    and "hub_dlq (db_ignore (create_webhook uuid sid config) h) = hub_dlq h"
  by (auto simp: db_ignore_def create_webhook_def db_insert_def db_bind_def db_stmt_def db_return_def
      db_fail_def split: list.splits option.splits)

text \<open>Registering a webhook, whatever the database does: it is accepted only for an existing
  session, a URL that passes the SSRF guard and that the session has not registered yet, and
  then the session's webhooks are those before and the new one, enabled; a refused request
  leaves the registry as it was. Other sessions are never touched.\<close>

theorem register_webhook_outcome:
  "(case fst (register_webhook net uuid sid req h) of
      Inl e \<Rightarrow> hub_webhooks (snd (register_webhook net uuid sid req h)) = hub_webhooks h
    | Inr config \<Rightarrow>
        find_session sid h \<noteq> None \<and> isl (validate_public_url net (rw_url req)) = False \<and>
        \<not> list_ex (\<lambda>(_, w). wc_url w = rw_url req) (get_webhooks sid h) \<and>
        config = \<lparr> wc_url = rw_url req, wc_events = rw_events req, wc_secret = rw_secret req,
                   wc_enabled = True \<rparr> \<and>
        get_webhooks sid (snd (register_webhook net uuid sid req h)) = dm_put uuid config (get_webhooks sid h)) \<and>
   (\<forall>other. other = sid \<or>
      get_webhooks other (snd (register_webhook net uuid sid req h)) = get_webhooks other h)"
proof -
  obtain r h1 where q: "require_session sid h = (r, h1)" by fastforce
  have h1: "hub_webhooks h1 = hub_webhooks h"
    using require_session_registry(1) [of sid h] by (simp add: q)
  show ?thesis
  proof (cases r)
    case (Inl e)
    with q h1 show ?thesis by (simp add: register_webhook_def get_webhooks_def)
  next
    case (Inr u)
    then have found: "find_session sid h \<noteq> None" using require_session_Inr [of sid h] q by simp
    have "register_webhook net uuid sid req h =
       (case validate_public_url net (rw_url req) of
         Inl e \<Rightarrow> (Inl (BadRequest e), h1)
       | Inr _ \<Rightarrow>
           if list_ex (\<lambda>(_, w). wc_url w = rw_url req) (get_webhooks sid h1)
           then (Inl (WebhookAlreadyExists (rw_url req)), h1)
           else
             let config = \<lparr> wc_url = rw_url req, wc_events = rw_events req,
                            wc_secret = rw_secret req, wc_enabled = True \<rparr>
             in (Inr config, db_ignore (create_webhook uuid sid config) (register_webhook_mem sid uuid config h1)))"
      by (simp add: register_webhook_def q Inr Let_def split: sum.splits)
    then show ?thesis using h1 found
      by (auto simp: get_webhooks_def Let_def frame_simps register_webhook_mem_def dm_or_def
          split: sum.splits)
  qed
qed

lemma take_entry:
  assumes "find (\<lambda>e. k e = i) ring = Some e"
  shows "mset (takeWhile (\<lambda>e. k e \<noteq> i) ring @ tl (dropWhile (\<lambda>e. k e \<noteq> i) ring)) = mset ring - {#e#}"
    and "e \<in> set ring" and "k e = i"
    and "Suc (length (takeWhile (\<lambda>e. k e \<noteq> i) ring @ tl (dropWhile (\<lambda>e. k e \<noteq> i) ring))) = length ring"
  using assms by (induction ring) (auto split: if_splits)

text \<open>C24. Replaying a dead letter never loses it: when the URL's circuit refuses the replay the
  session's dead letters are the same as before, as a multiset; otherwise exactly that one
  is removed and handed to a delivery that repeats its event, payload, URL and secret. An
  unknown entry changes nothing.\<close>

theorem replay_conserves_dead_letters:
  assumes "hub_ok h" and "list_all (\<lambda>e. dlq_session e = sid) (webhook_dlq_list sid h)"
  shows "case replay_webhook_dlq_entry sid eid h of
      None \<Rightarrow> False
    | Some (Inl err, h') \<Rightarrow> mset (webhook_dlq_list sid h') = mset (webhook_dlq_list sid h)
    | Some (Inr d, h') \<Rightarrow> \<exists>e. e \<in># mset (webhook_dlq_list sid h) \<and> dlq_id e = eid \<and>
        mset (webhook_dlq_list sid h') = mset (webhook_dlq_list sid h) - {#e#} \<and>
        d = \<lparr> dl_session = sid, dl_event = dlq_event e, dl_url = dlq_url e,
              dl_secret = dlq_secret e, dl_payload = dlq_payload e \<rparr>"
proof (cases "webhook_dlq_take sid eid h")
  case (Pair found h1)
  show ?thesis
  proof (cases found)
    case None
    with Pair show ?thesis
      by (auto simp: replay_webhook_dlq_entry_def webhook_dlq_take_def split: option.splits)
  next
    case (Some e)
    obtain ring where ring: "dm_get (hub_dlq h) sid = Some ring" "find (\<lambda>e. dlq_id e = eid) ring = Some e"
      using Pair Some by (auto simp: webhook_dlq_take_def split: option.splits)
    define rest where "rest = takeWhile (\<lambda>e. dlq_id e \<noteq> eid) ring @ tl (dropWhile (\<lambda>e. dlq_id e \<noteq> eid) ring)"
    have h1: "h1 = h\<lparr>hub_dlq := dm_put sid rest (hub_dlq h)\<rparr>"
      using Pair ring by (simp add: webhook_dlq_take_def rest_def)
    note e = take_entry [OF ring(2)]
    have ls: "mset (webhook_dlq_list sid h) = mset ring" "dlq_session e = sid"
      using assms(2) e(2) ring(1) by (auto simp: webhook_dlq_list_def dm_or_def list_all_iff)
    have cap: "0 < dlq_capacity (hub_retry h)" "length rest < dlq_capacity (hub_retry h)"
      using assms(1) e(4) ring(1) by (auto simp: hub_ok_def retry_config_ok_def dm_or_def rest_def [symmetric]
          dest: spec [where x = sid])
    obtain ok cs where ask: "webhook_circuit_allows (hub_mono h) (dlq_url e) (hub_circuits h) = (ok, cs)"
      by fastforce
    have msets: "mset rest = mset ring - {#e#}" "e \<in># mset ring"
      using e(1,2) by (simp_all add: rest_def)
    show ?thesis
    proof (cases ok)
      case True
      then show ?thesis using Pair Some ask e(3) msets ls
        by (auto simp: replay_webhook_dlq_entry_def h1 webhook_dlq_list_def dm_or_def Let_def
            intro!: exI [of _ e])
    next
      case False
      have "webhook_dlq_push e (h1\<lparr>hub_circuits := cs\<rparr>) =
          Some (h1\<lparr>hub_circuits := cs, hub_dlq := dm_put sid (rest @ [e]) (hub_dlq h1)\<rparr>)"
        using cap ls(2) by (simp add: webhook_dlq_push_def dlq_push_result h1 dm_or_def)
      moreover have "mset (rest @ [e]) = mset ring"
        using msets by (simp add: insert_DiffM)
      ultimately show ?thesis using Pair Some ask False ls
        by (simp add: replay_webhook_dlq_entry_def h1 webhook_dlq_list_def dm_or_def Let_def)
    qed
  qed
qed

definition demo_entry :: dlq_entry where
  "demo_entry = \<lparr> dlq_id = ''i'', dlq_session = ''s'', dlq_url = ''u'', dlq_event = ''message'',
     dlq_payload = ''p'', dlq_secret = None, dlq_error = ''e'', dlq_attempts = 5, dlq_failed_at = 7 \<rparr>"

definition demo_dead_hub :: hub where
  "demo_dead_hub = (demo_hub demo_retry)\<lparr>hub_dlq := [(''s'', [demo_entry])]\<rparr>"

lemma demo_dead_hub_ok: "hub_ok demo_dead_hub"
  "list_all (\<lambda>e. dlq_session e = ''s'') (webhook_dlq_list ''s'' demo_dead_hub)"
  by (auto simp: hub_ok_def demo_dead_hub_def demo_hub_def demo_retry_def retry_config_ok_def dm_or_def
      dm_get_def webhook_dlq_list_def demo_entry_def)

lemma replay_conserves_dead_letters_witness:
  "replay_webhook_dlq_entry ''s'' ''i'' demo_dead_hub \<noteq> None"
  using replay_conserves_dead_letters [OF demo_dead_hub_ok, of "''i''"] by (auto split: option.splits)

end
