(* ===== verification/Session_Admin.thy ===== *)
theory Session_Admin
  imports Session_Tags Jwt_Auth Webhook_Api
begin

text \<open>
  The session endpoints that create, list, read, delete and purge sessions
  (\<open>src/api/shared/sessions/handlers/crud.rs\<close>, \<open>src/api/shared/bulk/handlers.rs\<close>). The scope of
  a minted token is an argument, \<open>None\<close> for the operator. Shutting a client down and
  connecting one are the WhatsApp library's; a connect handed to the async runtime is noted
  in \<open>connects_spawned\<close>. Directories are the paths given to the file system.
\<close>

section \<open>Create\<close>

record create_session_request =
  cr_id :: "string option"
  cr_name :: "string option"
  cr_reuse :: "bool option"
  cr_webhook :: "register_webhook_request option"

definition storage_path_of :: "string \<Rightarrow> string \<Rightarrow> string" where
  "storage_path_of base sid = base @ ''/'' @ sid"

definition create_dir_all :: "string \<Rightarrow> ('w, unit) admin_handler" where
  "create_dir_all path w =
     (let (ok, w1) = fs_call (\<lambda>w. w\<lparr>dirs_created := dirs_created w @ [path]\<rparr>) w
      in (if ok then Inr () else Inl (Internal ''cannot create directory''), w1))"

definition webhook_of_request :: "register_webhook_request \<Rightarrow> webhook_config" where
  "webhook_of_request rq = \<lparr> wc_url = rw_url rq, wc_events = (if rw_events rq = [] then [EvAll] else rw_events rq),
     wc_secret = rw_secret rq, wc_enabled = True \<rparr>"

definition add_first_webhook :: "string \<Rightarrow> string \<Rightarrow> register_webhook_request option \<Rightarrow> ('w, unit) admin_handler" where
  "add_first_webhook wid sid webhook = (case webhook of
      None \<Rightarrow> db_return ()
    | Some rq \<Rightarrow> db_bind (db_map_err Internal (create_webhook wid sid (webhook_of_request rq)))
        (\<lambda>_ w. (Inr (), register_webhook_mem sid wid (webhook_of_request rq) w)))"

definition start_connecting :: "string \<Rightarrow> string \<Rightarrow> 'w admin_scheme \<Rightarrow> 'w admin_scheme" where
  "start_connecting sid path w =
     (let (s, m) = get_or_create_session sid path (gw_sessions w)
      in w\<lparr>gw_sessions := dm_put sid (s\<lparr>ss_status := StConnecting\<rparr>) m, connects_spawned := connects_spawned w @ [sid]\<rparr>)"

definition creation_allowed :: "token_status option \<Rightarrow> create_session_request \<Rightarrow> bool" where
  "creation_allowed scope rq = (case scope of None \<Rightarrow> True
     | Some st \<Rightarrow> (case cr_id rq of None \<Rightarrow> False | Some i \<Rightarrow> covers st i))"

definition create_session_api ::
    "(string \<Rightarrow> ('w, unit) admin_handler) \<Rightarrow> string \<Rightarrow> string \<Rightarrow> token_status option \<Rightarrow> create_session_request
     \<Rightarrow> ('w, session_info) admin_handler" where
  "create_session_api connect_session fresh wid scope rq w =
     (if \<not> creation_allowed scope rq
      then (Inl (Forbidden ''a scoped token can only create a session whose id starts with one of its prefixes; pass that id explicitly''), w)
      else let sid = (case cr_id rq of Some i \<Rightarrow> i | None \<Rightarrow> fresh) in
        db_bind (db_map_err Internal (get_session sid)) (\<lambda>found.
          case found of
            Some present \<Rightarrow>
              (if cr_reuse rq \<noteq> Some True then db_fail AlreadyConnected
               else db_bind (connect_session sid) (\<lambda>_. db_return present))
          | None \<Rightarrow>
              db_bind (create_dir_all (storage_path_of (base_storage_path w) sid)) (\<lambda>_.
                db_bind (db_map_err Internal (create_session sid (cr_name rq) (storage_path_of (base_storage_path w) sid))) (\<lambda>i.
                  db_bind (add_first_webhook wid sid (cr_webhook rq)) (\<lambda>_ w1.
                    (Inr i, start_connecting sid (storage_path_of (base_storage_path w) sid) w1))))) w)"

section \<open>List and read\<close>

definition live_view :: "session_state dash \<Rightarrow> session_info \<Rightarrow> session_info" where
  "live_view m s = (case get_session_mem (si_id s) m of
      None \<Rightarrow> s
    | Some r \<Rightarrow> s\<lparr>si_status := effective_status r, si_is_logged_in := (effective_status r = StLoggedIn)\<rparr>)"

definition tag_filter :: "string option \<Rightarrow> string option" where
  "tag_filter q = (case map_option trim_str q of Some t \<Rightarrow> if t = [] then None else Some t | None \<Rightarrow> None)"

definition listed :: "token_status option \<Rightarrow> string list option \<Rightarrow> session_info \<Rightarrow> bool" where
  "listed scope allowed s \<longleftrightarrow>
     (case allowed of None \<Rightarrow> True | Some ids \<Rightarrow> si_id s \<in> set ids) \<and>
     (case scope of None \<Rightarrow> True | Some st \<Rightarrow> covers st (si_id s))"

definition list_sessions_api ::
    "(session_row \<Rightarrow> nat) \<Rightarrow> token_status option \<Rightarrow> string option \<Rightarrow> ('w, session_info list \<times> nat) admin_handler" where
  "list_sessions_api rank scope tag =
     db_bind (db_map_err Internal (list_sessions rank)) (\<lambda>rows w.
       let allowed = map_option (\<lambda>t. sessions_with_tag t w) (tag_filter tag);
           out = map (live_view (gw_sessions w)) (filter (listed scope allowed) rows)
       in (Inr (out, length out), w))"

definition get_session_api :: "string \<Rightarrow> ('w, session_info) admin_handler" where
  "get_session_api sid =
     db_bind (db_map_err Internal (get_session sid)) (\<lambda>found w.
       case found of None \<Rightarrow> (Inl (SessionNotFound sid), w) | Some s \<Rightarrow> (Inr (live_view (gw_sessions w) s), w))"

section \<open>Delete\<close>

definition remove_dir_all :: "string \<Rightarrow> 'w admin_scheme \<Rightarrow> 'w admin_scheme" where
  "remove_dir_all path w = snd (fs_call (\<lambda>w. w\<lparr>dirs_removed := dirs_removed w @ [path]\<rparr>) w)"

definition remove_runtime :: "string \<Rightarrow> 'w admin_scheme \<Rightarrow> 'w admin_scheme" where
  "remove_runtime sid w = w\<lparr>gw_sessions := snd (remove_session_mem sid (gw_sessions w))\<rparr>"

definition delete_session_api :: "string \<Rightarrow> ('w, json) admin_handler" where
  "delete_session_api sid w =
     (let w1 = purge_new_chats sid (drop_tags_for sid (purge_webhooks_for_session sid (remove_runtime sid w)))
      in db_bind (db_map_err Internal (get_storage_path sid)) (\<lambda>path w2.
        let w3 = (case path of None \<Rightarrow> w2 | Some p \<Rightarrow> remove_dir_all p w2)
        in db_bind (db_map_err Internal (delete_session sid)) (\<lambda>deleted.
             if deleted then db_return (success_with_message ''Session deleted'') else db_fail (SessionNotFound sid)) w3) w1)"

section \<open>Purge\<close>

record purge_query =
  pq_filter :: string
  pq_days :: int
  pq_dry_run :: bool

record purge_response =
  pr_filter :: string
  pr_days :: int
  pr_dry_run :: bool
  pr_purged :: "string list"
  pr_kept :: nat
  pr_total_before :: nat

definition is_cloud_session :: "session_info \<Rightarrow> bool" where
  "is_cloud_session s \<longleftrightarrow> si_provider s = ''whatsapp_cloud''"

definition purge_hit :: "purge_query \<Rightarrow> int \<Rightarrow> session_info \<Rightarrow> bool" where
  "purge_hit q cutoff s \<longleftrightarrow>
     (if is_cloud_session s \<and> pq_filter q \<noteq> ''all'' then False
      else if pq_filter q = ''logged_out'' then \<not> si_is_logged_in s
      else if pq_filter q = ''disconnected'' then si_status s = StDisconnected
      else if pq_filter q = ''all'' then True
      else \<not> si_is_logged_in s \<and>
        min (case si_last_connected_at s of None \<Rightarrow> si_updated_at s | Some t \<Rightarrow> t) (si_updated_at s) < cutoff)"

definition purge_one :: "string \<Rightarrow> 'w admin_scheme \<Rightarrow> bool \<times> 'w admin_scheme" where
  "purge_one sid w =
     (let (path, w1) = get_storage_path sid w;
          w2 = purge_new_chats sid (purge_webhooks_for_session sid (remove_runtime sid w1));
          w3 = (case path of Inr (Some p) \<Rightarrow> remove_dir_all p w2 | _ \<Rightarrow> w2);
          (res, w4) = delete_session sid w3
      in (case res of Inr _ \<Rightarrow> True | Inl _ \<Rightarrow> False, w4))"

fun purge_each :: "string list \<Rightarrow> 'w admin_scheme \<Rightarrow> string list \<times> 'w admin_scheme" where
  "purge_each [] w = ([], w)"
| "purge_each (sid # sids) w =
     (let (ok, w1) = purge_one sid w; (purged, w2) = purge_each sids w1
      in (if ok then sid # purged else purged, w2))"

definition purge_sessions :: "(session_row \<Rightarrow> nat) \<Rightarrow> purge_query \<Rightarrow> ('w, purge_response) admin_handler" where
  "purge_sessions rank q =
     db_bind (db_map_err Internal (list_sessions rank)) (\<lambda>rows w.
       let cutoff = db_now w - max 0 (pq_days q) * 86400;
           targets = map si_id (filter (purge_hit q cutoff) rows);
           response = (\<lambda>dry purged. \<lparr> pr_filter = pq_filter q, pr_days = pq_days q, pr_dry_run = dry, pr_purged = purged,
              pr_kept = length rows - length targets, pr_total_before = length rows \<rparr>)
       in if pq_dry_run q then (Inr (response True targets), w)
          else (let (purged, w1) = purge_each targets w in (Inr (response False purged), w1)))"

section \<open>Search\<close>

record search_hit =
  sh_id :: string
  sh_name :: "string option"
  sh_phone_number :: "string option"
  sh_push_name :: "string option"
  sh_status :: session_status
  sh_is_logged_in :: bool
  sh_match_on :: "string list"

definition contains_str :: "string \<Rightarrow> string \<Rightarrow> bool" where
  "contains_str needle s \<longleftrightarrow> list_ex (\<lambda>k. starts_with needle (drop k s)) [0..<length s + 1]"

definition matches_on :: "string \<Rightarrow> session_info \<Rightarrow> string list" where
  "matches_on needle s =
     (let field = (\<lambda>name v. case v of Some x \<Rightarrow> if contains_str needle (to_ascii_lowercase x) then [name] else [] | None \<Rightarrow> [])
      in field ''id'' (Some (si_id s)) @ field ''name'' (si_name s) @ field ''phone_number'' (si_phone_number s)
         @ field ''push_name'' (si_push_name s))"

definition search_sessions ::
    "(session_row \<Rightarrow> nat) \<Rightarrow> string \<Rightarrow> ('w, string \<times> nat \<times> search_hit list) admin_handler" where
  "search_sessions rank q =
     (let needle = to_ascii_lowercase (trim_str q) in
      if needle = [] then db_fail (BadRequest ''empty query'')
      else db_bind (db_map_err Internal (list_sessions rank)) (\<lambda>rows.
        let hits = map (\<lambda>s. \<lparr> sh_id = si_id s, sh_name = si_name s, sh_phone_number = si_phone_number s,
              sh_push_name = si_push_name s, sh_status = si_status s, sh_is_logged_in = si_is_logged_in s,
              sh_match_on = matches_on needle s \<rparr>) (filter (\<lambda>s. matches_on needle s \<noteq> []) rows)
        in db_return (q, length hits, hits)))"

text \<open>The slice of one session disconnected by the fleet command.\<close>

definition disconnect_one :: "session_info \<Rightarrow> 'w admin_scheme \<Rightarrow> bool \<times> 'w admin_scheme" where
  "disconnect_one s w =
     (case Option.bind (get_session_mem (si_id s) (gw_sessions w)) ss_client of
        None \<Rightarrow> (False, w)
      | Some _ \<Rightarrow>
          (let w1 = (case get_session_mem (si_id s) (gw_sessions w) of
                 None \<Rightarrow> w
               | Some r \<Rightarrow> w\<lparr>gw_sessions := dm_put (si_id s) (set_client None (r\<lparr>ss_status := StDisconnected\<rparr>)) (gw_sessions w)\<rparr>)
           in (True, db_ignore (update_session_status (si_id s) StDisconnected (si_is_logged_in s)) w1)))"

fun disconnect_each :: "session_info list \<Rightarrow> 'w admin_scheme \<Rightarrow> (string list \<times> string list) \<times> 'w admin_scheme" where
  "disconnect_each [] w = (([], []), w)"
| "disconnect_each (s # ss) w =
     (let (ok, w1) = disconnect_one s w; ((done_ids, skipped), w2) = disconnect_each ss w1
      in (if ok then (si_id s # done_ids, skipped) else (done_ids, si_id s # skipped), w2))"

definition disconnect_all :: "(session_row \<Rightarrow> nat) \<Rightarrow> ('w, (string list \<times> string list) \<times> nat) admin_handler" where
  "disconnect_all rank =
     db_bind (db_map_err Internal (list_sessions rank)) (\<lambda>rows w.
       let (lists, w1) = disconnect_each rows w in (Inr (lists, length rows), w1))"

end
