(* ===== verification/Message_Store.thy ===== *)
theory Message_Store
  imports Message_Content Session_Admin
begin

text \<open>
  The message history and the address book of a session: the tables \<open>messages\<close> and
  \<open>messages_fts\<close> (\<open>src/db/messages.rs\<close>) and \<open>contacts\<close> (\<open>src/db/contacts.rs\<close>), the ingestion
  helpers and the search endpoints (\<open>src/api/shared/search/handlers.rs\<close>). Full-text matching is
  the database's and an argument; LIKE is written out, up to the collation of letters beyond ASCII. \<open>message_chats\<close>, which the new-chat
  limiter reads, is the projection of \<open>messages\<close> on its session and chat columns.
\<close>

section \<open>LIKE patterns\<close>

definition escape_like :: "string \<Rightarrow> string" where
  "escape_like q = concat (map (\<lambda>c. if c = CHR 0x5C \<or> c = CHR ''%'' \<or> c = CHR ''_'' then [CHR 0x5C, c] else [c]) q)"

definition like_pattern :: "string \<Rightarrow> string" where
  "like_pattern q = ''%'' @ escape_like q @ ''%''"

text \<open>
  \<open>text LIKE pattern ESCAPE '\'\<close> of the SQL standard; an escape at the end matches nothing.
  \<open>f\<close> gives the letters that count as the same one value.
\<close>

function like_match :: "(char \<Rightarrow> char) \<Rightarrow> string \<Rightarrow> string \<Rightarrow> bool" where
  "like_match f [] s = (s = [])"
| "like_match f (p # ps) s =
     (if p = CHR 0x5C
      then (case ps of [] \<Rightarrow> False | q # qs \<Rightarrow> (case s of [] \<Rightarrow> False | c # cs \<Rightarrow> f c = f q \<and> like_match f qs cs))
      else if p = CHR ''%'' then like_match f ps s \<or> (case s of [] \<Rightarrow> False | c # cs \<Rightarrow> like_match f (p # ps) cs)
      else (case s of [] \<Rightarrow> False | c # cs \<Rightarrow> (p = CHR ''_'' \<or> f c = f p) \<and> like_match f ps cs))"
  by pat_completeness auto
termination by (relation "measure (\<lambda>(f, p, s). length p + length s)") auto

declare like_match.simps [simp del]

text \<open>
  The letters a driver's statement does not tell apart: ILIKE on Postgres, LIKE under the
  collation of the columns on MySQL (\<open>utf8mb4_general_ci\<close> on contacts, the default of
  \<open>utf8mb4\<close> elsewhere) and LIKE on SQLite all ignore the case of ASCII letters. SQLite tells all
  other characters apart; on the other two the locale and the collation of the server decide,
  which is the argument \<open>coll\<close>.
\<close>

type_synonym collation = "driver \<Rightarrow> char \<Rightarrow> char"

definition folded :: "collation \<Rightarrow> driver \<Rightarrow> char \<Rightarrow> char" where
  "folded coll drv c = (if of_char c < (128 :: nat) then lower_char c else if drv = SQLite then c else coll drv c)"

definition sql_like :: "collation \<Rightarrow> driver \<Rightarrow> string \<Rightarrow> string \<Rightarrow> bool" where
  "sql_like coll drv pattern s = like_match (folded coll drv) pattern s"

definition like_opt :: "collation \<Rightarrow> driver \<Rightarrow> string \<Rightarrow> string option \<Rightarrow> bool" where
  "like_opt coll drv pattern v = (case v of None \<Rightarrow> False | Some s \<Rightarrow> sql_like coll drv pattern s)"

text \<open>\<open>split_whitespace\<close>, and the MATCH expression of FTS5.\<close>

function split_whitespace :: "string \<Rightarrow> string list" where
  "split_whitespace [] = []"
| "split_whitespace (c # cs) =
     (if is_ws c then split_whitespace cs
      else (c # takeWhile (\<lambda>c. \<not> is_ws c) cs) # split_whitespace (dropWhile (\<lambda>c. \<not> is_ws c) cs))"
  by pat_completeness auto
termination by (relation "measure length") (auto simp: length_dropWhile_le le_imp_less_Suc)

definition fts5_match_query :: "string \<Rightarrow> string" where
  "fts5_match_query q = join_with '' ''
     (map (\<lambda>t. CHR 0x22 # t @ [CHR 0x22]) (filter (\<lambda>t. t \<noteq> []) (map (removeAll (CHR 0x22)) (split_whitespace q))))"

section \<open>Messages\<close>

record new_message =
  nm_message_id :: string
  nm_session :: string
  nm_chat_jid :: string
  nm_sender_jid :: string
  nm_direction :: string
  nm_msg_type :: string
  nm_body :: "string option"
  nm_timestamp :: unix
  nm_media :: "media_pointer option"
  nm_quoted_message_id :: "string option"
  nm_quoted_sender_jid :: "string option"

record stored_message =
  sm_id :: int
  sm_message_id :: string
  sm_session :: string
  sm_chat_jid :: string
  sm_sender_jid :: string
  sm_direction :: string
  sm_msg_type :: string
  sm_body :: "string option"
  sm_timestamp :: unix
  sm_media_key :: "string option"
  sm_file_sha256 :: "string option"
  sm_file_enc_sha256 :: "string option"
  sm_direct_path :: "string option"
  sm_file_length :: "int option"
  sm_media_type :: "string option"
  sm_mimetype :: "string option"
  sm_quoted_message_id :: "string option"
  sm_quoted_sender_jid :: "string option"

record message_row =
  ms_id :: int
  ms_message_id :: string
  ms_session :: string
  ms_chat_jid :: string
  ms_sender_jid :: string
  ms_direction :: string
  ms_msg_type :: string
  ms_body :: "string option"
  ms_timestamp :: unix
  ms_snippet :: "string option"
  ms_media :: "media_pointer option"
  ms_push_name :: "string option"
  ms_quoted_message_id :: "string option"
  ms_quoted_sender_jid :: "string option"

record history = admin +
  message_rows :: "stored_message list"
  fts_rows :: "(string \<times> string \<times> string) list"
  next_message_id :: int

type_synonym ('w, 'a) history_op = "'w history_scheme \<Rightarrow> (string + 'a) \<times> 'w history_scheme"

text \<open>What the database decides: a full-text match, its highlighted excerpt and the collation.\<close>

record fts_lib =
  fts_matches :: "driver \<Rightarrow> string \<Rightarrow> string \<Rightarrow> bool"
  fts_snippet :: "driver \<Rightarrow> string \<Rightarrow> string \<Rightarrow> string"
  fts_collation :: collation

definition stored_of :: "int \<Rightarrow> new_message \<Rightarrow> stored_message" where
  "stored_of i m = \<lparr> sm_id = i, sm_message_id = nm_message_id m, sm_session = nm_session m,
     sm_chat_jid = nm_chat_jid m, sm_sender_jid = nm_sender_jid m, sm_direction = nm_direction m,
     sm_msg_type = nm_msg_type m, sm_body = nm_body m, sm_timestamp = nm_timestamp m,
     sm_media_key = map_option mp_media_key (nm_media m), sm_file_sha256 = map_option mp_file_sha256 (nm_media m),
     sm_file_enc_sha256 = map_option mp_file_enc_sha256 (nm_media m), sm_direct_path = map_option mp_direct_path (nm_media m),
     sm_file_length = map_option mp_file_length (nm_media m), sm_media_type = map_option mp_media_type (nm_media m),
     sm_mimetype = map_option mp_mimetype (nm_media m), sm_quoted_message_id = nm_quoted_message_id m,
     sm_quoted_sender_jid = nm_quoted_sender_jid m \<rparr>"

definition message_key :: "stored_message \<Rightarrow> string \<times> string" where
  "message_key r = (sm_session r, sm_message_id r)"

definition insert_row :: "new_message \<Rightarrow> 'w history_scheme \<Rightarrow> bool \<times> 'w history_scheme" where
  "insert_row m w =
     (if list_ex (\<lambda>r. message_key r = (nm_session m, nm_message_id m)) (message_rows w) then (False, w)
      else (True, w\<lparr>message_rows := message_rows w @ [stored_of (next_message_id w) m],
        next_message_id := next_message_id w + 1, message_chats := message_chats w @ [(nm_session m, nm_chat_jid m)]\<rparr>))"

definition insert_message :: "new_message \<Rightarrow> ('w, unit) history_op" where
  "insert_message m = db_bind (db_stmt (insert_row m)) (\<lambda>changed w.
     (Inr (), if changed \<and> db_driver w = SQLite
        then (case nm_body m of
            None \<Rightarrow> w
          | Some body \<Rightarrow> db_ignore (db_stmt (\<lambda>w. ((), w\<lparr>fts_rows := fts_rows w @ [(body, nm_session m, nm_message_id m)]\<rparr>))) w)
        else w))"

definition newest_first :: "stored_message list \<Rightarrow> stored_message list" where
  "newest_first rows = sort_key (\<lambda>r. - sm_timestamp r) (sort_key (\<lambda>r. - sm_id r) rows)"

definition page :: "int \<Rightarrow> int \<Rightarrow> 'a list \<Rightarrow> 'a list" where
  "page limit offset rows = take (nat limit) (drop (nat offset) rows)"

definition row_to_message :: "(stored_message \<Rightarrow> string option) \<Rightarrow> stored_message \<Rightarrow> message_row" where
  "row_to_message snippet r = \<lparr> ms_id = sm_id r, ms_message_id = sm_message_id r, ms_session = sm_session r,
     ms_chat_jid = sm_chat_jid r, ms_sender_jid = sm_sender_jid r, ms_direction = sm_direction r,
     ms_msg_type = sm_msg_type r, ms_body = sm_body r, ms_timestamp = sm_timestamp r, ms_snippet = snippet r,
     ms_media = None, ms_push_name = None, ms_quoted_message_id = sm_quoted_message_id r,
     ms_quoted_sender_jid = sm_quoted_sender_jid r \<rparr>"

definition stored_media :: "stored_message \<Rightarrow> media_pointer option" where
  "stored_media r = map_option (\<lambda>key. \<lparr> mp_media_key = key, mp_file_sha256 = or_empty (sm_file_sha256 r),
     mp_file_enc_sha256 = or_empty (sm_file_enc_sha256 r), mp_direct_path = or_empty (sm_direct_path r),
     mp_file_length = (case sm_file_length r of None \<Rightarrow> 0 | Some n \<Rightarrow> n), mp_media_type = or_empty (sm_media_type r),
     mp_mimetype = or_empty (sm_mimetype r) \<rparr>) (sm_media_key r)"

definition row_to_chat_message :: "string option \<Rightarrow> stored_message \<Rightarrow> message_row" where
  "row_to_chat_message push_name r =
     (row_to_message (\<lambda>_. None) r)\<lparr>ms_media := stored_media r, ms_push_name := push_name\<rparr>"

definition in_scope :: "string option \<Rightarrow> stored_message \<Rightarrow> bool" where
  "in_scope sid r = (case sid of None \<Rightarrow> True | Some s \<Rightarrow> sm_session r = s)"

definition like_search :: "collation \<Rightarrow> string option \<Rightarrow> string \<Rightarrow> int \<Rightarrow> int \<Rightarrow> ('w, message_row list) history_op" where
  "like_search coll sid query limit offset = db_stmt (\<lambda>w.
     (map (row_to_message (\<lambda>_. None)) (page limit offset (newest_first
        (filter (\<lambda>r. like_opt coll (db_driver w) (like_pattern query) (sm_body r) \<and> in_scope sid r) (message_rows w)))), w))"

text \<open>The index of SQLite is joined with the messages; elsewhere the column itself is indexed.\<close>

definition indexed_body :: "'w history_scheme \<Rightarrow> stored_message \<Rightarrow> string option" where
  "indexed_body w r = (if db_driver w = SQLite
     then map_option fst (find (\<lambda>(_, sid, mid). (sid, mid) = message_key r) (fts_rows w)) else sm_body r)"

definition fts_search :: "fts_lib \<Rightarrow> string option \<Rightarrow> string \<Rightarrow> int \<Rightarrow> int \<Rightarrow> ('w, message_row list) history_op" where
  "fts_search fts sid query limit offset = db_stmt (\<lambda>w.
     let drv = db_driver w;
         hit = (\<lambda>r. case indexed_body w r of None \<Rightarrow> False | Some b \<Rightarrow> fts_matches fts drv query b);
         snippet = (\<lambda>r. if drv = MySQL then None else map_option (fts_snippet fts drv query) (indexed_body w r))
     in (map (row_to_message snippet) (page limit offset (newest_first
          (filter (\<lambda>r. hit r \<and> in_scope sid r) (message_rows w)))), w))"

text \<open>A failed query falls back to the next one.\<close>

definition db_or_else :: "('w \<Rightarrow> ('e + 'a) \<times> 'w) \<Rightarrow> ('w \<Rightarrow> ('e + 'a) \<times> 'w) \<Rightarrow> 'w \<Rightarrow> ('e + 'a) \<times> 'w" where
  "db_or_else m h w = (case m w of (Inl _, w1) \<Rightarrow> h w1 | (Inr a, w1) \<Rightarrow> (Inr a, w1))"

definition search_messages ::
    "fts_lib \<Rightarrow> string option \<Rightarrow> string \<Rightarrow> int \<Rightarrow> int \<Rightarrow> ('w, message_row list) history_op" where
  "search_messages fts sid query limit offset w =
     (if db_driver w = SQLite
      then (let q = fts5_match_query query in
            if q \<noteq> [] then db_or_else (fts_search fts sid q limit offset) (like_search (fts_collation fts) sid query limit offset) w
            else like_search (fts_collation fts) sid query limit offset w)
      else db_or_else (fts_search fts sid query limit offset) (like_search (fts_collation fts) sid query limit offset) w)"

definition list_by_chat :: "string \<Rightarrow> string \<Rightarrow> int \<Rightarrow> int \<Rightarrow> ('w, message_row list) history_op" where
  "list_by_chat sid chat limit offset = db_stmt (\<lambda>w.
     (map (\<lambda>r. row_to_chat_message
          (Option.bind (find (\<lambda>c. ct_session c = sm_session r \<and> ct_jid c = sm_sender_jid r) (contact_rows w)) ct_push_name) r)
        (page limit offset (newest_first (filter (\<lambda>r. sm_session r = sid \<and> sm_chat_jid r = chat) (message_rows w)))), w))"

section \<open>Ingestion\<close>

definition history_enabled :: "(string \<Rightarrow> string option) \<Rightarrow> bool" where
  "history_enabled env = (case env ''MESSAGE_HISTORY_ENABLED'' of
      None \<Rightarrow> True
    | Some v \<Rightarrow> to_ascii_lowercase v \<notin> {''0'', ''false'', ''no'', ''off''})"

definition incoming_message :: "'p proto_lib \<Rightarrow> string \<Rightarrow> 'p wa_message_scheme \<Rightarrow> message_info \<Rightarrow> new_message" where
  "incoming_message lib sid msg info =
     (let c = extract_message_content lib msg; quoted = extract_quoted_context lib msg
      in \<lparr> nm_message_id = mi_id info, nm_session = sid, nm_chat_jid = wj_text (mi_chat info),
           nm_sender_jid = wj_text (mi_sender info), nm_direction = (if mi_is_from_me info then ''out'' else ''in''),
           nm_msg_type = mc_type c, nm_body = or_else (mc_text c) (mc_caption c), nm_timestamp = mi_timestamp info,
           nm_media = extract_media_pointer lib msg, nm_quoted_message_id = map_option fst quoted,
           nm_quoted_sender_jid = Option.bind quoted snd \<rparr>)"

definition record_incoming ::
    "(string \<Rightarrow> string option) \<Rightarrow> 'p proto_lib \<Rightarrow> string \<Rightarrow> 'p wa_message_scheme \<Rightarrow> message_info
     \<Rightarrow> 'w history_scheme \<Rightarrow> 'w history_scheme" where
  "record_incoming env lib sid msg info w =
     (if \<not> history_enabled env then w else db_ignore (insert_message (incoming_message lib sid msg info)) w)"

definition record_outgoing ::
    "(string \<Rightarrow> string option) \<Rightarrow> 'p proto_lib \<Rightarrow> string \<Rightarrow> string \<Rightarrow> 'p wa_message_scheme \<Rightarrow> string
     \<Rightarrow> 'w history_scheme \<Rightarrow> 'w history_scheme" where
  "record_outgoing env lib sid to_jid msg message_id w =
     (if \<not> history_enabled env then w
      else let c = extract_message_content lib msg; quoted = extract_quoted_context lib msg
        in db_ignore (insert_message \<lparr> nm_message_id = message_id, nm_session = sid, nm_chat_jid = to_jid,
             nm_sender_jid = [], nm_direction = ''out'', nm_msg_type = mc_type c,
             nm_body = or_else (mc_text c) (mc_caption c), nm_timestamp = db_now w,
             nm_media = extract_media_pointer lib msg, nm_quoted_message_id = map_option fst quoted,
             nm_quoted_sender_jid = Option.bind quoted snd \<rparr>) w)"

section \<open>Endpoints\<close>

datatype media_type = MtImage | MtVideo | MtAudio | MtDocument | MtSticker

record message_media =
  mm_direct_path :: string
  mm_media_key :: string
  mm_file_sha256 :: string
  mm_file_enc_sha256 :: string
  mm_file_length :: nat
  mm_media_type :: media_type
  mm_mimetype :: string

definition media_type_of :: "string \<Rightarrow> media_type option" where
  "media_type_of s = map_of [(''image'', MtImage), (''video'', MtVideo), (''audio'', MtAudio),
     (''document'', MtDocument), (''sticker'', MtSticker)] s"

definition media_pointer_to_model :: "media_pointer \<Rightarrow> message_media option" where
  "media_pointer_to_model m = map_option (\<lambda>ty. \<lparr> mm_direct_path = mp_direct_path m, mm_media_key = mp_media_key m,
     mm_file_sha256 = mp_file_sha256 m, mm_file_enc_sha256 = mp_file_enc_sha256 m,
     mm_file_length = nat (mp_file_length m), mm_media_type = ty, mm_mimetype = mp_mimetype m \<rparr>)
     (media_type_of (mp_media_type m))"

record message_hit =
  mh_row :: message_row
  mh_media :: "message_media option"

definition rows_to_response :: "message_row list \<Rightarrow> message_hit list \<times> nat" where
  "rows_to_response rows =
     (map (\<lambda>r. \<lparr> mh_row = r, mh_media = Option.bind (ms_media r) media_pointer_to_model \<rparr>) rows, length rows)"

definition clamp_limit :: "int option \<Rightarrow> int" where
  "clamp_limit l = max 1 (min 200 (case l of None \<Rightarrow> 20 | Some n \<Rightarrow> n))"

definition clamp_offset :: "int option \<Rightarrow> int" where
  "clamp_offset l = max 0 (case l of None \<Rightarrow> 0 | Some n \<Rightarrow> n)"

definition search_all_messages ::
    "fts_lib \<Rightarrow> string option \<Rightarrow> string \<Rightarrow> int option \<Rightarrow> int option
     \<Rightarrow> 'w history_scheme \<Rightarrow> (api_error + message_hit list \<times> nat) \<times> 'w history_scheme" where
  "search_all_messages fts sid q limit offset =
     (if trim_str q = [] then db_fail (BadRequest ''q must not be empty'')
      else db_bind (db_map_err Internal (search_messages fts sid (trim_str q) (clamp_limit limit) (clamp_offset offset)))
             (\<lambda>rows. db_return (rows_to_response rows)))"

definition search_session_messages ::
    "fts_lib \<Rightarrow> string \<Rightarrow> string \<Rightarrow> int option \<Rightarrow> int option
     \<Rightarrow> 'w history_scheme \<Rightarrow> (api_error + message_hit list \<times> nat) \<times> 'w history_scheme" where
  "search_session_messages fts sid q limit offset w =
     (if get_session_mem sid (gw_sessions w) = None then (Inl (SessionNotFound sid), w)
      else search_all_messages fts (Some sid) q limit offset w)"

definition list_chat_messages ::
    "string \<Rightarrow> string \<Rightarrow> int option \<Rightarrow> int option
     \<Rightarrow> 'w history_scheme \<Rightarrow> (api_error + message_hit list \<times> nat) \<times> 'w history_scheme" where
  "list_chat_messages sid chat limit offset w =
     (if get_session_mem sid (gw_sessions w) = None then (Inl (SessionNotFound sid), w)
      else db_bind (db_map_err Internal (list_by_chat sid chat (clamp_limit limit) (clamp_offset offset)))
             (\<lambda>rows. db_return (rows_to_response rows)) w)"

section \<open>Contacts\<close>

record contact_upsert =
  cu_phone :: "string option"
  cu_lid_jid :: "string option"
  cu_full_name :: "string option"
  cu_first_name :: "string option"
  cu_push_name :: "string option"
  cu_business_name :: "string option"
  cu_source :: string

definition new_contact :: "string \<Rightarrow> string \<Rightarrow> contact_upsert \<Rightarrow> unix \<Rightarrow> contact_row" where
  "new_contact sid jid c now = \<lparr> ct_session = sid, ct_jid = jid, ct_phone = cu_phone c, ct_lid_jid = cu_lid_jid c,
     ct_full_name = cu_full_name c, ct_first_name = cu_first_name c, ct_push_name = cu_push_name c,
     ct_business_name = cu_business_name c, ct_source = cu_source c, ct_updated_at = now \<rparr>"

definition merge_contact :: "contact_upsert \<Rightarrow> unix \<Rightarrow> contact_row \<Rightarrow> contact_row" where
  "merge_contact c now r = r\<lparr>ct_phone := coalesce (cu_phone c) (ct_phone r), ct_lid_jid := coalesce (cu_lid_jid c) (ct_lid_jid r),
     ct_full_name := coalesce (cu_full_name c) (ct_full_name r), ct_first_name := coalesce (cu_first_name c) (ct_first_name r),
     ct_push_name := coalesce (cu_push_name c) (ct_push_name r),
     ct_business_name := coalesce (cu_business_name c) (ct_business_name r), ct_source := cu_source c, ct_updated_at := now\<rparr>"

definition contact_key :: "contact_row \<Rightarrow> string \<times> string" where
  "contact_key r = (ct_session r, ct_jid r)"

definition upsert_rows :: "string \<Rightarrow> string \<Rightarrow> contact_upsert \<Rightarrow> unix \<Rightarrow> contact_row list \<Rightarrow> contact_row list" where
  "upsert_rows sid jid c now rows =
     (if list_ex (\<lambda>r. contact_key r = (sid, jid)) rows
      then update_where (\<lambda>r. contact_key r = (sid, jid)) (merge_contact c now) rows
      else rows @ [new_contact sid jid c now])"

definition upsert_contact :: "string \<Rightarrow> string \<Rightarrow> contact_upsert \<Rightarrow> 'w session_db_scheme \<Rightarrow> (string + unit) \<times> 'w session_db_scheme" where
  "upsert_contact sid jid c = db_stmt (\<lambda>w. ((), w\<lparr>contact_rows := upsert_rows sid jid c (db_now w) (contact_rows w)\<rparr>))"

definition contact_like :: "collation \<Rightarrow> driver \<Rightarrow> string \<Rightarrow> string option \<Rightarrow> bool" where
  "contact_like coll drv pattern v =
     (if drv = SQLite then sql_like coll drv pattern (or_empty v) else like_opt coll drv pattern v)"

definition contact_found :: "collation \<Rightarrow> driver \<Rightarrow> string option \<Rightarrow> contact_row \<Rightarrow> bool" where
  "contact_found coll drv q r = (case q of None \<Rightarrow> True
     | Some s \<Rightarrow> list_ex (contact_like coll drv (like_pattern s))
         [ct_full_name r, ct_first_name r, ct_push_name r, ct_phone r, ct_business_name r])"

text \<open>The listing is in the order of the shown name, which the collation, \<open>collate\<close>, decides.\<close>

definition contact_label :: "contact_row \<Rightarrow> string" where
  "contact_label r = (case coalesce (ct_full_name r) (ct_push_name r) of None \<Rightarrow> ct_jid r | Some n \<Rightarrow> n)"

definition list_contacts ::
    "collation \<Rightarrow> (string \<Rightarrow> nat) \<Rightarrow> (contact_row \<Rightarrow> nat) \<Rightarrow> string \<Rightarrow> string option \<Rightarrow> nat \<Rightarrow> nat
     \<Rightarrow> 'w session_db_scheme \<Rightarrow> (string + contact_row list) \<times> 'w session_db_scheme" where
  "list_contacts coll collate rank sid q limit offset = db_stmt (\<lambda>w.
     (take (max 1 (min 1000 limit)) (drop offset (order_by (\<lambda>r. collate (contact_label r)) rank
        (filter (\<lambda>r. ct_session r = sid \<and> contact_found coll (db_driver w) q r) (contact_rows w)))), w))"

definition count_contacts :: "string \<Rightarrow> 'w session_db_scheme \<Rightarrow> (string + nat) \<times> 'w session_db_scheme" where
  "count_contacts sid = db_stmt (\<lambda>w. (count_where (\<lambda>r. ct_session r = sid) (contact_rows w), w))"

end
