(* ===== verification/Device_Props.thy ===== *)
theory Device_Props
  imports Waxum_Prelude
begin

text \<open>
  How a session presents itself at pairing (\<open>src/device_props.rs\<close>): the settings of the
  environment, \<open>env\<close>, with the overrides of a request on top. The platform and the version are
  enumerations and records of the WhatsApp library; the former lists the values the code names.
\<close>

datatype platform_type = PDesktop | PUwp | PChrome | PFirefox | PEdge | PSafari | POpera | PIe | PIpad
  | PAndroidPhone | PAndroidTablet | PIosPhone

record app_version =
  av_primary :: "nat option"
  av_secondary :: "nat option"
  av_tertiary :: "nat option"
  av_quaternary :: "nat option"
  av_quinary :: "nat option"

record device_props =
  dp_os :: string
  dp_platform :: platform_type
  dp_version :: "app_version option"

record device_override =
  do_os :: "string option"
  do_platform :: "string option"
  do_version :: "string option"

definition non_empty :: "string \<Rightarrow> string option" where
  "non_empty s = (if trim_str s = [] then None else Some (trim_str s))"

definition platform_names :: "(string \<times> platform_type) list" where
  "platform_names = [(''desktop'', PDesktop), (''uwp'', PUwp), (''windows_store'', PUwp), (''chrome'', PChrome),
     (''firefox'', PFirefox), (''edge'', PEdge), (''safari'', PSafari), (''opera'', POpera), (''ie'', PIe), (''ipad'', PIpad),
     (''android_phone'', PAndroidPhone), (''android'', PAndroidPhone), (''android_tablet'', PAndroidTablet),
     (''ios_phone'', PIosPhone), (''iphone'', PIosPhone)]"

definition parse_platform :: "string \<Rightarrow> platform_type" where
  "parse_platform s = (case map_of platform_names (to_ascii_lowercase (trim_str s)) of None \<Rightarrow> PDesktop | Some p \<Rightarrow> p)"

definition nth_opt :: "'a list \<Rightarrow> nat \<Rightarrow> 'a option" where
  "nth_opt xs i = (if i < length xs then Some (xs ! i) else None)"

definition parse_version :: "string \<Rightarrow> app_version option" where
  "parse_version s =
     (let parts = List.map_filter (parse_unsigned 32) (split_on (CHR ''.'') (trim_str s))
      in if parts = [] then None
         else Some \<lparr> av_primary = nth_opt parts 0, av_secondary = nth_opt parts 1, av_tertiary = nth_opt parts 2,
                av_quaternary = nth_opt parts 3, av_quinary = nth_opt parts 4 \<rparr>)"

definition resolve_from_env :: "(string \<Rightarrow> string option) \<Rightarrow> device_props" where
  "resolve_from_env env = \<lparr>
     dp_os = (case env ''WA_DEVICE_OS'' of None \<Rightarrow> ''Windows'' | Some s \<Rightarrow> s),
     dp_platform = (case env ''WA_DEVICE_PLATFORM'' of None \<Rightarrow> PDesktop | Some s \<Rightarrow> parse_platform s),
     dp_version = Option.bind (env ''WA_DEVICE_VERSION'') parse_version \<rparr>"

definition resolve_with_override :: "(string \<Rightarrow> string option) \<Rightarrow> device_override \<Rightarrow> device_props" where
  "resolve_with_override env d =
     (let base = resolve_from_env env;
          b1 = (case Option.bind (do_os d) non_empty of None \<Rightarrow> base | Some s \<Rightarrow> base\<lparr>dp_os := s\<rparr>);
          b2 = (case Option.bind (do_platform d) non_empty of None \<Rightarrow> b1 | Some s \<Rightarrow> b1\<lparr>dp_platform := parse_platform s\<rparr>)
      in case Option.bind (do_version d) non_empty of None \<Rightarrow> b2 | Some s \<Rightarrow> b2\<lparr>dp_version := parse_version s\<rparr>)"

text \<open>An override of white space is no override; a version that names no number removes the
  version the environment sets.\<close>

lemma blank_override:
  "(\<And>s. do_os d = Some s \<Longrightarrow> trim_str s = []) \<Longrightarrow> (\<And>s. do_platform d = Some s \<Longrightarrow> trim_str s = []) \<Longrightarrow>
   (\<And>s. do_version d = Some s \<Longrightarrow> trim_str s = []) \<Longrightarrow> resolve_with_override env d = resolve_from_env env"
  by (cases "do_os d"; cases "do_platform d"; cases "do_version d")
    (simp_all add: resolve_with_override_def non_empty_def Let_def)

lemma bad_version_clears:
  "do_version d = Some ''latest'' \<Longrightarrow> dp_version (resolve_with_override env d) = None"
  by (simp add: resolve_with_override_def non_empty_def Let_def trim_str_def is_ws_def parse_version_def
      List.map_filter_def parse_unsigned_def parse_digits_def is_digit_def starts_with_def split: option.splits)

end
