(* ===== verification/Session_Lifecycle.thy ===== *)
theory Session_Lifecycle
  imports Message_Store Device_Props
begin

text \<open>
  Connecting and disconnecting a session (\<open>src/api/shared/sessions/handlers/connection.rs\<close> and
  \<open>lifecycle.rs\<close>). The WhatsApp client and the bot are library objects: building one, the
  outcome of a pair-code request and whether the chat store opens are arguments in \<open>wa_lib\<close>, and
  the calls made on a client are noted in \<open>lib_calls\<close> in order. What the async runtime is given
  to do is kept in two lists: \<open>connect_tasks\<close>, the connects spawned and not yet begun, and
  \<open>run_loops\<close>, the clients whose \<open>bot.run()\<close> has not returned, with their session. The metrics
  counters are the lists of sessions they were raised for.
\<close>

datatype connect_origin = ByConnect | ByCreate | ByStartup | ByWatchdog | ByPair string bool

record connect_task =
  kt_session :: string
  kt_origin :: connect_origin
  kt_device :: "device_props option"

datatype lib_call =
    Shutdown nat
  | Logout nat
  | SetAutoReconnect nat bool
  | SetSkipHistorySync nat bool
  | ResetDevice string

record lifecycle = history +
  connect_tasks :: "connect_task list"
  run_loops :: "(nat \<times> string) list"
  next_client :: nat
  lib_calls :: "lib_call list"
  device_files :: "string list"
  nats_connected :: bool
  nats_published :: "(string \<times> string \<times> string) list"
  events_broadcast :: "(string \<times> string) list"
  incoming_calls :: "string list"
  session_reconnects :: "string list"
  session_drops :: "string list"

record wa_lib =
  wl_build :: "string \<Rightarrow> device_props \<Rightarrow> string + client"
  wl_chat_store :: "string \<Rightarrow> bool"
  wl_env :: "string \<Rightarrow> string option"

type_synonym ('w, 'a) life_handler = "'w lifecycle_scheme \<Rightarrow> (api_error + 'a) \<times> 'w lifecycle_scheme"

section \<open>Runtimes, library calls and announcements\<close>

definition runtime_of :: "string \<Rightarrow> 'w lifecycle_scheme \<Rightarrow> session_state option" where
  "runtime_of sid w = get_session_mem sid (gw_sessions w)"

definition with_runtime :: "string \<Rightarrow> (session_state \<Rightarrow> session_state) \<Rightarrow> 'w lifecycle_scheme \<Rightarrow> 'w lifecycle_scheme" where
  "with_runtime sid f w = (case runtime_of sid w of None \<Rightarrow> w
     | Some s \<Rightarrow> w\<lparr>gw_sessions := dm_put sid (f s) (gw_sessions w)\<rparr>)"

definition installed_client :: "string \<Rightarrow> 'w lifecycle_scheme \<Rightarrow> client option" where
  "installed_client sid w = Option.bind (runtime_of sid w) ss_client"

definition set_status :: "session_status \<Rightarrow> session_state \<Rightarrow> session_state" where
  "set_status st s = s\<lparr>ss_status := st\<rparr>"

definition call_lib :: "lib_call \<Rightarrow> 'w lifecycle_scheme \<Rightarrow> 'w lifecycle_scheme" where
  "call_lib c w = w\<lparr>lib_calls := lib_calls w @ [c]\<rparr>"

definition shutdown_client :: "client option \<Rightarrow> 'w lifecycle_scheme \<Rightarrow> 'w lifecycle_scheme" where
  "shutdown_client c w = (case c of None \<Rightarrow> w | Some c \<Rightarrow> call_lib (Shutdown (cl_id c)) w)"

definition store_status :: "string \<Rightarrow> session_status \<Rightarrow> bool \<Rightarrow> 'w lifecycle_scheme \<Rightarrow> 'w lifecycle_scheme" where
  "store_status sid st logged_in w = db_ignore (update_session_status sid st logged_in) w"

text \<open>\<open>broadcast_to_webhooks\<close>, then \<open>publish_to_nats\<close>, then \<open>broadcast_event\<close>.\<close>

definition publish_to_nats :: "string \<Rightarrow> string \<Rightarrow> string \<Rightarrow> 'w lifecycle_scheme \<Rightarrow> 'w lifecycle_scheme" where
  "publish_to_nats sid event payload w =
     (if nats_connected w then w\<lparr>nats_published := nats_published w @ [(sid, event, payload)]\<rparr> else w)"

definition announce :: "libs \<Rightarrow> string \<Rightarrow> string \<Rightarrow> json \<Rightarrow> 'w lifecycle_scheme \<Rightarrow> 'w lifecycle_scheme" where
  "announce lib sid event payload w =
     (let text = print_json lib payload;
          (ds, w1) = broadcast_to_webhooks lib sid event text w;
          w2 = publish_to_nats sid event text (w1\<lparr>gw_spawned := gw_spawned w1 @ ds\<rparr>)
      in w2\<lparr>events_broadcast := events_broadcast w2 @ [(sid, text)]\<rparr>)"

section \<open>Guards\<close>

definition reject_cloud_session :: "session_info \<Rightarrow> string \<Rightarrow> ('w, unit) life_handler" where
  "reject_cloud_session s op =
     (if is_cloud_session s
      then db_fail (BadRequest (op @ '' is not applicable to a whatsapp_cloud session; it is connected through its Cloud API credentials''))
      else db_return ())"

definition session_is_cloud :: "string \<Rightarrow> 'w lifecycle_scheme \<Rightarrow> bool \<times> 'w lifecycle_scheme" where
  "session_is_cloud sid w = (case get_session sid w of
      (Inr (Some s), w1) \<Rightarrow> (is_cloud_session s, w1) | (_, w1) \<Rightarrow> (False, w1))"

definition is_linked :: "client \<Rightarrow> bool" where
  "is_linked c \<longleftrightarrow> cl_phone c \<noteq> None"

definition session_client_is_linked :: "string \<Rightarrow> 'w lifecycle_scheme \<Rightarrow> bool" where
  "session_client_is_linked sid w = (case installed_client sid w of None \<Rightarrow> False | Some c \<Rightarrow> is_linked c)"

definition is_current_client :: "client option \<Rightarrow> nat \<Rightarrow> bool" where
  "is_current_client installed emitter = (case installed of None \<Rightarrow> False | Some c \<Rightarrow> cl_id c = emitter)"

definition found_session :: "string \<Rightarrow> ('w, session_info) life_handler" where
  "found_session sid = db_bind (db_map_err Internal (get_session sid))
     (\<lambda>found. case found of None \<Rightarrow> db_fail (SessionNotFound sid) | Some s \<Rightarrow> db_return s)"

definition storage_or_default :: "string \<Rightarrow> ('w, string) life_handler" where
  "storage_or_default sid = db_bind (db_map_err Internal (get_storage_path sid))
     (\<lambda>path w. (Inr (case path of Some p \<Rightarrow> p | None \<Rightarrow> storage_path_of (base_storage_path w) sid), w))"

section \<open>The client of a session\<close>

text \<open>
  \<open>mark_disconnected_if_still_current\<close>: what is left to do when \<open>bot.run()\<close> of the client
  \<open>own\<close> has returned.
\<close>

definition mark_disconnected_if_still_current :: "string \<Rightarrow> nat \<Rightarrow> 'w lifecycle_scheme \<Rightarrow> 'w lifecycle_scheme" where
  "mark_disconnected_if_still_current sid own w =
     (case runtime_of sid w of
        None \<Rightarrow> store_status sid StDisconnected False w
      | Some s \<Rightarrow>
          if ss_client s = None \<or> is_current_client (ss_client s) own
          then store_status sid StDisconnected False (with_runtime sid (\<lambda>s. set_client None (set_status StDisconnected s)) w)
          else w)"

definition run_ended :: "nat \<Rightarrow> string \<Rightarrow> 'w lifecycle_scheme \<Rightarrow> 'w lifecycle_scheme" where
  "run_ended own sid w =
     mark_disconnected_if_still_current sid own (w\<lparr>run_loops := removeAll (own, sid) (run_loops w)\<rparr>)"

definition whatsapp_db :: "string \<Rightarrow> string" where
  "whatsapp_db path = path @ ''/whatsapp.db''"

text \<open>The store is opened and the bot built; the client is a new object.\<close>

definition build_bot :: "wa_lib \<Rightarrow> string \<Rightarrow> device_props option \<Rightarrow> ('w, client) life_handler" where
  "build_bot wl path dev w =
     (case wl_build wl (whatsapp_db path) (case dev of None \<Rightarrow> resolve_from_env (wl_env wl) | Some d \<Rightarrow> d) of
        Inl e \<Rightarrow> (Inl (Internal e), w)
      | Inr c \<Rightarrow> (Inr (c\<lparr>cl_id := next_client w\<rparr>), w\<lparr>next_client := next_client w + 1\<rparr>))"

text \<open>The part both ways of connecting share: preferences, chat store, lease, client.\<close>

definition install_client :: "wa_lib \<Rightarrow> string \<Rightarrow> string \<Rightarrow> client \<Rightarrow> 'w lifecycle_scheme \<Rightarrow> 'w lifecycle_scheme" where
  "install_client wl sid path c w =
     (case runtime_of sid w of
        None \<Rightarrow> w
      | Some s \<Rightarrow>
          with_runtime sid (\<lambda>s. set_client (Some c) (set_enc_decrypt_failed_lease
              (if wl_chat_store wl (whatsapp_db path) then set_chat_store s else s)))
            (call_lib (SetSkipHistorySync (cl_id c) (ss_skip_history_sync s))
              (call_lib (SetAutoReconnect (cl_id c) (ss_auto_reconnect s)) w)))"

definition start_run_loop :: "client \<Rightarrow> string \<Rightarrow> 'w lifecycle_scheme \<Rightarrow> 'w lifecycle_scheme" where
  "start_run_loop c sid w = w\<lparr>run_loops := run_loops w @ [(cl_id c, sid)]\<rparr>"

definition connect_path :: "string \<Rightarrow> ('w, string) life_handler" where
  "connect_path sid = db_bind (db_map_err Internal (get_storage_path sid))
     (\<lambda>path. case path of None \<Rightarrow> db_fail (SessionNotFound sid) | Some p \<Rightarrow> db_return p)"

text \<open>\<open>connect_client\<close> up to \<open>bot.run().await\<close>; the rest is \<open>run_ended\<close>.\<close>

definition connect_client :: "wa_lib \<Rightarrow> string \<Rightarrow> device_props option \<Rightarrow> ('w, unit) life_handler" where
  "connect_client wl sid dev =
     db_bind (connect_path sid) (\<lambda>path.
     db_bind (build_bot wl path dev) (\<lambda>c w.
       let (cloud, w1) = session_is_cloud sid w in
       if cloud then (Inr (), w1)
       else let w2 = with_runtime sid (set_status StWaitingForQr) (install_client wl sid path c w1)
            in (Inr (), start_run_loop c sid (store_status sid StWaitingForQr False w2))))"

definition connect_client_with_pair_code :: "wa_lib \<Rightarrow> string \<Rightarrow> device_props option \<Rightarrow> ('w, unit) life_handler" where
  "connect_client_with_pair_code wl sid dev =
     db_bind (connect_path sid) (\<lambda>path.
     db_bind (build_bot wl path dev) (\<lambda>c w.
       let (cloud, w1) = session_is_cloud sid w in
       if cloud then (Inr (), w1)
       else if is_linked c then connect_client wl sid dev w1
       else (Inr (), start_run_loop c sid (install_client wl sid path c w1))))"

definition spawn_connect :: "string \<Rightarrow> connect_origin \<Rightarrow> device_props option \<Rightarrow> 'w lifecycle_scheme \<Rightarrow> 'w lifecycle_scheme" where
  "spawn_connect sid origin dev w =
     w\<lparr>connect_tasks := connect_tasks w @ [\<lparr> kt_session = sid, kt_origin = origin, kt_device = dev \<rparr>]\<rparr>"

text \<open>What each spawned task does when the connect fails.\<close>

definition connect_failed :: "connect_origin \<Rightarrow> string \<Rightarrow> api_error \<Rightarrow> 'w lifecycle_scheme \<Rightarrow> 'w lifecycle_scheme" where
  "connect_failed origin sid e = with_runtime sid (\<lambda>s. case origin of
      ByConnect \<Rightarrow> update_pair_state (\<lambda>ps. ps\<lparr>pair_last_error := Some (error_message e)\<rparr>)
        (set_client None (set_status StDisconnected s))
    | ByWatchdog \<Rightarrow> set_client None (set_status StDisconnected s)
    | _ \<Rightarrow> set_status StDisconnected s)"

definition run_connect_task :: "wa_lib \<Rightarrow> connect_task \<Rightarrow> 'w lifecycle_scheme \<Rightarrow> 'w lifecycle_scheme" where
  "run_connect_task wl t w =
     (case (case kt_origin t of
              ByPair _ _ \<Rightarrow> connect_client_with_pair_code wl (kt_session t) (kt_device t) w
            | _ \<Rightarrow> connect_client wl (kt_session t) (kt_device t) w) of
        (Inl e, w1) \<Rightarrow> connect_failed (kt_origin t) (kt_session t) e w1
      | (Inr _, w1) \<Rightarrow> w1)"

section \<open>Connect\<close>

definition clear_for_connect :: "session_state \<Rightarrow> session_state" where
  "clear_for_connect s = clear_lock_cooldown (clear_reconnecting (set_status StDisconnected (set_client None s)))"

definition enter_connecting :: "string \<Rightarrow> string \<Rightarrow> 'w lifecycle_scheme \<Rightarrow> 'w lifecycle_scheme" where
  "enter_connecting sid path w =
     with_runtime sid (set_status StConnecting) (w\<lparr>gw_sessions := snd (get_or_create_session sid path (gw_sessions w))\<rparr>)"

definition connect_session :: "(string \<Rightarrow> string option) \<Rightarrow> string \<Rightarrow> device_override option \<Rightarrow> ('w, json) life_handler" where
  "connect_session env sid dev =
     db_bind (found_session sid) (\<lambda>session.
     db_bind (reject_cloud_session session ''connect'') (\<lambda>_.
     db_bind (\<lambda>w. case runtime_of sid w of
          None \<Rightarrow> (Inr (), w)
        | Some s \<Rightarrow>
            if is_alive s \<or> ss_status s = StWaitingForQr \<or> ss_status s = StWaitingForPairCode
            then (Inl AlreadyConnected, w)
            else (Inr (), with_runtime sid clear_for_connect (shutdown_client (ss_client s) w))) (\<lambda>_.
     db_bind (storage_or_default sid) (\<lambda>path w.
       (Inr (success_with_message ''Connection initiated''),
        spawn_connect sid ByConnect (map_option (resolve_with_override env) dev) (enter_connecting sid path w))))))"

text \<open>\<open>ensure_connecting_for_wait\<close>: whether a connect was needed.\<close>

record connect_wait_query =
  cq_name :: "string option"
  cq_device :: device_override
  cq_timeout_seconds :: "nat option"

definition create_for_wait :: "string \<Rightarrow> string option \<Rightarrow> ('w, string) life_handler" where
  "create_for_wait sid name w =
     (let path = storage_path_of (base_storage_path w) sid in
      db_bind (create_dir_all path) (\<lambda>_.
      db_bind (db_map_err Internal (create_session sid name path)) (\<lambda>_. db_return path)) w)"

definition logged_in_live :: "session_state \<Rightarrow> bool" where
  "logged_in_live s \<longleftrightarrow> is_alive s \<and> ss_status s = StLoggedIn"

definition ensure_connecting_for_wait ::
    "(string \<Rightarrow> string option) \<Rightarrow> string \<Rightarrow> connect_wait_query \<Rightarrow> ('w, session_state) life_handler" where
  "ensure_connecting_for_wait env sid q =
     db_bind (db_map_err Internal (get_session sid)) (\<lambda>existing.
     db_bind (case existing of None \<Rightarrow> db_return () | Some s \<Rightarrow> reject_cloud_session s ''connect/wait'') (\<lambda>_.
     db_bind (if existing = None then create_for_wait sid (cq_name q) else storage_or_default sid) (\<lambda>path w.
       let (s, m) = get_or_create_session sid path (gw_sessions w); w1 = w\<lparr>gw_sessions := m\<rparr> in
       if logged_in_live s \<or> ss_status s \<in> {StConnecting, StWaitingForQr, StWaitingForPairCode} then (Inr s, w1)
       else
         let s1 = clear_lock_cooldown (clear_reconnecting (set_status StConnecting (set_client None s)));
             d = cq_device q;
             dev = (if do_os d \<noteq> None \<or> do_platform d \<noteq> None \<or> do_version d \<noteq> None
                    then Some (resolve_with_override env d) else None)
         in (Inr s1, spawn_connect sid ByConnect dev (with_runtime sid (\<lambda>_. s1) (shutdown_client (ss_client s) w1))))))"

section \<open>Pairing by code\<close>

record pair_code_request =
  pq_phone_number :: string
  pq_show_push_notification :: bool
  pq_device :: "device_override option"

text \<open>
  \<open>pair_session\<close> up to its wait: an answer, or \<open>None\<close> when it polls for a code next.
  \<open>pair_with_code\<close> is the library's call on a client.
\<close>

definition pair_begin ::
    "(string \<Rightarrow> string option) \<Rightarrow> (nat \<Rightarrow> string \<Rightarrow> string + string) \<Rightarrow> string \<Rightarrow> pair_code_request
     \<Rightarrow> ('w, string option) life_handler" where
  "pair_begin env pair_with_code sid rq =
     db_bind (found_session sid) (\<lambda>session.
     db_bind (reject_cloud_session session ''pair'') (\<lambda>_.
     db_bind (\<lambda>w. if map_option ss_status (runtime_of sid w) = Some StLoggedIn then (Inl AlreadyConnected, w) else (Inr (), w)) (\<lambda>_.
     db_bind (storage_or_default sid) (\<lambda>path w.
       let (s, m) = get_or_create_session sid path (gw_sessions w); w1 = w\<lparr>gw_sessions := m\<rparr> in
       case ss_client s of
         Some c \<Rightarrow>
           if is_linked c then (Inl AlreadyConnected, w1)
           else (case pair_with_code (cl_id c) (pq_phone_number rq) of
                   Inl e \<Rightarrow> (Inl (Internal (''pair_with_code failed: '' @ e)), w1)
                 | Inr code \<Rightarrow> (Inr (Some code), with_runtime sid (\<lambda>s. s\<lparr>ss_pair_code := Some code\<rparr>) w1))
       | None \<Rightarrow>
           (Inr None,
            if ss_status s = StWaitingForPairCode \<or> ss_status s = StConnecting then w1
            else spawn_connect sid (ByPair (pq_phone_number rq) (pq_show_push_notification rq))
              (map_option (resolve_with_override env) (pq_device rq))
              (with_runtime sid (set_status StWaitingForPairCode) w1))))))"

text \<open>
  The wait: at most 80 polls, each finding the code of the runtime and whether its client is
  linked by then; then one last attempt on the installed client.
\<close>

datatype pair_wait = PairCode string | PairLinked | PairNothing

fun pair_poll :: "(string option \<times> bool) list \<Rightarrow> pair_wait" where
  "pair_poll [] = PairNothing"
| "pair_poll ((code, linked) # polls) =
     (case code of
        Some c \<Rightarrow> if c \<noteq> [] then PairCode c else if linked then PairLinked else pair_poll polls
      | None \<Rightarrow> if linked then PairLinked else pair_poll polls)"

definition pair_finish ::
    "(nat \<Rightarrow> string \<Rightarrow> string + string) \<Rightarrow> string \<Rightarrow> pair_code_request \<Rightarrow> (string option \<times> bool) list
     \<Rightarrow> ('w, string) life_handler" where
  "pair_finish pair_with_code sid rq polls w =
     (case pair_poll (take 80 polls) of
        PairLinked \<Rightarrow> (Inl AlreadyConnected, w)
      | PairCode c \<Rightarrow> (Inr c, w)
      | PairNothing \<Rightarrow>
          (case installed_client sid w of
             None \<Rightarrow> (Inr [], w)
           | Some c \<Rightarrow> (case pair_with_code (cl_id c) (pq_phone_number rq) of
                Inl _ \<Rightarrow> (Inr [], w)
              | Inr code \<Rightarrow> (Inr code, with_runtime sid (\<lambda>s. s\<lparr>ss_pair_code := Some code\<rparr>) w))))"

section \<open>Disconnect, unlink and logout\<close>

record qr_code_response =
  qr_codes :: "string list"
  qr_timeout_seconds :: nat
  qr_status :: session_status

definition get_qr_code :: "string \<Rightarrow> ('w, qr_code_response) life_handler" where
  "get_qr_code sid = db_bind (found_session sid) (\<lambda>_ w.
     case runtime_of sid w of
       None \<Rightarrow> (Inl NotConnected, w)
     | Some s \<Rightarrow> (Inr \<lparr> qr_codes = ss_qr_codes s, qr_timeout_seconds = 60, qr_status = ss_status s \<rparr>, w))"

definition disconnected_runtime :: "session_state \<Rightarrow> session_state" where
  "disconnected_runtime s =
     clear_reconnecting ((set_client None (set_status StDisconnected s))\<lparr>ss_qr_codes := [], ss_pair_code := None\<rparr>)"

definition disconnect_session :: "string \<Rightarrow> ('w, json) life_handler" where
  "disconnect_session sid = db_bind (found_session sid) (\<lambda>_ w.
     case installed_client sid w of
       None \<Rightarrow> (Inl NotConnected, w)
     | Some c \<Rightarrow> (Inr (success_with_message ''Disconnected''),
         store_status sid StDisconnected False (with_runtime sid disconnected_runtime (shutdown_client (Some c) w))))"

definition unlinked_runtime :: "session_state \<Rightarrow> session_state" where
  "unlinked_runtime s = clear_logout_history ((clear_pair_state (clear_reconnecting
     (set_status StDisconnected (set_client None s))))\<lparr>ss_pair_code := None\<rparr>)"

definition reset_device :: "string \<Rightarrow> 'w lifecycle_scheme \<Rightarrow> 'w lifecycle_scheme" where
  "reset_device sid w =
     (case get_storage_path sid w of
        (Inr (Some path), w1) \<Rightarrow>
          if whatsapp_db path \<in> set (device_files w1) then call_lib (ResetDevice (whatsapp_db path)) w1 else w1
      | (_, w1) \<Rightarrow> w1)"

definition unlink_session :: "string \<Rightarrow> 'w lifecycle_scheme \<Rightarrow> 'w lifecycle_scheme" where
  "unlink_session sid w = store_status sid StDisconnected False (reset_device sid (with_runtime sid unlinked_runtime w))"

definition stop_client :: "client \<Rightarrow> 'w lifecycle_scheme \<Rightarrow> 'w lifecycle_scheme" where
  "stop_client c w = call_lib (Shutdown (cl_id c)) (call_lib (SetAutoReconnect (cl_id c) False) w)"

definition logout_session :: "string \<Rightarrow> ('w, json) life_handler" where
  "logout_session sid = db_bind (found_session sid) (\<lambda>session.
     db_bind (reject_cloud_session session ''logout'') (\<lambda>_ w.
       let w1 = with_runtime sid (set_client None) w;
           w2 = (case installed_client sid w of None \<Rightarrow> w1
             | Some c \<Rightarrow> stop_client c (call_lib (Logout (cl_id c)) w1))
       in (Inr (success_with_message ''Logged out. The session is kept; connect and scan again to link it.''),
           unlink_session sid w2)))"

end
