(* ===== verification/Cloud_Client.thy ===== *)
theory Cloud_Client
  imports Session_Lifecycle Net_Guard
begin

text \<open>
  The client of Meta's Cloud API (\<open>src/cloud/client.rs\<close>, \<open>src/cloud/graph.rs\<close>): which request each
  method makes, with which path, query and body, and how its answer is read. The requests made are
  kept in order; how Meta answers is an argument, a function of the requests made so far. Where a
  message quotes the text of an error of a library, that part is left out. The
  transport, percent-encoding of the query, the environment and the digits of a floating point
  number are the library's. A JSON object keeps its fields in the order the code writes them.
\<close>

datatype http_method = GET | POST | DELETE

datatype form_part = FormText string | FormFile bytes string string

datatype call_body = NoBody | JsonBody json | FormBody "(string \<times> form_part) list" | RawBody bytes

record http_call =
  hc_method :: http_method
  hc_url :: string
  hc_headers :: "(string \<times> string) list"
  hc_query :: "(string \<times> string) list"
  hc_body :: call_body

text \<open>What comes back: an error of the transport, or a status with the bytes and their text.\<close>

record http_reply =
  hr_status :: nat
  hr_text :: string
  hr_bytes :: bytes

record cloud_lib =
  cb_answer :: "http_call list \<Rightarrow> string + http_reply"
  cb_libs :: libs
  cb_env :: "string \<Rightarrow> string option"
  cb_f64 :: "f64 \<Rightarrow> string"
  cb_mime_ok :: "string \<Rightarrow> bool"
  cb_net :: net_world
  cb_is_date :: "string \<Rightarrow> bool"

record outbound = lifecycle +
  http_calls :: "http_call list"

type_synonym ('w, 'e, 'a) calls = "'w outbound_scheme \<Rightarrow> ('e + 'a) \<times> 'w outbound_scheme"

datatype cloud_error = Transport string | Api nat string

fun cloud_error_text :: "cloud_error \<Rightarrow> string" where
  "cloud_error_text (Transport e) = ''cloud API request failed: '' @ e"
| "cloud_error_text (Api status body) = ''cloud API returned '' @ show_nat status @ '': '' @ body"

definition http_send :: "cloud_lib \<Rightarrow> http_call \<Rightarrow> ('w, cloud_error, http_reply) calls" where
  "http_send lib c w =
     (let w1 = w\<lparr>http_calls := http_calls w @ [c]\<rparr>
      in (case cb_answer lib (http_calls w1) of Inl e \<Rightarrow> Inl (Transport e) | Inr r \<Rightarrow> Inr r, w1))"

record cloud_client =
  base_url :: string
  phone_number_id :: string
  access_token :: string

definition api_version :: "cloud_lib \<Rightarrow> string" where
  "api_version lib = (case cb_env lib ''WHATSAPP_CLOUD_API_VERSION'' of Some v \<Rightarrow> v | None \<Rightarrow> ''v21.0'')"

definition cloud_client_new :: "cloud_lib \<Rightarrow> string \<Rightarrow> string \<Rightarrow> cloud_client" where
  "cloud_client_new lib phone token =
     \<lparr> base_url = ''https://graph.facebook.com/'' @ api_version lib, phone_number_id = phone, access_token = token \<rparr>"

definition messages_url :: "cloud_client \<Rightarrow> string" where
  "messages_url c = base_url c @ ''/'' @ phone_number_id c @ ''/messages''"

definition bearer :: "cloud_client \<Rightarrow> (string \<times> string) list" where
  "bearer c = [(''Authorization'', ''Bearer '' @ access_token c)]"

text \<open>\<open>parse_response\<close>; the other methods repeat it word for word.\<close>

definition parse_response :: "cloud_lib \<Rightarrow> http_reply \<Rightarrow> cloud_error + json" where
  "parse_response lib r =
     (if \<not> (200 \<le> hr_status r \<and> hr_status r < 300) then Inl (Api (hr_status r) (hr_text r))
      else case parse_json (cb_libs lib) (hr_text r) of
        Some j \<Rightarrow> Inr j
      | None \<Rightarrow> Inl (Api (hr_status r) (''failed to parse response: '' @ hr_text r)))"

definition http_json :: "cloud_lib \<Rightarrow> http_call \<Rightarrow> ('w, cloud_error, json) calls" where
  "http_json lib c = db_bind (http_send lib c) (\<lambda>r w. (parse_response lib r, w))"

definition plain_call :: "http_method \<Rightarrow> string \<Rightarrow> cloud_client \<Rightarrow> call_body \<Rightarrow> http_call" where
  "plain_call m url c body = \<lparr> hc_method = m, hc_url = url, hc_headers = bearer c, hc_query = [], hc_body = body \<rparr>"

definition post_messages :: "cloud_lib \<Rightarrow> cloud_client \<Rightarrow> json \<Rightarrow> ('w, cloud_error, json) calls" where
  "post_messages lib c body = http_json lib (plain_call POST (messages_url c) c (JsonBody body))"

definition get_json :: "cloud_lib \<Rightarrow> cloud_client \<Rightarrow> string \<Rightarrow> ('w, cloud_error, json) calls" where
  "get_json lib c url = http_json lib (plain_call GET url c NoBody)"

definition post_json :: "cloud_lib \<Rightarrow> cloud_client \<Rightarrow> string \<Rightarrow> json \<Rightarrow> ('w, cloud_error, json) calls" where
  "post_json lib c url body = http_json lib (plain_call POST url c (JsonBody body))"

definition delete_json :: "cloud_lib \<Rightarrow> cloud_client \<Rightarrow> string \<Rightarrow> ('w, cloud_error, json) calls" where
  "delete_json lib c url = http_json lib (plain_call DELETE url c NoBody)"

definition post_multipart :: "cloud_lib \<Rightarrow> cloud_client \<Rightarrow> string \<Rightarrow> (string \<times> form_part) list \<Rightarrow> ('w, cloud_error, json) calls" where
  "post_multipart lib c url form = http_json lib (plain_call POST url c (FormBody form))"

section \<open>Messages\<close>

definition set_field :: "string \<Rightarrow> json \<Rightarrow> json \<Rightarrow> json" where
  "set_field k v j = (case j of JObj fs \<Rightarrow> JObj (fields_insert k v fs) | _ \<Rightarrow> j)"

definition attach_reply :: "json \<Rightarrow> string option \<Rightarrow> json" where
  "attach_reply body reply_to = (case reply_to of None \<Rightarrow> body
     | Some stanza_id \<Rightarrow> set_field ''context'' (JObj [(''message_id'', JStr stanza_id)]) body)"

definition envelope_to :: "string \<Rightarrow> string \<Rightarrow> string \<Rightarrow> json \<Rightarrow> json" where
  "envelope_to to kind key inner = JObj [(''messaging_product'', JStr ''whatsapp''), (''recipient_type'', JStr ''individual''),
     (''to'', JStr to), (''type'', JStr kind), (key, inner)]"

definition cloud_send_text ::
    "cloud_lib \<Rightarrow> cloud_client \<Rightarrow> string \<Rightarrow> string \<Rightarrow> bool \<Rightarrow> string option \<Rightarrow> ('w, cloud_error, json) calls" where
  "cloud_send_text lib c to text preview_url reply_to = post_messages lib c (attach_reply
     (envelope_to to ''text'' ''text'' (JObj [(''preview_url'', JBool preview_url), (''body'', JStr text)])) reply_to)"

definition cloud_mark_read :: "cloud_lib \<Rightarrow> cloud_client \<Rightarrow> string \<Rightarrow> ('w, cloud_error, json) calls" where
  "cloud_mark_read lib c message_id = post_messages lib c (JObj [(''messaging_product'', JStr ''whatsapp''),
     (''status'', JStr ''read''), (''message_id'', JStr message_id)])"

definition cloud_send_raw :: "cloud_lib \<Rightarrow> cloud_client \<Rightarrow> json \<Rightarrow> ('w, cloud_error, json) calls" where
  "cloud_send_raw lib c body = post_messages lib c body"

definition with_caption :: "string option \<Rightarrow> string option \<Rightarrow> json \<Rightarrow> json" where
  "with_caption caption filename media =
     (let m1 = (case caption of None \<Rightarrow> media | Some t \<Rightarrow> set_field ''caption'' (JStr t) media)
      in case filename of None \<Rightarrow> m1 | Some f \<Rightarrow> set_field ''filename'' (JStr f) m1)"

definition cloud_send_media ::
    "cloud_lib \<Rightarrow> cloud_client \<Rightarrow> string \<Rightarrow> string \<Rightarrow> json \<Rightarrow> string option \<Rightarrow> string option \<Rightarrow> string option
     \<Rightarrow> ('w, cloud_error, json) calls" where
  "cloud_send_media lib c to kind media caption filename reply_to = post_messages lib c
     (attach_reply (envelope_to to kind kind (with_caption caption filename media)) reply_to)"

definition cloud_send_location ::
    "cloud_lib \<Rightarrow> cloud_client \<Rightarrow> string \<Rightarrow> f64 \<Rightarrow> f64 \<Rightarrow> string option \<Rightarrow> string option \<Rightarrow> string option
     \<Rightarrow> ('w, cloud_error, json) calls" where
  "cloud_send_location lib c to latitude longitude name address reply_to = post_messages lib c
     (attach_reply (envelope_to to ''location'' ''location'' (JObj [(''latitude'', JReal (cb_f64 lib latitude)),
        (''longitude'', JReal (cb_f64 lib longitude)), (''name'', jstr name), (''address'', jstr address)])) reply_to)"

definition cloud_send_contacts :: "cloud_lib \<Rightarrow> cloud_client \<Rightarrow> string \<Rightarrow> json \<Rightarrow> ('w, cloud_error, json) calls" where
  "cloud_send_contacts lib c to contacts = post_messages lib c (JObj [(''messaging_product'', JStr ''whatsapp''),
     (''to'', JStr to), (''type'', JStr ''contacts''), (''contacts'', contacts)])"

definition cloud_send_reaction ::
    "cloud_lib \<Rightarrow> cloud_client \<Rightarrow> string \<Rightarrow> string \<Rightarrow> string \<Rightarrow> ('w, cloud_error, json) calls" where
  "cloud_send_reaction lib c to message_id emoji = post_messages lib c (envelope_to to ''reaction'' ''reaction''
     (JObj [(''message_id'', JStr message_id), (''emoji'', JStr emoji)]))"

definition cloud_send_interactive_buttons ::
    "cloud_lib \<Rightarrow> cloud_client \<Rightarrow> string \<Rightarrow> string \<Rightarrow> json \<Rightarrow> string option \<Rightarrow> ('w, cloud_error, json) calls" where
  "cloud_send_interactive_buttons lib c to body_text buttons reply_to = post_messages lib c
     (attach_reply (envelope_to to ''interactive'' ''interactive'' (JObj [(''type'', JStr ''button''),
        (''body'', JObj [(''text'', JStr body_text)]), (''action'', JObj [(''buttons'', buttons)])])) reply_to)"

record interactive_list_request =
  il_to :: string
  il_header_text :: "string option"
  il_body_text :: string
  il_footer_text :: "string option"
  il_button_text :: string
  il_sections :: json
  il_reply_to :: "string option"

definition cloud_send_interactive_list ::
    "cloud_lib \<Rightarrow> cloud_client \<Rightarrow> interactive_list_request \<Rightarrow> ('w, cloud_error, json) calls" where
  "cloud_send_interactive_list lib c r =
     (let i0 = JObj [(''type'', JStr ''list''), (''body'', JObj [(''text'', JStr (il_body_text r))]),
                 (''action'', JObj [(''button'', JStr (il_button_text r)), (''sections'', il_sections r)])];
          i1 = (case il_header_text r of None \<Rightarrow> i0
                | Some h \<Rightarrow> set_field ''header'' (JObj [(''type'', JStr ''text''), (''text'', JStr h)]) i0);
          i2 = (case il_footer_text r of None \<Rightarrow> i1 | Some f \<Rightarrow> set_field ''footer'' (JObj [(''text'', JStr f)]) i1)
      in post_messages lib c (attach_reply (envelope_to (il_to r) ''interactive'' ''interactive'' i2) (il_reply_to r)))"

definition cloud_send_template ::
    "cloud_lib \<Rightarrow> cloud_client \<Rightarrow> string \<Rightarrow> string \<Rightarrow> string \<Rightarrow> json \<Rightarrow> ('w, cloud_error, json) calls" where
  "cloud_send_template lib c to name language_code components = post_messages lib c
     (envelope_to to ''template'' ''template'' (JObj [(''name'', JStr name),
        (''language'', JObj [(''code'', JStr language_code)]), (''components'', components)]))"

section \<open>Media\<close>

definition by_phone :: "cloud_client \<Rightarrow> string \<Rightarrow> string" where
  "by_phone c path = base_url c @ ''/'' @ phone_number_id c @ path"

definition media_url :: "cloud_client \<Rightarrow> string \<Rightarrow> string" where
  "media_url c media_id = base_url c @ ''/'' @ media_id @ ''?phone_number_id='' @ phone_number_id c"

definition get_media_url :: "cloud_lib \<Rightarrow> cloud_client \<Rightarrow> string \<Rightarrow> ('w, cloud_error, json) calls" where
  "get_media_url lib c media_id = get_json lib c (media_url c media_id)"

definition delete_media :: "cloud_lib \<Rightarrow> cloud_client \<Rightarrow> string \<Rightarrow> ('w, cloud_error, json) calls" where
  "delete_media lib c media_id = http_json lib (plain_call DELETE (media_url c media_id) c NoBody)"

definition upload_media :: "cloud_lib \<Rightarrow> cloud_client \<Rightarrow> bytes \<Rightarrow> string \<Rightarrow> string \<Rightarrow> ('w, cloud_error, json) calls" where
  "upload_media lib c bs mime_type filename =
     (if \<not> cb_mime_ok lib mime_type then db_fail (Api 0 (''invalid mime type '' @ mime_type))
      else http_json lib (plain_call POST (by_phone c ''/media'') c
        (FormBody [(''messaging_product'', FormText ''whatsapp''), (''file'', FormFile bs filename mime_type)])))"

definition download_media_bytes :: "cloud_lib \<Rightarrow> cloud_client \<Rightarrow> string \<Rightarrow> ('w, cloud_error, bytes) calls" where
  "download_media_bytes lib c url = db_bind (http_send lib (plain_call GET url c NoBody)) (\<lambda>r w.
     (if \<not> (200 \<le> hr_status r \<and> hr_status r < 300) then Inl (Api (hr_status r) (hr_text r)) else Inr (hr_bytes r), w))"

definition get_business_profile :: "cloud_lib \<Rightarrow> cloud_client \<Rightarrow> ('w, cloud_error, json) calls" where
  "get_business_profile lib c = get_json lib c (by_phone c ''/whatsapp_business_profile'')"

section \<open>Flows and commerce\<close>

definition json_strings :: "cloud_lib \<Rightarrow> string list \<Rightarrow> string" where
  "json_strings lib xs = print_json (cb_libs lib) (JArr (map JStr xs))"

definition opt_part :: "string \<Rightarrow> string option \<Rightarrow> (string \<times> form_part) list" where
  "opt_part name v = (case v of None \<Rightarrow> [] | Some t \<Rightarrow> [(name, FormText t)])"

definition create_flow ::
    "cloud_lib \<Rightarrow> cloud_client \<Rightarrow> string \<Rightarrow> string \<Rightarrow> string list \<Rightarrow> string option \<Rightarrow> ('w, cloud_error, json) calls" where
  "create_flow lib c waba_id name categories clone = post_multipart lib c (base_url c @ ''/'' @ waba_id @ ''/flows'')
     ([(''name'', FormText name), (''categories'', FormText (json_strings lib categories))] @ opt_part ''clone_flow_id'' clone)"

definition list_flows :: "cloud_lib \<Rightarrow> cloud_client \<Rightarrow> string \<Rightarrow> ('w, cloud_error, json) calls" where
  "list_flows lib c waba_id = get_json lib c (base_url c @ ''/'' @ waba_id @ ''/flows'')"

definition get_flow :: "cloud_lib \<Rightarrow> cloud_client \<Rightarrow> string \<Rightarrow> ('w, cloud_error, json) calls" where
  "get_flow lib c flow_id = get_json lib c (base_url c @ ''/'' @ flow_id @
     ''?fields=id,name,categories,preview,status,validation_errors,json_version,data_api_version,data_channel_uri,health_status,whatsapp_business_account,application'')"

definition update_flow_metadata ::
    "cloud_lib \<Rightarrow> cloud_client \<Rightarrow> string \<Rightarrow> string option \<Rightarrow> string list option \<Rightarrow> string option \<Rightarrow> ('w, cloud_error, json) calls" where
  "update_flow_metadata lib c flow_id name categories endpoint_uri = post_multipart lib c (base_url c @ ''/'' @ flow_id)
     (opt_part ''name'' name @ opt_part ''categories'' (map_option (json_strings lib) categories) @ opt_part ''endpoint_uri'' endpoint_uri)"

definition update_flow_json :: "cloud_lib \<Rightarrow> cloud_client \<Rightarrow> string \<Rightarrow> bytes \<Rightarrow> ('w, cloud_error, json) calls" where
  "update_flow_json lib c flow_id bs =
     (if \<not> cb_mime_ok lib ''application/json'' then db_fail (Api 0 ''invalid flow json part'')
      else post_multipart lib c (base_url c @ ''/'' @ flow_id @ ''/assets'')
        [(''name'', FormText ''flow.json''), (''asset_type'', FormText ''FLOW_JSON''),
         (''file'', FormFile bs ''flow.json'' ''application/json'')])"

definition get_flow_assets :: "cloud_lib \<Rightarrow> cloud_client \<Rightarrow> string \<Rightarrow> ('w, cloud_error, json) calls" where
  "get_flow_assets lib c flow_id = get_json lib c (base_url c @ ''/'' @ flow_id @ ''/assets'')"

definition publish_flow :: "cloud_lib \<Rightarrow> cloud_client \<Rightarrow> string \<Rightarrow> ('w, cloud_error, json) calls" where
  "publish_flow lib c flow_id = post_json lib c (base_url c @ ''/'' @ flow_id @ ''/publish'') (JObj [])"

definition deprecate_flow :: "cloud_lib \<Rightarrow> cloud_client \<Rightarrow> string \<Rightarrow> ('w, cloud_error, json) calls" where
  "deprecate_flow lib c flow_id = post_json lib c (base_url c @ ''/'' @ flow_id @ ''/deprecate'') (JObj [])"

definition delete_flow :: "cloud_lib \<Rightarrow> cloud_client \<Rightarrow> string \<Rightarrow> ('w, cloud_error, json) calls" where
  "delete_flow lib c flow_id = delete_json lib c (base_url c @ ''/'' @ flow_id)"

definition set_flow_encryption_public_key :: "cloud_lib \<Rightarrow> cloud_client \<Rightarrow> string \<Rightarrow> ('w, cloud_error, json) calls" where
  "set_flow_encryption_public_key lib c pem = post_multipart lib c (by_phone c ''/whatsapp_business_encryption'')
     [(''business_public_key'', FormText pem)]"

definition get_commerce_settings :: "cloud_lib \<Rightarrow> cloud_client \<Rightarrow> ('w, cloud_error, json) calls" where
  "get_commerce_settings lib c = get_json lib c (by_phone c ''/whatsapp_commerce_settings'')"

definition show_bool :: "bool \<Rightarrow> string" where
  "show_bool b = (if b then ''true'' else ''false'')"

definition opt_query :: "string \<Rightarrow> string option \<Rightarrow> (string \<times> string) list" where
  "opt_query name v = (case v of None \<Rightarrow> [] | Some t \<Rightarrow> [(name, t)])"

definition set_commerce_settings ::
    "cloud_lib \<Rightarrow> cloud_client \<Rightarrow> bool option \<Rightarrow> bool option \<Rightarrow> ('w, cloud_error, json) calls" where
  "set_commerce_settings lib c is_cart_enabled is_catalog_visible =
     http_json lib ((plain_call POST (by_phone c ''/whatsapp_commerce_settings'') c NoBody)\<lparr>hc_query :=
       opt_query ''is_cart_enabled'' (map_option show_bool is_cart_enabled)
       @ opt_query ''is_catalog_visible'' (map_option show_bool is_catalog_visible)\<rparr>)"

section \<open>Graph calls\<close>

definition graph_char :: "char \<Rightarrow> bool" where
  "graph_char ch \<longleftrightarrow> is_digit ch \<or> (of_char ch :: nat) \<in> {65..90} \<or> (of_char ch :: nat) \<in> {97..122} \<or>
     ch = CHR ''_'' \<or> ch = CHR ''-'' \<or> ch = CHR ''.''"

definition graph_id :: "string \<Rightarrow> string option" where
  "graph_id raw = (if raw \<noteq> [] \<and> length raw \<le> 128 \<and> list_all graph_char raw then Some raw else None)"

definition graph_id_with_colon :: "string \<Rightarrow> string option" where
  "graph_id_with_colon raw =
     (if raw \<noteq> [] \<and> length raw \<le> 1024 \<and> list_all (\<lambda>ch. graph_char ch \<or> ch \<in> set '':?=&%'') raw then Some raw else None)"

definition graph ::
    "cloud_lib \<Rightarrow> cloud_client \<Rightarrow> http_method \<Rightarrow> string \<Rightarrow> (string \<times> string) list \<Rightarrow> json option \<Rightarrow> ('w, cloud_error, json) calls" where
  "graph lib c m path query body =
     http_json lib \<lparr> hc_method = m, hc_url = base_url c @ ''/'' @ path, hc_headers = bearer c, hc_query = query,
       hc_body = (case body of None \<Rightarrow> NoBody | Some b \<Rightarrow> JsonBody b) \<rparr>"

definition graph_form :: "cloud_lib \<Rightarrow> cloud_client \<Rightarrow> string \<Rightarrow> (string \<times> form_part) list \<Rightarrow> ('w, cloud_error, json) calls" where
  "graph_form lib c path form = http_json lib (plain_call POST (base_url c @ ''/'' @ path) c (FormBody form))"

definition resumable_upload ::
    "cloud_lib \<Rightarrow> cloud_client \<Rightarrow> string \<Rightarrow> bytes \<Rightarrow> string \<Rightarrow> string \<Rightarrow> ('w, cloud_error, string) calls" where
  "resumable_upload lib c app_id bs mime_type file_name =
     (let auth = [(''Authorization'', ''OAuth '' @ access_token c)]
      in db_bind (http_json lib \<lparr> hc_method = POST, hc_url = base_url c @ ''/'' @ app_id @ ''/uploads'', hc_headers = auth,
            hc_query = [(''file_length'', show_nat (length bs)), (''file_type'', mime_type), (''file_name'', file_name)],
            hc_body = NoBody \<rparr>)
       (\<lambda>session. case Option.bind (Option.bind (json_get ''id'' session) json_as_str) graph_id_with_colon of
            None \<Rightarrow> db_fail (Api 0 (''upload session response had no usable id: '' @ print_json (cb_libs lib) session))
          | Some upload_id \<Rightarrow> db_bind (http_json lib \<lparr> hc_method = POST, hc_url = base_url c @ ''/'' @ upload_id,
                 hc_headers = auth @ [(''file_offset'', ''0'')], hc_query = [], hc_body = RawBody bs \<rparr>)
              (\<lambda>uploaded. case Option.bind (json_get ''h'' uploaded) json_as_str of
                 Some h \<Rightarrow> db_return h
               | None \<Rightarrow> db_fail (Api 0 (''upload response had no file handle: '' @ print_json (cb_libs lib) uploaded)))))"

end
