(* ===== verification/Cloud_Admin.thy ===== *)
theory Cloud_Admin
  imports Cloud_Client
begin

text \<open>
  Administration of a Cloud API account (\<open>src/api/cloud/admin/handlers.rs\<close>): every endpoint checks
  its request, loads the session's credentials, makes one Graph call and returns Meta's answer.
  Parsing a date is the library's (\<open>cb_is_date\<close>).
\<close>

type_synonym ('w, 'a) cloud_handler = "'w outbound_scheme \<Rightarrow> (api_error + 'a) \<times> 'w outbound_scheme"

section \<open>The context of a call\<close>

record ctx =
  cx_client :: cloud_client
  cx_info :: session_info

text \<open>\<open>?\<close> on a check that touches nothing.\<close>

definition ensure :: "'e + 'a \<Rightarrow> ('a \<Rightarrow> 'w \<Rightarrow> ('e + 'b) \<times> 'w) \<Rightarrow> 'w \<Rightarrow> ('e + 'b) \<times> 'w" where
  "ensure r k = (case r of Inl e \<Rightarrow> db_fail e | Inr a \<Rightarrow> k a)"

definition stored_id :: "string option \<Rightarrow> string \<Rightarrow> api_error + string" where
  "stored_id value field = (case Option.bind value graph_id of
       None \<Rightarrow> Inl (BadRequest (''session has no '' @ field @ ''; set it via POST /cloud/connect'')) | Some i \<Rightarrow> Inr i)"

definition waba :: "ctx \<Rightarrow> api_error + string" where
  "waba c = stored_id (si_cloud_waba_id (cx_info c)) ''waba_id''"

definition business :: "ctx \<Rightarrow> api_error + string" where
  "business c = stored_id (si_cloud_business_id (cx_info c)) ''business_id''"

definition app_id :: "ctx \<Rightarrow> api_error + string" where
  "app_id c = stored_id (si_cloud_app_id (cx_info c)) ''app_id''"

definition phone :: "ctx \<Rightarrow> string" where
  "phone c = phone_number_id (cx_client c)"

definition meta_error :: "cloud_error \<Rightarrow> api_error" where
  "meta_error e = (case e of
       Api status body \<Rightarrow> if 400 \<le> status \<and> status < 500
         then BadRequest (''Meta rejected the request ('' @ show_nat status @ ''): '' @ body)
         else Internal (''Meta call failed: '' @ cloud_error_text e)
     | _ \<Rightarrow> Internal (''Meta call failed: '' @ cloud_error_text e))"

definition ctx_call ::
    "cloud_lib \<Rightarrow> ctx \<Rightarrow> http_method \<Rightarrow> string \<Rightarrow> (string \<times> string) list \<Rightarrow> json option \<Rightarrow> ('w, json) cloud_handler" where
  "ctx_call lib c m path query body = db_map_err meta_error (graph lib (cx_client c) m path query body)"

definition load_ctx :: "cloud_lib \<Rightarrow> string \<Rightarrow> ('w, ctx) cloud_handler" where
  "load_ctx lib sid =
     db_bind (db_map_err Internal (get_cloud_credentials sid)) (\<lambda>creds. case creds of
         None \<Rightarrow> db_fail (BadRequest ''only supported for whatsapp_cloud sessions'')
       | Some cr \<Rightarrow> db_bind (db_map_err Internal (get_session sid)) (\<lambda>info. case info of
             None \<Rightarrow> db_fail (SessionNotFound sid)
           | Some s \<Rightarrow> db_return \<lparr> cx_client = cloud_client_new lib (cc_phone_number_id cr) (cc_access_token cr), cx_info = s \<rparr>))"

text \<open>The three shapes of the routes: a call below the phone number, the account or the business.\<close>

definition on_phone ::
    "cloud_lib \<Rightarrow> string \<Rightarrow> http_method \<Rightarrow> string \<Rightarrow> (string \<times> string) list \<Rightarrow> json option \<Rightarrow> ('w, json) cloud_handler" where
  "on_phone lib sid m below query body = db_bind (load_ctx lib sid) (\<lambda>c. ctx_call lib c m (phone c @ below) query body)"

definition on_waba ::
    "cloud_lib \<Rightarrow> string \<Rightarrow> http_method \<Rightarrow> string \<Rightarrow> (string \<times> string) list \<Rightarrow> json option \<Rightarrow> ('w, json) cloud_handler" where
  "on_waba lib sid m below query body =
     db_bind (load_ctx lib sid) (\<lambda>c. ensure (waba c) (\<lambda>i. ctx_call lib c m (i @ below) query body))"

definition on_business ::
    "cloud_lib \<Rightarrow> string \<Rightarrow> http_method \<Rightarrow> string \<Rightarrow> (string \<times> string) list \<Rightarrow> json option \<Rightarrow> ('w, json) cloud_handler" where
  "on_business lib sid m below query body =
     db_bind (load_ctx lib sid) (\<lambda>c. ensure (business c) (\<lambda>i. ctx_call lib c m (i @ below) query body))"

definition on_path ::
    "cloud_lib \<Rightarrow> string \<Rightarrow> http_method \<Rightarrow> string \<Rightarrow> (string \<times> string) list \<Rightarrow> json option \<Rightarrow> ('w, json) cloud_handler" where
  "on_path lib sid m path query body = db_bind (load_ctx lib sid) (\<lambda>c. ctx_call lib c m path query body)"

section \<open>Checks\<close>

definition path_id :: "string \<Rightarrow> string \<Rightarrow> api_error + string" where
  "path_id raw what = (case graph_id raw of None \<Rightarrow> Inl (BadRequest (''invalid '' @ what)) | Some i \<Rightarrow> Inr i)"

definition one_of :: "string \<Rightarrow> string list \<Rightarrow> string \<Rightarrow> api_error + unit" where
  "one_of value allowed field =
     (if value \<in> set allowed then Inr () else Inl (BadRequest (field @ '' must be one of '' @ join_with '', '' allowed)))"

definition field_char :: "char \<Rightarrow> bool" where
  "field_char ch \<longleftrightarrow> is_digit ch \<or> (of_char ch :: nat) \<in> {65..90} \<or> (of_char ch :: nat) \<in> {97..122} \<or> ch = CHR ''_'' \<or> ch = CHR ''+''"

definition field_items :: "string \<Rightarrow> string list" where
  "field_items raw = filter (\<lambda>s. s \<noteq> []) (map trim_str (split_on (CHR '','') raw))"

definition field_list :: "cloud_lib \<Rightarrow> string \<Rightarrow> string \<Rightarrow> api_error + string" where
  "field_list lib raw field =
     (if list_ex (\<lambda>s. \<not> list_all field_char s) (field_items raw)
      then Inl (BadRequest (field @ '' may only contain letters, digits, '' @ [CHR 0x27] @ ''_'' @ [CHR 0x27] @ '' and '' @ [CHR 0x27] @ ''+'' @ [CHR 0x27]))
      else Inr (json_strings lib (field_items raw)))"

definition first_message_id :: "json \<Rightarrow> string" where
  "first_message_id resp = or_empty (case json_get ''messages'' resp of
       Some (JArr (m # _)) \<Rightarrow> Option.bind (json_get ''id'' m) json_as_str | _ \<Rightarrow> None)"

definition sent_response :: "json \<Rightarrow> string \<Rightarrow> 'w outbound_scheme \<Rightarrow> message_response" where
  "sent_response resp to w = \<lparr> mr_message_id = first_message_id resp, mr_timestamp = db_now w, mr_to = to \<rparr>"

definition check_pin :: "string \<Rightarrow> api_error + unit" where
  "check_pin pin = (if length pin = 6 \<and> list_all is_digit pin then Inr () else Inl (BadRequest ''pin must be exactly 6 digits''))"

section \<open>Accounts and phone numbers\<close>

definition get_waba :: "cloud_lib \<Rightarrow> string \<Rightarrow> ('w, json) cloud_handler" where
  "get_waba lib sid = on_waba lib sid GET [] [] None"

definition owned_wabas :: "cloud_lib \<Rightarrow> string \<Rightarrow> ('w, json) cloud_handler" where
  "owned_wabas lib sid = on_business lib sid GET ''/owned_whatsapp_business_accounts'' [] None"

definition client_wabas :: "cloud_lib \<Rightarrow> string \<Rightarrow> ('w, json) cloud_handler" where
  "client_wabas lib sid = on_business lib sid GET ''/client_whatsapp_business_accounts'' [] None"

definition business_portfolio :: "cloud_lib \<Rightarrow> string \<Rightarrow> ('w, json) cloud_handler" where
  "business_portfolio lib sid = on_business lib sid GET [] [(''fields'', ''id,name,timezone_id'')] None"

definition list_phone_numbers :: "cloud_lib \<Rightarrow> string \<Rightarrow> ('w, json) cloud_handler" where
  "list_phone_numbers lib sid = on_waba lib sid GET ''/phone_numbers'' [(''fields'',
     ''id,display_phone_number,verified_name,quality_rating,code_verification_status,name_status,platform_type,throughput,is_official_business_account'')] None"

definition get_phone_number :: "cloud_lib \<Rightarrow> string \<Rightarrow> ('w, json) cloud_handler" where
  "get_phone_number lib sid = on_phone lib sid GET [] [(''fields'',
     ''id,display_phone_number,verified_name,quality_rating,code_verification_status,name_status,new_name_status,platform_type,throughput,messaging_limit_tier,account_mode'')] None"

definition opt_field :: "string \<Rightarrow> json option \<Rightarrow> json \<Rightarrow> json" where
  "opt_field k v body = (case v of None \<Rightarrow> body | Some j \<Rightarrow> set_field k j body)"

record register_phone_request =
  rp_pin :: string
  rp_data_localization_region :: "string option"
  rp_backup :: "(string \<times> string) option"

definition register_phone :: "cloud_lib \<Rightarrow> string \<Rightarrow> register_phone_request \<Rightarrow> ('w, json) cloud_handler" where
  "register_phone lib sid r = ensure (check_pin (rp_pin r)) (\<lambda>_.
     on_phone lib sid POST ''/register'' [] (Some
       (opt_field ''backup'' (map_option (\<lambda>(d, p). JObj [(''data'', JStr d), (''password'', JStr p)]) (rp_backup r))
         (opt_field ''data_localization_region'' (map_option JStr (rp_data_localization_region r))
           (JObj [(''messaging_product'', JStr ''whatsapp''), (''pin'', JStr (rp_pin r))])))))"

definition deregister_phone :: "cloud_lib \<Rightarrow> string \<Rightarrow> ('w, json) cloud_handler" where
  "deregister_phone lib sid = on_phone lib sid POST ''/deregister'' [] None"

definition request_code :: "cloud_lib \<Rightarrow> string \<Rightarrow> string \<Rightarrow> string option \<Rightarrow> ('w, json) cloud_handler" where
  "request_code lib sid code_method locale = ensure (one_of code_method [''SMS'', ''VOICE''] ''code_method'') (\<lambda>_.
     on_phone lib sid POST ''/request_code'' [] (Some (JObj [(''code_method'', JStr code_method),
       (''locale'', JStr (case locale of Some l \<Rightarrow> l | None \<Rightarrow> ''en_US''))])))"

definition verify_code :: "cloud_lib \<Rightarrow> string \<Rightarrow> string \<Rightarrow> ('w, json) cloud_handler" where
  "verify_code lib sid code = on_phone lib sid POST ''/verify_code'' [] (Some (JObj [(''code'', JStr code)]))"

definition set_two_step_pin :: "cloud_lib \<Rightarrow> string \<Rightarrow> string \<Rightarrow> ('w, json) cloud_handler" where
  "set_two_step_pin lib sid pin = ensure (check_pin pin) (\<lambda>_. on_phone lib sid POST [] [] (Some (JObj [(''pin'', JStr pin)])))"

definition debug_token :: "cloud_lib \<Rightarrow> string \<Rightarrow> ('w, json) cloud_handler" where
  "debug_token lib sid = db_bind (load_ctx lib sid) (\<lambda>c.
     db_bind (db_map_err Internal (get_cloud_credentials sid)) (\<lambda>creds.
       ctx_call lib c GET ''debug_token'' [(''input_token'', or_empty (map_option cc_access_token creds))] None))"

section \<open>Business profile\<close>

definition get_business_profile_api :: "cloud_lib \<Rightarrow> string \<Rightarrow> ('w, json) cloud_handler" where
  "get_business_profile_api lib sid = on_phone lib sid GET ''/whatsapp_business_profile''
     [(''fields'', ''about,address,description,email,profile_picture_url,websites,vertical'')] None"

record profile_request =
  pr_about :: "string option"
  pr_address :: "string option"
  pr_description :: "string option"
  pr_email :: "string option"
  pr_vertical :: "string option"
  pr_websites :: "string list option"
  pr_profile_picture_handle :: "string option"

definition profile_fields :: "profile_request \<Rightarrow> (string \<times> string option) list" where
  "profile_fields r = [(''about'', pr_about r), (''address'', pr_address r), (''description'', pr_description r),
     (''email'', pr_email r), (''vertical'', pr_vertical r), (''profile_picture_handle'', pr_profile_picture_handle r)]"

definition profile_body :: "profile_request \<Rightarrow> api_error + json" where
  "profile_body r =
     (let body = foldl (\<lambda>b (key, v). opt_field key (map_option JStr v) b) (JObj [(''messaging_product'', JStr ''whatsapp'')]) (profile_fields r);
          any = list_ex (\<lambda>(key, v). v \<noteq> None) (profile_fields r)
      in case pr_websites r of
           Some ws \<Rightarrow> if 2 < length ws then Inl (BadRequest ''at most 2 websites are allowed'')
             else Inr (set_field ''websites'' (JArr (map JStr ws)) body)
         | None \<Rightarrow> if \<not> any then Inl (BadRequest ''at least one profile field is required'') else Inr body)"

definition update_business_profile :: "cloud_lib \<Rightarrow> string \<Rightarrow> profile_request \<Rightarrow> ('w, json) cloud_handler" where
  "update_business_profile lib sid r = ensure (profile_body r) (\<lambda>body. on_phone lib sid POST ''/whatsapp_business_profile'' [] (Some body))"

text \<open>A multipart field: its name, content type and file name, and its bytes or the error of reading them.\<close>

record file_field =
  ff_name :: "string option"
  ff_content_type :: "string option"
  ff_file_name :: "string option"
  ff_bytes :: "string + bytes"

fun read_photo :: "(string + file_field) list \<Rightarrow> (bytes \<times> string \<times> string) option \<Rightarrow> api_error + (bytes \<times> string \<times> string) option" where
  "read_photo [] found = Inr found"
| "read_photo (Inl e # rest) found = Inl (BadRequest e)"
| "read_photo (Inr f # rest) found =
     (if ff_name f = Some ''file''
      then (case ff_bytes f of Inl e \<Rightarrow> Inl (BadRequest e)
            | Inr b \<Rightarrow> read_photo rest (Some (b, case ff_content_type f of Some t \<Rightarrow> t | None \<Rightarrow> ''application/octet-stream'',
                case ff_file_name f of Some n \<Rightarrow> n | None \<Rightarrow> ''profile.jpg'')))
      else read_photo rest found)"

definition upload_business_profile_photo ::
    "cloud_lib \<Rightarrow> string \<Rightarrow> (string + file_field) list \<Rightarrow> ('w, json) cloud_handler" where
  "upload_business_profile_photo lib sid upload = db_bind (load_ctx lib sid) (\<lambda>c. ensure (app_id c) (\<lambda>app.
     ensure (read_photo upload None) (\<lambda>file. case file of
         None \<Rightarrow> db_fail (BadRequest ''No file provided'')
       | Some (bs, mime, name) \<Rightarrow> ensure (one_of mime [''image/jpeg'', ''image/png''] ''file content type'') (\<lambda>_.
           db_bind (db_map_err meta_error (resumable_upload lib (cx_client c) app bs mime name)) (\<lambda>handle.
             db_bind (ctx_call lib c POST (phone c @ ''/whatsapp_business_profile'') []
                 (Some (JObj [(''messaging_product'', JStr ''whatsapp''), (''profile_picture_handle'', JStr handle)])))
               (\<lambda>answer. db_return (JObj [(''handle'', JStr handle), (''meta_response'', answer)])))))))"

definition send_typing :: "cloud_lib \<Rightarrow> string \<Rightarrow> string \<Rightarrow> ('w, json) cloud_handler" where
  "send_typing lib sid message_id = on_phone lib sid POST ''/messages'' [] (Some (JObj [(''messaging_product'', JStr ''whatsapp''),
     (''status'', JStr ''read''), (''message_id'', JStr message_id), (''typing_indicator'', JObj [(''type'', JStr ''text'')])]))"

section \<open>Subscriptions and templates\<close>

definition list_subscribed_apps :: "cloud_lib \<Rightarrow> string \<Rightarrow> ('w, json) cloud_handler" where
  "list_subscribed_apps lib sid = on_waba lib sid GET ''/subscribed_apps'' [] None"

definition subscribe_body :: "cloud_lib \<Rightarrow> string option \<Rightarrow> string option \<Rightarrow> api_error + json option" where
  "subscribe_body lib callback token = (case (callback, token) of
       (None, None) \<Rightarrow> Inr None
     | (Some uri, Some t) \<Rightarrow> (case validate_public_url (cb_net lib) uri of
           Inl e \<Rightarrow> Inl (BadRequest e)
         | Inr _ \<Rightarrow> Inr (Some (JObj [(''override_callback_uri'', JStr uri), (''verify_token'', JStr t)])))
     | _ \<Rightarrow> Inl (BadRequest ''override_callback_uri and verify_token must be given together''))"

definition subscribe_app :: "cloud_lib \<Rightarrow> string \<Rightarrow> string option \<Rightarrow> string option \<Rightarrow> ('w, json) cloud_handler" where
  "subscribe_app lib sid callback token =
     ensure (subscribe_body lib callback token) (\<lambda>body. on_waba lib sid POST ''/subscribed_apps'' [] body)"

definition unsubscribe_app :: "cloud_lib \<Rightarrow> string \<Rightarrow> ('w, json) cloud_handler" where
  "unsubscribe_app lib sid = on_waba lib sid DELETE ''/subscribed_apps'' [] None"

record list_templates_query =
  lt_name :: "string option"
  lt_status :: "string option"
  lt_category :: "string option"
  lt_language :: "string option"
  lt_limit :: "nat option"
  lt_after :: "string option"
  lt_before :: "string option"

definition list_templates :: "cloud_lib \<Rightarrow> string \<Rightarrow> list_templates_query \<Rightarrow> ('w, json) cloud_handler" where
  "list_templates lib sid q = on_waba lib sid GET ''/message_templates''
     (opt_query ''name'' (lt_name q) @ opt_query ''status'' (lt_status q) @ opt_query ''category'' (lt_category q) @
      opt_query ''language'' (lt_language q) @ opt_query ''after'' (lt_after q) @ opt_query ''before'' (lt_before q) @
      opt_query ''limit'' (map_option (\<lambda>n. show_nat (min n 1000)) (lt_limit q))) None"

record create_template_request =
  ct_name :: string
  ct_language :: string
  ct_category :: string
  ct_components :: json
  ct_allow_category_change :: "bool option"
  ct_parameter_format :: "string option"
  ct_message_send_ttl_seconds :: "int option"

definition is_array :: "json \<Rightarrow> bool" where
  "is_array j = (case j of JArr _ \<Rightarrow> True | _ \<Rightarrow> False)"

definition create_template :: "cloud_lib \<Rightarrow> string \<Rightarrow> create_template_request \<Rightarrow> ('w, json) cloud_handler" where
  "create_template lib sid r = ensure (one_of (ct_category r) [''MARKETING'', ''UTILITY'', ''AUTHENTICATION''] ''category'') (\<lambda>_.
     if \<not> is_array (ct_components r) then db_fail (BadRequest ''components must be an array'')
     else on_waba lib sid POST ''/message_templates'' [] (Some
       (opt_field ''message_send_ttl_seconds'' (map_option JInt (ct_message_send_ttl_seconds r))
         (opt_field ''parameter_format'' (map_option JStr (ct_parameter_format r))
           (opt_field ''allow_category_change'' (map_option JBool (ct_allow_category_change r))
             (JObj [(''name'', JStr (ct_name r)), (''language'', JStr (ct_language r)), (''category'', JStr (ct_category r)),
               (''components'', ct_components r)]))))))"

definition delete_template :: "cloud_lib \<Rightarrow> string \<Rightarrow> string \<Rightarrow> string option \<Rightarrow> ('w, json) cloud_handler" where
  "delete_template lib sid name hsm_id =
     on_waba lib sid DELETE ''/message_templates'' ([(''name'', name)] @ opt_query ''hsm_id'' hsm_id) None"

definition template_namespace :: "cloud_lib \<Rightarrow> string \<Rightarrow> ('w, json) cloud_handler" where
  "template_namespace lib sid = on_waba lib sid GET [] [(''fields'', ''message_template_namespace'')] None"

definition get_template :: "cloud_lib \<Rightarrow> string \<Rightarrow> string \<Rightarrow> ('w, json) cloud_handler" where
  "get_template lib sid template_id = ensure (path_id template_id ''template_id'') (\<lambda>i. on_path lib sid GET i [] None)"

definition edit_template ::
    "cloud_lib \<Rightarrow> string \<Rightarrow> string \<Rightarrow> string option \<Rightarrow> json option \<Rightarrow> int option \<Rightarrow> ('w, json) cloud_handler" where
  "edit_template lib sid template_id category components ttl = ensure (path_id template_id ''template_id'') (\<lambda>i.
     let body = opt_field ''message_send_ttl_seconds'' (map_option JInt ttl)
           (opt_field ''components'' components (opt_field ''category'' (map_option JStr category) (JObj [])))
     in if body = JObj [] then db_fail (BadRequest ''at least one of category, components, message_send_ttl_seconds is required'')
        else on_path lib sid POST i [] (Some body))"

section \<open>QR codes, blocked users and compliance\<close>

definition qr_fields :: "string option \<Rightarrow> api_error + string" where
  "qr_fields format = (case format of
       None \<Rightarrow> Inr ''code,prefilled_message,deep_link_url''
     | Some f \<Rightarrow> (case one_of f [''SVG'', ''PNG''] ''format'' of Inl e \<Rightarrow> Inl e
         | Inr _ \<Rightarrow> Inr (''code,prefilled_message,deep_link_url,qr_image_url.format('' @ f @ '')'')))"

definition list_qr_codes :: "cloud_lib \<Rightarrow> string \<Rightarrow> string option \<Rightarrow> ('w, json) cloud_handler" where
  "list_qr_codes lib sid format = ensure (qr_fields format) (\<lambda>fs. on_phone lib sid GET ''/message_qrdls'' [(''fields'', fs)] None)"

definition create_qr_code :: "cloud_lib \<Rightarrow> string \<Rightarrow> string \<Rightarrow> string option \<Rightarrow> ('w, json) cloud_handler" where
  "create_qr_code lib sid prefilled generate =
     (let image = (case generate of Some g \<Rightarrow> g | None \<Rightarrow> ''SVG'')
      in ensure (one_of image [''SVG'', ''PNG''] ''generate_qr_image'') (\<lambda>_. on_phone lib sid POST ''/message_qrdls'' []
           (Some (JObj [(''prefilled_message'', JStr prefilled), (''generate_qr_image'', JStr image)]))))"

definition get_qr_code_api :: "cloud_lib \<Rightarrow> string \<Rightarrow> string \<Rightarrow> string option \<Rightarrow> ('w, json) cloud_handler" where
  "get_qr_code_api lib sid code format = ensure (path_id code ''code'') (\<lambda>code. ensure (qr_fields format) (\<lambda>fs.
     on_phone lib sid GET ''/message_qrdls'' [(''fields'', fs), (''code'', code)] None))"

definition update_qr_code :: "cloud_lib \<Rightarrow> string \<Rightarrow> string \<Rightarrow> string \<Rightarrow> ('w, json) cloud_handler" where
  "update_qr_code lib sid code prefilled = ensure (path_id code ''code'') (\<lambda>code.
     on_phone lib sid POST ''/message_qrdls'' [] (Some (JObj [(''prefilled_message'', JStr prefilled), (''code'', JStr code)])))"

definition delete_qr_code :: "cloud_lib \<Rightarrow> string \<Rightarrow> string \<Rightarrow> ('w, json) cloud_handler" where
  "delete_qr_code lib sid code = ensure (path_id code ''code'') (\<lambda>code.
     on_phone lib sid DELETE (''/message_qrdls/'' @ code) [] None)"

definition block_body :: "string list \<Rightarrow> api_error + json" where
  "block_body users = (if users = [] then Inl (BadRequest ''users must not be empty'')
     else Inr (JObj [(''messaging_product'', JStr ''whatsapp''), (''block_users'', JArr (map (\<lambda>u. JObj [(''user'', JStr u)]) users))]))"

definition list_blocked_users :: "cloud_lib \<Rightarrow> string \<Rightarrow> ('w, json) cloud_handler" where
  "list_blocked_users lib sid = on_phone lib sid GET ''/block_users'' [] None"

definition block_users :: "cloud_lib \<Rightarrow> string \<Rightarrow> string list \<Rightarrow> ('w, json) cloud_handler" where
  "block_users lib sid users = ensure (block_body users) (\<lambda>body. on_phone lib sid POST ''/block_users'' [] (Some body))"

definition unblock_users :: "cloud_lib \<Rightarrow> string \<Rightarrow> string list \<Rightarrow> ('w, json) cloud_handler" where
  "unblock_users lib sid users = ensure (block_body users) (\<lambda>body. on_phone lib sid DELETE ''/block_users'' [] (Some body))"

definition get_business_compliance :: "cloud_lib \<Rightarrow> string \<Rightarrow> ('w, json) cloud_handler" where
  "get_business_compliance lib sid = on_phone lib sid GET ''/business_compliance_info'' [] None"

record compliance_request =
  bc_entity_name :: string
  bc_entity_type :: string
  bc_is_registered :: bool
  bc_other_entity_type :: "string option"
  bc_grievance_officer_details :: "json option"
  bc_customer_care_details :: "json option"

definition set_business_compliance :: "cloud_lib \<Rightarrow> string \<Rightarrow> compliance_request \<Rightarrow> ('w, json) cloud_handler" where
  "set_business_compliance lib sid r = on_phone lib sid POST ''/business_compliance_info'' [] (Some
     (opt_field ''customer_care_details'' (bc_customer_care_details r)
       (opt_field ''grievance_officer_details'' (bc_grievance_officer_details r)
         (opt_field ''other_entity_type'' (map_option JStr (bc_other_entity_type r))
           (JObj [(''messaging_product'', JStr ''whatsapp''), (''entity_name'', JStr (bc_entity_name r)),
             (''entity_type'', JStr (bc_entity_type r)), (''is_registered'', JBool (bc_is_registered r))])))))"

section \<open>Analytics\<close>

fun expand_lists :: "cloud_lib \<Rightarrow> (string \<times> string option) list \<Rightarrow> string \<Rightarrow> api_error + string" where
  "expand_lists lib [] f = Inr f"
| "expand_lists lib ((name, None) # ls) f = expand_lists lib ls f"
| "expand_lists lib ((name, Some v) # ls) f = (case field_list lib v name of Inl e \<Rightarrow> Inl e
     | Inr items \<Rightarrow> expand_lists lib ls (f @ ''.'' @ name @ ''('' @ items @ '')''))"

record analytics_query =
  aq_start :: int
  aq_end :: int
  aq_granularity :: string

definition analytics_span :: "string \<Rightarrow> analytics_query \<Rightarrow> string" where
  "analytics_span kind q = kind @ ''.start('' @ show_int (aq_start q) @ '').end('' @ show_int (aq_end q) @ '').granularity('' @ aq_granularity q @ '')''"

definition analytics_fields :: "cloud_lib \<Rightarrow> analytics_query \<Rightarrow> string option \<Rightarrow> string option \<Rightarrow> api_error + string" where
  "analytics_fields lib q phone_numbers country_codes =
     (case one_of (aq_granularity q) [''HALF_HOUR'', ''DAY'', ''MONTH''] ''granularity'' of Inl e \<Rightarrow> Inl e
      | Inr _ \<Rightarrow> expand_lists lib [(''phone_numbers'', phone_numbers), (''country_codes'', country_codes)] (analytics_span ''analytics'' q))"

record conversation_lists =
  cl_directions :: "string option"
  cl_dimensions :: "string option"
  cl_categories :: "string option"
  cl_types :: "string option"
  cl_phone_numbers :: "string option"
  cl_country_codes :: "string option"

definition conversation_analytics_fields :: "cloud_lib \<Rightarrow> analytics_query \<Rightarrow> conversation_lists \<Rightarrow> api_error + string" where
  "conversation_analytics_fields lib q l =
     (case one_of (aq_granularity q) [''HALF_HOUR'', ''DAILY'', ''MONTHLY''] ''granularity'' of Inl e \<Rightarrow> Inl e
      | Inr _ \<Rightarrow> expand_lists lib [(''conversation_directions'', cl_directions l), (''dimensions'', cl_dimensions l),
          (''conversation_categories'', cl_categories l), (''conversation_types'', cl_types l),
          (''phone_numbers'', cl_phone_numbers l), (''country_codes'', cl_country_codes l)] (analytics_span ''conversation_analytics'' q))"

definition analytics :: "cloud_lib \<Rightarrow> string \<Rightarrow> analytics_query \<Rightarrow> string option \<Rightarrow> string option \<Rightarrow> ('w, json) cloud_handler" where
  "analytics lib sid q phone_numbers country_codes =
     ensure (analytics_fields lib q phone_numbers country_codes) (\<lambda>f. on_waba lib sid GET [] [(''fields'', f)] None)"

definition conversation_analytics :: "cloud_lib \<Rightarrow> string \<Rightarrow> analytics_query \<Rightarrow> conversation_lists \<Rightarrow> ('w, json) cloud_handler" where
  "conversation_analytics lib sid q l =
     ensure (conversation_analytics_fields lib q l) (\<lambda>f. on_waba lib sid GET [] [(''fields'', f)] None)"

section \<open>Credit lines and users\<close>

definition credit_lines :: "cloud_lib \<Rightarrow> string \<Rightarrow> ('w, json) cloud_handler" where
  "credit_lines lib sid = on_business lib sid GET ''/extendedcredits'' [(''fields'', ''id,legal_entity_name'')] None"

definition credit_line_allocations :: "cloud_lib \<Rightarrow> string \<Rightarrow> string \<Rightarrow> ('w, json) cloud_handler" where
  "credit_line_allocations lib sid line = ensure (path_id line ''credit_line_id'') (\<lambda>i.
     on_path lib sid GET (i @ ''/owning_credit_allocation_configs'') [] None)"

definition share_credit_line :: "cloud_lib \<Rightarrow> string \<Rightarrow> string \<Rightarrow> string \<Rightarrow> ('w, json) cloud_handler" where
  "share_credit_line lib sid line currency = ensure (path_id line ''credit_line_id'') (\<lambda>i.
     db_bind (load_ctx lib sid) (\<lambda>c. ensure (waba c) (\<lambda>w.
       ctx_call lib c POST (i @ ''/whatsapp_credit_sharing_and_attach'') [(''waba_id'', w), (''waba_currency'', currency)] None)))"

definition get_credit_sharing :: "cloud_lib \<Rightarrow> string \<Rightarrow> string \<Rightarrow> ('w, json) cloud_handler" where
  "get_credit_sharing lib sid config = ensure (path_id config ''allocation_config_id'') (\<lambda>i.
     on_path lib sid GET i [(''fields'', ''id,receiving_credential{id},request_status,credential_type'')] None)"

definition revoke_credit_sharing :: "cloud_lib \<Rightarrow> string \<Rightarrow> string \<Rightarrow> ('w, json) cloud_handler" where
  "revoke_credit_sharing lib sid config = ensure (path_id config ''allocation_config_id'') (\<lambda>i. on_path lib sid DELETE i [] None)"

definition list_assigned_users :: "cloud_lib \<Rightarrow> string \<Rightarrow> ('w, json) cloud_handler" where
  "list_assigned_users lib sid = db_bind (load_ctx lib sid) (\<lambda>c. ensure (waba c) (\<lambda>w. ensure (business c) (\<lambda>b.
     ctx_call lib c GET (w @ ''/assigned_users'') [(''business'', b)] None)))"

definition assign_user :: "cloud_lib \<Rightarrow> string \<Rightarrow> string \<Rightarrow> string list \<Rightarrow> ('w, json) cloud_handler" where
  "assign_user lib sid user_id tasks = ensure (path_id user_id ''user_id'') (\<lambda>user.
     if tasks = [] then db_fail (BadRequest ''tasks must not be empty'')
     else ensure (field_list lib (join_with '','' tasks) ''tasks'') (\<lambda>ts.
       on_waba lib sid POST ''/assigned_users'' [(''user'', user), (''tasks'', ts)] None))"

definition list_system_users :: "cloud_lib \<Rightarrow> string \<Rightarrow> ('w, json) cloud_handler" where
  "list_system_users lib sid = on_business lib sid GET ''/system_users'' [] None"

section \<open>Flows and orders\<close>

fun dated :: "cloud_lib \<Rightarrow> (string \<times> string option) list \<Rightarrow> string \<Rightarrow> api_error + string" where
  "dated lib [] f = Inr f"
| "dated lib ((name, None) # ds) f = dated lib ds f"
| "dated lib ((name, Some d) # ds) f = (if \<not> cb_is_date lib d then Inl (BadRequest (name @ '' must be YYYY-MM-DD''))
     else dated lib ds (f @ ''.'' @ name @ ''('' @ d @ '')''))"

definition flow_metrics ::
    "cloud_lib \<Rightarrow> string \<Rightarrow> string \<Rightarrow> string \<Rightarrow> string \<Rightarrow> string option \<Rightarrow> string option \<Rightarrow> ('w, json) cloud_handler" where
  "flow_metrics lib sid flow_id metric granularity since until = ensure (path_id flow_id ''flow_id'') (\<lambda>i.
     ensure (one_of metric [''ENDPOINT_REQUEST_COUNT'', ''ENDPOINT_REQUEST_ERROR'', ''ENDPOINT_REQUEST_ERROR_RATE'',
       ''ENDPOINT_REQUEST_LATENCY_SECONDS_CEIL'', ''ENDPOINT_AVAILABILITY''] ''metric'') (\<lambda>_.
     ensure (one_of granularity [''DAY'', ''HOUR'', ''LIFETIME''] ''granularity'') (\<lambda>_.
     ensure (dated lib [(''since'', since), (''until'', until)] (''metric.name('' @ metric @ '').granularity('' @ granularity @ '')'')) (\<lambda>f.
       on_path lib sid GET i [(''fields'', f)] None))))"

definition flow_public_key :: "cloud_lib \<Rightarrow> string \<Rightarrow> ('w, json) cloud_handler" where
  "flow_public_key lib sid = on_phone lib sid GET ''/whatsapp_business_encryption'' [] None"

definition migrate_flows :: "cloud_lib \<Rightarrow> string \<Rightarrow> string \<Rightarrow> string list option \<Rightarrow> ('w, json) cloud_handler" where
  "migrate_flows lib sid source_waba_id names = ensure (path_id source_waba_id ''source_waba_id'') (\<lambda>source.
     db_bind (load_ctx lib sid) (\<lambda>c.
       let form = [(''source_waba_id'', FormText source)] @ opt_part ''source_flow_names'' (map_option (json_strings lib) names)
       in ensure (waba c) (\<lambda>i. db_map_err meta_error (graph_form lib (cx_client c) (i @ ''/migrate_flows'') form))))"

record order_details_request =
  od_to :: string
  od_region :: "string option"
  od_header :: "json option"
  od_body :: string
  od_footer :: "string option"
  od_parameters :: json

definition is_object :: "json \<Rightarrow> bool" where
  "is_object j = (case j of JObj _ \<Rightarrow> True | _ \<Rightarrow> False)"

definition text_obj :: "string \<Rightarrow> json" where
  "text_obj t = JObj [(''text'', JStr t)]"

definition order_details_payload :: "order_details_request \<Rightarrow> api_error + json" where
  "order_details_payload r =
     (let region = (case od_region r of Some g \<Rightarrow> g | None \<Rightarrow> ''IN'')
      in case one_of region [''IN'', ''SG''] ''region'' of Inl e \<Rightarrow> Inl e
       | Inr _ \<Rightarrow> if \<not> is_object (od_parameters r) then Inl (BadRequest ''parameters must be an object'')
         else (let inner = opt_field ''footer'' (map_option text_obj (od_footer r))
                     (opt_field ''header'' (od_header r) (JObj [(''body'', text_obj (od_body r))]));
                   interactive = (if region = ''SG''
                     then JObj [(''type'', JStr ''order_details''), (''order_details'', set_field ''action'' (od_parameters r) inner)]
                     else set_field ''action'' (JObj [(''name'', JStr ''review_and_pay''), (''parameters'', od_parameters r)])
                       (set_field ''type'' (JStr ''order_details'') inner))
               in Inr (envelope_to (od_to r) ''interactive'' ''interactive'' interactive)))"

record order_status_request =
  os_to :: string
  os_body :: string
  os_reference_id :: string
  os_status :: string
  os_description :: "string option"

definition order_status_payload :: "order_status_request \<Rightarrow> json" where
  "order_status_payload r = envelope_to (os_to r) ''interactive'' ''interactive'' (JObj [(''type'', JStr ''order_status''),
     (''body'', text_obj (os_body r)), (''action'', JObj [(''name'', JStr ''review_order''),
       (''parameters'', JObj [(''reference_id'', JStr (os_reference_id r)),
         (''order'', opt_field ''description'' (map_option JStr (os_description r)) (JObj [(''status'', JStr (os_status r))]))])])])"

definition send_payload :: "cloud_lib \<Rightarrow> string \<Rightarrow> json \<Rightarrow> string \<Rightarrow> ('w, message_response) cloud_handler" where
  "send_payload lib sid payload to = db_bind (on_phone lib sid POST ''/messages'' [] (Some payload))
     (\<lambda>resp w. (Inr (sent_response resp to w), w))"

definition send_order_details :: "cloud_lib \<Rightarrow> string \<Rightarrow> order_details_request \<Rightarrow> ('w, message_response) cloud_handler" where
  "send_order_details lib sid r = ensure (order_details_payload r) (\<lambda>payload. send_payload lib sid payload (od_to r))"

definition send_order_status :: "cloud_lib \<Rightarrow> string \<Rightarrow> order_status_request \<Rightarrow> ('w, message_response) cloud_handler" where
  "send_order_status lib sid r = send_payload lib sid (order_status_payload r) (os_to r)"

end
