(* ===== verification/Flow_Crypto.thy ===== *)
theory Flow_Crypto
  imports Message_Content
begin

text \<open>
  The cryptography of the Cloud API side (\<open>src/cloud/flows_crypto.rs\<close>, and the signature check of
  \<open>src/cloud/webhook.rs\<close>): the PEM and DER framing of keys, the envelope of a Flow request and its
  reply. The ciphers, base64, hexadecimal and JSON are libraries, in \<open>crypto_lib\<close>.
\<close>

record 'k crypto_lib =
  cy_mac :: "string \<Rightarrow> (bytes \<Rightarrow> bytes) option"
  cy_hex :: "string \<Rightarrow> bytes option"
  cy_b64_encode :: "bytes \<Rightarrow> string"
  cy_b64_decode :: "string \<Rightarrow> bytes option"
  cy_from_slice :: "bytes \<Rightarrow> json option"
  cy_to_vec :: "json \<Rightarrow> bytes"
  cy_rsa_load :: "bytes \<Rightarrow> 'k option"
  cy_rsa_generate :: "'k option"
  cy_rsa_der :: "'k \<Rightarrow> bytes option"
  cy_rsa_public_der :: "'k \<Rightarrow> bytes option"
  cy_rsa_bits :: "'k \<Rightarrow> nat"
  cy_oaep_key :: "'k \<Rightarrow> bool"
  cy_oaep_decrypt :: "'k \<Rightarrow> bytes \<Rightarrow> bytes option"
  cy_gcm_open :: "bytes \<Rightarrow> bytes \<Rightarrow> bytes \<Rightarrow> bytes option"
  cy_gcm_seal :: "bytes \<Rightarrow> bytes \<Rightarrow> bytes \<Rightarrow> bytes option"

section \<open>Signatures\<close>

definition verify_signature :: "'k crypto_lib \<Rightarrow> string \<Rightarrow> bytes \<Rightarrow> string option \<Rightarrow> bool" where
  "verify_signature lib app_secret raw_body header =
     (case header of None \<Rightarrow> False
      | Some h \<Rightarrow> if \<not> starts_with ''sha256='' h then False
        else (case cy_hex lib (drop (length ''sha256='') h) of None \<Rightarrow> False
          | Some expected \<Rightarrow> (case cy_mac lib app_secret of None \<Rightarrow> False | Some mac \<Rightarrow> mac raw_body = expected)))"

definition verify_challenge :: "string \<Rightarrow> string option \<Rightarrow> string option \<Rightarrow> string option \<Rightarrow> string option" where
  "verify_challenge verify_token mode token challenge =
     (if mode = Some ''subscribe'' \<and> token = Some verify_token then challenge else None)"

section \<open>DER\<close>

unbundle bit_operations_syntax

definition RSA_ALGORITHM_ID :: bytes where
  "RSA_ALGORITHM_ID = [0x30, 0x0d, 0x06, 0x09, 0x2a, 0x86, 0x48, 0x86, 0xf7, 0x0d, 0x01, 0x01, 0x01, 0x05, 0x00]"

definition to_be_bytes :: "nat \<Rightarrow> bytes" where
  "to_be_bytes n = map (\<lambda>i. of_nat (n div 256 ^ i)) (rev [0..<8])"

definition der_len :: "nat \<Rightarrow> bytes" where
  "der_len len =
     (if len < 0x80 then [of_nat len]
      else let bs = dropWhile (\<lambda>b. b = 0) (to_be_bytes len) in (0x80 OR of_nat (length bs)) # bs)"

definition der_tlv :: "8 word \<Rightarrow> bytes \<Rightarrow> bytes" where
  "der_tlv tag bs = tag # der_len (length bs) @ bs"

definition pkcs1_to_pkcs8 :: "bytes \<Rightarrow> bytes" where
  "pkcs1_to_pkcs8 pkcs1 = der_tlv 0x30 ([0x02, 0x01, 0x00] @ RSA_ALGORITHM_ID @ der_tlv 0x04 pkcs1)"

section \<open>PEM\<close>

fun after_first :: "string \<Rightarrow> string \<Rightarrow> string option" where
  "after_first pat [] = (if pat = [] then Some [] else None)"
| "after_first pat (c # cs) = (if starts_with pat (c # cs) then Some (drop (length pat) (c # cs)) else after_first pat cs)"

fun before_first :: "string \<Rightarrow> string \<Rightarrow> string option" where
  "before_first pat [] = (if pat = [] then Some [] else None)"
| "before_first pat (c # cs) = (if starts_with pat (c # cs) then Some [] else map_option ((#) c) (before_first pat cs))"

definition pem_begin :: "string \<Rightarrow> string" where
  "pem_begin label = ''-----BEGIN '' @ label @ ''-----''"

definition pem_end :: "string \<Rightarrow> string" where
  "pem_end label = ''-----END '' @ label @ ''-----''"

definition pem_body :: "'k crypto_lib \<Rightarrow> string \<Rightarrow> string \<Rightarrow> bytes option" where
  "pem_body lib pem label =
     (case after_first (pem_begin label) pem of None \<Rightarrow> None
      | Some rest \<Rightarrow> (case before_first (pem_end label) rest of None \<Rightarrow> None
        | Some body64 \<Rightarrow> cy_b64_decode lib (filter (\<lambda>c. \<not> is_ws c) body64)))"

function chunks_of :: "nat \<Rightarrow> 'a list \<Rightarrow> 'a list list" where
  "chunks_of n xs = (if n = 0 \<or> xs = [] then [] else take n xs # chunks_of n (drop n xs))"
  by auto
termination by (relation "measure (\<lambda>(n, xs). length xs)") auto

declare chunks_of.simps [simp del]

definition pem_encode :: "'k crypto_lib \<Rightarrow> string \<Rightarrow> bytes \<Rightarrow> string" where
  "pem_encode lib label der = pem_begin label @ [CHR 0x0A] @
     concat (map (\<lambda>line. line @ [CHR 0x0A]) (chunks_of 64 (cy_b64_encode lib der))) @ pem_end label @ [CHR 0x0A]"

section \<open>Keys\<close>

datatype flow_error = InvalidPrivateKey | KeyUnwrap | Malformed string | Decrypt | Encrypt

definition or_error :: "'e \<Rightarrow> 'a option \<Rightarrow> 'e + 'a" where
  "or_error e v = (case v of None \<Rightarrow> Inl e | Some a \<Rightarrow> Inr a)"

definition parse_private_key :: "'k crypto_lib \<Rightarrow> string \<Rightarrow> flow_error + 'k" where
  "parse_private_key lib pem =
     (case pem_body lib pem ''PRIVATE KEY'' of
        Some der \<Rightarrow> or_error InvalidPrivateKey (cy_rsa_load lib der)
      | None \<Rightarrow> (case pem_body lib pem ''RSA PRIVATE KEY'' of
          None \<Rightarrow> Inl InvalidPrivateKey
        | Some pkcs1 \<Rightarrow> or_error InvalidPrivateKey (cy_rsa_load lib (pkcs1_to_pkcs8 pkcs1))))"

definition generate_private_key :: "'k crypto_lib \<Rightarrow> flow_error + 'k" where
  "generate_private_key lib = or_error InvalidPrivateKey (cy_rsa_generate lib)"

definition private_key_pem :: "'k crypto_lib \<Rightarrow> 'k \<Rightarrow> flow_error + string" where
  "private_key_pem lib key = or_error InvalidPrivateKey (map_option (pem_encode lib ''PRIVATE KEY'') (cy_rsa_der lib key))"

definition public_key_pem :: "'k crypto_lib \<Rightarrow> 'k \<Rightarrow> flow_error + string" where
  "public_key_pem lib key = or_error InvalidPrivateKey (map_option (pem_encode lib ''PUBLIC KEY'') (cy_rsa_public_der lib key))"

section \<open>Requests and replies of a Flow\<close>

record decrypted_request =
  dr_body :: json
  dr_aes_key :: bytes
  dr_iv :: bytes

definition text_field :: "string \<Rightarrow> json \<Rightarrow> string option" where
  "text_field k j = Option.bind (json_get k j) json_as_str"

text \<open>The steps in the order of the code: the fields, then the key, then the vector, then the payload.\<close>

definition unwrap_key :: "'k crypto_lib \<Rightarrow> 'k \<Rightarrow> string \<Rightarrow> flow_error + bytes" where
  "unwrap_key lib key body64 =
     (case cy_b64_decode lib body64 of None \<Rightarrow> Inl (Malformed ''encrypted_aes_key is not valid base64'')
      | Some wrapped \<Rightarrow> (case cy_oaep_decrypt lib key wrapped of None \<Rightarrow> Inl KeyUnwrap
        | Some aes \<Rightarrow> if length aes = 16 then Inr aes else Inl KeyUnwrap))"

definition read_iv :: "'k crypto_lib \<Rightarrow> string \<Rightarrow> flow_error + bytes" where
  "read_iv lib body64 =
     (case cy_b64_decode lib body64 of None \<Rightarrow> Inl (Malformed ''initial_vector is not valid base64'')
      | Some iv \<Rightarrow> if length iv = 16 then Inr iv else Inl (Malformed ''initial_vector is not 16 bytes''))"

definition open_payload :: "'k crypto_lib \<Rightarrow> bytes \<Rightarrow> bytes \<Rightarrow> string \<Rightarrow> flow_error + json" where
  "open_payload lib aes iv body64 =
     (case cy_b64_decode lib body64 of None \<Rightarrow> Inl (Malformed ''encrypted_flow_data is not valid base64'')
      | Some ciphertext \<Rightarrow> (case cy_gcm_open lib aes iv ciphertext of None \<Rightarrow> Inl Decrypt
        | Some plaintext \<Rightarrow> or_error Decrypt (cy_from_slice lib plaintext)))"

definition decrypt_request :: "'k crypto_lib \<Rightarrow> string \<Rightarrow> json \<Rightarrow> flow_error + decrypted_request" where
  "decrypt_request lib pem request =
     (case parse_private_key lib pem of Inl e \<Rightarrow> Inl e
      | Inr key \<Rightarrow> if \<not> cy_oaep_key lib key then Inl InvalidPrivateKey
        else (case text_field ''encrypted_aes_key'' request of None \<Rightarrow> Inl (Malformed ''missing encrypted_aes_key'')
         | Some wrapped \<Rightarrow> (case text_field ''encrypted_flow_data'' request of None \<Rightarrow> Inl (Malformed ''missing encrypted_flow_data'')
         | Some data \<Rightarrow> (case text_field ''initial_vector'' request of None \<Rightarrow> Inl (Malformed ''missing initial_vector'')
         | Some vector \<Rightarrow> (case unwrap_key lib key wrapped of Inl e \<Rightarrow> Inl e
         | Inr aes \<Rightarrow> (case read_iv lib vector of Inl e \<Rightarrow> Inl e
         | Inr iv \<Rightarrow> (case open_payload lib aes iv data of Inl e \<Rightarrow> Inl e
         | Inr body \<Rightarrow> Inr \<lparr> dr_body = body, dr_aes_key = aes, dr_iv = iv \<rparr>)))))))"

definition flipped :: "bytes \<Rightarrow> bytes" where
  "flipped iv = map (\<lambda>b. NOT b) iv"

definition encrypt_response :: "'k crypto_lib \<Rightarrow> decrypted_request \<Rightarrow> json \<Rightarrow> flow_error + string" where
  "encrypt_response lib d response =
     or_error Encrypt (map_option (cy_b64_encode lib)
       (cy_gcm_seal lib (dr_aes_key d) (flipped (dr_iv d)) (cy_to_vec lib response)))"

definition ping_response :: json where
  "ping_response = JObj [(''data'', JObj [(''status'', JStr ''active'')])]"

definition is_ping :: "json \<Rightarrow> bool" where
  "is_ping body \<longleftrightarrow> text_field ''action'' body = Some ''ping''"

end
