(* ===== verification/New_Chats.thy ===== *)
theory New_Chats
  imports New_Chat_Db
begin

text \<open>
  Counting and limiting new chats (\<open>src/api/shared/new_chats/handlers.rs\<close>), with the two
  places that take a failed send back: the HTTP layer and the NATS consumer
  (\<open>src/nats/consumer.rs\<close>). Where the code can panic the result is an option and \<open>None\<close> is the
  panic. \<open>admit\<close> is one step: the lock of the session is held from the look-up to the record.
\<close>

definition HOUR :: int where "HOUR = 3600"

definition MAX_WINDOW_HOURS :: int where "MAX_WINDOW_HOURS = 24 * 30"

text \<open>A computation followed by one that may panic.\<close>

definition db_then ::
    "('w \<Rightarrow> ('e + 'a) \<times> 'w) \<Rightarrow> ('a \<Rightarrow> 'w \<Rightarrow> (('e + 'b) \<times> 'w) option) \<Rightarrow> 'w \<Rightarrow> (('e + 'b) \<times> 'w) option" where
  "db_then m k w = (case m w of (Inl e, w') \<Rightarrow> Some (Inl e, w') | (Inr a, w') \<Rightarrow> k a w')"

section \<open>The figures\<close>

record new_chat_counts =
  last_3h :: int
  last_6h :: int
  last_12h :: int
  last_24h :: int

definition count_since :: "int list \<Rightarrow> int \<Rightarrow> int \<Rightarrow> int" where
  "count_since started now hours = int (length (filter (\<lambda>t. now - hours * HOUR < t) started))"

definition count_new_chats :: "int list \<Rightarrow> int \<Rightarrow> new_chat_counts" where
  "count_new_chats started now = \<lparr> last_3h = count_since started now 3, last_6h = count_since started now 6,
     last_12h = count_since started now 12, last_24h = count_since started now 24 \<rparr>"

definition retry_after :: "int list \<Rightarrow> int \<Rightarrow> int \<Rightarrow> int \<Rightarrow> int option option" where
  "retry_after started now max_new_chats window_hours =
     (let window = window_hours * HOUR;
          in_window = filter (\<lambda>t. now - window < t) started
      in if int (length in_window) < max_new_chats then Some None
         else let k = nat (max 1 max_new_chats) in
           if length in_window < k then None
           else Some (Some (max 1 (in_window ! (length in_window - k) + window - now))))"

definition remaining :: "int list \<Rightarrow> int \<Rightarrow> int \<Rightarrow> int \<Rightarrow> int" where
  "remaining started now max_new_chats window_hours =
     max 0 (max_new_chats - count_since started now window_hours)"

definition is_direct_chat :: "string \<Rightarrow> bool" where
  "is_direct_chat jid \<longleftrightarrow> ends_with ''@s.whatsapp.net'' jid \<or> ends_with ''@lid'' jid"

section \<open>Admission\<close>

definition history_jids :: "jid_lib \<Rightarrow> string \<Rightarrow> string \<Rightarrow> string list" where
  "history_jids jl to requested =
     to # (case parse_jid jl requested of Inr r \<Rightarrow> if r \<noteq> to then [r] else [] | Inl _ \<Rightarrow> [])"

text \<open>The limit that refuses a new chat now, if one does; a failed look-up refuses nothing.\<close>

definition limit_hit ::
    "string \<Rightarrow> 'w new_chat_db_scheme \<Rightarrow> ((int \<times> int \<times> int) option \<times> 'w new_chat_db_scheme) option" where
  "limit_hit sid w =
     (case get_limit sid w of
        (Inr (Some (max_new_chats, window_hours)), w1) \<Rightarrow>
          (case started_since sid (db_now w - window_hours * HOUR) w1 of
             (Inr started, w2) \<Rightarrow>
               map_option (\<lambda>r. (map_option (\<lambda>wait. (max_new_chats, window_hours, wait)) r, w2))
                 (retry_after started (db_now w) max_new_chats window_hours)
           | (Inl _, w2) \<Rightarrow> Some (None, w2))
      | (_, w1) \<Rightarrow> Some (None, w1))"

definition note_recorded :: "string \<Rightarrow> string \<Rightarrow> 'w new_chat_db_scheme \<Rightarrow> 'w new_chat_db_scheme" where
  "note_recorded sid jid w = w\<lparr>nc_recorded := map_option (\<lambda>r. r @ [(sid, jid)]) (nc_recorded w)\<rparr>"

definition admit ::
    "jid_lib \<Rightarrow> string \<Rightarrow> string \<Rightarrow> string \<Rightarrow> 'w new_chat_db_scheme
     \<Rightarrow> ((api_error + unit) \<times> 'w new_chat_db_scheme) option" where
  "admit jl sid to requested w =
     (if \<not> is_direct_chat to then Some (Inr (), w)
      else case chat_known sid (history_jids jl to requested) w of
        (Inr False, w1) \<Rightarrow>
          (case limit_hit sid w1 of
             None \<Rightarrow> None
           | Some (Some (max_new_chats, window_hours, wait), w2) \<Rightarrow> Some (Inl (NewChatLimit max_new_chats window_hours wait), w2)
           | Some (None, w2) \<Rightarrow>
               (case record_chat sid to (db_now w1) w2 of
                  (Inr _, w3) \<Rightarrow> Some (Inr (), note_recorded sid to w3)
                | (Inl _, w3) \<Rightarrow> Some (Inr (), w3)))
      | (_, w1) \<Rightarrow> Some (Inr (), w1))"

section \<open>Taking back\<close>

definition nc_scope ::
    "('w new_chat_db_scheme \<Rightarrow> 'a \<times> 'w new_chat_db_scheme) \<Rightarrow> 'w new_chat_db_scheme
     \<Rightarrow> ('a \<times> (string \<times> string) list) \<times> 'w new_chat_db_scheme" where
  "nc_scope send w =
     (let (out, w1) = send (w\<lparr>nc_recorded := Some []\<rparr>)
      in ((out, case nc_recorded w1 of None \<Rightarrow> [] | Some r \<Rightarrow> r), w1\<lparr>nc_recorded := nc_recorded w\<rparr>))"

fun forget_all :: "(string \<times> string) list \<Rightarrow> 'w new_chat_db_scheme \<Rightarrow> 'w new_chat_db_scheme" where
  "forget_all [] w = w"
| "forget_all ((sid, jid) # rs) w = forget_all rs (db_ignore (forget_chat sid jid) w)"

definition is_success :: "nat \<Rightarrow> bool" where
  "is_success code \<longleftrightarrow> 200 \<le> code \<and> code < 300"

definition rollback_failed_sends ::
    "('w new_chat_db_scheme \<Rightarrow> (nat \<times> 'r) \<times> 'w new_chat_db_scheme) \<Rightarrow> 'w new_chat_db_scheme
     \<Rightarrow> (nat \<times> 'r) \<times> 'w new_chat_db_scheme" where
  "rollback_failed_sends next_run w =
     (let ((response, recorded), w1) = nc_scope next_run w
      in (response, if recorded \<noteq> [] \<and> \<not> is_success (fst response) then forget_all recorded w1 else w1))"

record send_result =
  sr_request_id :: "string option"
  sr_success :: bool
  sr_message_id :: "string option"
  sr_error :: "string option"
  sr_timestamp :: unix

definition extract_session_id :: "string \<Rightarrow> string" where
  "extract_session_id subject =
     (if starts_with ''wa.send.'' subject then drop (length ''wa.send.'') subject else ''unknown'')"

definition process_outbound_command ::
    "('p \<Rightarrow> string + 'c) \<Rightarrow> ('c \<Rightarrow> string option) \<Rightarrow> bool
     \<Rightarrow> ('c \<Rightarrow> 'w new_chat_db_scheme \<Rightarrow> (string + string) \<times> 'w new_chat_db_scheme) \<Rightarrow> 'p
     \<Rightarrow> 'w new_chat_db_scheme \<Rightarrow> (string + send_result) \<times> 'w new_chat_db_scheme" where
  "process_outbound_command from_slice request_id live dispatch_command payload w =
     (case from_slice payload of
        Inl e \<Rightarrow> (Inl (''Invalid command: '' @ e), w)
      | Inr command \<Rightarrow>
          if \<not> live then (Inl (''Session error: '' @ error_message NotConnected), w)
          else
            let ((result, pending), w1) = nc_scope (dispatch_command command) w;
                w2 = (case result of Inl _ \<Rightarrow> forget_all pending w1 | Inr _ \<Rightarrow> w1)
            in (case result of
                  Inr message_id \<Rightarrow> (Inr \<lparr> sr_request_id = request_id command, sr_success = True,
                     sr_message_id = Some message_id, sr_error = None, sr_timestamp = db_now w2 \<rparr>, w2)
                | Inl e \<Rightarrow>
                    if starts_with ''New-chat limit reached'' e
                    then (Inr \<lparr> sr_request_id = request_id command, sr_success = False,
                       sr_message_id = None, sr_error = Some e, sr_timestamp = db_now w2 \<rparr>, w2)
                    else (Inl e, w2)))"

section \<open>Reading the figures\<close>

definition counts :: "string \<Rightarrow> 'w new_chat_db_scheme \<Rightarrow> new_chat_counts \<times> 'w new_chat_db_scheme" where
  "counts sid w =
     (case started_since sid (db_now w - 24 * HOUR) w of
        (Inr started, w1) \<Rightarrow> (count_new_chats started (db_now w), w1)
      | (Inl _, w1) \<Rightarrow> (\<lparr> last_3h = 0, last_6h = 0, last_12h = 0, last_24h = 0 \<rparr>, w1))"

definition snapshot_on_logout ::
    "string \<Rightarrow> string \<Rightarrow> 'w new_chat_db_scheme \<Rightarrow> new_chat_counts \<times> 'w new_chat_db_scheme" where
  "snapshot_on_logout sid reason w =
     (let (figures, w1) = counts sid w;
          i = \<lparr> in_occurred_at = db_now w1, in_reason = reason, in_last_3h = last_3h figures,
                in_last_6h = last_6h figures, in_last_12h = last_12h figures, in_last_24h = last_24h figures \<rparr>
      in (figures, db_ignore (record_incident sid i) w1))"

record new_chat_limit =
  lm_max_new_chats :: int
  lm_window_hours :: int

definition default_window_hours :: int where "default_window_hours = 24"

record new_chat_incident =
  ni_occurred_at :: int
  ni_reason :: string
  ni_new_chats :: new_chat_counts

record limit_response =
  lr_limit :: "new_chat_limit option"
  lr_new_chats :: new_chat_counts
  lr_remaining :: "int option"
  lr_retry_after_seconds :: "int option"
  lr_incidents :: "new_chat_incident list"

type_synonym ('w, 'a) nc_handler = "'w new_chat_db_scheme \<Rightarrow> (api_error + 'a) \<times> 'w new_chat_db_scheme"
type_synonym ('w, 'a) nc_panicky = "'w new_chat_db_scheme \<Rightarrow> ((api_error + 'a) \<times> 'w new_chat_db_scheme) option"

definition require_session_nc :: "string \<Rightarrow> ('w, unit) nc_handler" where
  "require_session_nc sid = db_bind (db_map_err Internal (get_session sid)) (\<lambda>s.
     case s of None \<Rightarrow> db_fail (SessionNotFound sid) | Some _ \<Rightarrow> db_return ())"

definition incident_view :: "incident \<Rightarrow> new_chat_incident" where
  "incident_view i = \<lparr> ni_occurred_at = in_occurred_at i, ni_reason = in_reason i,
     ni_new_chats = \<lparr> last_3h = in_last_3h i, last_6h = in_last_6h i, last_12h = in_last_12h i, last_24h = in_last_24h i \<rparr> \<rparr>"

definition widest_window :: "(int \<times> int) option \<Rightarrow> int" where
  "widest_window limit = max 24 (case limit of None \<Rightarrow> 24 | Some (_, wh) \<Rightarrow> wh)"

definition describe :: "string \<Rightarrow> ('w, limit_response) nc_panicky" where
  "describe sid w =
     (let now = db_now w in
      db_then (db_map_err Internal (get_limit sid)) (\<lambda>limit.
        db_then (db_map_err Internal (started_since sid (now - widest_window limit * HOUR))) (\<lambda>started.
          db_then (db_map_err Internal (incidents sid)) (\<lambda>found w'.
            map_option (\<lambda>retry. (Inr
                \<lparr> lr_limit = map_option (\<lambda>(mx, wh). \<lparr> lm_max_new_chats = mx, lm_window_hours = wh \<rparr>) limit,
                  lr_new_chats = count_new_chats started now,
                  lr_remaining = map_option (\<lambda>(mx, wh). remaining started now mx wh) limit,
                  lr_retry_after_seconds = retry,
                  lr_incidents = map incident_view found \<rparr>, w'))
              (case limit of None \<Rightarrow> Some None | Some (mx, wh) \<Rightarrow> retry_after started now mx wh)))) w)"

definition get_new_chat_limit :: "string \<Rightarrow> ('w, limit_response) nc_panicky" where
  "get_new_chat_limit sid = db_then (require_session_nc sid) (\<lambda>_. describe sid)"

definition set_new_chat_limit :: "string \<Rightarrow> new_chat_limit \<Rightarrow> ('w, limit_response) nc_panicky" where
  "set_new_chat_limit sid request =
     db_then (require_session_nc sid) (\<lambda>_.
       if lm_max_new_chats request < 1
       then (\<lambda>w. Some (Inl (BadRequest ''max_new_chats must be at least 1; DELETE this resource to remove the limit''), w))
       else if \<not> (1 \<le> lm_window_hours request \<and> lm_window_hours request \<le> MAX_WINDOW_HOURS)
       then (\<lambda>w. Some (Inl (BadRequest (''window_hours must be between 1 and '' @ show_int MAX_WINDOW_HOURS)), w))
       else db_then (db_map_err Internal (set_limit sid (Some (lm_max_new_chats request, lm_window_hours request))))
              (\<lambda>_. describe sid))"

definition clear_new_chat_limit :: "string \<Rightarrow> ('w, limit_response) nc_panicky" where
  "clear_new_chat_limit sid =
     db_then (require_session_nc sid) (\<lambda>_. db_then (db_map_err Internal (set_limit sid None)) (\<lambda>_. describe sid))"

text \<open>
  The deliverable address of a recipient: the server part of a JID and the contact directory
  are the WhatsApp library's.
\<close>

definition resolve_recipient_jid :: "(string \<Rightarrow> string) \<Rightarrow> (string \<Rightarrow> string option option) \<Rightarrow> string \<Rightarrow> string" where
  "resolve_recipient_jid server user_info jid =
     (if server jid \<noteq> ''s.whatsapp.net'' then jid
      else case user_info jid of Some (Some lid) \<Rightarrow> lid | _ \<Rightarrow> jid)"

record chat_exists_response =
  ce_jid :: string
  ce_exists :: bool
  ce_counts_as_new_chat :: bool

text \<open>\<open>resolve\<close> is the live client's, \<open>None\<close> when the session has none.\<close>

definition chat_exists :: "jid_lib \<Rightarrow> (string \<Rightarrow> string) option \<Rightarrow> string \<Rightarrow> string \<Rightarrow> ('w, chat_exists_response) nc_handler" where
  "chat_exists jl resolve sid requested =
     db_bind (require_session_nc sid) (\<lambda>_.
       case parse_jid jl requested of
         Inl e \<Rightarrow> db_fail e
       | Inr parsed \<Rightarrow>
           let resolved = (case resolve of Some f \<Rightarrow> f parsed | None \<Rightarrow> parsed);
               jids = resolved # (if parsed \<noteq> resolved then [parsed] else [])
           in db_bind (db_map_err Internal (chat_known sid jids)) (\<lambda>present.
                db_return \<lparr> ce_jid = resolved, ce_exists = present,
                  ce_counts_as_new_chat = (\<not> present \<and> is_direct_chat resolved) \<rparr>))"

end
