(* ===== verification/Wa_Proto.thy ===== *)
theory Wa_Proto
  imports Message_Content
begin

text \<open>
  Messages of the protocol library as the gateway builds them: the tree of the fields that are set.
\<close>

datatype pval =
    PStr string
  | PBytes bytes
  | PInt int
  | PBool bool
  | PReal f64
  | PEnum string
  | PMsg "(string \<times> pval) list"
  | PList "pval list"

text \<open>A field of a literal that is set only when there is a value.\<close>

definition opt_p :: "string \<Rightarrow> ('a \<Rightarrow> pval) \<Rightarrow> 'a option \<Rightarrow> (string \<times> pval) list" where
  "opt_p name f v = (case v of None \<Rightarrow> [] | Some a \<Rightarrow> [(name, f a)])"

fun pfield :: "string \<Rightarrow> pval \<Rightarrow> pval option" where
  "pfield k (PMsg fs) = map_of fs k"
| "pfield k _ = None"

abbreviation newline :: string where "newline \<equiv> [CHR 0x0A]"

end
