(* ===== verification/Fake_Reply.thy ===== *)
theory Fake_Reply
  imports Wa_Proto
begin

text \<open>
  Made-up quotes (\<open>src/api/web/fake_reply/handlers.rs\<close>): a message that looks like a reply to one that
  was never sent. The random numbers are arguments: what is drawn at a place of the code, and the
  coordinates after the jitter.
\<close>

section \<open>The pools\<close>

definition PRODUCT_NAMES :: "string list" where
  "PRODUCT_NAMES = [
     ''Sepatu Nike Air Max 270'', ''Kaos Polos Cotton Combed 30s'', ''Celana Jeans Slim Fit Pria'',
     ''Tas Ransel Laptop Anti Air'', ''Jam Tangan Casio G-Shock'', ''Kemeja Flannel Kotak-Kotak'',
     ''Sneakers Adidas Ultraboost'', ''Hoodie Oversize Unisex'', ''Dompet Kulit Asli Pria'',
     ''Kacamata Hitam Polarized UV400'', ''Topi Baseball NY Cap Original'', ''Parfum EDT 100ml Pria'',
     ''Jaket Bomber Premium'', ''Dress Wanita Casual Korean'', ''Skincare Paket Lengkap BPOM'', ''Serum Vitamin C 20%'',
     ''Lipstik Matte Waterproof'', ''Sunscreen SPF 50+ PA++++'', ''iPhone 15 Pro Max 256GB'', ''Samsung Galaxy S24 Ultra'',
     ''Airpods Pro 2nd Gen'', ''Mouse Gaming Logitech G502'', ''Headset Bluetooth ANC'', ''Charger Fast Charging 65W'',
     ''Powerbank 20000mAh PD'', ''Minyak Goreng 2 Liter'', ''Beras Premium 5kg'', ''Kopi Arabica Gayo 250gr'',
     ''Madu Asli Hutan 500ml'']"

definition PRODUCT_DESCRIPTIONS :: "string list" where
  "PRODUCT_DESCRIPTIONS = [
     ''Ready stock, bisa COD'', ''Termurah se-marketplace!'', ''Best seller bulan ini'',
     ''Kualitas premium, harga terjangkau'', ''Garansi 1 tahun resmi'', ''Free ongkir seluruh Indonesia'',
     ''Original 100% money back guarantee'', ''Promo terbatas hari ini'', ''Stok terbatas, order sekarang'',
     ''Rating 4.9 / 5.0'', ''Sudah terjual 10rb+'', ''Flash sale tinggal 50 pcs'']"

definition STORE_NAMES :: "string list" where
  "STORE_NAMES = [
     ''TokoMaju_Official'', ''BerkahShop88'', ''SinarJaya_Store'', ''MegaMart_ID'', ''PrimaOlshop'', ''GadgetPlaza_ID'',
     ''FashionHub.co'', ''BeautyQueen_Official'', ''SportZone_ID'', ''TechWorld_Store'']"

text \<open>The coordinates are the bits of the double-precision numbers.\<close>

definition LOCATIONS :: "(string \<times> f64 \<times> f64) list" where
  "LOCATIONS = [
     (''Grand Indonesia Shopping Town'', 0xC018C7E28240B780, 0x405AB495182A9931),
     (''Mal Kelapa Gading'', 0xC018A1B089A02752, 0x405ABA1FF2E48E8A),
     (''Pondok Indah Mall'', 0xC0190EF34D6A161E, 0x405AB22EB1C432CA),
     (''Trans Studio Mall Bandung'', 0xC01BB487FCB923A3, 0x405AE89BA5E353F8),
     (''Pakuwon Mall Surabaya'', 0xC01D292A30553261, 0x405C2B487FCB923A),
     (''Paragon City Mall Semarang'', 0xC01BF7318FC50481, 0x405B9AE978D4FDF4),
     (''Hartono Mall Yogyakarta'', 0xC01EFC84B5DCC63F, 0x405B9973EAB367A1),
     (''Bali Galeria Mall Kuta'', 0xC02172617C1BDA51, 0x405CCBF62B6AE7D5),
     (''Summarecon Mall Bekasi'', 0xC018E71DE69AD42C, 0x405AC001A36E2EB2),
     (''Aeon Mall BSD City'', 0xC019380346DC5D64, 0x405AA938EF34D6A1),
     (''Tunjungan Plaza Surabaya'', 0xC01D0C154C985F07, 0x405C2F39C0EBEDFA),
     (''Sun Plaza Medan'', 0x400C96F0068DB8BB, 0x4058AC0000000000)]"

definition CONTACT_NAMES :: "string list" where
  "CONTACT_NAMES = [
     ''Budi Santoso'', ''Dewi Lestari'', ''Ahmad Rizky'', ''Siti Nurhaliza'', ''Andi Pratama'', ''Rina Wati'',
     ''Dimas Arya'', ''Putri Ayu'', ''Hendra Wijaya'', ''Maya Sari'']"

definition CONTACT_PHONES :: "string list" where
  "CONTACT_PHONES = [
     ''628131234567'', ''628521234567'', ''628561234567'', ''628131111222'', ''628529998877'', ''628136665544'',
     ''628527773322'', ''628561112233'']"

definition DOCUMENT_NAMES :: "string list" where
  "DOCUMENT_NAMES = [
     ''Invoice_2024_00123.pdf'', ''Laporan_Keuangan_Q4.pdf'', ''Proposal_Bisnis_2024.pdf'', ''Katalog_Produk_Terbaru.pdf'',
     ''Daftar_Harga_Grosir.pdf'', ''Bukti_Transfer_BCA.pdf'', ''Sertifikat_BPOM.pdf'', ''Data_Pelanggan_2024.xlsx'',
     ''Rekap_Penjualan.xlsx'', ''E-Ticket_Pesawat.pdf'']"

definition VIDEO_CAPTIONS :: "string list" where
  "VIDEO_CAPTIONS = [
     ''Review produk lengkap'', ''Tutorial cara pakai'', ''Unboxing barang baru datang'', ''Testimoni customer puas'',
     ''Live demo produk asli'', ''Before & After pemakaian'', ''Bukti resi pengiriman hari ini'']"

definition TEXT_MESSAGES :: "string list" where
  "TEXT_MESSAGES = [
     ''Kak, barangnya ready ga?'', ''Min, bisa nego ga harganya?'', ''Kapan restock lagi?'', ''Bisa kirim hari ini?'',
     ''Ongkirnya berapa ke Jakarta?'', ''Ada diskon buat beli banyak?'', ''Bisa COD ga min?'', ''Mau order 5 pcs bisa?'',
     ''Sudah pernah pakai, recommended!'', ''Terima kasih kak barang sudah sampai'', ''Mantap kak, barangnya sesuai foto'']"

definition IDR_PRICES_1000 :: "int list" where
  "IDR_PRICES_1000 = [15000000, 25000000, 35000000, 49000000, 75000000, 99000000, 150000000, 199000000, 250000000, 350000000, 500000000, 750000000, 999000000]"

section \<open>Draws\<close>

record draws =
  dw_number :: "string \<Rightarrow> nat"
  dw_digit :: "string \<Rightarrow> nat \<Rightarrow> nat"
  dw_jitter :: "string \<Rightarrow> f64 \<Rightarrow> f64"

text \<open>A number of the half-open range from \<open>lo\<close> to \<open>hi\<close>.\<close>

definition gen_range :: "draws \<Rightarrow> string \<Rightarrow> nat \<Rightarrow> nat \<Rightarrow> nat" where
  "gen_range dw site lo hi = lo + dw_number dw site mod (hi - lo)"

definition pick :: "draws \<Rightarrow> string \<Rightarrow> 'a list \<Rightarrow> 'a" where
  "pick dw site arr = arr ! gen_range dw site 0 (length arr)"

definition rand_digits :: "draws \<Rightarrow> string \<Rightarrow> nat \<Rightarrow> string" where
  "rand_digits dw site len = concat (map (\<lambda>i. show_nat (dw_digit dw site i mod 10)) [0..<len])"

definition random_jid :: "draws \<Rightarrow> string \<Rightarrow> string" where
  "random_jid dw site = pick dw (site @ ''.prefix'') [''6281'', ''6282'', ''6285'', ''6287'', ''6288'', ''6289''] @
     rand_digits dw site (8 + gen_range dw (site @ ''.length'') 0 3) @ ''@s.whatsapp.net''"

definition random_stanza_id :: "draws \<Rightarrow> string" where
  "random_stanza_id dw = ''FR'' @ map (\<lambda>i. ''ABCDEF0123456789'' ! (dw_digit dw ''stanza'' i mod 16)) [0..<16]"

section \<open>The quote\<close>

record fake_reply =
  fr_type :: string
  fr_title :: "string option"
  fr_body :: "string option"
  fr_participant :: "string option"
  fr_stanza_id :: "string option"

definition or_drawn :: "string option \<Rightarrow> string \<Rightarrow> string" where
  "or_drawn v d = (case v of Some s \<Rightarrow> s | None \<Rightarrow> d)"

definition fake_text :: "draws \<Rightarrow> string option \<Rightarrow> string option \<Rightarrow> pval" where
  "fake_text dw title body = PMsg [(''conversation'', PStr (or_drawn (or_else body title) (pick dw ''text'' TEXT_MESSAGES)))]"

definition fake_product :: "draws \<Rightarrow> string option \<Rightarrow> string option \<Rightarrow> pval" where
  "fake_product dw title body = PMsg [(''product_message'', PMsg [
     (''product'', PMsg [(''product_id'', PStr (''PROD_'' @ rand_digits dw ''product'' 8)),
        (''title'', PStr (or_drawn title (pick dw ''product'' PRODUCT_NAMES))),
        (''description'', PStr (or_drawn body (pick dw ''description'' PRODUCT_DESCRIPTIONS))),
        (''currency_code'', PStr ''IDR''),
        (''price_amount1000'', PInt (pick dw ''price'' IDR_PRICES_1000)),
        (''retailer_id'', PStr (pick dw ''store'' STORE_NAMES)),
        (''product_image_count'', PInt (int (gen_range dw ''images'' 1 6)))]),
     (''business_owner_jid'', PStr (random_jid dw ''business''))])]"

definition fake_order :: "draws \<Rightarrow> string option \<Rightarrow> string option \<Rightarrow> pval" where
  "fake_order dw title body = PMsg [(''order_message'', PMsg [(''order_id'', PStr (''ORD_'' @ rand_digits dw ''order'' 10)),
     (''item_count'', PInt (int (gen_range dw ''items'' 1 9))), (''status'', PEnum ''INQUIRY''), (''surface'', PEnum ''CATALOG''),
     (''message'', PStr (or_drawn body (''Pesanan '' @ pick dw ''ordered'' PRODUCT_NAMES @ '' x'' @ show_nat (gen_range dw ''pieces'' 1 6)))),
     (''order_title'', PStr (or_drawn title (pick dw ''title'' PRODUCT_NAMES))),
     (''seller_jid'', PStr (random_jid dw ''seller''))])]"

definition fake_location :: "draws \<Rightarrow> string option \<Rightarrow> string option \<Rightarrow> pval" where
  "fake_location dw title body = (case pick dw ''location'' LOCATIONS of (loc_name, lat, lng) \<Rightarrow>
     PMsg [(''location_message'', PMsg ([(''degrees_latitude'', PReal (dw_jitter dw ''latitude'' lat)),
        (''degrees_longitude'', PReal (dw_jitter dw ''longitude'' lng)), (''name'', PStr (or_drawn title loc_name))] @
        opt_p ''address'' PStr body))])"

definition fake_video :: "draws \<Rightarrow> string option \<Rightarrow> string option \<Rightarrow> pval" where
  "fake_video dw title body = PMsg [(''video_message'', PMsg [(''seconds'', PInt (int (gen_range dw ''seconds'' 5 181))),
     (''caption'', PStr (or_drawn (or_else body title) (pick dw ''video'' VIDEO_CAPTIONS))), (''mimetype'', PStr ''video/mp4'')])]"

definition fake_document :: "draws \<Rightarrow> string option \<Rightarrow> string option \<Rightarrow> pval" where
  "fake_document dw title body = (let filename = or_drawn title (pick dw ''document'' DOCUMENT_NAMES) in
     PMsg [(''document_message'', PMsg ([(''title'', PStr filename), (''file_name'', PStr filename),
        (''mimetype'', PStr ''application/pdf'')] @ opt_p ''caption'' PStr body))])"

definition fake_contact :: "draws \<Rightarrow> string option \<Rightarrow> pval" where
  "fake_contact dw title = (let name = or_drawn title (pick dw ''contact'' CONTACT_NAMES) in
     PMsg [(''contact_message'', PMsg [(''display_name'', PStr name),
        (''vcard'', PStr (''BEGIN:VCARD'' @ newline @ ''VERSION:3.0'' @ newline @ ''FN:'' @ name @ newline @ ''TEL;type=CELL:+'' @
           pick dw ''phone'' CONTACT_PHONES @ newline @ ''END:VCARD''))])])"

definition build_quoted_message :: "draws \<Rightarrow> string \<Rightarrow> string option \<Rightarrow> string option \<Rightarrow> pval option" where
  "build_quoted_message dw reply_type title body =
     (let t = to_ascii_lowercase reply_type in
      if t = ''text'' \<or> t = ''conversation'' then Some (fake_text dw title body)
      else if t = ''product'' then Some (fake_product dw title body)
      else if t = ''order'' then Some (fake_order dw title body)
      else if t = ''location'' then Some (fake_location dw title body)
      else if t = ''video'' then Some (fake_video dw title body)
      else if t = ''document'' then Some (fake_document dw title body)
      else if t = ''contact'' then Some (fake_contact dw title)
      else None)"

definition build_fake_reply_context_info :: "draws \<Rightarrow> fake_reply \<Rightarrow> pval option" where
  "build_fake_reply_context_info dw cfg =
     map_option (\<lambda>quoted. PMsg [(''stanza_id'', PStr (or_drawn (fr_stanza_id cfg) (random_stanza_id dw))),
         (''participant'', PStr (or_drawn (fr_participant cfg) (random_jid dw ''participant''))), (''quoted_message'', quoted)])
       (build_quoted_message dw (fr_type cfg) (fr_title cfg) (fr_body cfg))"

section \<open>What is drawn\<close>

lemma gen_range_bounds: "lo < hi \<Longrightarrow> lo \<le> gen_range dw site lo hi \<and> gen_range dw site lo hi < hi"
  by (simp add: gen_range_def) (metis add.commute less_diff_conv mod_less_divisor zero_less_diff)

lemma pick_in: "arr \<noteq> [] \<Longrightarrow> pick dw site arr \<in> set arr"
  using gen_range_bounds [of 0 "length arr" dw site] by (simp add: pick_def)

text \<open>Only the type decides whether there is a quote.\<close>

lemma fake_reply_none_iff:
  "build_fake_reply_context_info dw cfg = None \<longleftrightarrow>
     to_ascii_lowercase (fr_type cfg) \<notin> {''text'', ''conversation'', ''product'', ''order'', ''location'', ''video'', ''document'', ''contact''}"
  by (simp add: build_fake_reply_context_info_def build_quoted_message_def Let_def)

end
