(* ===== verification/Link_Preview.thy ===== *)
theory Link_Preview
  imports Wa_Proto Net_Guard Gateway_Config
begin

text \<open>
  Reading a page for a link preview (\<open>src/link_preview.rs\<close>): the URL in a text, the scanner of the
  page's meta tags, and the bounds on what is read. Text is ASCII; a character beyond it that an
  entity names is its UTF-8 bytes. The fetches are in \<open>Send_Preview\<close>.
\<close>

section \<open>Bounds\<close>

definition DEFAULT_PAGE_BUDGET_MS :: nat where "DEFAULT_PAGE_BUDGET_MS = 5000"
definition MIN_PAGE_BUDGET_MS :: nat where "MIN_PAGE_BUDGET_MS = 1000"
definition MAX_PAGE_BUDGET_MS :: nat where "MAX_PAGE_BUDGET_MS = 30000"
definition MAX_HTML_BYTES :: nat where "MAX_HTML_BYTES = 512 * 1024"
definition MAX_IMAGE_BYTES :: nat where "MAX_IMAGE_BYTES = 3 * 1024 * 1024"
definition CACHE_TTL :: instant where "CACHE_TTL = secs (10 * 60)"
definition CACHE_CAPACITY :: nat where "CACHE_CAPACITY = 256"

definition parse_page_budget :: "string option \<Rightarrow> string + nat" where
  "parse_page_budget raw = (case raw of
       None \<Rightarrow> Inr DEFAULT_PAGE_BUDGET_MS
     | Some r \<Rightarrow> let t = trim_str r in
         if t = [] then Inr DEFAULT_PAGE_BUDGET_MS
         else (case parse_unsigned 64 t of
             Some ms \<Rightarrow> if MIN_PAGE_BUDGET_MS \<le> ms \<and> ms \<le> MAX_PAGE_BUDGET_MS then Inr ms else Inl t
           | None \<Rightarrow> Inl t))"

definition page_budget :: "(string \<Rightarrow> string option) \<Rightarrow> nat" where
  "page_budget env = (case parse_page_budget (env ''LINK_PREVIEW_PAGE_TIMEOUT_MS'') of
       Inr ms \<Rightarrow> ms | Inl bad \<Rightarrow> DEFAULT_PAGE_BUDGET_MS)"

record link_preview =
  lk_matched_text :: string
  lk_title :: "string option"
  lk_description :: "string option"
  lk_jpeg_thumbnail :: "bytes option"
  lk_thumbnail_width :: "nat option"
  lk_thumbnail_height :: "nat option"

text \<open>The fields are new ones of the message: it is built with its text and context only.\<close>

definition apply_preview :: "(string \<times> pval) list \<Rightarrow> link_preview \<Rightarrow> (string \<times> pval) list" where
  "apply_preview message p = message @ [(''matched_text'', PStr (lk_matched_text p))] @ opt_p ''title'' PStr (lk_title p) @
     opt_p ''description'' PStr (lk_description p) @ opt_p ''jpeg_thumbnail'' PBytes (lk_jpeg_thumbnail p) @
     opt_p ''thumbnail_width'' (\<lambda>n. PInt (int n)) (lk_thumbnail_width p) @
     opt_p ''thumbnail_height'' (\<lambda>n. PInt (int n)) (lk_thumbnail_height p)"

section \<open>The URL of a text\<close>

fun find_sub :: "string \<Rightarrow> string \<Rightarrow> nat option" where
  "find_sub q [] = (if q = [] then Some 0 else None)"
| "find_sub q (c # cs) = (if starts_with q (c # cs) then Some 0 else map_option Suc (find_sub q cs))"

lemma find_sub_Some: "find_sub q s = Some k \<Longrightarrow> k \<le> length s \<and> starts_with q (drop k s)"
  by (induction s arbitrary: k) (auto split: if_splits)

lemma find_sub_room: "find_sub q s = Some k \<Longrightarrow> k + length q \<le> length s"
proof -
  assume "find_sub q s = Some k"
  then have b: "k \<le> length s" and t: "take (length q) (drop k s) = q" using find_sub_Some by (auto simp: starts_with_def)
  have "length q = min (length q) (length s - k)" using arg_cong [OF t, of length] by simp
  then show ?thesis using b by linarith
qed

definition trim_end_matches :: "(char \<Rightarrow> bool) \<Rightarrow> string \<Rightarrow> string" where
  "trim_end_matches p s = rev (dropWhile p (rev s))"

definition sentence_end :: "char \<Rightarrow> bool" where
  "sentence_end c \<longleftrightarrow> c \<in> set (''.,;:!?'' @ [CHR 0x27])"

definition count_char :: "char \<Rightarrow> string \<Rightarrow> nat" where
  "count_char c s = length (filter (\<lambda>x. x = c) s)"

definition unbalanced :: "char \<Rightarrow> char \<Rightarrow> string \<Rightarrow> bool" where
  "unbalanced opening closing s \<longleftrightarrow> s \<noteq> [] \<and> last s = closing \<and> count_char opening s < count_char closing s"

definition trim_step :: "string \<Rightarrow> string" where
  "trim_step url = (let trimmed = trim_end_matches sentence_end url in
     if unbalanced (CHR ''('') (CHR '')'') trimmed \<or> unbalanced (CHR ''['') (CHR '']'') trimmed then butlast trimmed else trimmed)"

lemma trim_end_matches_take: "\<exists>n. trim_end_matches p s = take n s"
proof -
  have "rev s = takeWhile p (rev s) @ dropWhile p (rev s)" by simp
  then have "s = trim_end_matches p s @ rev (takeWhile p (rev s))" unfolding trim_end_matches_def by (metis rev_append rev_rev_ident)
  then show ?thesis by (metis append_eq_conv_conj)
qed

lemma trim_step_take: "\<exists>n. trim_step url = take n url"
proof -
  obtain n where n: "trim_end_matches sentence_end url = take n url" using trim_end_matches_take by blast
  have "butlast (take n url) = take (length (take n url) - 1) (take n url)" by (rule butlast_conv_take)
  then show ?thesis using n unfolding trim_step_def Let_def by (metis take_take)
qed

text \<open>The loop ends when a round changes nothing; every other round shortens the text.\<close>

function trim_url :: "string \<Rightarrow> string" where
  "trim_url url = (let trimmed = trim_step url in if trimmed = url then url else trim_url trimmed)"
  by pat_completeness auto
termination
proof (relation "measure length", simp)
  fix url trimmed :: string
  assume t: "trimmed = trim_step url" "trimmed \<noteq> url"
  then obtain n where "trimmed = take n url" using trim_step_take by blast
  then show "(trimmed, url) \<in> measure length" using t(2) by (auto simp: min_def)
qed

declare trim_url.simps [simp del]

definition url_char :: "char \<Rightarrow> bool" where
  "url_char c \<longleftrightarrow> \<not> is_ws c \<and> c \<notin> {CHR ''<'', CHR ''>'', CHR 0x22}"

definition scheme_at :: "string \<Rightarrow> nat option" where
  "scheme_at s = (case (find_sub ''https://'' s, find_sub ''http://'' s) of
       (Some a, Some b) \<Rightarrow> Some (min a b) | (Some a, None) \<Rightarrow> Some a | (None, b) \<Rightarrow> b)"

text \<open>What stands between the first and the second separator of scheme and host.\<close>

definition host_part :: "string \<Rightarrow> string" where
  "host_part url = (case find_sub ''://'' url of None \<Rightarrow> [] | Some k \<Rightarrow>
     let rest = drop (k + 3) url in case find_sub ''://'' rest of None \<Rightarrow> rest | Some j \<Rightarrow> take j rest)"

definition first_url :: "string \<Rightarrow> string option" where
  "first_url s = (case scheme_at s of None \<Rightarrow> None | Some start \<Rightarrow>
     let url = trim_url (takeWhile url_char (drop start s)) in if host_part url \<noteq> [] then Some url else None)"

section \<open>The body of an answer\<close>

definition byte_lower :: "8 word \<Rightarrow> 8 word" where
  "byte_lower b = (if 65 \<le> b \<and> b \<le> 90 then b + 32 else b)"

fun has_window :: "8 word list \<Rightarrow> 8 word list \<Rightarrow> bool" where
  "has_window marker [] \<longleftrightarrow> marker = []"
| "has_window marker (b # bs) \<longleftrightarrow>
     map byte_lower (take (length marker) (b # bs)) = map byte_lower marker \<or> has_window marker bs"

text \<open>A chunk is \<open>None\<close> where reading it fails.\<close>

fun read_capped :: "nat \<Rightarrow> bytes option \<Rightarrow> bytes option list \<Rightarrow> bytes \<Rightarrow> bytes option" where
  "read_capped cap stop_at [] out = Some out"
| "read_capped cap stop_at (None # chunks) out = None"
| "read_capped cap stop_at (Some chunk # chunks) out =
     (let room = cap - length out in
      if room = 0 then Some out
      else let scan_from = length out - (case stop_at of None \<Rightarrow> 0 | Some m \<Rightarrow> length m);
               out' = out @ take room chunk
        in case stop_at of
             Some marker \<Rightarrow> if has_window marker (drop scan_from out') then Some out' else read_capped cap stop_at chunks out'
           | None \<Rightarrow> read_capped cap stop_at chunks out')"

definition head_end :: bytes where
  "head_end = map (\<lambda>c. word_of_nat (of_char c)) ''</head>''"

section \<open>Entities\<close>

definition utf8 :: "nat \<Rightarrow> string" where
  "utf8 n = map char_of (if n < 0x80 then [n]
     else if n < 0x800 then [0xC0 + n div 0x40, 0x80 + n mod 0x40]
     else if n < 0x10000 then [0xE0 + n div 0x1000, 0x80 + n div 0x40 mod 0x40, 0x80 + n mod 0x40]
     else [0xF0 + n div 0x40000, 0x80 + n div 0x1000 mod 0x40, 0x80 + n div 0x40 mod 0x40, 0x80 + n mod 0x40])"

definition char_from_u32 :: "nat \<Rightarrow> string option" where
  "char_from_u32 n = (if n < 0xD800 \<or> (0xE000 \<le> n \<and> n \<le> 0x10FFFF) then Some (utf8 n) else None)"

definition hex_digit :: "char \<Rightarrow> nat option" where
  "hex_digit c = (let n = of_char c in if is_digit c then Some (n - 48)
     else if 97 \<le> n \<and> n \<le> 102 then Some (n - 87) else if 65 \<le> n \<and> n \<le> 70 then Some (n - 55) else None)"

fun hex_value :: "string \<Rightarrow> nat \<Rightarrow> nat option" where
  "hex_value [] acc = Some acc"
| "hex_value (c # cs) acc = (case hex_digit c of None \<Rightarrow> None
     | Some d \<Rightarrow> if 16 * acc + d < 2 ^ 32 then hex_value cs (16 * acc + d) else None)"

text \<open>The library's number parser takes a sign.\<close>

definition parse_hex :: "string \<Rightarrow> nat option" where
  "parse_hex s = (let ds = (if s \<noteq> [] \<and> hd s = CHR ''+'' then tl s else s) in if ds = [] then None else hex_value ds 0)"

definition entity_text :: "string \<Rightarrow> string option" where
  "entity_text e =
     (if e = ''amp'' then Some ''&'' else if e = ''lt'' then Some ''<'' else if e = ''gt'' then Some ''>''
      else if e = ''quot'' then Some [CHR 0x22] else if e = ''apos'' \<or> e = ''#39'' then Some [CHR 0x27]
      else if e = ''nbsp'' then Some '' ''
      else if starts_with ''#x'' e \<or> starts_with ''#X'' e then Option.bind (parse_hex (drop 2 e)) char_from_u32
      else if starts_with ''#'' e then Option.bind (parse_unsigned 32 (drop 1 e)) char_from_u32
      else None)"

fun decode_entities :: "string \<Rightarrow> string" where
  "decode_entities [] = []"
| "decode_entities (c # cs) =
     (if c \<noteq> CHR ''&'' then c # decode_entities cs
      else case find_sub '';'' (take 11 cs) of
          None \<Rightarrow> c # decode_entities cs
        | Some semi \<Rightarrow> (case entity_text (take semi cs) of
            Some decoded \<Rightarrow> decoded @ decode_entities (drop (semi + 1) cs)
          | None \<Rightarrow> c # decode_entities cs))"

section \<open>Tags\<close>

abbreviation is_quote :: "char \<Rightarrow> bool" where "is_quote q \<equiv> q = CHR 0x22 \<or> q = CHR 0x27"

text \<open>The value after an equals sign, and what follows it.\<close>

definition attr_value :: "string \<Rightarrow> string \<times> string" where
  "attr_value s = (case dropWhile is_ws s of
       q # v \<Rightarrow> if is_quote q then (takeWhile (\<lambda>c. c \<noteq> q) v, drop 1 (dropWhile (\<lambda>c. c \<noteq> q) v))
         else (takeWhile (\<lambda>c. \<not> is_ws c) (q # v), dropWhile (\<lambda>c. \<not> is_ws c) (q # v))
     | [] \<Rightarrow> ([], []))"

lemma attr_value_shorter: "length (snd (attr_value s)) \<le> length s"
proof -
  have d: "length (dropWhile P xs) \<le> length xs" for P and xs :: string by (rule length_dropWhile_le)
  show ?thesis
  proof (cases "dropWhile is_ws s")
    case Nil
    show ?thesis unfolding attr_value_def Nil by simp
  next
    case (Cons q v)
    have "length (snd (attr_value s)) \<le> length (q # v)"
      using d [of "\<lambda>c. c \<noteq> q" v] d [of "\<lambda>c. \<not> is_ws c" "q # v"] by (auto simp: attr_value_def Cons simp del: dropWhile.simps)
    then show ?thesis using d [of is_ws s] Cons by simp
  qed
qed

definition key_char :: "char \<Rightarrow> bool" where
  "key_char c \<longleftrightarrow> \<not> is_ws c \<and> c \<noteq> CHR ''='' \<and> c \<noteq> CHR ''/''"

text \<open>The first value of a key counts.\<close>

definition or_insert :: "string \<Rightarrow> 'a \<Rightarrow> (string \<Rightarrow> 'a option) \<Rightarrow> string \<Rightarrow> 'a option" where
  "or_insert k v m = (if m k = None then m(k \<mapsto> v) else m)"

text \<open>One round of the scanner: the key, its value where there is one, and the rest.\<close>

definition scan_attr :: "string \<Rightarrow> string \<times> string option \<times> string" where
  "scan_attr s =
     (let at_key = dropWhile (\<lambda>c. is_ws c \<or> c = CHR ''/'') s;
          key = to_ascii_lowercase (takeWhile key_char at_key);
          after = dropWhile is_ws (dropWhile key_char at_key)
      in if after \<noteq> [] \<and> hd after = CHR ''=''
         then (let (v, rest) = attr_value (tl after) in (key, Some v, rest))
         else (key, None, if key = [] then drop 1 after else after))"

lemma scan_attr_shorter:
  assumes "s \<noteq> []"
  shows "length (snd (snd (scan_attr s))) < length s"
proof -
  define k where "k = dropWhile (\<lambda>c. is_ws c \<or> c = CHR ''/'') s"
  define r where "r = dropWhile key_char k"
  define a where "a = dropWhile is_ws r"
  have run: "scan_attr s = (if a \<noteq> [] \<and> hd a = CHR ''=''
      then (to_ascii_lowercase (takeWhile key_char k), Some (fst (attr_value (tl a))), snd (attr_value (tl a)))
      else (to_ascii_lowercase (takeWhile key_char k), None, if takeWhile key_char k = [] then drop 1 a else a))"
    unfolding scan_attr_def Let_def split_beta k_def [symmetric] r_def [symmetric] a_def [symmetric]
    by (simp only: to_ascii_lowercase_def list.map_disc_iff)
  have kl: "length k \<le> length s" and al: "length a \<le> length r" by (simp_all add: k_def a_def length_dropWhile_le)
  have rl: "length (takeWhile key_char k) + length r = length k"
    unfolding r_def by (metis length_append takeWhile_dropWhile_id)
  consider (with_value) "a \<noteq> []" "hd a = CHR ''=''" | (drop) "\<not> (a \<noteq> [] \<and> hd a = CHR ''='')" "takeWhile key_char k = []"
    | (name) "\<not> (a \<noteq> [] \<and> hd a = CHR ''='')" "takeWhile key_char k \<noteq> []" by blast
  then show ?thesis
  proof cases
    case with_value
    then have "length (snd (snd (scan_attr s))) \<le> length (tl a)" using attr_value_shorter [of "tl a"] by (simp add: run)
    then show ?thesis using with_value(1) kl al rl by (cases a) simp_all
  next
    case drop
    then have "snd (snd (scan_attr s)) = List.drop 1 a" unfolding run by (simp only: if_not_P if_True if_False snd_conv simp_thms)
    then show ?thesis using kl al rl assms by (cases "length a") auto
  next
    case name
    then have "snd (snd (scan_attr s)) = a" unfolding run by (simp only: if_not_P if_True if_False snd_conv simp_thms)
    then show ?thesis using kl al rl name(2) by (cases "takeWhile key_char k") simp_all
  qed
qed

function attrs_from :: "string \<Rightarrow> (string \<Rightarrow> string option) \<Rightarrow> string \<Rightarrow> string option" where
  "attrs_from s out = (if s = [] then out else
     case scan_attr s of (key, v, rest) \<Rightarrow>
       attrs_from rest (case v of Some w \<Rightarrow> if key \<noteq> [] then or_insert key w out else out | None \<Rightarrow> out))"
  by pat_completeness auto
termination
proof (relation "measure (\<lambda>(s, out). length s)", simp)
  fix s key rest :: string and out :: "string \<Rightarrow> string option" and p q :: "string \<times> string option \<times> string" and v :: "string option" and y
  assume "s \<noteq> []" "(key, y) = scan_attr s" "(v, rest) = y"
  then have "length rest < length s" using scan_attr_shorter [of s] by (metis snd_conv)
  then show "((rest, case v of None \<Rightarrow> out | Some w \<Rightarrow> if key \<noteq> [] then or_insert key w out else out), s, out) \<in> measure (\<lambda>(s, out). length s)"
    by simp
qed

declare attrs_from.simps [simp del]

definition parse_attrs :: "string \<Rightarrow> string \<Rightarrow> string option" where
  "parse_attrs tag = attrs_from (dropWhile (\<lambda>c. \<not> is_ws c) tag) (\<lambda>_. None)"

section \<open>Meta data of a page\<close>

record page_meta =
  pm_title :: "string option"
  pm_description :: "string option"
  pm_image :: "string option"

definition or_get :: "string option \<Rightarrow> string option \<Rightarrow> string option" where
  "or_get a b = (case a of None \<Rightarrow> b | Some x \<Rightarrow> Some x)"

definition note_meta :: "string \<Rightarrow> (string \<Rightarrow> string option) \<Rightarrow> string \<Rightarrow> string option" where
  "note_meta tag og = (let attrs = parse_attrs tag in
     case (map_option to_ascii_lowercase (or_get (attrs ''property'') (attrs ''name'')), attrs ''content'') of
       (Some key, Some raw) \<Rightarrow> let c = trim_str (decode_entities raw) in if c \<noteq> [] then or_insert key c og else og
     | _ \<Rightarrow> og)"

function metas :: "string \<Rightarrow> (string \<Rightarrow> string option) \<Rightarrow> string \<Rightarrow> string option" where
  "metas html og = (case find_sub ''<meta'' (to_ascii_lowercase html) of
       None \<Rightarrow> og
     | Some start \<Rightarrow> (case find_sub ''>'' (to_ascii_lowercase (drop start html)) of
         None \<Rightarrow> og
       | Some end_off \<Rightarrow> metas (drop (start + end_off) html) (note_meta (take end_off (drop start html)) og)))"
  by pat_completeness auto
termination
proof (relation "measure (\<lambda>(html, og). length html)", simp)
  fix html :: string and og :: "string \<Rightarrow> string option" and start end_off :: nat
  let ?l = "to_ascii_lowercase (drop start html)"
  assume m: "find_sub ''<meta'' (to_ascii_lowercase html) = Some start" and e: "find_sub ''>'' ?l = Some end_off"
  have l: "?l = drop start (to_ascii_lowercase html)" by (simp add: to_ascii_lowercase_def drop_map)
  have room: "start + 5 \<le> length html" using find_sub_room [OF m] by (simp add: to_ascii_lowercase_def)
  have "starts_with ''<meta'' ?l" using find_sub_Some [OF m] l by simp
  then obtain t where "?l = ''<meta'' @ t" by (rule starts_withE)
  then have "end_off \<noteq> 0" using e by (auto simp: starts_with_def)
  then show "((drop (start + end_off) html, note_meta (take end_off (drop start html)) og), html, og) \<in> measure (\<lambda>(html, og). length html)"
    using room by simp
qed

declare metas.simps [simp del]

definition title_tag :: "string \<Rightarrow> string option" where
  "title_tag html = (let lower = to_ascii_lowercase html in
     case find_sub ''<title'' lower of None \<Rightarrow> None
     | Some s \<Rightarrow> (case find_sub ''>'' (drop s lower) of None \<Rightarrow> None
       | Some g \<Rightarrow> let open_end = s + g + 1 in (case find_sub ''</title'' (drop open_end lower) of None \<Rightarrow> None
         | Some c \<Rightarrow> let t = trim_str (decode_entities (take c (drop open_end html))) in if t \<noteq> [] then Some t else None)))"

fun pick_meta :: "(string \<Rightarrow> string option) \<Rightarrow> string list \<Rightarrow> string option" where
  "pick_meta og [] = None"
| "pick_meta og (k # ks) = (case og k of Some v \<Rightarrow> Some v | None \<Rightarrow> pick_meta og ks)"

text \<open>The characters of a text are its bytes but the continuation bytes of UTF-8.\<close>

definition utf8_cont :: "char \<Rightarrow> bool" where
  "utf8_cont c \<longleftrightarrow> (128 :: nat) \<le> of_char c \<and> of_char c < (192 :: nat)"

function utf8_chars :: "string \<Rightarrow> string list" where
  "utf8_chars [] = []"
| "utf8_chars (c # cs) = (c # takeWhile utf8_cont cs) # utf8_chars (dropWhile utf8_cont cs)"
  by pat_completeness auto
termination
  by (relation "measure length") (auto intro: le_imp_less_Suc length_dropWhile_le)

definition clip :: "string \<Rightarrow> nat \<Rightarrow> string" where
  "clip s max_chars = (if length (utf8_chars s) \<le> max_chars then s
     else concat (take (max_chars - 1) (utf8_chars s)) @ utf8 0x2026)"

definition parse_meta :: "string \<Rightarrow> page_meta" where
  "parse_meta html = (let og = metas html (\<lambda>_. None) in
     \<lparr> pm_title = map_option (\<lambda>t. clip t 200) (or_get (pick_meta og [''og:title'', ''twitter:title'']) (title_tag html)),
       pm_description = map_option (\<lambda>d. clip d 400) (pick_meta og [''og:description'', ''twitter:description'', ''description'']),
       pm_image = pick_meta og [''og:image:secure_url'', ''og:image'', ''og:image:url'', ''twitter:image'', ''twitter:image:src''] \<rparr>)"

end
