(* ===== verification/Send_Common.thy ===== *)
theory Send_Common
  imports Cloud_Admin Flow_Crypto New_Chats Fake_Reply Link_Preview
begin

text \<open>
  What the message endpoints share (\<open>src/api/shared/messages/handlers/common.rs\<close>): the client of a
  session, recipients, media, quotes, the typing indicator, and the way a built message leaves. A
  message of the protocol library is the tree of the fields set in it. What is asked of the
  library, of the network and of the chat store is noted in order; their answers are arguments,
  functions of what was asked so far. Texts of library errors are left out where a message quotes
  them, but where the answer is an error its text is the argument's. A handler is \<open>None\<close> when the
  code panics.
\<close>

section \<open>Calls and answers\<close>

datatype client_call =
    UserInfo nat string
  | GroupMetadata nat string
  | FetchUrl string
  | FetchPage string
  | FetchImage string
  | Upload nat string bytes
  | Composing nat string
  | SendMessage nat string pval
  | EditRaw nat string string pval
  | ReactionRaw nat string pval string
  | RevokeRaw nat string string "string option"
  | CommentRaw nat string pval string
  | MarkRead nat string "string option" "string list"
  | StoreEdit string string string pval
  | StoreReaction string string pval string
  | StoreRevoke string string string

record sending = outbound +
  client_calls :: "client_call list"
  preview_cache :: "(string \<times> instant \<times> link_preview option) list"

datatype fetched = FetchFailed string | ReadFailed string | Fetched nat "string option" bytes

record upload_pointer =
  up_url :: string
  up_direct_path :: string
  up_media_key :: bytes
  up_file_sha256 :: bytes
  up_file_enc_sha256 :: bytes

text \<open>A message of the chat store: who sent it, and the message itself where it was kept.\<close>

record stored_copy =
  sc_from_me :: bool
  sc_sender :: string
  sc_message :: "pval option"

text \<open>
  The answer to the fetch of a page or an image, after the redirects the HTTP client followed: with
  the address it came from in the end and what was told of its length.
\<close>

record page_answer =
  pg_status :: nat
  pg_content_type :: "string option"
  pg_final_url :: string
  pg_content_length :: "nat option"
  pg_chunks :: "bytes option list"

record 'p send_lib =
  sn_cloud :: cloud_lib
  sn_jids :: jid_lib
  sn_server :: "string \<Rightarrow> string"
  sn_non_ad :: "string \<Rightarrow> string"
  sn_pn :: "nat \<Rightarrow> string option"
  sn_user_info :: "client_call list \<Rightarrow> string option option"
  sn_group :: "client_call list \<Rightarrow> string + string list"
  sn_upload :: "client_call list \<Rightarrow> string + upload_pointer"
  sn_composing :: "client_call list \<Rightarrow> bool"
  sn_send :: "client_call list \<Rightarrow> string + string"
  sn_unit :: "client_call list \<Rightarrow> string + unit"
  sn_fetch :: "client_call list \<Rightarrow> fetched"
  sn_stored :: "client_call list \<Rightarrow> string \<Rightarrow> string \<Rightarrow> string \<Rightarrow> stored_copy option"
  sn_base :: "pval \<Rightarrow> pval"
  sn_forward :: "pval \<Rightarrow> pval"
  sn_b64 :: "string \<Rightarrow> bytes option"
  sn_env :: "string \<Rightarrow> string option"
  sn_draws :: draws
  sn_secret :: bytes
  sn_page :: "client_call list \<Rightarrow> page_answer option"
  sn_lossy :: "bytes \<Rightarrow> string"
  sn_join :: "string \<Rightarrow> string \<Rightarrow> string option"
  sn_thumbnail :: "bytes \<Rightarrow> (bytes \<times> nat \<times> nat) option"
  sn_service_type :: "int \<Rightarrow> bool"
  sn_proto :: "'p proto_lib"
  sn_view :: "pval \<Rightarrow> 'p wa_message_scheme"

section \<open>Handlers that may panic\<close>

type_synonym ('w, 'a) send_op = "'w sending_scheme \<Rightarrow> ((api_error + 'a) \<times> 'w sending_scheme) option"

definition s_ok :: "'a \<Rightarrow> ('w, 'a) send_op" where
  "s_ok a w = Some (Inr a, w)"

definition s_fail :: "api_error \<Rightarrow> ('w, 'a) send_op" where
  "s_fail e w = Some (Inl e, w)"

definition s_bind :: "('w, 'a) send_op \<Rightarrow> ('a \<Rightarrow> ('w, 'b) send_op) \<Rightarrow> ('w, 'b) send_op" where
  "s_bind m k w = (case m w of None \<Rightarrow> None | Some (Inl e, w') \<Rightarrow> Some (Inl e, w') | Some (Inr a, w') \<Rightarrow> k a w')"

definition s_lift :: "('w sending_scheme \<Rightarrow> (api_error + 'a) \<times> 'w sending_scheme) \<Rightarrow> ('w, 'a) send_op" where
  "s_lift m w = Some (m w)"

definition s_try :: "api_error + 'a \<Rightarrow> ('w, 'a) send_op" where
  "s_try r w = Some (r, w)"

definition note_call :: "client_call \<Rightarrow> 'w sending_scheme \<Rightarrow> 'w sending_scheme" where
  "note_call c w = w\<lparr>client_calls := client_calls w @ [c]\<rparr>"

text \<open>A call of which the answer is a function of the calls so far, an error of it one of the handler.\<close>

definition s_ask :: "client_call \<Rightarrow> (client_call list \<Rightarrow> string + 'a) \<Rightarrow> (string \<Rightarrow> api_error) \<Rightarrow> ('w, 'a) send_op" where
  "s_ask c ans err w = (let w1 = note_call c w in
     Some (case ans (client_calls w1) of Inl e \<Rightarrow> Inl (err e) | Inr a \<Rightarrow> Inr a, w1))"

section \<open>Clients and recipients\<close>

definition get_client :: "string \<Rightarrow> ('w, nat) send_op" where
  "get_client sid w = Some (case get_session_mem sid (gw_sessions w) of
       None \<Rightarrow> Inl NotConnected
     | Some s \<Rightarrow> (case get_live_client s of None \<Rightarrow> Inl NotConnected | Some c \<Rightarrow> Inr (cl_id c)), w)"

definition resolve_recipient :: "'p send_lib \<Rightarrow> nat \<Rightarrow> string \<Rightarrow> ('w, string) send_op" where
  "resolve_recipient lib c jid w =
     (if sn_server lib jid \<noteq> ''s.whatsapp.net'' then s_ok jid w
      else let w1 = note_call (UserInfo c jid) w in
        s_ok (resolve_recipient_jid (sn_server lib) (\<lambda>_. sn_user_info lib (client_calls w1)) jid) w1)"

text \<open>The first lines of the sends: the client, and the resolved recipient.\<close>

definition reach :: "'p send_lib \<Rightarrow> string \<Rightarrow> string \<Rightarrow> ('w, nat \<times> string) send_op" where
  "reach lib sid to = s_bind (get_client sid) (\<lambda>c. s_bind (s_try (parse_jid (sn_jids lib) to)) (\<lambda>jid.
     s_bind (resolve_recipient lib c jid) (\<lambda>to_jid. s_ok (c, to_jid))))"

text \<open>The same, and the new-chat limit.\<close>

definition reach_admitted :: "'p send_lib \<Rightarrow> string \<Rightarrow> string \<Rightarrow> ('w, nat \<times> string) send_op" where
  "reach_admitted lib sid to = s_bind (reach lib sid to) (\<lambda>(c, to_jid).
     s_bind (admit (sn_jids lib) sid to_jid to) (\<lambda>_. s_ok (c, to_jid)))"

section \<open>Media\<close>

datatype media_data =
    MdUrl string
  | MdBase64 string string
  | MdUploaded string string string string string nat string

definition get_media_data :: "'p send_lib \<Rightarrow> media_data \<Rightarrow> ('w, bytes \<times> string) send_op" where
  "get_media_data lib media w = (case media of
       MdUrl url \<Rightarrow> (case validate_public_url (cb_net (sn_cloud lib)) url of
           Inl e \<Rightarrow> s_fail (BadRequest e) w
         | Inr _ \<Rightarrow> (let w1 = note_call (FetchUrl url) w in case sn_fetch lib (client_calls w1) of
             FetchFailed e \<Rightarrow> s_fail (BadRequest (''Failed to fetch URL: '' @ e)) w1
           | ReadFailed e \<Rightarrow> s_fail (BadRequest (''Failed to read response: '' @ e)) w1
           | Fetched status content_type body \<Rightarrow>
               s_ok (body, case content_type of Some t \<Rightarrow> t | None \<Rightarrow> ''application/octet-stream'') w1))
     | MdBase64 text mimetype \<Rightarrow> (case sn_b64 lib text of
           None \<Rightarrow> s_fail (BadRequest ''Invalid base64: '') w
         | Some decoded \<Rightarrow> s_ok (decoded, mimetype) w)
     | MdUploaded _ _ _ _ _ _ _ \<Rightarrow> s_fail (BadRequest ''Pre-uploaded media not supported in this context'') w)"

text \<open>
  How the library reads a \<open>MediaData\<close>: the enum is untagged, so the first variant whose fields are
  all there is taken, and further fields are ignored.
\<close>

definition read_media :: "json \<Rightarrow> media_data option" where
  "read_media j = (case text_field ''url'' j of
       Some url \<Rightarrow> Some (MdUrl url)
     | None \<Rightarrow> (case (text_field ''data'' j, text_field ''mimetype'' j) of
         (Some text, Some mimetype) \<Rightarrow> Some (MdBase64 text mimetype)
       | _ \<Rightarrow> (case (text_field ''url'' j, text_field ''direct_path'' j, text_field ''media_key'' j, text_field ''file_sha256'' j,
             text_field ''file_enc_sha256'' j, json_get ''file_length'' j, text_field ''mimetype'' j) of
           (Some url, Some path, Some key, Some sha, Some enc, Some (JInt n), Some mimetype) \<Rightarrow>
             if 0 \<le> n \<and> n < 2 ^ 64 then Some (MdUploaded url path key sha enc (nat n) mimetype) else None
         | _ \<Rightarrow> None)))"

section \<open>Contact cards\<close>

record contact_phone =
  ph_number :: string
  ph_type :: string

record contact_card =
  ca_display_name :: string
  ca_phones :: "contact_phone list"
  ca_organization :: "string option"

definition build_vcard :: "contact_card \<Rightarrow> string" where
  "build_vcard contact = ''BEGIN:VCARD'' @ newline @ ''VERSION:3.0'' @ newline @
     ''FN:'' @ ca_display_name contact @ newline @ ''N:;'' @ ca_display_name contact @ '';;;'' @ newline @
     (case ca_organization contact of None \<Rightarrow> [] | Some org \<Rightarrow> ''ORG:'' @ org @ newline) @
     concat (map (\<lambda>p. ''TEL;type='' @ ph_type p @ '':'' @ ph_number p @ newline) (ca_phones contact)) @ ''END:VCARD''"

section \<open>The typing indicator\<close>

definition auto_presence_on_send :: "'p send_lib \<Rightarrow> bool" where
  "auto_presence_on_send lib = (case sn_env lib ''AUTO_PRESENCE_ON_SEND'' of
       None \<Rightarrow> False | Some v \<Rightarrow> to_ascii_lowercase v \<in> set [''1'', ''true'', ''yes'', ''on''])"

definition PRESENCE_DEFAULT_MS :: int where "PRESENCE_DEFAULT_MS = 1200"
definition PRESENCE_MAX_MS :: int where "PRESENCE_MAX_MS = 10000"

definition parse_presence_delay :: "string option \<Rightarrow> int" where
  "parse_presence_delay raw =
     min (case Option.bind raw (\<lambda>v. parse_unsigned 64 (trim_str v)) of None \<Rightarrow> PRESENCE_DEFAULT_MS | Some n \<Rightarrow> int n) PRESENCE_MAX_MS"

definition auto_presence_delay_ms :: "'p send_lib \<Rightarrow> int" where
  "auto_presence_delay_ms lib = parse_presence_delay (sn_env lib ''AUTO_PRESENCE_DELAY_MS'')"

text \<open>The indicator is asked for; whether that worked decides only about the delay.\<close>

definition show_typing_before_send :: "'p send_lib \<Rightarrow> nat \<Rightarrow> string \<Rightarrow> 'w sending_scheme \<Rightarrow> int \<times> 'w sending_scheme" where
  "show_typing_before_send lib c jid w = (let w1 = note_call (Composing c jid) w in
     (if \<not> sn_composing lib (client_calls w1) then 0 else auto_presence_delay_ms lib, w1))"

definition typing :: "'p send_lib \<Rightarrow> nat \<Rightarrow> string \<Rightarrow> ('w, unit) send_op" where
  "typing lib c jid w = s_ok () (if auto_presence_on_send lib then snd (show_typing_before_send lib c jid w) else w)"

section \<open>The chat store\<close>

definition chat_store :: "string \<Rightarrow> 'w sending_scheme \<Rightarrow> bool" where
  "chat_store sid w = (case get_session_mem sid (gw_sessions w) of None \<Rightarrow> False | Some s \<Rightarrow> ss_chat_store s)"

definition stored_in_chat :: "'p send_lib \<Rightarrow> string \<Rightarrow> string \<Rightarrow> string \<Rightarrow> 'w sending_scheme \<Rightarrow> stored_copy option" where
  "stored_in_chat lib sid chat message_id w =
     (if chat_store sid w then sn_stored lib (client_calls w) sid chat message_id else None)"

definition key_literal :: "string \<Rightarrow> string \<Rightarrow> bool \<Rightarrow> string option \<Rightarrow> pval" where
  "key_literal remote_jid i from_me participant = PMsg ([(''remote_jid'', PStr remote_jid), (''id'', PStr i), (''from_me'', PBool from_me)] @
     opt_p ''participant'' PStr participant)"

definition message_key_for :: "'p send_lib \<Rightarrow> string \<Rightarrow> string \<Rightarrow> string \<Rightarrow> 'w sending_scheme \<Rightarrow> pval" where
  "message_key_for lib sid chat message_id w = (case stored_in_chat lib sid chat message_id w of
       None \<Rightarrow> key_literal chat message_id False None
     | Some m \<Rightarrow> key_literal chat message_id (sc_from_me m)
         (if \<not> sc_from_me m \<and> sn_server lib chat = ''g.us'' then Some (sn_non_ad lib (sc_sender m)) else None))"

definition quotable_kinds :: "string list" where
  "quotable_kinds = [''extended_text_message'', ''image_message'', ''video_message'', ''audio_message'', ''document_message'',
     ''sticker_message'', ''contact_message'', ''location_message'']"

definition strip_context :: "string \<times> pval \<Rightarrow> string \<times> pval" where
  "strip_context f = (case f of (k, PMsg fs) \<Rightarrow>
       if k \<in> set quotable_kinds then (k, PMsg (filter (\<lambda>g. fst g \<noteq> ''context_info'') fs)) else f
     | _ \<Rightarrow> f)"

definition quotable :: "'p send_lib \<Rightarrow> pval \<Rightarrow> pval" where
  "quotable lib message = (case sn_base lib message of PMsg fs \<Rightarrow> PMsg (map strip_context fs) | base \<Rightarrow> base)"

definition reply_context :: "'p send_lib \<Rightarrow> string \<Rightarrow> nat \<Rightarrow> string \<Rightarrow> string option \<Rightarrow> 'w sending_scheme \<Rightarrow> pval option" where
  "reply_context lib sid c chat reply_to w = (case reply_to of
       None \<Rightarrow> None
     | Some i \<Rightarrow> if i = [] then None else Some (PMsg ((''stanza_id'', PStr i) #
         (case stored_in_chat lib sid chat i w of
            None \<Rightarrow> []
          | Some stored \<Rightarrow>
              opt_p ''participant'' PStr (if sc_from_me stored then sn_pn lib c else Some (sn_non_ad lib (sc_sender stored))) @
              opt_p ''quoted_message'' (quotable lib) (sc_message stored)))))"

text \<open>A made-up quote, or a real one.\<close>

definition quote_context ::
    "'p send_lib \<Rightarrow> string \<Rightarrow> nat \<Rightarrow> string \<Rightarrow> fake_reply option \<Rightarrow> string option \<Rightarrow> 'w sending_scheme \<Rightarrow> pval option" where
  "quote_context lib sid c chat fake reply_to w = (case fake of
       Some f \<Rightarrow> build_fake_reply_context_info (sn_draws lib) f | None \<Rightarrow> reply_context lib sid c chat reply_to w)"

section \<open>A message leaves\<close>

definition send_and_record :: "'p send_lib \<Rightarrow> string \<Rightarrow> nat \<Rightarrow> string \<Rightarrow> pval \<Rightarrow> ('w, message_response) send_op" where
  "send_and_record lib sid c to_jid message = s_bind (s_ask (SendMessage c to_jid message) (sn_send lib) Internal) (\<lambda>message_id w.
     let w1 = record_outgoing (sn_env lib) (sn_proto lib) sid to_jid (sn_view lib message) message_id w
     in s_ok \<lparr> mr_message_id = message_id, mr_timestamp = db_now w1, mr_to = to_jid \<rparr> w1)"

definition deliver :: "'p send_lib \<Rightarrow> string \<Rightarrow> nat \<Rightarrow> string \<Rightarrow> pval \<Rightarrow> ('w, message_response) send_op" where
  "deliver lib sid c to_jid message = s_bind (typing lib c to_jid) (\<lambda>_. send_and_record lib sid c to_jid message)"

text \<open>A message that needs nothing but its request.\<close>

definition send_plain :: "'p send_lib \<Rightarrow> string \<Rightarrow> string \<Rightarrow> pval \<Rightarrow> ('w, message_response) send_op" where
  "send_plain lib sid to message = s_bind (reach_admitted lib sid to) (\<lambda>(c, to_jid). deliver lib sid c to_jid message)"

text \<open>A message built from the state at the time: the quote of it, or the key of another message.\<close>

definition send_built ::
    "'p send_lib \<Rightarrow> string \<Rightarrow> string \<Rightarrow> (nat \<Rightarrow> string \<Rightarrow> 'w sending_scheme \<Rightarrow> pval) \<Rightarrow> ('w, message_response) send_op" where
  "send_built lib sid to build = s_bind (reach_admitted lib sid to) (\<lambda>(c, to_jid) w. deliver lib sid c to_jid (build c to_jid w) w)"

text \<open>The same for the kinds that answer within a chat, which skip the new-chat limit.\<close>

definition send_inside ::
    "'p send_lib \<Rightarrow> string \<Rightarrow> string \<Rightarrow> (nat \<Rightarrow> string \<Rightarrow> 'w sending_scheme \<Rightarrow> pval) \<Rightarrow> ('w, message_response) send_op" where
  "send_inside lib sid to build = s_bind (reach lib sid to) (\<lambda>(c, to_jid) w. deliver lib sid c to_jid (build c to_jid w) w)"

section \<open>Sessions of the Cloud API\<close>

definition cloud_message_response :: "json \<Rightarrow> string \<Rightarrow> 'w sending_scheme \<Rightarrow> message_response" where
  "cloud_message_response resp to w = \<lparr> mr_message_id = first_message_id resp, mr_timestamp = db_now w, mr_to = to \<rparr>"

text \<open>A session with Cloud credentials sends through them, the others through their client.\<close>

definition by_provider ::
    "'p send_lib \<Rightarrow> string \<Rightarrow> (cloud_client \<Rightarrow> ('w, 'a) send_op) \<Rightarrow> ('w, 'a) send_op \<Rightarrow> ('w, 'a) send_op" where
  "by_provider lib sid cloud web = s_bind (s_lift (db_map_err Internal (get_cloud_credentials sid))) (\<lambda>creds. case creds of
       Some cr \<Rightarrow> cloud (cloud_client_new (sn_cloud lib) (cc_phone_number_id cr) (cc_access_token cr))
     | None \<Rightarrow> web)"

definition cloud_send ::
    "string \<Rightarrow> ('w sending_scheme \<Rightarrow> (cloud_error + json) \<times> 'w sending_scheme) \<Rightarrow> ('w, message_response) send_op" where
  "cloud_send to m = s_bind (s_lift (db_map_err (\<lambda>e. Internal (cloud_error_text e)) m)) (\<lambda>resp w. s_ok (cloud_message_response resp to w) w)"

end
