(* ===== verification/Send_Preview.thy ===== *)
theory Send_Preview
  imports Send_Common "HOL-Library.AList"
begin

text \<open>
  Fetching a link preview (\<open>src/link_preview.rs\<close>). An answer that does not come within its budget is
  no answer. The pictures are read and encoded by a library; a cache keeps what a URL gave.

  The HTTP client follows redirects by itself: an answer is that of the last address, told by
  \<open>pg_final_url\<close>, and the reads in between are the library's, not calls of the gateway. The code
  relies on the resolver of the client for them (\<open>resolve\<close> of \<open>Net_Guard\<close>), which is asked for
  names and not for literal addresses.
\<close>

definition contains_html :: "string option \<Rightarrow> bool" where
  "contains_html ct = (case ct of None \<Rightarrow> False | Some t \<Rightarrow> find_sub ''html'' t \<noteq> None)"

definition fetch_page :: "'p send_lib \<Rightarrow> string \<Rightarrow> 'w sending_scheme \<Rightarrow> (page_meta \<times> string) option \<times> 'w sending_scheme" where
  "fetch_page lib url w = (case validate_public_url (cb_net (sn_cloud lib)) url of
       Inl e \<Rightarrow> (None, w)
     | Inr parsed \<Rightarrow> (let w1 = note_call (FetchPage url) w in
         (case sn_page lib (client_calls w1) of
            None \<Rightarrow> None
          | Some a \<Rightarrow> if \<not> is_success (pg_status a) \<or> \<not> contains_html (pg_content_type a) then None
              else map_option (\<lambda>html_bytes. (parse_meta (sn_lossy lib html_bytes), pg_final_url a))
                     (read_capped MAX_HTML_BYTES (Some head_end) (pg_chunks a) []), w1)))"

definition fetch_thumbnail :: "'p send_lib \<Rightarrow> string \<Rightarrow> 'w sending_scheme \<Rightarrow> (bytes \<times> nat \<times> nat) option \<times> 'w sending_scheme" where
  "fetch_thumbnail lib url w = (case validate_public_url (cb_net (sn_cloud lib)) url of
       Inl e \<Rightarrow> (None, w)
     | Inr parsed \<Rightarrow> (let w1 = note_call (FetchImage url) w in
         (case sn_page lib (client_calls w1) of
            None \<Rightarrow> None
          | Some a \<Rightarrow> if \<not> is_success (pg_status a) then None
              else if (case pg_content_length a of Some n \<Rightarrow> MAX_IMAGE_BYTES < n | None \<Rightarrow> False) then None
              else (case read_capped (MAX_IMAGE_BYTES + 1) None (pg_chunks a) [] of
                  None \<Rightarrow> None
                | Some picture \<Rightarrow> if MAX_IMAGE_BYTES < length picture then None else sn_thumbnail lib picture), w1)))"

definition preview_of :: "string \<Rightarrow> page_meta \<Rightarrow> (bytes \<times> nat \<times> nat) option \<Rightarrow> link_preview" where
  "preview_of url meta thumbnail = \<lparr> lk_matched_text = url, lk_title = pm_title meta, lk_description = pm_description meta,
     lk_jpeg_thumbnail = map_option fst thumbnail, lk_thumbnail_width = map_option (\<lambda>(_, width, _). width) thumbnail,
     lk_thumbnail_height = map_option (\<lambda>(_, _, height). height) thumbnail \<rparr>"

definition fetch_preview :: "'p send_lib \<Rightarrow> string \<Rightarrow> 'w sending_scheme \<Rightarrow> link_preview option \<times> 'w sending_scheme" where
  "fetch_preview lib url w = (case fetch_page lib url w of
       (None, w1) \<Rightarrow> (None, w1)
     | (Some (meta, final_url), w1) \<Rightarrow>
         if pm_title meta = None \<and> pm_description meta = None then (None, w1)
         else (case Option.bind (pm_image meta) (sn_join lib final_url) of
             None \<Rightarrow> (Some (preview_of url meta None), w1)
           | Some image_url \<Rightarrow> (case fetch_thumbnail lib image_url w1 of
               (thumbnail, w2) \<Rightarrow> (Some (preview_of url meta thumbnail), w2))))"

section \<open>The cache\<close>

definition fresh :: "instant \<Rightarrow> instant \<Rightarrow> bool" where
  "fresh now at \<longleftrightarrow> now - at < CACHE_TTL"

definition cached_preview :: "string \<Rightarrow> 'w sending_scheme \<Rightarrow> link_preview option option" where
  "cached_preview url w = (case map_of (preview_cache w) url of
       Some (at, cached) \<Rightarrow> if fresh (hub_mono w) at then Some cached else None | None \<Rightarrow> None)"

text \<open>At the capacity the stale entries go, and all of them where that is not enough.\<close>

definition evict_previews :: "instant \<Rightarrow> (string \<times> instant \<times> 'a) list \<Rightarrow> (string \<times> instant \<times> 'a) list" where
  "evict_previews now cache = (if length cache < CACHE_CAPACITY then cache
     else let kept = filter (\<lambda>(_, at, _). fresh now at) cache in if length kept < CACHE_CAPACITY then kept else [])"

definition cache_preview :: "string \<Rightarrow> link_preview option \<Rightarrow> 'w sending_scheme \<Rightarrow> 'w sending_scheme" where
  "cache_preview url found w = w\<lparr>preview_cache := AList.update url (hub_mono w, found) (evict_previews (hub_mono w) (preview_cache w))\<rparr>"

definition for_text :: "'p send_lib \<Rightarrow> string \<Rightarrow> 'w sending_scheme \<Rightarrow> link_preview option \<times> 'w sending_scheme" where
  "for_text lib s w = (case first_url s of
       None \<Rightarrow> (None, w)
     | Some url \<Rightarrow> (case cached_preview url w of
         Some cached \<Rightarrow> (cached, w)
       | None \<Rightarrow> (case fetch_preview lib url w of (found, w1) \<Rightarrow> (found, cache_preview url found w1))))"

definition preview_wanted :: "'p send_lib \<Rightarrow> bool \<Rightarrow> string \<Rightarrow> ('w, link_preview option) send_op" where
  "preview_wanted lib asked s w = (if \<not> asked then s_ok None w else (case for_text lib s w of (found, w1) \<Rightarrow> s_ok found w1))"

end
