(* ===== verification/Send_Text.thy ===== *)
theory Send_Text
  imports Send_Preview
begin

text \<open>
  Text, edits, reactions, pins, forwards, comments, revokes and read marks
  (\<open>src/api/shared/messages/handlers/text.rs\<close>). The group's member list is an argument.
\<close>

section \<open>Text\<close>

record send_text_request =
  tx_to :: string
  tx_text :: string
  tx_reply_to :: "string option"
  tx_reply_chat :: "string option"
  tx_fake :: "fake_reply option"
  tx_mentions :: "string list option"
  tx_mention_all :: "bool option"
  tx_link_preview :: "bool option"

definition push_new :: "string \<Rightarrow> string list \<Rightarrow> string list" where
  "push_new x xs = (if x \<in> set xs then xs else xs @ [x])"

fun parse_mentions :: "jid_lib \<Rightarrow> string list \<Rightarrow> string list \<Rightarrow> api_error + string list" where
  "parse_mentions jl [] acc = Inr acc"
| "parse_mentions jl (e # es) acc = (case parse_jid jl e of Inl err \<Rightarrow> Inl err | Inr j \<Rightarrow> parse_mentions jl es (push_new j acc))"

definition mention_everyone :: "'p send_lib \<Rightarrow> nat \<Rightarrow> string \<Rightarrow> bool \<Rightarrow> string list \<Rightarrow> ('w, string list) send_op" where
  "mention_everyone lib c to_jid everyone mentioned =
     (if \<not> everyone then s_ok mentioned
      else if sn_server lib to_jid \<noteq> ''g.us'' then s_fail (BadRequest ''mention_all is only supported for group chats'')
      else s_bind (s_ask (GroupMetadata c to_jid) (sn_group lib) Internal) (\<lambda>members. s_ok (fold push_new members mentioned)))"

definition text_context :: "'p send_lib \<Rightarrow> string \<Rightarrow> nat \<Rightarrow> string \<Rightarrow> send_text_request \<Rightarrow> ('w, pval option) send_op" where
  "text_context lib sid c to_jid r = (case tx_fake r of
       Some f \<Rightarrow> s_ok (build_fake_reply_context_info (sn_draws lib) f)
     | None \<Rightarrow> s_bind (s_try (case tx_reply_chat r of Some chat \<Rightarrow> parse_jid (sn_jids lib) chat | None \<Rightarrow> Inr to_jid))
         (\<lambda>reply_chat w. s_ok (reply_context lib sid c reply_chat (tx_reply_to r) w) w))"

definition at_form :: "string \<Rightarrow> string" where
  "at_form jid = ''@'' @ takeWhile (\<lambda>ch. ch \<noteq> CHR ''@'') jid"

definition name_mention :: "string \<Rightarrow> string \<Rightarrow> string" where
  "name_mention jid text = (if contains_str (at_form jid) text then text
     else (if text \<noteq> [] \<and> last text = CHR '' '' then text else text @ '' '') @ at_form jid)"

definition set_mentions :: "string list \<Rightarrow> pval option \<Rightarrow> pval option" where
  "set_mentions mentioned context = (if mentioned = [] then context
     else Some (PMsg (filter (\<lambda>g. fst g \<noteq> ''mentioned_jid'') (case context of Some (PMsg fs) \<Rightarrow> fs | _ \<Rightarrow> []) @
       [(''mentioned_jid'', PList (map PStr mentioned))])))"

definition text_message :: "string \<Rightarrow> link_preview option \<Rightarrow> pval option \<Rightarrow> pval" where
  "text_message text preview context =
     (let extended = [(''text'', PStr text)] @ opt_p ''context_info'' (\<lambda>v. v) context
      in PMsg [(''extended_text_message'', PMsg (case preview of None \<Rightarrow> extended | Some p \<Rightarrow> apply_preview extended p))])"

definition text_on_web :: "'p send_lib \<Rightarrow> string \<Rightarrow> send_text_request \<Rightarrow> ('w, message_response) send_op" where
  "text_on_web lib sid r = s_bind (reach_admitted lib sid (tx_to r)) (\<lambda>(c, to_jid).
     s_bind (s_try (parse_mentions (sn_jids lib) (case tx_mentions r of None \<Rightarrow> [] | Some m \<Rightarrow> m) [])) (\<lambda>explicit.
     s_bind (mention_everyone lib c to_jid (tx_mention_all r = Some True) explicit) (\<lambda>mentioned.
     s_bind (text_context lib sid c to_jid r) (\<lambda>context.
     s_bind (preview_wanted lib (tx_link_preview r = Some True) (fold name_mention explicit (tx_text r))) (\<lambda>preview.
       deliver lib sid c to_jid (text_message (fold name_mention explicit (tx_text r)) preview (set_mentions mentioned context)))))))"

definition execute_text :: "'p send_lib \<Rightarrow> string \<Rightarrow> send_text_request \<Rightarrow> ('w, message_response) send_op" where
  "execute_text lib sid r = by_provider lib sid
     (\<lambda>cl. cloud_send (tx_to r) (cloud_send_text (sn_cloud lib) cl (tx_to r) (tx_text r) (tx_link_preview r = Some True) (tx_reply_to r)))
     (text_on_web lib sid r)"

section \<open>Edits, reactions, pins\<close>

definition plain_text_message :: "string \<Rightarrow> pval" where
  "plain_text_message text = PMsg [(''extended_text_message'', PMsg [(''text'', PStr text)])]"

definition note_stored :: "string \<Rightarrow> client_call \<Rightarrow> 'w sending_scheme \<Rightarrow> 'w sending_scheme" where
  "note_stored sid c w = (if chat_store sid w then note_call c w else w)"

definition edit_message :: "'p send_lib \<Rightarrow> string \<Rightarrow> string \<Rightarrow> string \<Rightarrow> string \<Rightarrow> ('w, message_response) send_op" where
  "edit_message lib sid to message_id text = s_bind (reach lib sid to) (\<lambda>(c, to_jid).
     s_bind (s_ask (EditRaw c to_jid message_id (plain_text_message text)) (sn_send lib) Internal) (\<lambda>result w.
       let w1 = note_stored sid (StoreEdit sid to_jid message_id (plain_text_message text)) w
       in s_ok \<lparr> mr_message_id = result, mr_timestamp = db_now w1, mr_to = to_jid \<rparr> w1))"

definition send_reaction :: "'p send_lib \<Rightarrow> string \<Rightarrow> string \<Rightarrow> string \<Rightarrow> string \<Rightarrow> ('w, message_response) send_op" where
  "send_reaction lib sid to message_id emoji = by_provider lib sid
     (\<lambda>cl. cloud_send to (cloud_send_reaction (sn_cloud lib) cl to message_id emoji))
     (s_bind (reach lib sid to) (\<lambda>(c, to_jid) w. let key = message_key_for lib sid to_jid message_id w in
       s_bind (s_ask (ReactionRaw c to_jid key emoji) (sn_send lib) Internal) (\<lambda>result w1.
         let w2 = note_stored sid (StoreReaction sid to_jid key emoji) w1
         in s_ok \<lparr> mr_message_id = result, mr_timestamp = db_now w2, mr_to = to_jid \<rparr> w2) w))"

text \<open>The duration is an i64 of the request, and is cut to 32 bits.\<close>

definition pin_message :: "'p send_lib \<Rightarrow> string \<Rightarrow> string \<Rightarrow> string \<Rightarrow> int \<Rightarrow> 'w sending_scheme \<Rightarrow> pval" where
  "pin_message lib sid chat message_id duration w = PMsg [(''pin_in_chat_message'', PMsg [
       (''key'', message_key_for lib sid chat message_id w),
       (''type'', PEnum (if 0 < duration then ''PIN_FOR_ALL'' else ''UNPIN_FOR_ALL'')),
       (''sender_timestamp_ms'', PInt (db_now w * 1000))]),
     (''message_context_info'', PMsg (opt_p ''message_add_on_duration_in_secs'' PInt
        (if 0 < duration then Some (uint (word_of_int duration :: 32 word)) else None)))]"

definition send_pin_message :: "'p send_lib \<Rightarrow> string \<Rightarrow> string \<Rightarrow> string \<Rightarrow> int \<Rightarrow> ('w, message_response) send_op" where
  "send_pin_message lib sid chat message_id duration = s_bind (get_client sid) (\<lambda>c.
     s_bind (s_try (parse_jid (sn_jids lib) chat)) (\<lambda>chat_jid w.
       deliver lib sid c chat_jid (pin_message lib sid chat_jid message_id duration w) w))"

section \<open>Forwards and comments\<close>

record forward_request =
  fw_to :: string
  fw_text :: string
  fw_chat :: "string option"
  fw_message_id :: "string option"

definition forwarded_text :: "string \<Rightarrow> pval" where
  "forwarded_text text = PMsg [(''extended_text_message'', PMsg [(''text'', PStr text),
     (''context_info'', PMsg [(''is_forwarded'', PBool True), (''forwarding_score'', PInt 1)])])]"

text \<open>A message named by chat and id is taken from the chat store and forwarded as it is.\<close>

definition forward_stored ::
    "'p send_lib \<Rightarrow> string \<Rightarrow> nat \<Rightarrow> string \<Rightarrow> string \<Rightarrow> string \<Rightarrow> ('w, message_response) send_op" where
  "forward_stored lib sid c to_jid chat i = s_bind (s_try (parse_jid (sn_jids lib) chat)) (\<lambda>chat_jid w.
     case Option.bind (stored_in_chat lib sid chat_jid i w) sc_message of
       None \<Rightarrow> s_fail (MessageNotFound i) w
     | Some original \<Rightarrow> send_and_record lib sid c to_jid (sn_forward lib (sn_base lib original)) w)"

definition execute_forward_message :: "'p send_lib \<Rightarrow> string \<Rightarrow> forward_request \<Rightarrow> ('w, message_response) send_op" where
  "execute_forward_message lib sid r = s_bind (reach_admitted lib sid (fw_to r)) (\<lambda>(c, to_jid).
     case (fw_chat r, fw_message_id r) of
       (Some chat, Some i) \<Rightarrow> forward_stored lib sid c to_jid chat i
     | _ \<Rightarrow> deliver lib sid c to_jid (forwarded_text (fw_text r)))"

record comment_request =
  cm_to :: string
  cm_text :: string
  cm_target_message_id :: string
  cm_target_chat_jid :: "string option"
  cm_target_participant :: "string option"

definition execute_comment :: "'p send_lib \<Rightarrow> string \<Rightarrow> comment_request \<Rightarrow> ('w, message_response) send_op" where
  "execute_comment lib sid r = s_bind (reach_admitted lib sid (cm_to r)) (\<lambda>(c, to_jid).
     let target = (case cm_target_chat_jid r of Some j \<Rightarrow> j | None \<Rightarrow> cm_to r)
     in s_bind (s_ask (CommentRaw c to_jid (key_literal target (cm_target_message_id r) False (cm_target_participant r)) (cm_text r))
          (sn_send lib) Internal)
        (\<lambda>result w. s_ok \<lparr> mr_message_id = result, mr_timestamp = db_now w, mr_to = to_jid \<rparr> w))"

section \<open>Revokes and read marks\<close>

definition revoke_message :: "'p send_lib \<Rightarrow> string \<Rightarrow> string \<Rightarrow> string \<Rightarrow> string option \<Rightarrow> ('w, unit) send_op" where
  "revoke_message lib sid to message_id original_sender = s_bind (reach lib sid to) (\<lambda>(c, to_jid).
     s_bind (s_try (case original_sender of None \<Rightarrow> Inr None | Some s \<Rightarrow> map_sum id Some (parse_jid (sn_jids lib) s))) (\<lambda>sender.
     s_bind (s_ask (RevokeRaw c to_jid message_id sender) (sn_unit lib) Internal) (\<lambda>_ w.
       s_ok () (note_stored sid (StoreRevoke sid to_jid message_id) w))))"

fun cloud_mark_all :: "'p send_lib \<Rightarrow> cloud_client \<Rightarrow> string list \<Rightarrow> ('w, unit) send_op" where
  "cloud_mark_all lib cl [] = s_ok ()"
| "cloud_mark_all lib cl (i # is) = s_bind (s_lift (db_map_err (\<lambda>e. Internal (cloud_error_text e)) (cloud_mark_read (sn_cloud lib) cl i)))
     (\<lambda>_. cloud_mark_all lib cl is)"

definition mark_as_read :: "'p send_lib \<Rightarrow> string \<Rightarrow> string \<Rightarrow> string option \<Rightarrow> string list \<Rightarrow> ('w, unit) send_op" where
  "mark_as_read lib sid chat sender message_ids = by_provider lib sid (\<lambda>cl. cloud_mark_all lib cl message_ids)
     (s_bind (get_client sid) (\<lambda>c. s_bind (s_try (parse_jid (sn_jids lib) chat)) (\<lambda>chat_jid.
       s_bind (s_try (case sender of None \<Rightarrow> Inr None | Some s \<Rightarrow> map_sum id Some (parse_jid (sn_jids lib) s))) (\<lambda>from.
         s_ask (MarkRead c chat_jid from message_ids) (sn_unit lib) Internal))))"

end
