(* ===== verification/Send_Media.thy ===== *)
theory Send_Media
  imports Send_Common
begin

text \<open>
  Images, videos, audio, documents, stickers, locations and contact cards
  (\<open>src/api/shared/messages/handlers/media.rs\<close> and \<open>contact_location.rs\<close>).
\<close>

section \<open>Media\<close>

text \<open>What a Cloud session sends for a media: a link as it is, or the id of an upload.\<close>

definition cloud_media_object :: "'p send_lib \<Rightarrow> cloud_client \<Rightarrow> media_data \<Rightarrow> ('w, json) send_op" where
  "cloud_media_object lib cl media = (case media of
       MdUrl url \<Rightarrow> s_ok (JObj [(''link'', JStr url)])
     | MdBase64 text mimetype \<Rightarrow> (case sn_b64 lib text of
           None \<Rightarrow> s_fail (BadRequest ''invalid base64 media data: '')
         | Some bs \<Rightarrow> s_bind (s_lift (db_map_err (\<lambda>e. MediaUploadFailed (cloud_error_text e)) (upload_media (sn_cloud lib) cl bs mimetype ''upload'')))
             (\<lambda>resp. case Option.bind (json_get ''id'' resp) json_as_str of
                None \<Rightarrow> s_fail (MediaUploadFailed ''cloud upload response missing id'')
              | Some i \<Rightarrow> s_ok (JObj [(''id'', JStr i)])))
     | MdUploaded _ _ _ _ _ _ _ \<Rightarrow> s_fail (BadRequest
         ''uploaded media pointers are whatsapp_web-specific; use image.url or image.data for whatsapp_cloud sessions''))"

definition cloud_media ::
    "'p send_lib \<Rightarrow> cloud_client \<Rightarrow> string \<Rightarrow> string \<Rightarrow> media_data \<Rightarrow> string option \<Rightarrow> string option \<Rightarrow> string option
     \<Rightarrow> ('w, message_response) send_op" where
  "cloud_media lib cl to kind media caption filename reply_to = s_bind (cloud_media_object lib cl media) (\<lambda>object.
     cloud_send to (cloud_send_media (sn_cloud lib) cl to kind object caption filename reply_to))"

text \<open>The media is read and uploaded; what is sent points to the upload.\<close>

definition uploaded ::
    "'p send_lib \<Rightarrow> nat \<Rightarrow> string \<Rightarrow> media_data \<Rightarrow> ('w, bytes \<times> string \<times> upload_pointer) send_op" where
  "uploaded lib c kind media = s_bind (get_media_data lib media) (\<lambda>(data, mimetype).
     s_bind (s_ask (Upload c kind data) (sn_upload lib) MediaUploadFailed) (\<lambda>up. s_ok (data, mimetype, up)))"

definition media_fields :: "bytes \<Rightarrow> string \<Rightarrow> upload_pointer \<Rightarrow> (string \<times> pval) list" where
  "media_fields data mimetype up = [(''url'', PStr (up_url up)), (''direct_path'', PStr (up_direct_path up)),
     (''media_key'', PBytes (up_media_key up)), (''file_sha256'', PBytes (up_file_sha256 up)),
     (''file_enc_sha256'', PBytes (up_file_enc_sha256 up)), (''file_length'', PInt (int (length data))),
     (''mimetype'', PStr mimetype)]"

definition context_field :: "pval option \<Rightarrow> (string \<times> pval) list" where
  "context_field = opt_p ''context_info'' (\<lambda>v. v)"

text \<open>What the five kinds have in common; they differ in the fields after the upload's and in the quote.\<close>

definition send_uploaded ::
    "'p send_lib \<Rightarrow> string \<Rightarrow> string \<Rightarrow> string \<Rightarrow> string \<Rightarrow> media_data \<Rightarrow> (string \<Rightarrow> string)
     \<Rightarrow> (string \<times> pval) list \<Rightarrow> fake_reply option \<Rightarrow> string option \<Rightarrow> ('w, message_response) send_op" where
  "send_uploaded lib sid to kind part media mime extra fake reply_to = s_bind (reach_admitted lib sid to) (\<lambda>(c, to_jid).
     s_bind (uploaded lib c kind media) (\<lambda>(data, mimetype, up) w.
       deliver lib sid c to_jid (PMsg [(part, PMsg (media_fields data (mime mimetype) up @ extra @
         context_field (quote_context lib sid c to_jid fake reply_to w)))]) w))"

record send_image_request =
  im_to :: string
  im_image :: media_data
  im_caption :: "string option"
  im_reply_to :: "string option"
  im_fake :: "fake_reply option"

definition execute_image :: "'p send_lib \<Rightarrow> string \<Rightarrow> send_image_request \<Rightarrow> ('w, message_response) send_op" where
  "execute_image lib sid r = by_provider lib sid
     (\<lambda>cl. cloud_media lib cl (im_to r) ''image'' (im_image r) (im_caption r) None (im_reply_to r))
     (send_uploaded lib sid (im_to r) ''Image'' ''image_message'' (im_image r) id (opt_p ''caption'' PStr (im_caption r)) (im_fake r) (im_reply_to r))"

record send_video_request =
  vi_to :: string
  vi_video :: media_data
  vi_caption :: "string option"
  vi_reply_to :: "string option"
  vi_fake :: "fake_reply option"

definition execute_video :: "'p send_lib \<Rightarrow> string \<Rightarrow> send_video_request \<Rightarrow> ('w, message_response) send_op" where
  "execute_video lib sid r = by_provider lib sid
     (\<lambda>cl. cloud_media lib cl (vi_to r) ''video'' (vi_video r) (vi_caption r) None (vi_reply_to r))
     (send_uploaded lib sid (vi_to r) ''Video'' ''video_message'' (vi_video r) id (opt_p ''caption'' PStr (vi_caption r)) (vi_fake r) (vi_reply_to r))"

record send_audio_request =
  au_to :: string
  au_audio :: media_data
  au_ptt :: bool
  au_seconds :: "nat option"
  au_waveform :: "string option"
  au_reply_to :: "string option"

definition execute_audio :: "'p send_lib \<Rightarrow> string \<Rightarrow> send_audio_request \<Rightarrow> ('w, message_response) send_op" where
  "execute_audio lib sid r = by_provider lib sid
     (\<lambda>cl. cloud_media lib cl (au_to r) ''audio'' (au_audio r) None None (au_reply_to r))
     (send_uploaded lib sid (au_to r) ''Audio'' ''audio_message'' (au_audio r) id
        ([(''ptt'', PBool (au_ptt r))] @ opt_p ''seconds'' (\<lambda>n. PInt (int n)) (au_seconds r) @
         opt_p ''waveform'' PBytes (Option.bind (au_waveform r) (sn_b64 lib))) None (au_reply_to r))"

record send_document_request =
  do_to :: string
  do_document :: media_data
  do_filename :: string
  do_caption :: "string option"
  do_reply_to :: "string option"
  do_fake :: "fake_reply option"

definition execute_document :: "'p send_lib \<Rightarrow> string \<Rightarrow> send_document_request \<Rightarrow> ('w, message_response) send_op" where
  "execute_document lib sid r = by_provider lib sid
     (\<lambda>cl. cloud_media lib cl (do_to r) ''document'' (do_document r) (do_caption r) (Some (do_filename r)) (do_reply_to r))
     (send_uploaded lib sid (do_to r) ''Document'' ''document_message'' (do_document r) id
        ([(''file_name'', PStr (do_filename r))] @ opt_p ''caption'' PStr (do_caption r)) (do_fake r) (do_reply_to r))"

record send_sticker_request =
  st_to :: string
  st_sticker :: media_data
  st_reply_to :: "string option"

definition execute_sticker :: "'p send_lib \<Rightarrow> string \<Rightarrow> send_sticker_request \<Rightarrow> ('w, message_response) send_op" where
  "execute_sticker lib sid r = by_provider lib sid
     (\<lambda>cl. cloud_media lib cl (st_to r) ''sticker'' (st_sticker r) None None (st_reply_to r))
     (send_uploaded lib sid (st_to r) ''Sticker'' ''sticker_message'' (st_sticker r) (\<lambda>_. ''image/webp'') [] None (st_reply_to r))"

section \<open>Locations and contacts\<close>

record send_location_request =
  lo_to :: string
  lo_latitude :: f64
  lo_longitude :: f64
  lo_name :: "string option"
  lo_address :: "string option"
  lo_reply_to :: "string option"

definition execute_location :: "'p send_lib \<Rightarrow> string \<Rightarrow> send_location_request \<Rightarrow> ('w, message_response) send_op" where
  "execute_location lib sid r = by_provider lib sid
     (\<lambda>cl. cloud_send (lo_to r) (cloud_send_location (sn_cloud lib) cl (lo_to r) (lo_latitude r) (lo_longitude r) (lo_name r) (lo_address r) (lo_reply_to r)))
     (send_built lib sid (lo_to r) (\<lambda>c to_jid w. PMsg [(''location_message'', PMsg ([(''degrees_latitude'', PReal (lo_latitude r)),
        (''degrees_longitude'', PReal (lo_longitude r))] @ opt_p ''name'' PStr (lo_name r) @ opt_p ''address'' PStr (lo_address r) @
        context_field (reply_context lib sid c to_jid (lo_reply_to r) w)))]))"

record send_contact_request =
  co_to :: string
  co_contact :: contact_card
  co_reply_to :: "string option"

definition cloud_contacts :: "contact_card \<Rightarrow> json" where
  "cloud_contacts contact = JArr [JObj [
     (''name'', JObj [(''formatted_name'', JStr (ca_display_name contact)), (''first_name'', JStr (ca_display_name contact))]),
     (''phones'', JArr (map (\<lambda>p. JObj [(''phone'', JStr (ph_number p)), (''type'', JStr (ph_type p))]) (ca_phones contact))),
     (''org'', jopt (\<lambda>org. JObj [(''company'', JStr org)]) (ca_organization contact))]]"

definition execute_contact :: "'p send_lib \<Rightarrow> string \<Rightarrow> send_contact_request \<Rightarrow> ('w, message_response) send_op" where
  "execute_contact lib sid r = by_provider lib sid
     (\<lambda>cl. cloud_send (co_to r) (cloud_send_contacts (sn_cloud lib) cl (co_to r) (cloud_contacts (co_contact r))))
     (send_built lib sid (co_to r) (\<lambda>c to_jid w. PMsg [(''contact_message'', PMsg ([(''display_name'', PStr (ca_display_name (co_contact r))),
        (''vcard'', PStr (build_vcard (co_contact r)))] @ context_field (reply_context lib sid c to_jid (co_reply_to r) w)))]))"

end
