(* ===== verification/Send_Interactive.thy ===== *)
theory Send_Interactive
  imports Send_Media
begin

text \<open>
  Polls, buttons, lists, native flows and the answers to them
  (\<open>src/api/shared/messages/handlers/interactive.rs\<close>). The parameters of a native-flow button are a
  JSON text; an enum value built from a number is the number.
\<close>

section \<open>Polls\<close>

record send_poll_request =
  po_to :: string
  po_name :: string
  po_options :: "string list"
  po_selectable_count :: nat
  po_reply_to :: "string option"

definition execute_poll :: "'p send_lib \<Rightarrow> string \<Rightarrow> send_poll_request \<Rightarrow> ('w, message_response) send_op" where
  "execute_poll lib sid r = send_built lib sid (po_to r) (\<lambda>c to_jid w. PMsg [
     (''poll_creation_message'', PMsg ([(''name'', PStr (po_name r)),
        (''options'', PList (map (\<lambda>name. PMsg [(''option_name'', PStr name)]) (po_options r))),
        (''selectable_options_count'', PInt (int (po_selectable_count r)))] @
        context_field (reply_context lib sid c to_jid (po_reply_to r) w))),
     (''message_context_info'', PMsg [(''message_secret'', PBytes (sn_secret lib))])])"

record poll_update_request =
  pu_to :: string
  pu_poll_message_id :: string
  pu_enc_iv :: "string option"
  pu_enc_payload :: "string option"

text \<open>Text that is not base64 becomes no bytes.\<close>

definition bytes_or_empty :: "'p send_lib \<Rightarrow> string \<Rightarrow> pval" where
  "bytes_or_empty lib text = PBytes (case sn_b64 lib text of None \<Rightarrow> [] | Some bs \<Rightarrow> bs)"

definition execute_poll_update :: "'p send_lib \<Rightarrow> string \<Rightarrow> poll_update_request \<Rightarrow> ('w, message_response) send_op" where
  "execute_poll_update lib sid r = send_inside lib sid (pu_to r) (\<lambda>c to_jid w. PMsg [(''poll_update_message'', PMsg [
     (''poll_creation_message_key'', message_key_for lib sid to_jid (pu_poll_message_id r) w),
     (''vote'', PMsg (opt_p ''enc_payload'' (bytes_or_empty lib) (pu_enc_payload r) @ opt_p ''enc_iv'' (bytes_or_empty lib) (pu_enc_iv r))),
     (''sender_timestamp_ms'', PInt (db_now w * 1000))])])"

section \<open>Buttons and lists\<close>

record button_item =
  bi_button_id :: string
  bi_display_text :: string

record send_buttons_request =
  bu_to :: string
  bu_content_text :: string
  bu_footer :: "string option"
  bu_buttons :: "button_item list"
  bu_header_text :: "string option"
  bu_reply_to :: "string option"

definition cloud_buttons :: "button_item list \<Rightarrow> json" where
  "cloud_buttons bs = JArr (map (\<lambda>b. JObj [(''type'', JStr ''reply''),
     (''reply'', JObj [(''id'', JStr (bi_button_id b)), (''title'', JStr (bi_display_text b))])]) bs)"

definition buttons_message :: "send_buttons_request \<Rightarrow> pval" where
  "buttons_message r = PMsg [(''buttons_message'', PMsg ([(''content_text'', PStr (bu_content_text r))] @
     opt_p ''footer_text'' PStr (bu_footer r) @
     [(''buttons'', PList (map (\<lambda>b. PMsg [(''button_id'', PStr (bi_button_id b)),
        (''button_text'', PMsg [(''display_text'', PStr (bi_display_text b))]), (''type'', PInt 1)]) (bu_buttons r)))] @
     opt_p ''header_type'' (\<lambda>_. PInt 2) (bu_header_text r) @ opt_p ''header_text'' PStr (bu_header_text r)))]"

definition execute_buttons :: "'p send_lib \<Rightarrow> string \<Rightarrow> send_buttons_request \<Rightarrow> ('w, message_response) send_op" where
  "execute_buttons lib sid r = by_provider lib sid
     (\<lambda>cl. cloud_send (bu_to r) (cloud_send_interactive_buttons (sn_cloud lib) cl (bu_to r) (bu_content_text r) (cloud_buttons (bu_buttons r)) (bu_reply_to r)))
     (send_plain lib sid (bu_to r) (buttons_message r))"

record list_row =
  lr_row_id :: string
  lr_title :: string
  lr_description :: "string option"

record list_section =
  ls_title :: string
  ls_rows :: "list_row list"

record send_list_request =
  li_to :: string
  li_title :: string
  li_description :: string
  li_button_text :: string
  li_sections :: "list_section list"
  li_footer :: "string option"
  li_reply_to :: "string option"

definition sections_json :: "list_section list \<Rightarrow> json" where
  "sections_json ss = JArr (map (\<lambda>s. JObj [(''title'', JStr (ls_title s)),
     (''rows'', JArr (map (\<lambda>r. JObj [(''id'', JStr (lr_row_id r)), (''title'', JStr (lr_title r)),
        (''description'', JStr (or_empty (lr_description r)))]) (ls_rows s)))]) ss)"

definition flow_button :: "string \<Rightarrow> string \<Rightarrow> pval" where
  "flow_button name params = PMsg [(''name'', PStr name), (''button_params_json'', PStr params)]"

text \<open>An interactive message around a native flow.\<close>

definition interactive_fields :: "(string \<times> pval) list \<Rightarrow> string \<Rightarrow> string option \<Rightarrow> (string \<times> pval) list \<Rightarrow> pval" where
  "interactive_fields header body footer flow = PMsg (header @ [(''body'', PMsg [(''text'', PStr body)])] @
     opt_p ''footer'' (\<lambda>f. PMsg [(''text'', PStr f)]) footer @ [(''native_flow_message'', PMsg flow)])"

definition list_message :: "'p send_lib \<Rightarrow> send_list_request \<Rightarrow> pval" where
  "list_message lib r = PMsg [(''interactive_message'', interactive_fields [] (li_description r) (li_footer r)
     [(''buttons'', PList [flow_button ''single_select'' (print_json (cb_libs (sn_cloud lib))
        (JObj [(''title'', JStr (li_title r)), (''button'', JStr (li_button_text r)), (''sections'', sections_json (li_sections r))]))])])]"

definition execute_list :: "'p send_lib \<Rightarrow> string \<Rightarrow> send_list_request \<Rightarrow> ('w, message_response) send_op" where
  "execute_list lib sid r = by_provider lib sid
     (\<lambda>cl. cloud_send (li_to r) (cloud_send_interactive_list (sn_cloud lib) cl \<lparr> il_to = li_to r, il_header_text = Some (li_title r),
        il_body_text = li_description r, il_footer_text = li_footer r, il_button_text = li_button_text r,
        il_sections = sections_json (li_sections r), il_reply_to = li_reply_to r \<rparr>))
     (send_plain lib sid (li_to r) (list_message lib r))"

section \<open>Native flows\<close>

record send_interactive_request =
  in_to :: string
  in_body_text :: string
  in_footer_text :: "string option"
  in_buttons :: "(string \<times> string) list"
  in_reply_to :: "string option"
  in_fake :: "fake_reply option"
  in_view_once :: bool

definition interactive_message :: "send_interactive_request \<Rightarrow> pval option \<Rightarrow> pval" where
  "interactive_message r context =
     (let inner = PMsg [(''interactive_message'', (case interactive_fields [] (in_body_text r) (in_footer_text r)
            [(''buttons'', PList (map (\<lambda>(name, params). flow_button name params) (in_buttons r)))] of
            PMsg fs \<Rightarrow> PMsg (fs @ context_field context) | v \<Rightarrow> v))]
      in if in_view_once r then PMsg [(''view_once_message_v2'', PMsg [(''message'', inner)])] else inner)"

definition execute_interactive :: "'p send_lib \<Rightarrow> string \<Rightarrow> send_interactive_request \<Rightarrow> ('w, message_response) send_op" where
  "execute_interactive lib sid r = send_built lib sid (in_to r) (\<lambda>c to_jid w.
     interactive_message r (quote_context lib sid c to_jid (in_fake r) (in_reply_to r) w))"

record send_cta_url_request =
  ct_to :: string
  ct_header_text :: "string option"
  ct_body_text :: string
  ct_footer_text :: "string option"
  ct_display_text :: string
  ct_url :: string
  ct_merchant_url :: "string option"
  ct_image :: "media_data option"

definition cta_params :: "send_cta_url_request \<Rightarrow> json" where
  "cta_params r = JObj [(''display_text'', JStr (ct_display_text r)), (''url'', JStr (ct_url r)),
     (''merchant_url'', JStr (case ct_merchant_url r of Some u \<Rightarrow> u | None \<Rightarrow> ct_url r))]"

definition cta_header_media :: "'p send_lib \<Rightarrow> nat \<Rightarrow> media_data option \<Rightarrow> ('w, pval option) send_op" where
  "cta_header_media lib c picture = (case picture of
       None \<Rightarrow> s_ok None
     | Some media \<Rightarrow> s_bind (uploaded lib c ''Image'' media) (\<lambda>(data, mimetype, up). s_ok (Some (PMsg (media_fields data mimetype up)))))"

definition cta_message :: "'p send_lib \<Rightarrow> send_cta_url_request \<Rightarrow> pval option \<Rightarrow> pval" where
  "cta_message lib r media =
     (let title = (case ct_header_text r of Some t \<Rightarrow> if t \<noteq> [] then t else ct_display_text r | None \<Rightarrow> ct_display_text r)
      in PMsg [(''interactive_message'', interactive_fields
          [(''header'', PMsg ([(''title'', PStr title), (''has_media_attachment'', PBool (media \<noteq> None))] @ opt_p ''image_message'' (\<lambda>m. m) media))]
          (ct_body_text r) (ct_footer_text r)
          [(''buttons'', PList [flow_button ''cta_url'' (print_json (cb_libs (sn_cloud lib)) (cta_params r))]),
           (''message_params_json'', PStr (''{\"tag\":\"cta_url\"}''))])])"

definition execute_cta_url :: "'p send_lib \<Rightarrow> string \<Rightarrow> send_cta_url_request \<Rightarrow> ('w, message_response) send_op" where
  "execute_cta_url lib sid r = s_bind (reach_admitted lib sid (ct_to r)) (\<lambda>(c, to_jid).
     s_bind (cta_header_media lib c (ct_image r)) (\<lambda>media. deliver lib sid c to_jid (cta_message lib r media)))"

record quick_reply_request =
  qk_to :: string
  qk_body_text :: string
  qk_footer_text :: "string option"
  qk_buttons :: "(string \<times> string) list"

definition quick_reply_message :: "'p send_lib \<Rightarrow> quick_reply_request \<Rightarrow> pval" where
  "quick_reply_message lib r = PMsg [(''interactive_message'', interactive_fields [] (qk_body_text r) (qk_footer_text r)
     [(''buttons'', PList (map (\<lambda>(i, display). flow_button ''quick_reply'' (print_json (cb_libs (sn_cloud lib))
        (JObj [(''display_text'', JStr display), (''id'', JStr i)]))) (qk_buttons r)))])]"

definition execute_quick_reply :: "'p send_lib \<Rightarrow> string \<Rightarrow> quick_reply_request \<Rightarrow> ('w, message_response) send_op" where
  "execute_quick_reply lib sid r = s_bind (reach_admitted lib sid (qk_to r)) (\<lambda>(c, to_jid).
     if qk_buttons r = [] then s_fail (Internal ''buttons must contain 1 to 3 items'')
     else deliver lib sid c to_jid (quick_reply_message lib r))"

section \<open>Answers within a chat\<close>

definition bare_quote :: "string option \<Rightarrow> (string \<times> pval) list" where
  "bare_quote = opt_p ''context_info'' (\<lambda>i. PMsg [(''stanza_id'', PStr i)])"

record buttons_response_request =
  br_to :: string
  br_selected_button_id :: string
  br_selected_display_text :: string
  br_reply_to :: "string option"

definition execute_buttons_response :: "'p send_lib \<Rightarrow> string \<Rightarrow> buttons_response_request \<Rightarrow> ('w, message_response) send_op" where
  "execute_buttons_response lib sid r = send_inside lib sid (br_to r) (\<lambda>c to_jid w. PMsg [(''buttons_response_message'', PMsg (
     [(''selected_button_id'', PStr (br_selected_button_id r)), (''type'', PEnum ''DISPLAY_TEXT'')] @ bare_quote (br_reply_to r) @
     [(''selected_display_text'', PStr (br_selected_display_text r))]))])"

record list_response_request =
  lp_to :: string
  lp_title :: string
  lp_selected_row_id :: string
  lp_description :: "string option"
  lp_reply_to :: "string option"

definition execute_list_response :: "'p send_lib \<Rightarrow> string \<Rightarrow> list_response_request \<Rightarrow> ('w, message_response) send_op" where
  "execute_list_response lib sid r = send_inside lib sid (lp_to r) (\<lambda>c to_jid w. PMsg [(''list_response_message'', PMsg (
     [(''title'', PStr (lp_title r)), (''list_type'', PEnum ''SINGLE_SELECT''),
      (''single_select_reply'', PMsg [(''selected_row_id'', PStr (lp_selected_row_id r))])] @
     opt_p ''description'' PStr (lp_description r) @ context_field (reply_context lib sid c to_jid (lp_reply_to r) w)))])"

record interactive_response_request =
  ir_to :: string
  ir_body_text :: "string option"
  ir_name :: string
  ir_params_json :: string
  ir_version :: int
  ir_reply_to :: "string option"

definition execute_interactive_response :: "'p send_lib \<Rightarrow> string \<Rightarrow> interactive_response_request \<Rightarrow> ('w, message_response) send_op" where
  "execute_interactive_response lib sid r = send_inside lib sid (ir_to r) (\<lambda>c to_jid w. PMsg [(''interactive_response_message'', PMsg (
     opt_p ''body'' (\<lambda>t. PMsg [(''text'', PStr t)]) (ir_body_text r) @ bare_quote (ir_reply_to r) @
     [(''native_flow_response_message'', PMsg [(''name'', PStr (ir_name r)), (''params_json'', PStr (ir_params_json r)),
        (''version'', PInt (ir_version r))])]))])"

record highly_structured_request =
  hs_to :: string
  hs_namespace :: string
  hs_element_name :: string
  hs_params :: "string list"
  hs_fallback_lg :: "string option"
  hs_fallback_lc :: "string option"

definition execute_highly_structured :: "'p send_lib \<Rightarrow> string \<Rightarrow> highly_structured_request \<Rightarrow> ('w, message_response) send_op" where
  "execute_highly_structured lib sid r = send_plain lib sid (hs_to r) (PMsg [(''highly_structured_message'', PMsg (
     [(''namespace'', PStr (hs_namespace r)), (''element_name'', PStr (hs_element_name r)), (''params'', PList (map PStr (hs_params r)))] @
     opt_p ''fallback_lg'' PStr (hs_fallback_lg r) @ opt_p ''fallback_lc'' PStr (hs_fallback_lc r)))])"

record template_button_reply_request =
  tb_to :: string
  tb_selected_id :: string
  tb_selected_display_text :: string
  tb_selected_index :: "nat option"
  tb_reply_to :: "string option"

definition execute_template_button_reply :: "'p send_lib \<Rightarrow> string \<Rightarrow> template_button_reply_request \<Rightarrow> ('w, message_response) send_op" where
  "execute_template_button_reply lib sid r = send_inside lib sid (tb_to r) (\<lambda>c to_jid w. PMsg [(''template_button_reply_message'', PMsg (
     [(''selected_id'', PStr (tb_selected_id r)), (''selected_display_text'', PStr (tb_selected_display_text r))] @
     opt_p ''selected_index'' (\<lambda>n. PInt (int n)) (tb_selected_index r) @
     context_field (reply_context lib sid c to_jid (tb_reply_to r) w)))])"

end
