(* ===== verification/Send_Other.thy ===== *)
theory Send_Other
  imports Send_Common
begin

text \<open>
  Orders, invoices, payments, newsletter invites and forwards, and scheduled calls
  (\<open>payments.rs\<close>, \<open>newsletter.rs\<close> and \<open>calls.rs\<close> of \<open>src/api/shared/messages/handlers\<close>). An enum of
  the protocol is the name of its value.
\<close>

section \<open>Orders and invoices\<close>

record send_order_request =
  or_to :: string
  or_order_id :: string
  or_item_count :: "int option"
  or_status :: "string option"
  or_message :: "string option"
  or_order_title :: "string option"
  or_seller_jid :: "string option"
  or_token :: "string option"
  or_total_amount_1000 :: "int option"
  or_total_currency_code :: "string option"

definition order_status :: "string \<Rightarrow> string option" where
  "order_status s = (if s = ''inquiry'' then Some ''INQUIRY'' else if s = ''accepted'' then Some ''ACCEPTED''
     else if s = ''declined'' then Some ''DECLINED'' else None)"

definition execute_order :: "'p send_lib \<Rightarrow> string \<Rightarrow> send_order_request \<Rightarrow> ('w, message_response) send_op" where
  "execute_order lib sid r = send_plain lib sid (or_to r) (PMsg [(''order_message'', PMsg ([(''order_id'', PStr (or_order_id r))] @
     opt_p ''item_count'' PInt (or_item_count r) @ opt_p ''status'' PEnum (Option.bind (or_status r) order_status) @
     opt_p ''message'' PStr (or_message r) @ opt_p ''order_title'' PStr (or_order_title r) @ opt_p ''seller_jid'' PStr (or_seller_jid r) @
     opt_p ''token'' PStr (or_token r) @ opt_p ''total_amount1000'' PInt (or_total_amount_1000 r) @
     opt_p ''total_currency_code'' PStr (or_total_currency_code r)))])"

record send_invoice_request =
  iv_to :: string
  iv_note :: "string option"
  iv_token :: "string option"
  iv_attachment_type :: "string option"
  iv_attachment_mimetype :: "string option"

definition attachment_type :: "string \<Rightarrow> string option" where
  "attachment_type t = (if t = ''image'' then Some ''IMAGE'' else if t = ''pdf'' then Some ''PDF'' else None)"

definition execute_invoice :: "'p send_lib \<Rightarrow> string \<Rightarrow> send_invoice_request \<Rightarrow> ('w, message_response) send_op" where
  "execute_invoice lib sid r = send_plain lib sid (iv_to r) (PMsg [(''invoice_message'', PMsg (opt_p ''note'' PStr (iv_note r) @
     opt_p ''token'' PStr (iv_token r) @ opt_p ''attachment_type'' PEnum (Option.bind (iv_attachment_type r) attachment_type) @
     opt_p ''attachment_mimetype'' PStr (iv_attachment_mimetype r)))])"

section \<open>Payments\<close>

definition execute_payment_invite :: "'p send_lib \<Rightarrow> string \<Rightarrow> string \<Rightarrow> int option \<Rightarrow> ('w, message_response) send_op" where
  "execute_payment_invite lib sid to service_type = send_plain lib sid to (PMsg [(''payment_invite_message'', PMsg
     (opt_p ''service_type'' PInt (Option.bind service_type (\<lambda>n. if sn_service_type lib n then Some n else None))))])"

definition payment_note :: "string \<Rightarrow> pval" where
  "payment_note text = PMsg [(''extended_text_message'', PMsg [(''text'', PStr text)])]"

record send_payment_request =
  sp_to :: string
  sp_note :: "string option"
  sp_request_message_id :: "string option"
  sp_transaction_data :: "string option"

definition execute_payment :: "'p send_lib \<Rightarrow> string \<Rightarrow> send_payment_request \<Rightarrow> ('w, message_response) send_op" where
  "execute_payment lib sid r = send_plain lib sid (sp_to r) (PMsg [(''send_payment_message'', PMsg (
     opt_p ''note_message'' payment_note (sp_note r) @
     opt_p ''request_message_key'' (\<lambda>i. key_literal (sp_to r) i False None) (sp_request_message_id r) @
     opt_p ''transaction_data'' PStr (sp_transaction_data r)))])"

record request_payment_request =
  rp_to :: string
  rp_currency_code :: string
  rp_amount1000 :: nat
  rp_note :: "string option"
  rp_expiry_timestamp :: "int option"

definition execute_request_payment :: "'p send_lib \<Rightarrow> string \<Rightarrow> request_payment_request \<Rightarrow> ('w, message_response) send_op" where
  "execute_request_payment lib sid r = send_plain lib sid (rp_to r) (PMsg [(''request_payment_message'', PMsg (
     opt_p ''note_message'' payment_note (rp_note r) @ [(''currency_code_iso4217'', PStr (rp_currency_code r)),
     (''amount1000'', PInt (int (rp_amount1000 r))), (''request_from'', PStr (rp_to r))] @
     opt_p ''expiry_timestamp'' PInt (rp_expiry_timestamp r)))])"

definition execute_cancel_payment_request :: "'p send_lib \<Rightarrow> string \<Rightarrow> string \<Rightarrow> string \<Rightarrow> ('w, message_response) send_op" where
  "execute_cancel_payment_request lib sid to request_message_id = send_plain lib sid to
     (PMsg [(''cancel_payment_request_message'', PMsg [(''key'', key_literal to request_message_id False None)])])"

definition execute_decline_payment_request :: "'p send_lib \<Rightarrow> string \<Rightarrow> string \<Rightarrow> string \<Rightarrow> ('w, message_response) send_op" where
  "execute_decline_payment_request lib sid to request_message_id = send_plain lib sid to
     (PMsg [(''decline_payment_request_message'', PMsg [(''key'', key_literal to request_message_id False None)])])"

section \<open>Newsletters\<close>

record admin_invite_request =
  ai_to :: string
  ai_newsletter_jid :: string
  ai_newsletter_name :: string
  ai_caption :: "string option"
  ai_invite_expiration :: "int option"

definition execute_newsletter_admin_invite :: "'p send_lib \<Rightarrow> string \<Rightarrow> admin_invite_request \<Rightarrow> ('w, message_response) send_op" where
  "execute_newsletter_admin_invite lib sid r = send_plain lib sid (ai_to r) (PMsg [(''newsletter_admin_invite_message'', PMsg (
     [(''newsletter_jid'', PStr (ai_newsletter_jid r)), (''newsletter_name'', PStr (ai_newsletter_name r))] @
     opt_p ''caption'' PStr (ai_caption r) @ opt_p ''invite_expiration'' PInt (ai_invite_expiration r)))])"

record follower_invite_request =
  fi_to :: string
  fi_newsletter_jid :: string
  fi_newsletter_name :: string
  fi_caption :: "string option"

definition execute_newsletter_follower_invite :: "'p send_lib \<Rightarrow> string \<Rightarrow> follower_invite_request \<Rightarrow> ('w, message_response) send_op" where
  "execute_newsletter_follower_invite lib sid r = send_plain lib sid (fi_to r) (PMsg [(''newsletter_follower_invite_message_v2'', PMsg (
     [(''newsletter_jid'', PStr (fi_newsletter_jid r)), (''newsletter_name'', PStr (fi_newsletter_name r))] @
     opt_p ''caption'' PStr (fi_caption r)))])"

record newsletter_forward_request =
  nf_to :: string
  nf_text :: string
  nf_newsletter_jid :: string
  nf_server_message_id :: int
  nf_newsletter_name :: "string option"
  nf_content_type :: "string option"

definition newsletter_content_type :: "string option \<Rightarrow> string" where
  "newsletter_content_type t = (if t = Some ''update_card'' then ''UPDATE_CARD''
     else if t = Some ''link_card'' then ''LINK_CARD'' else ''UPDATE'')"

definition execute_newsletter_forward :: "'p send_lib \<Rightarrow> string \<Rightarrow> newsletter_forward_request \<Rightarrow> ('w, message_response) send_op" where
  "execute_newsletter_forward lib sid r = send_plain lib sid (nf_to r) (PMsg [(''extended_text_message'', PMsg [(''text'', PStr (nf_text r)),
     (''context_info'', PMsg [(''is_forwarded'', PBool True), (''forwarding_score'', PInt 1),
       (''forwarded_newsletter_message_info'', PMsg ([(''newsletter_jid'', PStr (nf_newsletter_jid r)),
          (''server_message_id'', PInt (nf_server_message_id r))] @ opt_p ''newsletter_name'' PStr (nf_newsletter_name r) @
          [(''content_type'', PEnum (newsletter_content_type (nf_content_type r)))]))])])])"

section \<open>Scheduled calls\<close>

record scheduled_call_request =
  sk_to :: string
  sk_scheduled_timestamp_ms :: int
  sk_call_type :: string
  sk_title :: "string option"

definition execute_scheduled_call :: "'p send_lib \<Rightarrow> string \<Rightarrow> scheduled_call_request \<Rightarrow> ('w, message_response) send_op" where
  "execute_scheduled_call lib sid r = send_plain lib sid (sk_to r) (PMsg [(''scheduled_call_creation_message'', PMsg (
     [(''scheduled_timestamp_ms'', PInt (sk_scheduled_timestamp_ms r)),
      (''call_type'', PEnum (if to_ascii_lowercase (sk_call_type r) = ''video'' then ''VIDEO'' else ''VOICE''))] @
     opt_p ''title'' PStr (sk_title r)))])"

definition execute_scheduled_call_edit :: "'p send_lib \<Rightarrow> string \<Rightarrow> string \<Rightarrow> string \<Rightarrow> string \<Rightarrow> ('w, message_response) send_op" where
  "execute_scheduled_call_edit lib sid to message_id edit_type = send_plain lib sid to (PMsg [(''scheduled_call_edit_message'', PMsg [
     (''key'', key_literal to message_id True None),
     (''edit_type'', PEnum (if to_ascii_lowercase edit_type = ''cancel'' then ''CANCEL'' else ''UNKNOWN''))])])"

end
