(* ===== verification/Message_Dispatch.thy ===== *)
theory Message_Dispatch
  imports Gateway_State
begin

text \<open>
  Replaying a stored request (\<open>dispatch\<close> and \<open>validate_body\<close> of
  \<open>src/api/shared/schedule/handlers.rs\<close>), shared by the scheduler and the blast worker. The
  request structs and the \<open>execute_*\<close> functions behind the endpoint keys are an argument:
  \<open>ep_from_text\<close> and \<open>ep_from_value\<close> deserialize into the request struct of a key, and
  \<open>ep_execute\<close> sends.
\<close>

record ('req, 'w) endpoints =
  ep_from_text :: "string \<Rightarrow> string \<Rightarrow> string + 'req"
  ep_from_value :: "string \<Rightarrow> json \<Rightarrow> string + 'req"
  ep_execute :: "string \<Rightarrow> string \<Rightarrow> 'req \<Rightarrow> 'w \<Rightarrow> (api_error + message_response) \<times> 'w"

text \<open>The arms of the two matches, in their order.\<close>

definition dispatch_arms :: "string list" where
  "dispatch_arms = [''text'', ''image'', ''video'', ''audio'', ''document'', ''sticker'', ''location'',
     ''contact'', ''poll'', ''buttons'', ''list'', ''interactive'', ''cta-url'', ''quick-reply'',
     ''newsletter-admin-invite'', ''newsletter-follower-invite'', ''order'', ''invoice'',
     ''payment-invite'', ''forward'', ''poll-update'', ''buttons-response'', ''list-response'',
     ''interactive-response'', ''highly-structured'', ''template-button-reply'', ''comment'',
     ''scheduled-call'', ''scheduled-call-edit'', ''send-payment'', ''request-payment'',
     ''cancel-payment'', ''decline-payment'', ''newsletter-forward'']"

definition validate_arms :: "string list" where
  "validate_arms = [''text'', ''image'', ''video'', ''audio'', ''document'', ''sticker'', ''location'',
     ''contact'', ''poll'', ''buttons'', ''list'', ''interactive'', ''cta-url'', ''quick-reply'',
     ''newsletter-admin-invite'', ''newsletter-follower-invite'', ''order'', ''invoice'',
     ''payment-invite'', ''forward'', ''poll-update'', ''buttons-response'', ''list-response'',
     ''interactive-response'', ''highly-structured'', ''template-button-reply'', ''comment'',
     ''scheduled-call'', ''scheduled-call-edit'', ''send-payment'', ''request-payment'',
     ''cancel-payment'', ''decline-payment'', ''newsletter-forward'']"

definition dispatch ::
    "('req, 'w) endpoints \<Rightarrow> string \<Rightarrow> string \<Rightarrow> string \<Rightarrow> 'w \<Rightarrow> (string + message_response) \<times> 'w" where
  "dispatch el sid endpoint body w =
     (if endpoint \<in> set dispatch_arms
      then (case ep_from_text el endpoint body of
              Inl e \<Rightarrow> (Inl (''stored body no longer deserializes: '' @ e), w)
            | Inr request \<Rightarrow> db_map_err error_message (ep_execute el endpoint sid request) w)
      else (Inl (''unknown scheduled endpoint: '' @ endpoint), w))"

definition validate_body :: "('req, 'w) endpoints \<Rightarrow> string \<Rightarrow> json \<Rightarrow> string + unit" where
  "validate_body el endpoint body =
     (if endpoint \<in> set validate_arms
      then (case ep_from_value el endpoint body of
              Inl e \<Rightarrow> Inl (''body does not fit the '' @ endpoint @ '' request shape: '' @ e)
            | Inr _ \<Rightarrow> Inr ())
      else Inl (''unknown endpoint: '' @ endpoint))"

lemma arms_agree: "validate_arms = dispatch_arms"
  by (simp add: validate_arms_def dispatch_arms_def)

text \<open>The check made when a blast is created and the replay made later agree, for a JSON library
  under which deserializing a printed value is deserializing the value: a body that
  \<open>validate_body\<close> accepts is executed by \<open>dispatch\<close>, as the request it was read as, and the
  answer is that of the send; a body it rejects would never be sent: the replay fails and
  changes nothing.\<close>

theorem validate_body_agrees_with_dispatch:
  assumes "\<And>ep v. ep_from_text el ep (print_json lib v) = ep_from_value el ep v"
  shows "(case validate_body el ep v of
      Inr _ \<Rightarrow> \<exists>request. ep_from_value el ep v = Inr request \<and>
        dispatch el sid ep (print_json lib v) w = db_map_err error_message (ep_execute el ep sid request) w
    | Inl _ \<Rightarrow> \<exists>e. dispatch el sid ep (print_json lib v) w = (Inl e, w))"
  using assms by (auto simp: validate_body_def dispatch_def arms_agree split: sum.splits)

definition echo_endpoints :: "(string, nat) endpoints" where
  "echo_endpoints = \<lparr> ep_from_text = (\<lambda>ep t. Inr ep), ep_from_value = (\<lambda>ep v. Inr ep),
     ep_execute = (\<lambda>ep sid r w. (Inr \<lparr> mr_message_id = r, mr_timestamp = 0, mr_to = sid \<rparr>, w + 1)) \<rparr>"

lemma validate_body_agrees_with_dispatch_witness:
  "validate_body echo_endpoints ''poll'' JNull = Inr () \<and>
   dispatch echo_endpoints ''s'' ''poll'' (print_json demo_libs JNull) 0
     = (Inr \<lparr> mr_message_id = ''poll'', mr_timestamp = 0, mr_to = ''s'' \<rparr>, 1)"
proof -
  have ok: "validate_body echo_endpoints ''poll'' JNull = Inr ()"
    by (simp add: validate_body_def validate_arms_def echo_endpoints_def)
  have law: "ep_from_text echo_endpoints ep (print_json demo_libs v) = ep_from_value echo_endpoints ep v" for ep v
    by (simp add: echo_endpoints_def)
  show ?thesis
    using validate_body_agrees_with_dispatch [where el = echo_endpoints and lib = demo_libs and
        ep = "''poll''" and v = JNull and sid = "''s''" and w = 0, OF law] ok
    by (simp add: db_map_err_def) (simp add: echo_endpoints_def)
qed

end
