(* ===== verification/Send_Dispatch.thy ===== *)
theory Send_Dispatch
  imports Send_Text Send_Interactive Send_Other Message_Dispatch
begin

text \<open>
  The sends behind the keys by which the scheduler and the blast worker replay a request
  (\<open>dispatch\<close> in \<open>src/api/shared/schedule/handlers.rs\<close>): one request, one \<open>execute_*\<close>.
\<close>

datatype send_request =
    Text send_text_request
  | Image send_image_request
  | Video send_video_request
  | Audio send_audio_request
  | Document send_document_request
  | Sticker send_sticker_request
  | Location send_location_request
  | Contact send_contact_request
  | Poll send_poll_request
  | Buttons send_buttons_request
  | List_Message send_list_request
  | Interactive send_interactive_request
  | CtaUrl send_cta_url_request
  | QuickReply quick_reply_request
  | AdminInvite admin_invite_request
  | FollowerInvite follower_invite_request
  | Order send_order_request
  | Invoice send_invoice_request
  | PaymentInvite string "int option"
  | Forward forward_request
  | PollUpdate poll_update_request
  | ButtonsResponse buttons_response_request
  | ListResponse list_response_request
  | InteractiveResponse interactive_response_request
  | HighlyStructured highly_structured_request
  | TemplateButtonReply template_button_reply_request
  | Comment comment_request
  | ScheduledCall scheduled_call_request
  | ScheduledCallEdit string string string
  | SendPayment send_payment_request
  | RequestPayment request_payment_request
  | CancelPayment string string
  | DeclinePayment string string
  | NewsletterForward newsletter_forward_request

fun execute :: "'p send_lib \<Rightarrow> string \<Rightarrow> send_request \<Rightarrow> ('w, message_response) send_op" where
  "execute lib sid (Text r) = execute_text lib sid r"
| "execute lib sid (Image r) = execute_image lib sid r"
| "execute lib sid (Video r) = execute_video lib sid r"
| "execute lib sid (Audio r) = execute_audio lib sid r"
| "execute lib sid (Document r) = execute_document lib sid r"
| "execute lib sid (Sticker r) = execute_sticker lib sid r"
| "execute lib sid (Location r) = execute_location lib sid r"
| "execute lib sid (Contact r) = execute_contact lib sid r"
| "execute lib sid (Poll r) = execute_poll lib sid r"
| "execute lib sid (Buttons r) = execute_buttons lib sid r"
| "execute lib sid (List_Message r) = execute_list lib sid r"
| "execute lib sid (Interactive r) = execute_interactive lib sid r"
| "execute lib sid (CtaUrl r) = execute_cta_url lib sid r"
| "execute lib sid (QuickReply r) = execute_quick_reply lib sid r"
| "execute lib sid (AdminInvite r) = execute_newsletter_admin_invite lib sid r"
| "execute lib sid (FollowerInvite r) = execute_newsletter_follower_invite lib sid r"
| "execute lib sid (Order r) = execute_order lib sid r"
| "execute lib sid (Invoice r) = execute_invoice lib sid r"
| "execute lib sid (PaymentInvite to st) = execute_payment_invite lib sid to st"
| "execute lib sid (Forward r) = execute_forward_message lib sid r"
| "execute lib sid (PollUpdate r) = execute_poll_update lib sid r"
| "execute lib sid (ButtonsResponse r) = execute_buttons_response lib sid r"
| "execute lib sid (ListResponse r) = execute_list_response lib sid r"
| "execute lib sid (InteractiveResponse r) = execute_interactive_response lib sid r"
| "execute lib sid (HighlyStructured r) = execute_highly_structured lib sid r"
| "execute lib sid (TemplateButtonReply r) = execute_template_button_reply lib sid r"
| "execute lib sid (Comment r) = execute_comment lib sid r"
| "execute lib sid (ScheduledCall r) = execute_scheduled_call lib sid r"
| "execute lib sid (ScheduledCallEdit to i edit) = execute_scheduled_call_edit lib sid to i edit"
| "execute lib sid (SendPayment r) = execute_payment lib sid r"
| "execute lib sid (RequestPayment r) = execute_request_payment lib sid r"
| "execute lib sid (CancelPayment to i) = execute_cancel_payment_request lib sid to i"
| "execute lib sid (DeclinePayment to i) = execute_decline_payment_request lib sid to i"
| "execute lib sid (NewsletterForward r) = execute_newsletter_forward lib sid r"

fun endpoint_key :: "send_request \<Rightarrow> string" where
  "endpoint_key (Text r) = ''text''"
| "endpoint_key (Image r) = ''image''"
| "endpoint_key (Video r) = ''video''"
| "endpoint_key (Audio r) = ''audio''"
| "endpoint_key (Document r) = ''document''"
| "endpoint_key (Sticker r) = ''sticker''"
| "endpoint_key (Location r) = ''location''"
| "endpoint_key (Contact r) = ''contact''"
| "endpoint_key (Poll r) = ''poll''"
| "endpoint_key (Buttons r) = ''buttons''"
| "endpoint_key (List_Message r) = ''list''"
| "endpoint_key (Interactive r) = ''interactive''"
| "endpoint_key (CtaUrl r) = ''cta-url''"
| "endpoint_key (QuickReply r) = ''quick-reply''"
| "endpoint_key (AdminInvite r) = ''newsletter-admin-invite''"
| "endpoint_key (FollowerInvite r) = ''newsletter-follower-invite''"
| "endpoint_key (Order r) = ''order''"
| "endpoint_key (Invoice r) = ''invoice''"
| "endpoint_key (PaymentInvite to st) = ''payment-invite''"
| "endpoint_key (Forward r) = ''forward''"
| "endpoint_key (PollUpdate r) = ''poll-update''"
| "endpoint_key (ButtonsResponse r) = ''buttons-response''"
| "endpoint_key (ListResponse r) = ''list-response''"
| "endpoint_key (InteractiveResponse r) = ''interactive-response''"
| "endpoint_key (HighlyStructured r) = ''highly-structured''"
| "endpoint_key (TemplateButtonReply r) = ''template-button-reply''"
| "endpoint_key (Comment r) = ''comment''"
| "endpoint_key (ScheduledCall r) = ''scheduled-call''"
| "endpoint_key (ScheduledCallEdit to i edit) = ''scheduled-call-edit''"
| "endpoint_key (SendPayment r) = ''send-payment''"
| "endpoint_key (RequestPayment r) = ''request-payment''"
| "endpoint_key (CancelPayment to i) = ''cancel-payment''"
| "endpoint_key (DeclinePayment to i) = ''decline-payment''"
| "endpoint_key (NewsletterForward r) = ''newsletter-forward''"

text \<open>Every request is one of the arms of the dispatcher.\<close>

lemma endpoint_key_dispatched: "endpoint_key r \<in> set dispatch_arms"
  by (cases r) (simp_all add: dispatch_arms_def)

fun recipient_of :: "send_request \<Rightarrow> string" where
  "recipient_of (Text r) = tx_to r"
| "recipient_of (Image r) = im_to r"
| "recipient_of (Video r) = vi_to r"
| "recipient_of (Audio r) = au_to r"
| "recipient_of (Document r) = do_to r"
| "recipient_of (Sticker r) = st_to r"
| "recipient_of (Location r) = lo_to r"
| "recipient_of (Contact r) = co_to r"
| "recipient_of (Poll r) = po_to r"
| "recipient_of (Buttons r) = bu_to r"
| "recipient_of (List_Message r) = li_to r"
| "recipient_of (Interactive r) = in_to r"
| "recipient_of (CtaUrl r) = ct_to r"
| "recipient_of (QuickReply r) = qk_to r"
| "recipient_of (AdminInvite r) = ai_to r"
| "recipient_of (FollowerInvite r) = fi_to r"
| "recipient_of (Order r) = or_to r"
| "recipient_of (Invoice r) = iv_to r"
| "recipient_of (PaymentInvite to st) = to"
| "recipient_of (Forward r) = fw_to r"
| "recipient_of (PollUpdate r) = pu_to r"
| "recipient_of (ButtonsResponse r) = br_to r"
| "recipient_of (ListResponse r) = lp_to r"
| "recipient_of (InteractiveResponse r) = ir_to r"
| "recipient_of (HighlyStructured r) = hs_to r"
| "recipient_of (TemplateButtonReply r) = tb_to r"
| "recipient_of (Comment r) = cm_to r"
| "recipient_of (ScheduledCall r) = sk_to r"
| "recipient_of (ScheduledCallEdit to i edit) = to"
| "recipient_of (SendPayment r) = sp_to r"
| "recipient_of (RequestPayment r) = rp_to r"
| "recipient_of (CancelPayment to i) = to"
| "recipient_of (DeclinePayment to i) = to"
| "recipient_of (NewsletterForward r) = nf_to r"

text \<open>The kinds that answer within a chat.\<close>

fun answers_inside :: "send_request \<Rightarrow> bool" where
  "answers_inside (PollUpdate r) = True"
| "answers_inside (ButtonsResponse r) = True"
| "answers_inside (ListResponse r) = True"
| "answers_inside (InteractiveResponse r) = True"
| "answers_inside (TemplateButtonReply r) = True"
| "answers_inside _ = False"

end
