(* ===== verification/Cloud_Webhook.thy ===== *)
theory Cloud_Webhook
  imports Cloud_Admin Flow_Crypto
begin

text \<open>
  What Meta delivers (\<open>src/cloud/webhook.rs\<close> and the receivers in
  \<open>src/api/cloud/connection/handlers.rs\<close>): the handshake, the check of the signature, and the
  translation of a delivery into message and receipt events, each announced to the webhooks and to
  NATS.
\<close>

section \<open>Normalizing a delivery\<close>

definition json_items :: "json option \<Rightarrow> json list option" where
  "json_items v = (case v of Some (JArr xs) \<Rightarrow> Some xs | _ \<Rightarrow> None)"

definition items_or_none :: "string \<Rightarrow> json \<Rightarrow> json list" where
  "items_or_none k v = (case json_items (json_get k v) of None \<Rightarrow> [] | Some xs \<Rightarrow> xs)"

text \<open>The values of all changes, in order.\<close>

definition change_values :: "json \<Rightarrow> json list" where
  "change_values payload = List.map_filter (json_get ''value'')
     (concat (map (items_or_none ''changes'') (items_or_none ''entry'' payload)))"

abbreviation path2 :: "string \<Rightarrow> string \<Rightarrow> json \<Rightarrow> json option" where
  "path2 a b v \<equiv> Option.bind (json_get a v) (json_get b)"

abbreviation text2 :: "string \<Rightarrow> string \<Rightarrow> json \<Rightarrow> string option" where
  "text2 a b v \<equiv> Option.bind (path2 a b v) json_as_str"

definition only_if :: "bool \<Rightarrow> 'a option \<Rightarrow> 'a option" where
  "only_if b v = (if b then v else None)"

abbreviation jval :: "json option \<Rightarrow> json" where "jval \<equiv> jopt (\<lambda>j. j)"

definition push_name_of :: "string \<Rightarrow> json list option \<Rightarrow> string option" where
  "push_name_of from contacts =
     Option.bind (Option.bind contacts (find (\<lambda>c. text_field ''wa_id'' c = Some from))) (text2 ''profile'' ''name'')"

definition normalize_one_message :: "libs \<Rightarrow> unix \<Rightarrow> json \<Rightarrow> json \<Rightarrow> json list option \<Rightarrow> json" where
  "normalize_one_message lib now value msg contacts =
     (let from = or_empty (text_field ''from'' msg);
          message_id = or_empty (text_field ''id'' msg);
          msg_type = (case text_field ''type'' msg of Some t \<Rightarrow> t | None \<Rightarrow> ''unknown'');
          timestamp = (case Option.bind (text_field ''timestamp'' msg) parse_i64 of Some t \<Rightarrow> t | None \<Rightarrow> now);
          media = only_if (msg_type \<in> set [''image'', ''video'', ''audio'', ''document'', ''sticker'']) (json_get msg_type msg);
          location = only_if (msg_type = ''location'') (json_get ''location'' msg);
          interactive = only_if (msg_type = ''interactive'') (json_get ''interactive'' msg);
          flow_response = Option.bind (Option.bind interactive (text2 ''nfm_reply'' ''response_json'')) (parse_json lib);
          order = only_if (msg_type = ''order'') (json_get ''order'' msg)
      in JObj [(''from'', JStr from), (''from_phone'', JStr from),
           (''chat'', JStr (or_empty (text2 ''metadata'' ''phone_number_id'' value))),
           (''chat_phone'', jstr (text2 ''metadata'' ''display_phone_number'' value)),
           (''quoted_message_id'', jstr (text2 ''context'' ''id'' msg)), (''quoted_sender_jid'', jstr (text2 ''context'' ''from'' msg)),
           (''referred_product'', jval (path2 ''context'' ''referred_product'' msg)), (''order'', jval order),
           (''message_id'', JStr message_id), (''timestamp'', JInt timestamp), (''is_from_me'', JBool False),
           (''push_name'', jstr (push_name_of from contacts)), (''verified_name'', JNull), (''type'', JStr msg_type),
           (''media_type'', JNull), (''message_type'', JStr msg_type), (''text'', jstr (text2 ''text'' ''body'' msg)),
           (''caption'', jstr (text2 msg_type ''caption'' msg)), (''media'', jval media), (''location'', jval location),
           (''interactive'', jval interactive), (''flow_response'', jval flow_response), (''is_group'', JBool False),
           (''participant'', JStr from)])"

definition normalize_messages :: "libs \<Rightarrow> unix \<Rightarrow> json \<Rightarrow> json list" where
  "normalize_messages lib now payload = concat (map (\<lambda>value.
     map (\<lambda>msg. normalize_one_message lib now value msg (json_items (json_get ''contacts'' value))) (items_or_none ''messages'' value))
     (change_values payload))"

definition normalize_one_status :: "json \<Rightarrow> json \<Rightarrow> json" where
  "normalize_one_status value s = JObj [(''provider'', JStr ''whatsapp_cloud''),
     (''chat'', jval (path2 ''metadata'' ''phone_number_id'' value)), (''message_id'', jval (json_get ''id'' s)),
     (''recipient'', jval (case json_get ''recipient_id'' s of Some r \<Rightarrow> Some r | None \<Rightarrow> json_get ''from'' s)),
     (''status'', jval (json_get ''status'' s)), (''type'', jval (json_get ''type'' s)),
     (''timestamp'', jopt JInt (Option.bind (text_field ''timestamp'' s) parse_i64)), (''errors'', jval (json_get ''errors'' s)),
     (''conversation'', jval (json_get ''conversation'' s)), (''pricing'', jval (json_get ''pricing'' s)),
     (''payment'', jval (json_get ''payment'' s))]"

definition normalize_statuses :: "json \<Rightarrow> json list" where
  "normalize_statuses payload = concat (map (\<lambda>value. map (normalize_one_status value) (items_or_none ''statuses'' value))
     (change_values payload))"

section \<open>The endpoints Meta calls\<close>

text \<open>\<open>Ok(Some(creds))\<close> or nothing.\<close>

definition known_credentials :: "string \<Rightarrow> 'w outbound_scheme \<Rightarrow> cloud_credentials option \<times> 'w outbound_scheme" where
  "known_credentials sid w = (case get_cloud_credentials sid w of (Inr (Some cr), w1) \<Rightarrow> (Some cr, w1) | (_, w1) \<Rightarrow> (None, w1))"

definition cloud_webhook_verify :: "string \<Rightarrow> (string \<times> string) list \<Rightarrow> 'w outbound_scheme \<Rightarrow> (nat \<times> string) \<times> 'w outbound_scheme" where
  "cloud_webhook_verify sid params w = (case known_credentials sid w of
       (None, w1) \<Rightarrow> ((404, ''unknown cloud session''), w1)
     | (Some cr, w1) \<Rightarrow> (case verify_challenge (cc_webhook_verify_token cr) (map_of params ''hub.mode'')
             (map_of params ''hub.verify_token'') (map_of params ''hub.challenge'') of
           Some challenge \<Rightarrow> ((200, challenge), w1) | None \<Rightarrow> ((403, ''verification failed''), w1)))"

definition cloud_announce :: "libs \<Rightarrow> string \<Rightarrow> string \<Rightarrow> unix \<Rightarrow> json \<Rightarrow> 'w outbound_scheme \<Rightarrow> 'w outbound_scheme" where
  "cloud_announce lib sid event timestamp data w =
     (let text = print_json lib (JObj [(''session_id'', JStr sid), (''event'', JStr event), (''timestamp'', JInt timestamp),
            (''offline'', JBool False), (''data'', data)]);
          (ds, w1) = broadcast_to_webhooks lib sid event text w
      in publish_to_nats sid event text (w1\<lparr>gw_spawned := gw_spawned w1 @ ds\<rparr>))"

definition cloud_webhook_receive ::
    "cloud_lib \<Rightarrow> 'k crypto_lib \<Rightarrow> string \<Rightarrow> string option \<Rightarrow> bytes \<Rightarrow> 'w outbound_scheme \<Rightarrow> nat \<times> 'w outbound_scheme" where
  "cloud_webhook_receive lib cy sid signature body w = (case known_credentials sid w of
       (None, w1) \<Rightarrow> (404, w1)
     | (Some cr, w1) \<Rightarrow>
         if \<not> verify_signature cy (cc_app_secret cr) body signature then (401, w1)
         else (case cy_from_slice cy body of None \<Rightarrow> (400, w1)
           | Some payload \<Rightarrow>
               let now = db_now w1;
                   w2 = fold (cloud_announce (cb_libs lib) sid ''message'' now) (normalize_messages (cb_libs lib) now payload) w1;
                   w3 = fold (cloud_announce (cb_libs lib) sid ''receipt'' now) (normalize_statuses payload) w2
               in (200, w3)))"

end
