(* ===== verification/Cloud_Connection.thy ===== *)
theory Cloud_Connection
  imports Cloud_Webhook
begin

text \<open>
  The rest of the Cloud API: attaching credentials, the embedded signup, templates and media
  (\<open>src/api/cloud/connection/handlers.rs\<close>, \<open>src/cloud/embedded_signup.rs\<close>), commerce
  (\<open>src/api/cloud/commerce/handlers.rs\<close>) and Flows (\<open>src/api/cloud/flows/handlers.rs\<close>).
\<close>

section \<open>Connecting\<close>

definition connect_cloud_api :: "string \<Rightarrow> connect_cloud_request \<Rightarrow> ('w, session_info) life_handler" where
  "connect_cloud_api sid request =
     db_bind (found_session sid) (\<lambda>_.
       db_bind (db_map_err Internal (connect_cloud sid request)) (\<lambda>_ w.
         found_session sid (remove_runtime sid (shutdown_client (installed_client sid w) w))))"

definition signup_base :: "cloud_lib \<Rightarrow> string" where
  "signup_base lib = ''https://graph.facebook.com/'' @ api_version lib"

definition bearer_token :: "string \<Rightarrow> (string \<times> string) list" where
  "bearer_token token = [(''Authorization'', ''Bearer '' @ token)]"

definition exchange_code :: "cloud_lib \<Rightarrow> string \<Rightarrow> string \<Rightarrow> string \<Rightarrow> ('w, cloud_error, json) calls" where
  "exchange_code lib app secret code = http_json lib \<lparr> hc_method = GET, hc_url = signup_base lib @ ''/oauth/access_token?client_id='' @ app
     @ ''&client_secret='' @ secret @ ''&code='' @ code, hc_headers = [], hc_query = [], hc_body = NoBody \<rparr>"

definition signup_subscribe_app :: "cloud_lib \<Rightarrow> string \<Rightarrow> string \<Rightarrow> ('w, cloud_error, json) calls" where
  "signup_subscribe_app lib waba_id token = http_json lib \<lparr> hc_method = POST, hc_url = signup_base lib @ ''/'' @ waba_id @ ''/subscribed_apps'',
     hc_headers = bearer_token token, hc_query = [], hc_body = NoBody \<rparr>"

definition signup_phone_numbers :: "cloud_lib \<Rightarrow> string \<Rightarrow> string \<Rightarrow> ('w, cloud_error, json) calls" where
  "signup_phone_numbers lib waba_id token = http_json lib \<lparr> hc_method = GET, hc_url = signup_base lib @ ''/'' @ waba_id @ ''/phone_numbers'',
     hc_headers = bearer_token token, hc_query = [], hc_body = NoBody \<rparr>"

record signup_request =
  sg_code :: string
  sg_app_id :: string
  sg_app_secret :: string
  sg_waba_id :: string

record signup_response =
  sr_access_token :: string
  sr_waba_id :: string
  sr_phone_numbers :: json

definition cloud_err :: "string \<Rightarrow> cloud_error \<Rightarrow> api_error" where
  "cloud_err what e = Internal (what @ cloud_error_text e)"

definition embedded_signup_exchange :: "cloud_lib \<Rightarrow> signup_request \<Rightarrow> ('w, signup_response) cloud_handler" where
  "embedded_signup_exchange lib r =
     db_bind (db_map_err (cloud_err ''embedded signup token exchange failed: '')
         (exchange_code lib (sg_app_id r) (sg_app_secret r) (sg_code r))) (\<lambda>answer.
       case text_field ''access_token'' answer of
         None \<Rightarrow> db_fail (Internal ''token exchange response had no access_token'')
       | Some token \<Rightarrow>
           db_bind (db_map_err (cloud_err ''failed to subscribe app to WABA: '') (signup_subscribe_app lib (sg_waba_id r) token)) (\<lambda>_.
             db_bind (db_map_err (cloud_err ''failed to list WABA phone numbers: '') (signup_phone_numbers lib (sg_waba_id r) token)) (\<lambda>phones.
               db_return \<lparr> sr_access_token = token, sr_waba_id = sg_waba_id r, sr_phone_numbers = phones \<rparr>)))"

section \<open>Credentials, templates and media\<close>

definition with_credentials :: "string \<Rightarrow> string \<Rightarrow> ('w, cloud_credentials) cloud_handler" where
  "with_credentials refusal sid = db_bind (db_map_err Internal (get_cloud_credentials sid))
     (\<lambda>creds. case creds of None \<Rightarrow> db_fail (BadRequest refusal) | Some cr \<Rightarrow> db_return cr)"

definition client_of :: "cloud_lib \<Rightarrow> cloud_credentials \<Rightarrow> cloud_client" where
  "client_of lib cr = cloud_client_new lib (cc_phone_number_id cr) (cc_access_token cr)"

definition cloud_client_for :: "cloud_lib \<Rightarrow> string \<Rightarrow> ('w, cloud_client) cloud_handler" where
  "cloud_client_for lib sid = db_bind (with_credentials ''session is not a whatsapp_cloud session'' sid) (\<lambda>cr. db_return (client_of lib cr))"

definition answered :: "string \<Rightarrow> ('w, json) cloud_handler \<Rightarrow> ('w, message_response) cloud_handler" where
  "answered to m = db_bind m (\<lambda>resp w. (Inr (sent_response resp to w), w))"

definition send_template ::
    "cloud_lib \<Rightarrow> string \<Rightarrow> string \<Rightarrow> string \<Rightarrow> string \<Rightarrow> json \<Rightarrow> ('w, message_response) cloud_handler" where
  "send_template lib sid to name language_code components =
     db_bind (with_credentials ''messages/template is only supported for whatsapp_cloud sessions'' sid) (\<lambda>cr.
       answered to (db_map_err (\<lambda>e. Internal (cloud_error_text e))
         (cloud_send_template lib (client_of lib cr) to name language_code components)))"

fun read_media_field :: "(string + file_field) list \<Rightarrow> bytes option \<times> string option \<Rightarrow> api_error + bytes option \<times> string option" where
  "read_media_field [] found = Inr found"
| "read_media_field (Inl e # rest) found = Inl (BadRequest e)"
| "read_media_field (Inr f # rest) found =
     (if ff_name f = Some ''file''
      then (case ff_bytes f of Inl e \<Rightarrow> Inl (BadRequest e) | Inr b \<Rightarrow> read_media_field rest (Some b, ff_content_type f))
      else read_media_field rest found)"

definition cloud_upload_media :: "cloud_lib \<Rightarrow> string \<Rightarrow> (string + file_field) list \<Rightarrow> ('w, json) cloud_handler" where
  "cloud_upload_media lib sid upload = db_bind (cloud_client_for lib sid) (\<lambda>c.
     ensure (read_media_field upload (None, None)) (\<lambda>(file, mime). case file of
         None \<Rightarrow> db_fail (BadRequest ''No file provided'')
       | Some bs \<Rightarrow> db_map_err (\<lambda>e. MediaUploadFailed (cloud_error_text e))
           (upload_media lib c bs (case mime of Some t \<Rightarrow> t | None \<Rightarrow> ''application/octet-stream'') ''upload'')))"

definition download_err :: "cloud_error \<Rightarrow> api_error" where
  "download_err e = MediaDownloadFailed (cloud_error_text e)"

definition cloud_get_media :: "cloud_lib \<Rightarrow> string \<Rightarrow> string \<Rightarrow> ('w, json) cloud_handler" where
  "cloud_get_media lib sid media_id = db_bind (cloud_client_for lib sid) (\<lambda>c. db_map_err download_err (get_media_url lib c media_id))"

definition cloud_download_media :: "cloud_lib \<Rightarrow> string \<Rightarrow> string \<Rightarrow> ('w, string \<times> bytes) cloud_handler" where
  "cloud_download_media lib sid media_id = db_bind (cloud_client_for lib sid) (\<lambda>c.
     db_bind (db_map_err download_err (get_media_url lib c media_id)) (\<lambda>answer.
       case text_field ''url'' answer of
         None \<Rightarrow> db_fail (MediaDownloadFailed ''media metadata had no url'')
       | Some url \<Rightarrow> db_bind (db_map_err download_err (download_media_bytes lib c url)) (\<lambda>bs.
           db_return (case text_field ''mime_type'' answer of Some t \<Rightarrow> t | None \<Rightarrow> ''application/octet-stream'', bs))))"

definition cloud_delete_media :: "cloud_lib \<Rightarrow> string \<Rightarrow> string \<Rightarrow> ('w, json) cloud_handler" where
  "cloud_delete_media lib sid media_id = db_bind (cloud_client_for lib sid) (\<lambda>c. db_map_err download_err (delete_media lib c media_id))"

section \<open>Commerce\<close>

definition MAX_SECTIONS :: nat where "MAX_SECTIONS = 10"

definition MAX_PRODUCTS :: nat where "MAX_PRODUCTS = 30"

definition commerce_client :: "cloud_lib \<Rightarrow> string \<Rightarrow> ('w, cloud_client) cloud_handler" where
  "commerce_client lib sid = db_bind (with_credentials ''commerce is only supported for whatsapp_cloud sessions'' sid) (\<lambda>cr. db_return (client_of lib cr))"

definition commerce_err :: "cloud_error \<Rightarrow> api_error" where
  "commerce_err = cloud_err ''cloud commerce call failed: ''"

definition interactive_envelope :: "string \<Rightarrow> json \<Rightarrow> json" where
  "interactive_envelope to interactive = envelope_to to ''interactive'' ''interactive'' interactive"

record product_request =
  pq_to :: string
  pq_catalog_id :: string
  pq_product_retailer_id :: string
  pq_body :: "string option"
  pq_footer :: "string option"

definition product_payload :: "product_request \<Rightarrow> json" where
  "product_payload r = interactive_envelope (pq_to r) (opt_field ''footer'' (map_option text_obj (pq_footer r))
     (opt_field ''body'' (map_option text_obj (pq_body r)) (JObj [(''type'', JStr ''product''),
       (''action'', JObj [(''catalog_id'', JStr (pq_catalog_id r)), (''product_retailer_id'', JStr (pq_product_retailer_id r))])])))"

record product_section =
  ps_title :: string
  ps_product_retailer_ids :: "string list"

record product_list_request =
  pl_to :: string
  pl_catalog_id :: string
  pl_header :: string
  pl_body :: string
  pl_footer :: "string option"
  pl_sections :: "product_section list"

definition product_total :: "product_list_request \<Rightarrow> nat" where
  "product_total r = sum_list (map (\<lambda>s. length (ps_product_retailer_ids s)) (pl_sections r))"

definition section_json :: "product_section \<Rightarrow> json" where
  "section_json s = JObj [(''title'', JStr (ps_title s)),
     (''product_items'', JArr (map (\<lambda>i. JObj [(''product_retailer_id'', JStr i)]) (ps_product_retailer_ids s)))]"

definition product_list_payload :: "product_list_request \<Rightarrow> api_error + json" where
  "product_list_payload r =
     (if pl_sections r = [] \<or> MAX_SECTIONS < length (pl_sections r)
      then Inl (BadRequest (''sections must contain between 1 and '' @ show_nat MAX_SECTIONS @ '' entries''))
      else if MAX_PRODUCTS < product_total r
      then Inl (BadRequest (''at most '' @ show_nat MAX_PRODUCTS @ '' products per message, got '' @ show_nat (product_total r)))
      else if list_ex (\<lambda>s. trim_str (ps_title s) = [] \<or> ps_product_retailer_ids s = []) (pl_sections r)
      then Inl (BadRequest ''every section needs a title and at least one product'')
      else Inr (interactive_envelope (pl_to r) (opt_field ''footer'' (map_option text_obj (pl_footer r))
        (JObj [(''type'', JStr ''product_list''), (''header'', JObj [(''type'', JStr ''text''), (''text'', JStr (pl_header r))]),
          (''body'', text_obj (pl_body r)), (''action'', JObj [(''catalog_id'', JStr (pl_catalog_id r)),
            (''sections'', JArr (map section_json (pl_sections r)))])]))))"

record catalog_request =
  cg_to :: string
  cg_body :: string
  cg_footer :: "string option"
  cg_thumbnail :: "string option"

definition catalog_payload :: "catalog_request \<Rightarrow> json" where
  "catalog_payload r = interactive_envelope (cg_to r) (opt_field ''footer'' (map_option text_obj (cg_footer r))
     (JObj [(''type'', JStr ''catalog_message''), (''body'', text_obj (cg_body r)),
       (''action'', opt_field ''parameters'' (map_option (\<lambda>sku. JObj [(''thumbnail_product_retailer_id'', JStr sku)]) (cg_thumbnail r))
         (JObj [(''name'', JStr ''catalog_message'')]))]))"

definition get_commerce_settings_api :: "cloud_lib \<Rightarrow> string \<Rightarrow> ('w, json) cloud_handler" where
  "get_commerce_settings_api lib sid = db_bind (commerce_client lib sid) (\<lambda>c. db_map_err commerce_err (get_commerce_settings lib c))"

definition update_commerce_settings :: "cloud_lib \<Rightarrow> string \<Rightarrow> bool option \<Rightarrow> bool option \<Rightarrow> ('w, json) cloud_handler" where
  "update_commerce_settings lib sid cart catalog =
     (if cart = None \<and> catalog = None then db_fail (BadRequest ''at least one of is_cart_enabled, is_catalog_visible is required'')
      else db_bind (commerce_client lib sid) (\<lambda>c. db_map_err commerce_err (set_commerce_settings lib c cart catalog)))"

definition send_commerce :: "cloud_lib \<Rightarrow> string \<Rightarrow> string \<Rightarrow> json \<Rightarrow> ('w, message_response) cloud_handler" where
  "send_commerce lib sid to payload = db_bind (commerce_client lib sid) (\<lambda>c. answered to (db_map_err commerce_err (cloud_send_raw lib c payload)))"

definition send_product :: "cloud_lib \<Rightarrow> string \<Rightarrow> product_request \<Rightarrow> ('w, message_response) cloud_handler" where
  "send_product lib sid r = send_commerce lib sid (pq_to r) (product_payload r)"

definition send_product_list :: "cloud_lib \<Rightarrow> string \<Rightarrow> product_list_request \<Rightarrow> ('w, message_response) cloud_handler" where
  "send_product_list lib sid r = ensure (product_list_payload r) (send_commerce lib sid (pl_to r))"

definition send_catalog :: "cloud_lib \<Rightarrow> string \<Rightarrow> catalog_request \<Rightarrow> ('w, message_response) cloud_handler" where
  "send_catalog lib sid r = send_commerce lib sid (cg_to r) (catalog_payload r)"

section \<open>Flows\<close>

definition cloud_creds :: "string \<Rightarrow> ('w, cloud_credentials) cloud_handler" where
  "cloud_creds = with_credentials ''session is not a whatsapp_cloud session''"

definition flows_err :: "cloud_error \<Rightarrow> api_error" where
  "flows_err = cloud_err ''cloud flows call failed: ''"

definition flow_call ::
    "string \<Rightarrow> (cloud_credentials \<Rightarrow> ('w, cloud_error, json) calls) \<Rightarrow> ('w, json) cloud_handler" where
  "flow_call sid m = db_bind (cloud_creds sid) (\<lambda>cr. db_map_err flows_err (m cr))"

definition create_flow_api :: "cloud_lib \<Rightarrow> string \<Rightarrow> string \<Rightarrow> string list \<Rightarrow> string option \<Rightarrow> ('w, json) cloud_handler" where
  "create_flow_api lib sid name categories clone =
     (if categories = [] then db_fail (BadRequest ''categories must contain at least one category'')
      else flow_call sid (\<lambda>cr. create_flow lib (client_of lib cr) (cc_waba_id cr) name categories clone))"

definition list_flows_api :: "cloud_lib \<Rightarrow> string \<Rightarrow> ('w, json) cloud_handler" where
  "list_flows_api lib sid = flow_call sid (\<lambda>cr. list_flows lib (client_of lib cr) (cc_waba_id cr))"

definition get_flow_api :: "cloud_lib \<Rightarrow> string \<Rightarrow> string \<Rightarrow> ('w, json) cloud_handler" where
  "get_flow_api lib sid flow_id = flow_call sid (\<lambda>cr. get_flow lib (client_of lib cr) flow_id)"

definition update_flow_metadata_api ::
    "cloud_lib \<Rightarrow> string \<Rightarrow> string \<Rightarrow> string option \<Rightarrow> string list option \<Rightarrow> string option \<Rightarrow> ('w, json) cloud_handler" where
  "update_flow_metadata_api lib sid flow_id name categories endpoint_uri =
     (if name = None \<and> categories = None \<and> endpoint_uri = None
      then db_fail (BadRequest ''at least one of name, categories, endpoint_uri is required'')
      else flow_call sid (\<lambda>cr. update_flow_metadata lib (client_of lib cr) flow_id name categories endpoint_uri))"

definition delete_flow_api :: "cloud_lib \<Rightarrow> string \<Rightarrow> string \<Rightarrow> ('w, json) cloud_handler" where
  "delete_flow_api lib sid flow_id = flow_call sid (\<lambda>cr. delete_flow lib (client_of lib cr) flow_id)"

definition update_flow_json_api :: "cloud_lib \<Rightarrow> 'k crypto_lib \<Rightarrow> string \<Rightarrow> string \<Rightarrow> json \<Rightarrow> ('w, json) cloud_handler" where
  "update_flow_json_api lib cy sid flow_id flow_json = flow_call sid (\<lambda>cr. update_flow_json lib (client_of lib cr) flow_id (cy_to_vec cy flow_json))"

definition get_flow_assets_api :: "cloud_lib \<Rightarrow> string \<Rightarrow> string \<Rightarrow> ('w, json) cloud_handler" where
  "get_flow_assets_api lib sid flow_id = flow_call sid (\<lambda>cr. get_flow_assets lib (client_of lib cr) flow_id)"

definition publish_flow_api :: "cloud_lib \<Rightarrow> string \<Rightarrow> string \<Rightarrow> ('w, json) cloud_handler" where
  "publish_flow_api lib sid flow_id = flow_call sid (\<lambda>cr. publish_flow lib (client_of lib cr) flow_id)"

definition deprecate_flow_api :: "cloud_lib \<Rightarrow> string \<Rightarrow> string \<Rightarrow> ('w, json) cloud_handler" where
  "deprecate_flow_api lib sid flow_id = flow_call sid (\<lambda>cr. deprecate_flow lib (client_of lib cr) flow_id)"

record send_flow_request =
  sf_to :: string
  sf_flow_cta :: string
  sf_body :: string
  sf_header :: "string option"
  sf_footer :: "string option"
  sf_flow_token :: "string option"
  sf_mode :: "string option"
  sf_flow_action :: "string option"
  sf_screen :: "string option"
  sf_data :: "json option"

definition flow_parameters :: "string \<Rightarrow> send_flow_request \<Rightarrow> string \<Rightarrow> string \<Rightarrow> api_error + json" where
  "flow_parameters flow_id r action mode =
     (let p = opt_field ''flow_token'' (map_option JStr (sf_flow_token r)) (JObj [(''flow_message_version'', JStr ''3''),
            (''flow_id'', JStr flow_id), (''flow_cta'', JStr (sf_flow_cta r)), (''flow_action'', JStr action), (''mode'', JStr mode)])
      in if action = ''navigate''
         then (case sf_screen r of
             None \<Rightarrow> Inl (BadRequest ''screen is required when flow_action is navigate'')
           | Some screen \<Rightarrow> Inr (set_field ''flow_action_payload''
               (opt_field ''data'' (sf_data r) (JObj [(''screen'', JStr screen)])) p))
         else Inr p)"

definition flow_message_payload :: "string \<Rightarrow> send_flow_request \<Rightarrow> api_error + json" where
  "flow_message_payload flow_id r =
     (let action = (case sf_flow_action r of Some a \<Rightarrow> a | None \<Rightarrow> ''navigate'');
          mode = (case sf_mode r of Some m \<Rightarrow> m | None \<Rightarrow> ''published'')
      in if action \<notin> set [''navigate'', ''data_exchange''] then Inl (BadRequest ''flow_action must be navigate or data_exchange'')
         else if mode \<notin> set [''published'', ''draft''] then Inl (BadRequest ''mode must be published or draft'')
         else (case flow_parameters flow_id r action mode of Inl e \<Rightarrow> Inl e
           | Inr parameters \<Rightarrow> Inr (interactive_envelope (sf_to r) (opt_field ''footer'' (map_option text_obj (sf_footer r))
               (opt_field ''header'' (map_option (\<lambda>h. JObj [(''type'', JStr ''text''), (''text'', JStr h)]) (sf_header r))
                 (JObj [(''type'', JStr ''flow''), (''body'', text_obj (sf_body r)),
                   (''action'', JObj [(''name'', JStr ''flow''), (''parameters'', parameters)])]))))))"

definition send_flow :: "cloud_lib \<Rightarrow> string \<Rightarrow> string \<Rightarrow> send_flow_request \<Rightarrow> ('w, message_response) cloud_handler" where
  "send_flow lib sid flow_id r = ensure (flow_message_payload flow_id r) (\<lambda>payload.
     answered (sf_to r) (flow_call sid (\<lambda>cr. cloud_send_raw lib (client_of lib cr) payload)))"

record flow_endpoint_response =
  fe_public_key :: string
  fe_endpoint_path :: string
  fe_meta_response :: json

definition flow_key :: "'k crypto_lib \<Rightarrow> string option \<Rightarrow> api_error + 'k" where
  "flow_key cy pem = (case pem of
       Some p \<Rightarrow> (case parse_private_key cy p of Inl _ \<Rightarrow> Inl (BadRequest ''private_key is not a valid RSA PEM'') | Inr k \<Rightarrow> Inr k)
     | None \<Rightarrow> (case generate_private_key cy of Inl _ \<Rightarrow> Inl (Internal ''RSA key generation failed'') | Inr k \<Rightarrow> Inr k))"

definition pem_result :: "flow_error + string \<Rightarrow> api_error + string" where
  "pem_result r = (case r of Inl _ \<Rightarrow> Inl (Internal ''invalid private key PEM'') | Inr p \<Rightarrow> Inr p)"

definition public_forward_url :: "cloud_lib \<Rightarrow> string option \<Rightarrow> api_error + unit" where
  "public_forward_url lib url = (case url of None \<Rightarrow> Inr ()
     | Some u \<Rightarrow> (case validate_public_url (cb_net lib) u of Inl e \<Rightarrow> Inl (BadRequest e) | Inr _ \<Rightarrow> Inr ()))"

definition configure_flow_endpoint ::
    "cloud_lib \<Rightarrow> 'k crypto_lib \<Rightarrow> string \<Rightarrow> string option \<Rightarrow> string option \<Rightarrow> ('w, flow_endpoint_response) cloud_handler" where
  "configure_flow_endpoint lib cy sid pem forward_url = db_bind (cloud_creds sid) (\<lambda>cr.
     ensure (public_forward_url lib forward_url) (\<lambda>_. ensure (flow_key cy pem) (\<lambda>key.
       if cy_rsa_bits cy key < 2048 then db_fail (BadRequest ''private_key must be at least 2048 bits'')
       else ensure (pem_result (private_key_pem cy key)) (\<lambda>private. ensure (pem_result (public_key_pem cy key)) (\<lambda>public.
         db_bind (db_map_err flows_err (set_flow_encryption_public_key lib (client_of lib cr) public)) (\<lambda>answer.
           db_bind (db_map_err Internal (set_flow_endpoint sid private forward_url)) (\<lambda>_.
             db_return \<lparr> fe_public_key = public,
               fe_endpoint_path = ''/api/v1/sessions/'' @ sid @ ''/cloud/flow-endpoint/exchange'', fe_meta_response = answer \<rparr>)))))))"

text \<open>
  The forwarding client refuses addresses that are not public when it connects; what it answers is
  an argument: the handler's reply, or an error.
\<close>

definition flow_data_exchange ::
    "'k crypto_lib \<Rightarrow> (string \<Rightarrow> string \<Rightarrow> json \<Rightarrow> string + json) \<Rightarrow> string \<Rightarrow> string option \<Rightarrow> bytes
     \<Rightarrow> 'w outbound_scheme \<Rightarrow> (nat \<times> string) \<times> 'w outbound_scheme" where
  "flow_data_exchange cy forward sid signature body w = (case known_credentials sid w of
       (None, w1) \<Rightarrow> ((404, ''unknown cloud session''), w1)
     | (Some cr, w1) \<Rightarrow> (case cc_flow_private_key cr of None \<Rightarrow> ((404, ''flow endpoint not configured''), w1)
       | Some pem \<Rightarrow>
           if \<not> verify_signature cy (cc_app_secret cr) body signature then ((432, ''invalid signature''), w1)
           else (case cy_from_slice cy body of None \<Rightarrow> ((400, ''invalid JSON''), w1)
             | Some envelope \<Rightarrow> (case decrypt_request cy pem envelope of
                 Inl (Malformed _) \<Rightarrow> ((400, ''malformed request''), w1)
               | Inl _ \<Rightarrow> ((421, ''decryption failed''), w1)
               | Inr d \<Rightarrow>
                   let reply = (if is_ping (dr_body d) then Inr ping_response
                         else (case cc_flow_forward_url cr of None \<Rightarrow> Inl (503, ''no flow handler configured'')
                           | Some url \<Rightarrow> (case forward url sid (dr_body d) of Inl _ \<Rightarrow> Inl (502, ''flow handler failed'') | Inr v \<Rightarrow> Inr v)))
                   in (case reply of Inl r \<Rightarrow> (r, w1)
                     | Inr v \<Rightarrow> (case encrypt_response cy d v of Inr text \<Rightarrow> ((200, text), w1) | Inl _ \<Rightarrow> ((500, ''encryption failed''), w1)))))))"

end
