(* ===== verification/Flow_Crypto_Facts.thy ===== *)
theory Flow_Crypto_Facts
  imports Flow_Crypto
begin

text \<open>
  What is framed is read back: lengths in DER, keys in PEM, and the reply to a Flow request, which
  opens under the request's key and the complement of its vector and no other use of that pair.
\<close>

section \<open>DER\<close>

fun from_be_bytes :: "nat \<Rightarrow> bytes \<Rightarrow> nat" where
  "from_be_bytes acc [] = acc"
| "from_be_bytes acc (b # bs) = from_be_bytes (acc * 256 + unat b) bs"

text \<open>A reader of one DER element, as the standard describes it.\<close>

definition der_read :: "bytes \<Rightarrow> (8 word \<times> bytes \<times> bytes) option" where
  "der_read input = (case input of tag # l # rest \<Rightarrow>
       if unat l < 128 then (if unat l \<le> length rest then Some (tag, take (unat l) rest, drop (unat l) rest) else None)
       else (let k = unat l - 128; n = from_be_bytes 0 (take k rest); body = drop k rest
             in if n \<le> length body then Some (tag, take n body, drop n body) else None)
     | _ \<Rightarrow> None)"

lemma from_be_append: "from_be_bytes acc (xs @ ys) = from_be_bytes (from_be_bytes acc xs) ys"
  by (induction xs arbitrary: acc) auto

lemma from_be_dropWhile: "from_be_bytes 0 (dropWhile (\<lambda>b. b = 0) bs) = from_be_bytes 0 bs"
  by (induction bs) auto

lemma unat_byte: "unat (of_nat n :: 8 word) = n mod 256"
  by (simp add: unat_of_nat)

lemma from_be_to_be:
  "from_be_bytes acc (map (\<lambda>i. of_nat (n div 256 ^ i)) (rev [0..<k])) = acc * 256 ^ k + n mod 256 ^ k"
proof (induction k arbitrary: acc)
  case (Suc k)
  have "n mod 256 ^ Suc k = (n div 256 ^ k mod 256) * 256 ^ k + n mod 256 ^ k"
    using mod_mult2_eq [of n "256 ^ k" 256] by (simp add: algebra_simps)
  with Suc show ?case by (simp add: unat_byte algebra_simps)
qed simp

lemma from_be_len: "n < 2 ^ 64 \<Longrightarrow> from_be_bytes 0 (to_be_bytes n) = n"
  using from_be_to_be [of 0 n 8] by (simp add: to_be_bytes_def)

lemma long_len:
  assumes "128 \<le> n" and "n < 2 ^ 64"
  obtains l bs where "der_len n = l # bs" "unat l = 128 + length bs" "from_be_bytes 0 bs = n"
proof -
  let ?bs = "dropWhile (\<lambda>b. b = 0) (to_be_bytes n)"
  have len: "length ?bs \<le> 8" using length_dropWhile_le [of _ "to_be_bytes n"] by (simp add: to_be_bytes_def)
  have "unat ((0x80 :: 8 word) OR of_nat k) = 128 + k" if "k \<le> 8" for k
  proof -
    from that have "k = 0 \<or> k = 1 \<or> k = 2 \<or> k = 3 \<or> k = 4 \<or> k = 5 \<or> k = 6 \<or> k = 7 \<or> k = 8" by arith
    then show ?thesis by (elim disjE) simp_all
  qed
  from this [OF len] show thesis
    by (intro that [of "0x80 OR of_nat (length ?bs)" ?bs])
      (use assms in \<open>simp_all add: der_len_def Let_def from_be_dropWhile from_be_len\<close>)
qed

lemma der_read_tlv:
  assumes "length bs < 2 ^ 64"
  shows "der_read (der_tlv tag bs @ rest) = Some (tag, bs, rest)"
proof (cases "length bs < 128")
  case True
  then have "unat (of_nat (length bs) :: 8 word) = length bs" by (simp add: unat_byte)
  with True show ?thesis by (simp add: der_read_def der_tlv_def der_len_def)
next
  case False
  then obtain l ls where l: "der_len (length bs) = l # ls" "unat l = 128 + length ls" "from_be_bytes 0 ls = length bs"
    using assms long_len [of "length bs"] by (metis not_less)
  then show ?thesis by (simp add: der_read_def der_tlv_def Let_def)
qed

section \<open>PEM\<close>

lemma starts_with_same_prefix [simp]: "starts_with p (p @ s)"
  by (simp add: starts_with_def)

lemma concat_chunks_of: "0 < n \<Longrightarrow> concat (chunks_of n xs) = xs"
  by (induction n xs rule: chunks_of.induct) (subst chunks_of.simps, simp)

lemma after_first_prefix: "p \<noteq> [] \<Longrightarrow> after_first p (p @ s) = Some s"
proof -
  assume "p \<noteq> []"
  then obtain c cs where c: "p @ s = c # cs" by (cases p) auto
  have "drop (length p) (c # cs) = s" by (simp flip: c)
  with starts_with_same_prefix [of p s] show ?thesis by (simp add: c)
qed

lemma starts_with_head: "starts_with (d # p) (c # s) \<Longrightarrow> c = d"
  by (simp add: starts_with_def)

lemma before_first_free: "d \<notin> set xs \<Longrightarrow> before_first (d # p) (xs @ (d # p) @ s) = Some xs"
proof (induction xs)
  case Nil
  then show ?case using starts_with_same_prefix [of "d # p" s] by simp
next
  case (Cons x xs)
  then show ?case using starts_with_head [of d p x] by auto
qed

definition base64_law :: "'k crypto_lib \<Rightarrow> bool" where
  "base64_law lib \<longleftrightarrow> (\<forall>b. cy_b64_decode lib (cy_b64_encode lib b) = Some b \<and>
     list_all (\<lambda>c. c \<noteq> CHR ''-'' \<and> \<not> is_ws c) (cy_b64_encode lib b))"

lemma chunk_lines: "filter (\<lambda>c. \<not> is_ws c) (concat (map (\<lambda>line. line @ [CHR 0x0A]) ls)) = filter (\<lambda>c. \<not> is_ws c) (concat ls)"
  by (induction ls) (simp_all add: is_ws_def)

lemma set_chunk_lines: "set (concat (map (\<lambda>line. line @ [CHR 0x0A]) ls)) \<subseteq> set (concat ls) \<union> {CHR 0x0A}"
  by (induction ls) auto

lemma pem_roundtrip:
  assumes "base64_law lib"
  shows "pem_body lib (pem_encode lib label der) label = Some der"
proof -
  let ?lines = "concat (map (\<lambda>line. line @ [CHR 0x0A]) (chunks_of 64 (cy_b64_encode lib der)))"
  have enc: "cy_b64_decode lib (cy_b64_encode lib der) = Some der"
      "\<And>c. c \<in> set (cy_b64_encode lib der) \<Longrightarrow> c \<noteq> CHR ''-'' \<and> \<not> is_ws c"
    using assms by (auto simp: base64_law_def list_all_iff)
  have "set ?lines \<subseteq> set (cy_b64_encode lib der) \<union> {CHR 0x0A}"
    using set_chunk_lines [of "chunks_of 64 (cy_b64_encode lib der)"] by (simp only: concat_chunks_of)
  with enc(2) have "CHR ''-'' \<notin> set ?lines" by blast
  then have "CHR ''-'' \<notin> set ([CHR 0x0A] @ ?lines)" by (simp del: set_concat)
  from before_first_free [OF this, of "''----END '' @ label @ ''-----''" "[CHR 0x0A]"]
  have body: "before_first (pem_end label) ([CHR 0x0A] @ ?lines @ pem_end label @ [CHR 0x0A]) = Some ([CHR 0x0A] @ ?lines)"
    by (simp add: pem_end_def)
  have "pem_begin label \<noteq> []" by (simp add: pem_begin_def)
  from after_first_prefix [OF this] have first:
    "after_first (pem_begin label) (pem_encode lib label der) = Some ([CHR 0x0A] @ ?lines @ pem_end label @ [CHR 0x0A])"
    by (simp only: pem_encode_def)
  have "concat (chunks_of 64 (cy_b64_encode lib der)) = cy_b64_encode lib der" by (rule concat_chunks_of) simp
  moreover have "filter (\<lambda>c. \<not> is_ws c) (cy_b64_encode lib der) = cy_b64_encode lib der"
    using enc(2) by (simp add: filter_id_conv)
  moreover have "filter (\<lambda>c. \<not> is_ws c) [CHR 0x0A] = []" by (simp add: is_ws_def)
  ultimately have "filter (\<lambda>c. \<not> is_ws c) ([CHR 0x0A] @ ?lines) = cy_b64_encode lib der"
    by (simp only: filter_append chunk_lines append_Nil)
  with enc(1) show ?thesis
    by (simp only: pem_body_def first body option.case)
qed

lemma stored_key_loads:
  assumes "base64_law lib" and "\<And>d. cy_rsa_der lib key = Some d \<Longrightarrow> cy_rsa_load lib d = Some key"
    and "private_key_pem lib key = Inr pem"
  shows "parse_private_key lib pem = Inr key"
  using assms by (auto simp: private_key_pem_def parse_private_key_def or_error_def pem_roundtrip split: option.splits)

text \<open>A PKCS#1 key is wrapped as version 0, the RSA algorithm and the key as an octet string.\<close>

lemma pkcs8_wrap_reads:
  assumes "length pkcs1 < 2 ^ 63"
  shows "\<exists>body. der_read (pkcs1_to_pkcs8 pkcs1) = Some (0x30, body, []) \<and> take 18 body = [0x02, 0x01, 0x00] @ RSA_ALGORITHM_ID \<and>
    der_read (drop 18 body) = Some (0x04, pkcs1, [])"
proof -
  have "length (der_len n) \<le> 9" for n
    using length_dropWhile_le [of "\<lambda>b. b = 0" "to_be_bytes n"] by (simp add: der_len_def Let_def to_be_bytes_def)
  from this [of "length pkcs1"] have "length ([0x02, 0x01, 0x00] @ RSA_ALGORITHM_ID @ der_tlv 0x04 pkcs1) < 2 ^ 64"
    using assms by (simp add: der_tlv_def RSA_ALGORITHM_ID_def)
  from der_read_tlv [OF this, of "0x30" "[]"] have outer: "der_read (pkcs1_to_pkcs8 pkcs1) =
      Some (0x30, [0x02, 0x01, 0x00] @ RSA_ALGORITHM_ID @ der_tlv 0x04 pkcs1, [])"
    by (simp only: pkcs1_to_pkcs8_def append_Nil2)
  have "der_read (der_tlv 0x04 pkcs1) = Some (0x04, pkcs1, [])"
    using der_read_tlv [of pkcs1 "0x04" "[]"] assms by simp
  then have "take 18 ([0x02, 0x01, 0x00] @ RSA_ALGORITHM_ID @ der_tlv 0x04 pkcs1) = [0x02, 0x01, 0x00] @ RSA_ALGORITHM_ID \<and>
      der_read (drop 18 ([0x02, 0x01, 0x00] @ RSA_ALGORITHM_ID @ der_tlv 0x04 pkcs1)) = Some (0x04, pkcs1, [])"
    by (simp add: RSA_ALGORITHM_ID_def)
  with outer show ?thesis by blast
qed

section \<open>The exchange\<close>

definition meta_envelope :: "'k crypto_lib \<Rightarrow> bytes \<Rightarrow> bytes \<Rightarrow> bytes \<Rightarrow> json" where
  "meta_envelope lib wrapped iv ciphertext = JObj [(''encrypted_flow_data'', JStr (cy_b64_encode lib ciphertext)),
     (''encrypted_aes_key'', JStr (cy_b64_encode lib wrapped)), (''initial_vector'', JStr (cy_b64_encode lib iv))]"

lemma flipped_twice: "flipped (flipped iv) = iv" "length (flipped iv) = length iv"
  by (simp_all add: flipped_def comp_def)

lemma flipped_differs: "iv \<noteq> [] \<Longrightarrow> flipped iv \<noteq> iv"
proof
  assume "iv \<noteq> []" "flipped iv = iv"
  then have "NOT (hd iv) = hd iv" by (cases iv) (auto simp: flipped_def)
  then have "bit (NOT (hd iv)) 0 = bit (hd iv) 0" by simp
  then show False by (simp add: bit_not_iff)
qed

text \<open>
  C21. A Flow exchange. With the key stored at configuration, a request encrypted the way Meta does
  it is read as what Meta sent, and the reply is the base64 of a text that opens under the same
  key and the complemented vector, never the vector of the request. Hypotheses: decoding base64
  undoes encoding and its alphabet has no dash and no space, a key loads from its own encoding,
  the wrapped key unwraps, and the two payloads are sealed and printed as they are opened and read.
\<close>

theorem flow_exchange_roundtrip:
  assumes "base64_law lib" and "\<And>d. cy_rsa_der lib key = Some d \<Longrightarrow> cy_rsa_load lib d = Some key"
    and "cy_oaep_key lib key" and "cy_oaep_decrypt lib key wrapped = Some aes"
    and "length aes = 16" and "length iv = 16"
    and "cy_gcm_open lib aes iv ciphertext = Some (cy_to_vec lib payload)" and "cy_from_slice lib (cy_to_vec lib payload) = Some payload"
    and "cy_gcm_seal lib aes (flipped iv) (cy_to_vec lib reply) = Some sealed"
    and "cy_gcm_open lib aes (flipped iv) sealed = Some (cy_to_vec lib reply)"
    and "private_key_pem lib key = Inr pem"
  shows "case decrypt_request lib pem (meta_envelope lib wrapped iv ciphertext) of
      Inl e \<Rightarrow> False
    | Inr d \<Rightarrow> dr_body d = payload \<and> dr_iv d = iv \<and> flipped iv \<noteq> iv \<and>
        (case encrypt_response lib d reply of Inl e \<Rightarrow> False
         | Inr text \<Rightarrow> Option.bind (cy_b64_decode lib text) (cy_gcm_open lib aes (flipped iv)) = Some (cy_to_vec lib reply))"
proof -
  have b64: "cy_b64_decode lib (cy_b64_encode lib b) = Some b" for b using assms(1) by (simp add: base64_law_def)
  have "decrypt_request lib pem (meta_envelope lib wrapped iv ciphertext) = Inr \<lparr> dr_body = payload, dr_aes_key = aes, dr_iv = iv \<rparr>"
    using stored_key_loads [OF assms(1,2,11)] assms(3-8)
    by (simp add: decrypt_request_def meta_envelope_def text_field_def unwrap_key_def read_iv_def open_payload_def b64 or_error_def)
  moreover have "flipped iv \<noteq> iv" using assms(6) by (intro flipped_differs) auto
  ultimately show ?thesis using assms(9,10) by (simp add: encrypt_response_def or_error_def b64)
qed

text \<open>A library in which the laws hold: unary text for base64, one key, and a cipher that keeps the vector in the text.\<close>

fun unary_decode :: "nat \<Rightarrow> string \<Rightarrow> bytes" where
  "unary_decode n [] = []"
| "unary_decode n (c # cs) = (if c = CHR ''B'' then of_nat n # unary_decode 0 cs else unary_decode (Suc n) cs)"

definition unary_encode :: "bytes \<Rightarrow> string" where
  "unary_encode b = concat (map (\<lambda>x. replicate (unat x) (CHR ''A'') @ [CHR ''B'']) b)"

lemma unary_step: "unary_decode n (replicate m (CHR ''A'') @ CHR ''B'' # s) = of_nat (n + m) # unary_decode 0 s"
  by (induction m arbitrary: n) auto

lemma unary_roundtrip: "unary_decode 0 (unary_encode b) = b"
  by (induction b) (simp_all add: unary_encode_def unary_step)

definition demo_crypto :: "unit crypto_lib" where
  "demo_crypto = \<lparr> cy_mac = (\<lambda>k. Some (\<lambda>b. b)), cy_hex = (\<lambda>s. Some []), cy_b64_encode = unary_encode,
     cy_b64_decode = (\<lambda>s. Some (unary_decode 0 s)), cy_from_slice = (\<lambda>b. Some ping_response), cy_to_vec = (\<lambda>j. [1, 2]),
     cy_rsa_load = (\<lambda>d. Some ()), cy_rsa_generate = Some (), cy_rsa_der = (\<lambda>k. Some [5]), cy_rsa_public_der = (\<lambda>k. Some [6]),
     cy_rsa_bits = (\<lambda>k. 2048), cy_oaep_key = (\<lambda>k. True), cy_oaep_decrypt = (\<lambda>k w. Some (replicate 16 9)),
     cy_gcm_open = (\<lambda>k iv c. if take 16 c = iv then Some (drop 16 c) else None), cy_gcm_seal = (\<lambda>k iv m. Some (iv @ m)) \<rparr>"

lemma flow_exchange_roundtrip_witness:
  "case decrypt_request demo_crypto (pem_encode demo_crypto ''PRIVATE KEY'' [5])
      (meta_envelope demo_crypto [3] (replicate 16 7) (replicate 16 7 @ [1, 2])) of
     Inl e \<Rightarrow> False
   | Inr d \<Rightarrow> dr_body d = ping_response \<and> dr_iv d = replicate 16 7 \<and> flipped (replicate 16 7) \<noteq> replicate 16 7 \<and>
       (case encrypt_response demo_crypto d JNull of Inl e \<Rightarrow> False
        | Inr text \<Rightarrow> Option.bind (cy_b64_decode demo_crypto text) (cy_gcm_open demo_crypto (replicate 16 9) (flipped (replicate 16 7)))
            = Some (cy_to_vec demo_crypto JNull))"
  by (rule flow_exchange_roundtrip [where key = "()" and sealed = "flipped (replicate 16 7) @ [1, 2]"])
    (auto simp: demo_crypto_def base64_law_def unary_roundtrip private_key_pem_def or_error_def flipped_twice flipped_def,
     auto simp: unary_encode_def list_all_iff is_ws_def)

end
