(* ===== verification/Session_Events.thy ===== *)
theory Session_Events
  imports Session_Lifecycle New_Chats
begin

text \<open>
  Handling the events of a WhatsApp client (\<open>handle_event\<close>, \<open>persist_contact_event\<close>,
  \<open>get_event_type\<close> and \<open>event_to_json\<close> of \<open>src/api/shared/sessions/handlers/events.rs\<close>). The
  events are the library's; each constructor carries the fields the code reads, and a field the
  code only prints with its debug format is that text. The kinds the code only names are
  collected in \<open>other_event\<close>.
\<close>

datatype other_event =
    BusinessStatusUpdate | CallEndedElsewhere | ClearChatUpdate | ClientExpirationChanged | ConnectFailure
  | ContactNumberChanged | ContactRemoved | ContactSyncRequested | DecryptedPayload | DeleteChatUpdate
  | DeleteMessageForMeUpdate | DirtyState | DisableLinkPreviewsUpdate | DisappearingModeChanged
  | FavoriteStickerUpdate | FavoritesUpdate | HistorySync | IdentityChange | LabelAssociationUpdate
  | LabelEditUpdate | LockChatUpdate | MessageLabelAssociationUpdate | MexNotification
  | NewsletterLiveUpdate | Notification | OfflineSyncInterrupted | PairingCodeRefresh
  | PairingQrCodesExhausted | PairPasskeyConfirmation | PairPasskeyError | PairPasskeyRequest
  | PairSuccess | QrScannedWithoutMultidevice | QuickReplyUpdate | RawNode | RemoveRecentStickerUpdate
  | RetiredPushNameUpdate | SentFrame | ServerAck | StarUpdate | StreamReplaced | TemporaryBanEvent
  | UserStatusMuteUpdate | AppStateSyncFailed | UnknownEvent

datatype connect_failure_reason = AccountLocked | OtherReason string

datatype call_action = CallOffer | CallAccept | CallReject | CallTerminate | CallOther

record incoming_call =
  ic_from :: string
  ic_stanza_id :: string
  ic_action :: call_action
  ic_call_id :: string
  ic_call_creator :: string
  ic_notify :: "string option"
  ic_platform :: "string option"
  ic_version :: "string option"
  ic_timestamp :: "unix option"
  ic_offline :: bool
  ic_action_text :: string

record contact_update =
  cw_jid :: wa_jid
  cw_full_name :: "string option"
  cw_first_name :: "string option"
  cw_lid_jid :: "string option"
  cw_from_full_sync :: bool

record call_log_sync =
  cl_creator_jid :: string
  cl_call_id :: string
  cl_from_me :: bool
  cl_timestamp :: unix
  cl_from_full_sync :: bool
  cl_record :: string

record pairing_code_error =
  pe_error :: string
  pe_rejection :: "string option"
  pe_throttled :: bool
  pe_backoff :: "nat option"

datatype 'p wa_event =
    WaPairingQrCode string nat
  | WaPairingCode string nat
  | WaConnected
  | WaDisconnected string bool
  | WaLoggedOut connect_failure_reason
  | WaMessages bool "('p wa_message_scheme \<times> message_info) list"
  | WaReceipt string
  | WaPresence string bool json
  | WaChatPresence string string string
  | WaGroupUpdate string string
  | WaIncomingCall incoming_call
  | WaMissedCall string
  | WaPictureUpdate string "string option" unix
  | WaUserAboutUpdate string string unix
  | WaSelfPushNameUpdated string string bool
  | WaContactUpdate contact_update
  | WaContactUpdated wa_jid
  | WaDeviceListUpdate string string
  | WaPinUpdate string "bool option" unix
  | WaMuteUpdate string "bool option" unix
  | WaArchiveUpdate string "bool option" unix
  | WaMarkChatAsRead string unix bool
  | WaUndecryptableMessage string
  | WaClientOutdated string
  | WaOfflineSyncPreview string
  | WaOfflineSyncCompleted string
  | WaCallLogSync call_log_sync
  | WaStreamError string
  | WaEncDecryptFailed string string string int string string
  | WaPairingCodeError pairing_code_error
  | WaPairError string string string
  | WaOther other_event

fun other_event_name :: "other_event \<Rightarrow> string" where
  "other_event_name BusinessStatusUpdate = ''business_status_update''"
| "other_event_name CallEndedElsewhere = ''call_ended_elsewhere''"
| "other_event_name ClearChatUpdate = ''clear_chat_update''"
| "other_event_name ClientExpirationChanged = ''client_expiration_changed''"
| "other_event_name ConnectFailure = ''connect_failure''"
| "other_event_name ContactNumberChanged = ''contact_number_changed''"
| "other_event_name ContactRemoved = ''contact_removed''"
| "other_event_name ContactSyncRequested = ''contact_sync_requested''"
| "other_event_name DecryptedPayload = ''decrypted_payload''"
| "other_event_name DeleteChatUpdate = ''delete_chat_update''"
| "other_event_name DeleteMessageForMeUpdate = ''delete_message_for_me_update''"
| "other_event_name DirtyState = ''dirty_state''"
| "other_event_name DisableLinkPreviewsUpdate = ''disable_link_previews_update''"
| "other_event_name DisappearingModeChanged = ''disappearing_mode_changed''"
| "other_event_name FavoriteStickerUpdate = ''favorite_sticker_update''"
| "other_event_name FavoritesUpdate = ''favorites_update''"
| "other_event_name HistorySync = ''history_sync''"
| "other_event_name IdentityChange = ''identity_change''"
| "other_event_name LabelAssociationUpdate = ''label_association_update''"
| "other_event_name LabelEditUpdate = ''label_edit_update''"
| "other_event_name LockChatUpdate = ''lock_chat_update''"
| "other_event_name MessageLabelAssociationUpdate = ''message_label_association_update''"
| "other_event_name MexNotification = ''mex_notification''"
| "other_event_name NewsletterLiveUpdate = ''newsletter_live_update''"
| "other_event_name Notification = ''notification''"
| "other_event_name OfflineSyncInterrupted = ''offline_sync_interrupted''"
| "other_event_name PairingCodeRefresh = ''pairing_code_refresh''"
| "other_event_name PairingQrCodesExhausted = ''pairing_qr_codes_exhausted''"
| "other_event_name PairPasskeyConfirmation = ''pair_passkey_confirmation''"
| "other_event_name PairPasskeyError = ''pair_passkey_error''"
| "other_event_name PairPasskeyRequest = ''pair_passkey_request''"
| "other_event_name PairSuccess = ''pair_success''"
| "other_event_name QrScannedWithoutMultidevice = ''qr_scanned_without_multidevice''"
| "other_event_name QuickReplyUpdate = ''quick_reply_update''"
| "other_event_name RawNode = ''raw_node''"
| "other_event_name RemoveRecentStickerUpdate = ''remove_recent_sticker_update''"
| "other_event_name RetiredPushNameUpdate = ''retired_push_name_update''"
| "other_event_name SentFrame = ''sent_frame''"
| "other_event_name ServerAck = ''server_ack''"
| "other_event_name StarUpdate = ''star_update''"
| "other_event_name StreamReplaced = ''stream_replaced''"
| "other_event_name TemporaryBanEvent = ''temporary_ban''"
| "other_event_name UserStatusMuteUpdate = ''user_status_mute_update''"
| "other_event_name AppStateSyncFailed = ''app_state_sync_failed''"
| "other_event_name UnknownEvent = ''unknown''"

fun get_event_type :: "'p wa_event \<Rightarrow> string" where
  "get_event_type (WaPairingQrCode _ _) = ''qr_code''"
| "get_event_type (WaPairingCode _ _) = ''pair_code''"
| "get_event_type WaConnected = ''connected''"
| "get_event_type (WaDisconnected _ _) = ''disconnected''"
| "get_event_type (WaLoggedOut _) = ''logged_out''"
| "get_event_type (WaMessages _ _) = ''message''"
| "get_event_type (WaReceipt _) = ''receipt''"
| "get_event_type (WaPresence _ _ _) = ''presence''"
| "get_event_type (WaChatPresence _ _ _) = ''chat_presence''"
| "get_event_type (WaGroupUpdate _ _) = ''group_update''"
| "get_event_type (WaIncomingCall _) = ''incoming_call''"
| "get_event_type (WaMissedCall _) = ''missed_call''"
| "get_event_type (WaPictureUpdate _ _ _) = ''picture_update''"
| "get_event_type (WaUserAboutUpdate _ _ _) = ''user_about_update''"
| "get_event_type (WaSelfPushNameUpdated _ _ _) = ''push_name_update''"
| "get_event_type (WaContactUpdate _) = ''contact_update''"
| "get_event_type (WaContactUpdated _) = ''contact_updated''"
| "get_event_type (WaDeviceListUpdate _ _) = ''device_list_update''"
| "get_event_type (WaPinUpdate _ _ _) = ''pin_update''"
| "get_event_type (WaMuteUpdate _ _ _) = ''mute_update''"
| "get_event_type (WaArchiveUpdate _ _ _) = ''archive_update''"
| "get_event_type (WaMarkChatAsRead _ _ _) = ''mark_chat_as_read''"
| "get_event_type (WaUndecryptableMessage _) = ''undecryptable_message''"
| "get_event_type (WaClientOutdated _) = ''client_outdated''"
| "get_event_type (WaOfflineSyncPreview _) = ''offline_sync_preview''"
| "get_event_type (WaOfflineSyncCompleted _) = ''offline_sync_completed''"
| "get_event_type (WaCallLogSync _) = ''call_log_sync''"
| "get_event_type (WaStreamError _) = ''stream_error''"
| "get_event_type (WaEncDecryptFailed _ _ _ _ _ _) = ''enc_decrypt_failed''"
| "get_event_type (WaPairingCodeError _) = ''pairing_code_error''"
| "get_event_type (WaPairError _ _ _) = ''pair_error''"
| "get_event_type (WaOther e) = other_event_name e"

section \<open>Event bodies\<close>

definition jbool :: "bool option \<Rightarrow> json" where
  "jbool = jopt JBool"

fun event_data :: "'p proto_lib \<Rightarrow> 'p wa_event \<Rightarrow> json" where
  "event_data lib (WaMessages _ batch) = (case batch of [] \<Rightarrow> JObj [] | (m, info) # _ \<Rightarrow> message_event_data lib m info None None)"
| "event_data lib (WaReceipt r) = JObj [(''receipt'', JStr r)]"
| "event_data lib (WaPresence jid available last_seen) =
     JObj [(''jid'', JStr jid), (''available'', JBool available), (''last_seen'', last_seen)]"
| "event_data lib (WaChatPresence chat sender state) =
     JObj [(''chat'', JStr chat), (''sender'', JStr sender), (''state'', JStr state)]"
| "event_data lib (WaGroupUpdate g action) = JObj [(''group'', JStr g), (''update'', JStr action)]"
| "event_data lib (WaIncomingCall c) = JObj [
     (''from'', JStr (ic_from c)), (''stanza_id'', JStr (ic_stanza_id c)), (''call_id'', JStr (ic_call_id c)),
     (''call_creator'', JStr (ic_call_creator c)), (''notify'', jstr (ic_notify c)), (''platform'', jstr (ic_platform c)),
     (''version'', jstr (ic_version c)), (''timestamp'', jopt JInt (ic_timestamp c)),
     (''offline'', JBool (ic_offline c)), (''action'', JStr (ic_action_text c))]"
| "event_data lib (WaPictureUpdate jid author at) =
     JObj [(''jid'', JStr jid), (''author'', JStr (or_empty author)), (''timestamp'', JInt at)]"
| "event_data lib (WaUserAboutUpdate jid status at) =
     JObj [(''jid'', JStr jid), (''status'', JStr status), (''timestamp'', JInt at)]"
| "event_data lib (WaSelfPushNameUpdated old new from_server) =
     JObj [(''old_name'', JStr old), (''new_name'', JStr new), (''from_server'', JBool from_server)]"
| "event_data lib (WaContactUpdate u) = JObj [(''jid'', JStr (wj_text (cw_jid u)))]"
| "event_data lib (WaDeviceListUpdate user kind) = JObj [(''user'', JStr user), (''update_type'', JStr kind)]"
| "event_data lib (WaPinUpdate jid pinned at) =
     JObj [(''jid'', JStr jid), (''pinned'', jbool pinned), (''timestamp'', JInt at)]"
| "event_data lib (WaMuteUpdate jid muted at) =
     JObj [(''jid'', JStr jid), (''muted'', jbool muted), (''timestamp'', JInt at)]"
| "event_data lib (WaArchiveUpdate jid archived at) =
     JObj [(''jid'', JStr jid), (''archived'', jbool archived), (''timestamp'', JInt at)]"
| "event_data lib (WaMarkChatAsRead jid at full) =
     JObj [(''jid'', JStr jid), (''timestamp'', JInt at), (''from_full_sync'', JBool full)]"
| "event_data lib (WaUndecryptableMessage info) = JObj [(''info'', JStr info)]"
| "event_data lib (WaClientOutdated info) = JObj [(''info'', JStr info)]"
| "event_data lib (WaOfflineSyncPreview info) = JObj [(''info'', JStr info)]"
| "event_data lib (WaOfflineSyncCompleted info) = JObj [(''info'', JStr info)]"
| "event_data lib (WaCallLogSync s) = JObj [
     (''call_creator_jid'', JStr (cl_creator_jid s)), (''call_id'', JStr (cl_call_id s)), (''from_me'', JBool (cl_from_me s)),
     (''timestamp'', JInt (cl_timestamp s)), (''from_full_sync'', JBool (cl_from_full_sync s)), (''record'', JStr (cl_record s))]"
| "event_data lib (WaStreamError code) = JObj [(''code'', JStr code)]"
| "event_data lib (WaEncDecryptFailed chat sender mid idx ty reason) = JObj [
     (''chat'', JStr chat), (''sender'', JStr sender), (''message_id'', JStr mid), (''enc_index'', JInt idx),
     (''enc_type'', JStr ty), (''reason'', JStr reason)]"
| "event_data lib (WaPairingQrCode code timeout) = JObj [(''code'', JStr code), (''timeout_seconds'', JInt (int timeout))]"
| "event_data lib (WaPairingCode code timeout) = JObj [(''code'', JStr code), (''timeout_seconds'', JInt (int timeout))]"
| "event_data lib (WaPairingCodeError e) = JObj [(''error'', JStr (pe_error e)), (''rejection'', jstr (pe_rejection e)),
     (''throttled'', JBool (pe_rejection e \<noteq> None \<and> pe_throttled e)), (''retry_after_seconds'', jnat (pe_backoff e))]"
| "event_data lib (WaPairError jid platform err) =
     JObj [(''jid'', JStr jid), (''platform'', JStr platform), (''error'', JStr err)]"
| "event_data lib _ = JObj []"

definition event_to_json :: "'p proto_lib \<Rightarrow> unix \<Rightarrow> 'p wa_event \<Rightarrow> string \<Rightarrow> json" where
  "event_to_json lib now ev sid = JObj [(''session_id'', JStr sid), (''event'', JStr (get_event_type ev)),
     (''timestamp'', JInt now), (''data'', event_data lib ev)]"

section \<open>Contacts\<close>

definition SERVER_JID :: string where "SERVER_JID = ''s.whatsapp.net''"

definition jid_phone :: "wa_jid \<Rightarrow> string option" where
  "jid_phone j = (if wj_server j = SERVER_JID then Some (wj_user j) else None)"

definition nonempty_opt :: "string option \<Rightarrow> string option" where
  "nonempty_opt v = (case v of Some s \<Rightarrow> if s = [] then None else Some s | None \<Rightarrow> None)"

definition sender_contact :: "message_info \<Rightarrow> contact_upsert" where
  "sender_contact info = \<lparr> cu_phone = jid_phone (mi_sender info), cu_lid_jid = None, cu_full_name = None,
     cu_first_name = None, cu_push_name = nonempty_opt (Some (mi_push_name info)),
     cu_business_name = (case mi_verified_name info of
        Some s \<Rightarrow> if s \<noteq> [] \<and> s \<noteq> ''None'' then Some s else None | None \<Rightarrow> None),
     cu_source = ''message'' \<rparr>"

fun persist_senders :: "string \<Rightarrow> ('p wa_message_scheme \<times> message_info) list \<Rightarrow> 'w lifecycle_scheme \<Rightarrow> 'w lifecycle_scheme" where
  "persist_senders sid [] w = w"
| "persist_senders sid ((m, info) # batch) w = persist_senders sid batch
     (if mi_is_from_me info then w
      else db_ignore (upsert_contact sid (wj_text (mi_sender info)) (sender_contact info)) w)"

fun persist_contact_event :: "string \<Rightarrow> 'p wa_event \<Rightarrow> 'w lifecycle_scheme \<Rightarrow> 'w lifecycle_scheme" where
  "persist_contact_event sid (WaMessages _ batch) w = persist_senders sid batch w"
| "persist_contact_event sid (WaContactUpdate u) w = db_ignore (upsert_contact sid (wj_text (cw_jid u))
     \<lparr> cu_phone = jid_phone (cw_jid u), cu_lid_jid = nonempty_opt (cw_lid_jid u), cu_full_name = nonempty_opt (cw_full_name u),
       cu_first_name = nonempty_opt (cw_first_name u), cu_push_name = None, cu_business_name = None,
       cu_source = (if cw_from_full_sync u then ''appstate_sync'' else ''appstate'') \<rparr>) w"
| "persist_contact_event sid (WaContactUpdated j) w = db_ignore (upsert_contact sid (wj_text j)
     \<lparr> cu_phone = jid_phone j, cu_lid_jid = None, cu_full_name = None, cu_first_name = None, cu_push_name = None,
       cu_business_name = None, cu_source = ''notification'' \<rparr>) w"
| "persist_contact_event sid _ w = w"

section \<open>Forwarding messages\<close>

text \<open>
  What the event loop is given: the JSON and protobuf libraries, the environment, and the
  library's look-up of the phone number behind a LID.
\<close>

record 'p event_env =
  ee_libs :: libs
  ee_proto :: "'p proto_lib"
  ee_env :: "string \<Rightarrow> string option"
  ee_is_pn :: "wa_jid \<Rightarrow> bool"
  ee_is_lid :: "wa_jid \<Rightarrow> bool"
  ee_lid_phone :: "nat \<Rightarrow> wa_jid \<Rightarrow> string option"

definition resolve_jid_phone :: "'p event_env \<Rightarrow> nat \<Rightarrow> wa_jid \<Rightarrow> string option" where
  "resolve_jid_phone ee client j =
     (if ee_is_pn ee j then Some (wj_user j) else if \<not> ee_is_lid ee j then None else ee_lid_phone ee client j)"

definition dedup_key :: "message_info \<Rightarrow> string" where
  "dedup_key info = wj_text (mi_chat info) @ ''|'' @ mi_id info"

definition message_payload ::
    "'p event_env \<Rightarrow> unix \<Rightarrow> bool \<Rightarrow> string \<Rightarrow> nat \<Rightarrow> 'p wa_message_scheme \<Rightarrow> message_info \<Rightarrow> json" where
  "message_payload ee timestamp offline sid client m info = JObj [
     (''session_id'', JStr sid), (''event'', JStr ''message''), (''timestamp'', JInt timestamp), (''offline'', JBool offline),
     (''data'', message_event_data (ee_proto ee) m info
        (resolve_jid_phone ee client (mi_sender info)) (resolve_jid_phone ee client (mi_chat info)))]"

definition count_forwarded :: "unix \<Rightarrow> session_state \<Rightarrow> session_state" where
  "count_forwarded timestamp s = s\<lparr>ss_messages_forwarded := (ss_messages_forwarded s + 1) mod 2 ^ 64,
     ss_last_message_forwarded_at := timestamp\<rparr>"

definition forward_message ::
    "'p event_env \<Rightarrow> unix \<Rightarrow> bool \<Rightarrow> string \<Rightarrow> nat \<Rightarrow> 'p wa_message_scheme \<times> message_info
     \<Rightarrow> 'w lifecycle_scheme \<Rightarrow> 'w lifecycle_scheme" where
  "forward_message ee timestamp offline sid client mi w =
     (case runtime_of sid w of
        None \<Rightarrow> w
      | Some s \<Rightarrow>
          (let (m, info) = mi; (fresh, recent) = first_sighting (dedup_key info) (ss_recent_ids s);
               w1 = with_runtime sid (\<lambda>s. s\<lparr>ss_recent_ids := recent\<rparr>) w
           in if \<not> fresh then w1
              else with_runtime sid (count_forwarded timestamp)
                (announce (ee_libs ee) sid ''message'' (message_payload ee timestamp offline sid client m info)
                  (record_incoming (ee_env ee) (ee_proto ee) sid m info w1))))"

fun forward_messages ::
    "'p event_env \<Rightarrow> unix \<Rightarrow> bool \<Rightarrow> string \<Rightarrow> nat \<Rightarrow> ('p wa_message_scheme \<times> message_info) list
     \<Rightarrow> 'w lifecycle_scheme \<Rightarrow> 'w lifecycle_scheme" where
  "forward_messages ee timestamp offline sid client [] w = w"
| "forward_messages ee timestamp offline sid client (mi # batch) w =
     forward_messages ee timestamp offline sid client batch (forward_message ee timestamp offline sid client mi w)"

section \<open>The arms of handle_event\<close>

definition auto_reject_incoming_calls :: "(string \<Rightarrow> string option) \<Rightarrow> bool" where
  "auto_reject_incoming_calls env = (case env ''AUTO_REJECT_INCOMING_CALLS'' of
      None \<Rightarrow> False | Some v \<Rightarrow> to_ascii_lowercase v \<in> {''1'', ''true'', ''yes'', ''on''})"

definition on_qr_code :: "string \<Rightarrow> string \<Rightarrow> 'w lifecycle_scheme \<Rightarrow> 'w lifecycle_scheme" where
  "on_qr_code sid code w = store_status sid StWaitingForQr False (with_runtime sid (\<lambda>s.
     update_pair_state (\<lambda>ps. ps\<lparr>last_qr_at := Some (db_now w), pair_attempts := sat_succ 32 (pair_attempts ps), pair_last_error := None\<rparr>)
       (set_status StWaitingForQr (s\<lparr>ss_qr_codes := [code]\<rparr>))) w)"

definition on_pair_code :: "string \<Rightarrow> string \<Rightarrow> nat \<Rightarrow> 'w lifecycle_scheme \<Rightarrow> 'w lifecycle_scheme" where
  "on_pair_code sid code timeout w = with_runtime sid (\<lambda>s.
     update_pair_state (\<lambda>ps. ps\<lparr>last_pair_code_at := Some (db_now w),
         pair_code_expires_at := Some (db_now w + int timeout), pair_last_error := None\<rparr>)
       (s\<lparr>ss_pair_code := Some code\<rparr>)) w"

definition connected_runtime :: "session_state \<Rightarrow> session_state" where
  "connected_runtime s = clear_reconnecting (clear_pair_state ((set_status StLoggedIn s)\<lparr>ss_qr_codes := [], ss_pair_code := None\<rparr>))"

definition on_connected :: "string \<Rightarrow> client \<Rightarrow> 'w lifecycle_scheme \<Rightarrow> 'w lifecycle_scheme" where
  "on_connected sid client w =
     (let w1 = (if Option.bind (runtime_of sid w) (reconnecting_for_secs (db_now w)) = None then w
                else w\<lparr>session_reconnects := session_reconnects w @ [sid]\<rparr>);
          w2 = store_status sid StLoggedIn True (with_runtime sid connected_runtime w1);
          w3 = db_ignore (update_session_info sid (cl_phone client) (nonempty_opt (Some (cl_push_name client)))) w2
      in db_ignore (update_last_connected sid) w3)"

definition on_disconnected :: "string \<Rightarrow> 'w lifecycle_scheme \<Rightarrow> 'w lifecycle_scheme" where
  "on_disconnected sid w =
     (let w1 = with_runtime sid (\<lambda>s. mark_reconnecting_now (db_now w) (set_status StConnecting s)) w
      in store_status sid StConnecting False (w1\<lparr>session_drops := session_drops w1 @ [sid]\<rparr>))"

definition reason_text :: "connect_failure_reason \<Rightarrow> string" where
  "reason_text r = (case r of AccountLocked \<Rightarrow> ''AccountLocked'' | OtherReason s \<Rightarrow> s)"

definition counts_json :: "new_chat_counts \<Rightarrow> json" where
  "counts_json c = JObj [(''last_3h'', JInt (last_3h c)), (''last_6h'', JInt (last_6h c)),
     (''last_12h'', JInt (last_12h c)), (''last_24h'', JInt (last_24h c))]"

definition lock_payload :: "string \<Rightarrow> unix \<Rightarrow> int \<Rightarrow> unix \<Rightarrow> new_chat_counts \<Rightarrow> json" where
  "lock_payload sid now cooldown until figures = JObj [
     (''session_id'', JStr sid), (''event'', JStr ''account_locked''), (''timestamp'', JInt now),
     (''data'', JObj [(''reason'', JStr (reason_text AccountLocked)), (''cooldown_secs'', JInt cooldown),
        (''cooldown_until'', JInt until), (''new_chats'', counts_json figures)])]"

text \<open>
  The arm for \<open>LoggedOut\<close> waits for the database before it acts; what it then does is
  \<open>logged_out_finish\<close>. It acts on the client installed at that moment. The flag says whether the
  event is announced. An empty lock schedule, which would panic, cannot come from the environment.
\<close>

definition logged_out_finish ::
    "'p event_env \<Rightarrow> string \<Rightarrow> connect_failure_reason \<Rightarrow> new_chat_counts \<Rightarrow> 'w lifecycle_scheme \<Rightarrow> bool \<times> 'w lifecycle_scheme" where
  "logged_out_finish ee sid reason figures w =
     (let w1 = (case installed_client sid w of
            None \<Rightarrow> w
          | Some c \<Rightarrow> call_lib (Shutdown (cl_id c))
              (if reason = AccountLocked then call_lib (SetAutoReconnect (cl_id c) False) w else w));
          w2 = store_status sid StDisconnected False
            (with_runtime sid (\<lambda>s. clear_reconnecting (set_client None (set_status StDisconnected s))) w1)
      in case runtime_of sid w2 of
           None \<Rightarrow> (False, w2)
         | Some s \<Rightarrow>
             if reason = AccountLocked
             then (case record_lock_cooldown (account_lock_schedule_from_env (ee_env ee)) (db_now w2) s of
                     None \<Rightarrow> (False, w2)
                   | Some ((cooldown, until), s') \<Rightarrow>
                       (False, announce (ee_libs ee) sid ''account_locked'' (lock_payload sid (db_now w2) cooldown until figures)
                         (with_runtime sid (\<lambda>_. s') w2)))
             else (let (purge, s') = record_logout_and_should_purge (db_now w2) s; w3 = with_runtime sid (\<lambda>_. s') w2
                   in if purge then (True, unlink_session sid w3) else (False, w3)))"

definition on_logged_out ::
    "'p event_env \<Rightarrow> string \<Rightarrow> connect_failure_reason \<Rightarrow> 'w lifecycle_scheme \<Rightarrow> bool \<times> 'w lifecycle_scheme" where
  "on_logged_out ee sid reason w =
     (let (figures, w1) = snapshot_on_logout sid (reason_text reason) w in logged_out_finish ee sid reason figures w1)"

definition on_incoming_call :: "bool \<Rightarrow> incoming_call \<Rightarrow> 'w lifecycle_scheme \<Rightarrow> 'w lifecycle_scheme" where
  "on_incoming_call auto_reject c w =
     (if ic_action c = CallOffer \<and> auto_reject then w
      else if ic_action c = CallOffer \<and> ic_call_id c \<noteq> [] \<and> \<not> ic_offline c
        then w\<lparr>incoming_calls := removeAll (ic_call_id c) (incoming_calls w) @ [ic_call_id c]\<rparr>
      else if ic_action c \<in> {CallAccept, CallReject, CallTerminate}
        then w\<lparr>incoming_calls := removeAll (ic_call_id c) (incoming_calls w)\<rparr>
      else w)"

fun event_arm :: "'p event_env \<Rightarrow> string \<Rightarrow> client \<Rightarrow> 'p wa_event \<Rightarrow> 'w lifecycle_scheme \<Rightarrow> bool \<times> 'w lifecycle_scheme" where
  "event_arm ee sid client (WaPairingQrCode code _) w = (True, on_qr_code sid code w)"
| "event_arm ee sid client (WaPairingCode code timeout) w = (True, on_pair_code sid code timeout w)"
| "event_arm ee sid client WaConnected w = (True, on_connected sid client w)"
| "event_arm ee sid client (WaDisconnected _ _) w = (True, on_disconnected sid w)"
| "event_arm ee sid client (WaLoggedOut reason) w = on_logged_out ee sid reason w"
| "event_arm ee sid client (WaIncomingCall c) w = (True, on_incoming_call (auto_reject_incoming_calls (ee_env ee)) c w)"
| "event_arm ee sid client (WaMissedCall call_id) w = (True, w\<lparr>incoming_calls := removeAll call_id (incoming_calls w)\<rparr>)"
| "event_arm ee sid client _ w = (True, w)"

fun is_messages :: "'p wa_event \<Rightarrow> bool" where
  "is_messages (WaMessages _ _) = True"
| "is_messages _ = False"

fun announce_event :: "'p event_env \<Rightarrow> string \<Rightarrow> client \<Rightarrow> 'p wa_event \<Rightarrow> 'w lifecycle_scheme \<Rightarrow> 'w lifecycle_scheme" where
  "announce_event ee sid client (WaMessages offline batch) w = forward_messages ee (db_now w) offline sid (cl_id client) batch w"
| "announce_event ee sid client ev w =
     announce (ee_libs ee) sid (get_event_type ev) (event_to_json (ee_proto ee) (db_now w) ev sid) w"

definition handle_event :: "'p event_env \<Rightarrow> string \<Rightarrow> client \<Rightarrow> 'p wa_event \<Rightarrow> 'w lifecycle_scheme \<Rightarrow> 'w lifecycle_scheme" where
  "handle_event ee sid client ev w =
     (case runtime_of sid w of
        None \<Rightarrow> w
      | Some s \<Rightarrow>
          if \<not> is_current_client (ss_client s) (cl_id client) \<and> \<not> is_messages ev then w
          else (let (go_on, w1) = event_arm ee sid client ev w
                in if go_on then announce_event ee sid client ev (persist_contact_event sid ev w1) else w1))"

end
