(* ===== verification/Session_Watchdog.thy ===== *)
theory Session_Watchdog
  imports Session_Lifecycle New_Chats
begin

text \<open>
  Start-up reconnect and the reconnect watchdog
  (\<open>src/api/shared/sessions/handlers/lifecycle.rs\<close>), and the status endpoint with its
  diagnostics (\<open>src/api/shared/sessions/handlers/crud.rs\<close>). A tick of the watchdog is one pass
  over the runtimes; \<open>now_ms\<close> is its clock in milliseconds.
\<close>

definition env_u64 :: "(string \<Rightarrow> string option) \<Rightarrow> string \<Rightarrow> nat \<Rightarrow> nat" where
  "env_u64 env name d = (case Option.bind (env name) (parse_unsigned 64) of None \<Rightarrow> d | Some n \<Rightarrow> n)"

record watchdog_config =
  wd_poll_ms :: nat
  wd_max_attempts :: nat
  wd_max_stuck_secs :: int
  wd_stale_socket_secs :: nat

definition watchdog_from_env :: "(string \<Rightarrow> string option) \<Rightarrow> watchdog_config" where
  "watchdog_from_env env = \<lparr>
     wd_poll_ms = env_u64 env ''RECONNECT_WATCHDOG_POLL_MS'' 30000,
     wd_max_attempts = (case Option.bind (env ''RECONNECT_MAX_ATTEMPTS'') (parse_unsigned 32) of None \<Rightarrow> 10 | Some n \<Rightarrow> n),
     wd_max_stuck_secs = (case Option.bind (env ''RECONNECT_MAX_STUCK_SECS'') parse_i64 of None \<Rightarrow> 600 | Some n \<Rightarrow> n),
     wd_stale_socket_secs = env_u64 env ''STALE_SOCKET_SECS'' 150 \<rparr>"

definition stale_socket_silence :: "nat \<Rightarrow> nat \<Rightarrow> nat \<Rightarrow> nat option" where
  "stale_socket_silence now_ms last_ms threshold_secs =
     (if threshold_secs = 0 \<or> last_ms = 0 then None
      else let silent_secs = (now_ms - last_ms) div 1000
           in if threshold_secs < silent_secs then Some silent_secs else None)"

text \<open>Which check forces a rebuild of the client of a runtime, if one does.\<close>

definition watchdog_verdict :: "watchdog_config \<Rightarrow> unix \<Rightarrow> nat \<Rightarrow> session_state \<Rightarrow> (client \<times> string) option" where
  "watchdog_verdict cfg now now_ms s =
     (if lock_cooldown_remaining now s \<noteq> None then None
      else case ss_client s of
        None \<Rightarrow> None
      | Some c \<Rightarrow>
          (case ss_status s of
             StConnecting \<Rightarrow>
               (let stuck_secs = (case reconnecting_for_secs now s of None \<Rightarrow> 0 | Some n \<Rightarrow> n)
                in if reconnect_errors (cl_stats c) < wd_max_attempts cfg \<and> stuck_secs < wd_max_stuck_secs cfg
                   then None else Some (c, ''reconnect_watchdog''))
           | StLoggedIn \<Rightarrow>
               if cl_paused c then None
               else map_option (\<lambda>_. (c, ''stale_socket_watchdog''))
                 (stale_socket_silence now_ms (last_data_received_ms (cl_stats c)) (wd_stale_socket_secs cfg))
           | StConnected \<Rightarrow>
               if cl_paused c then None
               else map_option (\<lambda>_. (c, ''stale_socket_watchdog''))
                 (stale_socket_silence now_ms (last_data_received_ms (cl_stats c)) (wd_stale_socket_secs cfg))
           | _ \<Rightarrow> None))"

definition rebuild_payload :: "string \<Rightarrow> unix \<Rightarrow> string \<Rightarrow> json" where
  "rebuild_payload sid now forced_by = JObj [(''session_id'', JStr sid), (''event'', JStr ''disconnected''),
     (''timestamp'', JInt now), (''data'', JObj [(''forced_by'', JStr forced_by)])]"

text \<open>
  The rebuild waits for the old client to shut down; \<open>rebuild_finish\<close> is what follows, on
  whatever client is installed by then.
\<close>

definition rebuild_finish :: "libs \<Rightarrow> string \<Rightarrow> string \<Rightarrow> 'w lifecycle_scheme \<Rightarrow> 'w lifecycle_scheme" where
  "rebuild_finish lib sid forced_by w =
     (let w1 = store_status sid StDisconnected False
            (with_runtime sid (\<lambda>s. clear_reconnecting (set_status StDisconnected (set_client None s))) w);
          w2 = announce lib sid ''disconnected'' (rebuild_payload sid (db_now w1) forced_by) w1
      in spawn_connect sid ByWatchdog None (with_runtime sid (set_status StConnecting) w2))"

definition force_rebuild :: "libs \<Rightarrow> string \<Rightarrow> client \<Rightarrow> string \<Rightarrow> 'w lifecycle_scheme \<Rightarrow> 'w lifecycle_scheme" where
  "force_rebuild lib sid c forced_by w = rebuild_finish lib sid forced_by (shutdown_client (Some c) w)"

definition watchdog_session :: "libs \<Rightarrow> watchdog_config \<Rightarrow> nat \<Rightarrow> string \<Rightarrow> 'w lifecycle_scheme \<Rightarrow> 'w lifecycle_scheme" where
  "watchdog_session lib cfg now_ms sid w =
     (case Option.bind (runtime_of sid w) (watchdog_verdict cfg (db_now w) now_ms) of
        None \<Rightarrow> w
      | Some (c, forced_by) \<Rightarrow> force_rebuild lib sid c forced_by w)"

fun watchdog_pass :: "libs \<Rightarrow> watchdog_config \<Rightarrow> nat \<Rightarrow> string list \<Rightarrow> 'w lifecycle_scheme \<Rightarrow> 'w lifecycle_scheme" where
  "watchdog_pass lib cfg now_ms [] w = w"
| "watchdog_pass lib cfg now_ms (sid # sids) w = watchdog_pass lib cfg now_ms sids (watchdog_session lib cfg now_ms sid w)"

definition watchdog_tick :: "libs \<Rightarrow> watchdog_config \<Rightarrow> nat \<Rightarrow> 'w lifecycle_scheme \<Rightarrow> 'w lifecycle_scheme" where
  "watchdog_tick lib cfg now_ms w = watchdog_pass lib cfg now_ms (map fst (gw_sessions w)) w"

section \<open>Start-up\<close>

definition load_session_webhooks :: "string \<Rightarrow> 'w lifecycle_scheme \<Rightarrow> 'w lifecycle_scheme" where
  "load_session_webhooks sid w = (case get_webhooks_db sid w of
      (Inr rows, w1) \<Rightarrow> fold (\<lambda>(wid, config) w. register_webhook_mem sid wid config w) rows w1
    | (Inl _, w1) \<Rightarrow> w1)"

definition should_reconnect :: "session_info \<Rightarrow> bool" where
  "should_reconnect s \<longleftrightarrow> \<not> is_cloud_session s \<and>
     (si_status s \<in> {StLoggedIn, StConnected, StConnecting} \<or> si_is_logged_in s)"

definition startup_session :: "session_info \<Rightarrow> 'w lifecycle_scheme \<Rightarrow> 'w lifecycle_scheme" where
  "startup_session s w =
     (let w1 = load_session_webhooks (si_id s) w in
      if \<not> should_reconnect s then w1
      else case get_storage_path (si_id s) w1 of
             (Inr (Some path), w2) \<Rightarrow> spawn_connect (si_id s) ByStartup None (enter_connecting (si_id s) path w2)
           | (_, w2) \<Rightarrow> w2)"

definition reconnect_all_on_startup :: "(session_row \<Rightarrow> nat) \<Rightarrow> 'w lifecycle_scheme \<Rightarrow> 'w lifecycle_scheme" where
  "reconnect_all_on_startup rank w =
     (case list_sessions rank w of
        (Inl _, w1) \<Rightarrow> w1
      | (Inr rows, w1) \<Rightarrow> fold startup_session rows (db_ignore restore_auto_disabled_webhooks w1))"

section \<open>Status\<close>

datatype reachability = Reachable | Reconnecting | Paused | Unsupervised | Finished | OtherReachability

fun reachability_str :: "reachability \<Rightarrow> string" where
  "reachability_str Reachable = ''reachable''"
| "reachability_str Reconnecting = ''reconnecting''"
| "reachability_str Paused = ''paused''"
| "reachability_str Unsupervised = ''unsupervised''"
| "reachability_str Finished = ''finished''"
| "reachability_str OtherReachability = ''unknown''"

record webhook_health =
  whh_id :: string
  whh_url :: string
  whh_enabled :: bool
  whh_receives_messages :: bool
  whh_circuit_open :: bool
  whh_consecutive_failures :: nat
  whh_retry_in_seconds :: "nat option"
  whh_last_error :: "string option"
  whh_skipped :: nat

record session_diagnostics =
  sd_last_data_received_at :: "int option"
  sd_client :: "client_stats option"
  sd_messages_forwarded :: nat
  sd_last_message_forwarded_at :: "int option"
  sd_webhooks :: "webhook_health list"
  sd_new_chats :: new_chat_counts

record session_status_response =
  sr_status :: session_status
  sr_is_logged_in :: bool
  sr_socket_alive :: bool
  sr_paused :: bool
  sr_phone_number :: "string option"
  sr_push_name :: "string option"
  sr_pair :: pair_state
  sr_reachability :: "string option"
  sr_diagnostics :: session_diagnostics

definition webhook_health_of :: "'w lifecycle_scheme \<Rightarrow> string \<times> webhook_config \<Rightarrow> webhook_health" where
  "webhook_health_of w = (\<lambda>(wid, config).
     let circuit = webhook_circuit_snapshot (hub_mono w) (wc_url config) (hub_circuits w)
     in \<lparr> whh_id = wid, whh_url = wc_url config, whh_enabled = wc_enabled config,
          whh_receives_messages = list_ex (\<lambda>e. webhook_event_matches e ''message'') (wc_events config),
          whh_circuit_open = snap_open circuit, whh_consecutive_failures = snap_failures circuit,
          whh_retry_in_seconds = snap_retry_in_secs circuit, whh_last_error = snap_last_error circuit,
          whh_skipped = snap_skipped circuit \<rparr>)"

definition positive_opt :: "int \<Rightarrow> int option" where
  "positive_opt n = (if 0 < n then Some n else None)"

definition diagnostics_of :: "string \<Rightarrow> new_chat_counts \<Rightarrow> 'w lifecycle_scheme \<Rightarrow> session_diagnostics" where
  "diagnostics_of sid figures w =
     (let c = map_option cl_stats (installed_client sid w)
      in \<lparr> sd_last_data_received_at = Option.bind c (\<lambda>st.
             if 0 < last_data_received_ms st then Some (int (last_data_received_ms st div 1000)) else None),
           sd_client = c,
           sd_messages_forwarded = (case runtime_of sid w of None \<Rightarrow> 0 | Some s \<Rightarrow> ss_messages_forwarded s),
           sd_last_message_forwarded_at = Option.bind (runtime_of sid w) (\<lambda>s. positive_opt (ss_last_message_forwarded_at s)),
           sd_webhooks = map (webhook_health_of w) (get_webhooks sid w),
           sd_new_chats = figures \<rparr>)"

text \<open>The status, whether it is logged in, and the rest of the live view.\<close>

definition status_of_runtime :: "session_state \<Rightarrow> session_status \<times> bool" where
  "status_of_runtime s =
     (if is_alive s then (StLoggedIn, True)
      else if ss_status s = StLoggedIn then (StConnecting, True) else (ss_status s, False))"

definition get_session_status ::
    "(client \<Rightarrow> reachability) \<Rightarrow> string \<Rightarrow> ('w, session_status_response) life_handler" where
  "get_session_status reach sid = db_bind (found_session sid) (\<lambda>i w.
     let (figures, w1) = counts sid w;
         rt = runtime_of sid w;
         ((status, logged_in), live) =
           (if is_cloud_session i then ((StLoggedIn, True), None)
            else case rt of None \<Rightarrow> ((si_status i, si_is_logged_in i), None) | Some s \<Rightarrow> (status_of_runtime s, Some s))
     in (Inr \<lparr> sr_status = status, sr_is_logged_in = logged_in,
           sr_socket_alive = (case live of None \<Rightarrow> False | Some s \<Rightarrow> socket_alive s),
           sr_paused = (case Option.bind live ss_client of None \<Rightarrow> False | Some c \<Rightarrow> cl_paused c),
           sr_phone_number = si_phone_number i, sr_push_name = si_push_name i,
           sr_pair = (case live of None \<Rightarrow> pair_state_default | Some s \<Rightarrow> ss_pair_state s),
           sr_reachability = map_option (\<lambda>c. reachability_str (reach c)) (Option.bind live ss_client),
           sr_diagnostics = diagnostics_of sid figures w \<rparr>, w1))"

section \<open>Device\<close>

record device_info =
  di_device_id :: "nat option"
  di_phone_number :: "string option"
  di_lid :: "string option"
  di_push_name :: "string option"

text \<open>The client's JIDs as texts are the library's.\<close>

definition get_device_info ::
    "(client \<Rightarrow> string option) \<Rightarrow> (client \<Rightarrow> string option) \<Rightarrow> string \<Rightarrow> ('w, device_info) life_handler" where
  "get_device_info pn_text lid_text sid = db_bind (found_session sid) (\<lambda>_ w.
     case installed_client sid w of
       None \<Rightarrow> (Inl NotConnected, w)
     | Some c \<Rightarrow> (Inr \<lparr> di_device_id = None, di_phone_number = pn_text c, di_lid = lid_text c,
         di_push_name = (if cl_push_name c = [] then None else Some (cl_push_name c)) \<rparr>, w))"

end
