(* ===== verification/Session_Admin_Facts.thy ===== *)
theory Session_Admin_Facts
  imports Session_Admin
begin

text \<open>
  What deleting and purging sessions leaves, and how far the scope of a minted token really
  reaches: session ids are not checked, and a session's directory is its id under the storage
  path.
\<close>

section \<open>Running the endpoints on a database that answers\<close>

lemma create_session_run:
  "db_faults w = [] \<Longrightarrow> find_session sid w = None \<Longrightarrow>
   create_session sid name path w = (Inr (row_to_session (new_session_row (db_now w) sid name path)),
     w\<lparr>sessions := sessions w @ [new_session_row (db_now w) sid name path]\<rparr>)"
  by (auto simp: create_session_def insert_session_def db_insert_def db_bind_def db_return_def db_fail_def get_session_def
      find_session_def find_append new_session_row_def)

lemma delete_session_run:
  "db_faults w = [] \<Longrightarrow> delete_session sid w = (Inr (0 < count_where (\<lambda>r. s_id r = sid) (sessions w)),
     w\<lparr>webhook_rows := delete_where (\<lambda>r. w_session r = sid) (webhook_rows w),
       contact_rows := delete_where (\<lambda>r. ct_session r = sid) (contact_rows w),
       dlq_rows := delete_where (\<lambda>r. dr_session r = sid) (dlq_rows w),
       sessions := delete_where (\<lambda>r. s_id r = sid) (sessions w)\<rparr>)"
  by (simp add: delete_session_def purge_dependents_def db_bind_def)

lemma purge_new_chats_run:
  "db_faults w = [] \<Longrightarrow> purge_new_chats sid w =
     w\<lparr>new_chats := delete_where (\<lambda>r. nc_session r = sid) (new_chats w),
       new_chat_limits := delete_where (\<lambda>l. nl_session l = sid) (new_chat_limits w),
       new_chat_incidents := delete_where (\<lambda>i. fst i = sid) (new_chat_incidents w)\<rparr>"
  by (simp add: purge_new_chats_def db_ignore_def)

text \<open>A file system call touches nothing of the database or of the memory tables.\<close>

lemma remove_dir_frame:
  obtains fs rs where "remove_dir_all p w = w\<lparr>fs_faults := fs, dirs_removed := rs\<rparr>"
    and "fs_faults w = [] \<Longrightarrow> fs = [] \<and> rs = dirs_removed w @ [p]"
proof (cases "\<exists>fs. fs_faults w = True # fs")
  case True
  then obtain fs where "fs_faults w = True # fs" by blast
  then show thesis by (intro that [where fs = fs and rs = "dirs_removed w"]) (simp_all add: remove_dir_all_def fs_call_def)
next
  case False
  then have "fs_call f w = (True, f (w\<lparr>fs_faults := tl (fs_faults w)\<rparr>))" for f :: "'a admin_scheme \<Rightarrow> 'a admin_scheme"
    by (auto simp: fs_call_def split: list.splits bool.splits)
  then show thesis
    by (intro that [where fs = "tl (fs_faults w)" and rs = "dirs_removed w @ [p]"]) (simp_all add: remove_dir_all_def)
qed

lemma persist_tags_frame:
  obtains fs f where "persist_tags w = w\<lparr>fs_faults := fs, tags_file := f\<rparr>" and "fs_faults w = [] \<Longrightarrow> fs = []"
proof (cases "\<exists>fs. fs_faults w = True # fs")
  case True
  then obtain fs where "fs_faults w = True # fs" by blast
  then show thesis by (intro that [where fs = fs and f = "tags_file w"]) (simp_all add: persist_tags_def fs_call_def)
next
  case False
  then have "fs_call f w = (True, f (w\<lparr>fs_faults := tl (fs_faults w)\<rparr>))" for f :: "'a admin_scheme \<Rightarrow> 'a admin_scheme"
    by (auto simp: fs_call_def split: list.splits bool.splits)
  then show thesis
    by (intro that [where fs = "tl (fs_faults w)" and f = "Some (session_tags w)"]) (simp_all add: persist_tags_def)
qed

lemma drop_tags_frame:
  obtains fs f m where "drop_tags_for sid w = w\<lparr>session_tags := m, fs_faults := fs, tags_file := f\<rparr>"
    and "dm_get m sid = None" and "fs_faults w = [] \<Longrightarrow> fs = []"
proof (cases "dm_get (session_tags w) sid = None")
  case True
  then show thesis by (intro that [where m = "session_tags w" and fs = "fs_faults w" and f = "tags_file w"]) (simp_all add: drop_tags_for_def)
next
  case False
  let ?w = "w\<lparr>session_tags := dm_remove sid (session_tags w)\<rparr>"
  obtain fs f where "persist_tags ?w = ?w\<lparr>fs_faults := fs, tags_file := f\<rparr>" "fs_faults ?w = [] \<Longrightarrow> fs = []"
    using persist_tags_frame by blast
  then show thesis
    using False by (intro that [where m = "dm_remove sid (session_tags w)" and fs = fs and f = f]) (simp_all add: drop_tags_for_def)
qed

section \<open>Delete\<close>

text \<open>Everything the gateway keeps of a session, outside the tables of \<open>SessionManager\<close>.\<close>

definition forgotten :: "string \<Rightarrow> 'w admin_scheme \<Rightarrow> bool" where
  "forgotten sid w \<longleftrightarrow> get_session_mem sid (gw_sessions w) = None \<and> get_webhooks sid w = [] \<and>
     dm_get (hub_dlq w) sid = None \<and> tags_of sid w = [] \<and>
     list_all (\<lambda>r. nc_session r \<noteq> sid) (new_chats w) \<and> find_limit sid (new_chat_limits w) = None \<and>
     list_all (\<lambda>i. fst i \<noteq> sid) (new_chat_incidents w)"

lemma find_limit_delete: "find_limit sid (delete_where (\<lambda>l. nl_session l = sid) ls) = None"
  by (induction ls) (auto simp: find_limit_def delete_where_def)

text \<open>What a deletion changes of the tables: the rows of the session go, the others stay in their order.\<close>

definition rows_deleted :: "string \<Rightarrow> 'w admin_scheme \<Rightarrow> 'w admin_scheme \<Rightarrow> bool" where
  "rows_deleted sid w w' \<longleftrightarrow>
     sessions w' = filter (\<lambda>r. s_id r \<noteq> sid) (sessions w) \<and>
     webhook_rows w' = filter (\<lambda>r. w_session r \<noteq> sid) (webhook_rows w) \<and>
     contact_rows w' = filter (\<lambda>r. ct_session r \<noteq> sid) (contact_rows w) \<and>
     dlq_rows w' = filter (\<lambda>r. dr_session r \<noteq> sid) (dlq_rows w) \<and>
     new_chats w' = filter (\<lambda>r. nc_session r \<noteq> sid) (new_chats w) \<and>
     new_chat_limits w' = filter (\<lambda>l. nl_session l \<noteq> sid) (new_chat_limits w) \<and>
     new_chat_incidents w' = filter (\<lambda>i. fst i \<noteq> sid) (new_chat_incidents w) \<and>
     message_chats w' = message_chats w"

lemma delete_session_api_run:
  assumes "db_faults w = []"
  shows "\<exists>w'. delete_session_api sid w =
      ((case find_session sid w of None \<Rightarrow> Inl (SessionNotFound sid) | Some _ \<Rightarrow> Inr (success_with_message ''Session deleted'')), w') \<and>
    rows_deleted sid w w' \<and> forgotten sid w' \<and>
    (fs_faults w = [] \<longrightarrow> dirs_removed w' = dirs_removed w @ (case find_session sid w of None \<Rightarrow> [] | Some r \<Rightarrow> [s_storage_path r]))"
proof -
  let ?v = "purge_webhooks_for_session sid (remove_runtime sid w)"
  obtain fs f m where drop: "drop_tags_for sid ?v = ?v\<lparr>session_tags := m, fs_faults := fs, tags_file := f\<rparr>"
      "dm_get m sid = None" "fs_faults ?v = [] \<Longrightarrow> fs = []"
    using drop_tags_frame by blast
  define w1 where "w1 = purge_new_chats sid (?v\<lparr>session_tags := m, fs_faults := fs, tags_file := f\<rparr>)"
  have w1: "w1 = ?v\<lparr>session_tags := m, fs_faults := fs, tags_file := f,
      new_chats := delete_where (\<lambda>r. nc_session r = sid) (new_chats w),
      new_chat_limits := delete_where (\<lambda>l. nl_session l = sid) (new_chat_limits w),
      new_chat_incidents := delete_where (\<lambda>i. fst i = sid) (new_chat_incidents w)\<rparr>"
    using assms by (simp add: w1_def purge_new_chats_run purge_webhooks_for_session_def remove_runtime_def)
  have forgot: "forgotten sid w1"
    using drop(2) unfolding w1
    by (auto simp: forgotten_def purge_webhooks_for_session_def remove_runtime_def get_session_mem_def remove_session_mem_def
        get_webhooks_def dm_or_def tags_of_def find_limit_delete list_all_iff)
  have same: "sessions w1 = sessions w" "db_faults w1 = []" "dirs_removed w1 = dirs_removed w" "fs_faults w1 = fs"
    using assms unfolding w1 by (simp_all add: purge_webhooks_for_session_def remove_runtime_def)
  have tables: "webhook_rows w1 = webhook_rows w" "contact_rows w1 = contact_rows w" "dlq_rows w1 = dlq_rows w"
      "new_chats w1 = delete_where (\<lambda>r. nc_session r = sid) (new_chats w)"
      "new_chat_limits w1 = delete_where (\<lambda>l. nl_session l = sid) (new_chat_limits w)"
      "new_chat_incidents w1 = delete_where (\<lambda>i. fst i = sid) (new_chat_incidents w)" "message_chats w1 = message_chats w"
    unfolding w1 by (simp_all add: purge_webhooks_for_session_def remove_runtime_def)
  have fs: "fs_faults w = [] \<Longrightarrow> fs = []"
    using drop(3) by (simp add: purge_webhooks_for_session_def remove_runtime_def)
  have found: "0 < count_where (\<lambda>r. s_id r = sid) (sessions w) \<longleftrightarrow> find_session sid w \<noteq> None"
    using count_where_0_iff [of "\<lambda>r. s_id r = sid" "sessions w"] by (auto simp: find_session_def find_None_iff)
  have api: "delete_session_api sid w =
      (let w3 = (case map_option s_storage_path (find_session sid w) of None \<Rightarrow> w1 | Some p \<Rightarrow> remove_dir_all p w1)
       in db_bind (db_map_err Internal (delete_session sid)) (\<lambda>deleted.
             if deleted then db_return (success_with_message ''Session deleted'') else db_fail (SessionNotFound sid)) w3)"
    using same by (simp add: delete_session_api_def drop(1) w1_def [symmetric] get_storage_path_def db_map_err_def db_bind_def find_session_def)
  show ?thesis
  proof (cases "find_session sid w")
    case None
    then show ?thesis
      using api same tables found forgot
      by (simp add: db_map_err_def db_bind_def delete_session_run delete_where_def db_fail_def rows_deleted_def forgotten_def get_webhooks_def tags_of_def)
  next
    case (Some r)
    obtain fs' rs where rm: "remove_dir_all (s_storage_path r) w1 = w1\<lparr>fs_faults := fs', dirs_removed := rs\<rparr>"
        "fs_faults w1 = [] \<Longrightarrow> fs' = [] \<and> rs = dirs_removed w1 @ [s_storage_path r]"
      using remove_dir_frame by blast
    then show ?thesis
      using Some api same tables found forgot fs
      by (simp add: db_map_err_def db_bind_def delete_session_run delete_where_def db_return_def rows_deleted_def forgotten_def get_webhooks_def tags_of_def)
  qed
qed

definition demo_admin :: "session_row list \<Rightarrow> string list dash \<Rightarrow> admin" where
  "demo_admin rows tags = \<lparr> db_driver = SQLite, db_faults = [], db_now = 10000000,
     sessions = rows, webhook_rows = [], contact_rows = [], dlq_rows = [],
     hub_mono = 0, hub_ms = 0, hub_retry = demo_retry, hub_webhooks = [], hub_circuits = [], hub_dlq = [], hub_ring = [],
     gw_sessions = [], gw_spawned = [], message_chats = [], new_chats = [], new_chat_limits = [], new_chat_incidents = [],
     nc_recorded = None, session_tags = tags, tags_file = None, fs_faults = [], dirs_created = [], dirs_removed = [],
     connects_spawned = [], base_storage_path = ''/data/waxum'' \<rparr>"

section \<open>Purge\<close>

lemma purge_one_run:
  assumes "db_faults w = []"
  shows "\<exists>w'. purge_one sid w = (True, w') \<and> db_faults w' = [] \<and> sessions w' = delete_where (\<lambda>r. s_id r = sid) (sessions w) \<and>
    session_tags w' = session_tags w"
proof -
  define w1 where "w1 = purge_new_chats sid (purge_webhooks_for_session sid (remove_runtime sid w))"
  have w1: "w1 = (purge_webhooks_for_session sid (remove_runtime sid w))\<lparr>
      new_chats := delete_where (\<lambda>r. nc_session r = sid) (new_chats w),
      new_chat_limits := delete_where (\<lambda>l. nl_session l = sid) (new_chat_limits w),
      new_chat_incidents := delete_where (\<lambda>i. fst i = sid) (new_chat_incidents w)\<rparr>"
    using assms by (simp add: w1_def purge_new_chats_run purge_webhooks_for_session_def remove_runtime_def)
  have same: "sessions w1 = sessions w" "db_faults w1 = []" "session_tags w1 = session_tags w"
    using assms unfolding w1 by (simp_all add: purge_webhooks_for_session_def remove_runtime_def)
  have path: "get_storage_path sid w = (Inr (map_option s_storage_path (find_session sid w)), w)"
    using assms by (simp add: get_storage_path_def)
  show ?thesis
  proof (cases "find_session sid w")
    case None
    then show ?thesis
      using same by (simp add: purge_one_def path w1_def [symmetric] delete_session_run)
  next
    case (Some r)
    obtain fs rs where "remove_dir_all (s_storage_path r) w1 = w1\<lparr>fs_faults := fs, dirs_removed := rs\<rparr>"
      using remove_dir_frame by blast
    then show ?thesis
      using Some same by (simp add: purge_one_def path w1_def [symmetric] delete_session_run)
  qed
qed

lemma purge_each_run:
  assumes "db_faults w = []"
  shows "\<exists>w'. purge_each sids w = (sids, w') \<and> db_faults w' = [] \<and>
    sessions w' = filter (\<lambda>r. s_id r \<notin> set sids) (sessions w) \<and> session_tags w' = session_tags w"
  using assms
proof (induction sids arbitrary: w)
  case (Cons sid sids)
  obtain w1 where w1: "purge_one sid w = (True, w1)" "db_faults w1 = []"
      "sessions w1 = delete_where (\<lambda>r. s_id r = sid) (sessions w)" "session_tags w1 = session_tags w"
    using purge_one_run [OF Cons.prems] by blast
  obtain w2 where w2: "purge_each sids w1 = (sids, w2)" "db_faults w2 = []"
      "sessions w2 = filter (\<lambda>r. s_id r \<notin> set sids) (sessions w1)" "session_tags w2 = session_tags w1"
    using Cons.IH [OF w1(2)] by blast
  have "filter (\<lambda>r. s_id r \<notin> set sids) (delete_where (\<lambda>r. s_id r = sid) rows) = filter (\<lambda>r. s_id r \<notin> set (sid # sids)) rows" for rows
    by (simp add: delete_where_def conj_commute)
  then show ?case using w1 w2 by simp
qed simp

text \<open>A dry run tells the truth. On a database that answers, the purge lists exactly the sessions
  a dry run of the same query lists, and the same counts; afterwards precisely those sessions
  are gone from the table; the dry run itself changes nothing. But, unlike deleting a session,
  purging leaves the tags: every tag of a purged session is still there for the next session
  with its id.\<close>

theorem purge_matches_dry_run:
  assumes "db_faults w = []"
  shows "\<exists>dry r w'. purge_sessions rank (q\<lparr>pq_dry_run := True\<rparr>) w = (Inr dry, w) \<and>
    purge_sessions rank (q\<lparr>pq_dry_run := False\<rparr>) w = (Inr r, w') \<and>
    pr_purged r = pr_purged dry \<and> pr_kept r = pr_kept dry \<and> pr_total_before r = pr_total_before dry \<and>
    sessions w' = filter (\<lambda>s. s_id s \<notin> set (pr_purged dry)) (sessions w) \<and>
    session_tags w' = session_tags w"
proof -
  let ?rows = "map row_to_session (order_by_desc s_created_at rank (sessions w))"
  let ?cut = "db_now w - max 0 (pq_days q) * 86400"
  let ?t = "map si_id (filter (purge_hit q ?cut) ?rows)"
  have hit: "purge_hit (q\<lparr>pq_dry_run := d\<rparr>) = purge_hit q" for d
    by (intro ext) (simp add: purge_hit_def)
  have rows: "db_map_err Internal (list_sessions rank) w = (Inr ?rows, w)"
    using assms by (simp add: list_sessions_def db_map_err_def)
  obtain w' where w': "purge_each ?t w = (?t, w')" "sessions w' = filter (\<lambda>r. s_id r \<notin> set ?t) (sessions w)"
      "session_tags w' = session_tags w"
    using purge_each_run [OF assms, of ?t] by blast
  show ?thesis
    using w' by (simp add: purge_sessions_def db_bind_def rows Let_def hit del: set_map set_filter filter_map)
qed

lemma purge_matches_dry_run_witness:
  "\<exists>r w'. purge_sessions (\<lambda>_. 0) \<lparr> pq_filter = ''all'', pq_days = 30, pq_dry_run = False \<rparr>
       (demo_admin [new_session_row 0 ''s'' None ''/data/waxum/s''] [(''s'', [''cs''])]) = (Inr r, w') \<and>
     session_tags w' = [(''s'', [''cs''])] \<and> sessions w' = []"
proof -
  let ?w = "demo_admin [new_session_row 0 ''s'' None ''/data/waxum/s''] [(''s'', [''cs''])]"
  let ?q = "\<lparr> pq_filter = ''all'', pq_days = 30, pq_dry_run = False \<rparr>"
  have dry: "purge_sessions (\<lambda>_. 0) (?q\<lparr>pq_dry_run := True\<rparr>) ?w
      = (Inr \<lparr> pr_filter = ''all'', pr_days = 30, pr_dry_run = True, pr_purged = [''s''], pr_kept = 0, pr_total_before = 1 \<rparr>, ?w)"
    by (simp add: purge_sessions_def demo_admin_def db_bind_def db_map_err_def list_sessions_def order_by_desc_def Let_def
        purge_hit_def row_to_session_def new_session_row_def)
  have s: "sessions ?w = [new_session_row 0 ''s'' None ''/data/waxum/s'']" "session_tags ?w = [(''s'', [''cs''])]" "db_faults ?w = []"
    by (simp_all add: demo_admin_def)
  show ?thesis
    using purge_matches_dry_run [OF s(3), of "\<lambda>_. 0" ?q] dry s by (auto simp: new_session_row_def)
qed

section \<open>Paths\<close>

text \<open>Which directory a path names: empty and \<open>.\<close> segments are skipped, \<open>..\<close> goes up, and the root
  is its own parent.\<close>

definition path_step :: "string list \<Rightarrow> string \<Rightarrow> string list" where
  "path_step dir seg = (if seg = [] \<or> seg = ''.'' then dir else if seg = ''..'' then butlast dir else dir @ [seg])"

definition resolve_path :: "string \<Rightarrow> string list" where
  "resolve_path p = foldl path_step [] (split_on (CHR ''/'') p)"

definition plain_segment :: "string \<Rightarrow> bool" where
  "plain_segment seg \<longleftrightarrow> seg \<noteq> [] \<and> seg \<noteq> ''.'' \<and> seg \<noteq> ''..'' \<and> CHR ''/'' \<notin> set seg"

lemma split_on_sep: "split_on d (xs @ d # ys) = split_on d xs @ split_on d ys"
  by (induction xs) (auto split: list.splits)

lemma foldl_plain: "list_all plain_segment segs \<Longrightarrow> foldl path_step dir segs = dir @ segs"
  by (induction segs arbitrary: dir) (auto simp: path_step_def plain_segment_def)

lemma foldl_up: "length dir \<le> n \<Longrightarrow> foldl path_step dir (replicate n ''..'') = []"
proof (induction n arbitrary: dir)
  case (Suc n)
  then show ?case by (simp add: path_step_def)
qed simp

text \<open>The session id that leads from the storage path to a directory of one's choice.\<close>

definition escape_id :: "string \<Rightarrow> string \<Rightarrow> string list \<Rightarrow> string" where
  "escape_id base pre target =
     join_with ''/'' (pre # replicate (length (resolve_path base) + 1) ''..'' @ target)"

lemma escape_id_resolves:
  assumes "plain_segment pre" and "list_all plain_segment target"
  shows "resolve_path (storage_path_of base (escape_id base pre target)) = target"
proof -
  let ?n = "length (resolve_path base)"
  let ?segs = "pre # replicate (?n + 1) ''..'' @ target"
  have "CHR ''/'' \<notin> set seg" if "seg \<in> set ?segs" for seg
  proof -
    have "seg = pre \<or> seg = ''..'' \<or> seg \<in> set target" using that by (auto simp del: replicate_Suc split: if_splits)
    then show ?thesis using assms by (elim disjE) (simp_all add: plain_segment_def list_all_iff)
  qed
  then have "split_on (CHR ''/'') (escape_id base pre target) = ?segs"
    unfolding escape_id_def by (intro split_on_join_with) auto
  then have "resolve_path (storage_path_of base (escape_id base pre target)) = foldl path_step (resolve_path base) ?segs"
    by (simp add: storage_path_of_def split_on_sep resolve_path_def)
  also have "\<dots> = foldl path_step (foldl path_step (resolve_path base @ [pre]) (replicate (?n + 1) ''..'')) target"
    using assms(1) by (simp add: path_step_def [of "resolve_path base" pre] plain_segment_def del: replicate_Suc)
  also have "\<dots> = target"
    using foldl_up [of "resolve_path base @ [pre]" "?n + 1"] assms(2) by (simp add: foldl_plain del: replicate_Suc)
  finally show ?thesis .
qed

lemma create_session_api_new:
  assumes "db_faults w = []" and "fs_faults w = []" and "creation_allowed scope rq" and "cr_id rq = Some sid"
    and "cr_webhook rq = None" and "find_session sid w = None"
  shows "\<exists>i w'. create_session_api connect fresh wid scope rq w = (Inr i, w') \<and> db_faults w' = [] \<and> fs_faults w' = [] \<and>
    dirs_removed w' = dirs_removed w \<and> find_session sid w' = Some (new_session_row (db_now w) sid (cr_name rq) (storage_path_of (base_storage_path w) sid))"
proof -
  let ?p = "storage_path_of (base_storage_path w) sid"
  let ?w1 = "w\<lparr>fs_faults := [], dirs_created := dirs_created w @ [?p]\<rparr>"
  have mk: "create_dir_all ?p w = (Inr (), ?w1)" using assms(2) by (simp add: create_dir_all_def fs_call_def)
  have cs: "create_session sid (cr_name rq) ?p ?w1 = (Inr (row_to_session (new_session_row (db_now w) sid (cr_name rq) ?p)),
      ?w1\<lparr>sessions := sessions w @ [new_session_row (db_now w) sid (cr_name rq) ?p]\<rparr>)"
    using assms(1,6) create_session_run [of ?w1 sid] by (simp add: find_session_def)
  have find: "find (\<lambda>r. s_id r = sid) (sessions w @ [new_session_row (db_now w) sid (cr_name rq) ?p])
      = Some (new_session_row (db_now w) sid (cr_name rq) ?p)"
    using assms(6) by (simp add: find_append find_session_def new_session_row_def)
  show ?thesis
    using assms mk cs find
    by (simp add: create_session_api_def Let_def db_bind_def db_map_err_def get_session_def add_first_webhook_def db_return_def
        start_connecting_def split_beta find_session_def)
qed

text \<open>C37. A scoped token is not confined to the storage directory. Session ids are not checked, and the
  directory of a session is its id under the storage path. So for whatever directory \<open>target\<close>
  of the machine, a token that has only one valid prefix, of plain characters, can create a
  session under a longer id that the prefix covers, in a gateway none of whose sessions has a
  slash in its id; and deleting that session, which the token covers as well, has \<open>target\<close>
  removed with everything in it.\<close>

theorem scoped_token_escapes_storage:
  assumes "db_faults w = []" and "fs_faults w = []" and "\<And>r. r \<in> set (sessions w) \<Longrightarrow> CHR ''/'' \<notin> set (s_id r)"
    and "valid_session_prefix pre" and "list_all plain_segment target"
  shows "\<exists>sid i w1 w2. covers \<lparr> ts_revoked = False, ts_session_ids = [], ts_session_prefixes = [pre] \<rparr> sid \<and>
    create_session_api connect fresh wid (Some \<lparr> ts_revoked = False, ts_session_ids = [], ts_session_prefixes = [pre] \<rparr>)
      \<lparr> cr_id = Some sid, cr_name = None, cr_reuse = None, cr_webhook = None \<rparr> w = (Inr i, w1) \<and>
    delete_session_api sid w1 = (Inr (success_with_message ''Session deleted''), w2) \<and>
    map resolve_path (dirs_removed w2) = map resolve_path (dirs_removed w) @ [target]"
proof -
  let ?sc = "\<lparr> ts_revoked = False, ts_session_ids = [], ts_session_prefixes = [pre] \<rparr>"
  let ?sid = "escape_id (base_storage_path w) pre target"
  let ?rq = "\<lparr> cr_id = Some ?sid, cr_name = None, cr_reuse = None, cr_webhook = None \<rparr>"
  have "CHR ''/'' \<notin> set pre" "CHR ''.'' \<notin> set pre" "pre \<noteq> []"
    using assms(4) by (auto simp: valid_session_prefix_def list_all_iff is_alnum_def is_digit_def)
  then have plain: "plain_segment pre" by (auto simp: plain_segment_def)
  have sid: "?sid = pre @ ''/'' @ join_with ''/'' (replicate (length (resolve_path (base_storage_path w)) + 1) ''..'' @ target)"
    by (simp add: escape_id_def)
  have cov: "covers ?sc ?sid" unfolding sid by (simp add: covers_def)
  have "CHR ''/'' \<in> set ?sid" unfolding sid by simp
  then have "s_id r \<noteq> ?sid" if "r \<in> set (sessions w)" for r using assms(3) [OF that] by metis
  then have new: "find_session ?sid w = None" by (simp add: find_session_def find_None_iff)
  obtain i w1 where w1: "create_session_api connect fresh wid (Some ?sc) ?rq w = (Inr i, w1)" "db_faults w1 = []" "fs_faults w1 = []"
      "dirs_removed w1 = dirs_removed w"
      "find_session ?sid w1 = Some (new_session_row (db_now w) ?sid None (storage_path_of (base_storage_path w) ?sid))"
    using create_session_api_new [OF assms(1,2), of "Some ?sc" ?rq ?sid connect fresh wid] new cov by (auto simp: creation_allowed_def)
  obtain w2 where "delete_session_api ?sid w1 = (Inr (success_with_message ''Session deleted''), w2)"
      "dirs_removed w2 = dirs_removed w1 @ [storage_path_of (base_storage_path w) ?sid]"
    using delete_session_api_run [OF w1(2), of ?sid] w1(3,5) by (auto simp: new_session_row_def)
  then show ?thesis
    using w1 cov escape_id_resolves [OF plain assms(5), of "base_storage_path w"] by auto
qed

lemma scoped_token_escapes_storage_witness:
  "\<exists>sid i w1 w2. covers \<lparr> ts_revoked = False, ts_session_ids = [], ts_session_prefixes = [''ops-''] \<rparr> sid \<and>
    create_session_api (\<lambda>_. db_return ()) ''f'' ''w'' (Some \<lparr> ts_revoked = False, ts_session_ids = [], ts_session_prefixes = [''ops-''] \<rparr>)
      \<lparr> cr_id = Some sid, cr_name = None, cr_reuse = None, cr_webhook = None \<rparr> (demo_admin [] []) = (Inr i, w1) \<and>
    delete_session_api sid w1 = (Inr (success_with_message ''Session deleted''), w2) \<and>
    map resolve_path (dirs_removed w2) = [[''home'', ''alice'']]"
proof -
  have w: "db_faults (demo_admin [] []) = []" "fs_faults (demo_admin [] []) = []" "dirs_removed (demo_admin [] []) = []"
      "r \<in> set (sessions (demo_admin [] [])) \<Longrightarrow> CHR ''/'' \<notin> set (s_id r)" for r
    by (simp_all add: demo_admin_def)
  have p: "valid_session_prefix ''ops-''" by (simp add: valid_session_prefix_def is_alnum_def is_digit_def)
  have t: "list_all plain_segment [''home'', ''alice'']" by (simp add: plain_segment_def)
  show ?thesis
    using scoped_token_escapes_storage [OF w(1,2) w(4) p t, of "\<lambda>_. db_return ()" "''f''" "''w''"] w(3) by simp
qed

end
