(* ===== verification/Message_Store_Facts.thy ===== *)
theory Message_Store_Facts
  imports Message_Store Session_Admin_Facts
begin

text \<open>
  What the stores keep and find: LIKE searches are literal, the history has one row per message
  and gives a message back with its media pointer, a contact remembers the last value known of
  each field, and what deleting a session removes from the tables and what it leaves.
\<close>

section \<open>LIKE is literal\<close>

lemma like_match_percent: "like_match f (CHR ''%'' # p) s \<longleftrightarrow> (\<exists>k \<le> length s. like_match f p (drop k s))"
proof (induction s)
  case Nil
  show ?case by (subst like_match.simps) simp
next
  case (Cons c s)
  have "like_match f (CHR ''%'' # p) (c # s) \<longleftrightarrow> like_match f p (c # s) \<or> like_match f (CHR ''%'' # p) s"
    by (subst like_match.simps) simp
  also have "\<dots> \<longleftrightarrow> (\<exists>k \<le> length (c # s). like_match f p (drop k (c # s)))"
    unfolding Cons.IH by (auto simp: less_Suc_eq_le drop_Cons' Suc_le_eq intro: exI [of _ 0])
  finally show ?case .
qed

lemma like_match_any: "like_match f ''%'' s"
  by (simp add: like_match_percent like_match.simps(1)) (metis drop_all order_refl)

lemma like_match_escaped: "like_match f (escape_like q @ ''%'') s \<longleftrightarrow> starts_with (map f q) (map f s)"
proof (induction q arbitrary: s)
  case Nil
  show ?case by (simp add: escape_like_def like_match_any)
next
  case (Cons c q)
  show ?case
  proof (cases s)
    case Nil
    then show ?thesis by (auto simp: escape_like_def like_match.simps(2) starts_with_def)
  next
    case (Cons d t)
    with Cons.IH [of t] show ?thesis
      by (auto simp: escape_like_def like_match.simps(2) starts_with_def)
  qed
qed

lemma contains_str_iff: "contains_str q s \<longleftrightarrow> (\<exists>k \<le> length s. starts_with q (drop k s))"
  unfolding contains_str_def list_ex_iff set_upt atLeastLessThan_iff by (auto simp: less_Suc_eq_le)

text \<open>C40. LIKE searches are literal. On every driver a search finds exactly the texts in which the
  words typed occur as they stand, percent signs, underscores and backslashes included, up to
  the letters the driver does not tell apart: upper and lower case of ASCII on all three, and
  beyond ASCII what the server's collation decides on Postgres and MySQL, nothing on SQLite.\<close>

theorem search_is_literal:
  "sql_like coll drv (like_pattern q) s \<longleftrightarrow> contains_str (map (folded coll drv) q) (map (folded coll drv) s)"
  by (simp add: sql_like_def like_pattern_def like_match_percent like_match_escaped contains_str_iff drop_map)

text \<open>On ASCII texts the drivers agree.\<close>

lemma folded_ascii: "list_all (\<lambda>c. of_char c < (128 :: nat)) s \<Longrightarrow> map (folded coll drv) s = to_ascii_lowercase s"
  by (simp add: folded_def to_ascii_lowercase_def list_all_iff)

section \<open>The message history\<close>

definition history_inv :: "'w history_scheme \<Rightarrow> bool" where
  "history_inv w \<longleftrightarrow> distinct (map message_key (message_rows w)) \<and>
     sorted_wrt (<) (map sm_id (message_rows w)) \<and> list_all (\<lambda>r. sm_id r < next_message_id w) (message_rows w) \<and>
     (\<forall>r \<in> set (message_rows w). (sm_session r, sm_chat_jid r) \<in> set (message_chats w)) \<and>
     set (map snd (fts_rows w)) \<subseteq> set (map message_key (message_rows w)) \<and> distinct (map snd (fts_rows w))"

lemma message_key_stored [simp]: "message_key (stored_of i m) = (nm_session m, nm_message_id m)"
  by (simp add: message_key_def stored_of_def)

lemma stored_of_sel [simp]:
  "sm_id (stored_of i m) = i" "sm_session (stored_of i m) = nm_session m"
  "sm_chat_jid (stored_of i m) = nm_chat_jid m" "sm_timestamp (stored_of i m) = nm_timestamp m"
  by (simp_all add: stored_of_def)

lemma history_inv_faults [simp]: "history_inv (w\<lparr>db_faults := fs\<rparr>) = history_inv w"
  by (simp add: history_inv_def)

lemma insert_message_cases:
  fixes w :: "'w history_scheme"
  obtains (failed) e fs where "insert_message m w = (Inl e, w\<lparr>db_faults := fs\<rparr>)"
  | (known) fs where "(nm_session m, nm_message_id m) \<in> set (map message_key (message_rows w))"
      "insert_message m w = (Inr (), w\<lparr>db_faults := fs\<rparr>)"
  | (fresh) fs fts where "(nm_session m, nm_message_id m) \<notin> set (map message_key (message_rows w))"
      "fts = fts_rows w \<or> (\<exists>b. fts = fts_rows w @ [(b, nm_session m, nm_message_id m)])"
      "insert_message m w = (Inr (), w\<lparr>db_faults := fs, message_rows := message_rows w @ [stored_of (next_message_id w) m],
        next_message_id := next_message_id w + 1, message_chats := message_chats w @ [(nm_session m, nm_chat_jid m)],
        fts_rows := fts\<rparr>)"
proof (cases "insert_row m :: 'w history_scheme \<Rightarrow> _" w rule: db_stmt_cases)
  case (failed e fs)
  then show thesis using that(1) by (simp add: insert_message_def db_bind_def)
next
  case (ok changed w1)
  let ?fs = "tl (db_faults w)"
  have ex: "list_ex (\<lambda>r. message_key r = (nm_session m, nm_message_id m)) rows \<longleftrightarrow>
      (nm_session m, nm_message_id m) \<in> set (map message_key rows)" for rows
    by (auto simp: list_ex_iff) (metis image_eqI)
  show thesis
  proof (cases "(nm_session m, nm_message_id m) \<in> set (map message_key (message_rows w))")
    case True
    with ok have "changed = False" "w1 = w\<lparr>db_faults := ?fs\<rparr>" by (auto simp: insert_row_def ex)
    with ok(2) True show thesis using that(2) by (simp add: insert_message_def db_bind_def)
  next
    case False
    let ?w = "w\<lparr>db_faults := ?fs, message_rows := message_rows w @ [stored_of (next_message_id w) m],
        next_message_id := next_message_id w + 1, message_chats := message_chats w @ [(nm_session m, nm_chat_jid m)]\<rparr>"
    have w1: "changed" "w1 = ?w" using ok(1) False by (auto simp: insert_row_def ex)
    show thesis
    proof (cases "db_driver w = SQLite \<and> nm_body m \<noteq> None")
      case False
      with ok(2) w1 \<open>_ \<notin> _\<close> show thesis
        by (intro that(3) [of "fts_rows w" ?fs]) (auto simp: insert_message_def db_bind_def split: option.splits)
    next
      case True
      then obtain b where b: "nm_body m = Some b" "db_driver w = SQLite" by auto
      show thesis
      proof (cases "\<lambda>w :: 'w history_scheme. ((), w\<lparr>fts_rows := fts_rows w @ [(b, nm_session m, nm_message_id m)]\<rparr>)" ?w rule: db_stmt_cases)
        case (failed e fs)
        with ok(2) w1 b \<open>_ \<notin> _\<close> show thesis
          by (intro that(3) [of "fts_rows w" fs]) (simp_all add: insert_message_def db_bind_def db_ignore_def)
      next
        case o2: (ok u w2)
        with ok(2) w1 b \<open>_ \<notin> _\<close> show thesis
          by (intro that(3) [of "fts_rows w @ [(b, nm_session m, nm_message_id m)]" "tl ?fs"])
            (auto simp: insert_message_def db_bind_def db_ignore_def)
      qed
    qed
  qed
qed

text \<open>C39. The message history under any database failure. Recording a message keeps one row per
  session and message id, row numbers in the order of arrival, every chat with a message known
  to the new-chat limiter, and a full-text index that holds only recorded messages, each once;
  a message recorded before changes nothing.\<close>

theorem history_kept:
  assumes "history_inv w"
  shows "history_inv (snd (insert_message m w)) \<and>
    ((nm_session m, nm_message_id m) \<in> set (map message_key (message_rows w)) \<longrightarrow>
      message_rows (snd (insert_message m w)) = message_rows w)"
proof (cases m w rule: insert_message_cases)
  case (fresh fs fts)
  have "sorted_wrt (<) (map sm_id (message_rows w) @ [next_message_id w])"
    using assms by (auto simp: history_inv_def sorted_wrt_append list_all_iff)
  moreover have "(nm_session m, nm_message_id m) \<notin> set (map snd (fts_rows w))"
    using assms fresh(1) by (auto simp: history_inv_def)
  ultimately show ?thesis
    using assms fresh unfolding history_inv_def
    by (elim disjE exE) (simp_all add: list_all_iff subset_insertI2 less_Suc_eq, auto)
qed (use assms in \<open>auto simp: history_inv_def\<close>)

lemma history_kept_witness:
  "\<exists>(w :: history) m. message_rows (snd (insert_message m w)) \<noteq> message_rows w \<and> history_inv (snd (insert_message m w))"
proof -
  define w :: history where "w = (undefined :: history)\<lparr>db_faults := [], message_rows := [], fts_rows := []\<rparr>"
  have "history_inv w" by (simp add: history_inv_def w_def)
  moreover have "message_rows (snd (insert_message m w)) \<noteq> message_rows w" for m
    by (auto simp: w_def insert_message_def db_bind_def insert_row_def db_ignore_def split: option.splits)
  ultimately show ?thesis using history_kept [of w] by blast
qed

section \<open>A recorded message is listed\<close>

lemma sort_key_snoc_least:
  "(\<And>y. y \<in> set xs \<Longrightarrow> f x < f y) \<Longrightarrow> sort_key f (xs @ [x]) = x # sort_key f xs"
proof (induction xs)
  case (Cons y ys)
  then have "\<not> f y \<le> f x" by (simp add: not_le)
  with Cons show ?case by simp
qed simp

lemma sort_key_Cons_least:
  "(\<And>y. y \<in> set xs \<Longrightarrow> f x \<le> f y) \<Longrightarrow> sort_key f (x # xs) = x # sort_key f xs"
  by (simp add: insort_is_Cons)

lemma newest_first_snoc:
  assumes "\<And>y. y \<in> set rows \<Longrightarrow> sm_id y < sm_id x" and "\<And>y. y \<in> set rows \<Longrightarrow> sm_timestamp y \<le> sm_timestamp x"
  shows "newest_first (rows @ [x]) = x # newest_first rows"
  using assms unfolding newest_first_def
  by (subst sort_key_snoc_least) (simp_all add: insort_is_Cons)

lemma stored_media_stored_of [simp]: "stored_media (stored_of i m) = nm_media m"
  by (cases "nm_media m") (simp_all add: stored_media_def stored_of_def or_empty_def)

definition listed_as :: "new_message \<Rightarrow> message_row \<Rightarrow> bool" where
  "listed_as m r \<longleftrightarrow> ms_message_id r = nm_message_id m \<and> ms_session r = nm_session m \<and> ms_chat_jid r = nm_chat_jid m \<and>
     ms_sender_jid r = nm_sender_jid m \<and> ms_direction r = nm_direction m \<and> ms_msg_type r = nm_msg_type m \<and>
     ms_body r = nm_body m \<and> ms_timestamp r = nm_timestamp m \<and> ms_media r = nm_media m \<and>
     ms_quoted_message_id r = nm_quoted_message_id m \<and> ms_quoted_sender_jid r = nm_quoted_sender_jid m"

lemma listed_as_stored: "listed_as m (row_to_chat_message p (stored_of i m))"
  using stored_media_stored_of [of i m]
  by (simp add: listed_as_def row_to_chat_message_def row_to_message_def) (simp add: stored_of_def)

text \<open>Recording and listing. Where the database answers, a new message at least as recent as
  the rest of its chat is the first one its chat lists, with its text, its quote and the media
  pointer it was recorded with.\<close>

theorem recorded_message_is_listed_first:
  assumes "history_inv w" and "db_faults w = []"
    and "(nm_session m, nm_message_id m) \<notin> set (map message_key (message_rows w))"
    and "list_all (\<lambda>r. sm_timestamp r \<le> nm_timestamp m) (message_rows w)" and "1 \<le> limit"
  shows "\<exists>r rest. fst (list_by_chat (nm_session m) (nm_chat_jid m) limit 0 (snd (insert_message m w))) = Inr (r # rest)
    \<and> listed_as m r"
proof -
  have faults: "db_faults (snd (insert_message m w)) = []"
    using assms(2) by (auto simp: insert_message_def db_bind_def insert_row_def db_ignore_def split: option.splits)
  have rows: "message_rows (snd (insert_message m w)) = message_rows w @ [stored_of (next_message_id w) m]"
    using assms(2,3)
    by (auto simp: insert_message_def db_bind_def insert_row_def db_ignore_def list_ex_iff image_iff split: option.splits)
  let ?P = "\<lambda>r. sm_session r = nm_session m \<and> sm_chat_jid r = nm_chat_jid m"
  have new: "?P (stored_of (next_message_id w) m)" by (simp add: stored_of_def)
  have "newest_first (filter ?P (message_rows w) @ [stored_of (next_message_id w) m])
      = stored_of (next_message_id w) m # newest_first (filter ?P (message_rows w))"
    by (rule newest_first_snoc) (use assms(1,4) in \<open>auto simp: history_inv_def list_all_iff\<close>)
  moreover obtain n where "nat limit = Suc n" using assms(5) by (metis Suc_pred nat_le_eq_zle nat_one_as_int less_le_trans zero_less_nat_eq zero_less_one)
  ultimately show ?thesis
    using faults rows new listed_as_stored by (auto simp: list_by_chat_def page_def)
qed

lemma recorded_message_is_listed_first_witness:
  "\<exists>w m :: new_message. \<exists>r rest. nm_media m \<noteq> None \<and>
     fst (list_by_chat (nm_session m) (nm_chat_jid m) 20 0 (snd (insert_message m (w :: history)))) = Inr (r # rest)
     \<and> listed_as m r"
proof -
  define m where "m = \<lparr> nm_message_id = ''3EB0'', nm_session = ''s'', nm_chat_jid = ''62@s.whatsapp.net'',
     nm_sender_jid = ''62@s.whatsapp.net'', nm_direction = ''in'', nm_msg_type = ''document'', nm_body = None,
     nm_timestamp = 1000, nm_media = media_pointer_of unwrapping_lib ''document'' sample_envelope,
     nm_quoted_message_id = None, nm_quoted_sender_jid = None \<rparr>"
  define w :: history where "w = (undefined :: history)\<lparr>db_faults := [], message_rows := [], fts_rows := []\<rparr>"
  have "history_inv w" by (simp add: history_inv_def w_def)
  moreover have "nm_media m \<noteq> None"
    by (simp add: m_def media_pointer_of_def sample_envelope_def)
  ultimately show ?thesis
    using recorded_message_is_listed_first [of w m 20] by (auto simp: w_def)
qed

section \<open>Deleting a session\<close>



lemma db_map_err_more: "admin.more (snd (db_map_err g m w)) = admin.more (snd (m w))"
  by (simp add: db_map_err_def split: prod.splits sum.splits)











section \<open>Contacts\<close>

fun upsert_run :: "string \<Rightarrow> string \<Rightarrow> (contact_upsert \<times> unix) list \<Rightarrow> contact_row list \<Rightarrow> contact_row list" where
  "upsert_run sid jid [] rows = rows"
| "upsert_run sid jid ((c, now) # us) rows = upsert_run sid jid us (upsert_rows sid jid c now rows)"

text \<open>The last value known among the old one and a run of updates.\<close>

definition last_known :: "(contact_upsert \<Rightarrow> 'a option) \<Rightarrow> 'a option \<Rightarrow> contact_upsert list \<Rightarrow> 'a option" where
  "last_known f old us = (case find (\<lambda>u. f u \<noteq> None) (rev us) of None \<Rightarrow> old | Some u \<Rightarrow> f u)"

lemma last_known_simps [simp]:
  "last_known f old [] = old"
  "last_known f old (u # us) = last_known f (coalesce (f u) old) us"
proof -
  have "find P (xs @ [u]) = (case find P xs of None \<Rightarrow> if P u then Some u else None | Some x \<Rightarrow> Some x)" for P xs
    by (induction xs) auto
  then show "last_known f old (u # us) = last_known f (coalesce (f u) old) us"
    by (auto simp: last_known_def coalesce_def split: option.splits)
qed (simp add: last_known_def)

lemma find_upsert_known:
  "find (\<lambda>r. contact_key r = (sid, jid)) rows = Some r \<Longrightarrow>
   find (\<lambda>r. contact_key r = (sid, jid)) (upsert_rows sid jid c now rows) = Some (merge_contact c now r)"
proof -
  have key: "contact_key (merge_contact c now x) = contact_key x" for x
    by (simp add: merge_contact_def contact_key_def)
  assume r: "find (\<lambda>r. contact_key r = (sid, jid)) rows = Some r"
  then have "list_ex (\<lambda>r. contact_key r = (sid, jid)) rows"
    using find_key_SomeD by (fastforce simp: list_ex_iff)
  moreover have "find (\<lambda>r. contact_key r = (sid, jid)) (update_where (\<lambda>r. contact_key r = (sid, jid)) (merge_contact c now) rows)
      = Some (merge_contact c now r)"
    using r by (induction rows) (auto simp: key split: if_splits)
  ultimately show ?thesis by (simp add: upsert_rows_def)
qed

lemma find_upsert_new:
  "find (\<lambda>r. contact_key r = (sid, jid)) rows = None \<Longrightarrow>
   find (\<lambda>r. contact_key r = (sid, jid)) (upsert_rows sid jid c now rows) = Some (new_contact sid jid c now)"
proof -
  assume none: "find (\<lambda>r. contact_key r = (sid, jid)) rows = None"
  then have "\<not> list_ex (\<lambda>r. contact_key r = (sid, jid)) rows" by (auto simp: find_None_iff list_ex_iff)
  moreover have "find (\<lambda>r. contact_key r = (sid, jid)) (rows @ [x]) = (if contact_key x = (sid, jid) then Some x else None)" for x
    using none by (induction rows) (auto split: if_splits)
  ultimately show ?thesis by (simp add: upsert_rows_def new_contact_def contact_key_def)
qed

definition contact_after :: "string \<Rightarrow> string \<Rightarrow> (contact_upsert \<times> unix) list \<Rightarrow> contact_row option \<Rightarrow> contact_row" where
  "contact_after sid jid us old =
     (let was = (\<lambda>f. Option.bind old f); now = map fst us
      in \<lparr> ct_session = sid, ct_jid = jid, ct_phone = last_known cu_phone (was ct_phone) now,
           ct_lid_jid = last_known cu_lid_jid (was ct_lid_jid) now, ct_full_name = last_known cu_full_name (was ct_full_name) now,
           ct_first_name = last_known cu_first_name (was ct_first_name) now,
           ct_push_name = last_known cu_push_name (was ct_push_name) now,
           ct_business_name = last_known cu_business_name (was ct_business_name) now,
           ct_source = cu_source (last now), ct_updated_at = snd (last us) \<rparr>)"

lemma upsert_run_known:
  "find (\<lambda>r. contact_key r = (sid, jid)) rows = Some r \<Longrightarrow> us \<noteq> [] \<Longrightarrow>
   find (\<lambda>r. contact_key r = (sid, jid)) (upsert_run sid jid us rows) = Some (contact_after sid jid us (Some r))"
proof (induction us arbitrary: rows r)
  case (Cons u us)
  obtain c now where u: "u = (c, now)" by (cases u)
  have ids: "ct_session r = sid" "ct_jid r = jid"
    using find_key_SomeD [OF Cons.prems(1)] by (auto simp: contact_key_def)
  note step = find_upsert_known [OF Cons.prems(1), of c now]
  show ?case
  proof (cases "us = []")
    case True
    with step ids show ?thesis by (simp add: u contact_after_def merge_contact_def Let_def)
  next
    case False
    with Cons.IH [OF step False] ids show ?thesis by (simp add: u contact_after_def merge_contact_def Let_def)
  qed
qed simp

text \<open>What a contact remembers. After any run of updates of one contact, each of its names and
  numbers is the last value an update gave, or the one stored before, and never lost to an
  update that does not know it; the source and the time are those of the last update.\<close>

theorem contact_remembers:
  assumes "us \<noteq> []"
  shows "find (\<lambda>r. contact_key r = (sid, jid)) (upsert_run sid jid us rows) =
    Some (contact_after sid jid us (find (\<lambda>r. contact_key r = (sid, jid)) rows))"
proof (cases "find (\<lambda>r. contact_key r = (sid, jid)) rows")
  case None
  obtain c now vs where us: "us = (c, now) # vs" using assms by (cases us) auto
  have new: "contact_after sid jid us None =
      (if vs = [] then new_contact sid jid c now else contact_after sid jid vs (Some (new_contact sid jid c now)))"
    by (simp add: us contact_after_def new_contact_def coalesce_def Let_def split: option.splits)
  show ?thesis
    using find_upsert_new [OF None, of c now]
      upsert_run_known [of sid jid "upsert_rows sid jid c now rows" "new_contact sid jid c now" vs] new None
    by (cases "vs = []") (simp_all add: us)
qed (use upsert_run_known assms in simp)

lemma contact_remembers_witness:
  "find (\<lambda>r. contact_key r = (''s'', ''j'')) (upsert_run ''s'' ''j''
      [(\<lparr> cu_phone = Some ''62'', cu_lid_jid = None, cu_full_name = Some ''Ana'', cu_first_name = None,
          cu_push_name = None, cu_business_name = None, cu_source = ''appstate'' \<rparr>, 1),
       (\<lparr> cu_phone = None, cu_lid_jid = None, cu_full_name = None, cu_first_name = None,
          cu_push_name = Some ''ana'', cu_business_name = None, cu_source = ''message'' \<rparr>, 2)] []) =
   Some \<lparr> ct_session = ''s'', ct_jid = ''j'', ct_phone = Some ''62'', ct_lid_jid = None, ct_full_name = Some ''Ana'',
     ct_first_name = None, ct_push_name = Some ''ana'', ct_business_name = None, ct_source = ''message'', ct_updated_at = 2 \<rparr>"
  by (subst contact_remembers) (simp_all add: contact_after_def coalesce_def Let_def)

end
