(* ===== verification/World_Frame.thy ===== *)
theory World_Frame
  imports Sql_Store
begin

text \<open>
  What a computation over the database leaves as it was. A frame is a preorder on worlds that
  the failures still to come do not enter; whatever the effects of the statements keep, the
  combinators of \<open>Sql_Store\<close> keep, at every failure point.
\<close>

locale world_frame =
  fixes same :: "'w db_scheme \<Rightarrow> 'w db_scheme \<Rightarrow> bool"
  assumes same_refl: "same w w"
    and same_trans: "same u v \<Longrightarrow> same v w \<Longrightarrow> same u w"
    and same_faults: "same w (w\<lparr>db_faults := fs\<rparr>)"
begin

lemma stmt: "(\<And>u. same u (snd (f u))) \<Longrightarrow> same w (snd (db_stmt f w))"
  by (rule db_stmt_keeps [where P = "\<lambda>u. same w u"]) (auto intro: same_trans same_refl same_faults)

lemma bind: "(\<And>u. same u (snd (m u))) \<Longrightarrow> (\<And>a u. same u (snd (k a u))) \<Longrightarrow> same w (snd (db_bind m k w))"
  by (rule db_bind_keeps [where P = "\<lambda>u. same w u"]) (auto intro: same_trans same_refl)

lemma map_err: "same w (snd (m w)) \<Longrightarrow> same w (snd (db_map_err g m w))"
  by (cases "m w") (auto simp: db_map_err_def split: sum.splits)

lemma ignore: "same w (snd (m w)) \<Longrightarrow> same w (db_ignore m w)"
  by (simp add: db_ignore_def)

lemma plain: "same w (snd (db_return a w))" "same w (snd (db_fail e w))"
  by (simp_all add: db_return_def db_fail_def same_refl)

lemma insert: "(\<And>u. same u (ins u)) \<Longrightarrow> same w (snd (db_insert taken ins w))"
  unfolding db_insert_def by (intro bind stmt) (auto simp: same_refl plain)

end

end
