(* ===== verification/Lifecycle_Inv.thy ===== *)
theory Lifecycle_Inv
  imports Session_Events Session_Watchdog Message_Store_Facts World_Frame
begin

text \<open>
  What each operation does to the clients of the sessions: the statements that leave the
  runtimes alone, and the handlers, events and watchdog passes that at most take a client
  away and keep the leases in order. \<open>Lifecycle_Steps\<close> builds the step relations and their
  invariant on these.
\<close>

section \<open>What leaves the clients alone\<close>

text \<open>The runtimes, the running loops and the identities handed out.\<close>

definition same_live :: "'w lifecycle_scheme \<Rightarrow> 'w lifecycle_scheme \<Rightarrow> bool" where
  "same_live w w' \<longleftrightarrow> gw_sessions w' = gw_sessions w \<and> run_loops w' = run_loops w \<and> next_client w' = next_client w"

lemma same_live_refl [simp, intro]: "same_live w w"
  by (simp add: same_live_def)

lemma same_live_trans: "same_live u v \<Longrightarrow> same_live v w \<Longrightarrow> same_live u w"
  by (simp add: same_live_def)

interpretation live: world_frame same_live
  by unfold_locales (auto simp: same_live_def)

lemmas db_stmt_live = live.stmt and db_bind_live = live.bind and db_map_err_live = live.map_err
  and db_ignore_live = live.ignore and db_plain_live [simp] = live.plain and db_insert_live = live.insert

text \<open>The statements the handlers run.\<close>

lemma statements_live [simp]:
  "same_live w (snd (get_session sid w))" "same_live w (snd (get_storage_path sid w))"
  "same_live w (snd (update_session sid f w))" "same_live w (snd (list_sessions rank w))"
  "same_live w (snd (get_webhooks_db sid w))" "same_live w (snd (restore_auto_disabled_webhooks w))"
  "same_live w (snd (upsert_contact sid jid c w))" "same_live w (snd (delete_session sid w))"
  unfolding get_session_def get_storage_path_def update_session_def list_sessions_def get_webhooks_db_def
    restore_auto_disabled_webhooks_def upsert_contact_def delete_session_def purge_dependents_def
  by (intro db_bind_live db_stmt_live; simp add: same_live_def)+

lemma updates_live [simp]:
  "same_live w (snd (update_session_status sid st b w))" "same_live w (snd (update_session_info sid p n w))"
  "same_live w (snd (update_last_connected sid w))"
  by (simp_all add: update_session_status_def update_session_info_def update_last_connected_def)

lemma create_session_live [simp]: "same_live w (snd (create_session sid name path w))"
proof -
  have ins: "same_live u (snd (insert_session sid name path u))" for u :: "'w lifecycle_scheme"
    unfolding insert_session_def by (rule db_insert_live) (simp add: same_live_def)
  have two: "same_live w (snd (db_bind (insert_session sid name path)
      (\<lambda>_ u. db_return (row_to_session (new_session_row (db_now u) sid name path)) u) w))"
    by (rule db_bind_live) (simp_all add: ins)
  have three: "same_live w (snd (db_bind (insert_session sid name path)
      (\<lambda>_. db_bind (get_session sid) (\<lambda>s. case s of Some i \<Rightarrow> db_return i
        | None \<Rightarrow> db_fail ''Failed to fetch created session'')) w))"
    by (intro db_bind_live) (simp_all add: ins split: option.splits)
  show ?thesis using two three by (simp add: create_session_def)
qed

lemma create_webhook_live [simp]: "same_live w (snd (create_webhook wid sid c w))"
  unfolding create_webhook_def by (rule db_insert_live) (simp add: same_live_def)

lemma fs_live [simp]:
  "same_live w (snd (create_dir_all p w))" "same_live w (remove_dir_all p w)"
  by (auto simp: create_dir_all_def remove_dir_all_def fs_call_def same_live_def split: list.splits bool.splits)

lemma new_chat_live [simp]:
  "same_live w (snd (started_since sid t w))" "same_live w (snd (record_incident sid i w))"
  unfolding started_since_def record_incident_def
  by (intro db_bind_live db_stmt_live db_insert_live; simp add: same_live_def)+

lemma purge_new_chats_live [simp]: "same_live w (purge_new_chats sid w)"
proof -
  define w1 where "w1 = db_ignore (db_stmt (\<lambda>w. ((), w\<lparr>new_chats := delete_where (\<lambda>r. nc_session r = sid) (new_chats w)\<rparr>))) w"
  define w2 where "w2 = db_ignore (db_stmt (\<lambda>w. ((), w\<lparr>new_chat_limits := delete_where (\<lambda>l. nl_session l = sid) (new_chat_limits w)\<rparr>))) w1"
  have "same_live w w1" "same_live w1 w2"
    unfolding w1_def w2_def by (intro db_ignore_live db_stmt_live; simp add: same_live_def)+
  moreover have "same_live w2 (purge_new_chats sid w)"
    unfolding purge_new_chats_def w1_def [symmetric] w2_def [symmetric]
    by (intro db_ignore_live db_stmt_live) (simp add: same_live_def)
  ultimately show ?thesis by (blast intro: same_live_trans)
qed

lemma counts_live [simp]: "same_live w (snd (counts sid w))"
proof -
  obtain r w1 where r: "started_since sid (db_now w - 24 * HOUR) w = (r, w1)" by fastforce
  then have "same_live w w1" using new_chat_live(1) [of w sid "db_now w - 24 * HOUR"] by simp
  then show ?thesis by (simp add: counts_def r split: sum.splits)
qed

lemma snapshot_live [simp]: "same_live w (snd (snapshot_on_logout sid reason w))"
proof -
  obtain figures w1 where c: "counts sid w = (figures, w1)" by fastforce
  then have "same_live w w1" using counts_live [of w sid] by simp
  moreover have "same_live w1 (db_ignore (record_incident sid i) w1)" for i by (intro db_ignore_live) simp
  ultimately show ?thesis by (auto simp: snapshot_on_logout_def c Let_def intro: same_live_trans)
qed

lemma store_status_live [simp]: "same_live w (store_status sid st b w)"
  by (simp add: store_status_def db_ignore_live)

lemma call_lib_live [simp]: "same_live w (call_lib c w)"
  by (simp add: call_lib_def same_live_def)

lemma shutdown_live [simp]: "same_live w (shutdown_client c w)"
  by (simp add: shutdown_client_def split: option.splits)

lemma spawn_live [simp]: "same_live w (spawn_connect sid origin dev w)"
  by (simp add: spawn_connect_def same_live_def)

lemma broadcast_live: "same_live w (snd (broadcast_to_webhooks lib sid event text w))"
proof -
  obtain ring where push: "push_event lib sid event text w = w\<lparr>hub_ring := ring\<rparr>"
    by (simp add: push_event_def)
  obtain cs where "snd (broadcast_loop sid event text (get_webhooks sid (w\<lparr>hub_ring := ring\<rparr>))
      (w\<lparr>hub_ring := ring\<rparr>)) = w\<lparr>hub_ring := ring, hub_circuits := cs\<rparr>"
    using broadcast_loop_more by blast
  then show ?thesis by (simp add: broadcast_to_webhooks_def push same_live_def Let_def)
qed

lemma announce_live [simp]: "same_live w (announce lib sid event payload w)"
  using broadcast_live [of w lib sid event "print_json lib payload"]
  by (auto simp: announce_def publish_to_nats_def same_live_def Let_def split: prod.splits)

lemma insert_message_live [simp]: "same_live w (snd (insert_message m w))"
  by (cases m w rule: insert_message_cases) (auto simp: same_live_def)

lemma record_incoming_live [simp]: "same_live w (record_incoming env lib sid m info w)"
  by (simp add: record_incoming_def db_ignore_live)

lemma persist_senders_live [simp]: "same_live w (persist_senders sid batch w)"
proof (induction batch arbitrary: w)
  case (Cons mi batch)
  obtain m info where mi: "mi = (m, info)" by (cases mi)
  have "same_live w (if mi_is_from_me info then w
      else db_ignore (upsert_contact sid (wj_text (mi_sender info)) (sender_contact info)) w)"
    by (simp add: db_ignore_live)
  then show ?case using Cons.IH by (auto simp: mi intro: same_live_trans)
qed simp

lemma persist_contact_live [simp]: "same_live w (persist_contact_event sid ev w)"
  by (cases ev) (simp_all add: db_ignore_live)

lemma register_fold_live [simp]: "same_live w (fold (\<lambda>(wid, config) w. register_webhook_mem sid wid config w) rows w)"
proof (induction rows arbitrary: w)
  case (Cons r rows)
  have "same_live w (case r of (wid, config) \<Rightarrow> register_webhook_mem sid wid config w)"
    by (auto simp: register_webhook_mem_def same_live_def split: prod.splits)
  then show ?case using Cons.IH [of "(case r of (wid, config) \<Rightarrow> register_webhook_mem sid wid config) w"]
    by (auto intro: same_live_trans split: prod.splits)
qed simp

lemma load_webhooks_live [simp]: "same_live w (load_session_webhooks sid w)"
proof -
  obtain r w1 where r: "get_webhooks_db sid w = (r, w1)" by fastforce
  then have "same_live w w1" using statements_live(5) [of w sid] by simp
  then show ?thesis
    by (auto simp: load_session_webhooks_def r split: sum.splits intro: same_live_trans [OF _ register_fold_live])
qed

section \<open>What never adds a client\<close>

text \<open>The leases are held exactly while a client is installed.\<close>

definition lease_ok :: "session_state \<Rightarrow> bool" where
  "lease_ok s \<longleftrightarrow> (ss_lease s \<longleftrightarrow> ss_client s \<noteq> None) \<and> (ss_chat_store s \<longrightarrow> ss_client s \<noteq> None) \<and>
     (ss_chat_store_subscription s \<longleftrightarrow> ss_chat_store s)"

definition leases_ok :: "'w lifecycle_scheme \<Rightarrow> bool" where
  "leases_ok w \<longleftrightarrow> (\<forall>sid s. runtime_of sid w = Some s \<longrightarrow> lease_ok s)"

text \<open>A runtime that keeps its client, updated in place or not, or loses it.\<close>

definition tame_runtime :: "session_state \<Rightarrow> session_state \<Rightarrow> bool" where
  "tame_runtime s s' \<longleftrightarrow> (lease_ok s \<longrightarrow> lease_ok s') \<and>
     (\<forall>c'. ss_client s' = Some c' \<longrightarrow> (\<exists>c. ss_client s = Some c \<and> cl_id c = cl_id c'))"

definition keeps_clients :: "'w lifecycle_scheme \<Rightarrow> 'w lifecycle_scheme \<Rightarrow> bool" where
  "keeps_clients w w' \<longleftrightarrow> run_loops w' = run_loops w \<and> next_client w' = next_client w \<and> (leases_ok w \<longrightarrow> leases_ok w') \<and>
     (\<forall>sid c'. installed_client sid w' = Some c' \<longrightarrow> (\<exists>c. installed_client sid w = Some c \<and> cl_id c = cl_id c'))"

lemma keeps_refl [simp, intro]: "keeps_clients w w"
  by (simp add: keeps_clients_def)

lemma keeps_trans [trans]: "keeps_clients u v \<Longrightarrow> keeps_clients v w \<Longrightarrow> keeps_clients u w"
  by (simp add: keeps_clients_def) metis

lemma same_keeps [intro]: "same_live w w' \<Longrightarrow> keeps_clients w w'"
  by (simp add: same_live_def keeps_clients_def leases_ok_def installed_client_def runtime_of_def)

lemma tame_simps [simp, intro]:
  "tame_runtime s s" "tame_runtime s (set_client None s)" "tame_runtime s (set_status st s)"
  "tame_runtime s (clear_reconnecting s)" "tame_runtime s (clear_lock_cooldown s)" "tame_runtime s (clear_pair_state s)"
  "tame_runtime s (clear_logout_history s)" "tame_runtime s (update_pair_state f s)" "tame_runtime s (mark_reconnecting_now t s)"
  "tame_runtime s (s\<lparr>ss_pair_code := pc\<rparr>)" "tame_runtime s (s\<lparr>ss_qr_codes := qs\<rparr>)" "tame_runtime s (s\<lparr>ss_recent_ids := r\<rparr>)"
  "tame_runtime s (count_forwarded t s)" "tame_runtime s (snd (record_logout_and_should_purge t s))"
  by (auto simp: tame_runtime_def lease_ok_def set_client_def set_status_def clear_reconnecting_def clear_lock_cooldown_def
      clear_pair_state_def clear_logout_history_def update_pair_state_def mark_reconnecting_now_def count_forwarded_def
      record_logout_and_should_purge_def Let_def)

lemma tame_trans: "tame_runtime s t \<Longrightarrow> tame_runtime t u \<Longrightarrow> tame_runtime s u"
  by (simp add: tame_runtime_def) metis

lemma tame_after [intro]:
  "tame_runtime s t \<Longrightarrow> tame_runtime s (set_client None t)" "tame_runtime s t \<Longrightarrow> tame_runtime s (set_status st t)"
  "tame_runtime s t \<Longrightarrow> tame_runtime s (clear_reconnecting t)" "tame_runtime s t \<Longrightarrow> tame_runtime s (clear_lock_cooldown t)"
  "tame_runtime s t \<Longrightarrow> tame_runtime s (clear_pair_state t)" "tame_runtime s t \<Longrightarrow> tame_runtime s (clear_logout_history t)"
  "tame_runtime s t \<Longrightarrow> tame_runtime s (update_pair_state f t)" "tame_runtime s t \<Longrightarrow> tame_runtime s (mark_reconnecting_now now t)"
  "tame_runtime s t \<Longrightarrow> tame_runtime s (t\<lparr>ss_pair_code := pc\<rparr>)" "tame_runtime s t \<Longrightarrow> tame_runtime s (t\<lparr>ss_qr_codes := qs\<rparr>)"
  "tame_runtime s t \<Longrightarrow> tame_runtime s (t\<lparr>ss_qr_codes := qs, ss_pair_code := pc\<rparr>)"
  by (erule tame_trans; (intro tame_simps | (rule tame_trans [of _ "t\<lparr>ss_qr_codes := qs\<rparr>"]; auto)))+

lemma tame_lock: "record_lock_cooldown sch t s = Some (r, s') \<Longrightarrow> tame_runtime s s'"
  by (cases "sch = []")
    (simp_all add: record_lock_cooldown_def Let_def tame_runtime_def lease_ok_def, (elim conjE, hypsubst, simp)?)

lemma runtime_of_put [simp]:
  "runtime_of sid (w\<lparr>gw_sessions := dm_put sid' s (gw_sessions w)\<rparr>) = (if sid = sid' then Some s else runtime_of sid w)"
  by (simp add: runtime_of_def get_session_mem_def)

lemma runtime_with_runtime:
  "runtime_of sid (with_runtime sid' f w) = (if sid = sid' then map_option f (runtime_of sid w) else runtime_of sid w)"
  by (auto simp: with_runtime_def split: option.splits)

lemma with_runtime_frame [simp]:
  "run_loops (with_runtime sid f w) = run_loops w" "next_client (with_runtime sid f w) = next_client w"
  "lib_calls (with_runtime sid f w) = lib_calls w" "connect_tasks (with_runtime sid f w) = connect_tasks w"
  "db_now (with_runtime sid f w) = db_now w" "db_faults (with_runtime sid f w) = db_faults w"
  "sessions (with_runtime sid f w) = sessions w" "events_broadcast (with_runtime sid f w) = events_broadcast w"
  by (auto simp: with_runtime_def split: option.splits)

lemma with_runtime_keeps:
  "(\<And>s. runtime_of sid w = Some s \<Longrightarrow> tame_runtime s (f s)) \<Longrightarrow> keeps_clients w (with_runtime sid f w)"
  by (auto simp: keeps_clients_def leases_ok_def installed_client_def runtime_with_runtime tame_runtime_def bind_eq_Some_conv
      split: if_splits)

lemma get_or_create_keeps:
  "keeps_clients w (w\<lparr>gw_sessions := snd (get_or_create_session sid path (gw_sessions w))\<rparr>)"
  by (auto simp: keeps_clients_def leases_ok_def lease_ok_def installed_client_def runtime_of_def get_session_mem_def
      get_or_create_session_def session_state_new_def bind_eq_Some_conv split: option.splits if_splits)

lemma enter_connecting_keeps [simp]: "keeps_clients w (enter_connecting sid path w)"
  unfolding enter_connecting_def by (rule keeps_trans [OF get_or_create_keeps with_runtime_keeps]) simp

lemma keeps_faults: "keeps_clients w (w\<lparr>db_faults := fs\<rparr>)"
  by (intro same_keeps) (simp add: same_live_def)

interpretation clients: world_frame keeps_clients
  by unfold_locales (auto intro: keeps_trans keeps_faults)

lemmas db_bind_keeps_clients = clients.bind

section \<open>The handlers never add a client\<close>

lemma found_session_live [simp]: "same_live w (snd (found_session sid w))"
  unfolding found_session_def by (intro db_bind_live db_map_err_live) (simp_all split: option.splits)

lemma reject_cloud_live [simp]: "same_live w (snd (reject_cloud_session s op w))"
  by (simp add: reject_cloud_session_def)

lemma storage_or_default_live [simp]: "same_live w (snd (storage_or_default sid w))"
  unfolding storage_or_default_def by (intro db_bind_live db_map_err_live) simp_all

lemma connect_path_live [simp]: "same_live w (snd (connect_path sid w))"
  unfolding connect_path_def by (intro db_bind_live db_map_err_live) (simp_all split: option.splits)

lemma session_is_cloud_live [simp]: "same_live w (snd (session_is_cloud sid w))"
proof -
  obtain r w1 where "get_session sid w = (r, w1)" by fastforce
  then show ?thesis using statements_live(1) [of w sid]
    by (auto simp: session_is_cloud_def split: sum.splits option.splits)
qed

lemmas live_keeps = same_keeps [OF found_session_live] same_keeps [OF reject_cloud_live] same_keeps [OF storage_or_default_live]

lemma connect_session_keeps [simp]: "keeps_clients w (snd (connect_session env sid dev w))"
  unfolding connect_session_def
proof (intro db_bind_keeps_clients live_keeps)
  show "keeps_clients u (snd (case runtime_of sid u of None \<Rightarrow> (Inr (), u)
      | Some s \<Rightarrow> if is_alive s \<or> ss_status s = StWaitingForQr \<or> ss_status s = StWaitingForPairCode
            then (Inl AlreadyConnected, u)
            else (Inr (), with_runtime sid clear_for_connect (shutdown_client (ss_client s) u))))" for u :: "'a lifecycle_scheme"
    by (auto split: option.splits intro!: keeps_trans [OF same_keeps [OF shutdown_live] with_runtime_keeps] tame_after
        simp: clear_for_connect_def)
  show "keeps_clients u (snd (Inr (success_with_message ''Connection initiated''),
        spawn_connect sid ByConnect (map_option (resolve_with_override env) dev) (enter_connecting sid path u)))"
    for u :: "'a lifecycle_scheme" and path
    using keeps_trans [OF enter_connecting_keeps same_keeps [OF spawn_live]] by simp
qed

lemma create_for_wait_live [simp]: "same_live w (snd (create_for_wait sid name w))"
  unfolding create_for_wait_def Let_def by (intro db_bind_live db_map_err_live) simp_all

lemma ensure_connecting_keeps [simp]: "keeps_clients w (snd (ensure_connecting_for_wait env sid q w))"
  unfolding ensure_connecting_for_wait_def
proof (intro db_bind_keeps_clients)
  show "keeps_clients u (snd (db_map_err Internal (get_session sid) u))" for u :: "'a lifecycle_scheme"
    by (intro same_keeps db_map_err_live) simp
  show "keeps_clients u (snd ((case e of None \<Rightarrow> db_return () | Some s \<Rightarrow> reject_cloud_session s ''connect/wait'') u))"
    for u :: "'a lifecycle_scheme" and e
    by (intro same_keeps) (simp split: option.splits)
  show "keeps_clients u (snd ((if e = None then create_for_wait sid (cq_name q) else storage_or_default sid) u))"
    for u :: "'a lifecycle_scheme" and e :: "session_info option"
    by (intro same_keeps) simp
next
  fix path and u :: "'a lifecycle_scheme"
  obtain s m where g: "get_or_create_session sid path (gw_sessions u) = (s, m)" by fastforce
  let ?u = "u\<lparr>gw_sessions := m\<rparr>"
  let ?s = "clear_lock_cooldown (clear_reconnecting (set_status StConnecting (set_client None s)))"
  have u: "keeps_clients u ?u" using get_or_create_keeps [of u sid path] g by simp
  have rt: "runtime_of sid ?u = Some s"
    using g by (auto simp: get_or_create_session_def runtime_of_def get_session_mem_def split: option.splits)
  have "keeps_clients ?u (with_runtime sid (\<lambda>_. ?s) (shutdown_client (ss_client s) ?u))"
  proof (rule keeps_trans [OF same_keeps [OF shutdown_live] with_runtime_keeps])
    fix t assume "runtime_of sid (shutdown_client (ss_client s) ?u) = Some t"
    then have "t = s" using rt shutdown_live [of ?u "ss_client s"] by (simp add: same_live_def runtime_of_def)
    then show "tame_runtime t ?s" by (simp add: tame_after)
  qed
  then have "keeps_clients u (spawn_connect sid ByConnect dev (with_runtime sid (\<lambda>_. ?s) (shutdown_client (ss_client s) ?u)))" for dev
    using u by (blast intro: keeps_trans same_keeps [OF spawn_live])
  then show "keeps_clients u (snd (let (s, m) = get_or_create_session sid path (gw_sessions u); w1 = u\<lparr>gw_sessions := m\<rparr> in
       if logged_in_live s \<or> ss_status s \<in> {StConnecting, StWaitingForQr, StWaitingForPairCode} then (Inr s, w1)
       else
         let s1 = clear_lock_cooldown (clear_reconnecting (set_status StConnecting (set_client None s)));
             d = cq_device q;
             dev = (if do_os d \<noteq> None \<or> do_platform d \<noteq> None \<or> do_version d \<noteq> None
                    then Some (resolve_with_override env d) else None)
         in (Inr s1, spawn_connect sid ByConnect dev (with_runtime sid (\<lambda>_. s1) (shutdown_client (ss_client s) w1)))))"
    using u by (simp add: g Let_def)
qed

lemma pair_begin_keeps [simp]: "keeps_clients w (snd (pair_begin env pwc sid rq w))"
  unfolding pair_begin_def
proof (intro db_bind_keeps_clients live_keeps)
  show "keeps_clients u (snd (if map_option ss_status (runtime_of sid u) = Some StLoggedIn
      then (Inl AlreadyConnected, u) else (Inr (), u)))" for u :: "'a lifecycle_scheme" by simp
next
  fix path and u :: "'a lifecycle_scheme"
  obtain s m where g: "get_or_create_session sid path (gw_sessions u) = (s, m)" by fastforce
  have u: "keeps_clients u (u\<lparr>gw_sessions := m\<rparr>)" using get_or_create_keeps [of u sid path] g by simp
  have put: "keeps_clients u (with_runtime sid f (u\<lparr>gw_sessions := m\<rparr>))" if "\<And>s. tame_runtime s (f s)" for f
    by (rule keeps_trans [OF u with_runtime_keeps]) (rule that)
  show "keeps_clients u (snd (let (s, m) = get_or_create_session sid path (gw_sessions u); w1 = u\<lparr>gw_sessions := m\<rparr> in
       case ss_client s of
         Some c \<Rightarrow>
           if is_linked c then (Inl AlreadyConnected, w1)
           else (case pwc (cl_id c) (pq_phone_number rq) of
                   Inl e \<Rightarrow> (Inl (Internal (''pair_with_code failed: '' @ e)), w1)
                 | Inr code \<Rightarrow> (Inr (Some code), with_runtime sid (\<lambda>s. s\<lparr>ss_pair_code := Some code\<rparr>) w1))
       | None \<Rightarrow>
           (Inr None,
            if ss_status s = StWaitingForPairCode \<or> ss_status s = StConnecting then w1
            else spawn_connect sid (ByPair (pq_phone_number rq) (pq_show_push_notification rq))
              (map_option (resolve_with_override env) (pq_device rq))
              (with_runtime sid (set_status StWaitingForPairCode) w1))))"
    using u put by (auto simp: g Let_def split: option.splits sum.splits
        intro: keeps_trans [OF put same_keeps [OF spawn_live]])
qed

lemma pair_finish_keeps [simp]: "keeps_clients w (snd (pair_finish pwc sid rq polls w))"
  by (auto simp: pair_finish_def split: pair_wait.splits option.splits sum.splits intro!: with_runtime_keeps)

lemma disconnect_session_keeps [simp]: "keeps_clients w (snd (disconnect_session sid w))"
  unfolding disconnect_session_def
proof (intro db_bind_keeps_clients live_keeps)
  fix u :: "'a lifecycle_scheme"
  have "keeps_clients u (with_runtime sid disconnected_runtime (shutdown_client c u))" for c
    by (rule keeps_trans [OF same_keeps [OF shutdown_live] with_runtime_keeps])
      (simp add: disconnected_runtime_def tame_after)
  then show "keeps_clients u (snd (case installed_client sid u of
       None \<Rightarrow> (Inl NotConnected, u)
     | Some c \<Rightarrow> (Inr (success_with_message ''Disconnected''),
         store_status sid StDisconnected False (with_runtime sid disconnected_runtime (shutdown_client (Some c) u)))))"
    by (auto split: option.splits intro: keeps_trans [OF _ same_keeps [OF store_status_live]])
qed

lemma reset_device_live [simp]: "same_live w (reset_device sid w)"
proof -
  obtain r w1 where r: "get_storage_path sid w = (r, w1)" by fastforce
  then have "same_live w w1" using statements_live(2) [of w sid] by simp
  then show ?thesis
    by (auto simp: reset_device_def r split: sum.splits option.splits intro: same_live_trans [OF _ call_lib_live])
qed

lemma unlink_session_keeps [simp]: "keeps_clients w (unlink_session sid w)"
proof -
  have "keeps_clients w (with_runtime sid unlinked_runtime w)"
    by (rule with_runtime_keeps) (simp add: unlinked_runtime_def tame_after)
  then show ?thesis
    unfolding unlink_session_def
    by (blast intro: keeps_trans same_keeps [OF reset_device_live] same_keeps [OF store_status_live])
qed

lemma logout_session_keeps [simp]: "keeps_clients w (snd (logout_session sid w))"
  unfolding logout_session_def
proof (intro db_bind_keeps_clients live_keeps)
  fix u :: "'a lifecycle_scheme"
  have u: "keeps_clients u (with_runtime sid (set_client None) u)" by (rule with_runtime_keeps) simp
  have "same_live v (stop_client c (call_lib x v))" for c x and v :: "'a lifecycle_scheme"
    unfolding stop_client_def by (blast intro: same_live_trans call_lib_live)
  then have stop: "keeps_clients u (unlink_session sid (stop_client c (call_lib x (with_runtime sid (set_client None) u))))" for c x
    by (blast intro: keeps_trans [OF u] keeps_trans [OF same_keeps unlink_session_keeps])
  have "keeps_clients u (unlink_session sid (with_runtime sid (set_client None) u))"
    by (rule keeps_trans [OF u unlink_session_keeps])
  with stop show "keeps_clients u (snd (let w1 = with_runtime sid (set_client None) u;
           w2 = (case installed_client sid u of None \<Rightarrow> w1
             | Some c \<Rightarrow> stop_client c (call_lib (Logout (cl_id c)) w1))
       in (Inr (success_with_message ''Logged out. The session is kept; connect and scan again to link it.''),
           unlink_session sid w2)))"
    by (simp add: Let_def split: option.splits)
qed

section \<open>Nor do events, the watchdog and start-up\<close>

lemma forward_message_keeps [simp]: "keeps_clients w (forward_message ee t offline sid cid mi w)"
proof (cases "runtime_of sid w")
  case None
  then show ?thesis by (simp add: forward_message_def)
next
  case (Some s)
  obtain m info where mi: "mi = (m, info)" by (cases mi)
  obtain fresh recent where f: "first_sighting (dedup_key info) (ss_recent_ids s) = (fresh, recent)" by fastforce
  let ?w1 = "with_runtime sid (\<lambda>s. s\<lparr>ss_recent_ids := recent\<rparr>) w"
  have w1: "keeps_clients w ?w1" by (rule with_runtime_keeps) simp
  have "keeps_clients w (with_runtime sid (count_forwarded t)
      (announce (ee_libs ee) sid ''message'' p (record_incoming (ee_env ee) (ee_proto ee) sid m info ?w1)))" for p
    by (rule keeps_trans [OF w1 keeps_trans [OF same_keeps [OF record_incoming_live]
        keeps_trans [OF same_keeps [OF announce_live] with_runtime_keeps]]]) simp
  with w1 show ?thesis by (simp add: forward_message_def Some mi f Let_def)
qed

lemma forward_messages_keeps [simp]: "keeps_clients w (forward_messages ee t offline sid cid batch w)"
  by (induction batch arbitrary: w) (auto intro: keeps_trans forward_message_keeps)

lemma logged_out_finish_keeps [simp]: "keeps_clients w (snd (logged_out_finish ee sid reason figures w))"
proof -
  define w1 where "w1 = (case installed_client sid w of
            None \<Rightarrow> w
          | Some c \<Rightarrow> call_lib (Shutdown (cl_id c))
              (if reason = AccountLocked then call_lib (SetAutoReconnect (cl_id c) False) w else w))"
  define w2 where "w2 = store_status sid StDisconnected False
            (with_runtime sid (\<lambda>s. clear_reconnecting (set_client None (set_status StDisconnected s))) w1)"
  have "same_live w w1"
    by (auto simp: w1_def intro: same_live_trans [OF call_lib_live call_lib_live] split: option.splits)
  moreover have "keeps_clients w1 (with_runtime sid (\<lambda>s. clear_reconnecting (set_client None (set_status StDisconnected s))) w1)"
    by (rule with_runtime_keeps) (simp add: tame_after)
  ultimately have w2: "keeps_clients w w2"
    unfolding w2_def by (blast intro: keeps_trans same_keeps [OF store_status_live])
  show ?thesis
  proof (cases "runtime_of sid w2")
    case None
    with w2 show ?thesis by (simp add: logged_out_finish_def w1_def [symmetric] w2_def [symmetric] Let_def)
  next
    case (Some s)
    have put: "keeps_clients w (with_runtime sid (\<lambda>_. s') w2)" if "tame_runtime s s'" for s'
      by (rule keeps_trans [OF w2 with_runtime_keeps]) (use Some that in simp)
    have lock: "keeps_clients w (announce lib sid ev p (with_runtime sid (\<lambda>_. s') w2))"
      if "record_lock_cooldown sch now s = Some (r, s')" for sch now r s' lib ev p
      by (rule keeps_trans [OF put [OF tame_lock [OF that]] same_keeps [OF announce_live]])
    have purge: "keeps_clients w (with_runtime sid (\<lambda>_. snd (record_logout_and_should_purge now s)) w2)" for now
      by (rule put) simp
    have unlink: "keeps_clients w (unlink_session sid (with_runtime sid (\<lambda>_. snd (record_logout_and_should_purge now s)) w2))" for now
      by (rule keeps_trans [OF purge unlink_session_keeps])
    show ?thesis
      using w2 Some lock purge unlink
      by (simp add: logged_out_finish_def w1_def [symmetric] w2_def [symmetric] Let_def split_beta split: option.splits prod.splits)
  qed
qed

lemma on_logged_out_keeps [simp]: "keeps_clients w (snd (on_logged_out ee sid reason w))"
proof -
  obtain figures w1 where "snapshot_on_logout sid (reason_text reason) w = (figures, w1)" by fastforce
  with snapshot_live [of w sid "reason_text reason"] show ?thesis
    by (auto simp: on_logged_out_def intro: keeps_trans [OF same_keeps logged_out_finish_keeps])
qed

lemma stored_put_keeps:
  "(\<And>s. tame_runtime s (f s)) \<Longrightarrow> keeps_clients w (store_status sid st b (with_runtime sid f w))"
  by (rule keeps_trans [OF with_runtime_keeps same_keeps [OF store_status_live]]) simp

lemma on_connected_keeps [simp]: "keeps_clients w (on_connected sid c w)"
proof -
  define w1 where "w1 = (if Option.bind (runtime_of sid w) (reconnecting_for_secs (db_now w)) = None then w
      else w\<lparr>session_reconnects := session_reconnects w @ [sid]\<rparr>)"
  have "same_live w w1" by (simp add: w1_def same_live_def)
  moreover have "keeps_clients w1 (store_status sid StLoggedIn True (with_runtime sid connected_runtime w1))"
  proof (rule stored_put_keeps)
    fix s
    show "tame_runtime s (connected_runtime s)" by (simp add: connected_runtime_def tame_after)
  qed
  moreover have "same_live v (db_ignore (update_last_connected sid) (db_ignore (update_session_info sid p n) v))"
    for p n and v :: "'a lifecycle_scheme"
    by (rule same_live_trans; rule db_ignore_live) simp_all
  ultimately show ?thesis
    unfolding on_connected_def Let_def w1_def [symmetric]
    by (rule keeps_trans [OF same_keeps keeps_trans [OF _ same_keeps]])
qed

lemma on_disconnected_keeps [simp]: "keeps_clients w (on_disconnected sid w)"
proof -
  let ?w1 = "with_runtime sid (\<lambda>s. mark_reconnecting_now (db_now w) (set_status StConnecting s)) w"
  have "keeps_clients w ?w1" by (rule with_runtime_keeps) (simp add: tame_after)
  moreover have "same_live ?w1 (?w1\<lparr>session_drops := session_drops ?w1 @ [sid]\<rparr>)" by (simp add: same_live_def)
  ultimately show ?thesis
    unfolding on_disconnected_def Let_def by (intro keeps_trans [OF _ same_keeps [OF same_live_trans [OF _ store_status_live]]])
qed

lemma on_qr_code_keeps [simp]: "keeps_clients w (on_qr_code sid code w)"
  unfolding on_qr_code_def by (rule stored_put_keeps) (simp add: tame_after)

lemma on_pair_code_keeps [simp]: "keeps_clients w (on_pair_code sid code t w)"
  unfolding on_pair_code_def by (rule with_runtime_keeps) (simp add: tame_after)

lemma event_arm_keeps [simp]: "keeps_clients w (snd (event_arm ee sid c ev w))"
  by (cases ev) (auto simp: on_incoming_call_def same_live_def intro!: same_keeps)

lemma announce_event_keeps [simp]: "keeps_clients w (announce_event ee sid c ev w)"
  by (cases ev) (auto intro!: same_keeps [OF announce_live])

lemma handle_event_keeps [simp]: "keeps_clients w (handle_event ee sid c ev w)"
proof -
  obtain go w1 where arm: "event_arm ee sid c ev w = (go, w1)" by fastforce
  then have "keeps_clients w w1" using event_arm_keeps [of w ee sid c ev] by simp
  moreover have "keeps_clients w1 (announce_event ee sid c ev (persist_contact_event sid ev w1))"
    by (rule keeps_trans [OF same_keeps [OF persist_contact_live] announce_event_keeps])
  ultimately show ?thesis by (auto simp: handle_event_def arm split: option.splits intro: keeps_trans)
qed

lemma rebuild_finish_keeps [simp]: "keeps_clients w (rebuild_finish lib sid fb w)"
proof -
  let ?w1 = "store_status sid StDisconnected False
      (with_runtime sid (\<lambda>s. clear_reconnecting (set_status StDisconnected (set_client None s))) w)"
  have w1: "keeps_clients w ?w1" by (rule stored_put_keeps) (simp add: tame_after)
  have "keeps_clients ?w1 (with_runtime sid (set_status StConnecting) (announce lib sid ''disconnected'' p ?w1))" for p
    by (rule keeps_trans [OF same_keeps [OF announce_live] with_runtime_keeps]) simp
  with w1 show ?thesis
    unfolding rebuild_finish_def Let_def by (intro keeps_trans [OF _ same_keeps [OF spawn_live]]) (rule keeps_trans)
qed

lemma watchdog_pass_keeps [simp]: "keeps_clients w (watchdog_pass lib cfg now_ms sids w)"
proof (induction sids arbitrary: w)
  case (Cons sid sids)
  have "keeps_clients w (watchdog_session lib cfg now_ms sid w)"
    by (auto simp: watchdog_session_def force_rebuild_def split: option.splits
        intro: keeps_trans [OF same_keeps [OF shutdown_live] rebuild_finish_keeps])
  with Cons.IH show ?case by (auto intro: keeps_trans)
qed simp

lemma startup_session_keeps [simp]: "keeps_clients w (startup_session i w)"
proof -
  let ?w1 = "load_session_webhooks (si_id i) w"
  obtain r w2 where r: "get_storage_path (si_id i) ?w1 = (r, w2)" by fastforce
  have w1: "keeps_clients w ?w1" by (intro same_keeps) simp
  moreover have "keeps_clients ?w1 w2" using statements_live(2) [of ?w1 "si_id i"] r by (auto intro: same_keeps)
  moreover have "keeps_clients w2 (spawn_connect (si_id i) ByStartup None (enter_connecting (si_id i) p w2))" for p
    by (rule keeps_trans [OF enter_connecting_keeps same_keeps [OF spawn_live]])
  ultimately show ?thesis
    by (auto simp: startup_session_def r Let_def split: sum.splits option.splits intro: keeps_trans)
qed

lemma startup_fold_keeps: "keeps_clients w (fold startup_session rows w)"
  by (induction rows arbitrary: w) (auto intro: keeps_trans startup_session_keeps)

lemma startup_keeps [simp]: "keeps_clients w (reconnect_all_on_startup rank w)"
proof -
  obtain r w1 where r: "list_sessions rank w = (r, w1)" by fastforce
  then have "keeps_clients w w1" using statements_live(4) [of w rank] by (auto intro: same_keeps)
  moreover have "keeps_clients w1 (fold startup_session rows (db_ignore restore_auto_disabled_webhooks w1))" for rows
    by (rule keeps_trans [OF same_keeps [OF db_ignore_live] startup_fold_keeps]) simp
  ultimately show ?thesis by (auto simp: reconnect_all_on_startup_def r split: sum.splits intro: keeps_trans)
qed

lemma remove_runtime_keeps [simp]: "keeps_clients w (remove_runtime sid w)"
  by (auto simp: keeps_clients_def leases_ok_def installed_client_def runtime_of_def get_session_mem_def remove_runtime_def
      remove_session_mem_def split: if_splits)

lemma drop_tags_live [simp]: "same_live w (drop_tags_for sid w)"
  by (cases rule: drop_tags_frame [of sid w]) (simp add: same_live_def)

lemma delete_session_api_keeps [simp]: "keeps_clients w (snd (delete_session_api sid w))"
proof -
  let ?w1 = "purge_new_chats sid (drop_tags_for sid (purge_webhooks_for_session sid (remove_runtime sid w)))"
  have "same_live (remove_runtime sid w) (purge_webhooks_for_session sid (remove_runtime sid w))"
    by (simp add: purge_webhooks_for_session_def same_live_def)
  then have "keeps_clients w ?w1"
    by (blast intro: keeps_trans [OF remove_runtime_keeps] same_keeps same_live_trans drop_tags_live purge_new_chats_live)
  moreover have "same_live ?w1 (snd (delete_session_api sid w))"
    unfolding delete_session_api_def Let_def
  proof (intro db_bind_live db_map_err_live)
    show "same_live u (snd (get_storage_path sid u))" for u :: "'a lifecycle_scheme" by simp
    show "same_live u (snd (db_bind (db_map_err Internal (delete_session sid))
        (\<lambda>deleted. if deleted then db_return (success_with_message ''Session deleted'') else db_fail (SessionNotFound sid))
        (case path of None \<Rightarrow> u | Some p \<Rightarrow> remove_dir_all p u)))" for path and u :: "'a lifecycle_scheme"
      by (rule same_live_trans [where v = "case path of None \<Rightarrow> u | Some p \<Rightarrow> remove_dir_all p u"])
        (auto split: option.splits intro!: db_bind_live db_map_err_live)
  qed
  ultimately show ?thesis by (blast intro: keeps_trans same_keeps)
qed

end
