(* ===== verification/Session_Transfer.thy ===== *)
theory Session_Transfer
  imports Session_Lifecycle Session_Admin_Facts
begin

text \<open>
  Moving a session to another instance: the export and the import of its storage directory as a
  zip archive (\<open>src/api/shared/sessions/handlers/transfer.rs\<close>). Files are the map \<open>stored_files\<close>,
  by the components of their resolved path. The archive format is the zip library's: writing
  one and opening one are arguments, and an opened entry carries what the code asks of it,
  with the bytes that decompressing it yields and whether that ends without an error. A file
  system call that fails is told by \<open>fs_faults\<close> and changes nothing: the part a failing copy may
  have written is not modelled, it would be at the path of the entry.
\<close>

record transfer = lifecycle +
  stored_files :: "string list \<rightharpoonup> bytes"

record zip_entry =
  ze_opens :: bool
  ze_enclosed :: "string list option"
  ze_is_dir :: bool
  ze_size :: nat
  ze_data :: bytes
  ze_complete :: bool

record zip_lib =
  zl_open :: "bytes \<Rightarrow> zip_entry list option"
  zl_write :: "(string list \<times> bytes) list \<Rightarrow> bytes"

type_synonym ('w, 'a) transfer_handler = "'w transfer_scheme \<Rightarrow> (api_error + 'a) \<times> 'w transfer_scheme"

definition MAX_IMPORT_ENTRIES :: nat where "MAX_IMPORT_ENTRIES = 20000"

definition MAX_IMPORT_ENTRY_UNCOMPRESSED_BYTES :: nat where
  "MAX_IMPORT_ENTRY_UNCOMPRESSED_BYTES = 512 * 1024 * 1024"

definition MAX_IMPORT_TOTAL_UNCOMPRESSED_BYTES :: nat where
  "MAX_IMPORT_TOTAL_UNCOMPRESSED_BYTES = 2 * 1024 * 1024 * 1024"

section \<open>Export\<close>

definition exported_runtime :: "session_state \<Rightarrow> session_state" where
  "exported_runtime s = clear_reconnecting (set_client None (set_status StDisconnected s))"

text \<open>The client of an exported session is shut down and taken out.\<close>

definition export_disconnects :: "string \<Rightarrow> 'w lifecycle_scheme \<Rightarrow> 'w lifecycle_scheme" where
  "export_disconnects sid w = store_status sid StDisconnected False
     (with_runtime sid exported_runtime (shutdown_client (installed_client sid w) w))"

text \<open>\<open>walk\<close> is the order in which the directories are read.\<close>

definition relative_to :: "string list \<Rightarrow> string list \<Rightarrow> string list option" where
  "relative_to base p = (if take (length base) p = base \<and> length base < length p then Some (drop (length base) p) else None)"

definition listed_files :: "string list list \<Rightarrow> string list \<Rightarrow> 'w transfer_scheme \<Rightarrow> (string list \<times> bytes) list" where
  "listed_files walk base w = List.map_filter (\<lambda>p. case (relative_to base p, stored_files w p) of
     (Some rel, Some b) \<Rightarrow> Some (rel, b) | _ \<Rightarrow> None) walk"

definition zip_directory ::
    "zip_lib \<Rightarrow> string list list \<Rightarrow> string list \<Rightarrow> 'w transfer_scheme \<Rightarrow> (string + bytes) \<times> 'w transfer_scheme" where
  "zip_directory zl walk base w =
     (let (ok, w1) = fs_call (\<lambda>w. w) w
      in (if \<not> ok then Inl ''read failed'' else Inr (zl_write zl (listed_files walk base w1)), w1))"

definition export_session :: "zip_lib \<Rightarrow> string list list \<Rightarrow> string \<Rightarrow> ('w, bytes) transfer_handler" where
  "export_session zl walk sid =
     db_bind (found_session sid) (\<lambda>_ w.
       db_bind (storage_or_default sid) (\<lambda>path.
         db_map_err (\<lambda>e. Internal (''export failed: '' @ e)) (zip_directory zl walk (resolve_path path)))
         (export_disconnects sid w))"

section \<open>Import\<close>

record upload_field =
  uf_name :: "string option"
  uf_bytes :: "string + bytes"

fun read_upload :: "(string + upload_field) list \<Rightarrow> bytes option \<Rightarrow> api_error + bytes option" where
  "read_upload [] found = Inr found"
| "read_upload (Inl e # rest) found = Inl (BadRequest e)"
| "read_upload (Inr f # rest) found =
     (if uf_name f = Some ''file''
      then (case uf_bytes f of Inl e \<Rightarrow> Inl (BadRequest e) | Inr b \<Rightarrow> read_upload rest (Some b))
      else read_upload rest found)"

text \<open>
  What is copied of an entry stops one byte after the bound of a file, so that an error of the
  decompression after that byte is not seen.
\<close>

definition copied_bytes :: "zip_entry \<Rightarrow> bytes" where
  "copied_bytes e = take (MAX_IMPORT_ENTRY_UNCOMPRESSED_BYTES + 1) (ze_data e)"

definition create_and_copy :: "string list \<Rightarrow> zip_entry \<Rightarrow> 'w transfer_scheme \<Rightarrow> bool \<times> 'w transfer_scheme" where
  "create_and_copy path e = fs_call (\<lambda>w. w\<lparr>stored_files := (stored_files w)(path \<mapsto> copied_bytes e)\<rparr>)"

text \<open>One entry: the running total of declared sizes on success.\<close>

definition unzip_entry ::
    "string list \<Rightarrow> zip_entry \<Rightarrow> nat \<Rightarrow> 'w transfer_scheme \<Rightarrow> (string + nat) \<times> 'w transfer_scheme" where
  "unzip_entry base e declared w =
     (if \<not> ze_opens e then (Inl ''bad entry'', w)
      else case ze_enclosed e of
        None \<Rightarrow> (Inl ''unsafe path, refusing to extract'', w)
      | Some rel \<Rightarrow>
          if ze_is_dir e then (Inr declared, w)
          else if MAX_IMPORT_ENTRY_UNCOMPRESSED_BYTES < ze_size e then (Inl ''entry exceeds the per-file limit'', w)
          else (let declared' = sat 64 (declared + ze_size e) in
            if MAX_IMPORT_TOTAL_UNCOMPRESSED_BYTES < declared' then (Inl ''total declared size exceeds the limit'', w)
            else (let (ok, w1) = fs_call (\<lambda>w. w) w in
              if \<not> ok then (Inl ''cannot create directory'', w1)
              else (let (ok, w2) = create_and_copy (foldl path_step base rel) e w1 in
                if \<not> ok then (Inl ''cannot create file'', w2)
                else if MAX_IMPORT_ENTRY_UNCOMPRESSED_BYTES < length (copied_bytes e)
                  then (Inl ''entry exceeded the per-file limit while extracting'', w2)
                else if \<not> ze_complete e then (Inl ''copy failed'', w2)
                else (Inr declared', w2)))))"

fun unzip_entries ::
    "string list \<Rightarrow> zip_entry list \<Rightarrow> nat \<Rightarrow> 'w transfer_scheme \<Rightarrow> (string + nat) \<times> 'w transfer_scheme" where
  "unzip_entries base [] declared w = (Inr declared, w)"
| "unzip_entries base (e # es) declared w =
     (case unzip_entry base e declared w of (Inl err, w1) \<Rightarrow> (Inl err, w1) | (Inr declared', w1) \<Rightarrow> unzip_entries base es declared' w1)"

definition unzip_directory :: "zip_lib \<Rightarrow> string list \<Rightarrow> bytes \<Rightarrow> 'w transfer_scheme \<Rightarrow> (string + nat) \<times> 'w transfer_scheme" where
  "unzip_directory zl base archive w =
     (let (ok, w1) = fs_call (\<lambda>w. w) w in
      if \<not> ok then (Inl ''cannot create directory'', w1)
      else case zl_open zl archive of
        None \<Rightarrow> (Inl ''invalid zip archive'', w1)
      | Some es \<Rightarrow>
          if MAX_IMPORT_ENTRIES < length es then (Inl ''too many entries'', w1) else unzip_entries base es 0 w1)"

definition import_session :: "zip_lib \<Rightarrow> string \<Rightarrow> (string + upload_field) list \<Rightarrow> ('w, json) transfer_handler" where
  "import_session zl sid upload =
     db_bind (found_session sid) (\<lambda>_ w.
       if (case runtime_of sid w of None \<Rightarrow> False | Some s \<Rightarrow> is_alive s) then (Inl AlreadyConnected, w)
       else case read_upload upload None of
         Inl e \<Rightarrow> (Inl e, w)
       | Inr None \<Rightarrow> (Inl (BadRequest ''No file provided''), w)
       | Inr (Some archive) \<Rightarrow>
           db_bind (storage_or_default sid) (\<lambda>path.
             db_bind (db_map_err (\<lambda>e. BadRequest (''import failed: '' @ e)) (unzip_directory zl (resolve_path path) archive)) (\<lambda>_ w.
               (Inr (success_with_message ''Session storage imported - call /connect to bring it online''), w))) w)"

end
