(* ===== verification/Lifecycle_Steps.thy ===== *)
theory Lifecycle_Steps
  imports Lifecycle_Inv Session_Transfer Cloud_Connection
begin

text \<open>
  The step relation of the session lifecycle: every handler, background task and callback of the
  WhatsApp library, in any order. A handler that waits in its middle is two steps, so that any
  other step can come between, and a connect is four: the bot is built, the session is checked,
  the client is installed, and its loop starts. The invariant: an installed client has a running
  loop of its own or the task that installed it is about to start it, no two sessions share a
  client, and the leases of a runtime are held exactly while it has a client.
\<close>

section \<open>A connect in its parts\<close>

datatype bot_phase = BotBuilt | BotChecked | BotInstalled

record bot_task =
  bt_client :: client
  bt_session :: string
  bt_path :: string
  bt_origin :: connect_origin
  bt_device :: "device_props option"
  bt_by_code :: bool
  bt_phase :: bot_phase

abbreviation bot_id :: "bot_task \<Rightarrow> nat" where
  "bot_id b \<equiv> cl_id (bt_client b)"

definition by_code :: "connect_origin \<Rightarrow> bool" where
  "by_code origin \<longleftrightarrow> (case origin of ByPair _ _ \<Rightarrow> True | _ \<Rightarrow> False)"

text \<open>Up to the end of \<open>Bot::builder\<close>; the task ends with an error otherwise.\<close>

definition begin_bot ::
    "wa_lib \<Rightarrow> connect_origin \<Rightarrow> bool \<Rightarrow> string \<Rightarrow> device_props option \<Rightarrow> 'w lifecycle_scheme
     \<Rightarrow> bot_task list \<times> 'w lifecycle_scheme" where
  "begin_bot wl origin code sid dev w =
     (case db_bind (connect_path sid) (\<lambda>path. db_bind (build_bot wl path dev) (\<lambda>c. db_return (path, c))) w of
        (Inl e, w1) \<Rightarrow> ([], connect_failed origin sid e w1)
      | (Inr (path, c), w1) \<Rightarrow> ([\<lparr> bt_client = c, bt_session = sid, bt_path = path, bt_origin = origin, bt_device = dev,
            bt_by_code = code, bt_phase = BotBuilt \<rparr>], w1))"

text \<open>
  A session that has become a Cloud one meanwhile drops the bot, and a pair code for a linked device
  drops it for an ordinary connect.
\<close>

definition check_bot :: "wa_lib \<Rightarrow> bot_task \<Rightarrow> 'w lifecycle_scheme \<Rightarrow> bot_task list \<times> 'w lifecycle_scheme" where
  "check_bot wl b w =
     (let (cloud, w1) = session_is_cloud (bt_session b) w in
      if cloud then ([], w1)
      else if bt_by_code b \<and> is_linked (bt_client b)
        then begin_bot wl (bt_origin b) False (bt_session b) (bt_device b) w1
      else ([b\<lparr>bt_phase := BotChecked\<rparr>], w1))"

definition place_bot :: "wa_lib \<Rightarrow> bot_task \<Rightarrow> 'w lifecycle_scheme \<Rightarrow> 'w lifecycle_scheme" where
  "place_bot wl b w =
     (let w1 = install_client wl (bt_session b) (bt_path b) (bt_client b) w
      in if bt_by_code b then w1 else with_runtime (bt_session b) (set_status StWaitingForQr) w1)"

definition run_bot :: "bot_task \<Rightarrow> 'w lifecycle_scheme \<Rightarrow> 'w lifecycle_scheme" where
  "run_bot b w = start_run_loop (bt_client b) (bt_session b)
     (if bt_by_code b then w else store_status (bt_session b) StWaitingForQr False w)"

text \<open>Without a step in between the parts are the whole connect.\<close>

lemma plain_connect_in_parts:
  "\<not> by_code (kt_origin t) \<Longrightarrow> run_connect_task wl t w =
     (case begin_bot wl (kt_origin t) False (kt_session t) (kt_device t) w of
        ([], w1) \<Rightarrow> w1
      | (b # _, w1) \<Rightarrow> (case check_bot wl b w1 of ([], w2) \<Rightarrow> w2 | (b' # _, w2) \<Rightarrow> run_bot b' (place_bot wl b' w2)))"
proof -
  let ?sid = "kt_session t" and ?dev = "kt_device t" and ?o = "kt_origin t"
  assume plain: "\<not> by_code ?o"
  then have task: "run_connect_task wl t w =
      (case connect_client wl ?sid ?dev w of (Inl e, w1) \<Rightarrow> connect_failed ?o ?sid e w1 | (Inr _, w1) \<Rightarrow> w1)"
    by (cases ?o) (simp_all add: run_connect_task_def by_code_def)
  obtain q1 u1 where p: "connect_path ?sid w = (q1, u1)" by fastforce
  show ?thesis
  proof (cases q1)
    case (Inl e)
    then show ?thesis using p by (simp add: task connect_client_def begin_bot_def db_bind_def)
  next
    case (Inr path)
    obtain q2 u2 where b: "build_bot wl path ?dev u1 = (q2, u2)" by fastforce
    show ?thesis
    proof (cases q2)
      case (Inl e)
      then show ?thesis using p b Inr by (simp add: task connect_client_def begin_bot_def db_bind_def)
    next
      case built: (Inr c)
      obtain cloud u3 where k: "session_is_cloud ?sid u2 = (cloud, u3)" by fastforce
      show ?thesis using p b k Inr built
        by (simp add: task connect_client_def begin_bot_def db_bind_def db_return_def check_bot_def place_bot_def run_bot_def Let_def)
    qed
  qed
qed

section \<open>Steps\<close>

text \<open>
  \<open>late\<close> and \<open>late_remove\<close> are what is left of a handler that waited, for a client to shut down or
  for the database, and found another state then: it changes one runtime without giving it a
  client, or removes it.
\<close>

inductive life_step :: "'p event_env \<Rightarrow> 'w lifecycle_scheme \<Rightarrow> 'w lifecycle_scheme \<Rightarrow> bool"
  for ee :: "'p event_env" where
  connect: "life_step ee w (snd (connect_session env sid dev w))"
| connect_wait: "life_step ee w (snd (ensure_connecting_for_wait env sid q w))"
| pair: "life_step ee w (snd (pair_begin env pwc sid rq w))"
| pair_end: "life_step ee w (snd (pair_finish pwc sid rq polls w))"
| disconnect: "life_step ee w (snd (disconnect_session sid w))"
| disconnect_fleet: "life_step ee w (snd (disconnect_all rank w))"
| logout: "life_step ee w (snd (logout_session sid w))"
| create: "life_step ee w
    (snd (create_session_api (\<lambda>i. db_bind (connect_session env i None) (\<lambda>_. db_return ())) fresh wid scope rq w))"
| delete: "life_step ee w (snd (delete_session_api sid w))"
| purge: "life_step ee w (snd (purge_sessions rank pq w))"
| export: "life_step ee w (export_disconnects sid w)"
| connect_cloud: "life_step ee w (snd (connect_cloud_api sid cloud w))"
| runtime_on_demand: "life_step ee w (w\<lparr>gw_sessions := snd (get_or_create_session sid path (gw_sessions w))\<rparr>)"
| run_end: "(own, sid) \<in> set (run_loops w) \<Longrightarrow> life_step ee w (run_ended own sid w)"
| event: "(cl_id c, sid) \<in> set (run_loops w) \<Longrightarrow> life_step ee w (handle_event ee sid c ev w)"
| late_logged_out: "life_step ee w (snd (logged_out_finish ee sid reason figures w))"
| watchdog: "life_step ee w (watchdog_tick (ee_libs ee) cfg now_ms w)"
| late_rebuild: "life_step ee w (rebuild_finish (ee_libs ee) sid forced_by w)"
| startup: "life_step ee w (reconnect_all_on_startup rank w)"
| client_moves: "installed_client sid w = Some c \<Longrightarrow> cl_id c' = cl_id c \<Longrightarrow>
    life_step ee w (with_runtime sid (\<lambda>s. s\<lparr>ss_client := Some c'\<rparr>) w)"
| late: "(\<And>s. tame_runtime s (f s)) \<Longrightarrow> life_step ee w (with_runtime sid f w)"
| late_remove: "life_step ee w (remove_runtime sid w)"
| elsewhere: "same_live w w' \<Longrightarrow> life_step ee w w'"

text \<open>
  The gateway with the bots that are built and not yet running. A session's runtime may be removed
  or replaced while its connect waits, so a client may be installed on a runtime that no session
  has any more (\<open>install_detached\<close>).
\<close>

type_synonym 'w gateway = "'w lifecycle_scheme \<times> bot_task list"

inductive gateway_step :: "'p event_env \<Rightarrow> wa_lib \<Rightarrow> 'w gateway \<Rightarrow> 'w gateway \<Rightarrow> bool"
  for ee :: "'p event_env" and wl :: wa_lib where
  handler: "life_step ee w w' \<Longrightarrow> gateway_step ee wl (w, bs) (w', bs)"
| begin_connect: "t \<in> set (connect_tasks w) \<Longrightarrow>
    begin_bot wl (kt_origin t) (by_code (kt_origin t)) (kt_session t) (kt_device t)
      (w\<lparr>connect_tasks := remove1 t (connect_tasks w)\<rparr>) = (new, w') \<Longrightarrow>
    gateway_step ee wl (w, bs) (w', bs @ new)"
| begin_created: "sid \<in> set (connects_spawned w) \<Longrightarrow>
    begin_bot wl ByCreate False sid None (w\<lparr>connects_spawned := remove1 sid (connects_spawned w)\<rparr>) = (new, w') \<Longrightarrow>
    gateway_step ee wl (w, bs) (w', bs @ new)"
| check: "bt_phase b = BotBuilt \<Longrightarrow> check_bot wl b w = (new, w') \<Longrightarrow>
    gateway_step ee wl (w, xs @ b # ys) (w', xs @ new @ ys)"
| install: "bt_phase b = BotChecked \<Longrightarrow>
    gateway_step ee wl (w, xs @ b # ys) (place_bot wl b w, xs @ b\<lparr>bt_phase := BotInstalled\<rparr> # ys)"
| install_detached: "bt_phase b = BotChecked \<Longrightarrow>
    gateway_step ee wl (w, xs @ b # ys) (w, xs @ b\<lparr>bt_phase := BotInstalled\<rparr> # ys)"
| run: "bt_phase b = BotInstalled \<Longrightarrow> gateway_step ee wl (w, xs @ b # ys) (run_bot b w, xs @ ys)"

text \<open>The process starts with no runtime, no client and no connect.\<close>

definition life_start :: "'w lifecycle_scheme \<Rightarrow> bool" where
  "life_start w \<longleftrightarrow> gw_sessions w = [] \<and> run_loops w = []"

inductive gateway_reachable :: "'p event_env \<Rightarrow> wa_lib \<Rightarrow> 'w gateway \<Rightarrow> bool"
  for ee :: "'p event_env" and wl :: wa_lib where
  start: "life_start w \<Longrightarrow> gateway_reachable ee wl (w, [])"
| step: "gateway_reachable ee wl g \<Longrightarrow> gateway_step ee wl g g' \<Longrightarrow> gateway_reachable ee wl g'"

section \<open>The invariant\<close>

fun starting :: "bot_task list \<Rightarrow> (nat \<times> string) set" where
  "starting [] = {}"
| "starting (b # bs) = (if bt_phase b = BotInstalled then {(bot_id b, bt_session b)} else {}) \<union> starting bs"

lemma starting_append [simp]: "starting (xs @ ys) = starting xs \<union> starting ys"
  by (induction xs) auto

lemma startingE: "(own, sid) \<in> starting bs \<Longrightarrow> \<exists>b \<in> set bs. bt_phase b = BotInstalled \<and> bot_id b = own \<and> bt_session b = sid"
  by (induction bs) (auto split: if_splits)

definition started_or_starting :: "'w gateway \<Rightarrow> (nat \<times> string) set" where
  "started_or_starting g = set (run_loops (fst g)) \<union> starting (snd g)"

definition client_ids :: "'w gateway \<Rightarrow> nat list" where
  "client_ids g = map fst (run_loops (fst g)) @ map bot_id (snd g)"

definition gateway_inv :: "'w gateway \<Rightarrow> bool" where
  "gateway_inv g \<longleftrightarrow>
     (\<forall>sid c. installed_client sid (fst g) = Some c \<longrightarrow> (cl_id c, sid) \<in> started_or_starting g) \<and>
     distinct (client_ids g) \<and> (\<forall>own \<in> set (client_ids g). own < next_client (fst g)) \<and> leases_ok (fst g)"

lemma inv_installed: "gateway_inv g \<Longrightarrow> installed_client sid (fst g) = Some c \<Longrightarrow> (cl_id c, sid) \<in> started_or_starting g"
  by (simp add: gateway_inv_def)

lemma inv_change:
  assumes "gateway_inv (w, bs)" and "\<And>sid. installed_client sid w' = installed_client sid w" and "leases_ok w' = leases_ok w"
    and "started_or_starting (w, bs) \<subseteq> started_or_starting (w', bs')" and "distinct (client_ids (w', bs'))"
    and "set (client_ids (w', bs')) \<subseteq> {..<next_client w'}"
  shows "gateway_inv (w', bs')"
  using assms unfolding gateway_inv_def by (auto 0 3)

lemma inv_ids: "gateway_inv (w, bs) \<Longrightarrow> distinct (client_ids (w, bs)) \<and> set (client_ids (w, bs)) \<subseteq> {..<next_client w}"
  by (auto simp: gateway_inv_def)

lemma inv_start: "life_start w \<Longrightarrow> gateway_inv (w, [])"
  by (simp add: life_start_def gateway_inv_def client_ids_def leases_ok_def installed_client_def runtime_of_def get_session_mem_def)

lemma keeps_inv: "keeps_clients w w' \<Longrightarrow> gateway_inv (w, bs) \<Longrightarrow> gateway_inv (w', bs)"
  unfolding gateway_inv_def keeps_clients_def client_ids_def started_or_starting_def
  by (elim conjE, intro conjI allI impI) (simp_all, force)

lemma same_inv: "same_live w w' \<Longrightarrow> gateway_inv (w, bs) \<Longrightarrow> gateway_inv (w', bs)"
  by (rule keeps_inv [OF same_keeps])

subsection \<open>A connect\<close>

lemma call_lib_fields [simp]:
  "runtime_of sid (call_lib x w) = runtime_of sid w" "run_loops (call_lib x w) = run_loops w"
  "next_client (call_lib x w) = next_client w"
  by (simp_all add: call_lib_def runtime_of_def)

lemma installed_after_install:
  assumes "installed_client j (with_runtime sid f (install_client wl sid path c w)) = Some c'"
    and "\<And>s. ss_client (f s) = ss_client s"
  shows "j = sid \<and> c' = c \<or> installed_client j w = Some c'"
  using assms
  by (auto simp: install_client_def installed_client_def runtime_with_runtime bind_eq_Some_conv set_client_def
      split: option.splits if_splits)

lemma install_loops [simp]:
  "run_loops (install_client wl sid path c w) = run_loops w" "next_client (install_client wl sid path c w) = next_client w"
  by (simp_all add: install_client_def split: option.splits)

lemma lease_ok_installed: "lease_ok (set_client (Some c) (set_enc_decrypt_failed_lease (if b then set_chat_store s else s)))"
  if "lease_ok s" using that
  by (auto simp: lease_ok_def set_client_def set_enc_decrypt_failed_lease_def set_chat_store_def)

lemma lease_ok_status [simp]: "lease_ok (set_status st s) = lease_ok s"
  by (simp add: lease_ok_def set_status_def)

lemma leases_installed:
  assumes "leases_ok w" and "\<And>s. lease_ok s \<Longrightarrow> lease_ok (f s)"
  shows "leases_ok (with_runtime sid f (install_client wl sid path c w))"
proof -
  have "lease_ok (f (set_client (Some c) (set_enc_decrypt_failed_lease (if b then set_chat_store s else s))))" if "lease_ok s" for b s
    by (intro assms(2) lease_ok_installed that)
  then have "lease_ok (f (set_client (Some c) (set_enc_decrypt_failed_lease (set_chat_store s))))"
    "lease_ok (f (set_client (Some c) (set_enc_decrypt_failed_lease s)))" if "lease_ok s" for s
    using that by (metis (full_types))+
  then show ?thesis
    using assms(1) by (auto simp: leases_ok_def install_client_def runtime_with_runtime split: option.splits if_splits)
qed

lemma with_runtime_same: "with_runtime sid (\<lambda>s. s) w = w"
  by (auto simp: with_runtime_def runtime_of_def get_session_mem_def dm_put_def dm_get_def update_triv map_of_SomeD
      split: option.split)

lemma connect_failed_keeps: "keeps_clients w (connect_failed origin sid e w)"
  unfolding connect_failed_def
  by (rule with_runtime_keeps) (auto intro: tame_after tame_simps split: connect_origin.splits)

text \<open>A bot that was built is new: no loop runs and no other bot waits under its identity.\<close>

lemma begin_bot_cases:
  assumes "begin_bot wl origin code sid dev w = (new, w')"
  obtains (failed) "new = []" "keeps_clients w w'"
  | (built) b where "new = [b]" "bot_id b = next_client w" "bt_phase b = BotBuilt"
      "gw_sessions w' = gw_sessions w" "run_loops w' = run_loops w" "next_client w' = next_client w + 1"
proof -
  obtain r u where path: "connect_path sid w = (r, u)" by fastforce
  then have live: "same_live w u" using connect_path_live [of w sid] by simp
  have failing: "keeps_clients w (connect_failed origin sid e v)" if "same_live w v" for e v
    using that by (blast intro: keeps_trans same_keeps connect_failed_keeps)
  show thesis
  proof (cases r)
    case (Inl e)
    with assms path have "new = []" "w' = connect_failed origin sid e u" by (auto simp: begin_bot_def db_bind_def)
    then show thesis using failing [OF live] by (intro failed) simp_all
  next
    case (Inr p)
    let ?props = "case dev of None \<Rightarrow> resolve_from_env (wl_env wl) | Some d \<Rightarrow> d"
    show thesis
    proof (cases "wl_build wl (whatsapp_db p) ?props")
      case (Inl e)
      with assms path Inr have "new = []" "w' = connect_failed origin sid (Internal e) u"
        by (auto simp: begin_bot_def db_bind_def build_bot_def)
      then show thesis using failing [OF live] by (intro failed) simp_all
    next
      case (Inr c)
      with assms path \<open>r = Inr p\<close> live show thesis
        by (intro built [of "hd new"]) (auto simp: begin_bot_def db_bind_def build_bot_def db_return_def same_live_def)
    qed
  qed
qed

lemma begun_inv:
  assumes inv: "gateway_inv (w, xs @ ys)" and "begin_bot wl origin code sid dev w = (new, w')"
  shows "gateway_inv (w', xs @ new @ ys)"
  using assms(2)
proof (cases rule: begin_bot_cases)
  case failed
  then show ?thesis using keeps_inv [OF failed(2) inv] by simp
next
  case (built b)
  have "installed_client j w' = installed_client j w" "leases_ok w' = leases_ok w" for j
    using built(4) by (simp_all add: installed_client_def runtime_of_def leases_ok_def)
  then show ?thesis
  proof (rule inv_change [OF inv])
    show "started_or_starting (w, xs @ ys) \<subseteq> started_or_starting (w', xs @ new @ ys)"
      using built by (auto simp: started_or_starting_def)
    have "next_client w \<notin> set (client_ids (w, xs @ ys))" using inv_ids [OF inv] by auto
    then show "distinct (client_ids (w', xs @ new @ ys))"
      using inv_ids [OF inv] built(1,2,5) by (auto simp: client_ids_def)
    show "set (client_ids (w', xs @ new @ ys)) \<subseteq> {..<next_client w'}"
      using inv_ids [OF inv] built(1,2,5,6) by (auto simp: client_ids_def less_SucI)
  qed
qed

lemma drop_bot_inv: "gateway_inv (w, xs @ b # ys) \<Longrightarrow> bt_phase b \<noteq> BotInstalled \<Longrightarrow> gateway_inv (w, xs @ ys)"
  by (frule inv_ids, erule inv_change) (auto simp: client_ids_def started_or_starting_def)

lemma next_phase_inv:
  assumes "gateway_inv (w, xs @ b # ys)" and "bt_phase b \<noteq> BotInstalled"
  shows "gateway_inv (w, xs @ b\<lparr>bt_phase := p\<rparr> # ys)"
  using inv_ids [OF assms(1)] assms(2)
  by (intro inv_change [OF assms(1)]) (auto simp: client_ids_def started_or_starting_def)

lemma check_inv:
  assumes inv: "gateway_inv (w, xs @ b # ys)" and "bt_phase b = BotBuilt" and "check_bot wl b w = (new, w')"
  shows "gateway_inv (w', xs @ new @ ys)"
proof -
  obtain cloud u where q: "session_is_cloud (bt_session b) w = (cloud, u)" by fastforce
  then have "same_live w u" using session_is_cloud_live [of w "bt_session b"] by simp
  then have u: "gateway_inv (u, xs @ b # ys)" using inv by (rule same_inv)
  then have dropped: "gateway_inv (u, xs @ ys)" by (rule drop_bot_inv) (simp add: assms(2))
  show ?thesis
    using assms(3) begun_inv [OF dropped] next_phase_inv [OF u, of BotChecked] dropped
    by (auto simp: check_bot_def q assms(2) split: if_splits)
qed

lemma place_bot_frame [simp]: "run_loops (place_bot wl b w) = run_loops w" "next_client (place_bot wl b w) = next_client w"
  by (simp_all add: place_bot_def Let_def)

lemma installed_after_place:
  "installed_client j (place_bot wl b w) = Some c \<Longrightarrow> j = bt_session b \<and> c = bt_client b \<or> installed_client j w = Some c"
  using installed_after_install [of j "bt_session b" "\<lambda>s. s" wl "bt_path b" "bt_client b" w c]
    installed_after_install [of j "bt_session b" "set_status StWaitingForQr" wl "bt_path b" "bt_client b" w c]
  by (auto simp: place_bot_def Let_def set_status_def with_runtime_same split: if_splits)

lemma leases_placed: "leases_ok w \<Longrightarrow> leases_ok (place_bot wl b w)"
  using leases_installed [of w "\<lambda>s. s" "bt_session b" wl "bt_path b" "bt_client b"]
    leases_installed [of w "set_status StWaitingForQr" "bt_session b" wl "bt_path b" "bt_client b"]
  by (auto simp: place_bot_def Let_def with_runtime_same)

lemma install_inv:
  assumes "gateway_inv (w, xs @ b # ys)" and "bt_phase b = BotChecked"
  shows "gateway_inv (place_bot wl b w, xs @ b\<lparr>bt_phase := BotInstalled\<rparr> # ys)"
proof -
  let ?bs = "xs @ b\<lparr>bt_phase := BotInstalled\<rparr> # ys"
  have inv: "gateway_inv (w, ?bs)" using assms by (intro next_phase_inv) simp_all
  have "(cl_id c, j) \<in> started_or_starting (place_bot wl b w, ?bs)" if "installed_client j (place_bot wl b w) = Some c" for j c
    using installed_after_place [OF that] inv_installed [OF inv] by (auto simp: started_or_starting_def)
  then show ?thesis
    using inv leases_placed [of w wl b] unfolding gateway_inv_def by (simp add: client_ids_def)
qed

lemma run_inv:
  assumes inv: "gateway_inv (w, xs @ b # ys)"
  shows "gateway_inv (run_bot b w, xs @ ys)"
proof -
  define u where "u = (if bt_by_code b then w else store_status (bt_session b) StWaitingForQr False w)"
  have "same_live w u" by (simp add: u_def)
  then have u: "gateway_inv (u, xs @ b # ys)" using inv by (rule same_inv)
  have run: "run_bot b w = u\<lparr>run_loops := run_loops u @ [(bot_id b, bt_session b)]\<rparr>"
    by (simp add: run_bot_def u_def start_run_loop_def)
  have "installed_client j (run_bot b w) = installed_client j u" "leases_ok (run_bot b w) = leases_ok u" for j
    by (simp_all add: run installed_client_def runtime_of_def leases_ok_def)
  moreover have "next_client (run_bot b w) = next_client u" "run_loops (run_bot b w) = run_loops u @ [(bot_id b, bt_session b)]"
    by (simp_all add: run)
  ultimately show ?thesis
    using inv_ids [OF u] by (intro inv_change [OF u]) (auto simp: client_ids_def started_or_starting_def split: if_splits)
qed

subsection \<open>The end of a client's loop\<close>

lemma run_ended_inv:
  assumes inv: "gateway_inv (w, bs)" shows "gateway_inv (run_ended own sid w, bs)"
proof -
  let ?u = "w\<lparr>run_loops := removeAll (own, sid) (run_loops w)\<rparr>"
  let ?v = "mark_disconnected_if_still_current sid own ?u"
  have k: "keeps_clients ?u ?v"
    unfolding mark_disconnected_if_still_current_def
    by (auto split: option.splits intro: same_keeps keeps_trans [OF with_runtime_keeps same_keeps [OF store_status_live]])
  have "ss_client s = None \<or> \<not> is_current_client (ss_client s) own" if "runtime_of sid ?v = Some s" for s
  proof (cases "runtime_of sid ?u")
    case None
    then have "runtime_of sid ?v = None"
      using store_status_live [of ?u sid StDisconnected False]
      by (simp add: mark_disconnected_if_still_current_def same_live_def runtime_of_def)
    then show ?thesis using that by simp
  next
    case (Some t)
    show ?thesis
    proof (cases "ss_client t = None \<or> is_current_client (ss_client t) own")
      case True
      let ?x = "with_runtime sid (\<lambda>s. set_client None (set_status StDisconnected s)) ?u"
      have "?v = store_status sid StDisconnected False ?x"
        using True Some by (simp add: mark_disconnected_if_still_current_def)
      then have "runtime_of sid ?v = runtime_of sid ?x"
        using store_status_live [of ?x] by (simp add: same_live_def runtime_of_def)
      then show ?thesis using that Some by (auto simp: runtime_with_runtime set_client_def)
    qed (use that Some in \<open>auto simp: mark_disconnected_if_still_current_def\<close>)
  qed
  then have gone: "cl_id c \<noteq> own" if "installed_client sid ?v = Some c" for c
    using that by (force simp: installed_client_def bind_eq_Some_conv is_current_client_def)
  have u: "installed_client j ?u = installed_client j w" "leases_ok ?u = leases_ok w" for j
    by (simp_all add: installed_client_def runtime_of_def leases_ok_def)
  have "(cl_id c, j) \<in> started_or_starting (?v, bs)" if i: "installed_client j ?v = Some c" for j c
  proof -
    from i k obtain d where d: "installed_client j w = Some d" "cl_id d = cl_id c"
      unfolding keeps_clients_def u by blast
    with inv_installed [OF inv, of j d] have "(cl_id c, j) \<in> started_or_starting (w, bs)" by simp
    then show ?thesis using k gone i by (auto simp: keeps_clients_def started_or_starting_def)
  qed
  moreover have "distinct (client_ids (w\<lparr>run_loops := removeAll (own, sid) (run_loops w)\<rparr>, bs))"
    using inv by (auto simp: gateway_inv_def client_ids_def distinct_map_filter removeAll_filter_not_eq)
  moreover have "set (client_ids (w\<lparr>run_loops := removeAll (own, sid) (run_loops w)\<rparr>, bs)) \<subseteq> set (client_ids (w, bs))"
    by (auto simp: client_ids_def)
  ultimately show ?thesis
    using k inv unfolding run_ended_def gateway_inv_def by (auto simp: keeps_clients_def u client_ids_def)
qed

subsection \<open>The other steps\<close>

lemma client_moves_inv:
  assumes inv: "gateway_inv (w, bs)" and c: "installed_client sid w = Some c" "cl_id c' = cl_id c"
  shows "gateway_inv (with_runtime sid (\<lambda>s. s\<lparr>ss_client := Some c'\<rparr>) w, bs)"
proof (rule keeps_inv [OF with_runtime_keeps inv])
  fix s assume "runtime_of sid w = Some s"
  then have "ss_client s = Some c" using c(1) by (simp add: installed_client_def)
  then show "tame_runtime s (s\<lparr>ss_client := Some c'\<rparr>)" using c(2) by (simp add: tame_runtime_def lease_ok_def)
qed

lemma start_connecting_keeps: "keeps_clients w (start_connecting sid path w)"
proof -
  obtain s m where g: "get_or_create_session sid path (gw_sessions w) = (s, m)" by fastforce
  let ?w = "w\<lparr>gw_sessions := m\<rparr>"
  have rt: "runtime_of sid ?w = Some s"
    using g by (auto simp: get_or_create_session_def runtime_of_def get_session_mem_def split: option.splits)
  have "keeps_clients w ?w" using get_or_create_keeps [of w sid path] g by simp
  also have "keeps_clients ?w (with_runtime sid (\<lambda>_. set_status StConnecting s) ?w)"
    by (rule with_runtime_keeps) (use rt in simp)
  also have "same_live (with_runtime sid (\<lambda>_. set_status StConnecting s) ?w) (start_connecting sid path w)"
    using rt by (simp add: start_connecting_def g with_runtime_def same_live_def set_status_def)
  then have "keeps_clients (with_runtime sid (\<lambda>_. set_status StConnecting s) ?w) (start_connecting sid path w)" ..
  finally show ?thesis .
qed

lemma add_first_webhook_live: "same_live w (snd (add_first_webhook wid sid wh w))"
proof -
  have "same_live u (register_webhook_mem sid wid c u)" for c and u :: "'a lifecycle_scheme"
    by (simp add: register_webhook_mem_def same_live_def)
  then show ?thesis
    by (cases wh) (simp_all add: add_first_webhook_def db_bind_live db_map_err_live)
qed

lemma create_session_api_keeps:
  assumes connect: "\<And>i u. keeps_clients u (snd (conn i u))"
  shows "keeps_clients w (snd (create_session_api conn fresh wid scope rq w))"
proof -
  have new: "keeps_clients u (snd (db_bind (add_first_webhook wid sid wh) (\<lambda>_ w1. (Inr i, start_connecting sid path w1)) u))"
    for sid path wh i and u :: "'a lifecycle_scheme"
    by (intro db_bind_keeps_clients same_keeps [OF add_first_webhook_live]) (simp add: start_connecting_keeps)
  have stored: "keeps_clients u (snd (db_bind (create_dir_all p) (\<lambda>_. db_bind (db_map_err Internal (create_session sid n p)) (\<lambda>i.
      db_bind (add_first_webhook wid sid wh) (\<lambda>_ w1. (Inr i, start_connecting sid p w1)))) u))"
    for p sid n wh and u :: "'a lifecycle_scheme"
    by (intro db_bind_keeps_clients new same_keeps db_map_err_live) simp_all
  have conn: "keeps_clients u (snd (db_bind (conn i) (\<lambda>_. db_return (p :: session_info)) u))" for i p and u :: "'a lifecycle_scheme"
    by (intro db_bind_keeps_clients connect) (simp add: same_keeps)
  have all: "keeps_clients u (snd (db_bind (db_map_err Internal (get_session sid)) (\<lambda>found. case found of
      Some present \<Rightarrow> if cr_reuse rq \<noteq> Some True then db_fail AlreadyConnected else db_bind (conn sid) (\<lambda>_. db_return present)
    | None \<Rightarrow> db_bind (create_dir_all p) (\<lambda>_. db_bind (db_map_err Internal (create_session sid (cr_name rq) p)) (\<lambda>i.
        db_bind (add_first_webhook wid sid (cr_webhook rq)) (\<lambda>_ w1. (Inr i, start_connecting sid p w1))))) u))"
    for sid p and u :: "'a lifecycle_scheme"
  proof (rule db_bind_keeps_clients)
    show "keeps_clients v (snd (db_map_err Internal (get_session sid) v))" for v :: "'a lifecycle_scheme"
      by (intro same_keeps db_map_err_live) simp
  qed (simp add: conn stored same_keeps split: option.splits)
  show ?thesis
    unfolding create_session_api_def Let_def using all by simp
qed

lemma disconnect_one_keeps: "keeps_clients w (snd (disconnect_one s w))"
proof (cases "runtime_of (si_id s) w")
  case None
  then show ?thesis by (simp add: disconnect_one_def runtime_of_def)
next
  case (Some r)
  let ?w1 = "with_runtime (si_id s) (\<lambda>r. set_client None (r\<lparr>ss_status := StDisconnected\<rparr>)) w"
  have "keeps_clients w ?w1"
    by (rule with_runtime_keeps) (simp add: tame_runtime_def lease_ok_def set_client_def)
  moreover have "snd (disconnect_one s w) = (if ss_client r = None then w
      else db_ignore (update_session_status (si_id s) StDisconnected (si_is_logged_in s)) ?w1)"
    using Some by (auto simp: disconnect_one_def runtime_of_def with_runtime_def)
  moreover have "keeps_clients ?w1 (db_ignore (update_session_status (si_id s) StDisconnected (si_is_logged_in s)) ?w1)"
    by (intro same_keeps db_ignore_live) simp
  ultimately show ?thesis by (metis keeps_refl keeps_trans)
qed

lemma disconnect_each_keeps: "keeps_clients w (snd (disconnect_each ss w))"
proof (induction ss arbitrary: w)
  case (Cons s ss)
  show ?case
    using keeps_trans [OF disconnect_one_keeps [of w s] Cons.IH [of "snd (disconnect_one s w)"]]
    by (simp add: split_beta Let_def)
qed simp

lemma disconnect_all_keeps [simp]: "keeps_clients w (snd (disconnect_all rank w))"
  unfolding disconnect_all_def
  by (rule db_bind_keeps_clients) (simp_all add: same_keeps [OF db_map_err_live] disconnect_each_keeps split_beta Let_def)

lemma purge_one_keeps: "keeps_clients w (snd (purge_one sid w))"
proof -
  obtain r w1 where r: "get_storage_path sid w = (r, w1)" by fastforce
  then have w1: "keeps_clients w w1" using statements_live(2) [of w sid] by (auto intro: same_keeps)
  let ?v = "remove_runtime sid w1"
  have "same_live ?v (purge_webhooks_for_session sid ?v)" by (simp add: purge_webhooks_for_session_def same_live_def)
  then have w2: "keeps_clients w (purge_new_chats sid (purge_webhooks_for_session sid ?v))"
    by (blast intro: keeps_trans [OF w1] keeps_trans [OF remove_runtime_keeps] same_keeps same_live_trans purge_new_chats_live)
  show ?thesis
    unfolding purge_one_def r Let_def split_beta
    by (auto split: sum.splits option.splits
        intro: keeps_trans [OF w2 same_keeps] same_live_trans [OF fs_live(2) statements_live(8)])
qed

lemma purge_each_keeps: "keeps_clients w (snd (purge_each sids w))"
proof (induction sids arbitrary: w)
  case (Cons sid sids)
  show ?case
    using keeps_trans [OF purge_one_keeps [of w sid] Cons.IH [of "snd (purge_one sid w)"]] by (simp add: split_beta Let_def)
qed simp

lemma purge_sessions_keeps [simp]: "keeps_clients w (snd (purge_sessions rank q w))"
  unfolding purge_sessions_def
  by (rule db_bind_keeps_clients) (simp_all add: same_keeps [OF db_map_err_live] purge_each_keeps split_beta Let_def)

lemma export_disconnects_keeps [simp]: "keeps_clients w (export_disconnects sid w)"
proof -
  let ?w = "shutdown_client (installed_client sid w) w"
  have "keeps_clients ?w (with_runtime sid exported_runtime ?w)"
    by (rule with_runtime_keeps) (simp add: exported_runtime_def tame_after)
  then show ?thesis
    unfolding export_disconnects_def by (blast intro: keeps_trans same_keeps shutdown_live store_status_live)
qed

lemma connect_cloud_api_keeps [simp]: "keeps_clients w (snd (connect_cloud_api sid rq w))"
  unfolding connect_cloud_api_def
proof (intro db_bind_keeps_clients same_keeps [OF found_session_live])
  show "keeps_clients u (snd (db_map_err Internal (connect_cloud sid rq) u))" for u :: "'a lifecycle_scheme"
    unfolding connect_cloud_def by (intro same_keeps db_map_err_live) simp
  show "keeps_clients u (snd (found_session sid (remove_runtime sid (shutdown_client (installed_client sid u) u))))"
    for u :: "'a lifecycle_scheme"
    by (rule keeps_trans [OF same_keeps [OF shutdown_live] keeps_trans [OF remove_runtime_keeps same_keeps [OF found_session_live]]])
qed

lemma life_step_inv:
  fixes w :: "'w lifecycle_scheme"
  assumes "life_step ee w w'" and inv: "gateway_inv (w, bs)" shows "gateway_inv (w', bs)"
  using assms(1)
proof cases
  case (create env fresh wid scope rq)
  have conn: "keeps_clients u (snd (db_bind (connect_session env i None) (\<lambda>_. db_return ()) u))" for i and u :: "'w lifecycle_scheme"
    by (intro db_bind_keeps_clients) (simp_all add: same_keeps)
  show ?thesis unfolding create by (rule keeps_inv [OF create_session_api_keeps inv]) (rule conn)
next
  case (client_moves sid c c')
  then show ?thesis using client_moves_inv [OF inv] by blast
next
  case (late f sid)
  show ?thesis unfolding late(1) by (rule keeps_inv [OF with_runtime_keeps inv]) (rule late(2))
next
  case elsewhere
  then show ?thesis by (rule same_inv [OF _ inv])
qed (simp_all add: keeps_inv [OF _ inv] run_ended_inv [OF inv] get_or_create_keeps watchdog_tick_def)

lemma gateway_step_inv:
  assumes "gateway_step ee wl g g'" and "gateway_inv g" shows "gateway_inv g'"
  using assms
proof cases
  case (handler w w' bs)
  then show ?thesis using life_step_inv assms(2) by blast
next
  case (begin_connect t w new w' bs)
  have "gateway_inv (w\<lparr>connect_tasks := remove1 t (connect_tasks w)\<rparr>, bs @ [])"
    using assms(2) begin_connect(1) same_inv [of w "w\<lparr>connect_tasks := remove1 t (connect_tasks w)\<rparr>"] by (simp add: same_live_def)
  from begun_inv [OF this begin_connect(4)] show ?thesis by (simp add: begin_connect(2))
next
  case (begin_created sid w new w' bs)
  have "gateway_inv (w\<lparr>connects_spawned := remove1 sid (connects_spawned w)\<rparr>, bs @ [])"
    using assms(2) begin_created(1) same_inv [of w "w\<lparr>connects_spawned := remove1 sid (connects_spawned w)\<rparr>"]
    by (simp add: same_live_def)
  from begun_inv [OF this begin_created(4)] show ?thesis by (simp add: begin_created(2))
next
  case check
  then show ?thesis using check_inv assms(2) by blast
next
  case install
  then show ?thesis using install_inv assms(2) by blast
next
  case install_detached
  then show ?thesis using next_phase_inv assms(2) by fastforce
next
  case run
  then show ?thesis using run_inv assms(2) by blast
qed

lemma gateway_reachable_inv: "gateway_reachable ee wl g \<Longrightarrow> gateway_inv g"
  by (induction rule: gateway_reachable.induct) (auto intro: inv_start gateway_step_inv)

end
