(* ===== verification/Lifecycle_Facts.thy ===== *)
theory Lifecycle_Facts
  imports Lifecycle_Steps
begin

text \<open>
  What the session lifecycle promises: an installed client runs and is the session's own, two
  connects in a row leave two clients running, events of a replaced client do nothing, each
  message is forwarded once, the watchdog rebuilds exactly the stuck sessions, and a logout
  keeps the session.
\<close>

section \<open>Runs without database failures\<close>

lemma with_runtime_run [simp]:
  "runtime_of sid w = Some s \<Longrightarrow> with_runtime sid f w = w\<lparr>gw_sessions := dm_put sid (f s) (gw_sessions w)\<rparr>"
  by (simp add: with_runtime_def)

lemma with_runtime_none [simp]: "runtime_of sid w = None \<Longrightarrow> with_runtime sid f w = w"
  by (simp add: with_runtime_def)

definition status_written :: "string \<Rightarrow> session_status \<Rightarrow> bool \<Rightarrow> unix \<Rightarrow> session_row list \<Rightarrow> session_row list" where
  "status_written sid st b now = update_where (\<lambda>r. s_id r = sid)
     (\<lambda>r. r\<lparr>s_status := session_status_as_str st, s_is_logged_in := b, s_updated_at := now\<rparr>)"

lemma store_status_run:
  "db_faults w = [] \<Longrightarrow> store_status sid st b w = w\<lparr>sessions := status_written sid st b (db_now w) (sessions w)\<rparr>"
  by (simp add: store_status_def db_ignore_def update_session_status_def update_session_def status_written_def)

lemma find_status_written:
  "find (\<lambda>r. s_id r = j) (status_written sid st b now rows) =
     map_option (\<lambda>r. if s_id r = sid then r\<lparr>s_status := session_status_as_str st, s_is_logged_in := b, s_updated_at := now\<rparr> else r)
       (find (\<lambda>r. s_id r = j) rows)"
  by (induction rows) (auto simp: status_written_def update_where_def)

lemma find_session_fields:
  "sessions w' = sessions w \<Longrightarrow> find_session sid w' = find_session sid w"
  by (simp add: find_session_def)

lemma reads_run:
  assumes "db_faults w = []" and "find_session sid w = Some r"
  shows "found_session sid w = (Inr (row_to_session r), w)" "storage_or_default sid w = (Inr (s_storage_path r), w)"
    "connect_path sid w = (Inr (s_storage_path r), w)"
    "session_is_cloud sid w = (s_provider r = ''whatsapp_cloud'', w)"
    "get_storage_path sid w = (Inr (Some (s_storage_path r)), w)"
  using assms
  by (simp_all add: found_session_def storage_or_default_def connect_path_def session_is_cloud_def get_session_def
      get_storage_path_def db_map_err_def db_bind_def is_cloud_session_def row_to_session_def db_return_def)

section \<open>Connecting\<close>

text \<open>A session the code calls neither live nor waiting for a code, with no client installed.\<close>

definition may_connect :: "string \<Rightarrow> 'w lifecycle_scheme \<Rightarrow> bool" where
  "may_connect sid w \<longleftrightarrow> installed_client sid w = None \<and>
     (\<forall>s. runtime_of sid w = Some s \<longrightarrow> ss_status s \<noteq> StWaitingForQr \<and> ss_status s \<noteq> StWaitingForPairCode)"

lemma enter_connecting_fields [simp]:
  "run_loops (enter_connecting sid path w) = run_loops w" "next_client (enter_connecting sid path w) = next_client w"
  "lib_calls (enter_connecting sid path w) = lib_calls w" "connect_tasks (enter_connecting sid path w) = connect_tasks w"
  "db_faults (enter_connecting sid path w) = db_faults w" "sessions (enter_connecting sid path w) = sessions w"
  "db_now (enter_connecting sid path w) = db_now w"
  by (simp_all add: enter_connecting_def)

lemma enter_connecting_runtime:
  "runtime_of sid (enter_connecting sid path w) = Some (set_status StConnecting
     (case runtime_of sid w of None \<Rightarrow> session_state_new path | Some s \<Rightarrow> s))"
  by (auto simp: enter_connecting_def runtime_with_runtime get_or_create_session_def runtime_of_def get_session_mem_def
      split: option.splits)

lemma connect_session_run:
  assumes "db_faults w = []" and "find_session sid w = Some r" and "s_provider r \<noteq> ''whatsapp_cloud''" and "may_connect sid w"
  shows "connect_session env sid dev w = (Inr (success_with_message ''Connection initiated''),
     spawn_connect sid ByConnect (map_option (resolve_with_override env) dev)
       (enter_connecting sid (s_storage_path r) (with_runtime sid clear_for_connect w)))"
proof (cases "runtime_of sid w")
  case None
  with assms show ?thesis
    by (simp add: connect_session_def reads_run db_bind_def reject_cloud_session_def is_cloud_session_def row_to_session_def
        db_return_def)
next
  case (Some s)
  with assms have s: "ss_client s = None" "ss_status s \<noteq> StWaitingForQr" "ss_status s \<noteq> StWaitingForPairCode"
    by (auto simp: may_connect_def installed_client_def)
  let ?w = "w\<lparr>gw_sessions := dm_put sid (clear_for_connect s) (gw_sessions w)\<rparr>"
  have "find_session sid ?w = Some r" "db_faults ?w = []" using assms by (simp_all add: find_session_def)
  then show ?thesis
    using assms Some s
    by (simp add: connect_session_def reads_run db_bind_def reject_cloud_session_def is_cloud_session_def row_to_session_def
        db_return_def is_alive_def shutdown_client_def)
qed

text \<open>What running a connect does to a session that has a runtime.\<close>

lemma connect_task_run:
  fixes w :: "'w lifecycle_scheme"
  assumes faults: "db_faults w = []" and row: "find_session sid w = Some r" "s_provider r \<noteq> ''whatsapp_cloud''"
    and rt: "runtime_of sid w = Some s"
    and bot: "wl_build wl (whatsapp_db (s_storage_path r)) (resolve_from_env (wl_env wl)) = Inr c"
  obtains s' where
    "run_connect_task wl \<lparr> kt_session = sid, kt_origin = ByConnect, kt_device = None \<rparr> w = w\<lparr>
       next_client := next_client w + 1, run_loops := run_loops w @ [(next_client w, sid)],
       lib_calls := lib_calls w @ [SetAutoReconnect (next_client w) (ss_auto_reconnect s),
         SetSkipHistorySync (next_client w) (ss_skip_history_sync s)],
       gw_sessions := dm_put sid s' (gw_sessions w),
       sessions := status_written sid StWaitingForQr False (db_now w) (sessions w)\<rparr>"
    "ss_client s' = Some (c\<lparr>cl_id := next_client w\<rparr>)" "ss_status s' = StWaitingForQr"
proof -
  let ?c = "c\<lparr>cl_id := next_client w\<rparr>" and ?w1 = "w\<lparr>next_client := Suc (next_client w)\<rparr>"
  let ?calls = "lib_calls w @ [SetAutoReconnect (next_client w) (ss_auto_reconnect s), SetSkipHistorySync (next_client w) (ss_skip_history_sync s)]"
  define s' where "s' = set_status StWaitingForQr (set_client (Some ?c) (set_enc_decrypt_failed_lease
      (if wl_chat_store wl (whatsapp_db (s_storage_path r)) then set_chat_store s else s)))"
  have fields: "find_session sid ?w1 = Some r" "db_faults ?w1 = []" "runtime_of sid ?w1 = Some s"
    using assms by (simp_all add: find_session_def runtime_of_def)
  have calls: "runtime_of sid (?w1\<lparr>lib_calls := ?calls\<rparr>) = Some s"
    using rt by (simp add: runtime_of_def)
  have installed: "with_runtime sid (set_status StWaitingForQr) (install_client wl sid (s_storage_path r) ?c ?w1) =
      ?w1\<lparr>lib_calls := ?calls, gw_sessions := dm_put sid s' (gw_sessions w)\<rparr>"
    using fields(3) calls
    by (simp add: install_client_def call_lib_def s'_def with_runtime_def dm_put_def runtime_of_def get_session_mem_def
        dm_get_def update_conv')
  have "connect_client wl sid None w = (Inr (), start_run_loop ?c sid (store_status sid StWaitingForQr False
      (?w1\<lparr>lib_calls := ?calls, gw_sessions := dm_put sid s' (gw_sessions w)\<rparr>)))"
    using assms fields
    by (simp add: connect_client_def reads_run db_bind_def build_bot_def installed)
  moreover have "db_faults (?w1\<lparr>lib_calls := ?calls, gw_sessions := dm_put sid s' (gw_sessions w)\<rparr>) = []"
    using faults by simp
  ultimately have "run_connect_task wl \<lparr> kt_session = sid, kt_origin = ByConnect, kt_device = None \<rparr> w = w\<lparr>
       next_client := next_client w + 1, run_loops := run_loops w @ [(next_client w, sid)], lib_calls := ?calls,
       gw_sessions := dm_put sid s' (gw_sessions w),
       sessions := status_written sid StWaitingForQr False (db_now w) (sessions w)\<rparr>"
    by (simp add: run_connect_task_def store_status_run start_run_loop_def)
  then show thesis
    by (rule that) (simp_all add: s'_def set_status_def set_client_def set_enc_decrypt_failed_lease_def set_chat_store_def)
qed

definition plain_connect :: "string \<Rightarrow> connect_task" where
  "plain_connect sid = \<lparr> kt_session = sid, kt_origin = ByConnect, kt_device = None \<rparr>"

definition connecting_runtime :: "string \<Rightarrow> 'w lifecycle_scheme \<Rightarrow> bool" where
  "connecting_runtime sid w \<longleftrightarrow> (\<exists>s. runtime_of sid w = Some s \<and> ss_status s = StConnecting \<and> ss_client s = None)"

lemma connect_accepted:
  fixes w :: "'w lifecycle_scheme"
  assumes "db_faults w = []" and "find_session sid w = Some r" and "s_provider r \<noteq> ''whatsapp_cloud''" and "may_connect sid w"
  obtains w' where "connect_session env sid None w = (Inr (success_with_message ''Connection initiated''), w')"
    "connect_tasks w' = connect_tasks w @ [plain_connect sid]" "run_loops w' = run_loops w" "next_client w' = next_client w"
    "lib_calls w' = lib_calls w" "db_faults w' = []" "find_session sid w' = Some r" "may_connect sid w'" "connecting_runtime sid w'"
proof -
  let ?cleared = "with_runtime sid clear_for_connect w"
  let ?w = "spawn_connect sid ByConnect None (enter_connecting sid (s_storage_path r) ?cleared)"
  have "runtime_of sid (enter_connecting sid (s_storage_path r) ?cleared) = Some (set_status StConnecting
      (case map_option clear_for_connect (runtime_of sid w) of None \<Rightarrow> session_state_new (s_storage_path r) | Some s \<Rightarrow> s))"
    by (simp only: enter_connecting_runtime runtime_with_runtime if_True refl)
  moreover have "runtime_of sid ?w = runtime_of sid (enter_connecting sid (s_storage_path r) ?cleared)"
    by (simp add: spawn_connect_def runtime_of_def)
  ultimately obtain s where s: "runtime_of sid ?w = Some s" "ss_status s = StConnecting" "ss_client s = None"
    by (auto simp: set_status_def clear_for_connect_def clear_lock_cooldown_def clear_reconnecting_def set_client_def
        session_state_new_def split: option.splits)
  have fields: "connect_tasks ?w = connect_tasks w @ [plain_connect sid]" "run_loops ?w = run_loops w"
      "next_client ?w = next_client w" "lib_calls ?w = lib_calls w" "db_faults ?w = []" "sessions ?w = sessions w"
    using assms(1) by (simp_all add: spawn_connect_def plain_connect_def)
  show thesis
  proof (rule that [of ?w])
    show "connect_session env sid None w = (Inr (success_with_message ''Connection initiated''), ?w)"
      by (simp add: connect_session_run [OF assms])
    show "find_session sid ?w = Some r" using find_session_fields [OF fields(6)] assms(2) by simp
    show "may_connect sid ?w" "connecting_runtime sid ?w"
      using s by (auto simp: may_connect_def connecting_runtime_def installed_client_def)
  qed (use fields in simp_all)
qed

text \<open>C10. Two connect requests for a session, the second before the first has installed its client,
  are both accepted. Each builds a client, both clients run, and the one installed is the second;
  the first was never asked to shut down, although both use the device store of the session.\<close>

theorem connect_twice_runs_two_clients:
  fixes w :: "'w lifecycle_scheme"
  assumes faults: "db_faults w = []" and row: "find_session sid w = Some r" "s_provider r \<noteq> ''whatsapp_cloud''"
    and may: "may_connect sid w"
    and bot: "wl_build wl (whatsapp_db (s_storage_path r)) (resolve_from_env (wl_env wl)) = Inr c"
  shows "let (first, w1) = connect_session env sid None w; (second, w2) = connect_session env sid None w1;
      u = run_connect_task wl (plain_connect sid) (run_connect_task wl (plain_connect sid) w2); n = next_client w
    in (\<exists>ok. first = Inr ok \<and> second = Inr ok) \<and> connect_tasks w2 = connect_tasks w @ [plain_connect sid, plain_connect sid] \<and>
       run_loops u = run_loops w @ [(n, sid), (n + 1, sid)] \<and> map_option cl_id (installed_client sid u) = Some (n + 1) \<and>
       (Shutdown n \<in> set (lib_calls u) \<longleftrightarrow> Shutdown n \<in> set (lib_calls w))"
proof -
  obtain w1 where w1: "connect_session env sid None w = (Inr (success_with_message ''Connection initiated''), w1)"
    "connect_tasks w1 = connect_tasks w @ [plain_connect sid]" "run_loops w1 = run_loops w" "next_client w1 = next_client w"
    "lib_calls w1 = lib_calls w" "db_faults w1 = []" "find_session sid w1 = Some r" "may_connect sid w1"
    using connect_accepted [OF faults row may, of env] by metis
  obtain w2 where w2: "connect_session env sid None w1 = (Inr (success_with_message ''Connection initiated''), w2)"
    "connect_tasks w2 = connect_tasks w1 @ [plain_connect sid]" "run_loops w2 = run_loops w" "next_client w2 = next_client w"
    "lib_calls w2 = lib_calls w" "db_faults w2 = []" "find_session sid w2 = Some r" "connecting_runtime sid w2"
    using connect_accepted [OF w1(6,7) row(2) w1(8), of env] w1(3-5) by metis
  from w2(8) obtain s where s: "runtime_of sid w2 = Some s" by (auto simp: connecting_runtime_def)
  let ?v = "run_connect_task wl (plain_connect sid) w2"
  obtain s1 where v: "?v = w2\<lparr>next_client := next_client w2 + 1, run_loops := run_loops w2 @ [(next_client w2, sid)],
       lib_calls := lib_calls w2 @ [SetAutoReconnect (next_client w2) (ss_auto_reconnect s),
         SetSkipHistorySync (next_client w2) (ss_skip_history_sync s)],
       gw_sessions := dm_put sid s1 (gw_sessions w2),
       sessions := status_written sid StWaitingForQr False (db_now w2) (sessions w2)\<rparr>"
    using connect_task_run [OF w2(6,7) row(2) s bot] unfolding plain_connect_def by metis
  have "runtime_of sid ?v = Some s1" "db_faults ?v = []" by (simp_all add: v runtime_of_def get_session_mem_def w2(6))
  moreover obtain r' where "find_session sid ?v = Some r'" "s_provider r' \<noteq> ''whatsapp_cloud''"
      "s_storage_path r' = s_storage_path r"
    using w2(7) row(2) by (force simp: v find_session_def find_status_written)
  ultimately obtain s2 where u: "run_connect_task wl (plain_connect sid) ?v = ?v\<lparr>
       next_client := next_client ?v + 1, run_loops := run_loops ?v @ [(next_client ?v, sid)],
       lib_calls := lib_calls ?v @ [SetAutoReconnect (next_client ?v) (ss_auto_reconnect s1),
         SetSkipHistorySync (next_client ?v) (ss_skip_history_sync s1)],
       gw_sessions := dm_put sid s2 (gw_sessions ?v),
       sessions := status_written sid StWaitingForQr False (db_now ?v) (sessions ?v)\<rparr>"
      "ss_client s2 = Some (c\<lparr>cl_id := next_client ?v\<rparr>)"
    using connect_task_run [of ?v sid r' s1 wl c] bot unfolding plain_connect_def by metis
  have ids: "next_client ?v = next_client w + 1" "run_loops ?v = run_loops w @ [(next_client w, sid)]"
      "Shutdown n \<in> set (lib_calls ?v) \<longleftrightarrow> Shutdown n \<in> set (lib_calls w)" for n
    by (simp_all add: v w2)
  have "installed_client sid (run_connect_task wl (plain_connect sid) ?v) = Some (c\<lparr>cl_id := next_client w + 1\<rparr>)"
    using u(2) by (subst u(1)) (simp add: installed_client_def runtime_of_def get_session_mem_def ids)
  moreover have "run_loops (run_connect_task wl (plain_connect sid) ?v) = run_loops w @ [(next_client w, sid), (next_client w + 1, sid)]"
      "Shutdown n \<in> set (lib_calls (run_connect_task wl (plain_connect sid) ?v)) \<longleftrightarrow> Shutdown n \<in> set (lib_calls w)" for n
    by (subst u(1), simp add: ids)+
  ultimately show ?thesis by (simp add: w1(1,2) w2(1,2) Let_def)
qed

section \<open>A session in a concrete gateway\<close>

definition demo_life :: "session_row list \<Rightarrow> session_state dash \<Rightarrow> lifecycle" where
  "demo_life rows runtimes = \<lparr> db_driver = SQLite, db_faults = [], db_now = 1000,
     sessions = rows, webhook_rows = [], contact_rows = [], dlq_rows = [],
     hub_mono = 0, hub_ms = 0, hub_retry = demo_retry, hub_webhooks = [], hub_circuits = [], hub_dlq = [], hub_ring = [],
     gw_sessions = runtimes, gw_spawned = [], message_chats = [], new_chats = [], new_chat_limits = [], new_chat_incidents = [],
     nc_recorded = None, session_tags = [], tags_file = None, fs_faults = [], dirs_created = [], dirs_removed = [],
     connects_spawned = [], base_storage_path = ''/data'', message_rows = [], fts_rows = [], next_message_id = 1,
     connect_tasks = [], run_loops = [], next_client = 0, lib_calls = [], device_files = [], nats_connected = False,
     nats_published = [], events_broadcast = [], incoming_calls = [], session_reconnects = [], session_drops = [] \<rparr>"

definition demo_row :: session_row where
  "demo_row = new_session_row 0 ''s'' None ''/data/s''"

definition demo_stats :: client_stats where
  "demo_stats = \<lparr> frames_received = 0, messages_received = 0, messages_suppressed_duplicate = 0, events_dropped = 0,
     reconnects = 0, reconnect_errors = 0, last_data_received_ms = 0 \<rparr>"

definition demo_client :: client where
  "demo_client = \<lparr> cl_id = 0, cl_socket_connected = False, cl_logged_in = False, cl_phone = None, cl_push_name = [],
     cl_paused = False, cl_stats = demo_stats \<rparr>"

definition demo_wa :: wa_lib where
  "demo_wa = \<lparr> wl_build = (\<lambda>_ _. Inr demo_client), wl_chat_store = (\<lambda>_. True), wl_env = (\<lambda>_. None) \<rparr>"

definition demo_events :: "(wa_message option) event_env" where
  "demo_events = \<lparr> ee_libs = demo_libs, ee_proto = unwrapping_lib, ee_env = (\<lambda>_. None), ee_is_pn = (\<lambda>_. True),
     ee_is_lid = (\<lambda>_. False), ee_lid_phone = (\<lambda>_ _. None) \<rparr>"

lemma demo_life_ready:
  "db_faults (demo_life [demo_row] []) = []" "find_session ''s'' (demo_life [demo_row] []) = Some demo_row"
  "s_provider demo_row \<noteq> ''whatsapp_cloud''" "may_connect ''s'' (demo_life [demo_row] [])"
  "wl_build demo_wa (whatsapp_db (s_storage_path demo_row)) (resolve_from_env (wl_env demo_wa)) = Inr demo_client"
  "life_start (demo_life [demo_row] [])" "next_client (demo_life [demo_row] []) = 0" "run_loops (demo_life [demo_row] []) = []"
  "lib_calls (demo_life [demo_row] []) = []" "connect_tasks (demo_life [demo_row] []) = []"
  by (simp_all add: demo_life_def find_session_def demo_row_def new_session_row_def may_connect_def installed_client_def
      runtime_of_def get_session_mem_def demo_wa_def life_start_def)

lemma connect_twice_runs_two_clients_witness:
  "let (first, w1) = connect_session (\<lambda>_. None) ''s'' None (demo_life [demo_row] []);
       (second, w2) = connect_session (\<lambda>_. None) ''s'' None w1;
       u = run_connect_task demo_wa (plain_connect ''s'') (run_connect_task demo_wa (plain_connect ''s'') w2)
   in connect_tasks w2 = [plain_connect ''s'', plain_connect ''s''] \<and> run_loops u = [(0, ''s''), (1, ''s'')] \<and>
      map_option cl_id (installed_client ''s'' u) = Some 1 \<and> Shutdown 0 \<notin> set (lib_calls u)"
  using connect_twice_runs_two_clients [OF demo_life_ready(1-5), of "\<lambda>_. None"]
  by (simp add: demo_life_ready split_beta Let_def)

section \<open>An installed client runs\<close>

lemma one_owner:
  assumes "(own, i) \<in> started_or_starting (w, bs)" and "(own, j) \<in> started_or_starting (w, bs)"
    and "distinct (map fst (run_loops w) @ map bot_id bs)"
  shows "i = j"
proof -
  have bots: "b = b'" if "b \<in> set bs" "b' \<in> set bs" "bot_id b = bot_id b'" for b b'
    using assms(3) that by (auto simp: distinct_map dest: inj_onD)
  have loops: "x = y" if "(own, x) \<in> set (run_loops w)" "(own, y) \<in> set (run_loops w)" for x y
    using assms(3) that by (auto dest: eq_key_imp_eq_value)
  have "False" if "(own, x) \<in> set (run_loops w)" "(own, y) \<in> starting bs" for x y
    using assms(3) that startingE [of own y bs] by force
  then consider "(own, i) \<in> set (run_loops w)" "(own, j) \<in> set (run_loops w)" | "(own, i) \<in> starting bs" "(own, j) \<in> starting bs"
    using assms(1,2) by (auto simp: started_or_starting_def)
  then show ?thesis
  proof cases
    case 2
    then show ?thesis using bots startingE [of own i bs] startingE [of own j bs] by auto
  qed (rule loops)
qed

lemma run_ended_clears:
  assumes "installed_client sid w = Some c"
  shows "installed_client sid (run_ended (cl_id c) sid w) = None"
proof -
  let ?u = "w\<lparr>run_loops := removeAll (cl_id c, sid) (run_loops w)\<rparr>"
  obtain s where s: "runtime_of sid ?u = Some s" "ss_client s = Some c"
    using assms by (auto simp: installed_client_def runtime_of_def bind_eq_Some_conv)
  let ?x = "with_runtime sid (\<lambda>s. set_client None (set_status StDisconnected s)) ?u"
  have "run_ended (cl_id c) sid w = store_status sid StDisconnected False ?x"
    using s by (simp add: run_ended_def mark_disconnected_if_still_current_def is_current_client_def)
  moreover have "runtime_of sid (store_status sid StDisconnected False ?x) = runtime_of sid ?x"
    using store_status_live [of ?x] by (simp add: same_live_def runtime_of_def)
  moreover have "runtime_of sid ?x = Some (set_client None (set_status StDisconnected s))"
    by (simp only: runtime_with_runtime if_True s option.map refl)
  ultimately show ?thesis by (simp only: installed_client_def) (simp add: set_client_def)
qed

text \<open>C4. In every interleaving of the handlers, of a connect's parts, of the background tasks, the
  watchdog and the library, with any database failures: the client installed on a session has a
  running loop of its own, or the connect that installed it has not yet come to starting it,
  which is its next step; no two connects or loops share a client, nor do two sessions; the
  leases of the session are held; and when the loop ends the session is left without a client.\<close>

theorem installed_client_runs:
  assumes "gateway_reachable ee wl (w, bs)" and "installed_client sid w = Some c"
  shows "((cl_id c, sid) \<in> set (run_loops w) \<or>
      (\<exists>b \<in> set bs. bt_phase b = BotInstalled \<and> bot_id b = cl_id c \<and> bt_session b = sid \<and>
         (cl_id c, sid) \<in> set (run_loops (run_bot b w)))) \<and>
    distinct (map fst (run_loops w) @ map bot_id bs) \<and>
    (map_option cl_id (installed_client j w) = Some (cl_id c) \<longrightarrow> j = sid) \<and>
    map_option ss_lease (runtime_of sid w) = Some True \<and>
    installed_client sid (run_ended (cl_id c) sid w) = None"
proof -
  have inv: "gateway_inv (w, bs)" using assms(1) by (rule gateway_reachable_inv)
  then have own: "(cl_id d, i) \<in> started_or_starting (w, bs)" if "installed_client i w = Some d" for i d
    using inv_installed [OF inv] that by simp
  have d: "distinct (map fst (run_loops w) @ map bot_id bs)" and l: "leases_ok w"
    using inv by (simp_all add: gateway_inv_def client_ids_def)
  have starts: "(bot_id b, bt_session b) \<in> set (run_loops (run_bot b w))" for b
    by (simp add: run_bot_def start_run_loop_def)
  have "(cl_id c, sid) \<in> set (run_loops w) \<or>
      (\<exists>b \<in> set bs. bt_phase b = BotInstalled \<and> bot_id b = cl_id c \<and> bt_session b = sid \<and>
         (cl_id c, sid) \<in> set (run_loops (run_bot b w)))"
  proof (cases "(cl_id c, sid) \<in> set (run_loops w)")
    case False
    then have "(cl_id c, sid) \<in> starting bs" using own [OF assms(2)] by (simp add: started_or_starting_def)
    then obtain b where "b \<in> set bs" "bt_phase b = BotInstalled" "bot_id b = cl_id c" "bt_session b = sid"
      by (blast dest: startingE)
    then show ?thesis using starts [of b] by auto
  qed simp
  moreover have "j = sid" if "map_option cl_id (installed_client j w) = Some (cl_id c)"
  proof -
    from that obtain e where "installed_client j w = Some e" "cl_id e = cl_id c" by auto
    then have "(cl_id c, j) \<in> started_or_starting (w, bs)" using own by metis
    then show ?thesis using own [OF assms(2)] d by (rule one_owner)
  qed
  moreover have "map_option ss_lease (runtime_of sid w) = Some True"
    using assms(2) l by (auto simp: installed_client_def bind_eq_Some_conv leases_ok_def lease_ok_def)
  ultimately show ?thesis using d run_ended_clears [OF assms(2)] by blast
qed

text \<open>A connect accepted, its bot built, checked and installed: the loop starts in the next step.\<close>

lemma installed_client_runs_witness:
  "\<exists>w b c. gateway_reachable demo_events demo_wa (w :: lifecycle, [b]) \<and> installed_client ''s'' w = Some c \<and>
     run_loops w = [] \<and> (cl_id c, ''s'') \<in> set (run_loops (run_bot b w)) \<and>
     installed_client ''s'' (run_ended (cl_id c) ''s'' w) = None"
proof -
  let ?v = "demo_life [demo_row] []"
  obtain w1 where w1: "connect_session (\<lambda>_. None) ''s'' None ?v = (Inr (success_with_message ''Connection initiated''), w1)"
    "connect_tasks w1 = [plain_connect ''s'']" "run_loops w1 = []" "db_faults w1 = []" "find_session ''s'' w1 = Some demo_row"
    "connecting_runtime ''s'' w1"
    using connect_accepted [OF demo_life_ready(1-4), of "\<lambda>_. None"] demo_life_ready(8,10) by (metis append_Nil)
  note r0 = gateway_reachable.start [OF demo_life_ready(6), of demo_events demo_wa]
  have r1: "gateway_reachable demo_events demo_wa (w1, [])"
    using gateway_reachable.step [OF r0 gateway_step.handler [OF life_step.connect [of _ _ "\<lambda>_. None" "''s''" None]]]
      w1(1) by (metis snd_conv)
  let ?u = "w1\<lparr>connect_tasks := remove1 (plain_connect ''s'') (connect_tasks w1)\<rparr>"
  let ?n = "next_client w1"
  let ?b = "\<lparr> bt_client = demo_client\<lparr>cl_id := ?n\<rparr>, bt_session = ''s'', bt_path = ''/data/s'', bt_origin = ByConnect, bt_device = None,
      bt_by_code = False, bt_phase = BotBuilt \<rparr>"
  let ?x = "?u\<lparr>next_client := ?n + 1\<rparr>"
  have found: "find_session ''s'' ?u = Some demo_row" "find_session ''s'' ?x = Some demo_row" using w1(5) by (simp_all add: find_session_def)
  have path: "s_storage_path demo_row = ''/data/s''" "s_provider demo_row \<noteq> ''whatsapp_cloud''"
    by (simp_all add: demo_row_def new_session_row_def)
  have "begin_bot demo_wa ByConnect False ''s'' None ?u = ([?b], ?x)"
    using reads_run(3) [OF _ found(1)] w1(4)
    by (simp add: begin_bot_def db_bind_def db_return_def build_bot_def demo_wa_def path(1))
  then have r2: "gateway_reachable demo_events demo_wa (?x, [] @ ?b # [])"
    using gateway_reachable.step [OF r1 gateway_step.begin_connect [of "plain_connect ''s''" w1 demo_wa "[?b]" ?x demo_events "[]"]] w1(2)
    by (simp add: plain_connect_def by_code_def)
  have "check_bot demo_wa ?b ?x = ([?b\<lparr>bt_phase := BotChecked\<rparr>], ?x)"
    using reads_run(4) [OF _ found(2)] w1(4) path(2) by (simp add: check_bot_def)
  then have r3: "gateway_reachable demo_events demo_wa (?x, [] @ ?b\<lparr>bt_phase := BotChecked\<rparr> # [])"
    using gateway_reachable.step [OF r2 gateway_step.check [of ?b demo_wa ?x "[?b\<lparr>bt_phase := BotChecked\<rparr>]" ?x demo_events "[]" "[]"]]
    by simp
  let ?c = "?b\<lparr>bt_phase := BotChecked\<rparr>"
  have r4: "gateway_reachable demo_events demo_wa (place_bot demo_wa ?c ?x, [?c\<lparr>bt_phase := BotInstalled\<rparr>])"
    using gateway_reachable.step [OF r3 gateway_step.install [of ?c demo_events demo_wa ?x "[]" "[]"]] by simp
  obtain s where "runtime_of ''s'' ?x = Some s" using w1(6) by (auto simp: connecting_runtime_def runtime_of_def)
  then have i: "installed_client ''s'' (place_bot demo_wa ?c ?x) = Some (demo_client\<lparr>cl_id := ?n\<rparr>)"
    by (simp add: place_bot_def Let_def install_client_def installed_client_def call_lib_def runtime_of_def get_session_mem_def
        set_client_def set_status_def set_enc_decrypt_failed_lease_def)
  have "run_loops (place_bot demo_wa ?c ?x) = []" using w1(3) by simp
  then show ?thesis using r4 i installed_client_runs [OF r4 i] by fastforce
qed

end
