(* ===== verification/Event_Facts.thy ===== *)
theory Event_Facts
  imports Lifecycle_Facts
begin

text \<open>
  Events against the state of the connections: what a client that is not the installed one can
  change, how often a message is forwarded, and what a logout reported by WhatsApp does.
\<close>

section \<open>Forwarding leaves the connections alone\<close>

definition connection_view :: "session_state \<Rightarrow> session_state" where
  "connection_view s = s\<lparr>ss_recent_ids := recent_ids_new 1, ss_messages_forwarded := 0, ss_last_message_forwarded_at := 0\<rparr>"

definition same_connections :: "'w lifecycle_scheme \<Rightarrow> 'w lifecycle_scheme \<Rightarrow> bool" where
  "same_connections w w' \<longleftrightarrow>
     (\<forall>j. map_option connection_view (runtime_of j w') = map_option connection_view (runtime_of j w)) \<and>
     run_loops w' = run_loops w \<and> connect_tasks w' = connect_tasks w \<and> lib_calls w' = lib_calls w \<and>
     sessions w' = sessions w \<and> session_drops w' = session_drops w \<and> session_reconnects w' = session_reconnects w \<and>
     incoming_calls w' = incoming_calls w"

lemma same_connections_refl [simp]: "same_connections w w"
  by (simp add: same_connections_def)

lemma same_connections_trans: "same_connections u v \<Longrightarrow> same_connections v w \<Longrightarrow> same_connections u w"
  by (simp add: same_connections_def)

interpretation conns: world_frame same_connections
  by unfold_locales (auto intro: same_connections_trans simp: same_connections_def runtime_of_def)

lemma ignored_stmt_connections:
  "(\<And>u. same_connections u (snd (f u))) \<Longrightarrow> same_connections w (db_ignore (db_stmt f) w)"
  by (intro conns.ignore conns.stmt)

lemma upsert_contact_connections [simp]: "same_connections w (db_ignore (upsert_contact sid jid c) w)"
  unfolding upsert_contact_def by (rule ignored_stmt_connections) (simp add: same_connections_def runtime_of_def)

lemma insert_message_connections [simp]: "same_connections w (db_ignore (insert_message m) w)"
  by (cases m w rule: insert_message_cases) (auto simp: db_ignore_def same_connections_def runtime_of_def)

lemma record_incoming_connections [simp]: "same_connections w (record_incoming env lib sid m info w)"
  by (simp add: record_incoming_def)

lemma persist_senders_connections [simp]: "same_connections w (persist_senders sid batch w)"
proof (induction batch arbitrary: w)
  case (Cons mi batch)
  obtain m info where mi: "mi = (m, info)" by (cases mi)
  then show ?case using Cons.IH by (auto simp: mi intro: same_connections_trans [OF upsert_contact_connections])
qed simp

lemma persist_contact_connections [simp]: "same_connections w (persist_contact_event sid ev w)"
  by (cases ev) simp_all

lemma announce_shape:
  obtains cs ring ds ns where "announce lib sid event payload w = w\<lparr>hub_circuits := cs, hub_ring := ring,
     gw_spawned := gw_spawned w @ ds, nats_published := ns, events_broadcast := events_broadcast w @ [(sid, print_json lib payload)]\<rparr>"
proof -
  let ?p = "print_json lib payload"
  obtain ring where push: "push_event lib sid event ?p w = w\<lparr>hub_ring := ring\<rparr>" by (simp add: push_event_def)
  obtain cs where cs: "snd (broadcast_loop sid event ?p (get_webhooks sid (w\<lparr>hub_ring := ring\<rparr>)) (w\<lparr>hub_ring := ring\<rparr>))
      = w\<lparr>hub_ring := ring, hub_circuits := cs\<rparr>"
    using broadcast_loop_more by blast
  show thesis
    by (rule that [where cs = cs and ring = ring and ds = "fst (broadcast_to_webhooks lib sid event ?p w)"
          and ns = "if nats_connected w then nats_published w @ [(sid, event, ?p)] else nats_published w"])
      (simp add: announce_def publish_to_nats_def broadcast_to_webhooks_def Let_def split_beta push cs)
qed

lemma announce_connections [simp]: "same_connections w (announce lib sid event payload w)"
  by (rule announce_shape [of lib sid event payload w]) (simp add: same_connections_def runtime_of_def)

lemma announce_broadcast [simp]:
  "events_broadcast (announce lib sid event payload w) = events_broadcast w @ [(sid, print_json lib payload)]"
  "runtime_of j (announce lib sid event payload w) = runtime_of j w" "db_now (announce lib sid event payload w) = db_now w"
  by (rule announce_shape [of lib sid event payload w]; simp add: runtime_of_def)+

lemma with_runtime_connections:
  "(\<And>s. connection_view (f s) = connection_view s) \<Longrightarrow> same_connections w (with_runtime sid f w)"
  by (cases "runtime_of sid w") (auto simp: same_connections_def)

lemma forward_message_connections [simp]: "same_connections w (forward_message ee t offline sid cid mi w)"
proof (cases "runtime_of sid w")
  case None
  then show ?thesis by (simp add: forward_message_def)
next
  case (Some s)
  obtain m info where mi: "mi = (m, info)" by (cases mi)
  obtain fresh recent where f: "first_sighting (dedup_key info) (ss_recent_ids s) = (fresh, recent)" by fastforce
  define w1 where "w1 = with_runtime sid (\<lambda>s. s\<lparr>ss_recent_ids := recent\<rparr>) w"
  have w1: "same_connections w w1"
    unfolding w1_def by (rule with_runtime_connections) (simp add: connection_view_def)
  have "same_connections w (with_runtime sid (count_forwarded t)
      (announce (ee_libs ee) sid ''message'' p (record_incoming (ee_env ee) (ee_proto ee) sid m info w1)))" for p
    by (rule same_connections_trans [OF w1 same_connections_trans [OF record_incoming_connections
          same_connections_trans [OF announce_connections with_runtime_connections]]])
      (simp add: connection_view_def count_forwarded_def)
  then show ?thesis using w1 unfolding forward_message_def mi by (simp add: Some f w1_def [symmetric] Let_def del: with_runtime_run)
qed

lemma forward_messages_connections [simp]: "same_connections w (forward_messages ee t offline sid cid batch w)"
  by (induction batch arbitrary: w) (auto intro: same_connections_trans [OF forward_message_connections])

lemma messages_event_connections: "same_connections w (handle_event ee sid c (WaMessages offline batch) w)"
  unfolding handle_event_def
  by (auto split: option.splits intro: same_connections_trans [OF persist_senders_connections forward_messages_connections])

lemma same_connections_client:
  assumes "same_connections w w'" shows "installed_client sid w' = installed_client sid w"
proof -
  have "map_option connection_view (runtime_of sid w') = map_option connection_view (runtime_of sid w)"
    using assms by (simp add: same_connections_def)
  moreover have "ss_client s = ss_client (connection_view s)" for s by (simp add: connection_view_def)
  ultimately show ?thesis unfolding installed_client_def
    by (cases "runtime_of sid w'"; cases "runtime_of sid w") (auto, metis)
qed

text \<open>C5. A client that is not the one installed on its session cannot act on it. Whatever events it
  emits, everything but its messages is dropped, and its messages change nothing of any connection:
  no runtime's client, status, pairing or cool-down, no stored session, no loop, connect or call
  on the library. In particular its disconnect does not mark the new connection down and its
  logout does not unlink the session.\<close>

theorem replaced_client_cannot_act:
  assumes "\<not> is_current_client (installed_client sid w) (cl_id c)"
  shows "fold (handle_event ee sid c) evs w = fold (handle_event ee sid c) (filter is_messages evs) w \<and>
    same_connections w (fold (handle_event ee sid c) evs w)"
  using assms
proof (induction evs arbitrary: w)
  case (Cons ev evs)
  show ?case
  proof (cases "is_messages ev")
    case True
    then obtain offline batch where "ev = WaMessages offline batch" by (cases ev) auto
    then have step: "same_connections w (handle_event ee sid c ev w)" by (simp add: messages_event_connections)
    then show ?thesis
      using Cons.IH [of "handle_event ee sid c ev w"] Cons.prems True same_connections_client [OF step, of sid]
      by (auto intro: same_connections_trans)
  next
    case False
    have "handle_event ee sid c ev w = w"
      using Cons.prems False by (auto simp: handle_event_def installed_client_def split: option.splits)
    then show ?thesis using Cons.IH [OF Cons.prems] False by (metis (no_types) filter.simps(2) fold_simps(2))
  qed
qed simp

lemma replaced_client_cannot_act_witness:
  "same_connections (demo_life [demo_row] [(''s'', session_state_new ''/data/s'')])
     (fold (handle_event demo_events ''s'' demo_client) [WaDisconnected ''t'' False, WaLoggedOut AccountLocked]
       (demo_life [demo_row] [(''s'', session_state_new ''/data/s'')]))"
  using replaced_client_cannot_act [of "''s''" "demo_life [demo_row] [(''s'', session_state_new ''/data/s'')]" demo_client demo_events
    "[WaDisconnected ''t'' False, WaLoggedOut AccountLocked]"]
  by (simp add: demo_life_def installed_client_def runtime_of_def get_session_mem_def dm_get_def session_state_new_def is_current_client_def)

section \<open>Each message is forwarded once\<close>

text \<open>
  The abstract specification, over message keys with their payloads: an item is kept unless its key
  is one of the last \<open>n\<close> kept. \<open>out\<close> holds the keys kept so far, newest first.
\<close>

fun kept_items :: "nat \<Rightarrow> string list \<Rightarrow> (string \<times> 'a) list \<Rightarrow> (string \<times> 'a) list" where
  "kept_items n out [] = []"
| "kept_items n out ((k, x) # items) =
     (if k \<in> set (take n out) then kept_items n out items else (k, x) # kept_items n (k # out) items)"

lemma kept_items_window: "map fst (kept_items n out items) = window_spec n out (map fst items)"
  by (induction n out items rule: kept_items.induct) auto

lemma kept_items_append:
  "kept_items n out (xs @ ys) = kept_items n out xs @ kept_items n (rev (map fst (kept_items n out xs)) @ out) ys"
  by (induction n out xs rule: kept_items.induct) auto

definition message_items ::
    "'p event_env \<Rightarrow> string \<Rightarrow> unix \<Rightarrow> nat \<Rightarrow> bool \<Rightarrow> ('p wa_message_scheme \<times> message_info) list \<Rightarrow> (string \<times> json) list" where
  "message_items ee sid t cid offline = map (\<lambda>(m, info). (dedup_key info, message_payload ee t offline sid cid m info))"

text \<open>A runtime whose window is the specification's.\<close>

definition in_window :: "nat \<Rightarrow> string list \<Rightarrow> session_state \<Rightarrow> bool" where
  "in_window n out s \<longleftrightarrow> recent_inv (ss_recent_ids s) \<and> capacity (ss_recent_ids s) = n \<and>
     rev (order (ss_recent_ids s)) = take n out"

lemma record_incoming_broadcast [simp]:
  "events_broadcast (record_incoming env lib sid m info w) = events_broadcast w"
  "runtime_of j (record_incoming env lib sid m info w) = runtime_of j w"
proof -
  have "events_broadcast (db_ignore (insert_message nm) w) = events_broadcast w" for nm
    by (cases nm w rule: insert_message_cases) (auto simp: db_ignore_def)
  then show "events_broadcast (record_incoming env lib sid m info w) = events_broadcast w" by (simp add: record_incoming_def)
  show "runtime_of j (record_incoming env lib sid m info w) = runtime_of j w"
    using record_incoming_live [of w env lib sid m info] by (simp add: same_live_def runtime_of_def)
qed

lemma forward_message_step:
  assumes "runtime_of sid w = Some s" and "first_sighting (dedup_key info) (ss_recent_ids s) = (fresh, recent)"
  shows "runtime_of sid (forward_message ee t offline sid cid (m, info) w) =
      Some ((if fresh then count_forwarded t else id) (s\<lparr>ss_recent_ids := recent\<rparr>))"
    "events_broadcast (forward_message ee t offline sid cid (m, info) w) = events_broadcast w @
      (if fresh then [(sid, print_json (ee_libs ee) (message_payload ee t offline sid cid m info))] else [])"
  using assms by (simp_all add: forward_message_def runtime_with_runtime Let_def del: with_runtime_run)

lemma in_window_step:
  assumes "in_window n out s" and "first_sighting k (ss_recent_ids s) = (fresh, recent)"
  shows "fresh \<longleftrightarrow> k \<notin> set (take n out)"
    "in_window n (if fresh then k # out else out) (s\<lparr>ss_recent_ids := recent\<rparr>)"
proof -
  let ?r = "ss_recent_ids s"
  have r: "recent_inv ?r" "capacity ?r = n" "rev (order ?r) = take n out" using assms(1) by (simp_all add: in_window_def)
  have "set (order ?r) = set (take n out)" using r(3) by (metis set_rev)
  then show fresh: "fresh \<longleftrightarrow> k \<notin> set (take n out)" using first_sighting_result [OF r(1), of k] assms(2) by simp
  show "in_window n (if fresh then k # out else out) (s\<lparr>ss_recent_ids := recent\<rparr>)"
  proof (cases fresh)
    case True
    have k: "k \<notin> seen ?r" using True fresh r(1) \<open>set (order ?r) = set (take n out)\<close> by (simp add: recent_inv_def)
    have "rev (order recent) = take (capacity ?r) (k # rev (order ?r))"
      using dedup.push_newest [OF r(1) k] assms(2) by simp
    also have "\<dots> = take n (k # out)" using r by (cases n) (auto simp: min_def)
    finally show ?thesis
      using True assms(2) first_sighting_inv [OF r(1), of k] first_sighting_capacity [of k ?r] r by (simp add: in_window_def)
  next
    case False
    then have "recent = ?r" using assms(2) first_sighting_known [of k ?r] fresh r(1) \<open>set (order ?r) = set (take n out)\<close>
      by (simp add: recent_inv_def)
    with False r show ?thesis by (simp add: in_window_def)
  qed
qed

lemma in_window_count [simp]: "in_window n out (count_forwarded t s) = in_window n out s"
  by (simp add: in_window_def count_forwarded_def)

lemma forward_messages_window:
  assumes "runtime_of sid w = Some s" and "in_window n out s"
  shows "let K = kept_items n out (message_items ee sid t cid offline batch);
             w' = forward_messages ee t offline sid cid batch w in
    events_broadcast w' = events_broadcast w @ map (\<lambda>(_, p). (sid, print_json (ee_libs ee) p)) K \<and>
    (\<exists>s'. runtime_of sid w' = Some s' \<and> in_window n (rev (map fst K) @ out) s' \<and>
       ss_messages_forwarded s' mod 2 ^ 64 = (ss_messages_forwarded s + length K) mod 2 ^ 64)"
  using assms
proof (induction batch arbitrary: w s out)
  case (Cons mi batch)
  obtain m info where mi: "mi = (m, info)" by (cases mi)
  obtain fresh recent where f: "first_sighting (dedup_key info) (ss_recent_ids s) = (fresh, recent)" by fastforce
  let ?w = "forward_message ee t offline sid cid (m, info) w"
  let ?s = "(if fresh then count_forwarded t else id) (s\<lparr>ss_recent_ids := recent\<rparr>)"
  note step = forward_message_step [OF Cons.prems(1) f, of ee t offline cid m]
  have w: "in_window n (if fresh then dedup_key info # out else out) ?s"
    using in_window_step(2) [OF Cons.prems(2) f] by (cases fresh) simp_all
  have sum: "(ss_messages_forwarded ?s + x) mod 2 ^ 64 = (ss_messages_forwarded s + (if fresh then Suc x else x)) mod 2 ^ 64" for x
    by (cases fresh) (simp_all add: count_forwarded_def mod_simps)
  show ?case
    using Cons.IH [OF step(1) w] step(2) sum in_window_step(1) [OF Cons.prems(2) f]
    by (auto simp: mi Let_def message_items_def)
qed (simp add: Let_def message_items_def)

lemma upsert_contact_broadcast [simp]:
  "events_broadcast (db_ignore (upsert_contact sid jid c) w) = events_broadcast w"
  unfolding upsert_contact_def db_ignore_def
  by (rule db_stmt_keeps [where P = "\<lambda>u. events_broadcast u = events_broadcast w"]) simp_all

lemma persist_senders_broadcast [simp]:
  "events_broadcast (persist_senders sid batch w) = events_broadcast w"
  by (induction batch arbitrary: w) (auto split: prod.splits)

lemma persist_senders_runtime [simp]: "runtime_of j (persist_senders sid batch w) = runtime_of j w"
  using persist_senders_live [of w sid batch] by (simp add: same_live_def runtime_of_def)

lemma ignored_stmt_now: "(\<And>u. db_now (snd (f u)) = db_now u) \<Longrightarrow> db_now (db_ignore (db_stmt f) w) = db_now w"
  unfolding db_ignore_def by (rule db_stmt_keeps [where P = "\<lambda>u. db_now u = db_now w"]) simp_all

lemma persist_senders_now [simp]: "db_now (persist_senders sid batch w) = db_now w"
  by (induction batch arbitrary: w) (auto simp: upsert_contact_def ignored_stmt_now split: prod.splits)

text \<open>
  A stream of message events of one session: each with the time it is handled at, the client that
  emitted it, whether it was delivered offline, and its batch.
\<close>

type_synonym 'p message_stream = "(unix \<times> client \<times> bool \<times> ('p wa_message_scheme \<times> message_info) list) list"

fun deliver_messages :: "'p event_env \<Rightarrow> string \<Rightarrow> 'p message_stream \<Rightarrow> 'w lifecycle_scheme \<Rightarrow> 'w lifecycle_scheme" where
  "deliver_messages ee sid [] w = w"
| "deliver_messages ee sid ((t, c, offline, batch) # stream) w =
     deliver_messages ee sid stream (handle_event ee sid c (WaMessages offline batch) (w\<lparr>db_now := t\<rparr>))"

fun stream_items :: "'p event_env \<Rightarrow> string \<Rightarrow> 'p message_stream \<Rightarrow> (string \<times> json) list" where
  "stream_items ee sid [] = []"
| "stream_items ee sid ((t, c, offline, batch) # stream) = message_items ee sid t (cl_id c) offline batch @ stream_items ee sid stream"

lemma deliver_messages_window:
  assumes "runtime_of sid w = Some s" and "in_window n out s"
  shows "let K = kept_items n out (stream_items ee sid stream); w' = deliver_messages ee sid stream w in
    events_broadcast w' = events_broadcast w @ map (\<lambda>(_, p). (sid, print_json (ee_libs ee) p)) K \<and>
    (\<exists>s'. runtime_of sid w' = Some s' \<and>
       ss_messages_forwarded s' mod 2 ^ 64 = (ss_messages_forwarded s + length K) mod 2 ^ 64)"
  using assms
proof (induction stream arbitrary: w s out)
  case (Cons d stream)
  obtain t c offline batch where d: "d = (t, c, offline, batch)" by (cases d)
  let ?w = "persist_senders sid batch (w\<lparr>db_now := t\<rparr>)"
  let ?K = "kept_items n out (message_items ee sid t (cl_id c) offline batch)"
  have now: "runtime_of sid (w\<lparr>db_now := t\<rparr>) = Some s" using Cons.prems(1) by (simp add: runtime_of_def)
  then have rt: "runtime_of sid ?w = Some s" by simp
  have event: "handle_event ee sid c (WaMessages offline batch) (w\<lparr>db_now := t\<rparr>) = forward_messages ee t offline sid (cl_id c) batch ?w"
    by (simp add: handle_event_def now)
  let ?w' = "forward_messages ee t offline sid (cl_id c) batch ?w"
  obtain s' where s': "runtime_of sid ?w' = Some s'" "in_window n (rev (map fst ?K) @ out) s'"
      "ss_messages_forwarded s' mod 2 ^ 64 = (ss_messages_forwarded s + length ?K) mod 2 ^ 64"
    and eb: "events_broadcast ?w' = events_broadcast w @ map (\<lambda>(_, p). (sid, print_json (ee_libs ee) p)) ?K"
    using forward_messages_window [OF rt Cons.prems(2), of ee t "cl_id c" offline batch] by (auto simp: Let_def)
  have "(ss_messages_forwarded s' + x) mod 2 ^ 64 = (ss_messages_forwarded s + (length ?K + x)) mod 2 ^ 64" for x
    using s'(3) by (metis add.assoc mod_add_left_eq)
  then show ?case
    using Cons.IH [OF s'(1,2)] eb by (auto simp: d event Let_def kept_items_append)
qed (simp add: Let_def)

lemma window_spec_distinct: "length ks \<le> n \<Longrightarrow> distinct (window_spec n [] ks)"
  using window_spec_no_repeat_within [of "[]" ks n] by simp

text \<open>C6. Forwarding implements its specification. From a new runtime, over any stream of message
  events from whichever clients, with any database failures, the payloads broadcast are exactly
  those of the messages the specification keeps: a message is forwarded unless its chat and id
  are those of one of the last 4096 forwarded. The order is kept, the counter of the session counts
  them modulo 2^64, and within 4096 messages none is forwarded twice.\<close>

theorem messages_forwarded_once:
  assumes "runtime_of sid w = Some s" and "ss_recent_ids s = recent_ids_new 4096" and "ss_messages_forwarded s = 0"
  shows "let items = stream_items ee sid stream; kept = kept_items 4096 [] items; w' = deliver_messages ee sid stream w in
    events_broadcast w' = events_broadcast w @ map (\<lambda>(_, p). (sid, print_json (ee_libs ee) p)) kept \<and>
    map fst kept = window_spec 4096 [] (map fst items) \<and>
    map_option (\<lambda>s'. ss_messages_forwarded s' mod 2 ^ 64) (runtime_of sid w') = Some (length kept mod 2 ^ 64) \<and>
    (length items \<le> 4096 \<longrightarrow> distinct (map fst kept))"
proof -
  have "in_window 4096 [] s" using assms(2) by (simp add: in_window_def recent_inv_new) (simp add: recent_ids_new_def)
  from deliver_messages_window [OF assms(1) this, of ee stream] show ?thesis
    using assms(3) window_spec_distinct [of "map fst (stream_items ee sid stream)" 4096]
    by (auto simp: Let_def kept_items_window)
qed

definition demo_message :: "string \<Rightarrow> (wa_message option) wa_message_scheme \<times> message_info" where
  "demo_message mid = (plain_document, \<lparr> mi_id = mid, mi_chat = \<lparr> wj_text = ''62@g.us'', wj_user = ''62'', wj_server = ''g.us'' \<rparr>,
     mi_sender = \<lparr> wj_text = ''1@lid'', wj_user = ''1'', wj_server = ''lid'' \<rparr>, mi_is_from_me = False, mi_timestamp = 0,
     mi_push_name = ''P'', mi_verified_name = None, mi_type = JNull, mi_media_type = JNull \<rparr>)"

lemma messages_forwarded_once_witness:
  "let w' = deliver_messages demo_events ''s'' [(5, demo_client, False, [demo_message ''a'', demo_message ''b'']),
        (6, demo_client\<lparr>cl_id := 1\<rparr>, True, [demo_message ''a'', demo_message ''c''])]
      (demo_life [demo_row] [(''s'', session_state_new ''/data/s'')])
   in events_broadcast w' = [(''s'', ''{}''), (''s'', ''{}''), (''s'', ''{}'')] \<and>
      map_option (\<lambda>s'. ss_messages_forwarded s' mod 2 ^ 64) (runtime_of ''s'' w') = Some 3"
  using messages_forwarded_once [of "''s''" "demo_life [demo_row] [(''s'', session_state_new ''/data/s'')]" "session_state_new ''/data/s''"
      demo_events "[(5, demo_client, False, [demo_message ''a'', demo_message ''b'']),
        (6, demo_client\<lparr>cl_id := 1\<rparr>, True, [demo_message ''a'', demo_message ''c''])]"]
  by (simp add: Let_def demo_life_def runtime_of_def get_session_mem_def dm_get_def session_state_new_def demo_events_def demo_libs_def
      message_items_def demo_message_def dedup_key_def)

end
