(* ===== verification/Recovery_Facts.thy ===== *)
theory Recovery_Facts
  imports Event_Facts
begin

text \<open>
  How sessions recover and end: the pass of the reconnect watchdog, the logout of a session and
  the logout WhatsApp reports.
\<close>

section \<open>Frames\<close>

lemma store_status_shape:
  obtains fs rows where "store_status sid st b w = w\<lparr>db_faults := fs, sessions := rows\<rparr>"
proof (cases "\<exists>e fs. db_faults w = Some e # fs")
  case True
  then obtain e fs where "db_faults w = Some e # fs" by blast
  then show thesis
    by (intro that [of "sessions w" fs])
      (simp add: store_status_def db_ignore_def update_session_status_def update_session_def db_stmt_def)
next
  case False
  then show thesis
    by (intro that [of "status_written sid st b (db_now w) (sessions w)" "tl (db_faults w)"])
      (auto simp: store_status_def db_ignore_def update_session_status_def update_session_def db_stmt_def status_written_def
        split: list.splits option.splits)
qed

lemma store_status_fields [simp]:
  "runtime_of j (store_status sid st b w) = runtime_of j w" "connect_tasks (store_status sid st b w) = connect_tasks w"
  "lib_calls (store_status sid st b w) = lib_calls w" "events_broadcast (store_status sid st b w) = events_broadcast w"
  "db_now (store_status sid st b w) = db_now w" "run_loops (store_status sid st b w) = run_loops w"
  "webhook_rows (store_status sid st b w) = webhook_rows w" "contact_rows (store_status sid st b w) = contact_rows w"
  "message_rows (store_status sid st b w) = message_rows w" "device_files (store_status sid st b w) = device_files w"
  by (rule store_status_shape [of sid st b w]; simp add: runtime_of_def)+

lemma announce_fields [simp]:
  "connect_tasks (announce lib sid event payload w) = connect_tasks w" "lib_calls (announce lib sid event payload w) = lib_calls w"
  "run_loops (announce lib sid event payload w) = run_loops w"
  by (rule announce_shape [of lib sid event payload w]; simp)+

lemma call_lib_frame [simp]:
  "runtime_of j (call_lib x w) = runtime_of j w" "connect_tasks (call_lib x w) = connect_tasks w"
  "lib_calls (call_lib x w) = lib_calls w @ [x]" "events_broadcast (call_lib x w) = events_broadcast w"
  "db_now (call_lib x w) = db_now w" "run_loops (call_lib x w) = run_loops w"
  by (simp_all add: call_lib_def runtime_of_def)

lemma spawn_frame [simp]:
  "runtime_of j (spawn_connect sid origin dev w) = runtime_of j w" "lib_calls (spawn_connect sid origin dev w) = lib_calls w"
  "connect_tasks (spawn_connect sid origin dev w) = connect_tasks w @ [\<lparr> kt_session = sid, kt_origin = origin, kt_device = dev \<rparr>]"
  "events_broadcast (spawn_connect sid origin dev w) = events_broadcast w"
  "db_now (spawn_connect sid origin dev w) = db_now w" "run_loops (spawn_connect sid origin dev w) = run_loops w"
  by (simp_all add: spawn_connect_def runtime_of_def)

section \<open>The watchdog\<close>

text \<open>What a rebuild leaves of a runtime until its new client is installed.\<close>

definition rebuilt :: "session_state \<Rightarrow> session_state" where
  "rebuilt s = set_status StConnecting (clear_reconnecting (set_client None s))"

text \<open>
  When a session is stuck, in its own terms: not before the end of an account-lock cool-down, and
  either trying to connect for too long or too often, or taken for connected, not paused, with
  a socket that has been silent for more than the bound in whole seconds.
\<close>

definition cooling_down :: "unix \<Rightarrow> session_state \<Rightarrow> bool" where
  "cooling_down now s \<longleftrightarrow> (\<exists>until. ss_lock_cooldown_until s = Some until \<and> now < until)"

definition stuck_reconnecting :: "watchdog_config \<Rightarrow> unix \<Rightarrow> session_state \<Rightarrow> bool" where
  "stuck_reconnecting cfg now s \<longleftrightarrow> ss_status s = StConnecting \<and>
     (\<exists>c. ss_client s = Some c \<and> (wd_max_attempts cfg \<le> reconnect_errors (cl_stats c) \<or> wd_max_stuck_secs cfg \<le> 0 \<or>
        (\<exists>since. ss_reconnecting_since s = Some since \<and> since + wd_max_stuck_secs cfg \<le> now)))"

definition silent_socket :: "watchdog_config \<Rightarrow> nat \<Rightarrow> session_state \<Rightarrow> bool" where
  "silent_socket cfg now_ms s \<longleftrightarrow> ss_status s \<in> {StLoggedIn, StConnected} \<and>
     (\<exists>c. ss_client s = Some c \<and> \<not> cl_paused c \<and> 0 < wd_stale_socket_secs cfg \<and> 0 < last_data_received_ms (cl_stats c) \<and>
        last_data_received_ms (cl_stats c) + (wd_stale_socket_secs cfg + 1) * 1000 \<le> now_ms)"

definition stuck :: "watchdog_config \<Rightarrow> unix \<Rightarrow> nat \<Rightarrow> session_state \<Rightarrow> bool" where
  "stuck cfg now now_ms s \<longleftrightarrow> \<not> cooling_down now s \<and> (stuck_reconnecting cfg now s \<or> silent_socket cfg now_ms s)"

lemma silence_iff:
  "stale_socket_silence now_ms last_ms threshold \<noteq> None \<longleftrightarrow>
     0 < threshold \<and> 0 < last_ms \<and> last_ms + (threshold + 1) * 1000 \<le> now_ms"
proof -
  have "threshold < (now_ms - last_ms) div 1000 \<longleftrightarrow> (threshold + 1) * 1000 \<le> now_ms - last_ms"
    by (simp add: less_eq_div_iff_mult_less_eq Suc_le_eq [symmetric])
  then show ?thesis by (auto simp: stale_socket_silence_def Let_def)
qed

lemma cooling_iff: "lock_cooldown_remaining now s \<noteq> None \<longleftrightarrow> cooling_down now s"
  by (auto simp: lock_cooldown_remaining_def cooling_down_def Let_def split: option.splits)

lemma watchdog_verdict_stuck:
  "watchdog_verdict cfg now now_ms s = (if stuck cfg now now_ms s
     then Some (the (ss_client s), if ss_status s = StConnecting then ''reconnect_watchdog'' else ''stale_socket_watchdog'') else None)"
proof (cases "cooling_down now s")
  case True
  then show ?thesis using cooling_iff [of now s] by (simp add: watchdog_verdict_def stuck_def)
next
  case False
  then have cool: "lock_cooldown_remaining now s = None" using cooling_iff [of now s] by blast
  show ?thesis
  proof (cases "ss_client s")
    case None
    then show ?thesis by (simp add: watchdog_verdict_def stuck_def stuck_reconnecting_def silent_socket_def)
  next
    case (Some c)
    have late: "wd_max_stuck_secs cfg \<le> (case reconnecting_for_secs now s of None \<Rightarrow> 0 | Some n \<Rightarrow> n) \<longleftrightarrow>
        wd_max_stuck_secs cfg \<le> 0 \<or> (\<exists>since. ss_reconnecting_since s = Some since \<and> since + wd_max_stuck_secs cfg \<le> now)"
      by (auto simp: reconnecting_for_secs_def split: option.splits)
    show ?thesis
      using False Some late silence_iff [of now_ms "last_data_received_ms (cl_stats c)" "wd_stale_socket_secs cfg"]
      by (cases "ss_status s"; cases "stale_socket_silence now_ms (last_data_received_ms (cl_stats c)) (wd_stale_socket_secs cfg)")
        (auto simp: watchdog_verdict_def cool stuck_def stuck_reconnecting_def silent_socket_def Let_def)
  qed
qed

text \<open>The sessions a pass rebuilds, in the order of the map, with the client and the check that forced it.\<close>

definition due_rebuilds :: "watchdog_config \<Rightarrow> nat \<Rightarrow> 'w lifecycle_scheme \<Rightarrow> (string \<times> client \<times> string) list" where
  "due_rebuilds cfg now_ms w = map (\<lambda>(sid, s). (sid, the (ss_client s),
       if ss_status s = StConnecting then ''reconnect_watchdog'' else ''stale_socket_watchdog''))
     (filter (\<lambda>(sid, s). stuck cfg (db_now w) now_ms s) (gw_sessions w))"

definition after_watchdog :: "watchdog_config \<Rightarrow> unix \<Rightarrow> nat \<Rightarrow> session_state \<Rightarrow> session_state" where
  "after_watchdog cfg now now_ms s = (if stuck cfg now now_ms s then rebuilt s else s)"

lemma due_rebuilds_verdicts:
  "due_rebuilds cfg now_ms w = List.map_filter (\<lambda>(sid, s). map_option (Pair sid) (watchdog_verdict cfg (db_now w) now_ms s)) (gw_sessions w)"
proof -
  have "map (\<lambda>(sid, s). (sid, the (ss_client s), if ss_status s = StConnecting then ''reconnect_watchdog'' else ''stale_socket_watchdog''))
      (filter (\<lambda>(sid, s). stuck cfg now now_ms s) rts) =
      List.map_filter (\<lambda>(sid, s). map_option (Pair sid) (watchdog_verdict cfg now now_ms s)) rts" for now rts
    by (induction rts) (auto simp: map_filter_simps watchdog_verdict_stuck)
  then show ?thesis by (simp add: due_rebuilds_def)
qed

lemma after_watchdog_verdict:
  "after_watchdog cfg now now_ms s = (if watchdog_verdict cfg now now_ms s = None then s else rebuilt s)"
  by (simp add: after_watchdog_def watchdog_verdict_stuck)

lemma verdict_rebuilt [simp]: "watchdog_verdict cfg now now_ms (rebuilt s) = None"
  by (simp add: rebuilt_def watchdog_verdict_def set_status_def clear_reconnecting_def set_client_def)

lemma verdict_after [simp]: "watchdog_verdict cfg now now_ms (after_watchdog cfg now now_ms s) = None"
  by (cases "watchdog_verdict cfg now now_ms s") (simp_all add: after_watchdog_verdict)

lemma rebuild_step:
  assumes "runtime_of sid w = Some s"
  shows "runtime_of j (force_rebuild lib sid c by w) = (if j = sid then Some (rebuilt s) else runtime_of j w)"
    "connect_tasks (force_rebuild lib sid c by w) = connect_tasks w @ [\<lparr> kt_session = sid, kt_origin = ByWatchdog, kt_device = None \<rparr>]"
    "lib_calls (force_rebuild lib sid c by w) = lib_calls w @ [Shutdown (cl_id c)]"
    "events_broadcast (force_rebuild lib sid c by w) =
      events_broadcast w @ [(sid, print_json lib (rebuild_payload sid (db_now w) by))]"
    "db_now (force_rebuild lib sid c by w) = db_now w" "run_loops (force_rebuild lib sid c by w) = run_loops w"
  using assms
  by (simp_all add: force_rebuild_def rebuild_finish_def shutdown_client_def runtime_with_runtime Let_def rebuilt_def
      set_status_def clear_reconnecting_def set_client_def del: with_runtime_run)

lemma watchdog_pass_run:
  assumes "distinct (map fst rts)" and "\<forall>(sid, s) \<in> set rts. runtime_of sid w = Some s"
  shows "let w' = watchdog_pass lib cfg now_ms (map fst rts) w;
      due = List.map_filter (\<lambda>(sid, s). map_option (Pair sid) (watchdog_verdict cfg (db_now w) now_ms s)) rts
    in (\<forall>j. runtime_of j w' = (if j \<in> fst ` set rts then map_option (after_watchdog cfg (db_now w) now_ms) (runtime_of j w) else runtime_of j w)) \<and>
       connect_tasks w' = connect_tasks w @ map (\<lambda>(sid, _). \<lparr> kt_session = sid, kt_origin = ByWatchdog, kt_device = None \<rparr>) due \<and>
       lib_calls w' = lib_calls w @ map (\<lambda>(_, c, _). Shutdown (cl_id c)) due \<and>
       events_broadcast w' = events_broadcast w @ map (\<lambda>(sid, _, by). (sid, print_json lib (rebuild_payload sid (db_now w) by))) due \<and>
       db_now w' = db_now w \<and> run_loops w' = run_loops w"
  using assms
proof (induction rts arbitrary: w)
  case (Cons r rts)
  obtain sid s where r: "r = (sid, s)" by (cases r)
  with Cons.prems have s: "runtime_of sid w = Some s" and d: "distinct (map fst rts)" "sid \<notin> fst ` set rts" by auto
  let ?w = "watchdog_session lib cfg now_ms sid w"
  have "\<forall>(j, t) \<in> set rts. runtime_of j ?w = Some t"
  proof
    fix p assume p: "p \<in> set rts"
    obtain j t where jt: "p = (j, t)" by (cases p)
    with p Cons.prems(2) d(2) have "runtime_of j w = Some t" "j \<noteq> sid" by force+
    then show "case p of (j, t) \<Rightarrow> runtime_of j ?w = Some t"
      using s by (simp add: jt watchdog_session_def rebuild_step(1) split: option.splits)
  qed
  note IH = Cons.IH [OF d(1) this]
  show ?case
  proof (cases "watchdog_verdict cfg (db_now w) now_ms s")
    case None
    then have "?w = w" using s by (simp add: watchdog_session_def)
    with IH None show ?thesis
      using s by (auto simp: r Let_def map_filter_simps after_watchdog_verdict)
  next
    case (Some v)
    obtain c forced where v: "v = (c, forced)" by (cases v)
    then have w: "?w = force_rebuild lib sid c forced w" using s Some by (simp add: watchdog_session_def)
    show ?thesis
      using IH d(2) s Some unfolding w rebuild_step [OF s]
      by (auto simp: r v Let_def map_filter_simps after_watchdog_verdict rebuild_step [OF s] w)
  qed
qed (simp add: Let_def map_filter_simps)

lemma map_filter_none: "(\<And>x. x \<in> set xs \<Longrightarrow> f x = None) \<Longrightarrow> List.map_filter f xs = []"
  by (induction xs) (simp_all add: map_filter_simps)

text \<open>C7. One tick of the watchdog, with any database failures, rebuilds exactly the stuck sessions:
  outside an account-lock cool-down, those with a client that are connecting and have used up
  their reconnects or have been at it for the longest time allowed, and those taken for
  connected whose client is not paused and whose socket has been silent for more than the
  bound, if there is one, in whole seconds. Of each it shuts the client down, announces the
  disconnect with the check that forced it, takes the client out and spawns one connect; every
  other runtime is left as it was, and a second tick at once finds nothing to do.\<close>

theorem watchdog_rebuilds_exactly_stuck:
  assumes "dm_ok (gw_sessions w)"
  shows "let w' = watchdog_tick lib cfg now_ms w; due = due_rebuilds cfg now_ms w in
    (\<forall>j. runtime_of j w' = map_option (\<lambda>s. if stuck cfg (db_now w) now_ms s then rebuilt s else s) (runtime_of j w)) \<and>
    connect_tasks w' = connect_tasks w @ map (\<lambda>(sid, _). \<lparr> kt_session = sid, kt_origin = ByWatchdog, kt_device = None \<rparr>) due \<and>
    lib_calls w' = lib_calls w @ map (\<lambda>(_, c, _). Shutdown (cl_id c)) due \<and>
    events_broadcast w' = events_broadcast w @ map (\<lambda>(sid, _, by). (sid, print_json lib (rebuild_payload sid (db_now w) by))) due \<and>
    list_all (\<lambda>(sid, c, _). \<exists>s. runtime_of sid w = Some s \<and> ss_client s = Some c \<and> stuck cfg (db_now w) now_ms s) due \<and>
    (\<forall>j s. runtime_of j w' = Some s \<longrightarrow> \<not> stuck cfg (db_now w) now_ms s)"
proof -
  have d: "distinct (map fst (gw_sessions w))" and rts: "\<forall>(sid, s) \<in> set (gw_sessions w). runtime_of sid w = Some s"
    using assms by (auto simp: dm_ok_def runtime_of_def get_session_mem_def dm_get_def)
  have out: "runtime_of j w = None" if "j \<notin> fst ` set (gw_sessions w)" for j
    using that by (simp add: runtime_of_def get_session_mem_def dm_get_def map_of_eq_None_iff)
  note run = watchdog_pass_run [OF d rts, of lib cfg now_ms, unfolded watchdog_tick_def [symmetric] due_rebuilds_verdicts [symmetric] Let_def]
  let ?w = "watchdog_tick lib cfg now_ms w"
  have rt: "runtime_of j ?w = map_option (after_watchdog cfg (db_now w) now_ms) (runtime_of j w)" for j
    using run out [of j] by auto
  have "list_all (\<lambda>(sid, c, _). \<exists>s. runtime_of sid w = Some s \<and> ss_client s = Some c \<and> stuck cfg (db_now w) now_ms s)
      (due_rebuilds cfg now_ms w)"
    using rts by (force simp: due_rebuilds_def list_all_iff stuck_def stuck_reconnecting_def silent_socket_def)
  moreover have "\<not> stuck cfg (db_now w) now_ms s" if found: "runtime_of j ?w = Some s" for j s
  proof -
    obtain t where "s = after_watchdog cfg (db_now w) now_ms t" using found rt [of j] by (cases "runtime_of j w") auto
    then show ?thesis using verdict_after [of cfg "db_now w" now_ms t] by (metis watchdog_verdict_stuck option.distinct(1))
  qed
  moreover have "runtime_of j ?w = map_option (\<lambda>s. if stuck cfg (db_now w) now_ms s then rebuilt s else s) (runtime_of j w)" for j
    unfolding rt by (cases "runtime_of j w") (simp_all add: after_watchdog_def)
  ultimately show ?thesis unfolding Let_def using run by blast
qed

text \<open>The check of a stuck reconnect does not ask whether the client is paused.\<close>

lemma paused_reconnecting_rebuilt:
  assumes "ss_client s = Some c" and "cl_paused c" and "ss_status s = StConnecting" and "lock_cooldown_remaining now s = None"
    and "reconnecting_for_secs now s = Some n" and "wd_max_stuck_secs cfg \<le> n"
  shows "watchdog_verdict cfg now now_ms s = Some (c, ''reconnect_watchdog'')"
  using assms by (simp add: watchdog_verdict_def)

definition stuck_runtime :: session_state where
  "stuck_runtime = (session_state_new ''/data/s'')\<lparr>ss_client := Some demo_client, ss_status := StConnecting,
     ss_reconnecting_since := Some 100\<rparr>"

lemma watchdog_rebuilds_exactly_stuck_witness:
  "let w' = watchdog_tick demo_libs (watchdog_from_env (\<lambda>_. None)) 0 (demo_life [demo_row] [(''s'', stuck_runtime)]) in
    lib_calls w' = [Shutdown 0] \<and> map_option ss_status (runtime_of ''s'' w') = Some StConnecting \<and>
    map_option ss_client (runtime_of ''s'' w') = Some None"
proof -
  let ?w = "demo_life [demo_row] [(''s'', stuck_runtime)]" and ?cfg = "watchdog_from_env (\<lambda>_. None)"
  have ok: "dm_ok (gw_sessions ?w)" "lib_calls ?w = []" "runtime_of ''s'' ?w = Some stuck_runtime"
    by (simp_all add: demo_life_def dm_ok_def runtime_of_def get_session_mem_def dm_get_def)
  have v: "stuck ?cfg (db_now ?w) 0 stuck_runtime"
    by (simp add: demo_life_def stuck_def cooling_down_def stuck_reconnecting_def stuck_runtime_def session_state_new_def
        watchdog_from_env_def env_u64_def)
  then have due: "due_rebuilds ?cfg 0 ?w = [(''s'', demo_client, ''reconnect_watchdog'')]"
    by (simp add: due_rebuilds_def demo_life_def stuck_runtime_def)
  note tick = watchdog_rebuilds_exactly_stuck [OF ok(1), of demo_libs ?cfg 0, unfolded Let_def due]
  have "runtime_of ''s'' (watchdog_tick demo_libs ?cfg 0 ?w) = Some (rebuilt stuck_runtime)"
    using tick [THEN conjunct1, rule_format, of "''s''"] by (simp only: ok v option.map if_True)
  moreover have "lib_calls (watchdog_tick demo_libs ?cfg 0 ?w) = [Shutdown 0]"
    using tick [THEN conjunct2, THEN conjunct2, THEN conjunct1] by (simp only: ok) (simp add: demo_client_def)
  ultimately show ?thesis by (simp add: Let_def rebuilt_def set_status_def clear_reconnecting_def set_client_def)
qed

section \<open>Logging out\<close>

text \<open>Statements that only write tables the connections do not use.\<close>

definition quiet :: "'w lifecycle_scheme \<Rightarrow> 'w lifecycle_scheme \<Rightarrow> bool" where
  "quiet w w' \<longleftrightarrow> gw_sessions w' = gw_sessions w \<and> lib_calls w' = lib_calls w \<and> connect_tasks w' = connect_tasks w \<and>
     events_broadcast w' = events_broadcast w \<and> db_now w' = db_now w \<and> sessions w' = sessions w \<and>
     webhook_rows w' = webhook_rows w \<and> contact_rows w' = contact_rows w \<and> message_rows w' = message_rows w \<and>
     run_loops w' = run_loops w"

lemma quiet_refl [simp]: "quiet w w"
  by (simp add: quiet_def)

lemma quiet_trans: "quiet u v \<Longrightarrow> quiet v w \<Longrightarrow> quiet u w"
  by (simp add: quiet_def)

lemma quiet_runtime: "quiet w w' \<Longrightarrow> runtime_of j w' = runtime_of j w"
  by (simp add: quiet_def runtime_of_def)

interpretation quiet: world_frame quiet
  by unfold_locales (auto intro: quiet_trans simp: quiet_def)

lemmas db_stmt_quiet = quiet.stmt and db_bind_quiet = quiet.bind and db_map_err_quiet = quiet.map_err
  and db_plain_quiet [simp] = quiet.plain and db_insert_quiet = quiet.insert

lemma reads_quiet [simp]:
  "quiet w (snd (get_storage_path sid w))" "quiet w (snd (get_session sid w))" "quiet w (snd (started_since sid t w))"
  unfolding get_storage_path_def get_session_def started_since_def by (intro db_stmt_quiet; simp)+

lemma record_incident_quiet [simp]: "quiet w (db_ignore (record_incident sid i) w)"
  unfolding db_ignore_def record_incident_def
  by (intro db_bind_quiet db_insert_quiet db_stmt_quiet) (simp_all add: quiet_def)

lemma snapshot_quiet: "quiet w (snd (snapshot_on_logout sid reason w))"
proof -
  obtain r w1 where r: "started_since sid (db_now w - 24 * HOUR) w = (r, w1)" by fastforce
  then have w1: "quiet w w1" using reads_quiet(3) [of w sid "db_now w - 24 * HOUR"] by simp
  obtain figures w2 where c: "counts sid w = (figures, w2)" by fastforce
  with r have "w2 = w1" by (auto simp: counts_def split: sum.splits)
  then show ?thesis using w1 by (auto simp: snapshot_on_logout_def c Let_def intro: quiet_trans)
qed


lemma status_written_ids [simp]: "map s_id (status_written sid st b now rows) = map s_id rows"
  by (induction rows) (auto simp: status_written_def update_where_def)

lemma store_status_ids [simp]: "map s_id (sessions (store_status sid st b w)) = map s_id (sessions w)"
proof (cases "\<exists>e fs. db_faults w = Some e # fs")
  case False
  then have "sessions (store_status sid st b w) = status_written sid st b (db_now w) (sessions w)"
    by (auto simp: store_status_def db_ignore_def update_session_status_def update_session_def db_stmt_def status_written_def
        split: list.splits option.splits)
  then show ?thesis by simp
qed (auto simp: store_status_def db_ignore_def update_session_status_def update_session_def db_stmt_def)

text \<open>Unlinking: the runtime is reset, the device file too where there is one, and nothing is removed.\<close>

definition kept_by :: "'w lifecycle_scheme \<Rightarrow> 'w lifecycle_scheme \<Rightarrow> bool" where
  "kept_by w w' \<longleftrightarrow> map s_id (sessions w') = map s_id (sessions w) \<and> webhook_rows w' = webhook_rows w \<and>
     contact_rows w' = contact_rows w \<and> message_rows w' = message_rows w \<and> run_loops w' = run_loops w \<and>
     connect_tasks w' = connect_tasks w \<and> db_now w' = db_now w"

lemma kept_trans: "kept_by u v \<Longrightarrow> kept_by v w \<Longrightarrow> kept_by u w"
  by (simp add: kept_by_def)

lemma kept_simps [simp]:
  "kept_by w w" "kept_by w (call_lib x w)" "kept_by w (store_status sid st b w)" "kept_by w (with_runtime sid f w)"
  "kept_by w (announce lib sid event payload w)"
  by (simp_all add: kept_by_def call_lib_def)
    (auto simp: with_runtime_def split: option.splits, (rule announce_shape [of lib sid event payload w]; simp)+)

lemma quiet_kept: "quiet w w' \<Longrightarrow> kept_by w w'"
  by (simp add: quiet_def kept_by_def)

text \<open>The device store of a session is reset where it has one, once, unless the query for its path fails.\<close>

definition device_resets :: "string \<Rightarrow> 'w lifecycle_scheme \<Rightarrow> lib_call list" where
  "device_resets sid w = (case find_session sid w of None \<Rightarrow> []
     | Some r \<Rightarrow> if whatsapp_db (s_storage_path r) \<in> set (device_files w) then [ResetDevice (whatsapp_db (s_storage_path r))] else [])"

definition next_fails :: "string option list \<Rightarrow> bool" where
  "next_fails fs \<longleftrightarrow> (\<exists>e rest. fs = Some e # rest)"

lemma device_resets_range: "set (device_resets sid w) \<subseteq> range ResetDevice"
  by (auto simp: device_resets_def split: option.splits)

lemma reset_device_run:
  "reset_device sid w = w\<lparr>db_faults := tl (db_faults w),
     lib_calls := lib_calls w @ (if next_fails (db_faults w) then [] else device_resets sid w)\<rparr>"
  by (cases "db_faults w"; cases "hd (db_faults w)")
    (auto simp: reset_device_def get_storage_path_def db_stmt_def next_fails_def device_resets_def call_lib_def find_session_def
      split: option.splits)

lemma unlink_session_run:
  shows "runtime_of j (unlink_session sid w) = (if j = sid then map_option unlinked_runtime (runtime_of sid w) else runtime_of j w)"
    "kept_by w (unlink_session sid w)" "events_broadcast (unlink_session sid w) = events_broadcast w"
    "lib_calls (unlink_session sid w) = lib_calls w @ (if next_fails (db_faults w) then [] else device_resets sid w)"
proof -
  let ?w = "with_runtime sid unlinked_runtime w"
  define w1 where "w1 = ?w\<lparr>db_faults := tl (db_faults ?w)\<rparr>"
  define resets where "resets = (if next_fails (db_faults w) then [] else device_resets sid w)"
  have q: "quiet ?w w1" by (simp add: quiet_def w1_def)
  have "device_resets sid ?w = device_resets sid w"
    by (cases "runtime_of sid w") (simp_all add: device_resets_def find_session_def with_runtime_def split: option.split)
  then have d: "reset_device sid ?w = w1\<lparr>lib_calls := lib_calls w1 @ resets\<rparr>"
    by (simp add: reset_device_run w1_def resets_def)
  have u: "unlink_session sid w = store_status sid StDisconnected False (w1\<lparr>lib_calls := lib_calls w1 @ resets\<rparr>)"
    by (simp add: unlink_session_def d)
  have "runtime_of j (w1\<lparr>lib_calls := lib_calls w1 @ resets\<rparr>) = runtime_of j ?w"
    using quiet_runtime [OF q, of j] by (simp add: runtime_of_def)
  then show "runtime_of j (unlink_session sid w) = (if j = sid then map_option unlinked_runtime (runtime_of sid w) else runtime_of j w)"
    by (auto simp: u runtime_with_runtime simp del: with_runtime_run)
  have "kept_by w1 (unlink_session sid w)"
    unfolding u by (rule kept_trans [OF _ kept_simps(3)]) (simp add: kept_by_def)
  then show "kept_by w (unlink_session sid w)"
    by (rule kept_trans [OF kept_trans [OF kept_simps(4) quiet_kept [OF q]]])
  show "events_broadcast (unlink_session sid w) = events_broadcast w" using q by (simp add: u quiet_def)
  show "lib_calls (unlink_session sid w) = lib_calls w @ (if next_fails (db_faults w) then [] else device_resets sid w)"
    using q by (simp add: u quiet_def resets_def)
qed

lemma no_client_simps [simp]:
  "ss_client (unlinked_runtime s) = None" "ss_status (unlinked_runtime s) = StDisconnected"
  "ss_logout_history (unlinked_runtime s) = []" "ss_client (set_client c s) = c" "ss_client (set_status st s) = ss_client s"
  "ss_client (clear_reconnecting s) = ss_client s" "ss_logout_history (clear_reconnecting s) = ss_logout_history s"
  "ss_logout_history (set_client c s) = ss_logout_history s" "ss_logout_history (set_status st s) = ss_logout_history s"
  by (simp_all add: unlinked_runtime_def clear_logout_history_def clear_pair_state_def clear_reconnecting_def set_status_def
      set_client_def Let_def)



text \<open>What WhatsApp's own logout does, from the runtime of the client that reports it.\<close>

definition third_logout :: "unix \<Rightarrow> session_state \<Rightarrow> bool" where
  "third_logout now s \<longleftrightarrow> 2 \<le> length (filter (\<lambda>t. now - t < 600) (ss_logout_history s))"

lemma record_lock_cooldown_env:
  assumes "record_lock_cooldown (account_lock_schedule_from_env env) now s = res"
  obtains cooldown where "0 < cooldown" "cooldown \<in> set (account_lock_schedule_from_env env)"
    "res = Some ((cooldown, now + cooldown), s\<lparr>ss_lock_strikes := sat_succ 32 (ss_lock_strikes s), ss_lock_cooldown_until := Some (now + cooldown)\<rparr>)"
proof -
  let ?sch = "account_lock_schedule_from_env env"
  let ?i = "min (sat_succ 32 (ss_lock_strikes s) - 1) (length ?sch - 1)"
  have sch: "?sch \<noteq> []" "\<forall>n \<in> set ?sch. 0 < n" using account_lock_schedule_ok by auto
  then have "?i < length ?sch" by (metis diff_less length_greater_0_conv min.strict_coboundedI2 zero_less_one)
  then have "?sch ! ?i \<in> set ?sch" by (rule nth_mem)
  with sch assms show thesis by (intro that [of "?sch ! ?i"]) (auto simp: record_lock_cooldown_def Let_def)
qed

lemma logged_out_run:
  fixes w :: "'w lifecycle_scheme"
  assumes s: "runtime_of sid w = Some s" "ss_client s = Some d"
    and lock: "lock \<longleftrightarrow> reason = AccountLocked" and unlink: "unlink \<longleftrightarrow> \<not> lock \<and> third_logout (db_now w) s"
  obtains w' s' where "logged_out_finish ee sid reason figures w = (unlink, w')" "kept_by w w'"
    "runtime_of sid w' = Some s'" "ss_client s' = None" "ss_status s' = StDisconnected"
    "\<exists>resets. set resets \<subseteq> range ResetDevice \<and> (unlink \<or> resets = []) \<and>
       lib_calls w' = lib_calls w @ (if lock then [SetAutoReconnect (cl_id d) False] else []) @ Shutdown (cl_id d) # resets"
    "length (events_broadcast w') = length (events_broadcast w) + (if lock then 1 else 0)"
    "lock \<longrightarrow> lock_cooldown_remaining (db_now w) s' \<noteq> None"
    "\<not> lock \<longrightarrow> ss_logout_history s' = (if unlink then [] else filter (\<lambda>t. db_now w - t < 600) (ss_logout_history s) @ [db_now w])"
proof -
  let ?off = "\<lambda>s. clear_reconnecting (set_client None (set_status StDisconnected s))"
  define w1 where "w1 = call_lib (Shutdown (cl_id d)) (if lock then call_lib (SetAutoReconnect (cl_id d) False) w else w)"
  define w2 where "w2 = store_status sid StDisconnected False (with_runtime sid ?off w1)"
  have inst: "installed_client sid w = Some d" using s by (simp add: installed_client_def)
  have w1: "kept_by w w1" "events_broadcast w1 = events_broadcast w" "runtime_of sid w1 = Some s"
      "lib_calls w1 = lib_calls w @ (if lock then [SetAutoReconnect (cl_id d) False] else []) @ [Shutdown (cl_id d)]"
    using s(1) by (auto simp: w1_def intro: kept_trans [OF kept_simps(2) kept_simps(2)])
  have w2: "kept_by w w2" "events_broadcast w2 = events_broadcast w" "lib_calls w2 = lib_calls w1"
    unfolding w2_def using kept_trans [OF kept_trans [OF w1(1) kept_simps(4)] kept_simps(3)] w1(2) by simp_all
  have rt2: "runtime_of sid w2 = Some (?off s)"
    unfolding w2_def store_status_fields by (simp only: runtime_with_runtime if_True w1(3) option.map refl)
  have now: "db_now w2 = db_now w" using w2(1) by (simp add: kept_by_def)
  have finish: "logged_out_finish ee sid reason figures w =
      (if lock then (case record_lock_cooldown (account_lock_schedule_from_env (ee_env ee)) (db_now w) (?off s) of
           None \<Rightarrow> (False, w2)
         | Some ((cooldown, until), s') \<Rightarrow> (False, announce (ee_libs ee) sid ''account_locked''
             (lock_payload sid (db_now w) cooldown until figures) (with_runtime sid (\<lambda>_. s') w2)))
       else (let (purge, s') = record_logout_and_should_purge (db_now w) (?off s); w3 = with_runtime sid (\<lambda>_. s') w2
             in if purge then (True, unlink_session sid w3) else (False, w3)))"
    unfolding logged_out_finish_def inst option.case lock [symmetric] w1_def [symmetric]
    by (simp only: Let_def w2_def [symmetric] rt2 option.case now)
  show thesis
  proof (cases lock)
    case True
    obtain cooldown where pos: "0 < cooldown" and cool: "record_lock_cooldown (account_lock_schedule_from_env (ee_env ee)) (db_now w) (?off s) =
        Some ((cooldown, db_now w + cooldown), (?off s)\<lparr>ss_lock_strikes := sat_succ 32 (ss_lock_strikes (?off s)),
          ss_lock_cooldown_until := Some (db_now w + cooldown)\<rparr>)" (is "_ = Some (_, ?s)")
      by (rule record_lock_cooldown_env [OF refl]) blast
    let ?w = "announce (ee_libs ee) sid ''account_locked'' (lock_payload sid (db_now w) cooldown (db_now w + cooldown) figures)
        (with_runtime sid (\<lambda>_. ?s) w2)"
    have "runtime_of sid ?w = Some ?s" by (simp only: announce_broadcast runtime_with_runtime if_True rt2 option.map refl)
    moreover have "kept_by w ?w" by (rule kept_trans [OF kept_trans [OF w2(1) kept_simps(4)] kept_simps(5)])
    moreover have "logged_out_finish ee sid reason figures w = (unlink, ?w)"
      using True unlink by (simp add: finish cool del: with_runtime_run)
    moreover have "lib_calls ?w = lib_calls w @ (if lock then [SetAutoReconnect (cl_id d) False] else []) @ [Shutdown (cl_id d)]"
        "length (events_broadcast ?w) = length (events_broadcast w) + (if lock then 1 else 0)"
      using True w1(4) w2(2,3) by (simp_all del: with_runtime_run)
    ultimately show thesis
      using True pos by (intro that [of ?w ?s]) (auto simp: lock_cooldown_remaining_def clear_reconnecting_def set_client_def set_status_def)
  next
    case False
    let ?s = "(?off s)\<lparr>ss_logout_history := filter (\<lambda>t. db_now w - t < 600) (ss_logout_history s) @ [db_now w]\<rparr>"
    have rec: "record_logout_and_should_purge (db_now w) (?off s) = (third_logout (db_now w) s, ?s)"
      by (simp add: record_logout_and_should_purge_def third_logout_def Let_def)
    let ?w = "with_runtime sid (\<lambda>_. ?s) w2"
    have rt: "runtime_of sid ?w = Some ?s" by (simp only: runtime_with_runtime if_True rt2 option.map refl)
    have k: "kept_by w ?w" by (rule kept_trans [OF w2(1) kept_simps(4)])
    note run = unlink_session_run [where sid = sid and w = ?w]
    show thesis
    proof (cases unlink)
      case True
      then have "logged_out_finish ee sid reason figures w = (unlink, unlink_session sid ?w)"
        using False unlink by (simp add: finish rec Let_def del: with_runtime_run)
      moreover have "runtime_of sid (unlink_session sid ?w) = Some (unlinked_runtime ?s)" using run(1) [where j = sid] rt by simp
      moreover have "\<exists>resets. set resets \<subseteq> range ResetDevice \<and> lib_calls (unlink_session sid ?w) =
          lib_calls w @ (if lock then [SetAutoReconnect (cl_id d) False] else []) @ Shutdown (cl_id d) # resets"
        using run(4) w1(4) w2(3) device_resets_range [of sid ?w] by (auto simp del: with_runtime_run)
      ultimately show thesis
        using True False run(3) w2(2) kept_trans [OF k run(2)]
        by (intro that [of "unlink_session sid ?w" "unlinked_runtime ?s"]) (auto simp del: with_runtime_run)
    next
      case nolink: False
      then have "logged_out_finish ee sid reason figures w = (unlink, ?w)"
        using False unlink by (simp add: finish rec Let_def del: with_runtime_run)
      then show thesis
        using nolink False rt k w1(4) w2(2,3)
        by (intro that [of ?w ?s]) (auto simp: clear_reconnecting_def set_client_def set_status_def simp del: with_runtime_run)
    qed
  qed
qed

text \<open>When WhatsApp reports the installed client logged out: the client is shut down and taken out
  (for an account lock also kept from reconnecting), and no session, webhook, contact or stored
  message is removed, whatever the database failures. An account lock starts a cool-down and is
  announced as such; any other logout is announced, and the device unlinked, exactly when it is
  the third within ten minutes, and the first two are only counted.\<close>

theorem reported_logout_stops_client:
  assumes "runtime_of sid w = Some s" and "ss_client s = Some d" and "cl_id d = cl_id c"
  shows "let w' = handle_event ee sid c (WaLoggedOut reason) w; lock = (reason = AccountLocked);
      unlink = (\<not> lock \<and> third_logout (db_now w) s) in
    kept_by w w' \<and> installed_client sid w' = None \<and> map_option ss_status (runtime_of sid w') = Some StDisconnected \<and>
    (\<exists>resets. set resets \<subseteq> range ResetDevice \<and> (unlink \<or> resets = []) \<and>
       lib_calls w' = lib_calls w @ (if lock then [SetAutoReconnect (cl_id c) False] else []) @ Shutdown (cl_id c) # resets) \<and>
    length (events_broadcast w') = length (events_broadcast w) + (if lock \<or> unlink then 1 else 0) \<and>
    (lock \<longrightarrow> Option.bind (runtime_of sid w') (lock_cooldown_remaining (db_now w)) \<noteq> None) \<and>
    (\<not> lock \<longrightarrow> map_option ss_logout_history (runtime_of sid w') =
       Some (if unlink then [] else filter (\<lambda>t. db_now w - t < 600) (ss_logout_history s) @ [db_now w]))"
proof -
  let ?lock = "reason = AccountLocked"
  let ?unlink = "\<not> ?lock \<and> third_logout (db_now w) s"
  obtain figures u where u: "snapshot_on_logout sid (reason_text reason) w = (figures, u)" by fastforce
  then have q: "quiet w u" using snapshot_quiet [of w sid "reason_text reason"] by simp
  have s: "runtime_of sid u = Some s" and now: "db_now u = db_now w" and k: "kept_by w u"
    and lib: "lib_calls u = lib_calls w" "events_broadcast u = events_broadcast w"
    using quiet_runtime [OF q] quiet_kept [OF q] q assms(1) by (simp_all add: quiet_def)
  obtain w' s' where r: "logged_out_finish ee sid reason figures u = (?unlink, w')" "kept_by u w'"
    "runtime_of sid w' = Some s'" "ss_client s' = None" "ss_status s' = StDisconnected"
    "\<exists>resets. set resets \<subseteq> range ResetDevice \<and> (?unlink \<or> resets = []) \<and>
       lib_calls w' = lib_calls u @ (if ?lock then [SetAutoReconnect (cl_id d) False] else []) @ Shutdown (cl_id d) # resets"
    "length (events_broadcast w') = length (events_broadcast u) + (if ?lock then 1 else 0)"
    "?lock \<longrightarrow> lock_cooldown_remaining (db_now u) s' \<noteq> None"
    "\<not> ?lock \<longrightarrow> ss_logout_history s' = (if ?unlink then [] else filter (\<lambda>t. db_now u - t < 600) (ss_logout_history s) @ [db_now u])"
    using logged_out_run [OF s assms(2) refl, of ?unlink reason ee figures] unfolding now by blast
  let ?p = "event_to_json (ee_proto ee) (db_now w') (WaLoggedOut reason) sid"
  have out: "handle_event ee sid c (WaLoggedOut reason) w =
      (if ?unlink then announce (ee_libs ee) sid ''logged_out'' ?p w' else w')"
    using assms by (simp add: handle_event_def is_current_client_def on_logged_out_def u r(1))
  have "kept_by w w'" by (rule kept_trans [OF k r(2)])
  then have kept: "kept_by w (handle_event ee sid c (WaLoggedOut reason) w)"
    by (simp add: out kept_trans [OF _ kept_simps(5)])
  have rt: "runtime_of sid (handle_event ee sid c (WaLoggedOut reason) w) = Some s'" by (simp add: out r(3))
  show ?thesis
    unfolding Let_def rt installed_client_def
    using kept r(4-9) lib now assms(3) by (auto simp: out)
qed

lemma reported_logout_stops_client_witness:
  "let w = demo_life [demo_row] [(''s'', stuck_runtime)]; w' = handle_event demo_events ''s'' demo_client (WaLoggedOut (OtherReason ''t'')) w
   in installed_client ''s'' w' = None \<and> kept_by w w' \<and> length (events_broadcast w') = 0 \<and>
      map_option ss_logout_history (runtime_of ''s'' w') = Some [1000]"
proof -
  let ?w = "demo_life [demo_row] [(''s'', stuck_runtime)]"
  have s: "runtime_of ''s'' ?w = Some stuck_runtime" "ss_client stuck_runtime = Some demo_client" "\<not> third_logout (db_now ?w) stuck_runtime"
      "ss_logout_history stuck_runtime = []" "db_now ?w = 1000" "events_broadcast ?w = []"
    by (simp_all add: demo_life_def runtime_of_def get_session_mem_def dm_get_def stuck_runtime_def third_logout_def session_state_new_def)
  then show ?thesis
    using reported_logout_stops_client [OF s(1,2) refl, of demo_events "OtherReason ''t''"] by (simp add: Let_def)
qed

end
