(* ===== verification/Transfer_Facts.thy ===== *)
theory Transfer_Facts
  imports Session_Transfer Recovery_Facts
begin

text \<open>
  An import writes inside the session's directory and each file within its bound; an export can
  be imported again; and what bounds the total is only what the archive declares.
\<close>

section \<open>What an import touches\<close>

text \<open>A relative path that never climbs above where it starts, the promise of \<open>enclosed_name\<close>.\<close>

fun never_above :: "nat \<Rightarrow> string list \<Rightarrow> bool" where
  "never_above d [] = True"
| "never_above d (seg # segs) =
     (if seg = [] \<or> seg = ''.'' then never_above d segs
      else if seg = ''..'' then (case d of 0 \<Rightarrow> False | Suc d' \<Rightarrow> never_above d' segs)
      else never_above (Suc d) segs)"

definition encloses :: "zip_lib \<Rightarrow> bool" where
  "encloses zl \<longleftrightarrow> (\<forall>archive es e rel. zl_open zl archive = Some es \<longrightarrow> e \<in> set es \<longrightarrow> ze_enclosed e = Some rel \<longrightarrow> never_above 0 rel)"

lemma enclosed_prefix:
  "never_above (length ext) segs \<Longrightarrow> \<exists>ext'. foldl path_step (base @ ext) segs = base @ ext'"
proof (induction segs arbitrary: ext)
  case (Cons seg segs)
  consider (same) "seg = [] \<or> seg = ''.''" | (up) "seg = ''..''" | (down) "seg \<noteq> []" "seg \<noteq> ''.''" "seg \<noteq> ''..''" by blast
  then show ?case
  proof cases
    case same
    with Cons show ?thesis by (auto simp: path_step_def)
  next
    case up
    with Cons.prems obtain ext' x where "ext = ext' @ [x]" by (cases ext rule: rev_cases) auto
    with up Cons show ?thesis by (auto simp: path_step_def butlast_append)
  next
    case down
    with Cons.IH [of "ext @ [seg]"] Cons.prems show ?thesis by (simp add: path_step_def)
  qed
qed simp

text \<open>Two worlds that differ only in files under a directory, each within the bound of a file.\<close>

definition written_inside :: "string list \<Rightarrow> 'w transfer_scheme \<Rightarrow> 'w transfer_scheme \<Rightarrow> bool" where
  "written_inside base w w' \<longleftrightarrow>
     (\<forall>p. stored_files w' p = stored_files w p \<or>
        (\<exists>ext b. p = base @ ext \<and> stored_files w' p = Some b \<and> length b \<le> MAX_IMPORT_ENTRY_UNCOMPRESSED_BYTES + 1)) \<and>
     gw_sessions w' = gw_sessions w \<and> sessions w' = sessions w \<and> lib_calls w' = lib_calls w \<and> run_loops w' = run_loops w"

lemma written_refl [simp]: "written_inside base w w"
  by (simp add: written_inside_def)

lemma written_trans: "written_inside base u v \<Longrightarrow> written_inside base v w \<Longrightarrow> written_inside base u w"
  unfolding written_inside_def by metis

lemma written_faults [simp]:
  "written_inside base w (u\<lparr>fs_faults := fs\<rparr>) = written_inside base w u"
  "written_inside base (u\<lparr>fs_faults := fs\<rparr>) w = written_inside base u w"
  by (simp_all add: written_inside_def)

lemma fs_call_written:
  assumes "fs_call f w = (ok, w')" and "\<And>u. written_inside base u (f u)"
  shows "written_inside base w w'"
proof -
  have "written_inside base w (f (w\<lparr>fs_faults := fs\<rparr>))" for fs
    using assms(2) [of "w\<lparr>fs_faults := fs\<rparr>"] by simp
  then show ?thesis
    using assms unfolding fs_call_def by (cases "fs_faults w") (auto split: bool.splits if_splits)
qed

lemma create_and_copy_inside:
  "create_and_copy (base @ ext) e w = (ok, w') \<Longrightarrow> written_inside base w w'"
  unfolding create_and_copy_def by (erule fs_call_written) (auto simp: written_inside_def copied_bytes_def)

lemma unzip_entry_inside:
  assumes "\<And>rel. ze_enclosed e = Some rel \<Longrightarrow> never_above 0 rel"
  shows "written_inside base w (snd (unzip_entry base e declared w))"
proof (cases "ze_enclosed e")
  case None
  then show ?thesis by (simp add: unzip_entry_def)
next
  case (Some rel)
  obtain ext where ext: "foldl path_step base rel = base @ ext"
    using enclosed_prefix [of "[]" rel base] assms [OF Some] by auto
  obtain ok1 w1 where w1: "fs_call (\<lambda>w. w) w = (ok1, w1)" by fastforce
  then have i1: "written_inside base w w1" by (rule fs_call_written) simp
  obtain ok2 w2 where w2: "create_and_copy (base @ ext) e w1 = (ok2, w2)" by fastforce
  from create_and_copy_inside [OF this] have "written_inside base w w2" by (rule written_trans [OF i1])
  with i1 show ?thesis by (simp add: unzip_entry_def Some ext w1 w2 Let_def)
qed

lemma unzip_entries_inside:
  assumes "\<And>e rel. e \<in> set es \<Longrightarrow> ze_enclosed e = Some rel \<Longrightarrow> never_above 0 rel"
  shows "written_inside base w (snd (unzip_entries base es declared w))"
  using assms
proof (induction es arbitrary: declared w)
  case (Cons e es)
  obtain r w1 where r: "unzip_entry base e declared w = (r, w1)" by fastforce
  have first: "written_inside base w w1"
    using unzip_entry_inside [of e base w declared] Cons.prems(1) [of e] r by simp
  have "written_inside base w1 (snd (unzip_entries base es d w1))" for d
    by (rule Cons.IH) (use Cons.prems in auto)
  from first written_trans [OF first this] show ?case by (simp add: r split: sum.split)
qed simp

lemma unzip_directory_inside:
  assumes "encloses zl"
  shows "written_inside base w (snd (unzip_directory zl base archive w))"
proof -
  obtain ok w1 where w1: "fs_call (\<lambda>w. w) w = (ok, w1)" by fastforce
  then have i1: "written_inside base w w1" by (rule fs_call_written) simp
  have "written_inside base w1 (snd (unzip_entries base es 0 w1))" if "zl_open zl archive = Some es" for es
    by (rule unzip_entries_inside) (use assms that in \<open>auto simp: encloses_def\<close>)
  from i1 written_trans [OF i1 this] show ?thesis
    by (simp add: unzip_directory_def w1 split: option.split)
qed

text \<open>The two reads of the session's row; a failure point only moves on.\<close>

lemma db_read_run: "db_stmt (\<lambda>w. (f w, w)) w = (case db_faults w of
    Some e # fs \<Rightarrow> (Inl e, w\<lparr>db_faults := fs\<rparr>) | _ \<Rightarrow> (Inr (f (w\<lparr>db_faults := tl (db_faults w)\<rparr>)), w\<lparr>db_faults := tl (db_faults w)\<rparr>))"
  by (simp add: db_stmt_def Let_def split: list.split option.split)

lemma find_session_faults [simp]: "find_session sid (w\<lparr>db_faults := fs\<rparr>) = find_session sid w"
  by (simp add: find_session_def)

lemma found_session_reads:
  assumes "found_session sid w = (res, w')"
  shows "w' = w\<lparr>db_faults := tl (db_faults w)\<rparr>" and "res = Inr s \<Longrightarrow> \<exists>r. find_session sid w = Some r"
  using assms
  by (auto simp: found_session_def db_bind_def db_map_err_def get_session_def db_read_run db_fail_def db_return_def
      split: list.splits option.splits)

lemma storage_or_default_reads:
  assumes "storage_or_default sid w = (res, w')" and "find_session sid w = Some r"
  shows "w' = w\<lparr>db_faults := tl (db_faults w)\<rparr>" and "res = Inr p \<Longrightarrow> p = s_storage_path r"
  using assms
  by (auto simp: storage_or_default_def db_bind_def db_map_err_def get_storage_path_def db_read_run
      split: list.splits option.splits)

lemma written_db_faults [simp]:
  "written_inside base w (u\<lparr>db_faults := fs\<rparr>) = written_inside base w u"
  "written_inside base (u\<lparr>db_faults := fs\<rparr>) w = written_inside base u w"
  by (simp_all add: written_inside_def)

lemma import_run:
  assumes "encloses zl" and "find_session sid w = Some r"
  shows "written_inside (resolve_path (s_storage_path r)) w (snd (import_session zl sid upload w))"
proof -
  let ?base = "resolve_path (s_storage_path r)"
  obtain res u where f: "found_session sid w = (res, u)" by fastforce
  note u = found_session_reads(1) [OF f]
  have stored: "written_inside ?base u (snd (db_bind (storage_or_default sid) (\<lambda>path.
             db_bind (db_map_err (\<lambda>e. BadRequest (''import failed: '' @ e)) (unzip_directory zl (resolve_path path) archive)) (\<lambda>_ w.
               (Inr (success_with_message ''Session storage imported - call /connect to bring it online''), w))) u))"
    for archive
  proof -
    obtain path v where p: "storage_or_default sid u = (path, v)" by fastforce
    have "find_session sid u = Some r" using assms(2) by (simp add: u)
    note v = storage_or_default_reads [OF p this]
    show ?thesis
    proof (cases path)
      case (Inr q)
      then have "path = Inr (s_storage_path r)" using v(2) by simp
      with unzip_directory_inside [OF assms(1), of ?base v archive] show ?thesis
        by (auto simp: db_bind_def db_map_err_def p v(1) split: prod.splits sum.splits)
    qed (simp add: p v(1))
  qed
  have "written_inside ?base w u" by (simp add: u)
  from this written_trans [OF this stored] show ?thesis
    by (simp add: import_session_def f Let_def db_bind_def [of "found_session sid"] split: sum.split option.split)
qed

text \<open>
  C11. An import writes nowhere but under the storage directory of the session named, and no file
  beyond the bound of a file and one byte; a session that does not exist, or whose client is
  live, keeps every file, and the runtimes, the rows and the clients are as they were. Hypothesis:
  the zip library only calls a name enclosed if it never climbs out. Every failure is allowed.
\<close>

theorem import_stays_inside:
  assumes "encloses zl"
  shows "case find_session sid w of
      None \<Rightarrow> written_inside [] w (snd (import_session zl sid upload w)) \<and> stored_files (snd (import_session zl sid upload w)) = stored_files w
    | Some r \<Rightarrow> written_inside (resolve_path (s_storage_path r)) w (snd (import_session zl sid upload w)) \<and>
        (if (case runtime_of sid w of None \<Rightarrow> False | Some s \<Rightarrow> is_alive s)
         then stored_files (snd (import_session zl sid upload w)) = stored_files w else True)"
proof (cases "find_session sid w")
  case None
  obtain res u where f: "found_session sid w = (res, u)" by fastforce
  note reads = found_session_reads [OF f]
  with None obtain e where "res = Inl e" by (cases res) auto
  with f reads(1) None show ?thesis by (simp add: import_session_def)
next
  case (Some r)
  have "stored_files (snd (import_session zl sid upload w)) = stored_files w"
    if "case runtime_of sid w of None \<Rightarrow> False | Some s \<Rightarrow> is_alive s"
  proof -
    obtain res u where f: "found_session sid w = (res, u)" by fastforce
    with that found_session_reads(1) [OF f] show ?thesis
      by (cases res) (simp_all add: import_session_def runtime_of_def split: option.splits)
  qed
  with import_run [OF assms Some, of upload] Some show ?thesis by simp
qed

section \<open>From one instance to another\<close>

lemma fs_call_ok:
  fixes w :: "'w admin_scheme"
  assumes "fs_faults w = []"
  shows "fs_call f w = (True, f w)"
proof -
  have "w\<lparr>fs_faults := []\<rparr> = w\<lparr>fs_faults := fs_faults w\<rparr>" by (simp only: assms)
  also have "\<dots> = w" by simp
  finally have same: "w\<lparr>fs_faults := []\<rparr> = w" .
  show ?thesis by (simp add: fs_call_def assms same)
qed

definition plain_entry :: "string list \<Rightarrow> nat \<Rightarrow> bytes \<Rightarrow> zip_entry" where
  "plain_entry rel n b = \<lparr> ze_opens = True, ze_enclosed = Some rel, ze_is_dir = False, ze_size = n, ze_data = b, ze_complete = True \<rparr>"

fun put_files :: "string list \<Rightarrow> (string list \<times> bytes) list \<Rightarrow> (string list \<rightharpoonup> bytes) \<Rightarrow> (string list \<rightharpoonup> bytes)" where
  "put_files base [] m = m"
| "put_files base ((rel, b) # fs) m = put_files base fs (m(base @ rel \<mapsto> b))"

definition fits :: "(string list \<times> nat \<times> bytes) list \<Rightarrow> bool" where
  "fits fs \<longleftrightarrow> list_all (\<lambda>(rel, n, b). list_all plain_segment rel \<and> n \<le> MAX_IMPORT_ENTRY_UNCOMPRESSED_BYTES \<and>
      length b \<le> MAX_IMPORT_ENTRY_UNCOMPRESSED_BYTES) fs"

lemma unzip_plain_entry:
  assumes "list_all plain_segment rel" "n \<le> MAX_IMPORT_ENTRY_UNCOMPRESSED_BYTES" "length b \<le> MAX_IMPORT_ENTRY_UNCOMPRESSED_BYTES"
    and "d + n \<le> MAX_IMPORT_TOTAL_UNCOMPRESSED_BYTES" "fs_faults w = []"
  shows "unzip_entry base (plain_entry rel n b) d w = (Inr (d + n), w\<lparr>stored_files := (stored_files w)(base @ rel \<mapsto> b)\<rparr>)"
proof -
  have "sat 64 (d + n) = d + n"
    using assms(4) by (simp add: sat_def MAX_IMPORT_TOTAL_UNCOMPRESSED_BYTES_def)
  then show ?thesis
    using assms by (simp add: unzip_entry_def plain_entry_def Let_def fs_call_ok create_and_copy_def foldl_plain copied_bytes_def)
qed

lemma unzip_plain_entries:
  assumes "fits fs" and "d + sum_list (map (fst \<circ> snd) fs) \<le> MAX_IMPORT_TOTAL_UNCOMPRESSED_BYTES" and "fs_faults w = []"
  shows "unzip_entries base (map (\<lambda>(rel, n, b). plain_entry rel n b) fs) d w =
     (Inr (d + sum_list (map (fst \<circ> snd) fs)),
      w\<lparr>stored_files := put_files base (map (\<lambda>(rel, n, b). (rel, b)) fs) (stored_files w)\<rparr>)"
  using assms
proof (induction fs arbitrary: d w)
  case (Cons f fs)
  obtain rel n b where f: "f = (rel, n, b)" by (cases f)
  with Cons.prems have "unzip_entry base (plain_entry rel n b) d w =
      (Inr (d + n), w\<lparr>stored_files := (stored_files w)(base @ rel \<mapsto> b)\<rparr>)"
    by (intro unzip_plain_entry) (auto simp: fits_def)
  with Cons.IH [of "d + n"] Cons.prems show ?case by (simp add: f fits_def add.assoc)
qed simp

text \<open>What an archive holds and what the directory holds afterwards.\<close>

definition archive_of :: "(string list \<times> nat \<times> bytes) list \<Rightarrow> zip_entry list" where
  "archive_of fs = map (\<lambda>(rel, n, b). plain_entry rel n b) fs"

definition importable :: "'w transfer_scheme \<Rightarrow> string \<Rightarrow> session_row \<Rightarrow> bool" where
  "importable w sid r \<longleftrightarrow> find_session sid w = Some r \<and> db_faults w = [] \<and> fs_faults w = [] \<and>
     (case runtime_of sid w of None \<Rightarrow> True | Some s \<Rightarrow> \<not> is_alive s)"

definition upload_of :: "bytes \<Rightarrow> (string + upload_field) list" where
  "upload_of archive = [Inr \<lparr> uf_name = Some ''file'', uf_bytes = Inr archive \<rparr>]"

lemma import_plain:
  fixes w :: "'w transfer_scheme"
  assumes "importable w sid r" and "zl_open zl archive = Some (archive_of fs)" and "fits fs"
    and "length fs \<le> MAX_IMPORT_ENTRIES" and "sum_list (map (fst \<circ> snd) fs) \<le> MAX_IMPORT_TOTAL_UNCOMPRESSED_BYTES"
  shows "import_session zl sid (upload_of archive) w =
     (Inr (success_with_message ''Session storage imported - call /connect to bring it online''),
      w\<lparr>stored_files := put_files (resolve_path (s_storage_path r)) (map (\<lambda>(rel, n, b). (rel, b)) fs) (stored_files w)\<rparr>)"
proof -
  from assms(1) have w: "find_session sid w = Some r" "db_faults w = []" "fs_faults w = []"
    "\<not> (case runtime_of sid w of None \<Rightarrow> False | Some s \<Rightarrow> is_alive s)"
    by (auto simp: importable_def split: option.splits)
  have "unzip_directory zl (resolve_path (s_storage_path r)) archive w =
      (Inr (sum_list (map (fst \<circ> snd) fs)),
       w\<lparr>stored_files := put_files (resolve_path (s_storage_path r)) (map (\<lambda>(rel, n, b). (rel, b)) fs) (stored_files w)\<rparr>)"
    using unzip_plain_entries [of fs 0 w] assms w(3) by (simp add: unzip_directory_def fs_call_ok archive_of_def)
  then show ?thesis
    using reads_run(1,2) [OF w(2,1)] w(4)
    by (simp add: import_session_def upload_of_def db_map_err_def)
qed

lemma relative_to_Some: "relative_to base p = Some rel \<longleftrightarrow> p = base @ rel \<and> rel \<noteq> []"
  by (auto simp: relative_to_def) (metis append_take_drop_id)

lemma listed_set:
  "(rel, b) \<in> set (listed_files walk base w) \<longleftrightarrow> rel \<noteq> [] \<and> base @ rel \<in> set walk \<and> stored_files w (base @ rel) = Some b"
  by (auto simp: listed_files_def map_filter_def relative_to_Some image_iff split: option.splits)

lemma put_files_other: "(\<And>rel b. (rel, b) \<in> set fs \<Longrightarrow> p \<noteq> base @ rel) \<Longrightarrow> put_files base fs m p = m p"
  by (induction base fs m rule: put_files.induct) force+

lemma put_files_hit:
  "(\<And>b'. (rel, b') \<in> set fs \<Longrightarrow> b' = b) \<Longrightarrow> (rel, b) \<in> set fs \<or> m (base @ rel) = Some b
    \<Longrightarrow> put_files base fs m (base @ rel) = Some b"
proof (induction fs arbitrary: m)
  case (Cons f fs)
  obtain rel' b' where f: "f = (rel', b')" by fastforce
  have "put_files base fs (m(base @ rel' \<mapsto> b')) (base @ rel) = Some b"
    by (rule Cons.IH) (use Cons.prems in \<open>auto simp: f\<close>)
  then show ?case by (simp add: f)
qed simp

definition sized :: "(string list \<times> bytes) list \<Rightarrow> (string list \<times> nat \<times> bytes) list" where
  "sized fs = map (\<lambda>(rel, b). (rel, length b, b)) fs"

lemma sized_simps [simp]: "map (\<lambda>(rel, n, b). (rel, b)) (sized fs) = fs" "length (sized fs) = length fs"
  by (simp_all add: sized_def comp_def case_prod_beta)

text \<open>The files of one directory over those of another.\<close>

definition overlaid :: "string list \<Rightarrow> (string list \<rightharpoonup> bytes) \<Rightarrow> string list \<Rightarrow> (string list \<rightharpoonup> bytes) \<Rightarrow> (string list \<rightharpoonup> bytes)" where
  "overlaid base' files base m p = (case relative_to base p of
     Some rel \<Rightarrow> (case files (base' @ rel) of Some b \<Rightarrow> Some b | None \<Rightarrow> m p) | None \<Rightarrow> m p)"

lemma put_listed:
  assumes "\<And>rel. rel \<noteq> [] \<Longrightarrow> stored_files w (base' @ rel) \<noteq> None \<Longrightarrow> base' @ rel \<in> set walk"
  shows "put_files base (listed_files walk base' w) m = overlaid base' (stored_files w) base m"
proof
  fix p
  show "put_files base (listed_files walk base' w) m p = overlaid base' (stored_files w) base m p"
  proof (cases "\<exists>rel b. relative_to base p = Some rel \<and> stored_files w (base' @ rel) = Some b")
    case True
    then obtain rel b where p: "p = base @ rel" "rel \<noteq> []" and b: "stored_files w (base' @ rel) = Some b"
      by (auto simp: relative_to_Some)
    then have "put_files base (listed_files walk base' w) m (base @ rel) = Some b"
      using assms [of rel] by (intro put_files_hit) (auto simp: listed_set)
    then show ?thesis using p b by (simp add: overlaid_def relative_to_def)
  next
    case False
    then have "put_files base (listed_files walk base' w) m p = m p"
      by (intro put_files_other) (auto simp: listed_set relative_to_Some)
    with False show ?thesis by (auto simp: overlaid_def split: option.splits)
  qed
qed

section \<open>Export\<close>

lemma stored_files_frame [simp]:
  "stored_files (with_runtime sid f w) = stored_files w" "stored_files (call_lib c w) = stored_files w"
  "stored_files (shutdown_client cl w) = stored_files w"
  "fs_faults (with_runtime sid f w) = fs_faults w" "fs_faults (shutdown_client cl w) = fs_faults w"
  by (auto simp: with_runtime_def call_lib_def shutdown_client_def split: option.splits)

lemma store_status_stored [simp]:
  "stored_files (store_status sid st b w) = stored_files w" "fs_faults (store_status sid st b w) = fs_faults w"
  "db_faults w = [] \<Longrightarrow> db_faults (store_status sid st b w) = []"
  by (auto simp: store_status_def db_ignore_def update_session_status_def update_session_def db_stmt_def Let_def
      split: list.splits option.splits)

lemma find_with_runtime [simp]:
  "find_session sid (with_runtime sid f w) = find_session sid w"
  "find_session sid (shutdown_client c w) = find_session sid w"
  "db_faults (shutdown_client c w) = db_faults w"
  by (auto simp: with_runtime_def shutdown_client_def call_lib_def find_session_def split: option.splits)

lemma export_run:
  fixes w :: "'w transfer_scheme"
  assumes "find_session sid w = Some r" and "db_faults w = []" and "fs_faults w = []"
  shows "export_session zl walk sid w =
     (Inr (zl_write zl (listed_files walk (resolve_path (s_storage_path r)) w)), export_disconnects sid w)"
proof -
  have "find_session sid (export_disconnects sid w) = Some
      (r\<lparr>s_status := session_status_as_str StDisconnected, s_is_logged_in := False, s_updated_at := db_now w\<rparr>)"
  proof -
    have "s_id r = sid" using assms(1) by (auto simp: find_session_def find_Some_iff)
    moreover have "sessions (shutdown_client c w) = sessions w" "db_now (shutdown_client c w) = db_now w" for c
      by (simp_all add: shutdown_client_def call_lib_def split: option.split)
    ultimately show ?thesis
      using assms by (simp add: export_disconnects_def store_status_run find_session_def find_status_written)
  qed
  moreover have st: "db_faults (export_disconnects sid w) = []" "fs_faults (export_disconnects sid w) = []"
      "stored_files (export_disconnects sid w) = stored_files w"
    using assms by (simp_all add: export_disconnects_def)
  ultimately have path: "storage_or_default sid (export_disconnects sid w) = (Inr (s_storage_path r), export_disconnects sid w)"
    by (simp add: reads_run(2))
  have listed: "listed_files walk base (export_disconnects sid w) = listed_files walk base w" for base
    by (simp add: listed_files_def st)
  show ?thesis
    unfolding export_session_def
    using reads_run(1) [OF assms(2,1)] path
    by (simp add: Let_def export_disconnects_def [symmetric] db_map_err_def zip_directory_def fs_call_ok st listed)
qed

text \<open>
  C12. A session exported from one instance and imported on another has there the files it had,
  under the storage directory of that instance, and the instance's other files stay. Hypotheses:
  the zip library opens what it wrote, the files are within the bounds of an import with plain
  names, the directory walk meets every file, and no statement or file system call fails.
\<close>

theorem export_import_roundtrip:
  fixes w :: "'w transfer_scheme" and v :: "'v transfer_scheme" and r r' :: session_row and walk :: "string list list"
  defines "files \<equiv> listed_files walk (resolve_path (s_storage_path r)) w"
  assumes "find_session sid w = Some r" and "db_faults w = []" and "fs_faults w = []"
    and "\<And>rel. rel \<noteq> [] \<Longrightarrow> stored_files w (resolve_path (s_storage_path r) @ rel) \<noteq> None
           \<Longrightarrow> resolve_path (s_storage_path r) @ rel \<in> set walk"
    and "importable v sid r'"
    and "zl_open zl (zl_write zl files) = Some (archive_of (sized files))"
    and "fits (sized files)" and "length files \<le> MAX_IMPORT_ENTRIES"
    and "sum_list (map (length \<circ> snd) files) \<le> MAX_IMPORT_TOTAL_UNCOMPRESSED_BYTES"
  shows "case export_session zl walk sid w of
      (Inl e, w') \<Rightarrow> False
    | (Inr archive, w') \<Rightarrow> import_session zl sid (upload_of archive) v =
       (Inr (success_with_message ''Session storage imported - call /connect to bring it online''),
        v\<lparr>stored_files := overlaid (resolve_path (s_storage_path r)) (stored_files w)
          (resolve_path (s_storage_path r')) (stored_files v)\<rparr>)"
proof -
  have total: "sum_list (map (fst \<circ> snd) (sized files)) = sum_list (map (length \<circ> snd) files)"
    by (simp add: sized_def comp_def case_prod_beta)
  have same: "put_files base files m = overlaid (resolve_path (s_storage_path r)) (stored_files w) base m" for base m
    unfolding files_def by (rule put_listed) (rule assms(5))
  show ?thesis
    using import_plain [OF assms(6,7,8)] assms(9,10) total
    by (simp add: export_run [OF assms(2-4)] files_def [symmetric] same)
qed

section \<open>The total is only as declared\<close>

definition liar_name :: "nat \<Rightarrow> string" where
  "liar_name i = replicate (Suc i) (CHR ''x'')"

definition liars :: "nat \<Rightarrow> nat \<Rightarrow> (string list \<times> nat \<times> bytes) list" where
  "liars k n = map (\<lambda>i. ([liar_name i], 0, replicate n 0)) [0..<k]"

definition bytes_at :: "(string list \<rightharpoonup> bytes) \<Rightarrow> string list list \<Rightarrow> nat" where
  "bytes_at files paths = sum_list (map (\<lambda>p. case files p of Some b \<Rightarrow> length b | None \<Rightarrow> 0) paths)"

lemma liars_fit: "n \<le> MAX_IMPORT_ENTRY_UNCOMPRESSED_BYTES \<Longrightarrow> fits (liars k n)"
  by (auto simp: fits_def liars_def list_all_iff plain_segment_def liar_name_def)

lemma liars_stored:
  assumes "i < k"
  shows "put_files base (map (\<lambda>(rel, n, b). (rel, b)) (liars k n)) m (base @ [liar_name i]) = Some (replicate n 0)"
  by (rule put_files_hit) (use assms in \<open>auto simp: liars_def\<close>)

text \<open>
  C13. What an archive declares is all that bounds the total of an import: entries that declare no
  size are extracted whole, each up to the bound of a file, whatever they add up to.
\<close>

theorem declared_sizes_bypass_total:
  fixes w :: "'w transfer_scheme"
  assumes "importable w sid r" and "zl_open zl archive = Some (archive_of (liars k n))"
    and "k \<le> MAX_IMPORT_ENTRIES" and "n \<le> MAX_IMPORT_ENTRY_UNCOMPRESSED_BYTES"
  shows "fst (import_session zl sid (upload_of archive) w) =
      Inr (success_with_message ''Session storage imported - call /connect to bring it online'') \<and>
    bytes_at (stored_files (snd (import_session zl sid (upload_of archive) w)))
      (map (\<lambda>i. resolve_path (s_storage_path r) @ [liar_name i]) [0..<k]) = k * n"
proof -
  have "length (liars k n) \<le> MAX_IMPORT_ENTRIES" using assms(3) by (simp add: liars_def)
  moreover have "sum_list (map (fst \<circ> snd) (liars k n)) \<le> MAX_IMPORT_TOTAL_UNCOMPRESSED_BYTES" by (simp add: liars_def comp_def)
  ultimately have run: "import_session zl sid (upload_of archive) w = (Inr (success_with_message ''Session storage imported - call /connect to bring it online''),
      w\<lparr>stored_files := put_files (resolve_path (s_storage_path r)) (map (\<lambda>(rel, n, b). (rel, b)) (liars k n)) (stored_files w)\<rparr>)"
    by (rule import_plain [OF assms(1,2) liars_fit [OF assms(4)]])
  have "sum_list (map (\<lambda>i. case put_files base (map (\<lambda>(rel, n, b). (rel, b)) (liars k n)) m (base @ [liar_name i]) of
      Some b \<Rightarrow> length b | None \<Rightarrow> 0) [0..<k]) = sum_list (map (\<lambda>i. n) [0..<k])" for base m
    by (intro arg_cong [where f = sum_list] map_cong) (auto simp: liars_stored)
  then show ?thesis by (simp add: run bytes_at_def comp_def sum_list_triv)
qed

section \<open>Two concrete gateways\<close>

definition demo_transfer :: "session_row list \<Rightarrow> (string list \<rightharpoonup> bytes) \<Rightarrow> transfer" where
  "demo_transfer rows files = lifecycle.extend (demo_life rows []) \<lparr> stored_files = files \<rparr>"

definition demo_files :: "string list \<rightharpoonup> bytes" where
  "demo_files = [[''data'', ''s'', ''device.db''] \<mapsto> [7, 8, 9]]"

definition demo_zip :: "zip_entry list \<Rightarrow> zip_lib" where
  "demo_zip es = \<lparr> zl_open = (\<lambda>_. Some es), zl_write = (\<lambda>_. [80, 75]) \<rparr>"

lemma demo_transfer_ready:
  "find_session ''s'' (demo_transfer [demo_row] files) = Some demo_row" "db_faults (demo_transfer rows files) = []"
  "fs_faults (demo_transfer rows files) = []" "stored_files (demo_transfer rows files) = files"
  "importable (demo_transfer [demo_row] files) ''s'' demo_row"
  "resolve_path (s_storage_path demo_row) = [''data'', ''s'']"
  by (simp_all add: demo_transfer_def importable_def find_session_def demo_row_def new_session_row_def lifecycle.defs demo_life_def
      runtime_of_def get_session_mem_def resolve_path_def path_step_def)

lemma import_stays_inside_witness:
  "written_inside [''data'', ''s''] (demo_transfer [demo_row] demo_files)
     (snd (import_session (demo_zip [plain_entry [''..'', ''evil''] 1 [1] \<lparr> ze_enclosed := None \<rparr>]) ''s'' (upload_of [])
       (demo_transfer [demo_row] demo_files)))"
proof -
  have "encloses (demo_zip [plain_entry [''..'', ''evil''] 1 [1] \<lparr> ze_enclosed := None \<rparr>])"
    by (simp add: encloses_def demo_zip_def)
  from import_stays_inside [OF this, where sid = "''s''" and w = "demo_transfer [demo_row] demo_files" and upload = "upload_of []"] show ?thesis
    by (simp add: demo_transfer_ready)
qed

lemma declared_sizes_bypass_total_witness:
  "MAX_IMPORT_TOTAL_UNCOMPRESSED_BYTES < bytes_at (stored_files (snd (import_session
     (demo_zip (archive_of (liars 5 (512 * 1024 * 1024)))) ''s'' (upload_of []) (demo_transfer [demo_row] Map.empty))))
      (map (\<lambda>i. resolve_path (s_storage_path demo_row) @ [liar_name i]) [0..<5])"
proof -
  let ?zl = "demo_zip (archive_of (liars 5 (512 * 1024 * 1024)))"
  have "zl_open ?zl [] = Some (archive_of (liars 5 (512 * 1024 * 1024)))" by (simp only: demo_zip_def zip_lib.select_convs)
  note run = declared_sizes_bypass_total [OF demo_transfer_ready(5) this]
  have "(5 :: nat) \<le> MAX_IMPORT_ENTRIES" "512 * 1024 * 1024 \<le> MAX_IMPORT_ENTRY_UNCOMPRESSED_BYTES"
    by (simp_all add: MAX_IMPORT_ENTRIES_def MAX_IMPORT_ENTRY_UNCOMPRESSED_BYTES_def)
  from run [OF this, of Map.empty, THEN conjunct2] show ?thesis by (simp add: MAX_IMPORT_TOTAL_UNCOMPRESSED_BYTES_def)
qed

definition demo_walk :: "string list list" where
  "demo_walk = [[''data'', ''s'', ''device.db'']]"

lemma export_import_roundtrip_witness:
  "stored_files (snd (import_session (demo_zip [plain_entry [''device.db''] 3 [7, 8, 9]]) ''s'' (upload_of [80, 75])
     (demo_transfer [demo_row] Map.empty))) [''data'', ''s'', ''device.db''] = Some [7, 8, 9]"
proof -
  let ?zl = "demo_zip [plain_entry [''device.db''] 3 [7, 8, 9]]" and ?w = "demo_transfer [demo_row] demo_files"
  have files: "listed_files demo_walk (resolve_path (s_storage_path demo_row)) ?w = [([''device.db''], [7, 8, 9])]"
    by (simp add: demo_transfer_ready listed_files_def demo_walk_def map_filter_def relative_to_def demo_files_def)
  have walk: "resolve_path (s_storage_path demo_row) @ rel \<in> set demo_walk"
    if "stored_files ?w (resolve_path (s_storage_path demo_row) @ rel) \<noteq> None" for rel
    using that by (simp add: demo_transfer_ready demo_walk_def demo_files_def split: if_splits)
  have "case export_session ?zl demo_walk ''s'' ?w of (Inl e, w') \<Rightarrow> False
    | (Inr archive, w') \<Rightarrow> import_session ?zl ''s'' (upload_of archive) (demo_transfer [demo_row] Map.empty) =
       (Inr (success_with_message ''Session storage imported - call /connect to bring it online''),
        (demo_transfer [demo_row] Map.empty)\<lparr>stored_files := overlaid (resolve_path (s_storage_path demo_row)) (stored_files ?w)
          (resolve_path (s_storage_path demo_row)) (stored_files (demo_transfer [demo_row] Map.empty))\<rparr>)"
    by (rule export_import_roundtrip [OF demo_transfer_ready(1,2,3) walk demo_transfer_ready(5)])
      (simp_all add: files, simp_all add: demo_zip_def archive_of_def sized_def fits_def plain_segment_def plain_entry_def
        MAX_IMPORT_ENTRY_UNCOMPRESSED_BYTES_def MAX_IMPORT_ENTRIES_def MAX_IMPORT_TOTAL_UNCOMPRESSED_BYTES_def)
  then show ?thesis
    by (simp add: export_run demo_transfer_ready demo_zip_def [of "[plain_entry [''device.db''] 3 [7, 8, 9]]"] overlaid_def relative_to_def demo_files_def)
qed

end
