(* ===== verification/Cloud_Facts.thy ===== *)
theory Cloud_Facts
  imports Cloud_Connection Flow_Crypto_Facts Event_Facts Transfer_Facts
begin

text \<open>
  What the Cloud API side promises: a delivery of Meta counts only when it is signed, and then
  each of its messages and statuses is announced once; an id in the path of an administration
  route is one segment of it, and what one and two dots do there; and where the checks fall short.
\<close>

section \<open>Deliveries\<close>

lemma cloud_announce_shape:
  obtains cs ring ds where "cloud_announce lib sid event t data w = w\<lparr>hub_circuits := cs, hub_ring := ring,
     gw_spawned := gw_spawned w @ ds, nats_published := nats_published w @ (if nats_connected w then [(sid, event,
       print_json lib (JObj [(''session_id'', JStr sid), (''event'', JStr event), (''timestamp'', JInt t),
         (''offline'', JBool False), (''data'', data)]))] else [])\<rparr>"
proof -
  let ?p = "print_json lib (JObj [(''session_id'', JStr sid), (''event'', JStr event), (''timestamp'', JInt t),
         (''offline'', JBool False), (''data'', data)])"
  obtain ring where push: "push_event lib sid event ?p w = w\<lparr>hub_ring := ring\<rparr>" by (simp add: push_event_def)
  obtain cs where cs: "snd (broadcast_loop sid event ?p (get_webhooks sid (w\<lparr>hub_ring := ring\<rparr>)) (w\<lparr>hub_ring := ring\<rparr>))
      = w\<lparr>hub_ring := ring, hub_circuits := cs\<rparr>"
    using broadcast_loop_more by blast
  show thesis
    by (rule that [where cs = cs and ring = ring and ds = "fst (broadcast_to_webhooks lib sid event ?p w)"])
      (simp add: cloud_announce_def publish_to_nats_def broadcast_to_webhooks_def Let_def split_beta push cs)
qed

definition cloud_text :: "libs \<Rightarrow> string \<Rightarrow> string \<Rightarrow> unix \<Rightarrow> json \<Rightarrow> string" where
  "cloud_text lib sid event t data = print_json lib (JObj [(''session_id'', JStr sid), (''event'', JStr event), (''timestamp'', JInt t),
     (''offline'', JBool False), (''data'', data)])"

lemma cloud_announce_frame [simp]:
  "nats_connected (cloud_announce lib sid event t d w) = nats_connected w"
  "nats_published (cloud_announce lib sid event t d w) = nats_published w @
     (if nats_connected w then [(sid, event, cloud_text lib sid event t d)] else [])"
  "sessions (cloud_announce lib sid event t d w) = sessions w"
  "gw_sessions (cloud_announce lib sid event t d w) = gw_sessions w"
  by (rule cloud_announce_shape [of lib sid event t d w]; simp add: cloud_text_def)+

lemma fold_announce:
  "nats_connected (fold (cloud_announce lib sid event t) ds w) = nats_connected w"
  "nats_published (fold (cloud_announce lib sid event t) ds w) = nats_published w @
     (if nats_connected w then map (\<lambda>d. (sid, event, cloud_text lib sid event t d)) ds else [])"
  "sessions (fold (cloud_announce lib sid event t) ds w) = sessions w"
  "gw_sessions (fold (cloud_announce lib sid event t) ds w) = gw_sessions w"
  by (induction ds arbitrary: w) simp_all

text \<open>The header Meta would send for a body: the MAC of the raw bytes under the app's secret.\<close>

definition signed_by :: "'k crypto_lib \<Rightarrow> cloud_credentials \<Rightarrow> bytes \<Rightarrow> string option \<Rightarrow> bool" where
  "signed_by cy cr body signature \<longleftrightarrow> (\<exists>h mac. signature = Some (''sha256='' @ h) \<and> cy_mac cy (cc_app_secret cr) = Some mac \<and>
     cy_hex cy h = Some (mac body))"

lemma verify_signature_iff: "verify_signature cy (cc_app_secret cr) body signature = signed_by cy cr body signature"
proof
  assume "verify_signature cy (cc_app_secret cr) body signature"
  then obtain s sig mac where s: "signature = Some s" "take 7 s = ''sha256=''" "cy_hex cy (drop 7 s) = Some sig"
      "cy_mac cy (cc_app_secret cr) = Some mac" "mac body = sig"
    by (auto simp: verify_signature_def starts_with_def eval_nat_numeral split: option.splits if_splits)
  then have "s = ''sha256='' @ drop 7 s" by (metis append_take_drop_id)
  with s show "signed_by cy cr body signature" by (auto simp: signed_by_def)
qed (auto simp: signed_by_def verify_signature_def starts_with_def)

lemma known_credentials_world: "snd (known_credentials sid w) = w\<lparr>db_faults := tl (db_faults w)\<rparr>"
  by (auto simp: known_credentials_def get_cloud_credentials_def db_read_run split: list.splits option.splits)

text \<open>
  C20. A delivery is taken only as signed by the session's app: any answer but 200 announces
  nothing, and 200 means that the session has Cloud credentials, the signature is the MAC of the
  body under their secret, and every message and then every status of the body was published
  once, in order, where NATS is connected. At every failure point of the database.
\<close>

theorem cloud_delivery_signed:
  shows "case cloud_webhook_receive lib cy sid signature body w of (code, w') \<Rightarrow>
    sessions w' = sessions w \<and> gw_sessions w' = gw_sessions w \<and>
    (if code \<noteq> 200 then w' = w\<lparr>db_faults := tl (db_faults w)\<rparr>
     else \<exists>cr payload. Option.bind (find_session sid w) row_to_credentials = Some cr \<and> signed_by cy cr body signature \<and>
       cy_from_slice cy body = Some payload \<and>
       nats_published w' = nats_published w @ (if nats_connected w then
           map (\<lambda>d. (sid, ''message'', cloud_text (cb_libs lib) sid ''message'' (db_now w) d)) (normalize_messages (cb_libs lib) (db_now w) payload) @
           map (\<lambda>d. (sid, ''receipt'', cloud_text (cb_libs lib) sid ''receipt'' (db_now w) d)) (normalize_statuses payload)
         else []))"
proof -
  obtain c w1 where k: "known_credentials sid w = (c, w1)" by fastforce
  then have w1: "w1 = w\<lparr>db_faults := tl (db_faults w)\<rparr>" using known_credentials_world [of sid w] by simp
  show ?thesis
  proof (cases c)
    case None
    then show ?thesis by (simp add: cloud_webhook_receive_def k w1)
  next
    case (Some cr)
    then have cr: "Option.bind (find_session sid w) row_to_credentials = Some cr"
      using k by (auto simp: known_credentials_def get_cloud_credentials_def db_read_run split: list.splits option.splits)
    show ?thesis
    proof (cases "signed_by cy cr body signature")
      case False
      with Some show ?thesis by (simp add: cloud_webhook_receive_def k w1 verify_signature_iff)
    next
      case signed: True
      show ?thesis
      proof (cases "cy_from_slice cy body")
        case None
        with signed Some show ?thesis by (simp add: cloud_webhook_receive_def k w1 verify_signature_iff)
      next
        case (Some payload)
        with signed \<open>c = Some cr\<close> cr show ?thesis
          by (simp add: cloud_webhook_receive_def k w1 fold_announce Let_def verify_signature_iff)
      qed
    qed
  qed
qed

section \<open>Ids in paths\<close>

text \<open>The administration routes that put an id of the caller into the path of the Graph call.\<close>

datatype id_route =
    GetTemplate
  | EditTemplate "string option" "json option" "int option"
  | DeleteQrCode
  | LineAllocations
  | ShareLine string
  | GetSharing
  | RevokeSharing
  | FlowMetrics string string "string option" "string option"

fun run_id_route :: "cloud_lib \<Rightarrow> string \<Rightarrow> id_route \<Rightarrow> string \<Rightarrow> ('w, json) cloud_handler" where
  "run_id_route lib sid GetTemplate i = get_template lib sid i"
| "run_id_route lib sid (EditTemplate category components ttl) i = edit_template lib sid i category components ttl"
| "run_id_route lib sid DeleteQrCode i = delete_qr_code lib sid i"
| "run_id_route lib sid LineAllocations i = credit_line_allocations lib sid i"
| "run_id_route lib sid (ShareLine currency) i = share_credit_line lib sid i currency"
| "run_id_route lib sid GetSharing i = get_credit_sharing lib sid i"
| "run_id_route lib sid RevokeSharing i = revoke_credit_sharing lib sid i"
| "run_id_route lib sid (FlowMetrics metric granularity since until) i = flow_metrics lib sid i metric granularity since until"

text \<open>What the route puts before and after the id.\<close>

fun around_id :: "id_route \<Rightarrow> string \<Rightarrow> string \<times> string" where
  "around_id DeleteQrCode pn = (pn @ ''/message_qrdls/'', [])"
| "around_id LineAllocations pn = ([], ''/owning_credit_allocation_configs'')"
| "around_id (ShareLine currency) pn = ([], ''/whatsapp_credit_sharing_and_attach'')"
| "around_id _ pn = ([], [])"

text \<open>At most one call is made, to that path, with the token of the session.\<close>

definition calls_path :: "cloud_lib \<Rightarrow> (string \<Rightarrow> string) \<Rightarrow> 'w outbound_scheme \<Rightarrow> 'w outbound_scheme \<Rightarrow> bool" where
  "calls_path lib path w w' \<longleftrightarrow> http_calls w' = http_calls w \<or>
     (\<exists>c cl. http_calls w' = http_calls w @ [c] \<and> hc_headers c = bearer cl \<and>
        base_url cl = signup_base lib \<and> hc_url c = signup_base lib @ ''/'' @ path (phone_number_id cl))"

definition same_calls :: "'w outbound_scheme \<Rightarrow> 'w outbound_scheme \<Rightarrow> bool" where
  "same_calls w w' \<longleftrightarrow> http_calls w' = http_calls w"

lemma reads_same_calls:
  "http_calls (snd (get_cloud_credentials sid w)) = http_calls w" "http_calls (snd (get_session sid w)) = http_calls w"
  by (auto simp: get_cloud_credentials_def get_session_def db_read_run split: list.splits option.splits)

lemma load_ctx_calls:
  assumes "load_ctx lib sid w = (res, w')"
  shows "http_calls w' = http_calls w" and "res = Inr c \<Longrightarrow> base_url (cx_client c) = signup_base lib"
  using assms
  by (auto simp: load_ctx_def db_bind_def db_map_err_def db_fail_def db_return_def get_cloud_credentials_def get_session_def
      db_read_run cloud_client_new_def signup_base_def split: list.splits option.splits)

lemma ctx_call_calls:
  "http_calls (snd (ctx_call lib c m path query body w)) = http_calls w @
     [\<lparr> hc_method = m, hc_url = base_url (cx_client c) @ ''/'' @ path, hc_headers = bearer (cx_client c), hc_query = query,
        hc_body = (case body of None \<Rightarrow> NoBody | Some b \<Rightarrow> JsonBody b) \<rparr>]"
  by (simp add: ctx_call_def graph_def http_json_def http_send_def db_bind_def db_map_err_def Let_def split: sum.split prod.split)

definition around :: "id_route \<Rightarrow> string \<Rightarrow> string \<Rightarrow> string" where
  "around r i pn = fst (around_id r pn) @ i @ snd (around_id r pn)"

lemma calls_path_refl [simp]: "calls_path lib path w w"
  by (simp add: calls_path_def)

lemma ensure_calls: "(\<And>a. r = Inr a \<Longrightarrow> calls_path lib path w (snd (k a w))) \<Longrightarrow> calls_path lib path w (snd (ensure r k w))"
  by (cases r) (simp_all add: ensure_def db_fail_def)

lemma loaded_call:
  assumes "\<And>c w1. load_ctx lib sid w = (Inr c, w1) \<Longrightarrow>
     (\<exists>m q b. k c w1 = ctx_call lib c m (path (phone_number_id (cx_client c))) q b w1) \<or> snd (k c w1) = w1"
  shows "calls_path lib path w (snd (db_bind (load_ctx lib sid) k w))"
proof -
  obtain res w1 where ld: "load_ctx lib sid w = (res, w1)" by fastforce
  note calls = load_ctx_calls(1) [OF ld]
  show ?thesis
  proof (cases res)
    case (Inl e)
    then show ?thesis by (simp add: db_bind_def ld calls_path_def calls)
  next
    case (Inr c)
    then have base: "base_url (cx_client c) = signup_base lib" using load_ctx_calls(2) [OF ld] by blast
    from assms [of c w1] ld Inr consider m q b where "k c w1 = ctx_call lib c m (path (phone_number_id (cx_client c))) q b w1" | "snd (k c w1) = w1"
      by blast
    then show ?thesis
      by cases (auto simp: db_bind_def ld Inr calls_path_def ctx_call_calls base calls)
  qed
qed

lemma on_path_calls: "calls_path lib (\<lambda>_. path) w (snd (on_path lib sid m path q b w))"
  unfolding on_path_def by (rule loaded_call) blast

lemma on_phone_calls: "calls_path lib (\<lambda>pn. pn @ below) w (snd (on_phone lib sid m below q b w))"
  unfolding on_phone_def by (rule loaded_call) (auto simp: phone_def)

lemma path_id_ok: "path_id raw what = Inr i \<Longrightarrow> i = raw \<and> graph_id raw = Some raw"
  by (auto simp: path_id_def graph_id_def split: option.splits if_splits)

lemma checked_id:
  assumes "graph_id raw = Some raw \<Longrightarrow> calls_path lib path w (snd (k raw w))"
  shows "calls_path lib path w (snd (ensure (path_id raw what) k w))"
  by (rule ensure_calls) (use assms path_id_ok in blast)

lemma unchecked_id: "graph_id raw \<noteq> Some raw \<Longrightarrow> http_calls (snd (ensure (path_id raw what) k w)) = http_calls w"
  by (auto simp: ensure_def path_id_def db_fail_def graph_id_def split: option.splits if_splits)

lemma around_eqs:
  "around GetTemplate i = (\<lambda>_. i)" "around (EditTemplate ca co ttl) i = (\<lambda>_. i)"
  "around DeleteQrCode i = (\<lambda>pn. pn @ ''/message_qrdls/'' @ i)"
  "around LineAllocations i = (\<lambda>_. i @ ''/owning_credit_allocation_configs'')"
  "around (ShareLine cu) i = (\<lambda>_. i @ ''/whatsapp_credit_sharing_and_attach'')"
  "around GetSharing i = (\<lambda>_. i)" "around RevokeSharing i = (\<lambda>_. i)" "around (FlowMetrics me gr si un) i = (\<lambda>_. i)"
  by (auto simp: around_def)

lemma share_line_calls:
  "calls_path lib (\<lambda>_. i @ ''/whatsapp_credit_sharing_and_attach'') w (snd (share_credit_line lib sid i currency w))"
  unfolding share_credit_line_def
  by (rule checked_id, rule loaded_call) (auto simp: ensure_def db_fail_def split: sum.splits)

lemma flow_metrics_calls: "calls_path lib (\<lambda>_. i) w (snd (flow_metrics lib sid i metric granularity since until w))"
  unfolding flow_metrics_def by (rule checked_id, (rule ensure_calls)+, rule on_path_calls)

lemma run_id_route_path: "calls_path lib (around r i) w (snd (run_id_route lib sid r i w))"
proof (cases r)
  case (EditTemplate category components ttl)
  then show ?thesis
    by (auto simp: edit_template_def around_eqs Let_def db_fail_def on_path_calls intro!: checked_id)
qed (auto simp: get_template_def delete_qr_code_def credit_line_allocations_def get_credit_sharing_def revoke_credit_sharing_def
    around_eqs on_path_calls on_phone_calls share_line_calls flow_metrics_calls intro!: checked_id)

lemma run_id_route_unchecked: "graph_id i \<noteq> Some i \<Longrightarrow> http_calls (snd (run_id_route lib sid r i w)) = http_calls w"
  by (cases r) (simp_all add: get_template_def edit_template_def delete_qr_code_def credit_line_allocations_def share_credit_line_def
      get_credit_sharing_def revoke_credit_sharing_def flow_metrics_def unchecked_id)

lemma graph_chars: "graph_id i = Some i \<Longrightarrow> set i \<inter> set ''/?#%&:'' = {}"
  by (auto simp: graph_id_def list_all_iff graph_char_def is_digit_def split: if_splits)

text \<open>The segments of a path of a call, dot segments resolved.\<close>

lemma resolve_sep: "resolve_path (q @ CHR ''/'' # r) = foldl path_step (resolve_path q) (split_on (CHR ''/'') r)"
  using split_on_sep [of "CHR ''/''" q r] by (simp add: resolve_path_def)

lemma resolve_one: "CHR ''/'' \<notin> set i \<Longrightarrow> resolve_path (q @ CHR ''/'' # i) = path_step (resolve_path q) i"
  by (simp add: resolve_sep split_on_free)

lemma resolve_end: "resolve_path (q @ ''/'') = resolve_path q"
  using resolve_one [of "[]" q] by (simp add: path_step_def)

lemma around_shapes:
  obtains (qr) "around_id r pn = (pn @ ''/message_qrdls/'', [])"
  | (below) x where "around_id r pn = ([], CHR ''/'' # x)" "CHR ''/'' \<notin> set x" "plain_segment x"
  | (alone) "around_id r pn = ([], [])"
  by (cases r) (auto simp: plain_segment_def)

lemma around_resolved:
  assumes i: "CHR ''/'' \<notin> set i"
  shows "resolve_path (ver @ ''/'' @ fst (around_id r pn) @ i @ snd (around_id r pn)) =
    path_step (resolve_path (ver @ ''/'' @ fst (around_id r pn))) i @ resolve_path (snd (around_id r pn))"
proof (cases r pn rule: around_shapes)
  case qr
  have "resolve_path (ver @ ''/'' @ pn @ ''/message_qrdls/'') = resolve_path (ver @ ''/'' @ pn @ ''/message_qrdls'')"
    using resolve_end [of "ver @ ''/'' @ pn @ ''/message_qrdls''"] by simp
  then show ?thesis
    using resolve_one [OF i, of "ver @ ''/'' @ pn @ ''/message_qrdls''"] by (simp add: qr resolve_path_def [of "[]"] path_step_def [of "[]"])
next
  case (below x)
  have x: "resolve_path (q @ CHR ''/'' # x) = resolve_path q @ [x]" for q
    using below(3) by (simp add: resolve_one [OF below(2)] path_step_def plain_segment_def)
  show ?thesis
    using x [of "ver @ ''/'' @ i"] x [of "[]"] resolve_one [OF i, of ver] resolve_end [of ver] by (simp add: below(1) resolve_path_def [of "[]"] path_step_def [of "[]"])
next
  case alone
  show ?thesis
    using resolve_one [OF i, of ver] resolve_end [of ver] by (simp add: alone resolve_path_def [of "[]"] path_step_def [of "[]"])
qed

text \<open>
  C22. What an id in the path of an administration call can do. Such a route makes at most one call,
  with the token of its session, to Meta's API at the id between the fixed parts of the route, and
  only for an id of 1 to 128 characters without slash, question mark, number sign, percent sign,
  ampersand or colon. Once dot segments are resolved, as HTTP clients do, such an id is exactly one
  segment of the path between the fixed ones, unless it is one dot, which drops it, or two dots,
  which drop the segment before it as well.
\<close>

theorem admin_ids_are_one_segment:
  shows "http_calls (snd (run_id_route lib sid r i w)) = http_calls w \<or>
    (\<exists>c cl path. http_calls (snd (run_id_route lib sid r i w)) = http_calls w @ [c] \<and> hc_headers c = bearer cl \<and>
       hc_url c = ''https://graph.facebook.com/'' @ path \<and>
       path = api_version lib @ ''/'' @ fst (around_id r (phone_number_id cl)) @ i @ snd (around_id r (phone_number_id cl)) \<and>
       set i \<inter> set ''/?#%&:'' = {} \<and> i \<noteq> [] \<and> length i \<le> 128 \<and>
       resolve_path path =
         (let front = resolve_path (api_version lib @ ''/'' @ fst (around_id r (phone_number_id cl)))
          in if i = ''.'' then front else if i = ''..'' then butlast front else front @ [i]) @
         resolve_path (snd (around_id r (phone_number_id cl))))"
proof (cases "graph_id i = Some i")
  case True
  then have i: "i \<noteq> []" "length i \<le> 128" by (auto simp: graph_id_def split: if_splits)
  then have "path_step front i = (if i = ''.'' then front else if i = ''..'' then butlast front else front @ [i])" for front
    by (simp add: path_step_def)
  moreover have "CHR ''/'' \<notin> set i" using graph_chars [OF True] by auto
  ultimately have "resolve_path (api_version lib @ ''/'' @ fst (around_id r pn) @ i @ snd (around_id r pn)) =
      (let front = resolve_path (api_version lib @ ''/'' @ fst (around_id r pn))
       in if i = ''.'' then front else if i = ''..'' then butlast front else front @ [i]) @ resolve_path (snd (around_id r pn))" for pn
    using around_resolved [of i "api_version lib" r pn] by (simp add: Let_def)
  with run_id_route_path [of lib r i w sid] graph_chars [OF True] i show ?thesis
    unfolding calls_path_def around_def signup_base_def by (auto simp del: append.simps)
qed (simp add: run_id_route_unchecked)

section \<open>Where the check of ids falls short\<close>

lemma loaded_client:
  assumes "load_ctx lib sid w = (Inr c, w1)"
  obtains cr w2 where "get_cloud_credentials sid w = (Inr (Some cr), w2)" "cx_client c = client_of lib cr"
    "http_calls w2 = http_calls w" "http_calls w1 = http_calls w"
proof -
  from assms obtain cr w2 where k: "get_cloud_credentials sid w = (Inr (Some cr), w2)" "cx_client c = client_of lib cr"
    by (auto simp: load_ctx_def db_bind_def db_map_err_def db_fail_def db_return_def client_of_def split: prod.splits sum.splits option.splits)
  then show thesis
    using that reads_same_calls(1) [of sid w] load_ctx_calls(1) [OF assms] by simp
qed

lemma http_json_calls: "http_calls (snd (http_json lib c w)) = http_calls w @ [c]"
  by (simp add: http_json_def http_send_def db_bind_def Let_def split: sum.split)

lemma db_map_err_snd [simp]: "snd (db_map_err f m w) = snd (m w)"
  by (simp add: db_map_err_def split: prod.split sum.split)

text \<open>
  C23. Where a caller's text reaches the path unchecked. Deleting a Flow sends a DELETE with the
  session's token to whatever text the caller gave, slashes and queries included, and deleting media
  does so up to the query; and deleting a QR code takes two dots for an id, so that its DELETE is
  for the phone number itself. The module of the Graph calls promises that every such segment is
  checked first.
\<close>

theorem ids_steer_token:
  assumes "load_ctx lib sid w = (Inr c, w1)"
  shows "http_calls (snd (delete_flow_api lib sid any w)) =
      http_calls w @ [plain_call DELETE (base_url (cx_client c) @ ''/'' @ any) (cx_client c) NoBody] \<and>
    http_calls (snd (cloud_delete_media lib sid any w)) =
      http_calls w @ [plain_call DELETE (base_url (cx_client c) @ ''/'' @ any @ ''?phone_number_id='' @ phone c) (cx_client c) NoBody] \<and>
    http_calls (snd (delete_qr_code lib sid ''..'' w)) =
      http_calls w @ [plain_call DELETE (base_url (cx_client c) @ ''/'' @ phone c @ ''/message_qrdls/..'') (cx_client c) NoBody] \<and>
    resolve_path (phone c @ ''/message_qrdls/..'') = resolve_path (phone c)"
proof -
  obtain cr w2 where k: "get_cloud_credentials sid w = (Inr (Some cr), w2)" "cx_client c = client_of lib cr"
      "http_calls w2 = http_calls w" "http_calls w1 = http_calls w"
    using loaded_client [OF assms] .
  have "http_calls (snd (delete_flow_api lib sid any w)) =
      http_calls w @ [plain_call DELETE (base_url (cx_client c) @ ''/'' @ any) (cx_client c) NoBody]"
    by (simp add: delete_flow_api_def flow_call_def cloud_creds_def with_credentials_def db_bind_def db_map_err_def k db_return_def
        delete_flow_def delete_json_def http_json_calls split: prod.split sum.split)
      (metis http_json_calls k(3) snd_conv)
  moreover have "http_calls (snd (cloud_delete_media lib sid any w)) =
      http_calls w @ [plain_call DELETE (base_url (cx_client c) @ ''/'' @ any @ ''?phone_number_id='' @ phone c) (cx_client c) NoBody]"
    by (simp add: cloud_delete_media_def cloud_client_for_def with_credentials_def db_bind_def k db_return_def
        delete_media_def media_url_def http_json_calls phone_def db_map_err_def [of Internal])
  moreover have "graph_id ''..'' = Some ''..''" by (simp add: graph_id_def graph_char_def)
  then have "http_calls (snd (delete_qr_code lib sid ''..'' w)) =
      http_calls w @ [plain_call DELETE (base_url (cx_client c) @ ''/'' @ phone c @ ''/message_qrdls/..'') (cx_client c) NoBody]"
    using assms k by (simp add: delete_qr_code_def path_id_def ensure_def on_phone_def db_bind_def ctx_call_calls plain_call_def)
  moreover have "resolve_path (phone c @ ''/message_qrdls/..'') = resolve_path (phone c)"
    using split_on_sep [of "CHR ''/''" "phone c" "''message_qrdls/..''"] by (simp add: resolve_path_def path_step_def)
  ultimately show ?thesis by blast
qed

definition demo_cloud_row :: session_row where
  "demo_cloud_row = (new_session_row 0 ''c'' None ''/data/c'')\<lparr>s_provider := ''whatsapp_cloud'', s_phone_number_id := Some ''77'',
     s_access_token := Some ''t'', s_app_secret := Some ''k''\<rparr>"

definition demo_outbound :: "session_row list \<Rightarrow> outbound" where
  "demo_outbound rows = lifecycle.extend (demo_life rows []) \<lparr> http_calls = [] \<rparr>"

definition demo_cloud_lib :: cloud_lib where
  "demo_cloud_lib = \<lparr> cb_answer = (\<lambda>_. Inl ''offline''), cb_libs = demo_libs, cb_env = (\<lambda>_. None), cb_f64 = (\<lambda>_. ''0''),
     cb_mime_ok = (\<lambda>_. True), cb_net = \<lparr> parse_url = (\<lambda>_. Inl ''none''), lookup_host = (\<lambda>_ _. Inl ''none''), show_ip = (\<lambda>_. []) \<rparr>, cb_is_date = (\<lambda>_. True) \<rparr>"

lemma demo_outbound_loads:
  "load_ctx demo_cloud_lib ''c'' (demo_outbound [demo_cloud_row]) = (Inr \<lparr> cx_client = cloud_client_new demo_cloud_lib ''77'' ''t'',
     cx_info = row_to_session demo_cloud_row \<rparr>, demo_outbound [demo_cloud_row])"
  by (simp add: load_ctx_def get_cloud_credentials_def get_session_def db_read_run demo_outbound_def lifecycle.defs demo_life_def
      db_bind_def db_map_err_def db_return_def find_session_def demo_cloud_row_def new_session_row_def row_to_credentials_def or_empty_def)

lemma ids_steer_token_witness:
  "http_calls (snd (delete_flow_api demo_cloud_lib ''c'' ''88/messages?to=1'' (demo_outbound [demo_cloud_row]))) =
     [plain_call DELETE ''https://graph.facebook.com/v21.0/88/messages?to=1'' (cloud_client_new demo_cloud_lib ''77'' ''t'') NoBody]"
  using ids_steer_token [OF demo_outbound_loads, of "''88/messages?to=1''"]
  by (simp add: demo_outbound_def lifecycle.defs cloud_client_new_def api_version_def demo_cloud_lib_def)

text \<open>
  The data-exchange route tells which step of the decryption failed. For a signed request whose
  payload is not base64, the answer is 421 where the wrapped AES key does not unwrap under the
  session's key and 400 where it does; the module promises one answer for every failure. Nothing of
  the gateway's state changes.
\<close>

theorem flow_status_tells_key:
  assumes "find_session sid w = Some row" and "row_to_credentials row = Some cr" and "db_faults w = []"
    and "cc_flow_private_key cr = Some pem" and "parse_private_key cy pem = Inr key" and "cy_oaep_key cy key"
    and "signed_by cy cr body signature" and "cy_from_slice cy body = Some envelope"
    and "text_field ''encrypted_aes_key'' envelope = Some k" and "cy_b64_decode cy k = Some wrapped"
    and "text_field ''encrypted_flow_data'' envelope = Some d" and "cy_b64_decode cy d = None"
    and "text_field ''initial_vector'' envelope = Some v" and "cy_b64_decode cy v = Some iv"
  shows "flow_data_exchange cy forward sid signature body w =
    (case cy_oaep_decrypt cy key wrapped of
       Some aes \<Rightarrow> if length aes = 16 then (400, ''malformed request'') else (421, ''decryption failed'')
     | None \<Rightarrow> (421, ''decryption failed''), w)"
proof -
  have "known_credentials sid w = (Some cr, w)"
    using assms(1-3) by (simp add: known_credentials_def get_cloud_credentials_def db_read_run)
  moreover have "\<exists>e. read_iv cy v = Inl (Malformed e) \<or> read_iv cy v = Inr iv" using assms(14) by (simp add: read_iv_def)
  ultimately show ?thesis
    using assms by (auto simp: flow_data_exchange_def verify_signature_iff decrypt_request_def unwrap_key_def open_payload_def
        split: option.split)
qed

definition demo_envelope :: json where
  "demo_envelope = JObj [(''encrypted_aes_key'', JStr ''B''), (''encrypted_flow_data'', JStr ''!''), (''initial_vector'', JStr ''B'')]"

text \<open>A library whose base64 refuses an exclamation mark, and whose wrapped keys have the given length.\<close>

definition wrapping_crypto :: "nat \<Rightarrow> unit crypto_lib" where
  "wrapping_crypto n = demo_crypto\<lparr>cy_b64_decode := (\<lambda>s. if s = ''!'' then None else Some (unary_decode 0 s)),
     cy_from_slice := (\<lambda>_. Some demo_envelope), cy_oaep_decrypt := (\<lambda>_ _. Some (replicate n 9))\<rparr>"

lemma unary_letters: "CHR ''!'' \<notin> set (unary_encode b)" "CHR ''-'' \<notin> set (unary_encode b)" "list_all (\<lambda>c. \<not> is_ws c) (unary_encode b)"
  by (auto simp: unary_encode_def list_all_iff is_ws_def)

lemma wrapping_key: "parse_private_key (wrapping_crypto n) (pem_encode (wrapping_crypto n) ''PRIVATE KEY'' [5]) = Inr ()"
proof (rule stored_key_loads)
  show "base64_law (wrapping_crypto n)"
  proof (unfold base64_law_def, intro allI conjI)
    fix b
    have "unary_encode b \<noteq> ''!''" using unary_letters(1) [of b] by auto
    then show "cy_b64_decode (wrapping_crypto n) (cy_b64_encode (wrapping_crypto n) b) = Some b"
      by (simp add: wrapping_crypto_def demo_crypto_def unary_roundtrip)
    show "list_all (\<lambda>c. c \<noteq> CHR ''-'' \<and> \<not> is_ws c) (cy_b64_encode (wrapping_crypto n) b)"
      using unary_letters(2,3) [of b] by (auto simp: wrapping_crypto_def demo_crypto_def list_all_iff)
  qed
qed (auto simp: wrapping_crypto_def demo_crypto_def private_key_pem_def or_error_def)

definition demo_flow_row :: "nat \<Rightarrow> session_row" where
  "demo_flow_row n = demo_cloud_row\<lparr>s_flow_private_key := Some (pem_encode (wrapping_crypto n) ''PRIVATE KEY'' [5])\<rparr>"

lemma flow_status_tells_key_witness:
  "fst (fst (flow_data_exchange (wrapping_crypto 16) (\<lambda>_ _ _. Inl []) ''c'' (Some ''sha256='') [] (demo_outbound [demo_flow_row 16]))) = 400 \<and>
   fst (fst (flow_data_exchange (wrapping_crypto 15) (\<lambda>_ _ _. Inl []) ''c'' (Some ''sha256='') [] (demo_outbound [demo_flow_row 15]))) = 421"
proof -
  have "flow_data_exchange (wrapping_crypto n) (\<lambda>_ _ _. Inl []) ''c'' (Some ''sha256='') [] (demo_outbound [demo_flow_row n]) =
      (if n = 16 then (400, ''malformed request'') else (421, ''decryption failed''), demo_outbound [demo_flow_row n])" for n
    using flow_status_tells_key [OF _ _ _ _ wrapping_key [of n], where w = "demo_outbound [demo_flow_row n]" and sid = "''c''"
        and row = "demo_flow_row n" and cr = "the (row_to_credentials (demo_flow_row n))" and signature = "Some ''sha256=''"
        and body = "[]" and envelope = demo_envelope and k = "''B''" and wrapped = "[0]" and d = "''!''" and v = "''B''" and iv = "[0]"
        and forward = "\<lambda>_ _ _. Inl []"]
    by (simp add: demo_outbound_def lifecycle.defs demo_life_def find_session_def demo_flow_row_def demo_cloud_row_def
        new_session_row_def row_to_credentials_def or_empty_def wrapping_crypto_def demo_crypto_def signed_by_def demo_envelope_def
        text_field_def)
  then show ?thesis by simp
qed

end
