(* ===== verification/New_Chat_Facts.thy ===== *)
theory New_Chat_Facts
  imports New_Chats
begin

text \<open>
  What the new-chat limit guarantees: the wait it names is exact, serialized admissions never
  put more chats into the window than allowed, a failed send leaves nothing behind, the
  query endpoint predicts the admission, and stored limits keep every handler from panicking.
\<close>

section \<open>The wait\<close>

lemma few_above_iff:
  assumes "sorted (ys :: int list)" and "1 \<le> k" and "k \<le> length ys"
  shows "length (filter (\<lambda>y. c < y) ys) < k \<longleftrightarrow> ys ! (length ys - k) \<le> c"
proof
  let ?n = "length ys"
  assume le: "ys ! (?n - k) \<le> c"
  have n: "?n - k < ?n" using assms(2,3) by linarith
  have "i \<in> {?n - k <..< ?n}" if i: "i < ?n" "c < ys ! i" for i
    using sorted_nth_mono [OF assms(1), of i "?n - k"] i le n by (cases "i \<le> ?n - k") simp_all
  then have "card {i. i < ?n \<and> c < ys ! i} \<le> card {?n - k <..< ?n}" by (intro card_mono) auto
  then show "length (filter (\<lambda>y. c < y) ys) < k" using assms(2,3) by (simp add: length_filter_conv_card)
next
  let ?n = "length ys"
  assume few: "length (filter (\<lambda>y. c < y) ys) < k"
  show "ys ! (?n - k) \<le> c"
  proof (rule ccontr)
    assume gt: "\<not> ys ! (?n - k) \<le> c"
    have "c < ys ! i" if "?n - k \<le> i" "i < ?n" for i
      using sorted_nth_mono [OF assms(1) that] gt by simp
    then have "card {?n - k ..< ?n} \<le> card {i. i < ?n \<and> c < ys ! i}" by (intro card_mono) auto
    then show False using few assms(3) by (simp add: length_filter_conv_card)
  qed
qed

lemma retry_after_room:
  "1 \<le> mx \<Longrightarrow> retry_after started now mx wh = Some None \<longleftrightarrow> count_since started now wh < mx"
  by (auto simp: retry_after_def count_since_def Let_def)

lemma retry_after_total:
  "1 \<le> mx \<Longrightarrow> retry_after started now mx wh \<noteq> None"
  by (auto simp: retry_after_def Let_def)

text \<open>C34. The wait the limit names is exact. With a limit of at least one the computation never panics;
  it names a wait exactly when nothing remains in the window; and when it names \<open>s\<close> seconds,
  with no further chat started the limit refuses at every moment before \<open>s\<close> seconds have
  passed and at none from then on.\<close>

theorem retry_after_exact:
  assumes "sorted started" and "1 \<le> mx"
  shows "case retry_after started now mx wh of
      None \<Rightarrow> False
    | Some None \<Rightarrow> 0 < remaining started now mx wh
    | Some (Some s) \<Rightarrow> remaining started now mx wh = 0 \<and> 1 \<le> s \<and>
        (\<forall>t \<ge> now. (retry_after started t mx wh = Some None) = (now + s \<le> t))"
proof (cases "count_since started now wh < mx")
  case True
  then show ?thesis using retry_after_room [OF assms(2), of started now wh] by (simp add: remaining_def)
next
  case False
  let ?iw = "filter (\<lambda>t. now - wh * HOUR < t) started" and ?k = "nat mx"
  have k: "1 \<le> ?k" "?k \<le> length ?iw" "max 1 mx = mx"
    using False assms(2) by (auto simp: count_since_def)
  define f where "f = ?iw ! (length ?iw - ?k)"
  have "f \<in> set ?iw" unfolding f_def using k by (intro nth_mem) simp
  then have f: "now - wh * HOUR < f" by simp
  have run: "retry_after started now mx wh = Some (Some (f + wh * HOUR - now))"
    using False k f by (simp add: retry_after_def Let_def count_since_def f_def)
  have "(retry_after started t mx wh = Some None) = (now + (f + wh * HOUR - now) \<le> t)" if "now \<le> t" for t
  proof -
    have "filter (\<lambda>x. t - wh * HOUR < x) started = filter (\<lambda>x. t - wh * HOUR < x) ?iw"
      using that by (auto intro!: filter_cong)
    then have "count_since started t wh < mx \<longleftrightarrow> length (filter (\<lambda>x. t - wh * HOUR < x) ?iw) < ?k"
      using assms(2) by (auto simp: count_since_def)
    also have "\<dots> \<longleftrightarrow> f \<le> t - wh * HOUR"
      unfolding f_def using k assms(1) by (intro few_above_iff sorted_wrt_filter) auto
    finally show ?thesis using retry_after_room [OF assms(2)] by auto
  qed
  then show ?thesis using run f False by (simp add: remaining_def)
qed

lemma retry_after_exact_witness:
  "retry_after [0, 90000, 100000] 101000 2 24 = Some (Some 75400) \<and>
   retry_after [0, 90000, 100000] 176399 2 24 \<noteq> Some None \<and> retry_after [0, 90000, 100000] 176400 2 24 = Some None"
proof -
  have run: "retry_after [0, 90000, 100000] 101000 2 24 = Some (Some 75400)"
    by (simp add: retry_after_def HOUR_def Let_def)
  then have "\<forall>t \<ge> 101000. (retry_after [0, 90000, 100000] t 2 24 = Some None) = (101000 + 75400 \<le> t)"
    using retry_after_exact [of "[0, 90000, 100000]" 2 101000 24] by simp
  from this [rule_format, of 176399] this [rule_format, of 176400] run show ?thesis by simp
qed

section \<open>Admission on a database that answers\<close>

definition add_chat :: "string \<Rightarrow> string \<Rightarrow> 'w new_chat_db_scheme \<Rightarrow> 'w new_chat_db_scheme" where
  "add_chat sid jid w = w\<lparr>new_chats := new_chats w @ [\<lparr> nc_session = sid, nc_chat = jid, nc_created_at = db_now w \<rparr>]\<rparr>"

text \<open>What the limit says about a new chat now.\<close>

definition limit_verdict :: "string \<Rightarrow> 'w new_chat_db_scheme \<Rightarrow> (int \<times> int \<times> int) option option" where
  "limit_verdict sid w = (case find_limit sid (new_chat_limits w) of
      None \<Rightarrow> Some None
    | Some (mx, wh) \<Rightarrow> map_option (map_option (\<lambda>s. (mx, wh, s)))
        (retry_after (started_times sid (db_now w - wh * HOUR) (new_chats w)) (db_now w) mx wh))"

lemma limit_hit_run:
  "db_faults w = [] \<Longrightarrow> limit_hit sid w = map_option (\<lambda>v. (v, w)) (limit_verdict sid w)"
  by (auto simp: limit_hit_def limit_verdict_def get_limit_def started_since_def option.map_comp o_def split: option.splits)

lemma chat_known_run:
  assumes "db_faults w = []"
  shows "chat_known sid jids w = (Inr (known_chat sid jids w), w)"
proof -
  have "\<exists>b. fst (chat_known sid jids w) = Inr b"
    using assms by (induction jids) (auto simp: db_return_def)
  then show ?thesis using chat_known_frame [of sid jids w] assms by (auto simp: prod_eq_iff)
qed

lemma admit_run:
  assumes "db_faults w = []"
  shows "admit jl sid to requested w =
     (if \<not> is_direct_chat to \<or> known_chat sid (history_jids jl to requested) w then Some (Inr (), w)
      else case limit_verdict sid w of
        None \<Rightarrow> None
      | Some (Some (mx, wh, s)) \<Rightarrow> Some (Inl (NewChatLimit mx wh s), w)
      | Some None \<Rightarrow> Some (Inr (), note_recorded sid to (add_chat sid to w)))"
proof -
  have "\<not> known_chat sid (history_jids jl to requested) w \<Longrightarrow> \<not> list_ex (of_chat sid to) (new_chats w)"
    by (simp add: history_jids_def)
  then show ?thesis
    using assms by (auto simp: admit_def chat_known_run limit_hit_run record_chat_def add_chat_def split: option.splits)
qed

text \<open>The query endpoint predicts the send. On a database that answers, \<open>chat_exists\<close> says that a
  send to the number would count as a new chat exactly when the admission of that send, made
  in the same state, would do something: refuse it or record a chat. Otherwise the admission
  lets it through and changes nothing.\<close>

theorem chat_exists_predicts_admit:
  assumes "db_faults w = []" and "find_session sid w \<noteq> None" and "parse_jid jl requested = Inr parsed"
  shows "\<exists>resp. chat_exists jl resolve sid requested w = (Inr resp, w) \<and>
    ce_jid resp = (case resolve of Some f \<Rightarrow> f parsed | None \<Rightarrow> parsed) \<and>
    ce_counts_as_new_chat resp = (admit jl sid (ce_jid resp) requested w \<noteq> Some (Inr (), w))"
proof -
  let ?r = "case resolve of Some f \<Rightarrow> f parsed | None \<Rightarrow> parsed"
  let ?known = "known_chat sid (?r # (if parsed \<noteq> ?r then [parsed] else [])) w"
  have jids: "history_jids jl ?r requested = ?r # (if parsed \<noteq> ?r then [parsed] else [])"
    using assms(3) by (simp add: history_jids_def)
  have "note_recorded sid ?r (add_chat sid ?r w) \<noteq> w"
  proof
    assume "note_recorded sid ?r (add_chat sid ?r w) = w"
    then have "new_chats (note_recorded sid ?r (add_chat sid ?r w)) = new_chats w" by (rule arg_cong)
    then show False by (simp add: note_recorded_def add_chat_def)
  qed
  then have adm: "(admit jl sid ?r requested w \<noteq> Some (Inr (), w)) = (\<not> ?known \<and> is_direct_chat ?r)"
    unfolding admit_run [OF assms(1)] jids by (auto split: option.splits)
  have "chat_exists jl resolve sid requested w
      = (Inr \<lparr> ce_jid = ?r, ce_exists = ?known, ce_counts_as_new_chat = (\<not> ?known \<and> is_direct_chat ?r) \<rparr>, w)"
    using assms by (auto simp: chat_exists_def require_session_nc_def get_session_def db_map_err_def db_bind_def db_return_def
        chat_known_run Let_def simp del: known_chat_simps chat_known.simps)
  then show ?thesis using adm by simp
qed

section \<open>The limit holds\<close>

definition in_window :: "string \<Rightarrow> int \<Rightarrow> int \<Rightarrow> new_chat_row \<Rightarrow> bool" where
  "in_window sid t wh r \<longleftrightarrow> nc_session r = sid \<and> t - wh * HOUR < nc_created_at r \<and> nc_created_at r \<le> t"

definition limit_kept :: "string \<Rightarrow> int \<Rightarrow> int \<Rightarrow> new_chat_db \<Rightarrow> bool" where
  "limit_kept sid mx wh w \<longleftrightarrow> find_limit sid (new_chat_limits w) = Some (mx, wh) \<and> db_faults w = [] \<and>
     (\<forall>r \<in> set (new_chats w). nc_session r = sid \<longrightarrow> nc_created_at r \<le> db_now w) \<and>
     (\<forall>t. int (count_where (in_window sid t wh) (new_chats w)) \<le> mx)"

text \<open>
  What happens to the store while the limit of a session stands: admissions of any session,
  one at a time, failed sends taken back, messages stored, scopes entered and left, limits of
  other sessions set, time passing.
\<close>

inductive nc_step :: "jid_lib \<Rightarrow> string \<Rightarrow> new_chat_db \<Rightarrow> new_chat_db \<Rightarrow> bool" for jl :: jid_lib and sid :: string where
  admits: "admit jl sid' to requested w = Some (res, w') \<Longrightarrow> nc_step jl sid w w'"
| takes_back: "nc_step jl sid w (forget_all recs w)"
| stores: "nc_step jl sid w (w\<lparr>message_chats := ms\<rparr>)"
| scopes: "nc_step jl sid w (w\<lparr>nc_recorded := r\<rparr>)"
| limits_other: "sid' \<noteq> sid \<Longrightarrow> set_limit sid' l w = (res, w') \<Longrightarrow> nc_step jl sid w w'"
| passes: "0 \<le> d \<Longrightarrow> nc_step jl sid w (w\<lparr>db_now := db_now w + d\<rparr>)"

lemma count_where_mono: "(\<And>r. r \<in> set rows \<Longrightarrow> P r \<Longrightarrow> Q r) \<Longrightarrow> count_where P rows \<le> count_where Q rows"
proof (induction rows)
  case (Cons r rows)
  then have "count_where P rows \<le> count_where Q rows" by simp
  then show ?case using Cons.prems [of r] by auto
qed simp

lemma count_where_delete: "count_where P (delete_where Q rows) \<le> count_where P rows"
  by (induction rows) (auto simp: delete_where_def)

lemma verdict_room:
  assumes "find_limit sid (new_chat_limits w) = Some (mx, wh)" and "limit_verdict sid w = Some None" and "1 \<le> mx"
  shows "int (count_where (\<lambda>r. nc_session r = sid \<and> db_now w - wh * HOUR < nc_created_at r) (new_chats w)) < mx"
proof -
  have "retry_after (started_times sid (db_now w - wh * HOUR) (new_chats w)) (db_now w) mx wh = Some None"
    using assms by (auto simp: limit_verdict_def)
  then show ?thesis
    using retry_after_room [OF assms(3)] by (simp add: count_since_def filter_started_times length_started_times)
qed

lemma add_chat_keeps:
  assumes inv: "limit_kept sid mx wh w" and mx: "1 \<le> mx" and ok: "limit_verdict sid' w = Some None"
  shows "limit_kept sid mx wh (note_recorded sid' to (add_chat sid' to w))"
proof -
  have lim: "find_limit sid (new_chat_limits w) = Some (mx, wh)"
    and past: "\<And>r. r \<in> set (new_chats w) \<Longrightarrow> nc_session r = sid \<Longrightarrow> nc_created_at r \<le> db_now w"
    and le: "\<And>t. int (count_where (in_window sid t wh) (new_chats w)) \<le> mx"
    using inv by (auto simp: limit_kept_def)
  let ?r = "\<lparr> nc_session = sid', nc_chat = to, nc_created_at = db_now w \<rparr>"
  have "int (count_where (in_window sid t wh) (new_chats w @ [?r])) \<le> mx" for t
  proof (cases "in_window sid t wh ?r")
    case True
    then have t: "sid' = sid" "db_now w \<le> t" by (auto simp: in_window_def)
    have "count_where (in_window sid t wh) (new_chats w)
        \<le> count_where (\<lambda>r. nc_session r = sid \<and> db_now w - wh * HOUR < nc_created_at r) (new_chats w)"
      using t by (intro count_where_mono) (auto simp: in_window_def)
    then show ?thesis using verdict_room [OF lim _ mx] ok t True by simp
  qed (use le [of t] in simp)
  then show ?thesis using inv past by (auto simp: limit_kept_def note_recorded_def add_chat_def)
qed

lemma forget_all_keeps: "limit_kept sid mx wh w \<Longrightarrow> limit_kept sid mx wh (forget_all recs w)"
proof (induction recs arbitrary: w)
  case (Cons rec recs)
  obtain s j where r: "rec = (s, j)" by (cases rec)
  have "int (count_where (in_window sid t wh) (delete_where (of_chat s j) (new_chats w))) \<le> mx" for t
    using Cons.prems count_where_delete [of "in_window sid t wh" "of_chat s j" "new_chats w"]
    by (auto simp: limit_kept_def intro: order_trans [OF of_nat_mono])
  then have "limit_kept sid mx wh (w\<lparr>new_chats := delete_where (of_chat s j) (new_chats w)\<rparr>)"
    using Cons.prems by (auto simp: limit_kept_def)
  then show ?case using Cons.IH Cons.prems by (simp add: r forget_chat_def db_ignore_def limit_kept_def)
qed simp

lemma find_limit_other:
  "sid' \<noteq> sid \<Longrightarrow> find_limit sid (delete_where (\<lambda>l. nl_session l = sid') ls) = find_limit sid ls"
  by (induction ls) (auto simp: find_limit_def delete_where_def)

lemma set_limit_other:
  assumes "sid' \<noteq> sid" and "db_faults w = []" and "set_limit sid' l w = (res, w')"
  shows "find_limit sid (new_chat_limits w') = find_limit sid (new_chat_limits w) \<and> new_chats w' = new_chats w \<and>
    db_now w' = db_now w \<and> db_faults w' = []"
proof -
  have app: "find_limit sid (ls @ [\<lparr> nl_session = sid', nl_max_new_chats = a, nl_window_hours = b \<rparr>]) = find_limit sid ls" for ls a b
    using assms(1) by (induction ls) (auto simp: find_limit_def)
  show ?thesis
    using assms find_limit_other [OF assms(1), of "new_chat_limits w"]
    by (cases l) (auto simp: set_limit_def db_bind_def db_return_def db_insert_def db_fail_def app split: if_splits prod.splits)
qed

lemma nc_step_keeps: "nc_step jl sid w w' \<Longrightarrow> limit_kept sid mx wh w \<Longrightarrow> 1 \<le> mx \<Longrightarrow> limit_kept sid mx wh w'"
proof (induction rule: nc_step.induct)
  case (admits sid' to requested w res w')
  have nf: "db_faults w = []" using admits.prems by (simp add: limit_kept_def)
  show ?case
    using admits add_chat_keeps [OF admits.prems] unfolding admit_run [OF nf] by (auto split: if_splits option.splits)
next
  case (takes_back w recs)
  then show ?case by (simp add: forget_all_keeps)
next
  case (limits_other sid' l w res w')
  then show ?case using set_limit_other [of sid' sid w l res w'] by (auto simp: limit_kept_def)
qed (auto simp: limit_kept_def)

text \<open>C33. The limit is never exceeded. While a session's limit of \<open>mx\<close> chats in \<open>wh\<close> hours stands and
  the database answers, whatever sequence of admissions of this and other sessions, failed
  sends taken back, stored messages, other limits and passing time follows, no window of
  \<open>wh\<close> hours, at whatever time it ends, holds more than \<open>mx\<close> recorded chats of the session,
  if none did at the start.\<close>

theorem new_chat_limit_invariant:
  assumes "(nc_step jl sid)\<^sup>*\<^sup>* w w'" and "limit_kept sid mx wh w" and "1 \<le> mx"
  shows "find_limit sid (new_chat_limits w') = Some (mx, wh) \<and>
    int (count_where (in_window sid t wh) (new_chats w')) \<le> mx"
proof -
  have "limit_kept sid mx wh w'"
    using assms(1,2) by (induction rule: rtranclp_induct) (auto intro: nc_step_keeps [OF _ _ assms(3)])
  then show ?thesis by (simp add: limit_kept_def)
qed

definition demo_jids :: jid_lib where
  "demo_jids = \<lparr> jid_parse = Some, jid_pn = (\<lambda>d. d @ ''@lid'') \<rparr>"

definition chat_world :: "new_chat_row list \<Rightarrow> limit_row list \<Rightarrow> new_chat_db" where
  "chat_world rows ls = \<lparr> db_driver = SQLite, db_faults = [], db_now = 101000,
     sessions = [new_session_row 0 ''s'' None ''p''], webhook_rows = [], contact_rows = [], dlq_rows = [],
     hub_mono = 0, hub_ms = 0, hub_retry = demo_retry, hub_webhooks = [], hub_circuits = [], hub_dlq = [], hub_ring = [],
     gw_sessions = [], gw_spawned = [], message_chats = [], new_chats = rows, new_chat_limits = ls, new_chat_incidents = [], nc_recorded = None \<rparr>"

definition one_a_day :: new_chat_db where
  "one_a_day = chat_world [] [\<lparr> nl_session = ''s'', nl_max_new_chats = 1, nl_window_hours = 24 \<rparr>]"

lemma direct_1 [simp]: "is_direct_chat ''1@lid''" "is_direct_chat ''2@lid''"
  by (simp_all add: is_direct_chat_def ends_with_def starts_with_def)

lemma one_a_day_first:
  "admit demo_jids ''s'' ''1@lid'' ''1'' one_a_day = Some (Inr (), add_chat ''s'' ''1@lid'' one_a_day)"
  by (simp add: admit_run one_a_day_def chat_world_def history_jids_def demo_jids_def parse_jid_def trim_str_def is_ws_def is_digit_def
      limit_verdict_def find_limit_def retry_after_def started_times_def note_recorded_def add_chat_def)

lemma new_chat_limit_invariant_witness:
  "(\<exists>w. admit demo_jids ''s'' ''1@lid'' ''1'' one_a_day = Some (Inr (), w) \<and>
     find_limit ''s'' (new_chat_limits w) = Some (1, 24) \<and> count_where (in_window ''s'' 101000 24) (new_chats w) = 1 \<and>
     (\<forall>t. int (count_where (in_window ''s'' t 24) (new_chats w)) \<le> 1))"
proof -
  let ?w = "add_chat ''s'' ''1@lid'' one_a_day"
  have "limit_kept ''s'' 1 24 one_a_day"
    by (simp add: limit_kept_def one_a_day_def chat_world_def find_limit_def)
  moreover have "(nc_step demo_jids ''s'')\<^sup>*\<^sup>* one_a_day ?w"
    using nc_step.admits [OF one_a_day_first] by blast
  moreover have "count_where (in_window ''s'' 101000 24) (new_chats ?w) = 1"
    by (simp add: add_chat_def one_a_day_def chat_world_def in_window_def HOUR_def)
  ultimately show ?thesis
    using new_chat_limit_invariant [of demo_jids "''s''" one_a_day ?w 1 24] one_a_day_first by auto
qed

lemma chat_exists_predicts_admit_witness:
  "\<exists>resp. chat_exists demo_jids None ''s'' ''1'' one_a_day = (Inr resp, one_a_day) \<and>
    ce_counts_as_new_chat resp = (admit demo_jids ''s'' (ce_jid resp) ''1'' one_a_day \<noteq> Some (Inr (), one_a_day))"
proof -
  have p: "parse_jid demo_jids ''1'' = Inr ''1@lid''"
    by (simp add: parse_jid_def demo_jids_def trim_str_def is_ws_def is_digit_def)
  have f: "find_session ''s'' one_a_day \<noteq> None" "db_faults one_a_day = []"
    by (simp_all add: find_session_def one_a_day_def chat_world_def new_session_row_def)
  show ?thesis using chat_exists_predicts_admit [OF f(2,1) p, of None] by auto
qed

section \<open>Failed sends\<close>

text \<open>A send handler as the routes have it: the admission first, then the rest. A panic, here 500,
  closes the connection without an answer.\<close>

definition send_with_admission ::
    "jid_lib \<Rightarrow> string \<Rightarrow> string \<Rightarrow> string \<Rightarrow> ('w new_chat_db_scheme \<Rightarrow> (nat \<times> 'r option) \<times> 'w new_chat_db_scheme)
     \<Rightarrow> 'w new_chat_db_scheme \<Rightarrow> (nat \<times> 'r option) \<times> 'w new_chat_db_scheme" where
  "send_with_admission jl sid to requested rest w =
     (case admit jl sid to requested w of
        None \<Rightarrow> ((500, None), w)
      | Some (Inl e, w1) \<Rightarrow> ((status_code e, None), w1)
      | Some (Inr _, w1) \<Rightarrow> rest w1)"

lemma delete_appended:
  "\<not> list_ex (of_chat sid to) rows \<Longrightarrow>
   delete_where (of_chat sid to) (rows @ [\<lparr> nc_session = sid, nc_chat = to, nc_created_at = t \<rparr>]) = rows"
  by (induction rows) (auto simp: delete_where_def of_chat_def)

text \<open>C35. A failed send leaves no chat behind. On a database that answers, a send that passes through
  the roll-back layer has recorded the chat afterwards exactly when the answer is a success
  and the chat was a direct one without history; in every other case, refusals by the limit
  included, the table is as it was.\<close>

theorem failed_send_leaves_no_chat:
  assumes "db_faults w = []"
    and rest: "\<And>v. new_chats (snd (rest v)) = new_chats v \<and> nc_recorded (snd (rest v)) = nc_recorded v \<and> db_faults (snd (rest v)) = db_faults v"
    and run: "rollback_failed_sends (send_with_admission jl sid to requested rest) w = ((code, body), w')"
  shows "new_chats w' =
    (if is_success code \<and> is_direct_chat to \<and> \<not> known_chat sid (history_jids jl to requested) w
     then new_chats w @ [\<lparr> nc_session = sid, nc_chat = to, nc_created_at = db_now w \<rparr>] else new_chats w)"
proof -
  let ?w = "w\<lparr>nc_recorded := Some []\<rparr>" and ?known = "known_chat sid (history_jids jl to requested) w"
  have known: "known_chat sid (history_jids jl to requested) ?w = ?known" by (simp add: known_chat_def)
  have adm: "admit jl sid to requested ?w =
     (if \<not> is_direct_chat to \<or> ?known then Some (Inr (), ?w)
      else case limit_verdict sid ?w of None \<Rightarrow> None
      | Some (Some (mx, wh, s)) \<Rightarrow> Some (Inl (NewChatLimit mx wh s), ?w)
      | Some None \<Rightarrow> Some (Inr (), note_recorded sid to (add_chat sid to ?w)))"
    using admit_run [of ?w jl sid to requested] assms(1) by (simp add: known)
  have new: "\<not> list_ex (of_chat sid to) (new_chats w)" if "\<not> ?known"
    using that by (simp add: history_jids_def)
  have r1: "new_chats (snd (rest ?w)) = new_chats w" "nc_recorded (snd (rest ?w)) = Some []"
    using rest [of ?w] by simp_all
  let ?v = "note_recorded sid to (add_chat sid to ?w)"
  have r2: "new_chats (snd (rest ?v)) = new_chats w @ [\<lparr> nc_session = sid, nc_chat = to, nc_created_at = db_now w \<rparr>]"
      "nc_recorded (snd (rest ?v)) = Some [(sid, to)]" "db_faults (snd (rest ?v)) = []"
    using rest [of ?v] assms(1) by (simp_all add: note_recorded_def add_chat_def)
  consider (passes) "\<not> is_direct_chat to \<or> ?known"
    | (panics) "is_direct_chat to" "\<not> ?known" "limit_verdict sid ?w = None"
    | (refused) mx wh s where "is_direct_chat to" "\<not> ?known" "limit_verdict sid ?w = Some (Some (mx, wh, s))"
    | (recorded) "is_direct_chat to" "\<not> ?known" "limit_verdict sid ?w = Some None"
    by (cases "limit_verdict sid ?w") (auto, metis option.exhaust prod_cases3)
  then show ?thesis
  proof cases
    case passes
    then show ?thesis
      using run r1 by (auto simp: rollback_failed_sends_def nc_scope_def send_with_admission_def adm split_beta)
  next
    case panics
    then show ?thesis
      using run by (auto simp: rollback_failed_sends_def nc_scope_def send_with_admission_def adm is_success_def)
  next
    case (refused mx wh s)
    then show ?thesis
      using run by (auto simp: rollback_failed_sends_def nc_scope_def send_with_admission_def adm is_success_def)
  next
    case recorded
    have "(code, body) = fst (rest ?v)"
      using run recorded by (simp add: rollback_failed_sends_def nc_scope_def send_with_admission_def adm split_beta)
    then have code: "code = fst (fst (rest ?v))" by (metis fst_conv)
    have w': "w' = (if is_success code then (snd (rest ?v))\<lparr>nc_recorded := nc_recorded w\<rparr>
        else forget_all [(sid, to)] ((snd (rest ?v))\<lparr>nc_recorded := nc_recorded w\<rparr>))"
      using run recorded r2(2) code by (auto simp: rollback_failed_sends_def nc_scope_def send_with_admission_def adm split_beta)
    show ?thesis
      using recorded(1,2) r2(1,3) new unfolding w'
      by (auto simp: forget_chat_def db_ignore_def delete_appended)
  qed
qed

lemma failed_send_leaves_no_chat_witness:
  "new_chats (snd (rollback_failed_sends (send_with_admission demo_jids ''s'' ''1@lid'' ''1'' (\<lambda>v. ((502, None :: nat option), v))) one_a_day)) = []"
proof -
  have nf: "db_faults one_a_day = []" by (simp add: one_a_day_def chat_world_def)
  let ?f = "rollback_failed_sends (send_with_admission demo_jids ''s'' ''1@lid'' ''1'' (\<lambda>v. ((502, None :: nat option), v)))"
  obtain code body w' where run: "?f one_a_day = ((code, body), w')" by (metis surj_pair)
  have "code = 502"
    using run by (simp add: rollback_failed_sends_def nc_scope_def send_with_admission_def admit_run one_a_day_def chat_world_def
        history_jids_def demo_jids_def parse_jid_def trim_str_def is_ws_def is_digit_def
        limit_verdict_def find_limit_def retry_after_def started_times_def note_recorded_def add_chat_def)
  then show ?thesis
    using failed_send_leaves_no_chat [OF nf _ run] run by (simp add: is_success_def) (simp add: one_a_day_def chat_world_def)
qed

section \<open>Stored limits\<close>

definition limits_valid :: "'w new_chat_db_scheme \<Rightarrow> bool" where
  "limits_valid w \<longleftrightarrow> (\<forall>l \<in> set (new_chat_limits w). 1 \<le> nl_max_new_chats l \<and> 1 \<le> nl_window_hours l \<and> nl_window_hours l \<le> MAX_WINDOW_HOURS)"

text \<open>A handler that cannot panic on valid limits and keeps them valid.\<close>

definition calm :: "('w, 'a) nc_panicky \<Rightarrow> bool" where
  "calm h \<longleftrightarrow> (\<forall>w. limits_valid w \<longrightarrow> (\<exists>r w'. h w = Some (r, w') \<and> limits_valid w'))"

definition keeps_limits :: "('w new_chat_db_scheme \<Rightarrow> 'r \<times> 'w new_chat_db_scheme) \<Rightarrow> bool" where
  "keeps_limits m \<longleftrightarrow> (\<forall>w. limits_valid w \<longrightarrow> limits_valid (snd (m w)))"

lemma keeps_limitsD: "keeps_limits m \<Longrightarrow> limits_valid w \<Longrightarrow> m w = (r, w') \<Longrightarrow> limits_valid w'"
  by (metis keeps_limits_def snd_conv)

lemma calm_then:
  fixes m :: "'w new_chat_db_scheme \<Rightarrow> (api_error + 'a) \<times> 'w new_chat_db_scheme"
  assumes "keeps_limits m" and "\<And>a w w'. limits_valid w \<Longrightarrow> m w = (Inr a, w') \<Longrightarrow> \<exists>r w''. k a w' = Some (r, w'') \<and> limits_valid w''"
  shows "calm (db_then m k)"
  unfolding calm_def
proof (intro allI impI)
  fix w :: "'w new_chat_db_scheme" assume w: "limits_valid w"
  obtain res w' where m: "m w = (res, w')" by fastforce
  then have "limits_valid w'" using keeps_limitsD [OF assms(1) w] by simp
  then show "\<exists>r w''. db_then m k w = Some (r, w'') \<and> limits_valid w''"
    using assms(2) [OF w] m by (cases res) (auto simp: db_then_def)
qed

lemma calm_thenI:
  assumes "keeps_limits m" and "\<And>a. calm (k a)"
  shows "calm (db_then m k)"
proof (rule calm_then [OF assms(1)])
  fix a w w' assume "limits_valid w" "m w = (Inr a, w')"
  then have "limits_valid w'" using keeps_limitsD [OF assms(1)] by blast
  then show "\<exists>r w''. k a w' = Some (r, w'') \<and> limits_valid w''" using assms(2) by (simp add: calm_def)
qed

lemma keeps_limits_same: "(\<And>w. new_chat_limits (snd (m w)) = new_chat_limits w) \<Longrightarrow> keeps_limits m"
  by (simp add: keeps_limits_def limits_valid_def)

lemma keeps_limits_bind: "keeps_limits m \<Longrightarrow> (\<And>a. keeps_limits (k a)) \<Longrightarrow> keeps_limits (db_bind m k)"
  unfolding keeps_limits_def by (simp add: db_bind_def split: prod.splits sum.splits) (metis snd_conv)

lemma keeps_limits_map_err [intro]: "keeps_limits m \<Longrightarrow> keeps_limits (db_map_err g m)"
  unfolding keeps_limits_def by (simp add: db_map_err_def split: prod.splits sum.splits) (metis snd_conv)

lemma keeps_limits_stmt: "(\<And>w. limits_valid w \<Longrightarrow> limits_valid (snd (f w))) \<Longrightarrow> keeps_limits (db_stmt f)"
  unfolding keeps_limits_def
proof (intro allI impI)
  fix w :: "'a new_chat_db_scheme"
  assume f: "\<And>w. limits_valid w \<Longrightarrow> limits_valid (snd (f w))" and w: "limits_valid w"
  show "limits_valid (snd (db_stmt f w))"
    using w by (intro db_stmt_keeps [where P = limits_valid] f) (simp_all add: limits_valid_def)
qed

lemma keeps_limits_ops [intro]:
  "keeps_limits (get_limit sid)" "keeps_limits (started_since sid t)" "keeps_limits (incidents sid)"
  "keeps_limits (record_chat sid jid now)" "keeps_limits (db_return x)" "keeps_limits (db_fail e)"
  unfolding get_limit_def started_since_def incidents_def record_chat_def
  by (rule keeps_limits_stmt, simp add: limits_valid_def)+ (simp_all add: db_return_def db_fail_def keeps_limits_same)

lemma keeps_limits_require [intro]: "keeps_limits (require_session_nc sid)"
  unfolding require_session_nc_def get_session_def
  by (intro keeps_limits_bind keeps_limits_map_err keeps_limits_stmt) (auto split: option.splits)

lemma keeps_limits_set [intro]:
  "l = None \<or> (\<exists>mx wh. l = Some (mx, wh) \<and> 1 \<le> mx \<and> 1 \<le> wh \<and> wh \<le> MAX_WINDOW_HOURS) \<Longrightarrow> keeps_limits (set_limit sid l)"
  unfolding set_limit_def db_insert_def
  by (cases l; intro keeps_limits_bind keeps_limits_stmt) (auto simp: limits_valid_def intro!: keeps_limits_bind keeps_limits_stmt)

lemma get_limit_valid:
  "limits_valid w \<Longrightarrow> get_limit sid w = (Inr (Some (mx, wh)), w') \<Longrightarrow> 1 \<le> mx"
  by (auto simp: get_limit_def db_stmt_Inr_iff find_limit_def limits_valid_def dest!: find_key_SomeD)

lemma limit_hit_calm: "limits_valid w \<Longrightarrow> \<exists>v w'. limit_hit sid w = Some (v, w') \<and> limits_valid w'"
proof -
  assume w: "limits_valid w"
  obtain res w1 where g: "get_limit sid w = (res, w1)" by fastforce
  have w1: "limits_valid w1" by (rule keeps_limitsD [OF keeps_limits_ops(1) w g])
  show ?thesis
  proof (cases "\<exists>mx wh. res = Inr (Some (mx, wh))")
    case True
    then obtain mx wh where res: "res = Inr (Some (mx, wh))" by blast
    obtain st w2 where st: "started_since sid (db_now w - wh * HOUR) w1 = (st, w2)" by fastforce
    have "limits_valid w2" by (rule keeps_limitsD [OF keeps_limits_ops(2) w1 st])
    moreover have "\<exists>q. retry_after started (db_now w) mx wh = Some q" for started
      using retry_after_total [OF get_limit_valid [OF w g [unfolded res]]] by blast
    ultimately show ?thesis using g res st by (cases st) (simp_all add: limit_hit_def, metis option.simps(9))
  next
    case False
    then show ?thesis using g w1 by (auto simp: limit_hit_def split: sum.splits option.splits)
  qed
qed

lemma admit_calm: "calm (admit jl sid to requested)"
  unfolding calm_def
proof (intro allI impI)
  fix w :: "'a new_chat_db_scheme" assume w: "limits_valid w"
  obtain res w1 where k: "chat_known sid (history_jids jl to requested) w = (res, w1)" by fastforce
  then have w1: "limits_valid w1"
    using chat_known_frame [of sid "history_jids jl to requested" w] w by (auto simp: limits_valid_def)
  obtain v w2 where v: "limit_hit sid w1 = Some (v, w2)" "limits_valid w2" using limit_hit_calm [OF w1] by blast
  obtain r w3 where r: "record_chat sid to (db_now w1) w2 = (r, w3)" by fastforce
  then have w3: "limits_valid w3" by (rule keeps_limitsD [OF keeps_limits_ops(4) v(2)])
  then have "limits_valid (note_recorded sid to w3)" by (simp add: limits_valid_def note_recorded_def)
  then show "\<exists>r w'. admit jl sid to requested w = Some (r, w') \<and> limits_valid w'"
    using w w1 v w3 k r by (auto simp: admit_def split: sum.splits option.splits bool.splits)
qed

lemma describe_tail_calm:
  fixes g :: "(int \<times> int) option \<Rightarrow> int list \<Rightarrow> incident list \<Rightarrow> 'w new_chat_db_scheme \<Rightarrow> int option
    \<Rightarrow> (api_error + 'a) \<times> 'w new_chat_db_scheme"
  assumes g: "\<And>limit started found w retry. snd (g limit started found w retry) = w"
  shows "calm (db_then (db_map_err Internal (get_limit sid)) (\<lambda>limit.
    db_then (db_map_err Internal (started_since sid (f limit))) (\<lambda>started.
      db_then (db_map_err Internal (incidents sid)) (\<lambda>found w.
        map_option (g limit started found w)
          (case limit of None \<Rightarrow> Some None | Some (mx, wh) \<Rightarrow> retry_after started now mx wh)))))"
proof (rule calm_then)
  fix limit and w w' :: "'w new_chat_db_scheme"
  assume w: "limits_valid w" and lim: "db_map_err Internal (get_limit sid) w = (Inr limit, w')"
  let ?r = "\<lambda>started. case limit of None \<Rightarrow> Some None | Some (mx, wh) \<Rightarrow> retry_after started now mx wh"
  have w': "limits_valid w'" by (rule keeps_limitsD [OF keeps_limits_map_err [OF keeps_limits_ops(1)] w lim])
  have ok: "?r started \<noteq> None" for started
    using lim retry_after_total get_limit_valid [OF w]
    by (auto simp: db_map_err_def split: option.splits prod.splits sum.splits)
  have "calm (\<lambda>w. map_option (g limit started found w) (?r started))" for started found
  proof -
    obtain retry where "?r started = Some retry" using ok by blast
    then show ?thesis using g [of limit started found _ retry] by (simp add: calm_def) (metis prod.collapse)
  qed
  then have "calm (db_then (db_map_err Internal (started_since sid (f limit))) (\<lambda>started.
      db_then (db_map_err Internal (incidents sid)) (\<lambda>found w. map_option (g limit started found w) (?r started))))"
    by (intro calm_thenI keeps_limits_map_err keeps_limits_ops)
  then show "\<exists>r w''. db_then (db_map_err Internal (started_since sid (f limit))) (\<lambda>started.
      db_then (db_map_err Internal (incidents sid)) (\<lambda>found w. map_option (g limit started found w) (?r started))) w' = Some (r, w'')
      \<and> limits_valid w''"
    using w' by (simp add: calm_def)
qed (rule keeps_limits_map_err [OF keeps_limits_ops(1)])

lemma describe_calm: "calm (describe sid)"
  unfolding calm_def describe_def Let_def
  by (intro allI impI) (rule describe_tail_calm [unfolded calm_def, rule_format], simp_all)

text \<open>C36. Stored limits are valid and keep the handlers from panicking. From a store whose limits all
  allow at least one chat in 1 to 720 hours, at every failure point of the database, the
  admission and the three limit endpoints answer, whatever limit is asked for, and leave such
  a store.\<close>

theorem new_chat_handlers_never_panic:
  assumes "limits_valid w"
  shows "(\<exists>r w'. admit jl sid to requested w = Some (r, w') \<and> limits_valid w') \<and>
    (\<exists>r w'. get_new_chat_limit sid w = Some (r, w') \<and> limits_valid w') \<and>
    (\<exists>r w'. set_new_chat_limit sid request w = Some (r, w') \<and> limits_valid w') \<and>
    (\<exists>r w'. clear_new_chat_limit sid w = Some (r, w') \<and> limits_valid w')"
proof -
  have "calm (get_new_chat_limit sid)" unfolding get_new_chat_limit_def
    by (intro calm_thenI keeps_limits_require describe_calm)
  moreover have "calm (clear_new_chat_limit sid)" unfolding clear_new_chat_limit_def
    by (intro calm_thenI keeps_limits_require describe_calm keeps_limits_map_err keeps_limits_set) simp
  moreover have "calm (set_new_chat_limit sid request)" unfolding set_new_chat_limit_def
    by (intro calm_thenI keeps_limits_require)
      (auto simp: calm_def intro!: calm_thenI [unfolded calm_def, rule_format] keeps_limits_map_err keeps_limits_set
        describe_calm [unfolded calm_def, rule_format])
  ultimately show ?thesis using admit_calm assms unfolding calm_def by blast
qed

lemma new_chat_handlers_never_panic_witness:
  "\<exists>r w'. set_new_chat_limit ''s'' \<lparr> lm_max_new_chats = 0, lm_window_hours = 24 \<rparr> one_a_day = Some (r, w') \<and> limits_valid w'"
proof -
  have "limits_valid one_a_day" by (simp add: limits_valid_def one_a_day_def chat_world_def MAX_WINDOW_HOURS_def)
  then show ?thesis
    using new_chat_handlers_never_panic [of one_a_day demo_jids "''s''" "''1@lid''" "''1''"] by blast
qed

text \<open>
  Replacing a limit is two statements without a transaction: when the second fails, the
  endpoint answers 500 and the limit that stood before is gone, so new chats are no longer
  limited at all.
\<close>

lemma set_limit_fault_drops_limit:
  assumes "db_faults w = [None, None, Some e]" and "find_session sid w \<noteq> None"
    and "1 \<le> lm_max_new_chats request" and "1 \<le> lm_window_hours request" and "lm_window_hours request \<le> MAX_WINDOW_HOURS"
  shows "\<exists>w'. set_new_chat_limit sid request w = Some (Inl (Internal e), w') \<and> find_limit sid (new_chat_limits w') = None"
proof -
  have "find_limit sid (delete_where (\<lambda>l. nl_session l = sid) ls) = None" for ls
    by (induction ls) (auto simp: find_limit_def delete_where_def)
  then show ?thesis
    using assms by (auto simp: set_new_chat_limit_def db_then_def require_session_nc_def get_session_def set_limit_def db_insert_def
        db_bind_def db_map_err_def db_stmt_def db_return_def find_session_def)
qed

end
