(* ===== verification/Send_Facts.thy ===== *)
theory Send_Facts
  imports Send_Dispatch Cloud_Facts New_Chat_Facts
begin

text \<open>
  What the message endpoints promise. A contract of the handlers (\<open>quiet\<close>: nothing leaves;
  \<open>final\<close>: what the answer says left) is proved of their parts and carried through their
  composition, so that it holds of every request the dispatcher knows.
\<close>

named_theorems send_ops

section \<open>What leaves\<close>

fun is_send :: "client_call \<Rightarrow> bool" where
  "is_send (SendMessage c j m) = True"
| "is_send (CommentRaw c j k t) = True"
| "is_send _ = False"

text \<open>The address messages are posted to ends so; no other address of the client does.\<close>

definition is_post :: "http_call \<Rightarrow> bool" where
  "is_post h \<longleftrightarrow> hc_method h = POST \<and> take 9 (rev (hc_url h)) = rev ''/messages''"

fun fetch_allowed :: "'p send_lib \<Rightarrow> client_call \<Rightarrow> bool" where
  "fetch_allowed lib (FetchUrl u) \<longleftrightarrow> (\<exists>parsed. public_target (cb_net (sn_cloud lib)) u parsed)"
| "fetch_allowed lib (FetchPage u) \<longleftrightarrow> (\<exists>parsed. public_target (cb_net (sn_cloud lib)) u parsed)"
| "fetch_allowed lib (FetchImage u) \<longleftrightarrow> (\<exists>parsed. public_target (cb_net (sn_cloud lib)) u parsed)"
| "fetch_allowed lib _ = True"

lemma target_iff [simp]: "Ex (public_target net raw) \<longleftrightarrow> (\<exists>url. validate_public_url net raw = Inr url)"
  by (simp add: validate_iff)

definition grew :: "'p send_lib \<Rightarrow> 'w sending_scheme \<Rightarrow> 'w sending_scheme \<Rightarrow> client_call list \<Rightarrow> http_call list \<Rightarrow> bool" where
  "grew lib w w' cs hs \<longleftrightarrow> client_calls w' = client_calls w @ cs \<and> http_calls w' = http_calls w @ hs \<and> list_all (fetch_allowed lib) cs"

definition silent :: "'p send_lib \<Rightarrow> 'w sending_scheme \<Rightarrow> 'w sending_scheme \<Rightarrow> bool" where
  "silent lib w w' \<longleftrightarrow> new_chat_limits w' = new_chat_limits w \<and>
     (\<exists>cs hs. grew lib w w' cs hs \<and> \<not> list_ex is_send cs \<and> \<not> list_ex is_post hs)"

text \<open>How the answer to a posted message is read: the id, or nothing for an error.\<close>

definition posted_id :: "cloud_lib \<Rightarrow> http_call list \<Rightarrow> string option" where
  "posted_id lib hs = (case cb_answer lib hs of Inl e \<Rightarrow> None
     | Inr r \<Rightarrow> (case parse_response lib r of Inl e \<Rightarrow> None | Inr j \<Rightarrow> Some (first_message_id j)))"

definition sent_id :: "'p send_lib \<Rightarrow> client_call list \<Rightarrow> string option" where
  "sent_id lib cs = (case sn_send lib cs of Inl e \<Rightarrow> None | Inr i \<Rightarrow> Some i)"

text \<open>One message was handed over, last, through the client or to Meta, and this is how it was taken.\<close>

definition departed :: "'p send_lib \<Rightarrow> 'w sending_scheme \<Rightarrow> 'w sending_scheme \<Rightarrow> string option \<Rightarrow> bool" where
  "departed lib w w' r \<longleftrightarrow> (\<exists>v. silent lib w v \<and>
     ((\<exists>c. is_send c \<and> client_calls w' = client_calls v @ [c] \<and> http_calls w' = http_calls v \<and> sent_id lib (client_calls w') = r) \<or>
      (\<exists>h. is_post h \<and> http_calls w' = http_calls v @ [h] \<and> client_calls w' = client_calls v \<and>
         posted_id (sn_cloud lib) (http_calls w') = r)))"

text \<open>Where a panic is possible, only an invalid limit of the database is its cause.\<close>

definition quiet :: "'p send_lib \<Rightarrow> ('w, 'a) send_op \<Rightarrow> bool" where
  "quiet lib m \<longleftrightarrow> (\<forall>w. case m w of None \<Rightarrow> \<not> limits_valid w | Some (res, w') \<Rightarrow> silent lib w w')"

definition final :: "'p send_lib \<Rightarrow> ('w, message_response) send_op \<Rightarrow> bool" where
  "final lib m \<longleftrightarrow> (\<forall>w. case m w of None \<Rightarrow> \<not> limits_valid w
     | Some (Inr resp, w') \<Rightarrow> departed lib w w' (Some (mr_message_id resp))
     | Some (Inl e, w') \<Rightarrow> silent lib w w' \<or> departed lib w w' None)"

section \<open>Composition\<close>

lemma silent_refl [simp]: "silent lib w w"
  by (simp add: silent_def grew_def)

lemma silent_trans: "silent lib u v \<Longrightarrow> silent lib v w \<Longrightarrow> silent lib u w"
  unfolding silent_def grew_def by fastforce


lemma departed_trans: "silent lib u v \<Longrightarrow> departed lib v w r \<Longrightarrow> departed lib u w r"
  unfolding departed_def by (meson silent_trans)

lemma silent_valid: "silent lib w v \<Longrightarrow> limits_valid v = limits_valid w"
  by (simp add: silent_def limits_valid_def)

lemma quiet_cases:
  assumes "quiet lib m"
  obtains (panics) "m w = None" "\<not> limits_valid w" | (ends) res w' where "m w = Some (res, w')" "silent lib w w'"
proof (cases "m w")
  case None
  then show thesis using assms that(1) unfolding quiet_def by (metis (no_types, lifting) option.simps(4))
next
  case (Some r)
  obtain res w' where r: "r = (res, w')" by fastforce
  from assms have "case m w of None \<Rightarrow> \<not> limits_valid w | Some (res, w') \<Rightarrow> silent lib w w'" by (simp add: quiet_def)
  then show thesis using that(2) Some r by simp
qed

lemma quiet_bind [send_ops]:
  assumes "quiet lib m" and "\<And>a. quiet lib (k a)"
  shows "quiet lib (s_bind m k)"
  unfolding quiet_def
proof
  fix w
  show "case s_bind m k w of None \<Rightarrow> \<not> limits_valid w | Some (res, w') \<Rightarrow> silent lib w w'"
  proof (cases rule: quiet_cases [OF assms(1), of w])
    case 1
    then show ?thesis by (simp add: s_bind_def)
  next
    case (2 res v)
    show ?thesis
    proof (cases res)
      case (Inr a)
      from quiet_cases [OF assms(2), of a v] show ?thesis
        by cases (use 2 Inr in \<open>auto simp: s_bind_def silent_valid intro: silent_trans\<close>)
    qed (use 2 in \<open>simp add: s_bind_def\<close>)
  qed
qed

lemma final_cases:
  assumes "final lib m"
  obtains (panics) "m w = None" "\<not> limits_valid w" | (sent) resp w' where "m w = Some (Inr resp, w')" "departed lib w w' (Some (mr_message_id resp))"
  | (failed) e w' where "m w = Some (Inl e, w')" "silent lib w w' \<or> departed lib w w' None"
proof -
  have c: "case m w of None \<Rightarrow> \<not> limits_valid w
     | Some (Inr resp, w') \<Rightarrow> departed lib w w' (Some (mr_message_id resp))
     | Some (Inl e, w') \<Rightarrow> silent lib w w' \<or> departed lib w w' None" using assms by (simp add: final_def)
  show thesis
  proof (cases "m w")
    case (Some r)
    obtain res w' where "r = (res, w')" by fastforce
    then show thesis using that(2,3) c Some by (cases res) auto
  qed (use c that(1) in auto)
qed

lemma final_bind [send_ops]:
  assumes "quiet lib m" and "\<And>a. final lib (k a)"
  shows "final lib (s_bind m k)"
  unfolding final_def
proof
  fix w
  show "case s_bind m k w of None \<Rightarrow> \<not> limits_valid w
     | Some (Inr resp, w') \<Rightarrow> departed lib w w' (Some (mr_message_id resp))
     | Some (Inl e, w') \<Rightarrow> silent lib w w' \<or> departed lib w w' None"
  proof (cases rule: quiet_cases [OF assms(1), of w])
    case 1
    then show ?thesis by (simp add: s_bind_def)
  next
    case (2 res v)
    show ?thesis
    proof (cases res)
      case (Inr a)
      from final_cases [OF assms(2), of a v] show ?thesis
        by cases (use 2 Inr in \<open>auto simp: s_bind_def silent_valid intro: silent_trans departed_trans\<close>)
    qed (use 2 in \<open>simp add: s_bind_def\<close>)
  qed
qed

lemma final_state: "(\<And>v. final lib (f v)) \<Longrightarrow> final lib (\<lambda>w. f w w)"
  by (simp add: final_def)

lemma quiet_ok [send_ops]: "quiet lib (s_ok a)" and quiet_fail [send_ops]: "quiet lib (s_fail e)" and quiet_try [send_ops]: "quiet lib (s_try r)"
  by (auto simp: quiet_def s_ok_def s_fail_def s_try_def)

lemma final_fail [send_ops]: "final lib (s_fail e)"
  by (simp add: final_def s_fail_def)

lemma silent_note: "\<not> is_send c \<Longrightarrow> fetch_allowed lib c \<Longrightarrow> silent lib w (note_call c w)"
  unfolding silent_def grew_def note_call_def
  by (intro conjI exI [of _ "[c]"] exI [of _ "[]"]) simp_all

lemma quiet_ask [send_ops]: "\<not> is_send c \<Longrightarrow> fetch_allowed lib c \<Longrightarrow> quiet lib (s_ask c ans err)"
  unfolding quiet_def s_ask_def Let_def by (auto intro: silent_note)

section \<open>The parts of a send\<close>

text \<open>The database statements touch neither the calls made nor the limits.\<close>

definition same_out :: "'w sending_scheme \<Rightarrow> 'w sending_scheme \<Rightarrow> bool" where
  "same_out w w' \<longleftrightarrow> client_calls w' = client_calls w \<and> http_calls w' = http_calls w \<and> new_chat_limits w' = new_chat_limits w"

interpretation out: world_frame same_out
  by unfold_locales (auto simp: same_out_def)

lemma same_out_silent: "same_out w w' \<Longrightarrow> silent lib w w'"
  by (simp add: same_out_def silent_def grew_def)

lemma statements_out [simp]:
  "same_out w (snd (get_cloud_credentials sid w))" "same_out w (snd (get_limit sid w))"
  "same_out w (snd (started_since sid t w))" "same_out w (snd (record_chat sid jid t w))"
  unfolding get_cloud_credentials_def get_limit_def started_since_def record_chat_def
  by (intro out.stmt; simp add: same_out_def)+

lemma record_outgoing_out: "same_out w (record_outgoing env lib sid to m i w)"
proof -
  have ins: "same_out w (snd (insert_message m w))" for m and w :: "'w sending_scheme"
    by (cases m w rule: insert_message_cases) (auto simp: same_out_def)
  show ?thesis by (auto simp: record_outgoing_def Let_def out.same_refl intro: out.ignore ins)
qed

lemma chat_known_out: "same_out w (snd (chat_known sid jids w))"
  using chat_known_frame [of sid jids w] by (auto simp: same_out_def)

lemma limit_hit_out:
  assumes "limit_hit sid w = Some (v, w')"
  shows "same_out w w'"
proof -
  obtain l w1 where l: "get_limit sid w = (l, w1)" by fastforce
  then have w1: "same_out w w1" using statements_out(2) [of w sid] by simp
  show ?thesis
  proof (cases "\<exists>mx wh. l = Inr (Some (mx, wh))")
    case True
    then obtain mx wh where lim: "l = Inr (Some (mx, wh))" by blast
    obtain s w2 where s: "started_since sid (db_now w - wh * HOUR) w1 = (s, w2)" by fastforce
    then have "same_out w1 w2" using statements_out(3) [of w1 sid "db_now w - wh * HOUR"] by simp
    then have "same_out w w2" using w1 out.same_trans by blast
    moreover have "w' = w2" using assms l lim s by (auto simp: limit_hit_def split: sum.splits)
    ultimately show ?thesis by simp
  next
    case False
    then have "w' = w1" using assms l by (auto simp: limit_hit_def split: sum.splits option.splits)
    then show ?thesis using w1 by simp
  qed
qed

lemma note_recorded_out: "same_out w (note_recorded sid to w)"
  by (simp add: same_out_def note_recorded_def)

lemma admit_out:
  assumes "admit jl sid to requested w = Some (res, w')"
  shows "same_out w w'"
proof -
  obtain k w1 where k: "chat_known sid (history_jids jl to requested) w = (k, w1)" by fastforce
  then have w1: "same_out w w1" using chat_known_out [of w sid "history_jids jl to requested"] by simp
  show ?thesis
  proof (cases "is_direct_chat to \<and> k = Inr False")
    case True
    then obtain v w2 where v: "limit_hit sid w1 = Some (v, w2)"
      using assms k by (auto simp: admit_def split: option.splits)
    then have w2: "same_out w w2" using w1 limit_hit_out out.same_trans by blast
    obtain r w3 where r: "record_chat sid to (db_now w1) w2 = (r, w3)" by fastforce
    then have w3: "same_out w w3" using w2 statements_out(4) [of w2 sid to "db_now w1"] out.same_trans by fastforce
    have "w' = w2 \<or> w' = w3 \<or> w' = note_recorded sid to w3"
      using assms k True v r by (auto simp: admit_def split: option.splits sum.splits)
    then show ?thesis using w2 w3 note_recorded_out out.same_trans by blast
  next
    case False
    then have "w' = w \<or> w' = w1"
    proof (cases "is_direct_chat to")
      case True
      then show ?thesis using assms k False by (cases k) (simp_all add: admit_def split: bool.splits)
    qed (use assms in \<open>simp add: admit_def\<close>)
    then show ?thesis using w1 out.same_refl by blast
  qed
qed

lemma quiet_admit [send_ops]: "quiet lib (admit jl sid to requested)"
  unfolding quiet_def
proof
  fix w
  show "case admit jl sid to requested w of None \<Rightarrow> \<not> limits_valid w | Some (res, w') \<Rightarrow> silent lib w w'"
  proof (cases "admit jl sid to requested w")
    case None
    then show ?thesis using admit_calm [of jl sid to requested] unfolding calm_def by auto
  next
    case (Some r)
    then show ?thesis using admit_out [of jl sid to requested w "fst r" "snd r"] same_out_silent by (cases r) auto
  qed
qed

lemma quiet_same: "(\<And>w. \<exists>res. m w = Some (res, w)) \<Longrightarrow> quiet lib m"
  unfolding quiet_def by (metis (mono_tags, lifting) case_prod_conv option.simps(5) silent_refl)

lemma quiet_get_client [send_ops]: "quiet lib (get_client sid)"
  by (rule quiet_same) (simp add: get_client_def)

lemma quiet_resolve [send_ops]: "quiet lib (resolve_recipient lib' c jid)"
  unfolding quiet_def resolve_recipient_def by (auto simp: s_ok_def Let_def silent_note)

lemma quiet_split [send_ops]: "(\<And>a b. quiet lib (k a b)) \<Longrightarrow> quiet lib (case p of (a, b) \<Rightarrow> k a b)"
  by (cases p) simp

lemma final_split [send_ops]: "(\<And>a b. final lib (k a b)) \<Longrightarrow> final lib (case p of (a, b) \<Rightarrow> k a b)"
  by (cases p) simp

lemma quiet_reach [send_ops]: "quiet lib (reach lib' sid to)"
  unfolding reach_def by (intro send_ops)

lemma quiet_reach_admitted [send_ops]: "quiet lib (reach_admitted lib' sid to)"
  unfolding reach_admitted_def by (intro send_ops)

lemma quiet_media [send_ops]: "quiet lib (get_media_data lib media)"
proof -
  have "quiet lib (get_media_data lib (MdUrl url))" for url
    unfolding quiet_def get_media_data_def by (auto simp: s_ok_def s_fail_def Let_def silent_note split: sum.split fetched.split)
  moreover have "quiet lib (get_media_data lib media)" if "\<And>u. media \<noteq> MdUrl u"
    using that by (intro quiet_same) (cases media; auto simp: get_media_data_def s_ok_def s_fail_def split: option.split)
  ultimately show ?thesis by (cases media) auto
qed

lemma quiet_uploaded [send_ops]: "quiet lib (uploaded lib c kind media)"
  unfolding uploaded_def by (intro send_ops) simp_all

lemma quiet_typing [send_ops]: "quiet lib (typing lib' c jid)"
  unfolding quiet_def typing_def by (auto simp: s_ok_def show_typing_before_send_def Let_def silent_note)

section \<open>A message leaves\<close>

lemma departed_now: "is_send c \<Longrightarrow> client_calls w' = client_calls w @ [c] \<Longrightarrow> http_calls w' = http_calls w \<Longrightarrow>
    departed lib w w' (sent_id lib (client_calls w'))"
  unfolding departed_def by (metis silent_refl)

lemma final_send [send_ops]: "final lib (send_and_record lib sid c to_jid message)"
  unfolding final_def
proof
  fix w
  let ?c = "SendMessage c to_jid message" and ?w = "note_call (SendMessage c to_jid message) w"
  have n: "client_calls ?w = client_calls w @ [?c]" "http_calls ?w = http_calls w" by (simp_all add: note_call_def)
  show "case send_and_record lib sid c to_jid message w of None \<Rightarrow> \<not> limits_valid w
     | Some (Inr resp, w') \<Rightarrow> departed lib w w' (Some (mr_message_id resp))
     | Some (Inl e, w') \<Rightarrow> silent lib w w' \<or> departed lib w w' None"
  proof (cases "sn_send lib (client_calls ?w)")
    case (Inl e)
    then have "departed lib w ?w None" using departed_now [of ?c ?w w lib] n by (simp add: sent_id_def)
    then show ?thesis using Inl by (simp add: send_and_record_def s_bind_def s_ask_def Let_def)
  next
    case (Inr i)
    let ?v = "record_outgoing (sn_env lib) (sn_proto lib) sid to_jid (sn_view lib message) i ?w"
    have "same_out ?w ?v" by (rule record_outgoing_out)
    then have "departed lib w ?v (Some i)"
      using departed_now [of ?c ?v w lib] n Inr by (simp add: sent_id_def same_out_def)
    then show ?thesis using Inr by (simp add: send_and_record_def s_bind_def s_ask_def s_ok_def Let_def)
  qed
qed

lemma final_deliver [send_ops]: "final lib (deliver lib sid c to_jid message)"
  unfolding deliver_def by (intro send_ops)

lemma final_built [send_ops]: "final lib (\<lambda>w. deliver lib sid c to_jid (build w) w)"
  by (rule final_state [where f = "\<lambda>v. deliver lib sid c to_jid (build v)"]) (rule final_deliver)

lemma final_plain [send_ops]: "final lib (send_plain lib sid to message)"
  unfolding send_plain_def by (intro send_ops)

lemma final_send_built [send_ops]: "final lib (send_built lib sid to build)"
  unfolding send_built_def by (intro send_ops)

lemma final_send_inside [send_ops]: "final lib (send_inside lib sid to build)"
  unfolding send_inside_def by (intro send_ops)

section \<open>Sessions of the Cloud API\<close>

lemma http_json_run: "http_json lib h w = (case cb_answer lib (http_calls w @ [h]) of Inl e \<Rightarrow> Inl (Transport e) | Inr r \<Rightarrow> parse_response lib r,
    w\<lparr>http_calls := http_calls w @ [h]\<rparr>)"
  by (simp add: http_json_def http_send_def db_bind_def Let_def split: sum.split)

lemma departed_post: "is_post h \<Longrightarrow> http_calls w' = http_calls w @ [h] \<Longrightarrow> client_calls w' = client_calls w \<Longrightarrow>
    departed lib w w' (posted_id (sn_cloud lib) (http_calls w'))"
  unfolding departed_def by (metis silent_refl)

lemma final_post:
  assumes "is_post h"
  shows "final lib (cloud_send to (http_json (sn_cloud lib) h) :: ('w, message_response) send_op)"
  unfolding final_def
proof
  fix w :: "'w sending_scheme"
  let ?w = "w\<lparr>http_calls := http_calls w @ [h]\<rparr>" and ?l = "sn_cloud lib"
  have d: "departed lib w ?w (posted_id ?l (http_calls w @ [h]))" using departed_post [OF assms, of ?w w lib] by simp
  show "case cloud_send to (http_json ?l h) w of None \<Rightarrow> \<not> limits_valid w
     | Some (Inr resp, w') \<Rightarrow> departed lib w w' (Some (mr_message_id resp))
     | Some (Inl e, w') \<Rightarrow> silent lib w w' \<or> departed lib w w' None"
    using d by (auto simp: cloud_send_def s_bind_def s_lift_def db_map_err_def http_json_run posted_id_def s_ok_def
        cloud_message_response_def split: sum.split)
qed

lemma post_url: "is_post (plain_call POST (messages_url c) c body)"
  by (simp add: is_post_def plain_call_def messages_url_def)

lemma final_post_messages [send_ops]: "final lib (cloud_send to (post_messages (sn_cloud lib) c body))"
  unfolding post_messages_def by (rule final_post) (rule post_url)

lemma final_cloud_sends [send_ops]:
  "final lib (cloud_send to (cloud_send_text (sn_cloud lib) c to' text p r))"
  "final lib (cloud_send to (cloud_send_media (sn_cloud lib) c to' kind media cap fn r))"
  "final lib (cloud_send to (cloud_send_location (sn_cloud lib) c to' x y name addr r))"
  "final lib (cloud_send to (cloud_send_contacts (sn_cloud lib) c to' cs))"
  "final lib (cloud_send to (cloud_send_interactive_buttons (sn_cloud lib) c to' text bs r))"
  "final lib (cloud_send to (cloud_send_interactive_list (sn_cloud lib) c req))"
  unfolding cloud_send_text_def cloud_send_media_def cloud_send_location_def cloud_send_contacts_def
    cloud_send_interactive_buttons_def cloud_send_interactive_list_def Let_def
  by (fact final_post_messages)+

lemma silent_http: "\<not> is_post h \<Longrightarrow> silent lib w (w\<lparr>http_calls := http_calls w @ [h]\<rparr>)"
  unfolding silent_def grew_def by (intro conjI exI [of _ "[]"] exI [of _ "[h]"]) simp_all

lemma upload_url: "\<not> is_post (plain_call POST (by_phone c ''/media'') c body)"
  by (simp add: is_post_def plain_call_def by_phone_def)

lemma quiet_upload_media [send_ops]: "quiet lib (s_lift (db_map_err f (upload_media cl c bs mime name)))"
  unfolding quiet_def
  by (auto simp: s_lift_def db_map_err_def upload_media_def http_json_run db_fail_def silent_http upload_url split: sum.split)

lemma quiet_cloud_object [send_ops]: "quiet lib (cloud_media_object lib' c media)"
  unfolding cloud_media_object_def
  by (cases media) (auto intro!: send_ops split: option.split)

lemma final_cloud_media [send_ops]: "final lib (cloud_media lib c to kind media cap fn r)"
  unfolding cloud_media_def by (intro send_ops)

lemma quiet_credentials [send_ops]: "quiet lib (s_lift (db_map_err Internal (get_cloud_credentials sid)))"
proof -
  have "silent lib w (snd (get_cloud_credentials sid w))" for w :: "'w sending_scheme" by (rule same_out_silent) simp
  then show ?thesis by (auto simp: quiet_def s_lift_def db_map_err_def split_beta split: sum.split)
qed

lemma final_by_provider [send_ops]: "(\<And>c. final lib (cloud c)) \<Longrightarrow> final lib web \<Longrightarrow> final lib (by_provider lib sid cloud web)"
  unfolding by_provider_def by (intro send_ops) (simp split: option.split)

section \<open>Every request\<close>

lemma final_uploaded [send_ops]: "final lib (send_uploaded lib sid to kind part media mime extra fake r)"
  unfolding send_uploaded_def by (intro send_ops)

lemma quiet_option [send_ops]: "(\<And>a. quiet lib (f a)) \<Longrightarrow> quiet lib g \<Longrightarrow> quiet lib (case v of None \<Rightarrow> g | Some a \<Rightarrow> f a)"
  by (cases v) simp_all

lemma silent_page: "silent lib w (snd (fetch_page lib url w))" and silent_thumbnail: "silent lib w (snd (fetch_thumbnail lib url w))"
  by (auto simp: fetch_page_def fetch_thumbnail_def Let_def silent_note split: sum.split)

lemma silent_preview: "silent lib w (snd (fetch_preview lib url w))"
proof -
  obtain m w1 where m: "fetch_page lib url w = (m, w1)" by fastforce
  then have w1: "silent lib w w1" using silent_page [of lib w url] by simp
  have "silent lib w (snd (fetch_thumbnail lib u w1))" for u using w1 silent_thumbnail silent_trans by blast
  then show ?thesis using m w1 by (auto simp: fetch_preview_def split_beta split: option.split)
qed

lemma silent_for_text: "silent lib w (snd (for_text lib s w))"
proof (cases "first_url s")
  case None
  then show ?thesis by (simp add: for_text_def)
next
  case (Some url)
  obtain found w1 where f: "fetch_preview lib url w = (found, w1)" by fastforce
  then have "silent lib w w1" using silent_preview [of lib w url] by simp
  then have "silent lib w (cache_preview url found w1)" by (simp add: silent_def grew_def cache_preview_def)
  then show ?thesis using Some f by (auto simp: for_text_def split: option.split)
qed

lemma quiet_preview [send_ops]: "quiet lib (preview_wanted lib asked s)"
  using silent_for_text by (auto simp: quiet_def preview_wanted_def s_ok_def split_beta)

lemma final_text: "final lib (execute_text lib sid r)"
proof -
  have "quiet lib (mention_everyone lib c j b m)" for c j b m
    unfolding mention_everyone_def by (auto intro!: send_ops)
  moreover have "quiet lib (\<lambda>w. s_ok (reply_context lib sid c chat q w) w)" for c chat q
    by (rule quiet_same) (simp add: s_ok_def)
  then have "quiet lib (text_context lib sid c j r)" for c j
    unfolding text_context_def by (intro send_ops)
  ultimately show ?thesis
    unfolding execute_text_def text_on_web_def by (intro send_ops)
qed

lemma final_if: "(b \<Longrightarrow> final lib m) \<Longrightarrow> (\<not> b \<Longrightarrow> final lib n) \<Longrightarrow> final lib (if b then m else n)"
  by simp

lemma final_comment: "final lib (execute_comment lib sid r)"
proof -
  have "final lib (s_bind (s_ask (CommentRaw c j k t) (sn_send lib) Internal)
      (\<lambda>result w. s_ok \<lparr> mr_message_id = result, mr_timestamp = db_now w, mr_to = j \<rparr> w))" for c j k t
    unfolding final_def
  proof
    fix w
    let ?w = "note_call (CommentRaw c j k t) w"
    have d: "departed lib w ?w (sent_id lib (client_calls ?w))"
      using departed_now [of "CommentRaw c j k t" ?w w lib] by (simp add: note_call_def)
    show "case s_bind (s_ask (CommentRaw c j k t) (sn_send lib) Internal)
        (\<lambda>result w. s_ok \<lparr> mr_message_id = result, mr_timestamp = db_now w, mr_to = j \<rparr> w) w of None \<Rightarrow> \<not> limits_valid w
      | Some (Inr resp, w') \<Rightarrow> departed lib w w' (Some (mr_message_id resp))
      | Some (Inl e, w') \<Rightarrow> silent lib w w' \<or> departed lib w w' None"
      using d by (cases "sn_send lib (client_calls ?w)") (simp_all add: s_bind_def s_ask_def s_ok_def Let_def sent_id_def)
  qed
  from final_bind [OF quiet_reach_admitted final_split, OF this] show ?thesis
    unfolding execute_comment_def Let_def .
qed

lemma final_lookup:
  assumes "final lib m" and "\<And>a. final lib (f a)"
  shows "final lib (\<lambda>w. case g w of None \<Rightarrow> m w | Some a \<Rightarrow> f a w)"
  unfolding final_def
proof
  fix w
  show "case (case g w of None \<Rightarrow> m w | Some a \<Rightarrow> f a w) of None \<Rightarrow> \<not> limits_valid w
     | Some (Inr resp, w') \<Rightarrow> departed lib w w' (Some (mr_message_id resp))
     | Some (Inl e, w') \<Rightarrow> silent lib w w' \<or> departed lib w w' None"
    using assms unfolding final_def by (cases "g w") simp_all
qed

lemma final_forward: "final lib (execute_forward_message lib sid r)"
proof -
  have "final lib (forward_stored lib sid c j chat i)" for c j chat i
    unfolding forward_stored_def by (intro final_lookup send_ops)
  then show ?thesis
    unfolding execute_forward_message_def by (intro send_ops) (auto intro: send_ops split: option.split)
qed

lemma final_quick_reply: "final lib (execute_quick_reply lib sid r)"
  unfolding execute_quick_reply_def by (intro final_if send_ops)

lemma final_cta_url: "final lib (execute_cta_url lib sid r)"
proof -
  have "quiet lib (cta_header_media lib c p)" for c p
    unfolding cta_header_media_def by (cases p) (auto intro!: send_ops)
  then show ?thesis unfolding execute_cta_url_def by (intro send_ops)
qed

lemmas execute_media_defs = execute_image_def execute_video_def execute_audio_def execute_document_def execute_sticker_def
  execute_location_def execute_contact_def execute_buttons_def execute_list_def

lemmas execute_plain_defs = execute_poll_def execute_poll_update_def execute_interactive_def execute_buttons_response_def
  execute_list_response_def execute_interactive_response_def execute_highly_structured_def execute_template_button_reply_def
  execute_order_def execute_invoice_def execute_payment_invite_def execute_payment_def execute_request_payment_def
  execute_cancel_payment_request_def execute_decline_payment_request_def execute_newsletter_admin_invite_def
  execute_newsletter_follower_invite_def execute_newsletter_forward_def execute_scheduled_call_def execute_scheduled_call_edit_def

lemma final_execute: "final lib (execute lib sid r)"
  by (cases r) (simp_all add: execute_plain_defs execute_media_defs send_ops final_text final_forward final_comment
    final_quick_reply final_cta_url)

end
