(* ===== verification/Send_Laws.thy ===== *)
theory Send_Laws
  imports Send_Facts
begin

text \<open>
  The properties of the message endpoints, for every request at once: what leaves, what the
  new-chat limit stops, what is fetched, and how media uploaded before is read.
\<close>

section \<open>Every request\<close>

text \<open>
  C14. Whatever the request, its session and the state, a send that answers with a message id handed
  exactly one message over, as its last call, to the client or to Meta, and the id is the one that
  call answered; a send that answers with an error handed over nothing, or one message as its last
  call, which that call refused or answered unreadably. Nothing is sent twice and no id is made up. A
  send panics only where the session's new-chat limit in the database is invalid.
\<close>

theorem send_leaves_once:
  "case execute lib sid r w of None \<Rightarrow> \<not> limits_valid w
     | Some (Inr resp, w') \<Rightarrow> departed lib w w' (Some (mr_message_id resp))
     | Some (Inl e, w') \<Rightarrow> silent lib w w' \<or> departed lib w w' None"
  using final_execute [of lib sid r] unfolding final_def by (rule spec)

text \<open>
  C16. Whatever the request, every address the gateway asks its HTTP client for, a page, a picture or
  media, is an http or https URL whose host resolved to public addresses only. This is the address
  asked for: where an answer redirects, the client goes on by itself, and of the address it goes on
  to only a name is checked, by the resolver of the guard; those reads are not in this statement.
\<close>

theorem fetches_are_guarded:
  "case execute lib sid r w of None \<Rightarrow> \<not> limits_valid w
     | Some (res, w') \<Rightarrow> \<exists>cs. client_calls w' = client_calls w @ cs \<and> list_all (fetch_allowed lib) cs"
proof -
  have s: "\<exists>cs. client_calls v = client_calls w @ cs \<and> list_all (fetch_allowed lib) cs" if "silent lib w v" for v
    using that by (auto simp: silent_def grew_def)
  have d: "\<exists>cs. client_calls v = client_calls w @ cs \<and> list_all (fetch_allowed lib) cs" if d: "departed lib w v i" for v i
  proof -
    obtain u where u: "silent lib w u" and c: "client_calls v = client_calls u \<or> (\<exists>c. is_send c \<and> client_calls v = client_calls u @ [c])"
      using d unfolding departed_def by blast
    obtain cs where "client_calls u = client_calls w @ cs" "list_all (fetch_allowed lib) cs" using s [OF u] by blast
    moreover have "fetch_allowed lib c" if "is_send c" for c using that by (cases c) simp_all
    ultimately show ?thesis using c by auto
  qed
  show ?thesis
    by (cases rule: final_cases [OF final_execute, of lib sid r w]) (use s d in auto)
qed

section \<open>The new-chat limit\<close>

lemma bind_failed: "m w = Some (Inl e, w') \<Longrightarrow> s_bind m k w = Some (Inl e, w')"
  by (simp add: s_bind_def)

lemma by_provider_web:
  "get_cloud_credentials sid w = (Inr None, w) \<Longrightarrow> by_provider lib sid cloud web w = web w"
  by (simp add: by_provider_def s_bind_def s_lift_def db_map_err_def)

lemmas admitted_first = send_plain_def send_built_def send_uploaded_def text_on_web_def execute_forward_message_def
  execute_comment_def execute_cta_url_def execute_quick_reply_def execute_text_def

lemma refused_execute:
  assumes "get_cloud_credentials sid w = (Inr None, w)" and "\<not> answers_inside r"
    and "reach_admitted lib sid (recipient_of r) w = Some (Inl e, w')"
  shows "execute lib sid r w = Some (Inl e, w')"
  using assms by (cases r) (simp_all add: execute_plain_defs execute_media_defs by_provider_web admitted_first bind_failed)

lemma admit_refusal:
  "admit jl sid to requested w = Some (Inl e, w') \<Longrightarrow> \<exists>mx wh wait. e = NewChatLimit mx wh wait"
  by (auto simp: admit_def split: if_splits prod.splits sum.splits bool.splits option.splits)

text \<open>
  C15. Of a session that is not a Cloud one, a request to a chat that the new-chat limit refuses ends
  with the limit's error: nothing is fetched, uploaded, shown as typing or sent, and no row is
  changed. It holds of every kind of request but the five that answer within a chat.
\<close>

theorem limit_stops_sends:
  assumes "get_cloud_credentials sid w = (Inr None, w)" and "\<not> answers_inside r"
    and "reach lib sid (recipient_of r) w = Some (Inr (c, jid), w1)"
    and "admit (sn_jids lib) sid jid (recipient_of r) w1 = Some (Inl e, w2)"
  shows "execute lib sid r w = Some (Inl e, w2) \<and> client_calls w2 = client_calls w1 \<and> http_calls w2 = http_calls w1 \<and>
    (\<exists>mx wh wait. e = NewChatLimit mx wh wait)"
proof -
  have "reach_admitted lib sid (recipient_of r) w = Some (Inl e, w2)"
    using assms(3,4) by (simp add: reach_admitted_def s_bind_def)
  then have "execute lib sid r w = Some (Inl e, w2)" by (rule refused_execute [OF assms(1,2)])
  moreover have "client_calls w2 = client_calls w1 \<and> http_calls w2 = http_calls w1"
    using admit_out [OF assms(4)] by (simp add: same_out_def)
  ultimately show ?thesis using admit_refusal [OF assms(4)] by blast
qed

text \<open>A gateway with one running client, whose library takes every message, and a limit of no new chat left.\<close>

definition demo_send_lib :: "(wa_message option) send_lib" where
  "demo_send_lib = \<lparr> sn_cloud = demo_cloud_lib, sn_jids = demo_jids, sn_server = (\<lambda>_. ''lid''), sn_non_ad = id, sn_pn = (\<lambda>_. None),
     sn_user_info = (\<lambda>_. None), sn_group = (\<lambda>_. Inr []), sn_upload = (\<lambda>_. Inl ''none''), sn_composing = (\<lambda>_. True),
     sn_send = (\<lambda>_. Inr ''id''), sn_unit = (\<lambda>_. Inr ()), sn_fetch = (\<lambda>_. Fetched 404 None [1]), sn_stored = (\<lambda>_ _ _ _. None),
     sn_base = id, sn_forward = id, sn_b64 = (\<lambda>_. Some []), sn_env = (\<lambda>_. None), sn_draws = \<lparr> dw_number = (\<lambda>_. 0), dw_digit = (\<lambda>_ _. 0), dw_jitter = (\<lambda>_ x. x) \<rparr>, sn_secret = [],
     sn_page = (\<lambda>_. None), sn_lossy = (\<lambda>_. []), sn_join = (\<lambda>_ _. None), sn_thumbnail = (\<lambda>_. None), sn_service_type = (\<lambda>_. True), sn_proto = unwrapping_lib,
     sn_view = (\<lambda>_. wa_message.extend empty_message None) \<rparr>"

definition demo_sending :: "new_chat_row list \<Rightarrow> limit_row list \<Rightarrow> sending" where
  "demo_sending chats limits = outbound.extend (lifecycle.extend
     ((demo_life [demo_row] [(''s'', (session_state_new ''/data/s'')\<lparr>ss_client := Some (demo_client\<lparr>cl_socket_connected := True, cl_logged_in := True\<rparr>)\<rparr>)])
        \<lparr>new_chats := chats, new_chat_limits := limits\<rparr>) \<lparr> http_calls = [] \<rparr>) \<lparr> client_calls = [], preview_cache = [] \<rparr>"

definition demo_text :: send_text_request where
  "demo_text = \<lparr> tx_to = ''2@lid'', tx_text = ''hi'', tx_reply_to = None, tx_reply_chat = None, tx_fake = None, tx_mentions = None,
     tx_mention_all = None, tx_link_preview = None \<rparr>"

lemma demo_sending_sel [simp]:
  "db_faults (demo_sending cs ls) = []" "sessions (demo_sending cs ls) = [demo_row]" "new_chats (demo_sending cs ls) = cs"
  "new_chat_limits (demo_sending cs ls) = ls" "db_now (demo_sending cs ls) = 1000" "message_chats (demo_sending cs ls) = []"
  "gw_sessions (demo_sending cs ls) =
     [(''s'', (session_state_new ''/data/s'')\<lparr>ss_client := Some (demo_client\<lparr>cl_socket_connected := True, cl_logged_in := True\<rparr>)\<rparr>)]"
  by (simp_all add: demo_sending_def outbound.defs lifecycle.defs demo_life_def)

lemma limit_stops_sends_witness:
  "execute demo_send_lib ''s'' (Text demo_text) (demo_sending [\<lparr> nc_session = ''s'', nc_chat = ''1@lid'', nc_created_at = 900 \<rparr>]
       [\<lparr> nl_session = ''s'', nl_max_new_chats = 1, nl_window_hours = 24 \<rparr>]) =
     Some (Inl (NewChatLimit 1 24 86300), demo_sending [\<lparr> nc_session = ''s'', nc_chat = ''1@lid'', nc_created_at = 900 \<rparr>]
       [\<lparr> nl_session = ''s'', nl_max_new_chats = 1, nl_window_hours = 24 \<rparr>])"
proof -
  let ?w = "demo_sending [\<lparr> nc_session = ''s'', nc_chat = ''1@lid'', nc_created_at = 900 \<rparr>]
       [\<lparr> nl_session = ''s'', nl_max_new_chats = 1, nl_window_hours = 24 \<rparr>]"
  have "get_cloud_credentials ''s'' ?w = (Inr None, ?w)"
    by (simp add: get_cloud_credentials_def db_read_run find_session_def demo_row_def new_session_row_def row_to_credentials_def)
  moreover have "reach demo_send_lib ''s'' (recipient_of (Text demo_text)) ?w = Some (Inr (0, ''2@lid''), ?w)"
    by (simp add: reach_def s_bind_def get_client_def s_try_def s_ok_def resolve_recipient_def parse_jid_def trim_str_def is_ws_def
        demo_send_lib_def demo_jids_def demo_text_def get_session_mem_def dm_get_def get_live_client_def client_ready_def demo_client_def)
  moreover have "admit (sn_jids demo_send_lib) ''s'' ''2@lid'' (recipient_of (Text demo_text)) ?w = Some (Inl (NewChatLimit 1 24 86300), ?w)"
    by (simp add: admit_run demo_send_lib_def demo_text_def history_jids_def demo_jids_def parse_jid_def trim_str_def is_ws_def
        limit_verdict_def find_limit_def retry_after_def started_times_def HOUR_def known_chat_def of_chat_def)
  ultimately show ?thesis
    using limit_stops_sends [of "''s''" ?w "Text demo_text" demo_send_lib 0 "''2@lid''" ?w "NewChatLimit 1 24 86300" ?w]
    by (simp only: answers_inside.simps simp_thms)
qed

section \<open>Media\<close>

lemma read_media_url: "text_field ''url'' j = Some url \<Longrightarrow> read_media j = Some (MdUrl url)"
  by (simp add: read_media_def)

text \<open>The third variant has a field of the first, so it is never reached.\<close>

lemma never_uploaded: "read_media j \<noteq> Some (MdUploaded url path key sha enc n mime)"
  by (cases "text_field ''url'' j") (auto simp: read_media_def split: option.splits)

text \<open>
  C17. No JSON text is read as a pointer to media uploaded before: an object with a \<open>url\<close>, so every
  such pointer, is read as an address, from which the gateway fetches the bytes of the message; what
  the server answers there is taken for the media and uploaded whatever the status, the body of a 404
  as well.
\<close>

theorem uploaded_media_is_refetched:
  assumes "text_field ''url'' pointer = Some url" and "validate_public_url (cb_net (sn_cloud lib)) url = Inr parsed"
    and "sn_fetch lib (client_calls w @ [FetchUrl url]) = Fetched status content_type body"
    and "sn_upload lib (client_calls w @ [FetchUrl url, Upload c kind body]) = Inr up"
  shows "read_media pointer = Some (MdUrl url) \<and> read_media other \<noteq> Some (MdUploaded url path key sha enc n mime) \<and>
    uploaded lib c kind (MdUrl url) w = Some (Inr (body, case content_type of Some t \<Rightarrow> t | None \<Rightarrow> ''application/octet-stream'', up),
      w\<lparr>client_calls := client_calls w @ [FetchUrl url, Upload c kind body]\<rparr>)"
  using assms never_uploaded [of other url path key sha enc n mime]
  by (simp add: read_media_url uploaded_def s_bind_def get_media_data_def s_ok_def s_ask_def note_call_def Let_def)

definition open_net :: net_world where
  "open_net = \<lparr> parse_url = (\<lambda>_. Inr \<lparr> url_scheme = ''https'', url_host = Some ''mmg'', url_port_or_default = Some 443 \<rparr>),
     lookup_host = (\<lambda>_ _. Inr [IpV4 (V4 8 8 8 8)]), show_ip = (\<lambda>_. []) \<rparr>"

definition demo_pointer :: upload_pointer where
  "demo_pointer = \<lparr> up_url = ''new'', up_direct_path = [], up_media_key = [], up_file_sha256 = [], up_file_enc_sha256 = [] \<rparr>"

definition fetching_lib :: "(wa_message option) send_lib" where
  "fetching_lib = demo_send_lib\<lparr>sn_cloud := demo_cloud_lib\<lparr>cb_net := open_net\<rparr>, sn_upload := (\<lambda>_. Inr demo_pointer)\<rparr>"

lemma uploaded_media_is_refetched_witness:
  "read_media (JObj [(''url'', JStr ''u''), (''direct_path'', JStr ''d''), (''media_key'', JStr ''k''), (''file_sha256'', JStr ''s''),
     (''file_enc_sha256'', JStr ''e''), (''file_length'', JInt 1), (''mimetype'', JStr ''m'')]) = Some (MdUrl ''u'') \<and>
   uploaded fetching_lib 0 ''Image'' (MdUrl ''u'') (demo_sending [] []) = Some (Inr ([1], ''application/octet-stream'', demo_pointer),
     (demo_sending [] [])\<lparr>client_calls := client_calls (demo_sending [] []) @ [FetchUrl ''u'', Upload 0 ''Image'' [1]]\<rparr>)"
  using uploaded_media_is_refetched [of "JObj [(''url'', JStr ''u''), (''direct_path'', JStr ''d''), (''media_key'', JStr ''k''),
      (''file_sha256'', JStr ''s''), (''file_enc_sha256'', JStr ''e''), (''file_length'', JInt 1), (''mimetype'', JStr ''m'')]"
      "''u''" fetching_lib _ "demo_sending [] []" 404 None "[1]" 0 "''Image''" demo_pointer]
  by (simp add: text_field_def fetching_lib_def validate_public_url_def open_net_def demo_send_lib_def demo_cloud_lib_def)

end
