(* ===== verification/Preview_Facts.thy ===== *)
theory Preview_Facts
  imports Send_Laws
begin

text \<open>
  What bounds a link preview: the bytes read, the characters shown, the entries cached.
\<close>

section \<open>Bytes\<close>

lemma read_capped_cap: "read_capped cap stop_at chunks out = Some res \<Longrightarrow> length out \<le> cap \<Longrightarrow> length res \<le> cap"
  by (induction cap stop_at chunks out rule: read_capped.induct) (auto simp: Let_def split: if_splits option.splits)

text \<open>Without a marker the body is cut at the bound, so one byte more than the bound tells a picture that is too big.\<close>

lemma read_capped_all:
  "list_all (\<lambda>c. c \<noteq> None) chunks \<Longrightarrow> length out \<le> cap \<Longrightarrow>
     read_capped cap None chunks out = Some (take cap (out @ concat (map the chunks)))"
proof (induction chunks arbitrary: out)
  case (Cons c cs)
  then obtain chunk where c: "c = Some chunk" by auto
  show ?case
  proof (cases "cap - length out = 0")
    case True
    then show ?thesis using c Cons.prems(2) by (simp add: Let_def)
  next
    case False
    let ?o = "out @ take (cap - length out) chunk"
    have "read_capped cap None (c # cs) out = read_capped cap None cs ?o" using c False by (simp add: Let_def)
    also have "\<dots> = Some (take cap (?o @ concat (map the cs)))" using Cons by simp
    also have "take cap (?o @ concat (map the cs)) = take cap (out @ concat (map the (c # cs)))"
      using c Cons.prems(2) by (cases "length chunk \<le> cap - length out") (simp_all add: min_def)
    finally show ?thesis .
  qed
qed simp

lemma encoded_picture_bounded:
  assumes "fetch_thumbnail lib url w = (Some t, w')"
  shows "\<exists>picture. sn_thumbnail lib picture = Some t \<and> length picture \<le> MAX_IMAGE_BYTES"
  using assms by (auto simp: fetch_thumbnail_def Let_def split: sum.splits option.splits if_splits)

section \<open>Characters\<close>

lemma while_append:
  "(ys \<noteq> [] \<Longrightarrow> \<not> P (hd ys)) \<Longrightarrow> takeWhile P (cs @ ys) = takeWhile P cs \<and> dropWhile P (cs @ ys) = dropWhile P cs @ ys"
proof (induction cs)
  case Nil
  then show ?case by (cases ys) simp_all
qed simp

lemma utf8_chars_append:
  assumes "ys \<noteq> [] \<Longrightarrow> \<not> utf8_cont (hd ys)"
  shows "utf8_chars (xs @ ys) = utf8_chars xs @ utf8_chars ys"
proof (induction xs rule: utf8_chars.induct)
  case (2 c cs)
  have tw: "takeWhile utf8_cont (cs @ ys) = takeWhile utf8_cont cs" and dw: "dropWhile utf8_cont (cs @ ys) = dropWhile utf8_cont cs @ ys"
    using while_append [of ys utf8_cont cs] assms by blast+
  show ?case using 2 by (simp only: append_Cons utf8_chars.simps tw dw)
qed simp

lemma utf8_chars_take: "utf8_chars (concat (take n (utf8_chars s))) = take n (utf8_chars s)"
proof (induction s arbitrary: n rule: utf8_chars.induct)
  case (2 c cs)
  show ?case
  proof (cases n)
    case (Suc m)
    let ?r = "concat (take m (utf8_chars (dropWhile utf8_cont cs)))"
    have nil: "dropWhile utf8_cont (takeWhile utf8_cont cs) = []" unfolding dropWhile_eq_Nil_conv by (blast dest: set_takeWhileD)
    have hd: "\<not> utf8_cont (hd ?r)" if "?r \<noteq> []"
    proof (cases "dropWhile utf8_cont cs")
      case Nil
      show ?thesis using that unfolding Nil by simp
    next
      case (Cons d ds)
      then have "\<not> utf8_cont d" by (metis (mono_tags, lifting) hd_dropWhile list.distinct(1) list.sel(1))
      moreover have "hd ?r = d" using that Cons by (cases m) (simp_all add: Let_def)
      ultimately show ?thesis by simp
    qed
    have one: "utf8_chars (c # takeWhile utf8_cont cs) = [c # takeWhile utf8_cont cs]" by (simp add: nil)
    have "utf8_chars ((c # takeWhile utf8_cont cs) @ ?r) = (c # takeWhile utf8_cont cs) # utf8_chars ?r"
      using utf8_chars_append [of ?r "c # takeWhile utf8_cont cs"] hd one by simp
    then show ?thesis using Suc 2 [of m] by (simp add: Let_def)
  qed simp
qed simp

lemma clip_length: "0 < max_chars \<Longrightarrow> length (utf8_chars (clip s max_chars)) \<le> max_chars"
proof -
  assume m: "0 < max_chars"
  have e: "utf8_chars (utf8 0x2026) = [utf8 0x2026]" "utf8 0x2026 \<noteq> []" "\<not> utf8_cont (hd (utf8 0x2026))"
    by (simp_all add: utf8_def utf8_cont_def)
  show ?thesis using m by (simp add: clip_def utf8_chars_append [OF e(3)] e(1) utf8_chars_take)
qed

section \<open>The preview and its cache\<close>

definition preview_ok :: "string \<Rightarrow> link_preview option \<Rightarrow> bool" where
  "preview_ok url found = (case found of None \<Rightarrow> True
     | Some p \<Rightarrow> lk_matched_text p = url \<and> (lk_title p \<noteq> None \<or> lk_description p \<noteq> None) \<and>
         pred_option (\<lambda>t. length (utf8_chars t) \<le> 200) (lk_title p) \<and> pred_option (\<lambda>d. length (utf8_chars d) \<le> 400) (lk_description p))"

definition cache_ok :: "'w sending_scheme \<Rightarrow> bool" where
  "cache_ok w \<longleftrightarrow> distinct (map fst (preview_cache w)) \<and> length (preview_cache w) \<le> CACHE_CAPACITY \<and>
     list_all (\<lambda>(url, at, found). preview_ok url found) (preview_cache w)"

lemma parse_meta_clipped:
  "pred_option (\<lambda>t. length (utf8_chars t) \<le> 200) (pm_title (parse_meta h))"
  "pred_option (\<lambda>d. length (utf8_chars d) \<le> 400) (pm_description (parse_meta h))"
  by (auto simp: parse_meta_def Let_def clip_length pred_option_def)

lemma fetch_page_meta: "fetch_page lib url w = (Some (meta, final_url), w') \<Longrightarrow> \<exists>h. meta = parse_meta h"
  by (auto simp: fetch_page_def Let_def split: sum.splits option.splits if_splits)

lemma fetch_preview_ok: "preview_ok url (fst (fetch_preview lib url w))"
proof -
  obtain m w1 where m: "fetch_page lib url w = (m, w1)" by fastforce
  show ?thesis
  proof (cases m)
    case (Some mf)
    then obtain meta final_url where mf: "m = Some (meta, final_url)" by (cases mf) simp
    then obtain h where h: "meta = parse_meta h" using fetch_page_meta m by blast
    have "preview_ok url (Some (preview_of url meta t))" if "\<not> (pm_title meta = None \<and> pm_description meta = None)" for t
      using that parse_meta_clipped [of h] h by (auto simp: preview_ok_def preview_of_def)
    then show ?thesis using m mf by (auto simp: fetch_preview_def preview_ok_def split: option.split prod.split)
  qed (use m in \<open>simp add: fetch_preview_def preview_ok_def\<close>)
qed

lemma evict_previews_room: "length (evict_previews now c) < CACHE_CAPACITY" "set (evict_previews now c) \<subseteq> set c"
  by (auto simp: evict_previews_def CACHE_CAPACITY_def Let_def)

lemma evict_previews_keys: "distinct (map fst c) \<Longrightarrow> distinct (map fst (evict_previews now c))"
  by (auto simp: evict_previews_def Let_def distinct_map_filter)

lemma length_update: "length (AList.update k v xs) \<le> Suc (length xs)"
  by (induction xs) auto

lemma set_update: "set (AList.update k v xs) \<subseteq> insert (k, v) (set xs)"
  by (induction xs) auto

lemma cache_preview_ok:
  assumes "cache_ok w" and "preview_ok url found"
  shows "cache_ok (cache_preview url found w)"
proof -
  let ?e = "evict_previews (hub_mono w) (preview_cache w)" and ?v = "(hub_mono w, found)"
  have "distinct (map fst (AList.update url ?v ?e))"
    using assms(1) evict_previews_keys by (intro distinct_update) (auto simp: cache_ok_def)
  moreover have "length (AList.update url ?v ?e) \<le> CACHE_CAPACITY"
    using length_update [of url ?v ?e] evict_previews_room(1) [of "hub_mono w" "preview_cache w"] by linarith
  moreover have "list_all (\<lambda>(url, at, found). preview_ok url found) (AList.update url ?v ?e)"
    using assms set_update [of url ?v ?e] evict_previews_room(2) [of "hub_mono w" "preview_cache w"]
    by (fastforce simp: cache_ok_def list_all_iff)
  ultimately show ?thesis by (simp add: cache_ok_def cache_preview_def)
qed

lemma fetch_preview_cache: "preview_cache (snd (fetch_preview lib url w)) = preview_cache w"
proof -
  have p: "preview_cache (snd (fetch_page lib u v)) = preview_cache v" and t: "preview_cache (snd (fetch_thumbnail lib u v)) = preview_cache v" for u v
    by (auto simp: fetch_page_def fetch_thumbnail_def note_call_def Let_def split: sum.split)
  obtain m w1 where m: "fetch_page lib url w = (m, w1)" by fastforce
  then have "preview_cache w1 = preview_cache w" using p [of url w] by simp
  then show ?thesis using m t [of _ w1] by (auto simp: fetch_preview_def split_beta split: option.split)
qed

text \<open>
  C19. A link preview stays within its bounds whatever the page answers. While the cache holds at most
  256 entries, no URL twice, each with a title of at most 200 characters and a description of at most
  400, looking up the preview of a text keeps it so; and the preview found names the URL of the text
  and has a title or a description within those lengths.
\<close>

theorem link_preview_bounded:
  assumes "cache_ok w"
  shows "cache_ok (snd (for_text lib s w)) \<and>
    (case first_url s of None \<Rightarrow> for_text lib s w = (None, w) | Some url \<Rightarrow> preview_ok url (fst (for_text lib s w)))"
proof (cases "first_url s")
  case None
  then show ?thesis using assms by (simp add: for_text_def)
next
  case (Some url)
  show ?thesis
  proof (cases "cached_preview url w")
    case None
    obtain found w1 where f: "fetch_preview lib url w = (found, w1)" by fastforce
    have "preview_ok url found" using fetch_preview_ok [of url lib w] f by simp
    moreover have "cache_ok w1" using assms fetch_preview_cache [of lib url w] f by (simp add: cache_ok_def)
    ultimately show ?thesis using None Some f cache_preview_ok by (simp add: for_text_def)
  next
    case (Some cached)
    then obtain at where "map_of (preview_cache w) url = Some (at, cached)" by (auto simp: cached_preview_def split: option.splits if_splits)
    then have "preview_ok url cached" using assms by (auto simp: cache_ok_def list_all_iff dest: map_of_SomeD)
    then show ?thesis using assms Some \<open>first_url s = Some url\<close> by (simp add: for_text_def)
  qed
qed

lemma demo_url: "first_url ''a http://x.io, b'' = Some ''http://x.io''"
  by code_simp

lemma link_preview_bounded_witness:
  "cache_ok (snd (for_text fetching_lib ''a http://x.io, b'' (demo_sending [] []))) \<and>
   preview_ok ''http://x.io'' (fst (for_text fetching_lib ''a http://x.io, b'' (demo_sending [] [])))"
proof -
  have "cache_ok (demo_sending [] [])"
    by (simp add: cache_ok_def demo_sending_def outbound.defs sending.defs lifecycle.defs CACHE_CAPACITY_def)
  from link_preview_bounded [OF this, of fetching_lib "''a http://x.io, b''"] show ?thesis by (simp only: demo_url option.case)
qed

end
