(* ===== verification/Connect_Wait.thy ===== *)
theory Connect_Wait
  imports Recovery_Facts
begin

text \<open>
  The event stream of \<open>connect_and_wait\<close> (\<open>src/api/shared/sessions/handlers/connection.rs\<close>): the
  loop over the session's event channel, with the deadline. Each input is what the
  \<open>select!\<close> of one round yields, with whether the reader of the stream is still there.
\<close>

datatype wait_input = WPayload string | WLagged | WClosed | WDeadline

type_synonym sse_frame = "string \<times> string"

definition clamp_timeout :: "nat option \<Rightarrow> nat" where
  "clamp_timeout t = max 5 (min 600 (case t of None \<Rightarrow> 180 | Some n \<Rightarrow> n))"

definition event_name :: "json \<Rightarrow> string" where
  "event_name v = (case v of JObj fs \<Rightarrow> (case map_of fs ''event'' of Some (JStr e) \<Rightarrow> e | _ \<Rightarrow> []) | _ \<Rightarrow> [])"

text \<open>The frames of one event, and whether the stream is over after them.\<close>

definition wait_event :: "bool \<Rightarrow> string \<Rightarrow> string \<Rightarrow> sse_frame list \<times> bool" where
  "wait_event skip_sync name payload =
     (if name = ''qr_code'' \<or> name = ''pair_code'' then ([(name, payload)], False)
      else if name = ''connected''
        then if skip_sync then ([(''connected'', payload), (''ready'', payload)], True) else ([(''connected'', payload)], False)
      else if name = ''offline_sync_completed'' then ([(''ready'', payload)], True)
      else if name = ''logged_out'' then ([(''error'', payload)], True)
      else ([], False))"

fun wait_loop :: "libs \<Rightarrow> bool \<Rightarrow> (wait_input \<times> bool) list \<Rightarrow> sse_frame list \<times> bool" where
  "wait_loop lib skip_sync [] = ([], False)"
| "wait_loop lib skip_sync ((inp, open_end) # inputs) =
     (case inp of
        WDeadline \<Rightarrow> (if open_end then [(''timeout'', ''{}'')] else [], True)
      | WClosed \<Rightarrow> ([], True)
      | WLagged \<Rightarrow> wait_loop lib skip_sync inputs
      | WPayload p \<Rightarrow>
          (case parse_json lib p of
             None \<Rightarrow> wait_loop lib skip_sync inputs
           | Some v \<Rightarrow>
               (let (frames, over) = wait_event skip_sync (event_name v) p in
                if frames = [] then wait_loop lib skip_sync inputs
                else if \<not> open_end then ([], True)
                else if over then (frames, True)
                else (let (rest, over') = wait_loop lib skip_sync inputs in (frames @ rest, over')))))"

definition connect_and_wait ::
    "(string \<Rightarrow> string option) \<Rightarrow> libs \<Rightarrow> string \<Rightarrow> connect_wait_query \<Rightarrow> (wait_input \<times> bool) list
     \<Rightarrow> ('w, sse_frame list \<times> bool) life_handler" where
  "connect_and_wait env lib sid q inputs =
     db_bind (ensure_connecting_for_wait env sid q) (\<lambda>s. db_return
       (if logged_in_live s then ([(''ready'', ''{\"already_connected\":true}'')], True)
        else wait_loop lib (ss_skip_history_sync s) inputs))"

section \<open>What the stream promises\<close>

definition terminal_frame :: "sse_frame \<Rightarrow> bool" where
  "terminal_frame f \<longleftrightarrow> fst f \<in> {''ready'', ''error'', ''timeout''}"

text \<open>A stream is open, cut off by its reader or the channel, or closed by a last, terminal frame.\<close>

definition wait_shape :: "sse_frame list \<Rightarrow> bool" where
  "wait_shape frames \<longleftrightarrow> list_all (\<lambda>f. \<not> terminal_frame f) (butlast frames)"

lemma wait_event_frames:
  assumes "wait_event skip name p = (frames, over)"
  shows "list_all (\<lambda>f. snd f = p) frames" "over \<longleftrightarrow> frames \<noteq> [] \<and> terminal_frame (last frames)"
    "list_all (\<lambda>f. \<not> terminal_frame f) (butlast frames)"
  using assms by (auto simp: wait_event_def terminal_frame_def split: if_splits)

lemma wait_event_open: "wait_event skip name p = (frames, over) \<Longrightarrow> \<not> over \<Longrightarrow> list_all (\<lambda>f. \<not> terminal_frame f) frames"
  by (auto simp: wait_event_def terminal_frame_def split: if_splits)

lemma wait_event_over: "wait_event skip name p = (frames, True) \<Longrightarrow> frames \<noteq> []"
  by (auto simp: wait_event_def split: if_splits)

lemma wait_shape_append:
  "list_all (\<lambda>f. \<not> terminal_frame f) frames \<Longrightarrow> rest \<noteq> [] \<Longrightarrow> wait_shape rest \<Longrightarrow> wait_shape (frames @ rest)"
  by (simp add: wait_shape_def butlast_append)

text \<open>C9. A stream of \<open>connect/wait\<close> whose reader stays and whose session lives ends by its deadline at the
  latest, whatever events arrive before: it emits exactly one terminal frame (ready, error or
  timeout), as its last; before it come only pairing codes and the connect, and every frame
  carries the payload of an event that arrived, unchanged, but for the timeout.\<close>

theorem wait_stream_closes:
  assumes "list_all (\<lambda>(i, reader). reader \<and> i \<noteq> WClosed) pre"
  shows "let (frames, over) = wait_loop lib skip_sync (pre @ (WDeadline, True) # later) in
    over \<and> frames \<noteq> [] \<and> terminal_frame (last frames) \<and> list_all (\<lambda>f. \<not> terminal_frame f) (butlast frames) \<and>
    list_all (\<lambda>f. f = (''timeout'', ''{}'') \<or> WPayload (snd f) \<in> fst ` set pre) frames"
  using assms
proof (induction pre)
  case Nil
  show ?case by (simp add: terminal_frame_def)
next
  case (Cons x pre)
  obtain i where x: "x = (i, True)" and i: "i \<noteq> WClosed" using Cons.prems by (cases x) simp
  obtain rest over where r: "wait_loop lib skip_sync (pre @ (WDeadline, True) # later) = (rest, over)" by fastforce
  have IH: "over" "rest \<noteq> []" "terminal_frame (last rest)" "wait_shape rest"
      "list_all (\<lambda>f. f = (''timeout'', ''{}'') \<or> WPayload (snd f) \<in> fst ` set (x # pre)) rest"
    using Cons.IH Cons.prems by (auto simp: r wait_shape_def list_all_iff)
  show ?case
  proof (cases i)
    case (WPayload p)
    show ?thesis
    proof (cases "parse_json lib p")
      case None
      then show ?thesis using WPayload IH by (simp add: x r wait_shape_def)
    next
      case (Some v)
      obtain frames fin where e: "wait_event skip_sync (event_name v) p = (frames, fin)" by fastforce
      have p: "list_all (\<lambda>f. f = (''timeout'', ''{}'') \<or> WPayload (snd f) \<in> fst ` set (x # pre)) frames"
        using wait_event_frames(1) [OF e] WPayload by (auto simp: x list_all_iff)
      show ?thesis
      proof (cases "frames = [] \<or> fin")
        case True
        then show ?thesis
          using WPayload Some e IH p wait_event_frames(2,3) [OF e] wait_event_over [of skip_sync "event_name v" p frames]
          by (auto simp: x r wait_shape_def)
      next
        case False
        then show ?thesis
          using WPayload Some e IH p wait_shape_append [OF wait_event_open [OF e] IH(2,4)]
          by (simp add: x r wait_shape_def)
      qed
    qed
  qed (use i IH in \<open>auto simp: x r wait_shape_def terminal_frame_def\<close>)
qed

lemma wait_stream_closes_witness:
  "let lib = demo_libs\<lparr>parse_json := (\<lambda>p. Some (JObj [(''event'', JStr p)]))\<rparr>;
       (frames, over) = wait_loop lib False ([(WPayload ''qr_code'', True), (WPayload ''connected'', True), (WLagged, True)] @ [(WDeadline, True)])
   in over \<and> frames = [(''qr_code'', ''qr_code''), (''connected'', ''connected''), (''timeout'', ''{}'')] \<and> terminal_frame (last frames)"
  using wait_stream_closes [of "[(WPayload ''qr_code'', True), (WPayload ''connected'', True), (WLagged, True)]"
      "demo_libs\<lparr>parse_json := (\<lambda>p. Some (JObj [(''event'', JStr p)]))\<rparr>" False "[]"]
  by (simp add: wait_event_def event_name_def terminal_frame_def)

text \<open>
  The only event that ends a stream with an error is \<open>logged_out\<close>, and that one is announced
  for the third logout within ten minutes only: an account lock, or the first logouts, leave the
  stream open until its deadline.
\<close>

lemma account_lock_leaves_stream_open:
  "wait_event skip_sync ''account_locked'' p = ([], False)" "wait_event skip_sync ''disconnected'' p = ([], False)"
  by (simp_all add: wait_event_def)

end
