(* ===== verification/Blast_Model.thy ===== *)
theory Blast_Model
  imports Status_Codec Api_Error
begin

text \<open>
  The enums and options of the blast feature (\<open>src/api/shared/blast/models.rs\<close>) with their
  stored forms, the create request and the views returned by the endpoints.
\<close>

datatype blast_job_status =
  JobPending | JobRunning | JobCompleted | JobCompletedWithFailures | JobCancelled | JobFailed

fun job_status_as_str :: "blast_job_status \<Rightarrow> string" where
  "job_status_as_str JobPending = ''pending''"
| "job_status_as_str JobRunning = ''running''"
| "job_status_as_str JobCompleted = ''completed''"
| "job_status_as_str JobCompletedWithFailures = ''completed_with_failures''"
| "job_status_as_str JobCancelled = ''cancelled''"
| "job_status_as_str JobFailed = ''failed''"

definition job_status_from_str :: "string \<Rightarrow> blast_job_status" where
  "job_status_from_str s =
     (if s = ''running'' then JobRunning
      else if s = ''completed'' then JobCompleted
      else if s = ''completed_with_failures'' then JobCompletedWithFailures
      else if s = ''cancelled'' then JobCancelled
      else if s = ''failed'' then JobFailed
      else JobPending)"

fun job_is_terminal :: "blast_job_status \<Rightarrow> bool" where
  "job_is_terminal JobCompleted = True"
| "job_is_terminal JobCompletedWithFailures = True"
| "job_is_terminal JobCancelled = True"
| "job_is_terminal JobFailed = True"
| "job_is_terminal _ = False"

datatype blast_recipient_status =
  RecPending | RecSending | RecSent | RecFailed | RecDlq | RecSkippedDup

fun rec_status_as_str :: "blast_recipient_status \<Rightarrow> string" where
  "rec_status_as_str RecPending = ''pending''"
| "rec_status_as_str RecSending = ''sending''"
| "rec_status_as_str RecSent = ''sent''"
| "rec_status_as_str RecFailed = ''failed''"
| "rec_status_as_str RecDlq = ''dlq''"
| "rec_status_as_str RecSkippedDup = ''skipped_dup''"

definition rec_status_from_str :: "string \<Rightarrow> blast_recipient_status" where
  "rec_status_from_str s =
     (if s = ''sending'' then RecSending
      else if s = ''sent'' then RecSent
      else if s = ''failed'' then RecFailed
      else if s = ''dlq'' then RecDlq
      else if s = ''skipped_dup'' then RecSkippedDup
      else RecPending)"

lemma job_status_decode_encode: "job_status_from_str (job_status_as_str s) = s"
  by (cases s) (simp_all add: job_status_from_str_def)

lemma job_status_known:
  "job_status_from_str s \<noteq> JobPending \<Longrightarrow> s = job_status_as_str (job_status_from_str s)"
  by (simp add: job_status_from_str_def split: if_splits)

lemma rec_status_decode_encode: "rec_status_from_str (rec_status_as_str s) = s"
  by (cases s) (simp_all add: rec_status_from_str_def)

lemma rec_status_known:
  "rec_status_from_str s \<noteq> RecPending \<Longrightarrow> s = rec_status_as_str (rec_status_from_str s)"
  by (simp add: rec_status_from_str_def split: if_splits)

interpretation job_codec: status_codec job_status_as_str job_status_from_str "\<lambda>s. s" JobPending
proof unfold_locales
  show "job_status_from_str s = JobPending" if "s \<notin> range job_status_as_str" for s
    using that job_status_known [of s] by blast
qed (simp_all add: job_status_decode_encode)

interpretation rec_codec: status_codec rec_status_as_str rec_status_from_str "\<lambda>s. s" RecPending
proof unfold_locales
  show "rec_status_from_str s = RecPending" if "s \<notin> range rec_status_as_str" for s
    using that rec_status_known [of s] by blast
qed (simp_all add: rec_status_decode_encode)

text \<open>Both enums are stored by name, so their values compare as their names do.\<close>

lemmas status_inj [simp] = job_codec.as_str_inj rec_codec.as_str_inj

record blast_options =
  delay_ms :: nat
  jitter_ms :: nat
  blast_max_attempts :: nat
  dedup_across_jobs :: bool

definition blast_options_default :: blast_options where
  "blast_options_default = \<lparr> delay_ms = 1000, jitter_ms = 0, blast_max_attempts = 3,
     dedup_across_jobs = False \<rparr>"

text \<open>The derived JSON form of the options: all four members are required, extra ones ignored.\<close>

definition options_to_json :: "blast_options \<Rightarrow> json" where
  "options_to_json o1 = JObj [(''delay_ms'', JInt (int (delay_ms o1))), (''jitter_ms'', JInt (int (jitter_ms o1))),
     (''max_attempts'', JInt (int (blast_max_attempts o1))), (''dedup_across_jobs'', JBool (dedup_across_jobs o1))]"

definition options_of_json :: "json \<Rightarrow> blast_options option" where
  "options_of_json j =
     (case (Option.bind (json_get ''delay_ms'' j) json_as_u64, Option.bind (json_get ''jitter_ms'' j) json_as_u64,
            Option.bind (json_get ''max_attempts'' j) json_as_u64, Option.bind (json_get ''dedup_across_jobs'' j) json_as_bool) of
        (Some d, Some jit, Some m, Some dd) \<Rightarrow>
          if m < 2 ^ 32 then Some \<lparr> delay_ms = d, jitter_ms = jit, blast_max_attempts = m, dedup_across_jobs = dd \<rparr>
          else None
      | _ \<Rightarrow> None)"

definition options_ok :: "blast_options \<Rightarrow> bool" where
  "options_ok o1 \<longleftrightarrow> delay_ms o1 < 2 ^ 64 \<and> jitter_ms o1 < 2 ^ 64 \<and> blast_max_attempts o1 < 2 ^ 32"

lemma options_roundtrip: "options_ok o1 \<Longrightarrow> options_of_json (options_to_json o1) = Some o1"
  by (simp add: options_ok_def options_of_json_def options_to_json_def)

record create_blast_request =
  cb_endpoint :: string
  cb_body :: json
  cb_recipients :: "string list"
  cb_delay_ms :: "nat option"
  cb_jitter_ms :: "nat option"
  cb_max_attempts :: "nat option"
  cb_dedup_across_jobs :: "bool option"
  cb_send_at :: "int option"

definition request_options :: "create_blast_request \<Rightarrow> blast_options" where
  "request_options r =
     \<lparr> delay_ms = (case cb_delay_ms r of None \<Rightarrow> delay_ms blast_options_default | Some d \<Rightarrow> d),
       jitter_ms = (case cb_jitter_ms r of None \<Rightarrow> jitter_ms blast_options_default | Some d \<Rightarrow> d),
       blast_max_attempts = (case cb_max_attempts r of None \<Rightarrow> blast_max_attempts blast_options_default | Some d \<Rightarrow> d),
       dedup_across_jobs = (case cb_dedup_across_jobs r of None \<Rightarrow> dedup_across_jobs blast_options_default | Some d \<Rightarrow> d) \<rparr>"

record create_blast_response =
  cr_job_id :: string
  cr_total :: nat
  cr_skipped_dup :: nat
  cr_status :: string

record blast_job_view =
  jv_id :: string
  jv_session_id :: string
  jv_endpoint :: string
  jv_status :: blast_job_status
  jv_options :: blast_options
  jv_total :: int
  jv_sent_count :: int
  jv_failed_count :: int
  jv_dlq_count :: int
  jv_skipped_dup_count :: int
  jv_send_at :: "int option"
  jv_created_at :: int
  jv_started_at :: "int option"
  jv_finished_at :: "int option"

record blast_recipient_view =
  rv_id :: int
  rv_recipient :: string
  rv_status :: blast_recipient_status
  rv_attempts :: int
  rv_last_error :: "string option"
  rv_message_id :: "string option"
  rv_updated_at :: int

end
