(* ===== verification/Blast_Db.thy ===== *)
theory Blast_Db
  imports Sql_Store Blast_Model Gateway_State
begin

text \<open>
  Persistence of the blast feature (\<open>src/db/blast.rs\<close>): the tables \<open>blast_jobs\<close> and
  \<open>blast_recipients\<close> and every statement on them, over the gateway state extended with the two
  tables. A status column holds the text of the enum; i64 counters are integers. Times are
  the second they denote; \<open>fmt_utc\<close> truncates a requested time to it.
\<close>

record blast_job =
  j_id :: string
  j_session_id :: string
  j_endpoint :: string
  j_body :: string
  j_options :: string
  j_status :: string
  j_total :: int
  j_sent_count :: int
  j_failed_count :: int
  j_dlq_count :: int
  j_skipped_dup_count :: int
  j_send_at :: "unix option"
  j_created_at :: unix
  j_started_at :: "unix option"
  j_finished_at :: "unix option"

record blast_recipient =
  r_id :: int
  r_job_id :: string
  r_session_id :: string
  r_recipient :: string
  r_status :: string
  r_attempts :: int
  r_last_error :: "string option"
  r_message_id :: "string option"
  r_updated_at :: unix

record blast_world = gateway +
  blast_jobs :: "blast_job list"
  blast_recipients :: "blast_recipient list"

type_synonym ('w, 'a) blast_op = "'w blast_world_scheme \<Rightarrow> (string + 'a) \<times> 'w blast_world_scheme"

text \<open>A UTC time in nanoseconds, stored as the second it falls in.\<close>

definition fmt_utc :: "int \<Rightarrow> unix" where
  "fmt_utc t = t div 1000000000"

section \<open>Jobs\<close>

definition new_job ::
    "unix \<Rightarrow> string \<Rightarrow> string \<Rightarrow> string \<Rightarrow> string \<Rightarrow> string \<Rightarrow> int \<Rightarrow> int \<Rightarrow> int option \<Rightarrow> blast_job" where
  "new_job now jid sid endpoint body options tot nskip send_at =
     \<lparr> j_id = jid, j_session_id = sid, j_endpoint = endpoint, j_body = body, j_options = options,
       j_status = ''pending'', j_total = tot, j_sent_count = 0, j_failed_count = 0,
       j_dlq_count = 0, j_skipped_dup_count = nskip, j_send_at = map_option fmt_utc send_at,
       j_created_at = now, j_started_at = None, j_finished_at = None \<rparr>"

definition find_job :: "string \<Rightarrow> 'w blast_world_scheme \<Rightarrow> blast_job option" where
  "find_job jid w = find (\<lambda>j. j_id j = jid) (blast_jobs w)"

definition insert_job ::
    "string \<Rightarrow> string \<Rightarrow> string \<Rightarrow> string \<Rightarrow> string \<Rightarrow> int \<Rightarrow> int \<Rightarrow> int option \<Rightarrow> ('w, unit) blast_op" where
  "insert_job jid sid endpoint body options tot nskip send_at =
     db_insert (\<lambda>w. find_job jid w \<noteq> None)
       (\<lambda>w. w\<lparr>blast_jobs := blast_jobs w @
          [new_job (db_now w) jid sid endpoint body options tot nskip send_at]\<rparr>)"

definition update_job :: "(blast_job \<Rightarrow> bool) \<Rightarrow> (unix \<Rightarrow> blast_job \<Rightarrow> blast_job) \<Rightarrow> ('w, nat) blast_op" where
  "update_job P f =
     db_stmt (\<lambda>w. (affected (db_driver w) P (f (db_now w)) (blast_jobs w),
       w\<lparr>blast_jobs := update_where P (f (db_now w)) (blast_jobs w)\<rparr>))"

definition get_job :: "string \<Rightarrow> ('w, blast_job option) blast_op" where
  "get_job jid = db_stmt (\<lambda>w. (find_job jid w, w))"

definition get_job_scoped :: "string \<Rightarrow> string \<Rightarrow> ('w, blast_job option) blast_op" where
  "get_job_scoped sid jid =
     db_stmt (\<lambda>w. (find (\<lambda>j. j_session_id j = sid \<and> j_id j = jid) (blast_jobs w), w))"

definition job_status :: "string \<Rightarrow> ('w, string option) blast_op" where
  "job_status jid = db_stmt (\<lambda>w. (map_option j_status (find_job jid w), w))"

definition due :: "unix \<Rightarrow> blast_job \<Rightarrow> bool" where
  "due now j \<longleftrightarrow> j_status j = ''pending'' \<and>
     (case j_send_at j of None \<Rightarrow> True | Some t \<Rightarrow> t \<le> now)"

definition first_row :: "'a list \<Rightarrow> 'a option" where
  "first_row xs = (case xs of [] \<Rightarrow> None | x # _ \<Rightarrow> Some x)"

definition next_due :: "(blast_job \<Rightarrow> nat) \<Rightarrow> 'w blast_world_scheme \<Rightarrow> blast_job option" where
  "next_due rank w = first_row (order_by j_created_at rank (filter (due (db_now w)) (blast_jobs w)))"

definition start_job :: "unix \<Rightarrow> blast_job \<Rightarrow> blast_job" where
  "start_job now j = j\<lparr>j_status := ''running'', j_started_at := Some now\<rparr>"

definition claim_next_due :: "(blast_job \<Rightarrow> nat) \<Rightarrow> ('w, blast_job option) blast_op" where
  "claim_next_due rank =
     db_bind (db_stmt (\<lambda>w. (next_due rank w, w)))
       (\<lambda>candidate. case candidate of
          None \<Rightarrow> db_return None
        | Some job \<Rightarrow>
            db_bind (update_job (\<lambda>j. j_id j = j_id job \<and> j_status j = ''pending'') start_job)
              (\<lambda>changed. if changed = 0 then db_return None else get_job (j_id job)))"

definition start_key :: "blast_job \<Rightarrow> int" where
  "start_key j = (case j_started_at j of None \<Rightarrow> -1 | Some t \<Rightarrow> t)"

definition running_job :: "(blast_job \<Rightarrow> nat) \<Rightarrow> ('w, blast_job option) blast_op" where
  "running_job rank =
     db_stmt (\<lambda>w. (first_row (order_by start_key rank (filter (\<lambda>j. j_status j = ''running'') (blast_jobs w))), w))"

definition bump_counter :: "string \<Rightarrow> (blast_job \<Rightarrow> blast_job) \<Rightarrow> ('w, unit) blast_op" where
  "bump_counter jid f = db_bind (update_job (\<lambda>j. j_id j = jid) (\<lambda>_. f)) (\<lambda>_. db_return ())"

definition incr_sent :: "string \<Rightarrow> ('w, unit) blast_op" where
  "incr_sent jid = bump_counter jid (\<lambda>j. j\<lparr>j_sent_count := j_sent_count j + 1\<rparr>)"

definition incr_failed :: "string \<Rightarrow> ('w, unit) blast_op" where
  "incr_failed jid = bump_counter jid (\<lambda>j. j\<lparr>j_failed_count := j_failed_count j + 1\<rparr>)"

definition incr_dlq :: "string \<Rightarrow> ('w, unit) blast_op" where
  "incr_dlq jid = bump_counter jid (\<lambda>j. j\<lparr>j_dlq_count := j_dlq_count j + 1\<rparr>)"

definition finish_job :: "string \<Rightarrow> string \<Rightarrow> ('w, unit) blast_op" where
  "finish_job jid status =
     db_bind (update_job (\<lambda>j. j_id j = jid) (\<lambda>now j. j\<lparr>j_status := status, j_finished_at := Some now\<rparr>))
       (\<lambda>_. db_return ())"

definition cancellable :: "string \<Rightarrow> string \<Rightarrow> blast_job \<Rightarrow> bool" where
  "cancellable sid jid j \<longleftrightarrow> j_session_id j = sid \<and> j_id j = jid \<and> j_status j \<in> {''pending'', ''running''}"

definition cancel_job :: "string \<Rightarrow> string \<Rightarrow> ('w, bool) blast_op" where
  "cancel_job sid jid =
     db_bind (update_job (cancellable sid jid) (\<lambda>now j. j\<lparr>j_status := ''cancelled'', j_finished_at := Some now\<rparr>))
       (\<lambda>changed. db_return (0 < changed))"

definition reopen_job :: "string \<Rightarrow> ('w, unit) blast_op" where
  "reopen_job jid =
     db_bind (update_job (\<lambda>j. j_id j = jid \<and> j_status j \<noteq> ''running'')
         (\<lambda>_ j. j\<lparr>j_status := ''pending'', j_finished_at := None\<rparr>))
       (\<lambda>_. db_return ())"

definition list_jobs ::
    "(blast_job \<Rightarrow> nat) \<Rightarrow> string option \<Rightarrow> string option \<Rightarrow> ('w, blast_job list) blast_op" where
  "list_jobs rank sid status =
     db_stmt (\<lambda>w. (order_by_desc j_created_at rank
       (filter (\<lambda>j. (sid = None \<or> sid = Some (j_session_id j)) \<and> (status = None \<or> status = Some (j_status j)))
          (blast_jobs w)), w))"

section \<open>Recipients\<close>

definition next_recipient_id :: "blast_recipient list \<Rightarrow> int" where
  "next_recipient_id rs = fold (\<lambda>r m. max (r_id r) m) rs 0 + 1"

definition new_recipient :: "unix \<Rightarrow> int \<Rightarrow> string \<Rightarrow> string \<Rightarrow> string \<Rightarrow> string \<Rightarrow> blast_recipient" where
  "new_recipient now rid jid sid recipient status =
     \<lparr> r_id = rid, r_job_id = jid, r_session_id = sid, r_recipient = recipient, r_status = status,
       r_attempts = 0, r_last_error = None, r_message_id = None, r_updated_at = now \<rparr>"

text \<open>\<open>ON CONFLICT (job_id, recipient) DO NOTHING\<close>, \<open>INSERT IGNORE\<close>, \<open>INSERT OR IGNORE\<close>.\<close>

definition insert_recipient :: "string \<Rightarrow> string \<Rightarrow> string \<Rightarrow> string \<Rightarrow> ('w, unit) blast_op" where
  "insert_recipient jid sid recipient status =
     db_stmt (\<lambda>w. ((),
       if list_ex (\<lambda>r. r_job_id r = jid \<and> r_recipient r = recipient) (blast_recipients w) then w
       else w\<lparr>blast_recipients := blast_recipients w @
         [new_recipient (db_now w) (next_recipient_id (blast_recipients w)) jid sid recipient status]\<rparr>))"

fun insert_recipients :: "string \<Rightarrow> string \<Rightarrow> (string \<times> string) list \<Rightarrow> ('w, unit) blast_op" where
  "insert_recipients jid sid [] = db_return ()"
| "insert_recipients jid sid ((recipient, status) # rows) =
     db_bind (insert_recipient jid sid recipient status) (\<lambda>_. insert_recipients jid sid rows)"

function chunks :: "nat \<Rightarrow> 'a list \<Rightarrow> 'a list list" where
  "chunks n xs = (if xs = [] \<or> n = 0 then [] else take n xs # chunks n (drop n xs))"
  by pat_completeness auto
termination by (relation "measure (\<lambda>(n, xs). length xs)") auto

declare chunks.simps [simp del]

definition sent_among :: "string \<Rightarrow> string list \<Rightarrow> 'w blast_world_scheme \<Rightarrow> string list" where
  "sent_among sid cands w = map r_recipient (filter (\<lambda>r. r_session_id r = sid \<and> r_status r = ''sent''
     \<and> r_recipient r \<in> set cands) (blast_recipients w))"

fun already_sent_chunks :: "string \<Rightarrow> string list list \<Rightarrow> string set \<Rightarrow> ('w, string set) blast_op" where
  "already_sent_chunks sid [] out = db_return out"
| "already_sent_chunks sid (chunk # rest) out =
     db_bind (db_stmt (\<lambda>w. (sent_among sid chunk w, w)))
       (\<lambda>found. already_sent_chunks sid rest (out \<union> set found))"

definition already_sent :: "string \<Rightarrow> string list \<Rightarrow> ('w, string set) blast_op" where
  "already_sent sid candidates = already_sent_chunks sid (chunks 500 candidates) {}"

definition update_recipients ::
    "(blast_recipient \<Rightarrow> bool) \<Rightarrow> (unix \<Rightarrow> blast_recipient \<Rightarrow> blast_recipient) \<Rightarrow> ('w, nat) blast_op" where
  "update_recipients P f =
     db_stmt (\<lambda>w. (affected (db_driver w) P (f (db_now w)) (blast_recipients w),
       w\<lparr>blast_recipients := update_where P (f (db_now w)) (blast_recipients w)\<rparr>))"

definition reset_sending_recipients :: "string \<Rightarrow> ('w, unit) blast_op" where
  "reset_sending_recipients jid =
     db_bind (update_recipients (\<lambda>r. r_job_id r = jid \<and> r_status r = ''sending'')
         (\<lambda>now r. r\<lparr>r_status := ''pending'', r_updated_at := now\<rparr>))
       (\<lambda>_. db_return ())"

definition is_pending :: "string \<Rightarrow> blast_recipient \<Rightarrow> bool" where
  "is_pending jid r \<longleftrightarrow> r_job_id r = jid \<and> r_status r = ''pending''"

definition pending_recipients :: "string \<Rightarrow> nat \<Rightarrow> ('w, blast_recipient list) blast_op" where
  "pending_recipients jid limit =
     db_stmt (\<lambda>w. (take limit (sort_key r_id (filter (is_pending jid) (blast_recipients w))), w))"

text \<open>\<open>update_recipient\<close>: \<open>set\<close> is the SET fragment; the error column is always overwritten.\<close>

definition update_recipient ::
    "string \<Rightarrow> string \<Rightarrow> (blast_recipient \<Rightarrow> blast_recipient) \<Rightarrow> string option \<Rightarrow> string option \<Rightarrow> ('w, unit) blast_op" where
  "update_recipient jid recipient set_fragment message_id err =
     db_bind (update_recipients (\<lambda>r. r_job_id r = jid \<and> r_recipient r = recipient)
         (\<lambda>now r. (set_fragment r)\<lparr>r_message_id := coalesce message_id (r_message_id r),
                            r_last_error := err, r_updated_at := now\<rparr>))
       (\<lambda>_. db_return ())"

definition mark_recipient_sending :: "string \<Rightarrow> string \<Rightarrow> ('w, unit) blast_op" where
  "mark_recipient_sending jid recipient =
     update_recipient jid recipient (\<lambda>r. r\<lparr>r_status := ''sending''\<rparr>) None None"

definition mark_recipient_sent :: "string \<Rightarrow> string \<Rightarrow> string \<Rightarrow> ('w, unit) blast_op" where
  "mark_recipient_sent jid recipient message_id =
     update_recipient jid recipient (\<lambda>r. r\<lparr>r_status := ''sent''\<rparr>) (Some message_id) None"

definition mark_recipient_retry :: "string \<Rightarrow> string \<Rightarrow> string \<Rightarrow> ('w, unit) blast_op" where
  "mark_recipient_retry jid recipient err =
     update_recipient jid recipient
       (\<lambda>r. r\<lparr>r_status := ''pending'', r_attempts := r_attempts r + 1\<rparr>) None (Some err)"

definition mark_recipient_dlq :: "string \<Rightarrow> string \<Rightarrow> string \<Rightarrow> ('w, unit) blast_op" where
  "mark_recipient_dlq jid recipient err =
     update_recipient jid recipient
       (\<lambda>r. r\<lparr>r_status := ''dlq'', r_attempts := r_attempts r + 1\<rparr>) None (Some err)"

definition retryable :: "string \<Rightarrow> blast_recipient \<Rightarrow> bool" where
  "retryable jid r \<longleftrightarrow> r_job_id r = jid \<and> r_status r \<in> {''dlq'', ''failed''}"

definition requeue_failed :: "string \<Rightarrow> ('w, nat) blast_op" where
  "requeue_failed jid =
     update_recipients (retryable jid)
       (\<lambda>now r. r\<lparr>r_status := ''pending'', r_attempts := 0, r_last_error := None, r_updated_at := now\<rparr>)"

definition list_recipients ::
    "string \<Rightarrow> string option \<Rightarrow> nat \<Rightarrow> nat \<Rightarrow> ('w, blast_recipient list) blast_op" where
  "list_recipients jid status limit offset =
     db_stmt (\<lambda>w. (take limit (drop offset (sort_key r_id
       (filter (\<lambda>r. r_job_id r = jid \<and> (status = None \<or> status = Some (r_status r))) (blast_recipients w)))), w))"

end
