(* ===== verification/Blast_Worker.thy ===== *)
theory Blast_Worker
  imports Blast_Db
begin

text \<open>
  The blast worker (\<open>src/api/shared/blast/handlers.rs\<close>, from \<open>tick_once\<close> on). \<open>worker\<close> collects
  what it depends on: the libraries, the dispatch of one message (a send to WhatsApp, which
  may change the world it runs in), what the rest of the program does to the world during
  the pause after a send, the random draws of the pause, and how the database breaks ties.
  The batch loop may run for ever if the rest of the program keeps feeding it, so it is a
  partial function into \<open>option\<close>; the theory \<open>Blast_Run\<close> shows when it returns.
\<close>

record 'w worker =
  wk_libs :: libs
  wk_dispatch :: "string \<Rightarrow> string \<Rightarrow> string \<Rightarrow> 'w \<Rightarrow> (string + message_response) \<times> 'w"
  wk_pause :: "nat \<Rightarrow> 'w \<Rightarrow> 'w"
  wk_draw :: "nat \<Rightarrow> nat"
  wk_rank :: "blast_job \<Rightarrow> nat"

definition BATCH_SIZE :: nat where "BATCH_SIZE = 50"
definition PROGRESS_EVERY :: nat where "PROGRESS_EVERY = 25"

definition parse_options :: "libs \<Rightarrow> string \<Rightarrow> blast_options" where
  "parse_options lib text =
     (case Option.bind (parse_json lib text) options_of_json of
        None \<Rightarrow> blast_options_default | Some o1 \<Rightarrow> o1)"

text \<open>\<open>build_recipient_body\<close>; the error text stands for the JSON parser's.\<close>

definition build_recipient_body :: "libs \<Rightarrow> string \<Rightarrow> string \<Rightarrow> string + string" where
  "build_recipient_body lib body recipient =
     (case parse_json lib body of
        None \<Rightarrow> Inl ''invalid JSON''
      | Some (JObj fs) \<Rightarrow>
          Inr (print_json lib (JObj (fields_insert ''send_at'' JNull (fields_insert ''to'' (JStr recipient) fs))))
      | Some v \<Rightarrow> Inr (print_json lib v))"

text \<open>The sum is on \<open>u64\<close> and wraps.\<close>

definition send_delay :: "(nat \<Rightarrow> nat) \<Rightarrow> blast_options \<Rightarrow> nat" where
  "send_delay draw o1 = (delay_ms o1 + (if jitter_ms o1 > 0 then draw (jitter_ms o1) else 0)) mod 2 ^ 64"

definition counters_json :: "blast_job \<Rightarrow> json" where
  "counters_json j = JObj [(''total'', JInt (j_total j)), (''sent_count'', JInt (j_sent_count j)),
     (''failed_count'', JInt (j_failed_count j)), (''dlq_count'', JInt (j_dlq_count j)),
     (''skipped_dup_count'', JInt (j_skipped_dup_count j))]"

definition counters_payload :: "string \<Rightarrow> 'w blast_world_scheme \<Rightarrow> json \<times> 'w blast_world_scheme" where
  "counters_payload jid w =
     (case get_job jid w of
        (Inr (Some j), w') \<Rightarrow> (counters_json j, w')
      | (_, w') \<Rightarrow> (JObj [], w'))"

definition broadcast_progress :: "libs \<Rightarrow> string \<Rightarrow> string \<Rightarrow> 'w blast_world_scheme \<Rightarrow> 'w blast_world_scheme" where
  "broadcast_progress lib jid sid w =
     (let (counters, w1) = counters_payload jid w
      in gw_broadcast lib sid EvBlastProgress
           (JObj [(''job_id'', JStr jid), (''session_id'', JStr sid), (''counters'', counters)]) w1)"

definition broadcast_completed ::
    "libs \<Rightarrow> string \<Rightarrow> string \<Rightarrow> blast_job_status \<Rightarrow> 'w blast_world_scheme \<Rightarrow> 'w blast_world_scheme" where
  "broadcast_completed lib jid sid status w =
     (let (counters, w1) = counters_payload jid w
      in gw_broadcast lib sid EvBlastCompleted
           (JObj [(''job_id'', JStr jid), (''session_id'', JStr sid),
                  (''status'', JStr (job_status_as_str status)), (''counters'', counters)]) w1)"

definition final_status :: "blast_job option \<Rightarrow> blast_job_status" where
  "final_status row = (case row of
     Some j \<Rightarrow> if j_dlq_count j > 0 then JobCompletedWithFailures else JobCompleted
   | None \<Rightarrow> JobCompleted)"

definition finalize_job :: "libs \<Rightarrow> string \<Rightarrow> string \<Rightarrow> ('w, unit) blast_op" where
  "finalize_job lib jid sid =
     db_bind (get_job jid) (\<lambda>row.
       db_bind (finish_job jid (job_status_as_str (final_status row))) (\<lambda>_ w.
         (Inr (), broadcast_completed lib jid sid (final_status row) w)))"

text \<open>
  One recipient of a batch, up to its pause: \<open>k\<close> is \<open>sends_since_progress\<close>. The recipient
  row is the one read with the batch.
\<close>

definition settle_sent ::
    "libs \<Rightarrow> blast_job \<Rightarrow> string \<Rightarrow> string \<Rightarrow> nat \<Rightarrow> ('w, nat) blast_op" where
  "settle_sent lib job recipient message_id k =
     db_bind (mark_recipient_sent (j_id job) recipient message_id) (\<lambda>_.
       db_bind (incr_sent (j_id job)) (\<lambda>_ w.
         if k + 1 \<ge> PROGRESS_EVERY
         then (Inr 0, broadcast_progress lib (j_id job) (j_session_id job) w)
         else (Inr (k + 1), w)))"

definition settle_failed ::
    "blast_job \<Rightarrow> int \<Rightarrow> blast_recipient \<Rightarrow> string \<Rightarrow> nat \<Rightarrow> ('w, nat) blast_op" where
  "settle_failed job cap rec err k =
     db_bind (incr_failed (j_id job)) (\<lambda>_.
       if r_attempts rec + 1 < cap
       then db_bind (mark_recipient_retry (j_id job) (r_recipient rec) err) (\<lambda>_. db_return k)
       else db_bind (mark_recipient_dlq (j_id job) (r_recipient rec) err) (\<lambda>_.
              db_bind (incr_dlq (j_id job)) (\<lambda>_. db_return k)))"

definition process_recipient ::
    "'w blast_world_scheme worker \<Rightarrow> blast_job \<Rightarrow> int \<Rightarrow> blast_recipient \<Rightarrow> nat \<Rightarrow> ('w, nat) blast_op" where
  "process_recipient wk job cap rec k =
     db_bind (mark_recipient_sending (j_id job) (r_recipient rec)) (\<lambda>_ w.
       case build_recipient_body (wk_libs wk) (j_body job) (r_recipient rec) of
         Inl e \<Rightarrow> (Inl e, w)
       | Inr body \<Rightarrow>
           (case wk_dispatch wk (j_session_id job) (j_endpoint job) body w of
              (Inr resp, w1) \<Rightarrow> settle_sent (wk_libs wk) job (r_recipient rec) (mr_message_id resp) k w1
            | (Inl err, w1) \<Rightarrow> settle_failed job cap rec err k w1))"

fun process_batch ::
    "'w blast_world_scheme worker \<Rightarrow> blast_options \<Rightarrow> blast_job \<Rightarrow> int \<Rightarrow> blast_recipient list \<Rightarrow> nat \<Rightarrow> ('w, nat) blast_op" where
  "process_batch wk o1 job cap [] k = db_return k"
| "process_batch wk o1 job cap (rec # recs) k =
     db_bind (process_recipient wk job cap rec k) (\<lambda>k' w.
       process_batch wk o1 job cap recs k' (wk_pause wk (send_delay (wk_draw wk) o1) w))"

text \<open>One turn of the loop: \<open>Inr None\<close> when the job is over, \<open>Inr (Some k)\<close> to go on.\<close>

definition batch_step ::
    "'w blast_world_scheme worker \<Rightarrow> blast_options \<Rightarrow> blast_job \<Rightarrow> int \<Rightarrow> nat \<Rightarrow> ('w, nat option) blast_op" where
  "batch_step wk o1 job cap k =
     db_bind (job_status (j_id job)) (\<lambda>status.
       if status \<noteq> Some ''running'' then db_return None
       else db_bind (pending_recipients (j_id job) BATCH_SIZE) (\<lambda>batch.
         if batch = []
         then db_bind (finalize_job (wk_libs wk) (j_id job) (j_session_id job)) (\<lambda>_. db_return None)
         else db_bind (process_batch wk o1 job cap batch k) (\<lambda>k'. db_return (Some k'))))"

partial_function (option) batch_loop ::
    "'w blast_world_scheme worker \<Rightarrow> blast_options \<Rightarrow> blast_job \<Rightarrow> int \<Rightarrow> nat \<Rightarrow> 'w blast_world_scheme
     \<Rightarrow> ((string + unit) \<times> 'w blast_world_scheme) option" where
  "batch_loop wk o1 job cap k w =
     (case batch_step wk o1 job cap k w of
        (Inl e, w') \<Rightarrow> Some (Inl e, w')
      | (Inr None, w') \<Rightarrow> Some (Inr (), w')
      | (Inr (Some k'), w') \<Rightarrow> batch_loop wk o1 job cap k' w')"

definition process_job ::
    "'w blast_world_scheme worker \<Rightarrow> blast_job \<Rightarrow> 'w blast_world_scheme
     \<Rightarrow> ((string + unit) \<times> 'w blast_world_scheme) option" where
  "process_job wk job w =
     (let o1 = parse_options (wk_libs wk) (j_options job);
          cap = int (max (blast_max_attempts o1) 1)
      in if parse_json (wk_libs wk) (j_body job) = None
         then Some (db_bind (finish_job (j_id job) ''failed'') (\<lambda>_ w.
                (Inr (), broadcast_completed (wk_libs wk) (j_id job) (j_session_id job) JobFailed w)) w)
         else batch_loop wk o1 job cap 0 w)"

definition tick_once ::
    "'w blast_world_scheme worker \<Rightarrow> 'w blast_world_scheme \<Rightarrow> ((string + unit) \<times> 'w blast_world_scheme) option" where
  "tick_once wk w =
     (case running_job (wk_rank wk) w of
        (Inl e, w1) \<Rightarrow> Some (Inl e, w1)
      | (Inr (Some job), w1) \<Rightarrow> process_job wk job w1
      | (Inr None, w1) \<Rightarrow>
          (case claim_next_due (wk_rank wk) w1 of
             (Inl e, w2) \<Rightarrow> Some (Inl e, w2)
           | (Inr None, w2) \<Rightarrow> Some (Inr (), w2)
           | (Inr (Some job), w2) \<Rightarrow>
               (case reset_sending_recipients (j_id job) w2 of
                  (Inl e, w3) \<Rightarrow> Some (Inl e, w3)
                | (Inr _, w3) \<Rightarrow> process_job wk job w3)))"

end
