(* ===== verification/Blast_Run.thy ===== *)
theory Blast_Run
  imports Blast_Worker
begin

text \<open>
  Correctness of the blast worker over a whole job: it returns, every recipient that was
  pending ends delivered or dead-lettered, and the counters of the job move by exactly what
  happened to its rows. \<open>undisturbed\<close> says that nobody else touches the blast tables while the
  job runs and that the database answers; the theories \<open>Blast_Facts\<close> and \<open>Blast_Control\<close> treat the rest.
\<close>

definition undisturbed :: "'w blast_world_scheme worker \<Rightarrow> bool" where
  "undisturbed wk \<longleftrightarrow>
     (\<forall>sid ep body w. let w' = snd (wk_dispatch wk sid ep body w) in
        blast_jobs w' = blast_jobs w \<and> blast_recipients w' = blast_recipients w \<and>
        (db_faults w = [] \<longrightarrow> db_faults w' = [])) \<and>
     (\<forall>n w. let w' = wk_pause wk n w in
        blast_jobs w' = blast_jobs w \<and> blast_recipients w' = blast_recipients w \<and>
        (db_faults w = [] \<longrightarrow> db_faults w' = []))"

definition keys_ok :: "'w blast_world_scheme \<Rightarrow> bool" where
  "keys_ok w \<longleftrightarrow> distinct (map (\<lambda>r. (r_job_id r, r_recipient r)) (blast_recipients w)) \<and>
     distinct (map j_id (blast_jobs w))"

lemma undisturbedD:
  assumes "undisturbed wk"
  shows "wk_dispatch wk sid ep body w = (res, w') \<Longrightarrow> blast_jobs w' = blast_jobs w"
    and "wk_dispatch wk sid ep body w = (res, w') \<Longrightarrow> blast_recipients w' = blast_recipients w"
    and "wk_dispatch wk sid ep body w = (res, w') \<Longrightarrow> db_faults w = [] \<Longrightarrow> db_faults w' = []"
    and "blast_jobs (wk_pause wk n w) = blast_jobs w"
    and "blast_recipients (wk_pause wk n w) = blast_recipients w"
    and "db_faults w = [] \<Longrightarrow> db_faults (wk_pause wk n w) = []"
  using assms unfolding undisturbed_def Let_def by (metis snd_conv)+

lemma blast_broadcast_frame [simp]:
  fixes w :: "'w blast_world_scheme"
  shows "blast_jobs (gw_broadcast lib sid event payload w) = blast_jobs w"
    and "blast_recipients (gw_broadcast lib sid event payload w) = blast_recipients w"
  by (rule gw_broadcast_shape [of lib sid event payload w]; simp)+

lemma counters_payload_frame:
  "db_faults w = [] \<Longrightarrow> snd (counters_payload jid w) = w"
  by (simp add: counters_payload_def get_job_def split: option.splits)

lemma broadcast_blast_frame [simp]:
  assumes "db_faults w = []"
  shows "blast_jobs (broadcast_progress lib jid sid w) = blast_jobs w"
    and "blast_recipients (broadcast_progress lib jid sid w) = blast_recipients w"
    and "db_faults (broadcast_progress lib jid sid w) = []"
    and "blast_jobs (broadcast_completed lib jid sid st w) = blast_jobs w"
    and "blast_recipients (broadcast_completed lib jid sid st w) = blast_recipients w"
    and "db_faults (broadcast_completed lib jid sid st w) = []"
  using assms counters_payload_frame [OF assms, of jid]
  by (simp_all add: broadcast_progress_def broadcast_completed_def split_beta)

section \<open>One recipient\<close>

text \<open>What one attempt makes of a pending row.\<close>

definition settles :: "int \<Rightarrow> blast_recipient \<Rightarrow> blast_recipient \<Rightarrow> bool" where
  "settles cap r r' \<longleftrightarrow> r_id r' = r_id r \<and> r_job_id r' = r_job_id r \<and> r_session_id r' = r_session_id r \<and>
     r_recipient r' = r_recipient r \<and>
     (r_status r' = ''sent'' \<and> r_attempts r' = r_attempts r \<and> r_message_id r' \<noteq> None \<and> r_last_error r' = None
      \<or> r_status r' = ''pending'' \<and> r_attempts r' = r_attempts r + 1 \<and> r_attempts r' < cap \<and> r_last_error r' \<noteq> None
      \<or> r_status r' = ''dlq'' \<and> r_attempts r' = r_attempts r + 1 \<and> cap \<le> r_attempts r' \<and> r_last_error r' \<noteq> None)"

definition bump :: "int \<Rightarrow> int \<Rightarrow> int \<Rightarrow> blast_job \<Rightarrow> blast_job" where
  "bump ds df dd j = j\<lparr>j_sent_count := j_sent_count j + ds, j_failed_count := j_failed_count j + df,
     j_dlq_count := j_dlq_count j + dd\<rparr>"

definition of_flag :: "bool \<Rightarrow> int" where
  "of_flag b = (if b then 1 else 0)"

text \<open>The counters follow the row: a delivery, a failed attempt, a dead letter.\<close>

definition bump_for :: "blast_recipient \<Rightarrow> blast_job \<Rightarrow> blast_job" where
  "bump_for r' = bump (of_flag (r_status r' = ''sent'')) (of_flag (r_status r' \<noteq> ''sent''))
     (of_flag (r_status r' = ''dlq''))"

definition at_key :: "blast_recipient \<Rightarrow> blast_recipient \<Rightarrow> bool" where
  "at_key r x \<longleftrightarrow> r_job_id x = r_job_id r \<and> r_recipient x = r_recipient r"

lemma bump_id [simp]: "j_id (bump ds df dd j) = j_id j" "j_status (bump ds df dd j) = j_status j"
  by (simp_all add: bump_def)

lemma update_where_twice:
  "(\<And>r. P r \<Longrightarrow> P (f r)) \<Longrightarrow> update_where P g (update_where P f rows) = update_where P (\<lambda>r. g (f r)) rows"
  by (induction rows) auto

lemma build_body_ok:
  "parse_json lib body \<noteq> None \<Longrightarrow> \<exists>b. build_recipient_body lib body recipient = Inr b"
  by (auto simp: build_recipient_body_def split: json.splits)

lemma update_recipient_run:
  "db_faults w = [] \<Longrightarrow>
   update_recipient jid recipient f mid err w =
     (Inr (), w\<lparr>blast_recipients := update_where (\<lambda>r. r_job_id r = jid \<and> r_recipient r = recipient)
        (\<lambda>r. (f r)\<lparr>r_message_id := coalesce mid (r_message_id r), r_last_error := err, r_updated_at := db_now w\<rparr>)
        (blast_recipients w)\<rparr>)"
  by (simp add: update_recipient_def update_recipients_def db_bind_def db_return_def)

lemma bump_counter_run:
  "db_faults w = [] \<Longrightarrow>
   bump_counter jid f w = (Inr (), w\<lparr>blast_jobs := update_where (\<lambda>j. j_id j = jid) f (blast_jobs w)\<rparr>)"
  by (simp add: bump_counter_def update_job_def db_bind_def db_return_def)

lemma bump_as:
  "(\<lambda>j. j\<lparr>j_sent_count := j_sent_count j + 1\<rparr>) = bump 1 0 0"
  "(\<lambda>j. j\<lparr>j_failed_count := j_failed_count j + 1\<rparr>) = bump 0 1 0"
  "(\<lambda>j. j\<lparr>j_dlq_count := j_dlq_count j + 1\<rparr>) = bump 0 0 1"
  "(\<lambda>j. bump 0 0 1 (bump 0 1 0 j)) = bump 0 1 1"
  by (auto simp: bump_def)

lemmas blast_runs = update_recipient_run bump_counter_run mark_recipient_sending_def mark_recipient_sent_def
  mark_recipient_retry_def mark_recipient_dlq_def incr_sent_def incr_failed_def incr_dlq_def db_return_def

lemma settle_sent_run:
  assumes "db_faults w = []"
  obtains k' w' where "settle_sent lib job recipient mid k w = (Inr k', w')" and "db_faults w' = []"
    and "blast_recipients w' = update_where (\<lambda>r. r_job_id r = j_id job \<and> r_recipient r = recipient)
        (\<lambda>r. r\<lparr>r_status := ''sent'', r_message_id := Some mid, r_last_error := None, r_updated_at := db_now w\<rparr>)
        (blast_recipients w)"
    and "blast_jobs w' = update_where (\<lambda>j. j_id j = j_id job) (bump 1 0 0) (blast_jobs w)"
proof -
  define w1 where "w1 = w\<lparr>blast_recipients := update_where (\<lambda>r. r_job_id r = j_id job \<and> r_recipient r = recipient)
        (\<lambda>r. r\<lparr>r_status := ''sent'', r_message_id := Some mid, r_last_error := None, r_updated_at := db_now w\<rparr>)
        (blast_recipients w), blast_jobs := update_where (\<lambda>j. j_id j = j_id job) (bump 1 0 0) (blast_jobs w)\<rparr>"
  have "settle_sent lib job recipient mid k w = (if k + 1 \<ge> PROGRESS_EVERY
         then (Inr 0, broadcast_progress lib (j_id job) (j_session_id job) w1) else (Inr (k + 1), w1))"
    using assms by (simp add: settle_sent_def blast_runs coalesce_def bump_as w1_def)
  moreover have "db_faults w1 = []" using assms by (simp add: w1_def)
  ultimately show thesis
    by (cases "k + 1 \<ge> PROGRESS_EVERY") (auto intro!: that simp: w1_def)
qed

lemma settle_failed_run:
  assumes "db_faults w = []"
  obtains w' where "settle_failed job cap rec err k w = (Inr k, w')" and "db_faults w' = []"
    and "blast_recipients w' = update_where (\<lambda>r. r_job_id r = j_id job \<and> r_recipient r = r_recipient rec)
        (\<lambda>r. r\<lparr>r_status := (if r_attempts rec + 1 < cap then ''pending'' else ''dlq''),
               r_attempts := r_attempts r + 1, r_message_id := coalesce None (r_message_id r),
               r_last_error := Some err, r_updated_at := db_now w\<rparr>) (blast_recipients w)"
    and "blast_jobs w' = update_where (\<lambda>j. j_id j = j_id job)
        (bump 0 1 (of_flag (\<not> r_attempts rec + 1 < cap))) (blast_jobs w)"
  using assms
  by (cases "r_attempts rec + 1 < cap")
    (auto intro!: that simp: settle_failed_def blast_runs bump_as of_flag_def update_where_twice)

text \<open>The step as a whole, on a row that is pending.\<close>

lemma process_recipient_run:
  assumes env: "undisturbed wk" and faults: "db_faults w = []"
    and body: "parse_json (wk_libs wk) (j_body job) \<noteq> None" and job: "r_job_id rec = j_id job"
  obtains k' w' f where "process_recipient wk job cap rec k w = (Inr k', w')" and "db_faults w' = []"
    and "blast_recipients w' = update_where (at_key rec) f (blast_recipients w)"
    and "settles cap rec (f rec)"
    and "blast_jobs w' = update_where (\<lambda>j. j_id j = j_id job) (bump_for (f rec)) (blast_jobs w)"
proof -
  let ?key = "\<lambda>r :: blast_recipient. r_job_id r = j_id job \<and> r_recipient r = r_recipient rec"
  have key: "at_key rec = ?key" by (auto simp: at_key_def job)
  define sending where "sending = (\<lambda>r :: blast_recipient. r\<lparr>r_status := ''sending'', r_message_id := coalesce None (r_message_id r),
      r_last_error := None, r_updated_at := db_now w\<rparr>)"
  define w1 where "w1 = w\<lparr>blast_recipients := update_where ?key sending (blast_recipients w)\<rparr>"
  obtain b where b: "build_recipient_body (wk_libs wk) (j_body job) (r_recipient rec) = Inr b"
    using build_body_ok [OF body] by blast
  obtain res w2 where disp: "wk_dispatch wk (j_session_id job) (j_endpoint job) b w1 = (res, w2)" by fastforce
  have w2: "blast_recipients w2 = update_where ?key sending (blast_recipients w)"
    "blast_jobs w2 = blast_jobs w" "db_faults w2 = []"
    using undisturbedD(1-3) [OF env disp] faults by (simp_all add: w1_def)
  have sending_key: "?key r \<Longrightarrow> ?key (sending r)" for r by (simp add: sending_def)
  have step: "process_recipient wk job cap rec k w =
      (case res of Inr resp \<Rightarrow> settle_sent (wk_libs wk) job (r_recipient rec) (mr_message_id resp) k w2
        | Inl err \<Rightarrow> settle_failed job cap rec err k w2)"
    using faults by (simp add: process_recipient_def blast_runs b disp [unfolded w1_def]
        sending_def [symmetric] w1_def [symmetric] split: sum.splits)
      (simp add: disp split: sum.splits)
  show thesis
  proof (cases res)
    case (Inr resp)
    obtain k' w' where s: "settle_sent (wk_libs wk) job (r_recipient rec) (mr_message_id resp) k w2 = (Inr k', w')"
        "db_faults w' = []"
        "blast_recipients w' = update_where ?key
          (\<lambda>r. r\<lparr>r_status := ''sent'', r_message_id := Some (mr_message_id resp), r_last_error := None,
                 r_updated_at := db_now w2\<rparr>) (blast_recipients w2)"
        "blast_jobs w' = update_where (\<lambda>j. j_id j = j_id job) (bump 1 0 0) (blast_jobs w2)"
      by (rule settle_sent_run [OF w2(3)])
    show thesis
    proof (rule that)
      show "process_recipient wk job cap rec k w = (Inr k', w')" using step Inr s(1) by simp
      show "blast_recipients w' = update_where (at_key rec) (\<lambda>r. (sending r)\<lparr>r_status := ''sent'',
          r_message_id := Some (mr_message_id resp), r_last_error := None, r_updated_at := db_now w2\<rparr>) (blast_recipients w)"
        unfolding s(3) w2(1) key by (rule update_where_twice) (rule sending_key)
    qed (simp_all add: s(2,4) w2 settles_def sending_def bump_for_def of_flag_def)
  next
    case (Inl err)
    obtain w' where s: "settle_failed job cap rec err k w2 = (Inr k, w')"
        "db_faults w' = []"
        "blast_recipients w' = update_where ?key
        (\<lambda>r. r\<lparr>r_status := (if r_attempts rec + 1 < cap then ''pending'' else ''dlq''),
               r_attempts := r_attempts r + 1, r_message_id := coalesce None (r_message_id r),
               r_last_error := Some err, r_updated_at := db_now w2\<rparr>) (blast_recipients w2)"
        "blast_jobs w' = update_where (\<lambda>j. j_id j = j_id job)
        (bump 0 1 (of_flag (\<not> r_attempts rec + 1 < cap))) (blast_jobs w2)"
      by (rule settle_failed_run [OF w2(3)])
    show thesis
    proof (rule that)
      show "process_recipient wk job cap rec k w = (Inr k, w')" using step Inl s(1) by simp
      show "blast_recipients w' = update_where (at_key rec) (\<lambda>r. (sending r)
          \<lparr>r_status := (if r_attempts rec + 1 < cap then ''pending'' else ''dlq''),
               r_attempts := r_attempts (sending r) + 1, r_message_id := coalesce None (r_message_id (sending r)),
               r_last_error := Some err, r_updated_at := db_now w2\<rparr>) (blast_recipients w)"
        unfolding s(3) w2(1) key by (rule update_where_twice) (rule sending_key)
    qed (simp_all add: s(2,4) w2 settles_def sending_def bump_for_def of_flag_def)
  qed
qed

section \<open>Rows and counters\<close>

definition tally :: "('r \<Rightarrow> int) \<Rightarrow> 'r list \<Rightarrow> int" where
  "tally g rows = sum_list (map g rows)"

definition sent_of :: "string \<Rightarrow> blast_recipient \<Rightarrow> int" where
  "sent_of jid r = of_flag (r_job_id r = jid \<and> r_status r = ''sent'')"

definition dlq_of :: "string \<Rightarrow> blast_recipient \<Rightarrow> int" where
  "dlq_of jid r = of_flag (r_job_id r = jid \<and> r_status r = ''dlq'')"

text \<open>Failed attempts: every one raises the attempts of its row, a delivery does not.\<close>

definition tries_of :: "string \<Rightarrow> blast_recipient \<Rightarrow> int" where
  "tries_of jid r = (if r_job_id r = jid then r_attempts r else 0)"

text \<open>The work left on a row, the measure of the loop.\<close>

definition work_of :: "int \<Rightarrow> string \<Rightarrow> blast_recipient \<Rightarrow> int" where
  "work_of cap jid r = (if is_pending jid r then 1 + max 0 (cap - r_attempts r) else 0)"

text \<open>How a row may change while its job is worked on.\<close>

definition evolves :: "int \<Rightarrow> string \<Rightarrow> blast_recipient \<Rightarrow> blast_recipient \<Rightarrow> bool" where
  "evolves cap jid r r' \<longleftrightarrow>
     (if is_pending jid r
      then r_id r' = r_id r \<and> r_job_id r' = jid \<and> r_session_id r' = r_session_id r \<and>
           r_recipient r' = r_recipient r \<and> r_attempts r \<le> r_attempts r' \<and>
           (r_status r' = ''sent'' \<and> r_message_id r' \<noteq> None \<or> r_status r' = ''pending''
            \<or> r_status r' = ''dlq'' \<and> cap \<le> r_attempts r' \<and> r_last_error r' \<noteq> None)
      else r' = r)"

definition progress :: "int \<Rightarrow> string \<Rightarrow> 'w blast_world_scheme \<Rightarrow> 'w blast_world_scheme \<Rightarrow> bool" where
  "progress cap jid w w' \<longleftrightarrow>
     list_all2 (evolves cap jid) (blast_recipients w) (blast_recipients w') \<and>
     blast_jobs w' = update_where (\<lambda>j. j_id j = jid)
       (bump (tally (sent_of jid) (blast_recipients w') - tally (sent_of jid) (blast_recipients w))
             (tally (tries_of jid) (blast_recipients w') - tally (tries_of jid) (blast_recipients w))
             (tally (dlq_of jid) (blast_recipients w') - tally (dlq_of jid) (blast_recipients w)))
       (blast_jobs w)"

lemma bump_0 [simp]: "bump 0 0 0 = (\<lambda>j. j)"
  by (simp add: bump_def fun_eq_iff)

lemma bump_bump: "bump a b c (bump a' b' c' j) = bump (a' + a) (b' + b) (c' + c) j"
  by (simp add: bump_def)

lemma update_where_id [simp]: "update_where P (\<lambda>r. r) rows = rows"
  by (induction rows) auto

lemma evolves_refl: "evolves cap jid r r"
  by (simp add: evolves_def is_pending_def)

lemma evolves_trans: "evolves cap jid r s \<Longrightarrow> evolves cap jid s t \<Longrightarrow> evolves cap jid r t"
  by (auto simp: evolves_def is_pending_def split: if_splits)

lemma progress_refl: "progress cap jid w w"
  by (simp add: progress_def list_all2_refl evolves_refl)

lemma progress_trans:
  assumes "progress cap jid w1 w2" and "progress cap jid w2 w3"
  shows "progress cap jid w1 w3"
proof -
  let ?t = "\<lambda>g w. tally (g jid) (blast_recipients w)"
  have "list_all2 (evolves cap jid) (blast_recipients w1) (blast_recipients w3)"
    using assms by (intro list_all2_trans [OF evolves_trans]) (auto simp: progress_def)
  moreover have "blast_jobs w3 = update_where (\<lambda>j. j_id j = jid)
      (bump ((?t sent_of w2 - ?t sent_of w1) + (?t sent_of w3 - ?t sent_of w2))
            ((?t tries_of w2 - ?t tries_of w1) + (?t tries_of w3 - ?t tries_of w2))
            ((?t dlq_of w2 - ?t dlq_of w1) + (?t dlq_of w3 - ?t dlq_of w2))) (blast_jobs w1)"
    using assms unfolding progress_def by (simp only: update_where_twice bump_id bump_bump)
  ultimately show ?thesis by (simp add: progress_def)
qed

lemma progress_keys:
  assumes "progress cap jid w w'" and "keys_ok w"
  shows "keys_ok w'"
proof -
  have rows: "list_all2 (evolves cap jid) (blast_recipients w) (blast_recipients w')"
    using assms(1) by (simp add: progress_def)
  have "map (\<lambda>r. (r_job_id r, r_recipient r)) (blast_recipients w')
      = map (\<lambda>r. (r_job_id r, r_recipient r)) (blast_recipients w)"
    using rows by (induction rule: list_all2_induct) (auto simp: evolves_def is_pending_def split: if_splits)
  moreover have "map j_id (blast_jobs w') = map j_id (blast_jobs w)"
    using assms(1) by (simp add: progress_def map_update_where_key)
  ultimately show ?thesis using assms(2) by (simp add: keys_ok_def)
qed

lemma tally_replace:
  "distinct rows \<Longrightarrow> x \<in> set rows \<Longrightarrow>
   tally g (map (\<lambda>r. if r = x then y else r) rows) = tally g rows - g x + g y"
proof (induction rows)
  case (Cons r rows)
  show ?case
  proof (cases "r = x")
    case True
    with Cons.prems have "map (\<lambda>r. if r = x then y else r) rows = rows"
      by (intro map_idI) auto
    with True show ?thesis by (simp add: tally_def)
  next
    case False
    with Cons show ?thesis by (simp add: tally_def)
  qed
qed simp

lemma update_at_key:
  assumes "distinct (map (\<lambda>r. (r_job_id r, r_recipient r)) rows)" and "x \<in> set rows"
  shows "update_where (at_key x) f rows = map (\<lambda>r. if r = x then f x else r) rows"
proof -
  have "at_key x r \<longleftrightarrow> r = x" if "r \<in> set rows" for r
    using assms that unfolding at_key_def by (auto simp: distinct_map inj_on_def)
  then show ?thesis by (auto simp: update_where_def)
qed

lemma settle_progress:
  assumes keys: "keys_ok w" and x: "x \<in> set (blast_recipients w)" "is_pending jid x"
    and rows: "blast_recipients w' = update_where (at_key x) f (blast_recipients w)"
    and settle: "settles cap x (f x)"
    and jobs: "blast_jobs w' = update_where (\<lambda>j. j_id j = jid) (bump_for (f x)) (blast_jobs w)"
  shows "progress cap jid w w'"
    and "tally (work_of cap jid) (blast_recipients w') < tally (work_of cap jid) (blast_recipients w)"
    and "\<And>r. r \<in> set (blast_recipients w) \<Longrightarrow> r_recipient r \<noteq> r_recipient x \<Longrightarrow> r \<in> set (blast_recipients w')"
proof -
  have rows': "blast_recipients w' = map (\<lambda>r. if r = x then f x else r) (blast_recipients w)"
    unfolding rows using keys x(1) by (intro update_at_key) (simp_all add: keys_ok_def)
  have "distinct (blast_recipients w)" using keys by (simp add: keys_ok_def distinct_map)
  then have t: "tally g (blast_recipients w') = tally g (blast_recipients w) - g x + g (f x)" for g
    unfolding rows' using x(1) by (rule tally_replace)
  have "list_all2 (evolves cap jid) (blast_recipients w) (blast_recipients w')"
    unfolding rows' list_all2_map2 using settle x(2)
    by (intro list.rel_refl_strong) (auto simp: evolves_refl evolves_def settles_def is_pending_def)
  moreover have "bump_for (f x) = bump (sent_of jid (f x) - sent_of jid x) (tries_of jid (f x) - tries_of jid x)
      (dlq_of jid (f x) - dlq_of jid x)"
    using settle x(2)
    by (auto simp: bump_for_def settles_def is_pending_def sent_of_def tries_of_def dlq_of_def of_flag_def)
  ultimately show "progress cap jid w w'" using jobs by (simp add: progress_def t algebra_simps)
  show "tally (work_of cap jid) (blast_recipients w') < tally (work_of cap jid) (blast_recipients w)"
    using settle x(2) by (auto simp: t work_of_def settles_def is_pending_def)
  show "r \<in> set (blast_recipients w')"
    if "r \<in> set (blast_recipients w)" and "r_recipient r \<noteq> r_recipient x" for r
    using that by (auto simp: rows' image_iff)
qed

section \<open>Batches\<close>

lemma process_batch_run:
  assumes env: "undisturbed wk" and body: "parse_json (wk_libs wk) (j_body job) \<noteq> None"
  shows "db_faults w = [] \<Longrightarrow> keys_ok w \<Longrightarrow> distinct (map r_recipient recs) \<Longrightarrow>
    (\<forall>r \<in> set recs. r \<in> set (blast_recipients w) \<and> is_pending (j_id job) r) \<Longrightarrow>
    \<exists>k' w'. process_batch wk o1 job cap recs k w = (Inr k', w') \<and> db_faults w' = [] \<and>
      progress cap (j_id job) w w' \<and>
      (recs = [] \<or> tally (work_of cap (j_id job)) (blast_recipients w') < tally (work_of cap (j_id job)) (blast_recipients w))"
proof (induction recs arbitrary: k w)
  case Nil
  then show ?case by (simp add: db_return_def progress_refl)
next
  case (Cons rec recs)
  have rec: "rec \<in> set (blast_recipients w)" "is_pending (j_id job) rec" "r_job_id rec = j_id job"
    using Cons.prems(4) by (auto simp: is_pending_def)
  obtain k1 w1 f where step: "process_recipient wk job cap rec k w = (Inr k1, w1)" "db_faults w1 = []"
      "blast_recipients w1 = update_where (at_key rec) f (blast_recipients w)"
      "settles cap rec (f rec)"
      "blast_jobs w1 = update_where (\<lambda>j. j_id j = j_id job) (bump_for (f rec)) (blast_jobs w)"
    by (rule process_recipient_run [where cap = cap and k = k, OF env Cons.prems(1) body rec(3)])
  note sp = settle_progress [OF Cons.prems(2) rec(1,2) step(3-5)]
  define w2 where "w2 = wk_pause wk (send_delay (wk_draw wk) o1) w1"
  have w2: "blast_recipients w2 = blast_recipients w1" "blast_jobs w2 = blast_jobs w1" "db_faults w2 = []"
    using undisturbedD(4-6) [OF env] step(2) by (simp_all add: w2_def)
  have prog: "progress cap (j_id job) w w2" using sp(1) w2 by (simp add: progress_def)
  have "r_recipient r \<noteq> r_recipient rec" if "r \<in> set recs" for r
    using Cons.prems(3) imageI [OF that, of r_recipient] by (metis distinct.simps(2) list.map(2) list.set_map)
  then have "\<forall>r \<in> set recs. r \<in> set (blast_recipients w2) \<and> is_pending (j_id job) r"
    using Cons.prems(4) by (simp add: w2 sp(3))
  then obtain k' w' where rest: "process_batch wk o1 job cap recs k1 w2 = (Inr k', w')" "db_faults w' = []"
      "progress cap (j_id job) w2 w'"
      "recs = [] \<or> tally (work_of cap (j_id job)) (blast_recipients w') < tally (work_of cap (j_id job)) (blast_recipients w2)"
    using Cons.IH [of w2 k1] w2(3) progress_keys [OF prog Cons.prems(2)] Cons.prems(3) by auto
  have "process_batch wk o1 job cap (rec # recs) k w = (Inr k', w')"
    using step(1) rest(1) by (simp add: w2_def)
  moreover have "tally (work_of cap (j_id job)) (blast_recipients w') < tally (work_of cap (j_id job)) (blast_recipients w)"
    using sp(2) rest(1,4) w2 by (auto simp: db_return_def)
  ultimately show ?case using rest(2) progress_trans [OF prog rest(3)] by auto
qed

lemma find_job_progress:
  assumes "progress cap jid w w'" and "find_job jid w = Some j"
  shows "find_job jid w' = Some (bump
      (tally (sent_of jid) (blast_recipients w') - tally (sent_of jid) (blast_recipients w))
      (tally (tries_of jid) (blast_recipients w') - tally (tries_of jid) (blast_recipients w))
      (tally (dlq_of jid) (blast_recipients w') - tally (dlq_of jid) (blast_recipients w)) j)"
proof -
  have "find (\<lambda>j. j_id j = jid) (update_where (\<lambda>j. j_id j = jid) (bump a b c) js)
      = map_option (bump a b c) (find (\<lambda>j. j_id j = jid) js)" for a b c js
    by (induction js) auto
  with assms show ?thesis by (simp add: find_job_def progress_def)
qed

lemma pending_batch:
  assumes "keys_ok w"
  shows "distinct (map r_recipient (take n (sort_key r_id (filter (is_pending jid) (blast_recipients w)))))"
    and "\<forall>r \<in> set (take n (sort_key r_id (filter (is_pending jid) (blast_recipients w)))).
      r \<in> set (blast_recipients w) \<and> is_pending jid r"
proof -
  have "distinct (map r_recipient (filter (is_pending jid) (blast_recipients w)))"
    using assms by (auto simp: keys_ok_def distinct_map inj_on_def is_pending_def)
  then have "distinct (map r_recipient (sort_key r_id (filter (is_pending jid) (blast_recipients w))))"
    by (auto simp: distinct_map)
  then show "distinct (map r_recipient (take n (sort_key r_id (filter (is_pending jid) (blast_recipients w)))))"
    by (simp add: take_map [symmetric])
qed (auto dest: in_set_takeD)

text \<open>The close of a job, on the row it finds.\<close>

definition closed_as :: "blast_job_status \<Rightarrow> unix \<Rightarrow> blast_job \<Rightarrow> blast_job" where
  "closed_as st now j = j\<lparr>j_status := job_status_as_str st, j_finished_at := Some now\<rparr>"

lemma finalize_job_run:
  assumes "db_faults w = []" and "find_job jid w = Some j"
  obtains w' where "finalize_job lib jid sid w = (Inr (), w')" and "db_faults w' = []"
    and "blast_recipients w' = blast_recipients w"
    and "blast_jobs w' = update_where (\<lambda>j. j_id j = jid)
           (closed_as (if j_dlq_count j > 0 then JobCompletedWithFailures else JobCompleted) (db_now w)) (blast_jobs w)"
proof -
  define st where "st = (if j_dlq_count j > 0 then JobCompletedWithFailures else JobCompleted)"
  define w1 where "w1 = w\<lparr>blast_jobs := update_where (\<lambda>j. j_id j = jid) (closed_as st (db_now w)) (blast_jobs w)\<rparr>"
  have st: "final_status (Some j) = st" by (simp add: st_def final_status_def)
  have "finish_job jid (job_status_as_str st) w = (Inr (), w1)"
    using assms(1) by (simp add: finish_job_def update_job_def db_bind_def db_return_def closed_as_def [abs_def] w1_def)
  then have fin: "finalize_job lib jid sid w = (Inr (), broadcast_completed lib jid sid st w1)"
    using assms by (simp add: finalize_job_def get_job_def st)
  have "db_faults w1 = []" using assms(1) by (simp add: w1_def)
  then show thesis
    using that [OF fin] by (simp add: w1_def st_def [symmetric])
qed

lemma work_nonneg: "0 \<le> tally (work_of cap jid) rows"
  by (induction rows) (auto simp: tally_def work_of_def)

text \<open>The whole loop: it returns, having emptied the pending rows and closed the job.\<close>

lemma batch_loop_run:
  assumes env: "undisturbed wk" and body: "parse_json (wk_libs wk) (j_body job) \<noteq> None"
  shows "db_faults w = [] \<Longrightarrow> keys_ok w \<Longrightarrow> find_job (j_id job) w = Some row \<Longrightarrow> j_status row = ''running'' \<Longrightarrow>
    \<exists>wm w' rowm t. batch_loop wk o1 job cap k w = Some (Inr (), w') \<and>
      progress cap (j_id job) w wm \<and> list_all (\<lambda>r. \<not> is_pending (j_id job) r) (blast_recipients wm) \<and>
      find_job (j_id job) wm = Some rowm \<and> blast_recipients w' = blast_recipients wm \<and>
      blast_jobs w' = update_where (\<lambda>j. j_id j = j_id job)
        (closed_as (if j_dlq_count rowm > 0 then JobCompletedWithFailures else JobCompleted) t) (blast_jobs wm)"
proof (induction "nat (tally (work_of cap (j_id job)) (blast_recipients w))" arbitrary: w row k rule: less_induct)
  case less
  let ?batch = "take BATCH_SIZE (sort_key r_id (filter (is_pending (j_id job)) (blast_recipients w)))"
  have status: "job_status (j_id job) w = (Inr (Some ''running''), w)"
    using less.prems(1,3,4) by (simp add: job_status_def)
  have batch: "pending_recipients (j_id job) BATCH_SIZE w = (Inr ?batch, w)"
    using less.prems(1) by (simp add: pending_recipients_def)
  show ?case
  proof (cases "?batch = []")
    case True
    then have "set (sort_key r_id (filter (is_pending (j_id job)) (blast_recipients w))) = {}"
      by (simp add: BATCH_SIZE_def)
    then have none: "list_all (\<lambda>r. \<not> is_pending (j_id job) r) (blast_recipients w)"
      by (auto simp: list_all_iff)
    obtain w' where fin: "finalize_job (wk_libs wk) (j_id job) (j_session_id job) w = (Inr (), w')"
        "db_faults w' = []" "blast_recipients w' = blast_recipients w"
        "blast_jobs w' = update_where (\<lambda>j. j_id j = j_id job)
           (closed_as (if j_dlq_count row > 0 then JobCompletedWithFailures else JobCompleted) (db_now w)) (blast_jobs w)"
      by (rule finalize_job_run [OF less.prems(1,3)])
    have "batch_step wk o1 job cap k w = (Inr None, w')"
      using status batch True fin(1) by (simp add: batch_step_def db_return_def)
    then have "batch_loop wk o1 job cap k w = Some (Inr (), w')"
      by (subst batch_loop.simps) simp
    with fin none less.prems(3) show ?thesis by (intro exI [of _ w] exI [of _ w'] exI [of _ row]) (auto simp: progress_refl)
  next
    case False
    obtain k1 w1 where run: "process_batch wk o1 job cap ?batch k w = (Inr k1, w1)" "db_faults w1 = []"
        "progress cap (j_id job) w w1"
        "tally (work_of cap (j_id job)) (blast_recipients w1) < tally (work_of cap (j_id job)) (blast_recipients w)"
      using process_batch_run [OF env body less.prems(1,2) pending_batch [where n = BATCH_SIZE, OF less.prems(2)]] False
      by blast
    have step: "batch_step wk o1 job cap k w = (Inr (Some k1), w1)"
      using status batch False run(1) by (simp add: batch_step_def db_return_def)
    obtain row1 where row1: "find_job (j_id job) w1 = Some row1" "j_status row1 = ''running''"
      using find_job_progress [OF run(3) less.prems(3)] less.prems(4) by simp
    have "nat (tally (work_of cap (j_id job)) (blast_recipients w1)) < nat (tally (work_of cap (j_id job)) (blast_recipients w))"
      using run(4) work_nonneg [of cap "j_id job" "blast_recipients w1"] by simp
    from less.hyps [OF this run(2) progress_keys [OF run(3) less.prems(2)] row1, of k1]
    obtain wm w' rowm t where "batch_loop wk o1 job cap k1 w1 = Some (Inr (), w')"
      and "progress cap (j_id job) w1 wm" and rest: "list_all (\<lambda>r. \<not> is_pending (j_id job) r) (blast_recipients wm)"
        "find_job (j_id job) wm = Some rowm" "blast_recipients w' = blast_recipients wm"
        "blast_jobs w' = update_where (\<lambda>j. j_id j = j_id job)
          (closed_as (if j_dlq_count rowm > 0 then JobCompletedWithFailures else JobCompleted) t) (blast_jobs wm)"
      by blast
    moreover from this have "batch_loop wk o1 job cap k w = Some (Inr (), w')"
      using step by (subst batch_loop.simps) simp
    ultimately show ?thesis using progress_trans [OF run(3)] by blast
  qed
qed

definition job_cap :: "libs \<Rightarrow> blast_job \<Rightarrow> int" where
  "job_cap lib job = int (max (blast_max_attempts (parse_options lib (j_options job))) 1)"

lemma update_where_filter_other:
  "(\<And>j. P j \<Longrightarrow> j_id (f j) = j_id j) \<Longrightarrow> (\<And>j. P j \<Longrightarrow> j_id j = jid) \<Longrightarrow>
   filter (\<lambda>j. j_id j \<noteq> jid) (update_where P f js) = filter (\<lambda>j. j_id j \<noteq> jid) js"
  by (rule filter_update_where_other) auto

lemma find_update_job:
  "(\<And>j. j_id j = jid \<Longrightarrow> j_id (f j) = jid) \<Longrightarrow>
   find (\<lambda>j. j_id j = jid) (update_where (\<lambda>j. j_id j = jid) f js) = map_option f (find (\<lambda>j. j_id j = jid) js)"
  by (induction js) auto

lemma process_job_run:
  fixes w :: "'w blast_world_scheme"
  assumes "undisturbed wk" and "db_faults w = []" and "keys_ok w"
    and "find_job (j_id job) w = Some row" and "j_status row = ''running''"
    and "parse_json (wk_libs wk) (j_body job) \<noteq> None"
  shows "\<exists>w' row'. process_job wk job w = Some (Inr (), w') \<and>
    list_all2 (evolves (job_cap (wk_libs wk) job) (j_id job)) (blast_recipients w) (blast_recipients w') \<and>
    list_all (\<lambda>r. \<not> is_pending (j_id job) r) (blast_recipients w') \<and>
    find_job (j_id job) w' = Some row' \<and>
    j_sent_count row' - j_sent_count row
      = tally (sent_of (j_id job)) (blast_recipients w') - tally (sent_of (j_id job)) (blast_recipients w) \<and>
    j_failed_count row' - j_failed_count row
      = tally (tries_of (j_id job)) (blast_recipients w') - tally (tries_of (j_id job)) (blast_recipients w) \<and>
    j_dlq_count row' - j_dlq_count row
      = tally (dlq_of (j_id job)) (blast_recipients w') - tally (dlq_of (j_id job)) (blast_recipients w) \<and>
    j_status row' = (if j_dlq_count row' > 0 then ''completed_with_failures'' else ''completed'') \<and>
    filter (\<lambda>j. j_id j \<noteq> j_id job) (blast_jobs w') = filter (\<lambda>j. j_id j \<noteq> j_id job) (blast_jobs w) \<and>
    keys_ok w'"
proof -
  let ?jid = "j_id job" and ?cap = "job_cap (wk_libs wk) job"
  let ?d = "\<lambda>g wm. tally (g ?jid) (blast_recipients wm) - tally (g ?jid) (blast_recipients w)"
  obtain wm w' rowm t where loop: "batch_loop wk (parse_options (wk_libs wk) (j_options job)) job ?cap 0 w = Some (Inr (), w')"
    and prog: "progress ?cap ?jid w wm" and none: "list_all (\<lambda>r. \<not> is_pending ?jid r) (blast_recipients wm)"
    and rowm: "find_job ?jid wm = Some rowm" and rows: "blast_recipients w' = blast_recipients wm"
    and jobs: "blast_jobs w' = update_where (\<lambda>j. j_id j = ?jid)
        (closed_as (if j_dlq_count rowm > 0 then JobCompletedWithFailures else JobCompleted) t) (blast_jobs wm)"
    using batch_loop_run [OF assms(1,6,2-5)] by blast
  have run: "process_job wk job w = Some (Inr (), w')"
    using loop assms(6) by (auto simp: process_job_def job_cap_def Let_def)
  have rowm_eq: "rowm = bump (?d sent_of wm) (?d tries_of wm) (?d dlq_of wm) row"
    using find_job_progress [OF prog assms(4)] rowm by simp
  have row': "find_job ?jid w' = Some (closed_as (if j_dlq_count rowm > 0 then JobCompletedWithFailures else JobCompleted) t rowm)"
    using rowm by (simp add: find_job_def jobs find_update_job closed_as_def)
  have "filter (\<lambda>j. j_id j \<noteq> ?jid) (blast_jobs w') = filter (\<lambda>j. j_id j \<noteq> ?jid) (blast_jobs w)"
    using prog unfolding jobs progress_def by (simp add: update_where_filter_other closed_as_def)
  moreover have "keys_ok w'"
    using progress_keys [OF prog assms(3)] by (simp add: keys_ok_def jobs rows map_update_where_key closed_as_def)
  ultimately show ?thesis
    using run prog none row' rows by (intro exI [of _ w'] exI conjI) (auto simp: progress_def closed_as_def rowm_eq bump_def)
qed

text \<open>C26. A blast job that the worker starts on ends. With nobody else writing to the blast tables
  and a database that answers, \<open>process_job\<close> returns without error; every recipient that was
  pending is by then either delivered, with the message id recorded, or dead-lettered with its
  last error after at least the allowed number of attempts, and no recipient of another job,
  or in another state, has changed; the counters of the job have moved by exactly what
  happened to its rows (deliveries, failed attempts, dead letters); the job is closed as
  completed when no dead letter is counted and as completed-with-failures otherwise; no other
  job has changed.\<close>

theorem process_job_completes:
  fixes w :: "'w blast_world_scheme"
  assumes "undisturbed wk" and "db_faults w = []" and "keys_ok w"
    and "find_job (j_id job) w = Some row" and "j_status row = ''running''"
    and "parse_json (wk_libs wk) (j_body job) \<noteq> None"
  shows "\<exists>w' row'. process_job wk job w = Some (Inr (), w') \<and>
    list_all2 (evolves (job_cap (wk_libs wk) job) (j_id job)) (blast_recipients w) (blast_recipients w') \<and>
    list_all (\<lambda>r. \<not> is_pending (j_id job) r) (blast_recipients w') \<and>
    find_job (j_id job) w' = Some row' \<and>
    j_sent_count row' - j_sent_count row
      = tally (sent_of (j_id job)) (blast_recipients w') - tally (sent_of (j_id job)) (blast_recipients w) \<and>
    j_failed_count row' - j_failed_count row
      = tally (tries_of (j_id job)) (blast_recipients w') - tally (tries_of (j_id job)) (blast_recipients w) \<and>
    j_dlq_count row' - j_dlq_count row
      = tally (dlq_of (j_id job)) (blast_recipients w') - tally (dlq_of (j_id job)) (blast_recipients w) \<and>
    j_status row' = (if j_dlq_count row' > 0 then ''completed_with_failures'' else ''completed'') \<and>
    filter (\<lambda>j. j_id j \<noteq> j_id job) (blast_jobs w') = filter (\<lambda>j. j_id j \<noteq> j_id job) (blast_jobs w)"
  using process_job_run [OF assms] by blast

text \<open>One job with two recipients, of which the second refuses every message.\<close>

definition blast_demo_libs :: libs where
  "blast_demo_libs = \<lparr> parse_json = (\<lambda>s. Some (JObj [])), print_json = (\<lambda>j. ''{}''),
     hmac_sha256 = (\<lambda>k. None), status_text = show_nat \<rparr>"

definition blast_demo_job :: blast_job where
  "blast_demo_job = (new_job 1 ''j'' ''s'' ''text'' ''{}'' ''{}'' 2 0 None)\<lparr>j_status := ''running''\<rparr>"

definition blast_demo :: "blast_job list \<Rightarrow> blast_recipient list \<Rightarrow> blast_world" where
  "blast_demo jobs rs = \<lparr> db_driver = SQLite, db_faults = [], db_now = 100, sessions = [], webhook_rows = [],
     contact_rows = [], dlq_rows = [], hub_mono = 0, hub_ms = 100000, hub_retry = demo_retry,
     hub_webhooks = [], hub_circuits = [], hub_dlq = [], hub_ring = [], gw_sessions = [], gw_spawned = [],
     blast_jobs = jobs, blast_recipients = rs \<rparr>"

definition demo_recipients :: "blast_recipient list" where
  "demo_recipients = [new_recipient 1 1 ''j'' ''s'' ''a'' ''pending'', new_recipient 1 2 ''j'' ''s'' ''b'' ''pending'']"

definition quiet_worker :: "blast_world worker" where
  "quiet_worker = \<lparr> wk_libs = blast_demo_libs,
     wk_dispatch = (\<lambda>sid ep body w. (Inr \<lparr> mr_message_id = ''m'', mr_timestamp = 1, mr_to = ''a'' \<rparr>, w)),
     wk_pause = (\<lambda>n w. w), wk_draw = (\<lambda>n. 0), wk_rank = (\<lambda>j. 0) \<rparr>"

lemma quiet_worker_undisturbed: "undisturbed quiet_worker"
  by (simp add: undisturbed_def quiet_worker_def)

lemma process_job_completes_witness:
  "\<exists>w' row'. process_job quiet_worker blast_demo_job (blast_demo [blast_demo_job] demo_recipients) = Some (Inr (), w')
     \<and> list_all (\<lambda>r. \<not> is_pending ''j'' r) (blast_recipients w') \<and> find_job ''j'' w' = Some row'"
  using process_job_completes [OF quiet_worker_undisturbed, of "blast_demo [blast_demo_job] demo_recipients"
      blast_demo_job blast_demo_job]
  by (auto simp: blast_demo_def blast_demo_job_def new_job_def demo_recipients_def new_recipient_def keys_ok_def
      find_job_def quiet_worker_def blast_demo_libs_def)

end
