(* ===== verification/Blast_Api.thy ===== *)
theory Blast_Api
  imports Blast_Worker Message_Dispatch
begin

text \<open>
  The blast endpoints (\<open>src/api/shared/blast/handlers.rs\<close>, up to the worker). \<open>blast_env\<close> holds
  the libraries, the endpoints' request shapes and the order in which a \<open>HashSet\<close> is walked,
  which the standard library leaves open.
\<close>

record ('req, 'w) blast_env =
  be_libs :: libs
  be_jids :: jid_lib
  be_endpoints :: "('req, 'w) endpoints"
  be_walk :: "string list \<Rightarrow> string list"

type_synonym ('w, 'a) blast_handler = "'w blast_world_scheme \<Rightarrow> (api_error + 'a) \<times> 'w blast_world_scheme"

text \<open>The recipients of a request: those refused, those seen (which are the accepted ones, in
  the order of the request), and the number of repetitions.\<close>

record recipient_scan =
  sc_bad :: "string list"
  sc_seen :: "string list"
  sc_skipped :: nat

fun scan_recipients :: "jid_lib \<Rightarrow> string list \<Rightarrow> recipient_scan \<Rightarrow> recipient_scan" where
  "scan_recipients jl [] sc = sc"
| "scan_recipients jl (raw # raws) sc = scan_recipients jl raws
     (case parse_jid jl raw of
        Inr canonical \<Rightarrow>
          if canonical \<in> set (sc_seen sc) then sc\<lparr>sc_skipped := sc_skipped sc + 1\<rparr>
          else sc\<lparr>sc_seen := sc_seen sc @ [canonical]\<rparr>
      | Inl _ \<Rightarrow> sc\<lparr>sc_bad := sc_bad sc @ [raw]\<rparr>)"

definition dedup_recipients :: "string \<Rightarrow> blast_options \<Rightarrow> string list \<Rightarrow> ('w, string list) blast_handler" where
  "dedup_recipients sid o1 accepted =
     (if dedup_across_jobs o1 \<and> accepted \<noteq> []
      then db_bind (db_map_err Internal (already_sent sid accepted))
             (\<lambda>sent w. (Inr (filter (\<lambda>r. r \<notin> sent) accepted), w))
      else (\<lambda>w. (Inr accepted, w)))"

definition recipient_rows :: "(string list \<Rightarrow> string list) \<Rightarrow> string list \<Rightarrow> string list \<Rightarrow> (string \<times> string) list" where
  "recipient_rows walk accepted canonical =
     map (\<lambda>r. (r, rec_status_as_str RecPending)) accepted
     @ map (\<lambda>r. (r, rec_status_as_str RecSkippedDup)) (filter (\<lambda>r. r \<notin> set accepted) (walk canonical))"

definition create_blast ::
    "('req, 'v) blast_env \<Rightarrow> string \<Rightarrow> string \<Rightarrow> create_blast_request \<Rightarrow> ('w, create_blast_response) blast_handler" where
  "create_blast env uuid sid request w =
     (if dm_get (gw_sessions w) sid = None then (Inl (SessionNotFound sid), w)
      else case validate_body (be_endpoints env) (cb_endpoint request) (cb_body request) of
        Inl e \<Rightarrow> (Inl (BadRequest e), w)
      | Inr _ \<Rightarrow>
          if cb_recipients request = [] then (Inl (BadRequest ''recipients must not be empty''), w)
          else let sc = scan_recipients (be_jids env) (cb_recipients request) \<lparr> sc_bad = [], sc_seen = [], sc_skipped = 0 \<rparr>;
                   o1 = request_options request
               in if sc_bad sc \<noteq> [] then (Inl (BadRequest (''invalid recipients: '' @ join_with '', '' (sc_bad sc))), w)
               else db_bind (dedup_recipients sid o1 (sc_seen sc)) (\<lambda>accepted.
                 let skipped = sc_skipped sc + (length (sc_seen sc) - length accepted)
                 in db_bind (db_map_err (\<lambda>e. Internal (''failed to store blast job: '' @ e))
                      (insert_job uuid sid (cb_endpoint request) (print_json (be_libs env) (cb_body request))
                         (print_json (be_libs env) (options_to_json o1)) (int (length accepted)) (int skipped) (cb_send_at request)))
                 (\<lambda>_. db_bind (db_map_err (\<lambda>e. Internal (''failed to store blast recipients: '' @ e))
                      (insert_recipients uuid sid (recipient_rows (be_walk env) accepted (sc_seen sc))))
                 (\<lambda>_ w'. (Inr \<lparr> cr_job_id = uuid, cr_total = length accepted, cr_skipped_dup = skipped,
                              cr_status = job_status_as_str JobPending \<rparr>, w')))) w)"

section \<open>Reading, cancelling, retrying\<close>

definition job_to_model :: "libs \<Rightarrow> blast_job \<Rightarrow> blast_job_view" where
  "job_to_model lib j = \<lparr> jv_id = j_id j, jv_session_id = j_session_id j, jv_endpoint = j_endpoint j,
     jv_status = job_status_from_str (j_status j), jv_options = parse_options lib (j_options j),
     jv_total = j_total j, jv_sent_count = j_sent_count j, jv_failed_count = j_failed_count j,
     jv_dlq_count = j_dlq_count j, jv_skipped_dup_count = j_skipped_dup_count j, jv_send_at = j_send_at j,
     jv_created_at = j_created_at j, jv_started_at = j_started_at j, jv_finished_at = j_finished_at j \<rparr>"

definition jobs_to_response :: "libs \<Rightarrow> blast_job list \<Rightarrow> blast_job_view list \<times> nat" where
  "jobs_to_response lib rows = (let jobs = map (job_to_model lib) rows in (jobs, length jobs))"

definition list_session_blasts ::
    "libs \<Rightarrow> (blast_job \<Rightarrow> nat) \<Rightarrow> string \<Rightarrow> string option \<Rightarrow> ('w, blast_job_view list \<times> nat) blast_handler" where
  "list_session_blasts lib rank sid status =
     db_bind (db_map_err Internal (list_jobs rank (Some sid) status)) (\<lambda>rows w. (Inr (jobs_to_response lib rows), w))"

definition list_all_blasts ::
    "libs \<Rightarrow> (blast_job \<Rightarrow> nat) \<Rightarrow> string option \<Rightarrow> string option \<Rightarrow> ('w, blast_job_view list \<times> nat) blast_handler" where
  "list_all_blasts lib rank sid status =
     db_bind (db_map_err Internal (list_jobs rank sid status)) (\<lambda>rows w. (Inr (jobs_to_response lib rows), w))"

definition job_or_404 :: "string \<Rightarrow> string \<Rightarrow> ('w, blast_job) blast_handler" where
  "job_or_404 sid jid =
     db_bind (db_map_err Internal (get_job_scoped sid jid)) (\<lambda>row w. case row of
         None \<Rightarrow> (Inl (MessageNotFound (''blast job '' @ jid)), w)
       | Some j \<Rightarrow> (Inr j, w))"

definition get_blast :: "libs \<Rightarrow> string \<Rightarrow> string \<Rightarrow> ('w, blast_job_view) blast_handler" where
  "get_blast lib sid jid = db_bind (job_or_404 sid jid) (\<lambda>j w. (Inr (job_to_model lib j), w))"

definition recipient_to_model :: "blast_recipient \<Rightarrow> blast_recipient_view" where
  "recipient_to_model r = \<lparr> rv_id = r_id r, rv_recipient = r_recipient r, rv_status = rec_status_from_str (r_status r),
     rv_attempts = r_attempts r, rv_last_error = r_last_error r, rv_message_id = r_message_id r, rv_updated_at = r_updated_at r \<rparr>"

definition list_blast_recipients ::
    "string \<Rightarrow> string \<Rightarrow> string option \<Rightarrow> int option \<Rightarrow> int option \<Rightarrow> ('w, blast_recipient_view list \<times> nat) blast_handler" where
  "list_blast_recipients sid jid status limit offset =
     db_bind (job_or_404 sid jid) (\<lambda>_.
       let l = max 1 (min 1000 (case limit of None \<Rightarrow> 100 | Some n \<Rightarrow> n));
           o1 = max 0 (case offset of None \<Rightarrow> 0 | Some n \<Rightarrow> n)
       in db_bind (db_map_err Internal (list_recipients jid status (nat l) (nat o1)))
            (\<lambda>rows w. (Inr (map recipient_to_model rows, length rows), w)))"

definition cancel_blast :: "libs \<Rightarrow> string \<Rightarrow> string \<Rightarrow> ('w, blast_job_view) blast_handler" where
  "cancel_blast lib sid jid =
     db_bind (job_or_404 sid jid) (\<lambda>row.
       if job_is_terminal (job_status_from_str (j_status row))
       then (\<lambda>w. (Inl (BadRequest (''blast job '' @ jid @ '' is '' @ j_status row
               @ '', only pending or running jobs can be cancelled'')), w))
       else db_bind (db_map_err Internal (cancel_job sid jid)) (\<lambda>changed.
         if \<not> changed
         then (\<lambda>w. (Inl (BadRequest (''blast job '' @ jid @ '' changed state concurrently; try again'')), w))
         else get_blast lib sid jid))"

definition retry_blast :: "libs \<Rightarrow> string \<Rightarrow> string \<Rightarrow> ('w, blast_job_view) blast_handler" where
  "retry_blast lib sid jid =
     db_bind (job_or_404 sid jid) (\<lambda>row.
       if j_status row = job_status_as_str JobRunning
       then (\<lambda>w. (Inl (BadRequest (''blast job '' @ jid @ '' is still running; cancel it first'')), w))
       else db_bind (db_map_err Internal (requeue_failed jid)) (\<lambda>requeued.
         if requeued = 0
         then (\<lambda>w. (Inl (BadRequest (''blast job '' @ jid @ '' has no dlq/failed recipients to retry'')), w))
         else db_bind (db_map_err Internal (reopen_job jid)) (\<lambda>_. get_blast lib sid jid)))"

end
