(* ===== verification/Blast_Tick.thy ===== *)
theory Blast_Tick
  imports Blast_Run Blast_Api
begin

text \<open>
  The blast feature around the run of one job: which job a tick works on, what cancelling and
  retrying do to it, and two situations in which recipients are left behind.
\<close>

section \<open>Claiming a job\<close>

definition job_pending_row :: "string \<Rightarrow> blast_job list \<Rightarrow> bool" where
  "job_pending_row jid jobs \<longleftrightarrow> list_ex (\<lambda>j. j_id j = jid \<and> j_status j = ''pending'') jobs"

definition claim_job_rows :: "driver \<Rightarrow> unix \<Rightarrow> string \<Rightarrow> blast_job list \<Rightarrow> bool \<times> blast_job list" where
  "claim_job_rows drv now jid jobs =
     (0 < affected drv (\<lambda>j. j_id j = jid \<and> j_status j = ''pending'') (start_job now) jobs,
      update_where (\<lambda>j. j_id j = jid \<and> j_status j = ''pending'') (start_job now) jobs)"

lemma start_job_simps [simp]:
  "j_id (start_job now j) = j_id j" "j_status (start_job now j) = ''running''"
  "j_dlq_count (start_job now j) = j_dlq_count j" "j_body (start_job now j) = j_body j"
  by (simp_all add: start_job_def)

lemma start_job_changes: "j_status j = ''pending'' \<Longrightarrow> start_job now j \<noteq> j"
  using start_job_simps(2) [of now j] by force

lemma fst_claim_job_rows: "fst (claim_job_rows drv now jid jobs) \<longleftrightarrow> job_pending_row jid jobs"
  by (auto simp: claim_job_rows_def affected_pos_iff job_pending_row_def list_ex_iff start_job_changes)

interpretation job_claim: claim_protocol job_pending_row "\<lambda>jid. claim_job_rows drv now jid" for drv now
proof unfold_locales
  fix jid jid' :: string and jobs
  show "fst (claim_job_rows drv now jid jobs) = job_pending_row jid jobs" by (rule fst_claim_job_rows)
  show "\<not> job_pending_row jid (snd (claim_job_rows drv now jid jobs))"
    by (induction jobs) (auto simp: job_pending_row_def claim_job_rows_def)
  assume "jid' \<noteq> jid"
  then show "job_pending_row jid' (snd (claim_job_rows drv now jid jobs)) = job_pending_row jid' jobs"
    unfolding job_pending_row_def claim_job_rows_def snd_conv by (intro list_ex_update_where_other) simp
qed

lemma next_due_SomeD:
  assumes "next_due rank w = Some j"
  shows "j \<in> set (blast_jobs w)" and "due (db_now w) j"
    and "\<And>i. i \<in> set (blast_jobs w) \<Longrightarrow> due (db_now w) i \<Longrightarrow> j_created_at j \<le> j_created_at i"
proof -
  let ?q = "order_by j_created_at rank (filter (due (db_now w)) (blast_jobs w))"
  obtain q where q: "?q = j # q" using assms by (auto simp: next_due_def first_row_def split: list.splits)
  have "set ?q = {i \<in> set (blast_jobs w). due (db_now w) i}" by auto
  then have mem: "i \<in> set (j # q) \<longleftrightarrow> i \<in> set (blast_jobs w) \<and> due (db_now w) i" for i unfolding q by auto
  show "j \<in> set (blast_jobs w)" "due (db_now w) j" using mem [of j] by auto
  have "sorted (map j_created_at (j # q))" using sorted_order_by [of j_created_at rank "filter (due (db_now w)) (blast_jobs w)"] q by simp
  then show "j_created_at j \<le> j_created_at i" if "i \<in> set (blast_jobs w)" "due (db_now w) i" for i
    using mem [of i] that by auto
qed

lemma job_eq:
  "keys_ok w \<Longrightarrow> i \<in> set (blast_jobs w) \<Longrightarrow> j \<in> set (blast_jobs w) \<Longrightarrow> j_id i = j_id j \<Longrightarrow> i = j"
  by (auto simp: keys_ok_def distinct_map dest: inj_onD)

lemma find_job_keys: "keys_ok w \<Longrightarrow> find_job jid w = Some j \<longleftrightarrow> j \<in> set (blast_jobs w) \<and> j_id j = jid"
proof
  assume k: "keys_ok w" and "j \<in> set (blast_jobs w) \<and> j_id j = jid"
  then obtain i where "find_job jid w = Some i"
    by (cases "find_job jid w") (auto simp: find_job_def find_None_iff)
  moreover from this have "i \<in> set (blast_jobs w)" "j_id i = jid" by (auto simp: find_job_def find_Some_iff)
  ultimately show "find_job jid w = Some j" using job_eq [OF k] \<open>j \<in> _ \<and> _\<close> by blast
qed (auto simp: find_job_def find_Some_iff)

text \<open>The state in which a claimed job is handed to the worker.\<close>

definition claimed :: "blast_job \<Rightarrow> 'w blast_world_scheme \<Rightarrow> 'w blast_world_scheme" where
  "claimed j w = w\<lparr>blast_jobs := update_where (\<lambda>i. j_id i = j_id j \<and> j_status i = ''pending'') (start_job (db_now w)) (blast_jobs w),
     blast_recipients := update_where (\<lambda>r. r_job_id r = j_id j \<and> r_status r = ''sending'')
       (\<lambda>r. r\<lparr>r_status := ''pending'', r_updated_at := db_now w\<rparr>) (blast_recipients w)\<rparr>"

lemma claim_next_due_run:
  assumes "db_faults w = []" and "keys_ok w" and "next_due rank w = Some j"
  shows "claim_next_due rank w = (Inr (Some (start_job (db_now w) j)),
    w\<lparr>blast_jobs := update_where (\<lambda>i. j_id i = j_id j \<and> j_status i = ''pending'') (start_job (db_now w)) (blast_jobs w)\<rparr>)"
proof -
  let ?P = "\<lambda>i. j_id i = j_id j \<and> j_status i = ''pending''"
  let ?w = "w\<lparr>blast_jobs := update_where ?P (start_job (db_now w)) (blast_jobs w)\<rparr>"
  have j: "j \<in> set (blast_jobs w)" "j_status j = ''pending''" using next_due_SomeD [OF assms(3)] by (auto simp: due_def)
  have "0 < affected (db_driver w) ?P (start_job (db_now w)) (blast_jobs w)"
    using j by (auto simp: affected_pos_iff start_job_changes intro!: bexI [of _ j])
  moreover have "keys_ok ?w"
    using assms(2) by (simp add: keys_ok_def map_update_where_key)
  then have "find_job (j_id j) ?w = Some (start_job (db_now w) j)"
    using j by (auto simp: find_job_keys set_update_where)
  ultimately show ?thesis
    using assms(1,3) by (simp add: claim_next_due_def update_job_def get_job_def db_bind_def)
qed

lemma tick_once_claims:
  assumes "db_faults w = []" and "keys_ok w" and "list_all (\<lambda>j. j_status j \<noteq> ''running'') (blast_jobs w)"
    and "next_due (wk_rank wk) w = Some j"
  shows "tick_once wk w = process_job wk (start_job (db_now w) j) (claimed j w)"
proof -
  have "running_job (wk_rank wk) w = (Inr None, w)"
    using assms(1,3) by (simp add: running_job_def first_row_def order_by_def list_all_iff filter_False)
  moreover have "reset_sending_recipients (j_id j) (w\<lparr>blast_jobs := js\<rparr>) = (Inr (), w\<lparr>blast_jobs := js,
      blast_recipients := update_where (\<lambda>r. r_job_id r = j_id j \<and> r_status r = ''sending'')
       (\<lambda>r. r\<lparr>r_status := ''pending'', r_updated_at := db_now w\<rparr>) (blast_recipients w)\<rparr>)" for js
    using assms(1) by (simp add: reset_sending_recipients_def update_recipients_def db_bind_def db_return_def)
  ultimately show ?thesis
    by (simp add: tick_once_def claim_next_due_run [OF assms(1,2,4)] claimed_def)
qed

lemma claimed_facts:
  assumes "keys_ok w" and "db_faults w = []" and "next_due rank w = Some j"
  shows "keys_ok (claimed j w)" and "db_faults (claimed j w) = []"
    and "find_job (j_id j) (claimed j w) = Some (start_job (db_now w) j)"
proof -
  show k: "keys_ok (claimed j w)"
    using assms(1) by (simp add: keys_ok_def claimed_def map_update_where_key)
  show "db_faults (claimed j w) = []" using assms(2) by (simp add: claimed_def)
  have "start_job (db_now w) j \<in> set (blast_jobs (claimed j w))"
    using next_due_SomeD(1,2) [OF assms(3)] by (auto simp: claimed_def set_update_where due_def)
  then show "find_job (j_id j) (claimed j w) = Some (start_job (db_now w) j)" using k by (simp add: find_job_keys)
qed

end
