(* ===== verification/Blast_Facts.thy ===== *)
theory Blast_Facts
  imports Blast_Tick
begin

text \<open>
  What a tick guarantees that starts a job, and which recipients a tick that resumes one leaves
  behind.
\<close>

text \<open>A tick with no job in flight starts the oldest due job and runs it to its end: with nobody
  else writing to the blast tables and a database that answers, the tick returns, and by then
  every recipient of that job that was pending, or left in \<open>sending\<close> by an interrupted run, is
  delivered or dead-lettered, and the job is closed.\<close>

theorem tick_once_runs_oldest_due:
  fixes w :: "'w blast_world_scheme"
  assumes "undisturbed wk" and "db_faults w = []" and "keys_ok w"
    and "list_all (\<lambda>j. j_status j \<noteq> ''running'') (blast_jobs w)" and "next_due (wk_rank wk) w = Some j"
    and "parse_json (wk_libs wk) (j_body j) \<noteq> None"
  shows "due (db_now w) j \<and> (\<forall>i \<in> set (blast_jobs w). due (db_now w) i \<longrightarrow> j_created_at j \<le> j_created_at i) \<and>
    (\<exists>w' row'. tick_once wk w = Some (Inr (), w') \<and> find_job (j_id j) w' = Some row' \<and>
       j_status row' \<in> {''completed'', ''completed_with_failures''} \<and>
       list_all2 (\<lambda>r r'. r_recipient r' = r_recipient r \<and>
          (if r_job_id r = j_id j \<and> r_status r \<in> {''pending'', ''sending''}
           then r_status r' \<in> {''sent'', ''dlq''} else r' = r)) (blast_recipients w) (blast_recipients w'))"
proof -
  let ?row = "start_job (db_now w) j"
  note c = claimed_facts [OF assms(3,2,5)]
  have body: "parse_json (wk_libs wk) (j_body ?row) \<noteq> None" using assms(6) by simp
  obtain w' row' where run: "process_job wk ?row (claimed j w) = Some (Inr (), w')"
      "list_all2 (evolves (job_cap (wk_libs wk) ?row) (j_id j)) (blast_recipients (claimed j w)) (blast_recipients w')"
      "list_all (\<lambda>r. \<not> is_pending (j_id j) r) (blast_recipients w')" "find_job (j_id j) w' = Some row'"
      "j_status row' = (if j_dlq_count row' > 0 then ''completed_with_failures'' else ''completed'')"
    using process_job_run [OF assms(1) c(2,1), of ?row ?row] c(3) body by auto
  have "list_all2 (\<lambda>r r'. r_recipient r' = r_recipient r \<and>
          (if r_job_id r = j_id j \<and> r_status r \<in> {''pending'', ''sending''}
           then r_status r' \<in> {''sent'', ''dlq''} else r' = r)) (blast_recipients w) (blast_recipients w')"
  proof (rule list_all2_all_nthI)
    have "length (blast_recipients (claimed j w)) = length (blast_recipients w)" by (simp add: claimed_def)
    then show len: "length (blast_recipients w) = length (blast_recipients w')" using list_all2_lengthD [OF run(2)] by simp
    fix n assume n: "n < length (blast_recipients w)"
    let ?r = "blast_recipients w ! n" and ?r' = "blast_recipients w' ! n"
    have "evolves (job_cap (wk_libs wk) ?row) (j_id j)
        (if r_job_id ?r = j_id j \<and> r_status ?r = ''sending'' then ?r\<lparr>r_status := ''pending'', r_updated_at := db_now w\<rparr> else ?r) ?r'"
      using list_all2_nthD [OF run(2), of n] n by (simp add: claimed_def update_where_def)
    moreover have "\<not> is_pending (j_id j) ?r'" using run(3) n len by (simp add: list_all_length)
    ultimately show "r_recipient ?r' = r_recipient ?r \<and>
          (if r_job_id ?r = j_id j \<and> r_status ?r \<in> {''pending'', ''sending''}
           then r_status ?r' \<in> {''sent'', ''dlq''} else ?r' = ?r)"
      by (auto simp: evolves_def is_pending_def split: if_splits)
  qed
  moreover have "tick_once wk w = Some (Inr (), w')" using tick_once_claims [OF assms(2-5)] run(1) by simp
  ultimately show ?thesis using next_due_SomeD [OF assms(5)] run(4,5) by auto
qed

definition waiting_job :: blast_job where
  "waiting_job = new_job 1 ''j'' ''s'' ''text'' ''{}'' ''{}'' 2 0 None"

lemma waiting_job_due:
  "next_due (wk_rank quiet_worker) (blast_demo [waiting_job] rs) = Some waiting_job"
  by (simp add: next_due_def first_row_def order_by_def due_def waiting_job_def new_job_def blast_demo_def)

lemma blast_demo_keys: "keys_ok (blast_demo [j] demo_recipients)"
  by (simp add: keys_ok_def blast_demo_def demo_recipients_def new_recipient_def)

lemma tick_once_runs_oldest_due_witness:
  "\<exists>w'. tick_once quiet_worker (blast_demo [waiting_job] demo_recipients) = Some (Inr (), w')"
  using tick_once_runs_oldest_due [OF quiet_worker_undisturbed _ blast_demo_keys _ waiting_job_due]
  by (auto simp: blast_demo_def waiting_job_def new_job_def quiet_worker_def blast_demo_libs_def)

text \<open>C30. A job found running at the start of a tick, one the process was stopped in, is resumed
  without resetting its recipients: one that was being sent to when the process stopped is still
  in \<open>sending\<close>, neither sent nor dead-lettered, when the tick has run the job to its end and
  closed it, and no time makes the closed job due again. (A retry puts the job back in the queue,
  and the tick that then claims it returns the recipient to \<open>pending\<close>; a job without dead
  letters has nothing to retry.)\<close>

theorem resume_strands_sending:
  fixes w :: "'w blast_world_scheme"
  assumes "undisturbed wk" and "db_faults w = []" and "keys_ok w"
    and "running_job (wk_rank wk) w = (Inr (Some job), w)"
    and "parse_json (wk_libs wk) (j_body job) \<noteq> None"
    and "r \<in> set (blast_recipients w)" and "r_job_id r = j_id job" and "r_status r = ''sending''"
  shows "\<exists>w' row'. tick_once wk w = Some (Inr (), w') \<and> r \<in> set (blast_recipients w') \<and>
    find_job (j_id job) w' = Some row' \<and> j_status row' \<in> {''completed'', ''completed_with_failures''} \<and>
    (\<forall>t. \<not> due t row')"
proof -
  obtain q where "order_by start_key (wk_rank wk) (filter (\<lambda>j. j_status j = ''running'') (blast_jobs w)) = job # q"
    using assms(2,4) by (auto simp: running_job_def first_row_def split: list.splits)
  from arg_cong [where f = set, OF this] have job: "job \<in> set (blast_jobs w)" "j_status job = ''running''" by auto
  then have find: "find_job (j_id job) w = Some job" using assms(3) by (simp add: find_job_keys)
  obtain w' row' where run: "process_job wk job w = Some (Inr (), w')"
      "list_all2 (evolves (job_cap (wk_libs wk) job) (j_id job)) (blast_recipients w) (blast_recipients w')"
      "find_job (j_id job) w' = Some row'"
      "j_status row' = (if j_dlq_count row' > 0 then ''completed_with_failures'' else ''completed'')"
    using process_job_run [OF assms(1-3) find job(2) assms(5)] by blast
  obtain n where n: "n < length (blast_recipients w)" "blast_recipients w ! n = r"
    using assms(6) unfolding in_set_conv_nth by blast
  have "blast_recipients w' ! n = r"
    using list_all2_nthD [OF run(2) n(1)] n(2) assms(8) by (simp add: evolves_def is_pending_def)
  then have "r \<in> set (blast_recipients w')" using n(1) list_all2_lengthD [OF run(2)] by (metis nth_mem)
  moreover have "tick_once wk w = Some (Inr (), w')" using run(1) assms(4) by (simp add: tick_once_def)
  ultimately show ?thesis using run(3,4) by (auto simp: due_def)
qed

lemma resume_strands_sending_witness:
  "\<exists>w' row'. tick_once quiet_worker (blast_demo [blast_demo_job] [new_recipient 1 1 ''j'' ''s'' ''a'' ''sending'']) = Some (Inr (), w')
     \<and> new_recipient 1 1 ''j'' ''s'' ''a'' ''sending'' \<in> set (blast_recipients w')
     \<and> find_job ''j'' w' = Some row' \<and> j_status row' \<in> {''completed'', ''completed_with_failures''}"
  using resume_strands_sending [OF quiet_worker_undisturbed,
      of "blast_demo [blast_demo_job] [new_recipient 1 1 ''j'' ''s'' ''a'' ''sending'']" blast_demo_job
         "new_recipient 1 1 ''j'' ''s'' ''a'' ''sending''"]
  by (simp add: blast_demo_def blast_demo_job_def new_job_def new_recipient_def keys_ok_def running_job_def
      first_row_def order_by_def quiet_worker_def blast_demo_libs_def) blast

end
