(* ===== verification/Blast_Control.thy ===== *)
theory Blast_Control
  imports Blast_Facts
begin

text \<open>
  Cancelling and retrying a job, and what the order of the two inserts of a new job allows.
\<close>

lemma job_or_404_run:
  assumes "db_faults w = []"
  shows "job_or_404 sid jid w =
    ((case find (\<lambda>j. j_session_id j = sid \<and> j_id j = jid) (blast_jobs w) of
        None \<Rightarrow> Inl (MessageNotFound (''blast job '' @ jid)) | Some j \<Rightarrow> Inr j), w)"
  using assms by (auto simp: job_or_404_def get_job_scoped_def db_map_err_def db_bind_def split: option.splits)

lemma get_blast_run:
  assumes "db_faults w = []"
  shows "get_blast lib sid jid w =
    ((case find (\<lambda>j. j_session_id j = sid \<and> j_id j = jid) (blast_jobs w) of
        None \<Rightarrow> Inl (MessageNotFound (''blast job '' @ jid)) | Some j \<Rightarrow> Inr (job_to_model lib j)), w)"
  using assms by (auto simp: get_blast_def db_bind_def job_or_404_run split: option.splits)

lemma find_scoped:
  assumes "keys_ok w" and "find_job jid w = Some j" and "j_session_id j = sid"
  shows "find (\<lambda>j. j_session_id j = sid \<and> j_id j = jid) (blast_jobs w) = Some j"
proof -
  have j: "j \<in> set (blast_jobs w)" "j_id j = jid" using assms(1,2) by (simp_all add: find_job_keys)
  then obtain i where i: "find (\<lambda>j. j_session_id j = sid \<and> j_id j = jid) (blast_jobs w) = Some i"
    using assms(3) by (cases "find (\<lambda>j. j_session_id j = sid \<and> j_id j = jid) (blast_jobs w)") (auto simp: find_None_iff)
  then have "i \<in> set (blast_jobs w)" "j_id i = jid" by (auto simp: find_Some_iff)
  with i j job_eq [OF assms(1)] show ?thesis by metis
qed

lemma batch_loop_stops:
  assumes "db_faults w = []" and "find_job (j_id job) w = Some row" and "j_status row \<noteq> ''running''"
  shows "batch_loop wk o1 job cap k w = Some (Inr (), w)"
  using assms by (subst batch_loop.simps) (simp add: batch_step_def job_status_def db_bind_def db_return_def)

text \<open>C27. A cancelled blast sends nothing more. Cancelling a pending or running job of the session, on
  a database that answers, marks it cancelled and changes no recipient; and a worker in the
  middle of that job stops, without sending and without changing anything, at its next batch.\<close>

theorem cancel_blast_stops_worker:
  fixes w :: "'w blast_world_scheme"
  assumes "db_faults w = []" and "keys_ok w" and "find_job jid w = Some j" and "j_session_id j = sid"
    and "j_status j \<in> {''pending'', ''running''}"
  shows "\<exists>w'. cancel_blast lib sid jid w
       = (Inr (job_to_model lib (j\<lparr>j_status := ''cancelled'', j_finished_at := Some (db_now w)\<rparr>)), w') \<and>
     blast_recipients w' = blast_recipients w \<and>
     (\<forall>wk o1 job cap k. j_id job = jid \<longrightarrow> batch_loop wk o1 job cap k w' = Some (Inr (), w'))"
proof -
  let ?f = "\<lambda>j. j\<lparr>j_status := ''cancelled'', j_finished_at := Some (db_now w)\<rparr>"
  define w' where "w' = w\<lparr>blast_jobs := update_where (cancellable sid jid) ?f (blast_jobs w)\<rparr>"
  have scoped: "find (\<lambda>j. j_session_id j = sid \<and> j_id j = jid) (blast_jobs w) = Some j"
    by (rule find_scoped [OF assms(2-4)])
  have j: "j \<in> set (blast_jobs w)" "j_id j = jid" using assms(2,3) by (simp_all add: find_job_keys)
  have canc: "cancellable sid jid j" using j assms(4,5) by (simp add: cancellable_def)
  have change: "?f j \<noteq> j"
  proof
    assume "?f j = j"
    from arg_cong [where f = j_status, OF this] show False using assms(5) by auto
  qed
  have "0 < affected (db_driver w) (cancellable sid jid) ?f (blast_jobs w)"
    using j(1) canc change by (auto simp: affected_pos_iff)
  then have cancel: "cancel_job sid jid w = (Inr True, w')"
    using assms(1) by (simp add: cancel_job_def update_job_def db_bind_def db_return_def w'_def)
  have keys: "keys_ok w'" using assms(2) by (simp add: keys_ok_def w'_def map_update_where_key)
  have "?f j \<in> set (blast_jobs w')" using j(1) canc by (auto simp: w'_def set_update_where)
  then have found: "find_job jid w' = Some (?f j)" using keys j(2) by (simp add: find_job_keys)
  have scoped': "find (\<lambda>j. j_session_id j = sid \<and> j_id j = jid) (blast_jobs w') = Some (?f j)"
    by (rule find_scoped [OF keys found]) (simp add: assms(4))
  have faults: "db_faults w' = []" using assms(1) by (simp add: w'_def)
  have live: "\<not> job_is_terminal (job_status_from_str (j_status j))"
    using assms(5) by (auto simp: job_status_from_str_def)
  have "cancel_blast lib sid jid w = (Inr (job_to_model lib (?f j)), w')"
    using live cancel scoped scoped' assms(1) faults
    by (simp add: cancel_blast_def db_bind_def job_or_404_run get_blast_run db_map_err_def)
  moreover have "batch_loop wk o1 job cap k w' = Some (Inr (), w')" if "j_id job = jid" for wk o1 job cap k
    using that found faults by (intro batch_loop_stops [where row = "?f j"]) simp_all
  moreover have "blast_recipients w' = blast_recipients w" by (simp add: w'_def)
  ultimately show ?thesis by (intro exI [of _ w']) blast
qed

lemma cancel_blast_stops_worker_witness:
  "\<exists>w'. fst (cancel_blast demo_libs ''s'' ''j'' (blast_demo [waiting_job] demo_recipients)) = Inr w' \<and> jv_status w' = JobCancelled"
  using cancel_blast_stops_worker [OF _ blast_demo_keys, of waiting_job "''j''" waiting_job "''s''" demo_libs]
  by (auto simp: blast_demo_def waiting_job_def new_job_def find_job_def job_to_model_def job_status_from_str_def)

section \<open>Retry\<close>

definition requeued :: "string \<Rightarrow> 'w blast_world_scheme \<Rightarrow> 'w blast_world_scheme" where
  "requeued jid w = w\<lparr>blast_recipients := update_where (retryable jid)
     (\<lambda>r. r\<lparr>r_status := ''pending'', r_attempts := 0, r_last_error := None, r_updated_at := db_now w\<rparr>) (blast_recipients w),
   blast_jobs := update_where (\<lambda>j. j_id j = jid \<and> j_status j \<noteq> ''running'')
     (\<lambda>j. j\<lparr>j_status := ''pending'', j_finished_at := None\<rparr>) (blast_jobs w)\<rparr>"

lemma first_row_single: "set xs = {x} \<Longrightarrow> first_row xs = Some x"
  by (cases xs) (auto simp: first_row_def)

lemma tally_zero: "(\<And>r. r \<in> set rows \<Longrightarrow> g r = 0) \<Longrightarrow> tally g rows = 0"
  by (induction rows) (simp_all add: tally_def)

lemma tally_update_same: "(\<And>r. P r \<Longrightarrow> g (f r) = g r) \<Longrightarrow> tally g (update_where P f rows) = tally g rows"
  by (induction rows) (simp_all add: tally_def)

lemma retry_blast_run:
  assumes "db_faults w = []" and "keys_ok w" and "find_job jid w = Some j" and "j_session_id j = sid"
    and "j_status j \<noteq> ''running''" and "r \<in> set (blast_recipients w)" and "retryable jid r"
  shows "retry_blast lib sid jid w
      = (Inr (job_to_model lib (j\<lparr>j_status := ''pending'', j_finished_at := None\<rparr>)), requeued jid w)"
    and "keys_ok (requeued jid w)" and "db_faults (requeued jid w) = []"
    and "find_job jid (requeued jid w) = Some (j\<lparr>j_status := ''pending'', j_finished_at := None\<rparr>)"
proof -
  let ?g = "\<lambda>r :: blast_recipient. r\<lparr>r_status := ''pending'', r_attempts := 0, r_last_error := None, r_updated_at := db_now w\<rparr>"
  let ?f = "\<lambda>j :: blast_job. j\<lparr>j_status := ''pending'', j_finished_at := None\<rparr>"
  have j: "j \<in> set (blast_jobs w)" "j_id j = jid" using assms(2,3) by (simp_all add: find_job_keys)
  show keys: "keys_ok (requeued jid w)" using assms(2) by (simp add: keys_ok_def requeued_def map_update_where_key)
  have "?f j \<in> set (blast_jobs (requeued jid w))" using j assms(5) by (auto simp: requeued_def set_update_where)
  then show found: "find_job jid (requeued jid w) = Some (?f j)" using keys j(2) by (simp add: find_job_keys)
  show faults: "db_faults (requeued jid w) = []" using assms(1) by (simp add: requeued_def)
  have "?g r \<noteq> r"
  proof
    assume "?g r = r"
    from arg_cong [where f = r_status, OF this] show False using assms(7) by (auto simp: retryable_def)
  qed
  then have "0 < affected (db_driver w) (retryable jid) ?g (blast_recipients w)"
    using assms(6,7) by (auto simp: affected_pos_iff)
  then have "requeue_failed jid w = (Inr (affected (db_driver w) (retryable jid) ?g (blast_recipients w)),
      w\<lparr>blast_recipients := update_where (retryable jid) ?g (blast_recipients w)\<rparr>)"
    "affected (db_driver w) (retryable jid) ?g (blast_recipients w) \<noteq> 0"
    using assms(1) by (simp_all add: requeue_failed_def update_recipients_def)
  moreover have "reopen_job jid (w\<lparr>blast_recipients := update_where (retryable jid) ?g (blast_recipients w)\<rparr>) = (Inr (), requeued jid w)"
    using assms(1) by (simp add: reopen_job_def update_job_def db_bind_def db_return_def requeued_def)
  ultimately show "retry_blast lib sid jid w = (Inr (job_to_model lib (?f j)), requeued jid w)"
    using find_scoped [OF assms(2-4)] find_scoped [OF keys found] assms(1,4,5) faults
    by (simp add: retry_blast_def db_bind_def job_or_404_run get_blast_run db_map_err_def)
qed

text \<open>Retrying a job does not reset its count of dead letters. Take a job that is not running,
  has counted dead letters and has a dead-lettered recipient, with no other job in flight or
  due: the retry succeeds and puts the recipient back to pending; but when the next tick has
  run the job to its end, the job is closed as completed-with-failures whatever the sends
  answered, even when every recipient was delivered.\<close>

theorem retry_keeps_failure_verdict:
  fixes w :: "'w blast_world_scheme"
  assumes "undisturbed wk" and "db_faults w = []" and "keys_ok w"
    and "find_job jid w = Some j" and "j_session_id j = sid" and "0 < j_dlq_count j"
    and "list_all (\<lambda>i. i \<noteq> j \<longrightarrow> j_status i \<notin> {''pending'', ''running''}) (blast_jobs w)" and "j_status j \<noteq> ''running''"
    and "case j_send_at j of None \<Rightarrow> True | Some t \<Rightarrow> t \<le> db_now w"
    and "r \<in> set (blast_recipients w)" and "r_job_id r = jid" and "r_status r = ''dlq''"
    and "parse_json (wk_libs wk) (j_body j) \<noteq> None"
  shows "\<exists>w1 w2 row. snd (retry_blast lib sid jid w) = w1 \<and> isl (fst (retry_blast lib sid jid w)) = False \<and>
    tally (dlq_of jid) (blast_recipients w1) = 0 \<and>
    tick_once wk w1 = Some (Inr (), w2) \<and> find_job jid w2 = Some row \<and> j_status row = ''completed_with_failures''"
proof -
  let ?j = "j\<lparr>j_status := ''pending'', j_finished_at := None\<rparr>"
  let ?w = "requeued jid w"
  have "retryable jid r" using assms(11,12) by (simp add: retryable_def)
  note retry = retry_blast_run [OF assms(2-5,8,10) this]
  have jin: "j \<in> set (blast_jobs w)" "j_id j = jid" using assms(3,4) by (simp_all add: find_job_keys)
  have rest: "i = ?j \<or> j_status i \<notin> {''pending'', ''running''}" if "i \<in> set (blast_jobs ?w)" for i
  proof -
    obtain i0 where i0: "i0 \<in> set (blast_jobs w)" "i = (if j_id i0 = jid \<and> j_status i0 \<noteq> ''running''
        then i0\<lparr>j_status := ''pending'', j_finished_at := None\<rparr> else i0)"
      using \<open>i \<in> _\<close> by (auto simp: requeued_def update_where_def)
    show ?thesis
    proof (cases "i0 = j")
      case True
      then show ?thesis using i0(2) jin(2) assms(8) by simp
    next
      case False
      then have "j_id i0 \<noteq> jid" using job_eq [OF assms(3) i0(1) jin(1)] jin(2) by auto
      with False i0 assms(7) show ?thesis by (auto simp: list_all_iff)
    qed
  qed
  have jin': "?j \<in> set (blast_jobs ?w)" using retry(2,4) by (simp add: find_job_keys)
  have "due (db_now w) ?j" using assms(9) by (simp add: due_def)
  then have dues: "{i \<in> set (blast_jobs ?w). due (db_now w) i} = {?j}"
    using rest jin' by (auto simp: due_def)
  have "set (order_by j_created_at (wk_rank wk) (filter (due (db_now w)) (blast_jobs ?w))) = {?j}"
    using dues by simp
  moreover have now: "db_now ?w = db_now w" by (simp add: requeued_def)
  ultimately have nextj: "next_due (wk_rank wk) ?w = Some ?j"
    unfolding next_due_def now by (intro first_row_single) simp
  have idle: "list_all (\<lambda>j. j_status j \<noteq> ''running'') (blast_jobs ?w)"
    using rest by (force simp: list_all_iff)
  have tick: "tick_once wk ?w = process_job wk (start_job (db_now w) ?j) (claimed ?j ?w)"
    using tick_once_claims [OF retry(3,2) idle nextj] now by simp
  note c = claimed_facts [OF retry(2,3) nextj]
  have body: "parse_json (wk_libs wk) (j_body (start_job (db_now w) ?j)) \<noteq> None" using assms(13) by simp
  have jobid: "j_id ?j = jid" using jin(2) by simp
  let ?row = "start_job (db_now w) ?j"
  have find: "find_job (j_id ?row) (claimed ?j ?w) = Some ?row" using c(3) now by simp
  have "j_status ?row = ''running''" by simp
  from process_job_run [OF assms(1) c(2,1) find this body]
  obtain w2 row where "process_job wk ?row (claimed ?j ?w) = Some (Inr (), w2)" "find_job (j_id ?row) w2 = Some row"
      "j_dlq_count row - j_dlq_count ?row
        = tally (dlq_of (j_id ?row)) (blast_recipients w2) - tally (dlq_of (j_id ?row)) (blast_recipients (claimed ?j ?w))"
      "j_status row = (if j_dlq_count row > 0 then ''completed_with_failures'' else ''completed'')"
    by blast
  then have run: "process_job wk ?row (claimed ?j ?w) = Some (Inr (), w2)" "find_job jid w2 = Some row"
      "j_dlq_count row - j_dlq_count j = tally (dlq_of jid) (blast_recipients w2) - tally (dlq_of jid) (blast_recipients (claimed ?j ?w))"
      "j_status row = (if j_dlq_count row > 0 then ''completed_with_failures'' else ''completed'')"
    by (simp_all add: jin(2))
  have none: "tally (dlq_of jid) (blast_recipients ?w) = 0"
  proof (rule tally_zero)
    fix r' assume "r' \<in> set (blast_recipients ?w)"
    then have "r' \<in> set (update_where (retryable jid)
        (\<lambda>r. r\<lparr>r_status := ''pending'', r_attempts := 0, r_last_error := None, r_updated_at := db_now w\<rparr>) (blast_recipients w))"
      by (simp add: requeued_def)
    then obtain r0 where r': "r' = (if retryable jid r0
        then r0\<lparr>r_status := ''pending'', r_attempts := 0, r_last_error := None, r_updated_at := db_now w\<rparr> else r0)"
      by (rule update_whereE)
    show "dlq_of jid r' = 0"
      by (cases "retryable jid r0") (simp_all add: r' retryable_def dlq_of_def of_flag_def)
  qed
  have same: "tally (dlq_of jid) (blast_recipients (claimed ?j ?w)) = tally (dlq_of jid) (blast_recipients ?w)"
    unfolding claimed_def by (simp add: tally_update_same dlq_of_def of_flag_def)
  have "0 \<le> tally (dlq_of jid) (blast_recipients w2)"
    unfolding tally_def by (rule sum_list_nonneg) (auto simp: dlq_of_def of_flag_def)
  with run(3) same none assms(6) have "0 < j_dlq_count row" by linarith
  with run(1,2,4) tick retry(1) none show ?thesis by (intro exI [of _ ?w] exI [of _ w2] exI [of _ row]) simp
qed

definition failed_job :: blast_job where
  "failed_job = waiting_job\<lparr>j_status := ''completed_with_failures'', j_dlq_count := 1, j_failed_count := 3\<rparr>"

lemma retry_keeps_failure_verdict_witness:
  "\<exists>w2 row. tick_once quiet_worker
       (snd (retry_blast demo_libs ''s'' ''j'' (blast_demo [failed_job] [new_recipient 1 1 ''j'' ''s'' ''a'' ''dlq'']))) = Some (Inr (), w2)
     \<and> find_job ''j'' w2 = Some row \<and> j_status row = ''completed_with_failures''"
proof -
  let ?w = "blast_demo [failed_job] [new_recipient 1 1 ''j'' ''s'' ''a'' ''dlq'']"
  have k: "keys_ok ?w" by (simp add: keys_ok_def blast_demo_def)
  have f: "find_job ''j'' ?w = Some failed_job"
    by (simp add: find_job_def blast_demo_def failed_job_def waiting_job_def new_job_def)
  show ?thesis
    using retry_keeps_failure_verdict [OF quiet_worker_undisturbed _ k f, of "''s''" "new_recipient 1 1 ''j'' ''s'' ''a'' ''dlq''" demo_libs]
    by (auto simp: blast_demo_def failed_job_def waiting_job_def new_job_def new_recipient_def quiet_worker_def blast_demo_libs_def)
qed

section \<open>The two inserts of a new job\<close>

lemma insert_recipients_jobs:
  "blast_jobs (snd (insert_recipients jid sid rows w)) = blast_jobs w"
proof (induction rows arbitrary: w)
  case (Cons row rows)
  obtain recipient status where row: "row = (recipient, status)" by (cases row)
  obtain a w1 where ins: "insert_recipient jid sid recipient status w = (a, w1)" by fastforce
  have "blast_jobs w1 = blast_jobs w"
    using ins by (auto simp: insert_recipient_def db_stmt_def split: list.splits option.splits if_splits)
  then show ?case using ins Cons.IH [of w1] by (cases a) (simp_all add: row db_bind_def)
qed (simp add: db_return_def)

text \<open>The job row of a blast is committed before its recipients, in separate statements. A tick
  that falls between finds a due job without recipients and closes it as completed; the
  recipients inserted after that belong to a finished job, which no later tick picks up: they
  stay pending though the client was told the blast was created.\<close>

theorem early_tick_strands_recipients:
  fixes w :: "'w blast_world_scheme"
  assumes "undisturbed wk" and "db_faults w = []" and "keys_ok w"
    and "list_all (\<lambda>j. j_status j \<noteq> ''running'') (blast_jobs w)" and "next_due (wk_rank wk) w = Some j"
    and "parse_json (wk_libs wk) (j_body j) \<noteq> None" and "j_dlq_count j = 0"
    and "\<And>r. r \<in> set (blast_recipients w) \<Longrightarrow> r_job_id r \<noteq> j_id j"
  shows "\<exists>w1. tick_once wk w = Some (Inr (), w1) \<and> map_option j_status (find_job (j_id j) w1) = Some ''completed'' \<and>
    (\<forall>sid rows rank i. next_due rank (snd (insert_recipients (j_id j) sid rows w1)) = Some i \<longrightarrow> j_id i \<noteq> j_id j)"
proof -
  let ?row = "start_job (db_now w) j"
  note c = claimed_facts [OF assms(3,2,5)]
  have find: "find_job (j_id ?row) (claimed j w) = Some ?row" using c(3) by simp
  have body: "parse_json (wk_libs wk) (j_body ?row) \<noteq> None" using assms(6) by simp
  have "j_status ?row = ''running''" by simp
  from process_job_run [OF assms(1) c(2,1) find this body]
  obtain w1 row where "process_job wk ?row (claimed j w) = Some (Inr (), w1)" "find_job (j_id ?row) w1 = Some row"
      "list_all2 (evolves (job_cap (wk_libs wk) ?row) (j_id ?row)) (blast_recipients (claimed j w)) (blast_recipients w1)"
      "j_dlq_count row - j_dlq_count ?row
        = tally (dlq_of (j_id ?row)) (blast_recipients w1) - tally (dlq_of (j_id ?row)) (blast_recipients (claimed j w))"
      "j_status row = (if j_dlq_count row > 0 then ''completed_with_failures'' else ''completed'')"
      "keys_ok w1"
    by blast
  then have run: "process_job wk ?row (claimed j w) = Some (Inr (), w1)" "find_job (j_id j) w1 = Some row"
      "list_all2 (evolves (job_cap (wk_libs wk) ?row) (j_id j)) (blast_recipients (claimed j w)) (blast_recipients w1)"
      "j_dlq_count row = tally (dlq_of (j_id j)) (blast_recipients w1) - tally (dlq_of (j_id j)) (blast_recipients (claimed j w))"
      "j_status row = (if j_dlq_count row > 0 then ''completed_with_failures'' else ''completed'')"
      "keys_ok w1"
    by (simp_all add: assms(7))
  have "update_where (\<lambda>r. r_job_id r = j_id j \<and> r_status r = ''sending'') f (blast_recipients w) = blast_recipients w" for f
    unfolding update_where_def using assms(8) by (intro map_idI) auto
  then have "blast_recipients (claimed j w) = blast_recipients w" by (simp add: claimed_def)
  moreover have "blast_recipients w1 = blast_recipients (claimed j w)"
  proof (rule nth_equalityI)
    show "length (blast_recipients w1) = length (blast_recipients (claimed j w))" using list_all2_lengthD [OF run(3)] by simp
    fix n assume n: "n < length (blast_recipients w1)"
    then have "n < length (blast_recipients (claimed j w))" using list_all2_lengthD [OF run(3)] by simp
    with list_all2_nthD [OF run(3) this] assms(8) calculation
    show "blast_recipients w1 ! n = blast_recipients (claimed j w) ! n"
      by (auto simp: evolves_def is_pending_def dest!: nth_mem)
  qed
  ultimately have st: "j_status row = ''completed''" using run(4,5) by simp
  have "j_id i \<noteq> j_id j" if "next_due rank (snd (insert_recipients (j_id j) sid rows w1)) = Some i" for sid rows rank i
  proof
    assume eq: "j_id i = j_id j"
    have i: "i \<in> set (blast_jobs w1)" "j_status i = ''pending''"
      using next_due_SomeD(1,2) [OF that] by (simp_all add: insert_recipients_jobs due_def)
    then have "find_job (j_id j) w1 = Some i" using run(6) eq by (simp add: find_job_keys)
    with run(2) st i(2) show False by simp
  qed
  moreover have "tick_once wk w = Some (Inr (), w1)" using tick_once_claims [OF assms(2-5)] run(1) by simp
  ultimately show ?thesis using run(2) st by (intro exI [of _ w1]) simp
qed

lemma early_tick_strands_recipients_witness:
  "\<exists>w1. tick_once quiet_worker (blast_demo [waiting_job] []) = Some (Inr (), w1)
     \<and> map_option j_status (find_job ''j'' w1) = Some ''completed''"
proof -
  have k: "keys_ok (blast_demo [waiting_job] [])" by (simp add: keys_ok_def blast_demo_def)
  show ?thesis
    using early_tick_strands_recipients [OF quiet_worker_undisturbed _ k _ waiting_job_due]
    by (auto simp: blast_demo_def waiting_job_def new_job_def quiet_worker_def blast_demo_libs_def)
qed

end
