(* ===== verification/Blast_Create.thy ===== *)
theory Blast_Create
  imports Blast_Api
begin

text \<open>
  Creating a blast job: the recipients accepted and skipped add up, the chunked look-up of
  the recipients already sent to is one look-up, and what the tables hold afterwards.
\<close>

section \<open>The chunked look-up\<close>

lemma concat_chunks: "0 < n \<Longrightarrow> concat (chunks n xs) = xs"
proof (induction n xs rule: chunks.induct)
  case (1 n xs)
  then show ?case by (subst chunks.simps) auto
qed

lemma chunks_length: "c \<in> set (chunks n xs) \<Longrightarrow> length c \<le> n"
proof (induction n xs rule: chunks.induct)
  case (1 n xs)
  from 1(2) show ?case
    by (subst (asm) chunks.simps) (auto split: if_splits intro: 1(1))
qed

definition sent_set :: "string \<Rightarrow> 'w blast_world_scheme \<Rightarrow> string set" where
  "sent_set sid w = {r_recipient r | r. r \<in> set (blast_recipients w) \<and> r_session_id r = sid \<and> r_status r = ''sent''}"

lemma set_sent_among: "set (sent_among sid cands w) = set cands \<inter> sent_set sid w"
  by (auto simp: sent_among_def sent_set_def)

lemma already_sent_chunks_run:
  "db_faults w = [] \<Longrightarrow> already_sent_chunks sid css out w = (Inr (out \<union> (set (concat css) \<inter> sent_set sid w)), w)"
proof (induction css arbitrary: out)
  case (Cons c css)
  then show ?case by (simp add: db_bind_def set_sent_among) blast
qed (simp add: db_return_def)

text \<open>\<open>already_sent\<close> asks in groups of at most 500 recipients; on a database that answers the
  union of the answers is what one look-up of all candidates would give: exactly the
  candidates some recipient row of the session records as sent. The state does not change.\<close>

theorem already_sent_unchunked:
  assumes "db_faults w = []"
  shows "already_sent sid candidates w = (Inr (set (sent_among sid candidates w)), w) \<and>
    (\<forall>c \<in> set (chunks 500 candidates). length c \<le> 500)"
  using assms by (simp add: already_sent_def already_sent_chunks_run concat_chunks set_sent_among chunks_length)

section \<open>The recipients of a request\<close>

definition canonicals :: "jid_lib \<Rightarrow> string list \<Rightarrow> string list" where
  "canonicals jl raws = concat (map (\<lambda>raw. case parse_jid jl raw of Inr c \<Rightarrow> [c] | Inl _ \<Rightarrow> []) raws)"

lemma scan_recipients_props:
  assumes "distinct (sc_seen sc)"
  shows "distinct (sc_seen (scan_recipients jl raws sc)) \<and>
    set (sc_seen (scan_recipients jl raws sc)) = set (sc_seen sc) \<union> set (canonicals jl raws) \<and>
    length (sc_seen (scan_recipients jl raws sc)) + sc_skipped (scan_recipients jl raws sc) + length (sc_bad (scan_recipients jl raws sc))
      = length (sc_seen sc) + sc_skipped sc + length (sc_bad sc) + length raws"
  using assms
proof (induction raws arbitrary: sc)
  case (Cons raw raws)
  show ?case
  proof (cases "parse_jid jl raw")
    case (Inl e)
    then show ?thesis using Cons.IH [of "sc\<lparr>sc_bad := sc_bad sc @ [raw]\<rparr>"] Cons.prems by (simp add: canonicals_def)
  next
    case (Inr c)
    show ?thesis
      using Inr Cons.IH [of "sc\<lparr>sc_skipped := sc_skipped sc + 1\<rparr>"] Cons.IH [of "sc\<lparr>sc_seen := sc_seen sc @ [c]\<rparr>"] Cons.prems
      by (auto simp: canonicals_def)
  qed
qed (simp add: canonicals_def)

section \<open>The rows\<close>

definition rows_of :: "string \<Rightarrow> 'w blast_world_scheme \<Rightarrow> (string \<times> string) list" where
  "rows_of jid w = map (\<lambda>r. (r_recipient r, r_status r)) (filter (\<lambda>r. r_job_id r = jid) (blast_recipients w))"

lemma insert_recipients_run:
  assumes "db_faults w = []" and "distinct (map fst (rows_of jid w) @ map fst rows)"
  shows "\<exists>w'. insert_recipients jid sid rows w = (Inr (), w') \<and> db_faults w' = [] \<and> blast_jobs w' = blast_jobs w \<and>
    rows_of jid w' = rows_of jid w @ rows \<and>
    filter (\<lambda>r. r_job_id r \<noteq> jid) (blast_recipients w') = filter (\<lambda>r. r_job_id r \<noteq> jid) (blast_recipients w)"
  using assms
proof (induction rows arbitrary: w)
  case (Cons row rows)
  obtain recipient status where row: "row = (recipient, status)" by (cases row)
  have fresh: "\<not> list_ex (\<lambda>r. r_job_id r = jid \<and> r_recipient r = recipient) (blast_recipients w)"
    using Cons.prems(2) by (auto simp: row rows_of_def list_ex_iff)
  define w1 where "w1 = w\<lparr>blast_recipients := blast_recipients w @
      [new_recipient (db_now w) (next_recipient_id (blast_recipients w)) jid sid recipient status]\<rparr>"
  have ins: "insert_recipient jid sid recipient status w = (Inr (), w1)"
    using Cons.prems(1) fresh by (simp add: insert_recipient_def w1_def)
  have rows1: "rows_of jid w1 = rows_of jid w @ [row]" by (simp add: rows_of_def w1_def new_recipient_def row)
  then have "distinct (map fst (rows_of jid w1) @ map fst rows)" using Cons.prems(2) by simp
  moreover have "db_faults w1 = []" using Cons.prems(1) by (simp add: w1_def)
  ultimately obtain w' where "insert_recipients jid sid rows w1 = (Inr (), w') \<and> db_faults w' = [] \<and> blast_jobs w' = blast_jobs w1 \<and>
    rows_of jid w' = rows_of jid w1 @ rows \<and>
    filter (\<lambda>r. r_job_id r \<noteq> jid) (blast_recipients w') = filter (\<lambda>r. r_job_id r \<noteq> jid) (blast_recipients w1)"
    using Cons.IH by blast
  then show ?case
    using ins rows1 by (intro exI [of _ w']) (simp add: row db_bind_def, simp add: w1_def new_recipient_def)
qed (simp add: db_return_def)

text \<open>How a \<open>HashSet\<close> may be walked.\<close>

definition walk_ok :: "('req, 'v) blast_env \<Rightarrow> bool" where
  "walk_ok env \<longleftrightarrow> (\<forall>xs. distinct xs \<longrightarrow> set (be_walk env xs) = set xs \<and> distinct (be_walk env xs))"

text \<open>Creating a blast, on a database that answers and under a job id not yet in use. A refused
  request leaves both tables as they were. An accepted one adds one pending job, and recipient
  rows under its id only: the accepted recipients as pending, in the order of the request and
  each once, and those left out by the look-up as \<open>skipped_dup\<close>; together these are the
  canonical JIDs of the request. Accepted and skipped add up to the number of recipients
  given, the job's counters say the same, and with \<open>dedup_across_jobs\<close> no accepted recipient
  was already sent to in the session.\<close>

theorem create_blast_accounting:
  fixes w :: "'w blast_world_scheme"
  assumes "db_faults w = []" and "find_job uuid w = None"
    and "\<And>r. r \<in> set (blast_recipients w) \<Longrightarrow> r_job_id r \<noteq> uuid" and "walk_ok env"
  shows "(case create_blast env uuid sid request w of
      (Inl e, w') \<Rightarrow> blast_jobs w' = blast_jobs w \<and> blast_recipients w' = blast_recipients w
    | (Inr resp, w') \<Rightarrow>
        cr_total resp + cr_skipped_dup resp = length (cb_recipients request) \<and>
        (\<exists>job accepted dups. blast_jobs w' = blast_jobs w @ [job] \<and> j_id job = uuid \<and> j_session_id job = sid \<and>
           j_status job = ''pending'' \<and> j_total job = int (cr_total resp) \<and> j_skipped_dup_count job = int (cr_skipped_dup resp) \<and>
           length accepted = cr_total resp \<and> distinct (accepted @ dups) \<and>
           set (accepted @ dups) = set (canonicals (be_jids env) (cb_recipients request)) \<and>
           rows_of uuid w' = map (\<lambda>r. (r, ''pending'')) accepted @ map (\<lambda>r. (r, ''skipped_dup'')) dups \<and>
           (dedup_across_jobs (request_options request) \<longrightarrow> set accepted \<inter> sent_set sid w = {}) \<and>
           filter (\<lambda>r. r_job_id r \<noteq> uuid) (blast_recipients w') = blast_recipients w))"
proof -
  define sc where "sc = scan_recipients (be_jids env) (cb_recipients request) \<lparr> sc_bad = [], sc_seen = [], sc_skipped = 0 \<rparr>"
  define o1 where "o1 = request_options request"
  consider (refused) "\<exists>e. create_blast env uuid sid request w = (Inl e, w)"
    | (go) "dm_get (gw_sessions w) sid \<noteq> None" "validate_body (be_endpoints env) (cb_endpoint request) (cb_body request) = Inr ()"
        "cb_recipients request \<noteq> []" "sc_bad sc = []"
    by (cases "dm_get (gw_sessions w) sid = None"; cases "validate_body (be_endpoints env) (cb_endpoint request) (cb_body request)";
        cases "cb_recipients request = []"; cases "sc_bad sc = []")
      (auto simp: create_blast_def sc_def Let_def)
  then show ?thesis
  proof cases
    case refused
    then show ?thesis by auto
  next
    case go
    define accepted where "accepted = (if dedup_across_jobs o1 then filter (\<lambda>r. r \<notin> set (sc_seen sc) \<inter> sent_set sid w) (sc_seen sc) else sc_seen sc)"
    define dups where "dups = filter (\<lambda>r. r \<notin> set accepted) (be_walk env (sc_seen sc))"
    define nskip where "nskip = sc_skipped sc + (length (sc_seen sc) - length accepted)"
    have scan: "distinct (sc_seen sc)" "set (sc_seen sc) = set (canonicals (be_jids env) (cb_recipients request))"
      "length (sc_seen sc) + sc_skipped sc = length (cb_recipients request)"
      using scan_recipients_props [of "\<lparr> sc_bad = [], sc_seen = [], sc_skipped = 0 \<rparr>" "be_jids env" "cb_recipients request"] go(4)
      by (simp_all add: sc_def)
    have dedup: "dedup_recipients sid o1 (sc_seen sc) w = (Inr accepted, w)"
      using assms(1) by (cases "sc_seen sc = []")
        (auto simp: dedup_recipients_def accepted_def db_bind_def db_map_err_def already_sent_def already_sent_chunks_run concat_chunks)
    have acc: "distinct accepted" "set accepted \<subseteq> set (sc_seen sc)" "length accepted \<le> length (sc_seen sc)"
      using scan(1) by (auto simp: accepted_def)
    have walk: "set (be_walk env (sc_seen sc)) = set (sc_seen sc)" "distinct (be_walk env (sc_seen sc))"
      using assms(4) scan(1) by (auto simp: walk_ok_def)
    have both: "distinct (accepted @ dups)" "set (accepted @ dups) = set (sc_seen sc)"
      using acc walk by (auto simp: dups_def)
    define job where "job = new_job (db_now w) uuid sid (cb_endpoint request) (print_json (be_libs env) (cb_body request))
        (print_json (be_libs env) (options_to_json o1)) (int (length accepted)) (int nskip) (cb_send_at request)"
    define w1 where "w1 = w\<lparr>blast_jobs := blast_jobs w @ [job]\<rparr>"
    have ins: "insert_job uuid sid (cb_endpoint request) (print_json (be_libs env) (cb_body request))
        (print_json (be_libs env) (options_to_json o1)) (int (length accepted)) (int nskip) (cb_send_at request) w = (Inr (), w1)"
      using assms(1,2) by (simp add: insert_job_def db_insert_def db_bind_def db_return_def w1_def job_def)
    define rows where "rows = recipient_rows (be_walk env) accepted (sc_seen sc)"
    have rows: "rows = map (\<lambda>r. (r, ''pending'')) accepted @ map (\<lambda>r. (r, ''skipped_dup'')) dups"
      by (simp add: rows_def recipient_rows_def dups_def)
    have empty: "rows_of uuid w1 = []" using assms(3) by (auto simp: rows_of_def w1_def filter_empty_conv)
    have "map fst rows = accepted @ dups" by (simp add: rows comp_def)
    then have dist: "distinct (map fst (rows_of uuid w1) @ map fst rows)" using empty both(1) by simp
    have "db_faults w1 = []" using assms(1) by (simp add: w1_def)
    from insert_recipients_run [OF this dist, of sid] obtain w' where
      insr: "insert_recipients uuid sid rows w1 = (Inr (), w')" and w': "blast_jobs w' = blast_jobs w1"
        "rows_of uuid w' = rows_of uuid w1 @ rows"
        "filter (\<lambda>r. r_job_id r \<noteq> uuid) (blast_recipients w') = filter (\<lambda>r. r_job_id r \<noteq> uuid) (blast_recipients w1)"
      by blast
    let ?ins = "insert_job uuid sid (cb_endpoint request) (print_json (be_libs env) (cb_body request))
        (print_json (be_libs env) (options_to_json o1)) (int (length accepted)) (int nskip) (cb_send_at request)"
    have dedup_step: "db_bind (dedup_recipients sid o1 (sc_seen sc)) cont w = cont accepted w" for cont :: "_ \<Rightarrow> ('w, create_blast_response) blast_handler"
      using dedup by (rule db_bind_simps)
    have ins_step: "db_bind (db_map_err g ?ins) cont w = cont () w1" for g and cont :: "_ \<Rightarrow> ('w, create_blast_response) blast_handler"
      by (rule db_bind_simps, rule db_map_err_run, rule ins)
    have rows_step: "db_bind (db_map_err g (insert_recipients uuid sid rows)) cont w1 = cont () w'"
      for g and cont :: "_ \<Rightarrow> ('w, create_blast_response) blast_handler"
      by (rule db_bind_simps, rule db_map_err_run, rule insr)
    have run: "create_blast env uuid sid request w
        = (Inr \<lparr> cr_job_id = uuid, cr_total = length accepted, cr_skipped_dup = nskip, cr_status = ''pending'' \<rparr>, w')"
      using go
      by (simp add: create_blast_def sc_def [symmetric] o1_def [symmetric] Let_def dedup_step
          nskip_def [symmetric] rows_def [symmetric] ins_step rows_step del: of_nat_add)
    have "filter (\<lambda>r. r_job_id r \<noteq> uuid) (blast_recipients w) = blast_recipients w" using assms(3) by (simp add: filter_id_conv)
    moreover have "dedup_across_jobs o1 \<longrightarrow> set accepted \<inter> sent_set sid w = {}" by (auto simp: accepted_def)
    moreover have "length accepted + nskip = length (cb_recipients request)" using acc(3) scan(3) by (simp add: nskip_def)
    moreover have "blast_jobs w' = blast_jobs w @ [job]" "blast_recipients w1 = blast_recipients w"
      using w'(1) by (simp_all add: w1_def)
    moreover have "j_id job = uuid" "j_session_id job = sid" "j_status job = ''pending''"
      "j_total job = int (length accepted)" "j_skipped_dup_count job = int nskip"
      by (simp_all add: job_def new_job_def)
    ultimately show ?thesis
      unfolding run prod.case sum.case o1_def [symmetric]
      by (intro conjI exI [of _ job] exI [of _ accepted] exI [of _ dups]) (use both w' empty scan(2) rows in simp_all)
  qed
qed

definition demo_blast_env :: "(string, nat) blast_env" where
  "demo_blast_env = \<lparr> be_libs = demo_libs, be_jids = \<lparr> jid_parse = Some, jid_pn = (\<lambda>d. d) \<rparr>,
     be_endpoints = echo_endpoints, be_walk = (\<lambda>xs. xs) \<rparr>"

definition demo_blast_request :: create_blast_request where
  "demo_blast_request = \<lparr> cb_endpoint = ''text'', cb_body = JNull, cb_recipients = [''1'', ''2'', ''1''],
     cb_delay_ms = None, cb_jitter_ms = None, cb_max_attempts = None, cb_dedup_across_jobs = None, cb_send_at = None \<rparr>"

definition blast_world_with :: "session_state dash \<Rightarrow> blast_world" where
  "blast_world_with ss = \<lparr> db_driver = SQLite, db_faults = [], db_now = 100, sessions = [], webhook_rows = [],
     contact_rows = [], dlq_rows = [], hub_mono = 0, hub_ms = 100000, hub_retry = demo_retry,
     hub_webhooks = [], hub_circuits = [], hub_dlq = [], hub_ring = [], gw_sessions = ss, gw_spawned = [],
     blast_jobs = [], blast_recipients = [] \<rparr>"

lemma create_blast_accounting_witness:
  "case create_blast demo_blast_env ''j'' ''s'' demo_blast_request (blast_world_with [(''s'', session_state_new ''p'')]) of
      (Inl e, w') \<Rightarrow> blast_recipients w' = []
    | (Inr resp, w') \<Rightarrow> cr_total resp + cr_skipped_dup resp = 3"
  using create_blast_accounting [where w = "blast_world_with [(''s'', session_state_new ''p'')]" and uuid = "''j''"
      and env = demo_blast_env and sid = "''s''" and request = demo_blast_request]
  by (auto simp: blast_world_with_def find_job_def walk_ok_def demo_blast_env_def demo_blast_request_def
      split: prod.splits sum.splits)

lemma already_sent_unchunked_witness:
  "already_sent ''s'' [''1''] (blast_world_with []) = (Inr {}, blast_world_with [])"
  using already_sent_unchunked [of "blast_world_with []" "''s''" "[''1'']"]
  by (simp add: blast_world_with_def sent_among_def)

end
