(* ===== verification/Scheduled_Db.thy ===== *)
theory Scheduled_Db
  imports Blast_Db
begin

text \<open>
  Persistence of the scheduled sends (\<open>src/db/scheduled.rs\<close>) and the status enum of
  \<open>src/api/shared/schedule/models.rs\<close>: the table \<open>scheduled_messages\<close>, added to the state of the
  gateway, and every statement on it. The two statements that take a row out of \<open>pending\<close> are
  given as operations on the rows, since two contracts are stated of them: a claim is won
  once, and a row leaves \<open>pending\<close> by one of the two.
\<close>

datatype scheduled_status = SchedPending | SchedSending | SchedSent | SchedFailed | SchedCancelled

fun sched_status_as_str :: "scheduled_status \<Rightarrow> string" where
  "sched_status_as_str SchedPending = ''pending''"
| "sched_status_as_str SchedSending = ''sending''"
| "sched_status_as_str SchedSent = ''sent''"
| "sched_status_as_str SchedFailed = ''failed''"
| "sched_status_as_str SchedCancelled = ''cancelled''"

definition sched_status_from_str :: "string \<Rightarrow> scheduled_status" where
  "sched_status_from_str s =
     (if s = ''sending'' then SchedSending
      else if s = ''sent'' then SchedSent
      else if s = ''failed'' then SchedFailed
      else if s = ''cancelled'' then SchedCancelled
      else SchedPending)"

lemma sched_status_known:
  "sched_status_from_str s \<noteq> SchedPending \<Longrightarrow> s = sched_status_as_str (sched_status_from_str s)"
  by (simp add: sched_status_from_str_def split: if_splits)

interpretation sched_codec: status_codec sched_status_as_str sched_status_from_str "\<lambda>s. s" SchedPending
proof unfold_locales
  show "sched_status_from_str (sched_status_as_str s) = s" for s
    by (cases s) (simp_all add: sched_status_from_str_def)
  show "sched_status_from_str s = SchedPending" if "s \<notin> range sched_status_as_str" for s
    using that sched_status_known [of s] by blast
qed simp_all

record scheduled_row =
  m_id :: string
  m_session_id :: string
  m_endpoint :: string
  m_body :: string
  m_send_at :: unix
  m_status :: string
  m_error :: "string option"
  m_message_id :: "string option"
  m_created_at :: unix
  m_updated_at :: unix

record app = blast_world +
  scheduled_messages :: "scheduled_row list"

type_synonym ('w, 'a) sched_op = "'w app_scheme \<Rightarrow> (string + 'a) \<times> 'w app_scheme"

definition new_scheduled :: "unix \<Rightarrow> string \<Rightarrow> string \<Rightarrow> string \<Rightarrow> string \<Rightarrow> int \<Rightarrow> scheduled_row" where
  "new_scheduled now mid sid endpoint body send_at =
     \<lparr> m_id = mid, m_session_id = sid, m_endpoint = endpoint, m_body = body, m_send_at = fmt_utc send_at,
       m_status = ''pending'', m_error = None, m_message_id = None, m_created_at = now, m_updated_at = now \<rparr>"

definition insert_scheduled :: "string \<Rightarrow> string \<Rightarrow> string \<Rightarrow> string \<Rightarrow> int \<Rightarrow> ('w, unit) sched_op" where
  "insert_scheduled mid sid endpoint body send_at =
     db_insert (\<lambda>w. list_ex (\<lambda>r. m_id r = mid) (scheduled_messages w))
       (\<lambda>w. w\<lparr>scheduled_messages := scheduled_messages w @ [new_scheduled (db_now w) mid sid endpoint body send_at]\<rparr>)"

definition is_due :: "unix \<Rightarrow> scheduled_row \<Rightarrow> bool" where
  "is_due now r \<longleftrightarrow> m_status r = ''pending'' \<and> m_send_at r \<le> now"

definition due_pending :: "(scheduled_row \<Rightarrow> nat) \<Rightarrow> nat \<Rightarrow> ('w, scheduled_row list) sched_op" where
  "due_pending rank limit =
     db_stmt (\<lambda>w. (take limit (order_by m_send_at rank (filter (is_due (db_now w)) (scheduled_messages w))), w))"

section \<open>Leaving the pending state\<close>

text \<open>A conditional UPDATE of the status, with whether a row was affected.\<close>

definition take_rows ::
    "driver \<Rightarrow> unix \<Rightarrow> (scheduled_row \<Rightarrow> bool) \<Rightarrow> string \<Rightarrow> scheduled_row list \<Rightarrow> bool \<times> scheduled_row list" where
  "take_rows drv now P status rows =
     (let f = (\<lambda>r. r\<lparr>m_status := status, m_updated_at := now\<rparr>)
      in (0 < affected drv P f rows, update_where P f rows))"

definition claim_rows :: "driver \<Rightarrow> unix \<Rightarrow> string \<Rightarrow> scheduled_row list \<Rightarrow> bool \<times> scheduled_row list" where
  "claim_rows drv now mid = take_rows drv now (\<lambda>r. m_id r = mid \<and> m_status r = ''pending'') ''sending''"

definition cancel_rows :: "driver \<Rightarrow> unix \<Rightarrow> string \<times> string \<Rightarrow> scheduled_row list \<Rightarrow> bool \<times> scheduled_row list" where
  "cancel_rows drv now key =
     take_rows drv now (\<lambda>r. m_session_id r = fst key \<and> m_id r = snd key \<and> m_status r = ''pending'') ''cancelled''"

definition on_rows :: "(driver \<Rightarrow> unix \<Rightarrow> scheduled_row list \<Rightarrow> 'a \<times> scheduled_row list) \<Rightarrow> ('w, 'a) sched_op" where
  "on_rows f = db_stmt (\<lambda>w. let (a, rows) = f (db_driver w) (db_now w) (scheduled_messages w)
                           in (a, w\<lparr>scheduled_messages := rows\<rparr>))"

definition claim_scheduled :: "string \<Rightarrow> ('w, bool) sched_op" where
  "claim_scheduled mid = on_rows (\<lambda>drv now. claim_rows drv now mid)"

definition cancel_pending :: "string \<Rightarrow> string \<Rightarrow> ('w, bool) sched_op" where
  "cancel_pending sid mid = on_rows (\<lambda>drv now. cancel_rows drv now (sid, mid))"

definition mark_sent :: "string \<Rightarrow> string \<Rightarrow> ('w, unit) sched_op" where
  "mark_sent mid message_id =
     on_rows (\<lambda>drv now rows. ((), update_where (\<lambda>r. m_id r = mid)
       (\<lambda>r. r\<lparr>m_status := ''sent'', m_message_id := Some message_id, m_error := None, m_updated_at := now\<rparr>) rows))"

definition mark_failed :: "string \<Rightarrow> string \<Rightarrow> ('w, unit) sched_op" where
  "mark_failed mid err =
     on_rows (\<lambda>drv now rows. ((), update_where (\<lambda>r. m_id r = mid)
       (\<lambda>r. r\<lparr>m_status := ''failed'', m_error := Some err, m_updated_at := now\<rparr>) rows))"

definition get_scheduled :: "string \<Rightarrow> string \<Rightarrow> ('w, scheduled_row option) sched_op" where
  "get_scheduled sid mid =
     db_stmt (\<lambda>w. (find (\<lambda>r. m_session_id r = sid \<and> m_id r = mid) (scheduled_messages w), w))"

definition list_scheduled ::
    "(scheduled_row \<Rightarrow> nat) \<Rightarrow> string option \<Rightarrow> string option \<Rightarrow> ('w, scheduled_row list) sched_op" where
  "list_scheduled rank sid status =
     db_stmt (\<lambda>w. (order_by m_send_at rank
       (filter (\<lambda>r. (sid = None \<or> sid = Some (m_session_id r)) \<and> (status = None \<or> status = Some (m_status r)))
          (scheduled_messages w)), w))"

lemma fst_take_rows:
  assumes "\<And>r. P r \<Longrightarrow> m_status r = ''pending''" and "status \<noteq> ''pending''"
  shows "fst (take_rows drv now P status rows) \<longleftrightarrow> list_ex P rows"
proof -
  have "r\<lparr>m_status := status, m_updated_at := now\<rparr> \<noteq> r" if "P r" for r
  proof
    assume "r\<lparr>m_status := status, m_updated_at := now\<rparr> = r"
    then have "m_status (r\<lparr>m_status := status, m_updated_at := now\<rparr>) = m_status r" by simp
    then show False using assms(1) [OF that] assms(2) by simp
  qed
  then show ?thesis by (auto simp: take_rows_def Let_def affected_pos_iff list_ex_iff)
qed

lemma snd_take_rows [simp]:
  "snd (take_rows drv now P status rows) = update_where P (\<lambda>r. r\<lparr>m_status := status, m_updated_at := now\<rparr>) rows"
  by (simp add: take_rows_def Let_def)

lemma list_ex_update_where: "list_ex Q (update_where P f rows) \<longleftrightarrow> (\<exists>r \<in> set rows. Q (if P r then f r else r))"
  by (induction rows) auto

definition claimable :: "string \<Rightarrow> scheduled_row list \<Rightarrow> bool" where
  "claimable mid rows \<longleftrightarrow> list_ex (\<lambda>r. m_id r = mid \<and> m_status r = ''pending'') rows"

lemma fst_claim_rows: "fst (claim_rows drv now mid rows) \<longleftrightarrow> claimable mid rows"
  unfolding claim_rows_def claimable_def by (rule fst_take_rows) simp_all

interpretation sched_claim: claim_protocol claimable "\<lambda>mid. claim_rows drv now mid" for drv now
proof unfold_locales
  fix mid mid' :: string and rows
  show "fst (claim_rows drv now mid rows) = claimable mid rows" by (rule fst_claim_rows)
  show "\<not> claimable mid (snd (claim_rows drv now mid rows))"
    by (simp add: claimable_def claim_rows_def list_ex_update_where)
  assume "mid' \<noteq> mid"
  then show "claimable mid' (snd (claim_rows drv now mid rows)) = claimable mid' rows"
    unfolding claimable_def claim_rows_def snd_take_rows by (intro list_ex_update_where_other) simp
qed

definition cancellable_row :: "string \<times> string \<Rightarrow> scheduled_row list \<Rightarrow> bool" where
  "cancellable_row key rows \<longleftrightarrow>
     list_ex (\<lambda>r. m_session_id r = fst key \<and> m_id r = snd key \<and> m_status r = ''pending'') rows"

lemma fst_cancel_rows: "fst (cancel_rows drv now key rows) \<longleftrightarrow> cancellable_row key rows"
  unfolding cancel_rows_def cancellable_row_def by (rule fst_take_rows) simp_all

interpretation sched_cancel: claim_protocol cancellable_row "\<lambda>key. cancel_rows drv now key" for drv now
proof unfold_locales
  fix key key' :: "string \<times> string" and rows
  show "fst (cancel_rows drv now key rows) = cancellable_row key rows" by (rule fst_cancel_rows)
  show "\<not> cancellable_row key (snd (cancel_rows drv now key rows))"
    by (simp add: cancellable_row_def cancel_rows_def list_ex_update_where)
  assume "key' \<noteq> key"
  then show "cancellable_row key' (snd (cancel_rows drv now key rows)) = cancellable_row key' rows"
    unfolding cancellable_row_def cancel_rows_def snd_take_rows
    by (intro list_ex_update_where_other) (auto simp: prod_eq_iff)
qed

end
