(* ===== verification/Scheduler.thy ===== *)
theory Scheduler
  imports Scheduled_Db Message_Dispatch
begin

text \<open>
  Scheduled sends (\<open>src/api/shared/schedule/handlers.rs\<close>): the guard every send handler starts
  with, the management endpoints, and one tick of the dispatcher. Instants handed in by
  clients are nanoseconds; what the table stores is the second they fall in.
\<close>

record ('req, 'w) sched_env =
  se_libs :: libs
  se_endpoints :: "('req, 'w) endpoints"
  se_time_text :: "unix \<Rightarrow> string"
  se_rank :: "scheduled_row \<Rightarrow> nat"

record send_response =
  sr_status :: string
  sr_message_id :: "string option"
  sr_timestamp :: "int option"
  sr_to :: "string option"
  sr_schedule_id :: "string option"
  sr_send_at :: "int option"

definition send_response_sent :: "message_response \<Rightarrow> send_response" where
  "send_response_sent resp = \<lparr> sr_status = ''sent'', sr_message_id = Some (mr_message_id resp),
     sr_timestamp = Some (mr_timestamp resp), sr_to = Some (mr_to resp), sr_schedule_id = None, sr_send_at = None \<rparr>"

definition send_response_scheduled :: "string \<Rightarrow> int \<Rightarrow> send_response" where
  "send_response_scheduled schedule_id send_at = \<lparr> sr_status = ''pending'', sr_message_id = None,
     sr_timestamp = None, sr_to = None, sr_schedule_id = Some schedule_id, sr_send_at = Some send_at \<rparr>"

record scheduled_message =
  sm_id :: string
  sm_session_id :: string
  sm_endpoint :: string
  sm_body :: json
  sm_send_at :: unix
  sm_status :: scheduled_status
  sm_error :: "string option"
  sm_message_id :: "string option"
  sm_created_at :: unix
  sm_updated_at :: unix

definition SCHEDULE_GRACE :: int where "SCHEDULE_GRACE = 2 * 1000000000"
definition DUE_BATCH_LIMIT :: nat where "DUE_BATCH_LIMIT = 50"

definition should_schedule :: "int \<Rightarrow> int \<Rightarrow> bool" where
  "should_schedule send_at now \<longleftrightarrow> send_at > now + SCHEDULE_GRACE"

type_synonym ('w, 'a) app_handler = "'w app_scheme \<Rightarrow> (api_error + 'a) \<times> 'w app_scheme"

text \<open>\<open>body\<close> is the outcome of serializing the request.\<close>

definition maybe_schedule ::
    "int \<Rightarrow> string \<Rightarrow> string \<Rightarrow> string \<Rightarrow> string + string \<Rightarrow> int option \<Rightarrow> ('w, send_response option) app_handler" where
  "maybe_schedule now uuid sid endpoint body send_at w =
     (case send_at of
        None \<Rightarrow> (Inr None, w)
      | Some t \<Rightarrow>
          if \<not> should_schedule t now then (Inr None, w)
          else if dm_get (gw_sessions w) sid = None then (Inl (SessionNotFound sid), w)
          else (case body of
              Inl e \<Rightarrow> (Inl (Internal (''failed to serialize scheduled body: '' @ e)), w)
            | Inr text \<Rightarrow>
                db_bind (db_map_err (\<lambda>e. Internal (''failed to store scheduled message: '' @ e))
                    (insert_scheduled uuid sid endpoint text t))
                  (\<lambda>_ w'. (Inr (Some (send_response_scheduled uuid t)), w')) w))"

definition row_to_model :: "libs \<Rightarrow> scheduled_row \<Rightarrow> scheduled_message" where
  "row_to_model lib r = \<lparr> sm_id = m_id r, sm_session_id = m_session_id r, sm_endpoint = m_endpoint r,
     sm_body = (case parse_json lib (m_body r) of None \<Rightarrow> JNull | Some v \<Rightarrow> v),
     sm_send_at = m_send_at r, sm_status = sched_status_from_str (m_status r), sm_error = m_error r,
     sm_message_id = m_message_id r, sm_created_at = m_created_at r, sm_updated_at = m_updated_at r \<rparr>"

definition rows_to_response :: "libs \<Rightarrow> scheduled_row list \<Rightarrow> scheduled_message list \<times> nat" where
  "rows_to_response lib rows = (let messages = map (row_to_model lib) rows in (messages, length messages))"

definition list_session_scheduled ::
    "libs \<Rightarrow> (scheduled_row \<Rightarrow> nat) \<Rightarrow> string \<Rightarrow> string option \<Rightarrow> ('w, scheduled_message list \<times> nat) app_handler" where
  "list_session_scheduled lib rank sid status =
     db_bind (db_map_err Internal (list_scheduled rank (Some sid) status))
       (\<lambda>rows w. (Inr (rows_to_response lib rows), w))"

definition list_all_scheduled ::
    "libs \<Rightarrow> (scheduled_row \<Rightarrow> nat) \<Rightarrow> string option \<Rightarrow> string option \<Rightarrow> ('w, scheduled_message list \<times> nat) app_handler" where
  "list_all_scheduled lib rank sid status =
     db_bind (db_map_err Internal (list_scheduled rank sid status))
       (\<lambda>rows w. (Inr (rows_to_response lib rows), w))"

definition get_scheduled_or_404 :: "string \<Rightarrow> string \<Rightarrow> ('w, scheduled_row) app_handler" where
  "get_scheduled_or_404 sid mid =
     db_bind (db_map_err Internal (get_scheduled sid mid)) (\<lambda>row w. case row of
         None \<Rightarrow> (Inl (MessageNotFound (''scheduled message '' @ mid)), w)
       | Some r \<Rightarrow> (Inr r, w))"

definition cancel_scheduled :: "libs \<Rightarrow> string \<Rightarrow> string \<Rightarrow> ('w, scheduled_message) app_handler" where
  "cancel_scheduled lib sid mid =
     db_bind (get_scheduled_or_404 sid mid) (\<lambda>row.
       if m_status row \<noteq> ''pending''
       then (\<lambda>w. (Inl (BadRequest (''scheduled message '' @ mid @ '' is '' @ m_status row
               @ '', only pending messages can be cancelled'')), w))
       else db_bind (db_map_err Internal (cancel_pending sid mid)) (\<lambda>changed.
         if \<not> changed
         then (\<lambda>w. (Inl (BadRequest (''scheduled message '' @ mid
                 @ '' was claimed by the scheduler; try again'')), w))
         else db_bind (get_scheduled_or_404 sid mid) (\<lambda>r w. (Inr (row_to_model lib r), w))))"

section \<open>One tick of the dispatcher\<close>

definition sent_payload :: "(unix \<Rightarrow> string) \<Rightarrow> scheduled_row \<Rightarrow> message_response \<Rightarrow> json" where
  "sent_payload time_text row resp = JObj [(''schedule_id'', JStr (m_id row)), (''endpoint'', JStr (m_endpoint row)),
     (''send_at'', JStr (time_text (m_send_at row))), (''message_id'', JStr (mr_message_id resp)), (''to'', JStr (mr_to resp))]"

definition failed_payload :: "(unix \<Rightarrow> string) \<Rightarrow> scheduled_row \<Rightarrow> string \<Rightarrow> json" where
  "failed_payload time_text row err = JObj [(''schedule_id'', JStr (m_id row)), (''endpoint'', JStr (m_endpoint row)),
     (''send_at'', JStr (time_text (m_send_at row))), (''error'', JStr err)]"

definition process_row :: "('req, 'w app_scheme) sched_env \<Rightarrow> scheduled_row \<Rightarrow> ('w, unit) sched_op" where
  "process_row env row =
     db_bind (claim_scheduled (m_id row)) (\<lambda>claimed w.
       if \<not> claimed then (Inr (), w)
       else (case dispatch (se_endpoints env) (m_session_id row) (m_endpoint row) (m_body row) w of
           (Inr resp, w1) \<Rightarrow>
             (Inr (), gw_broadcast (se_libs env) (m_session_id row) EvScheduledSent
                (sent_payload (se_time_text env) row resp) (db_ignore (mark_sent (m_id row) (mr_message_id resp)) w1))
         | (Inl err, w1) \<Rightarrow>
             (Inr (), gw_broadcast (se_libs env) (m_session_id row) EvScheduledFailed
                (failed_payload (se_time_text env) row err) (db_ignore (mark_failed (m_id row) err) w1))))"

fun process_rows :: "('req, 'w app_scheme) sched_env \<Rightarrow> scheduled_row list \<Rightarrow> ('w, unit) sched_op" where
  "process_rows env [] = db_return ()"
| "process_rows env (row # rows) = db_bind (process_row env row) (\<lambda>_. process_rows env rows)"

definition process_due :: "('req, 'w app_scheme) sched_env \<Rightarrow> ('w, unit) sched_op" where
  "process_due env = db_bind (due_pending (se_rank env) DUE_BATCH_LIMIT) (process_rows env)"

end
