(* ===== verification/Scheduler_Run.thy ===== *)
theory Scheduler_Run
  imports Scheduler
begin

text \<open>
  What the scheduler guarantees: under any interleaving of its statements with those of
  cancellations and of other pollers a row leaves \<open>pending\<close> once; a tick that nothing
  disturbs settles every due row of its batch by the outcome of its send.
\<close>

section \<open>Interleavings\<close>

datatype sched_stmt =
    StInsert string string string string int
  | StClaim string
  | StCancel string string
  | StSent string string
  | StFailed string string
  | StClock unix

text \<open>One statement of some task, with whether it took a row out of \<open>pending\<close>.\<close>

definition won :: "(string + bool) \<times> 'w \<Rightarrow> bool \<times> 'w" where
  "won r = (case r of (Inr b, w) \<Rightarrow> (b, w) | (Inl e, w) \<Rightarrow> (False, w))"

fun run_stmt :: "sched_stmt \<Rightarrow> 'w app_scheme \<Rightarrow> bool \<times> 'w app_scheme" where
  "run_stmt (StInsert mid sid ep body at) w = (False, snd (insert_scheduled mid sid ep body at w))"
| "run_stmt (StClaim mid) w = won (claim_scheduled mid w)"
| "run_stmt (StCancel sid mid) w = won (cancel_pending sid mid w)"
| "run_stmt (StSent mid message_id) w = (False, snd (mark_sent mid message_id w))"
| "run_stmt (StFailed mid err) w = (False, snd (mark_failed mid err w))"
| "run_stmt (StClock t) w = (False, w\<lparr>db_now := t\<rparr>)"

fun takes :: "string \<Rightarrow> sched_stmt \<Rightarrow> bool" where
  "takes mid (StClaim mid') = (mid' = mid)"
| "takes mid (StCancel sid mid') = (mid' = mid)"
| "takes mid _ = False"

fun wins :: "string \<Rightarrow> sched_stmt list \<Rightarrow> 'w app_scheme \<Rightarrow> nat" where
  "wins mid [] w = 0"
| "wins mid (st # sts) w = (case run_stmt st w of (b, w') \<Rightarrow> (if b \<and> takes mid st then 1 else 0) + wins mid sts w')"

fun run_stmts :: "sched_stmt list \<Rightarrow> 'w app_scheme \<Rightarrow> 'w app_scheme" where
  "run_stmts [] w = w"
| "run_stmts (st # sts) w = run_stmts sts (snd (run_stmt st w))"

text \<open>How often a row can still be taken: once while it is pending or not yet inserted.\<close>

definition chances :: "string \<Rightarrow> scheduled_row list \<Rightarrow> nat" where
  "chances mid rows = (if \<exists>r \<in> set rows. m_id r = mid
     then count_where (\<lambda>r. m_id r = mid \<and> m_status r = ''pending'') rows else 1)"

lemma on_rows_Inr_iff:
  "on_rows f w = (Inr a, w') \<longleftrightarrow> (\<forall>e fs. db_faults w \<noteq> Some e # fs) \<and>
     f (db_driver w) (db_now w) (scheduled_messages w) = (a, scheduled_messages w') \<and>
     w' = w\<lparr>db_faults := tl (db_faults w), scheduled_messages := scheduled_messages w'\<rparr>"
  by (auto simp: on_rows_def db_stmt_Inr_iff split_beta Let_def)

lemma on_rows_run:
  "db_faults w = [] \<Longrightarrow> on_rows f w =
     (Inr (fst (f (db_driver w) (db_now w) (scheduled_messages w))),
      w\<lparr>scheduled_messages := snd (f (db_driver w) (db_now w) (scheduled_messages w))\<rparr>)"
  by (simp add: on_rows_def split_beta Let_def)

lemma on_rows_cases:
  obtains (failed) e where "fst (on_rows f w) = Inl e"
      "scheduled_messages (snd (on_rows f w)) = scheduled_messages w"
  | (ok) "fst (on_rows f w) = Inr (fst (f (db_driver w) (db_now w) (scheduled_messages w)))"
      "scheduled_messages (snd (on_rows f w)) = snd (f (db_driver w) (db_now w) (scheduled_messages w))"
  unfolding on_rows_def
  by (rule db_stmt_cases [of w "\<lambda>w. let (a, rows) = f (db_driver w) (db_now w) (scheduled_messages w)
      in (a, w\<lparr>scheduled_messages := rows\<rparr>)"]) (auto simp: split_beta Let_def)

lemma count_where_update_other:
  "(\<And>r. P r \<Longrightarrow> Q (f r) \<longrightarrow> Q r) \<Longrightarrow> count_where Q (update_where P f rows) \<le> count_where Q rows"
  by (induction rows) auto

lemma count_where_update_drop:
  "(\<And>r. P r \<Longrightarrow> \<not> Q (f r)) \<Longrightarrow>
   count_where Q (update_where P f rows) + count_where (\<lambda>r. P r \<and> Q r) rows = count_where Q rows"
  by (induction rows) auto

lemma ids_update_where:
  "(\<And>r. m_id (f r) = m_id r) \<Longrightarrow>
   (\<exists>r \<in> set (update_where P f rows). m_id r = mid) \<longleftrightarrow> (\<exists>r \<in> set rows. m_id r = mid)"
  by (induction rows) auto

lemma chances_update:
  assumes "\<And>r. m_id (f r) = m_id r" and "\<And>r. P r \<Longrightarrow> m_status (f r) \<noteq> ''pending''"
  shows "chances mid (update_where P f rows) \<le> chances mid rows"
proof -
  have "count_where (\<lambda>r. m_id r = mid \<and> m_status r = ''pending'') (update_where P f rows)
      \<le> count_where (\<lambda>r. m_id r = mid \<and> m_status r = ''pending'') rows"
    using assms(2) by (intro count_where_update_other) blast
  then show ?thesis unfolding chances_def ids_update_where [where f = f, OF assms(1)] by simp
qed

lemma chances_take:
  assumes "list_ex P rows" and "\<And>r. P r \<Longrightarrow> m_id r = mid \<and> m_status r = ''pending''" and "status \<noteq> ''pending''"
  shows "chances mid (update_where P (\<lambda>r. r\<lparr>m_status := status, m_updated_at := now\<rparr>) rows) < chances mid rows"
proof -
  let ?Q = "\<lambda>r. m_id r = mid \<and> m_status r = ''pending''"
  let ?f = "\<lambda>r. r\<lparr>m_status := status, m_updated_at := now\<rparr>"
  have ex: "\<exists>r \<in> set rows. m_id r = mid" using assms(1,2) by (auto simp: list_ex_iff)
  have "count_where (\<lambda>r. P r \<and> ?Q r) rows \<noteq> 0"
    using assms(1,2) by (auto simp: count_where_0_iff list_ex_iff)
  moreover have "count_where ?Q (update_where P ?f rows) + count_where (\<lambda>r. P r \<and> ?Q r) rows = count_where ?Q rows"
    using assms(3) by (intro count_where_update_drop) simp
  ultimately have "count_where ?Q (update_where P ?f rows) < count_where ?Q rows" by linarith
  with ex show ?thesis by (simp add: chances_def ids_update_where)
qed

lemma insert_scheduled_rows:
  "scheduled_messages (snd (insert_scheduled i sid ep body t w)) = scheduled_messages w \<or>
   (\<not> list_ex (\<lambda>r. m_id r = i) (scheduled_messages w) \<and>
    (\<exists>now. scheduled_messages (snd (insert_scheduled i sid ep body t w))
       = scheduled_messages w @ [new_scheduled now i sid ep body t]))"
  by (auto simp: insert_scheduled_def db_insert_def db_bind_def db_stmt_def db_return_def db_fail_def
      split: list.splits option.splits)

lemma chances_insert:
  "\<not> list_ex (\<lambda>r. m_id r = i) rows \<Longrightarrow> chances mid (rows @ [new_scheduled now i sid ep body t]) \<le> chances mid rows"
  by (cases "i = mid") (auto simp: chances_def new_scheduled_def list_ex_iff count_where_0_iff)

lemma take_step:
  assumes "\<And>r. P r \<Longrightarrow> m_id r = i \<and> m_status r = ''pending''" and "status \<noteq> ''pending''"
  shows "(if fst (won (on_rows (\<lambda>drv now. take_rows drv now P status) w)) \<and> i = mid then 1 else 0)
     + chances mid (scheduled_messages (snd (won (on_rows (\<lambda>drv now. take_rows drv now P status) w))))
     \<le> chances mid (scheduled_messages w)"
proof (cases "\<lambda>drv now. take_rows drv now P status" w rule: on_rows_cases)
  case (failed e)
  then show ?thesis by (auto simp: won_def split: prod.splits sum.splits)
next
  case ok
  have fst_take: "fst (take_rows (db_driver w) (db_now w) P status (scheduled_messages w)) \<longleftrightarrow> list_ex P (scheduled_messages w)"
    using assms by (intro fst_take_rows) auto
  have less: "i = mid \<Longrightarrow> list_ex P (scheduled_messages w) \<Longrightarrow>
      chances mid (update_where P (\<lambda>r. r\<lparr>m_status := status, m_updated_at := db_now w\<rparr>) (scheduled_messages w))
      < chances mid (scheduled_messages w)"
    using assms by (intro chances_take) auto
  have le: "chances mid (update_where P (\<lambda>r. r\<lparr>m_status := status, m_updated_at := db_now w\<rparr>) (scheduled_messages w))
      \<le> chances mid (scheduled_messages w)"
    using assms(2) by (intro chances_update) simp_all
  show ?thesis
    using ok less le by (auto simp: won_def fst_take split: prod.splits sum.splits)
qed

lemma chances_on_rows:
  assumes "\<And>now r. m_id (f now r) = m_id r" and "\<And>now r. P r \<Longrightarrow> m_status (f now r) \<noteq> ''pending''"
  shows "chances mid (scheduled_messages (snd (on_rows (\<lambda>drv now rows. ((), update_where P (f now) rows)) w)))
     \<le> chances mid (scheduled_messages w)"
  by (cases "\<lambda>(drv :: driver) now rows. ((), update_where P (f now) rows)" w rule: on_rows_cases)
    (simp_all add: chances_update assms)

lemma run_stmt_chances:
  "(if fst (run_stmt st w) \<and> takes mid st then 1 else 0) + chances mid (scheduled_messages (snd (run_stmt st w)))
     \<le> chances mid (scheduled_messages w)"
proof (cases st)
  case (StInsert i sid ep body t)
  then show ?thesis using insert_scheduled_rows [of i sid ep body t w] by (auto simp: chances_insert)
next
  case (StClaim i)
  then show ?thesis
    using take_step [of "\<lambda>r. m_id r = i \<and> m_status r = ''pending''" i "''sending''" w mid]
    by (simp add: claim_scheduled_def claim_rows_def)
next
  case (StCancel sid i)
  then show ?thesis
    using take_step [of "\<lambda>r. m_session_id r = sid \<and> m_id r = i \<and> m_status r = ''pending''" i "''cancelled''" w mid]
    by (simp add: cancel_pending_def cancel_rows_def)
next
  case (StSent i message_id)
  then show ?thesis by (simp add: mark_sent_def chances_on_rows)
next
  case (StFailed i err)
  then show ?thesis by (simp add: mark_failed_def chances_on_rows)
qed simp

lemma wins_bound: "wins mid sts w \<le> chances mid (scheduled_messages w)"
proof (induction sts arbitrary: w)
  case (Cons st sts)
  show ?case
    using Cons.IH [of "snd (run_stmt st w)"] run_stmt_chances [of st w mid]
    by (cases "run_stmt st w") (auto split: if_splits)
qed simp

lemma chances_distinct: "distinct (map m_id rows) \<Longrightarrow> chances mid rows \<le> 1"
proof -
  assume d: "distinct (map m_id rows)"
  have "count_where (\<lambda>r. m_id r = mid) rows \<le> 1"
    using d
  proof (induction rows)
    case (Cons r rows)
    then have "m_id r = mid \<Longrightarrow> count_where (\<lambda>r. m_id r = mid) rows = 0"
      unfolding count_where_0_iff by (metis distinct.simps(2) image_eqI list.map(2) list.set_map)
    with Cons show ?case by auto
  qed simp
  then have "count_where (\<lambda>r. m_id r = mid \<and> m_status r = ''pending'') rows \<le> 1"
    using count_where_split [of "\<lambda>r. m_id r = mid" rows "\<lambda>r. m_status r = ''pending''"] by simp
  then show ?thesis by (simp add: chances_def)
qed

text \<open>C28. A scheduled message leaves the pending state once. Take any interleaving of the
  statements the gateway runs on the table: inserts, claims and settlements by any number of
  pollers, cancellations from any session, the clock moving, each of them possibly failing in
  the database. Then at most one claim or cancellation of a given message reports success; so
  the message is dispatched at most once, and not at all once it was cancelled.\<close>

theorem scheduled_taken_once:
  assumes "distinct (map m_id (scheduled_messages w))"
  shows "wins mid sts w \<le> 1"
  using wins_bound [of mid sts w] chances_distinct [OF assms, of mid] by simp

definition app_demo :: "string option list \<Rightarrow> scheduled_row list \<Rightarrow> app" where
  "app_demo faults rows = \<lparr> db_driver = MySQL, db_faults = faults, db_now = 100, sessions = [], webhook_rows = [],
     contact_rows = [], dlq_rows = [], hub_mono = 0, hub_ms = 100000, hub_retry = demo_retry,
     hub_webhooks = [], hub_circuits = [], hub_dlq = [], hub_ring = [], gw_sessions = [], gw_spawned = [],
     blast_jobs = [], blast_recipients = [], scheduled_messages = rows \<rparr>"

lemma scheduled_taken_once_witness:
  "wins ''m'' [StClaim ''m'', StCancel ''s'' ''m'', StClaim ''m'']
     (app_demo [] [new_scheduled 1 ''m'' ''s'' ''text'' ''{}'' 90000000000]) \<le> 1"
  by (rule scheduled_taken_once) (simp add: app_demo_def new_scheduled_def)

section \<open>An undisturbed tick\<close>

text \<open>Nothing else writes to the table while a message is sent, and the database answers.\<close>

definition sends_quietly :: "('req, 'w app_scheme) sched_env \<Rightarrow> bool" where
  "sends_quietly env \<longleftrightarrow> (\<forall>ep sid req w. let w' = snd (ep_execute (se_endpoints env) ep sid req w) in
     scheduled_messages w' = scheduled_messages w \<and> (db_faults w = [] \<longrightarrow> db_faults w' = []))"

text \<open>A row settled by the outcome of its own send, in some state \<open>w\<close>.\<close>

definition settled_by :: "('req, 'w app_scheme) sched_env \<Rightarrow> scheduled_row \<Rightarrow> scheduled_row \<Rightarrow> bool" where
  "settled_by env r r' \<longleftrightarrow>
     m_id r' = m_id r \<and> m_session_id r' = m_session_id r \<and> m_endpoint r' = m_endpoint r \<and> m_body r' = m_body r \<and>
     m_send_at r' = m_send_at r \<and>
     (\<exists>w. case fst (dispatch (se_endpoints env) (m_session_id r) (m_endpoint r) (m_body r) w) of
        Inr resp \<Rightarrow> m_status r' = ''sent'' \<and> m_message_id r' = Some (mr_message_id resp) \<and> m_error r' = None
      | Inl err \<Rightarrow> m_status r' = ''failed'' \<and> m_error r' = Some err)"

definition moves :: "('req, 'w app_scheme) sched_env \<Rightarrow> string set \<Rightarrow> scheduled_row \<Rightarrow> scheduled_row \<Rightarrow> bool" where
  "moves env ids r r' \<longleftrightarrow> (if m_id r \<in> ids \<and> m_status r = ''pending'' then settled_by env r r' else r' = r)"

lemma settled_not_pending: "settled_by env r r' \<Longrightarrow> m_status r' \<noteq> ''pending''"
  unfolding settled_by_def by (elim conjE exE) (auto split: sum.splits dest: sym)

lemma moves_ids: "moves env ids r r' \<Longrightarrow> m_id r' = m_id r"
  by (auto simp: moves_def settled_by_def split: if_splits)

lemma moves_trans: "moves env A r s \<Longrightarrow> moves env B s t \<Longrightarrow> moves env (A \<union> B) r t"
  by (auto simp: moves_def split: if_splits dest: settled_not_pending)

lemma rows_moves_ids:
  "list_all2 (moves env ids) rows rows' \<Longrightarrow> map m_id rows' = map m_id rows"
  by (induction rule: list_all2_induct) (auto dest: moves_ids)

lemma dispatch_quiet:
  assumes "sends_quietly env" and "dispatch (se_endpoints env) sid ep body w = (res, w')"
  shows "scheduled_messages w' = scheduled_messages w" and "db_faults w = [] \<Longrightarrow> db_faults w' = []"
  using assms by (auto simp: dispatch_def sends_quietly_def Let_def db_map_err_def
      split: if_splits sum.splits prod.splits) (metis snd_conv)+

lemma broadcast_keeps_schedule [simp]:
  fixes w :: "'w app_scheme"
  shows "scheduled_messages (gw_broadcast lib sid event payload w) = scheduled_messages w"
  by (rule gw_broadcast_shape [of lib sid event payload w]; simp)

lemma mark_run:
  assumes "db_faults w = []"
  shows "db_ignore (mark_sent mid message_id) w = w\<lparr>scheduled_messages := update_where (\<lambda>r. m_id r = mid)
      (\<lambda>r. r\<lparr>m_status := ''sent'', m_message_id := Some message_id, m_error := None, m_updated_at := db_now w\<rparr>)
      (scheduled_messages w)\<rparr>"
    and "db_ignore (mark_failed mid err) w = w\<lparr>scheduled_messages := update_where (\<lambda>r. m_id r = mid)
      (\<lambda>r. r\<lparr>m_status := ''failed'', m_error := Some err, m_updated_at := db_now w\<rparr>) (scheduled_messages w)\<rparr>"
  using assms by (simp_all add: db_ignore_def mark_sent_def mark_failed_def on_rows_run)

lemma update_row_moves:
  assumes "distinct (map m_id rows)" and "row \<in> set rows" and "m_status row = ''pending''" and "settled_by env row (f row)"
  shows "list_all2 (moves env {m_id row}) rows (update_where (\<lambda>r. m_id r = m_id row) f rows)"
  unfolding update_where_def list_all2_map2
proof (rule list.rel_refl_strong)
  fix r assume "r \<in> set rows"
  then have "m_id r = m_id row \<Longrightarrow> r = row" using assms(1,2) by (auto simp: distinct_map dest: inj_onD)
  then show "moves env {m_id row} r (if m_id r = m_id row then f r else r)"
    using assms(3,4) by (auto simp: moves_def)
qed

lemma process_row_run:
  assumes quiet: "sends_quietly env" and faults: "db_faults w = []"
    and keys: "distinct (map m_id (scheduled_messages w))" and row: "row \<in> set (scheduled_messages w)" "m_status row = ''pending''"
  obtains w' where "process_row env row w = (Inr (), w')" and "db_faults w' = []"
    and "list_all2 (moves env {m_id row}) (scheduled_messages w) (scheduled_messages w')"
proof -
  let ?P = "\<lambda>r :: scheduled_row. m_id r = m_id row"
  define f :: "scheduled_row \<Rightarrow> scheduled_row" where "f = (\<lambda>r. r\<lparr>m_status := ''sending'', m_updated_at := db_now w\<rparr>)"
  define w1 where "w1 = w\<lparr>scheduled_messages := update_where (\<lambda>r. ?P r \<and> m_status r = ''pending'') f (scheduled_messages w)\<rparr>"
  have claim: "claim_scheduled (m_id row) w = (Inr True, w1)"
  proof -
    have "claimable (m_id row) (scheduled_messages w)" using row by (auto simp: claimable_def list_ex_iff)
    then show ?thesis using faults
      by (simp add: claim_scheduled_def on_rows_run fst_claim_rows w1_def f_def) (simp add: claim_rows_def)
  qed
  obtain res w2 where disp: "dispatch (se_endpoints env) (m_session_id row) (m_endpoint row) (m_body row) w1 = (res, w2)"
    by fastforce
  have w2: "scheduled_messages w2 = scheduled_messages w1" "db_faults w2 = []"
    using dispatch_quiet [OF quiet disp] faults by (simp_all add: w1_def)
  define g :: "scheduled_row \<Rightarrow> scheduled_row" where "g = (\<lambda>r. case res of
      Inr resp \<Rightarrow> r\<lparr>m_status := ''sent'', m_message_id := Some (mr_message_id resp), m_error := None, m_updated_at := db_now w2\<rparr>
    | Inl err \<Rightarrow> r\<lparr>m_status := ''failed'', m_error := Some err, m_updated_at := db_now w2\<rparr>)"
  obtain w' where run: "process_row env row w = (Inr (), w')" "db_faults w' = []"
      "scheduled_messages w' = update_where ?P g (scheduled_messages w1)"
    using claim disp w2 by (cases res) (auto simp: process_row_def mark_run g_def)
  have eq: "r = row" if "r \<in> set (scheduled_messages w)" "?P r" for r
    using keys row(1) that by (auto simp: distinct_map dest: inj_onD)
  have "update_where ?P g (update_where (\<lambda>r. ?P r \<and> m_status r = ''pending'') f (scheduled_messages w))
      = update_where ?P (\<lambda>r. g (f r)) (scheduled_messages w)"
    using eq row(2) by (auto simp: update_where_def f_def)
  moreover have "settled_by env row (g (f row))"
    using disp by (auto simp: settled_by_def g_def f_def split: sum.splits intro!: exI [of _ w1])
  ultimately have "list_all2 (moves env {m_id row}) (scheduled_messages w) (scheduled_messages w')"
    unfolding run(3) using update_row_moves [OF keys row, where f = "\<lambda>r. g (f r)"] by (simp add: w1_def)
  with run show thesis by (intro that)
qed

lemma process_rows_run:
  assumes quiet: "sends_quietly env"
  shows "db_faults w = [] \<Longrightarrow> distinct (map m_id (scheduled_messages w)) \<Longrightarrow> distinct (map m_id rows) \<Longrightarrow>
    (\<forall>row \<in> set rows. row \<in> set (scheduled_messages w) \<and> m_status row = ''pending'') \<Longrightarrow>
    \<exists>w'. process_rows env rows w = (Inr (), w') \<and> db_faults w' = [] \<and>
      list_all2 (moves env (m_id ` set rows)) (scheduled_messages w) (scheduled_messages w')"
proof (induction rows arbitrary: w)
  case Nil
  then show ?case by (auto simp: db_return_def moves_def intro: list.rel_refl_strong)
next
  case (Cons row rows)
  have row: "row \<in> set (scheduled_messages w)" "m_status row = ''pending''" using Cons.prems(4) by auto
  obtain w1 where step: "process_row env row w = (Inr (), w1)" "db_faults w1 = []"
      "list_all2 (moves env {m_id row}) (scheduled_messages w) (scheduled_messages w1)"
    by (rule process_row_run [OF quiet Cons.prems(1,2) row])
  have "r \<in> set (scheduled_messages w1)" if r: "r \<in> set rows" for r
  proof -
    have "m_id r \<noteq> m_id row" using Cons.prems(3) imageI [OF r, of m_id] by (metis distinct.simps(2) list.map(2) list.set_map)
    moreover have "r \<in> set (scheduled_messages w)" using Cons.prems(4) r by simp
    then obtain i where i: "i < length (scheduled_messages w)" "scheduled_messages w ! i = r"
      unfolding in_set_conv_nth by blast
    ultimately have "scheduled_messages w1 ! i = r"
      using list_all2_nthD [OF step(3) i(1)] by (simp add: moves_def)
    then show ?thesis using i(1) list_all2_lengthD [OF step(3)] by (auto simp: in_set_conv_nth)
  qed
  then obtain w' where rest: "process_rows env rows w1 = (Inr (), w')" "db_faults w' = []"
      "list_all2 (moves env (m_id ` set rows)) (scheduled_messages w1) (scheduled_messages w')"
    using Cons.IH [of w1] Cons.prems step(2) rows_moves_ids [OF step(3)] by auto
  have "list_all2 (moves env ({m_id row} \<union> m_id ` set rows)) (scheduled_messages w) (scheduled_messages w')"
    by (rule list_all2_trans [OF moves_trans step(3) rest(3)])
  with step(1) rest show ?case by auto
qed

text \<open>C29. A tick of the scheduler. With nobody else writing to the table during the tick, it ends
  without error; the due rows, at most the fifty of the batch, are those it sends: each ends
  as sent with its message id or as failed with the error, by the outcome of dispatching its
  own body to its own endpoint in its own session; every other row is as it was.\<close>

theorem process_due_settles:
  assumes "sends_quietly env" and "db_faults w = []" and "distinct (map m_id (scheduled_messages w))"
  shows "\<exists>w'. process_due env w = (Inr (), w') \<and>
    list_all2 (\<lambda>r r'. if r \<in> set (take DUE_BATCH_LIMIT (order_by m_send_at (se_rank env)
        (filter (is_due (db_now w)) (scheduled_messages w)))) then settled_by env r r' else r' = r)
      (scheduled_messages w) (scheduled_messages w')"
proof -
  let ?batch = "take DUE_BATCH_LIMIT (order_by m_send_at (se_rank env) (filter (is_due (db_now w)) (scheduled_messages w)))"
  have batch: "\<forall>row \<in> set ?batch. row \<in> set (scheduled_messages w) \<and> m_status row = ''pending''"
    by (auto simp: is_due_def dest!: in_set_takeD)
  have "distinct (map m_id (filter (is_due (db_now w)) (scheduled_messages w)))"
    using assms(3) by (simp add: distinct_map_filter)
  then have "distinct (map m_id (order_by m_send_at (se_rank env) (filter (is_due (db_now w)) (scheduled_messages w))))"
    by (auto simp: order_by_def distinct_map)
  then have "distinct (map m_id ?batch)" by (simp add: take_map [symmetric])
  then obtain w' where run: "process_rows env ?batch w = (Inr (), w')"
      "list_all2 (moves env (m_id ` set ?batch)) (scheduled_messages w) (scheduled_messages w')"
    using process_rows_run [OF assms(1,2,3) _ batch] by blast
  have "list_all2 (\<lambda>r r'. if r \<in> set ?batch then settled_by env r r' else r' = r) (scheduled_messages w) (scheduled_messages w')"
  proof (rule list.rel_mono_strong [OF run(2)])
    fix r r' assume r: "r \<in> set (scheduled_messages w)" and m: "moves env (m_id ` set ?batch) r r'"
    have "m_id r \<in> m_id ` set ?batch \<longleftrightarrow> r \<in> set ?batch"
    proof
      assume "m_id r \<in> m_id ` set ?batch"
      then obtain s where s: "s \<in> set ?batch" "m_id r = m_id s" by blast
      with batch have "s \<in> set (scheduled_messages w)" by blast
      with assms(3) r s(2) have "r = s" unfolding distinct_map by (blast dest: inj_onD)
      with s(1) show "r \<in> set ?batch" by simp
    qed (rule imageI)
    moreover have "r \<in> set ?batch \<Longrightarrow> m_status r = ''pending''" using batch by blast
    ultimately show "if r \<in> set ?batch then settled_by env r r' else r' = r"
      using m unfolding moves_def by presburger
  qed
  with run assms(2) show ?thesis by (auto simp: process_due_def due_pending_def)
qed

text \<open>One row due, sent by an endpoint that answers.\<close>

definition echo_sends :: "(string, app) sched_env" where
  "echo_sends = \<lparr> se_libs = demo_libs,
     se_endpoints = \<lparr> ep_from_text = (\<lambda>ep t. Inr ep), ep_from_value = (\<lambda>ep v. Inr ep),
       ep_execute = (\<lambda>ep sid r w. (Inr \<lparr> mr_message_id = r, mr_timestamp = 0, mr_to = sid \<rparr>, w)) \<rparr>,
     se_time_text = show_int, se_rank = (\<lambda>r. 0) \<rparr>"

definition due_row :: scheduled_row where
  "due_row = new_scheduled 1 ''m'' ''s'' ''text'' ''{}'' 90000000000"

lemma process_due_settles_witness:
  "\<exists>w'. process_due echo_sends (app_demo [] [due_row]) = (Inr (), w') \<and>
     list_all (\<lambda>r. m_status r \<noteq> ''pending'') (scheduled_messages w')"
proof -
  have quiet: "sends_quietly echo_sends" by (simp add: sends_quietly_def echo_sends_def)
  have batch: "take DUE_BATCH_LIMIT (order_by m_send_at (se_rank echo_sends)
      (filter (is_due (db_now (app_demo [] [due_row]))) (scheduled_messages (app_demo [] [due_row])))) = [due_row]"
    by (simp add: DUE_BATCH_LIMIT_def order_by_def is_due_def due_row_def new_scheduled_def app_demo_def fmt_utc_def)
  obtain w' where w': "process_due echo_sends (app_demo [] [due_row]) = (Inr (), w')"
      "list_all2 (\<lambda>r r'. if r \<in> set [due_row] then settled_by echo_sends r r' else r' = r)
         (scheduled_messages (app_demo [] [due_row])) (scheduled_messages w')"
    using process_due_settles [OF quiet, of "app_demo [] [due_row]", unfolded batch] by (auto simp: app_demo_def)
  have rows: "scheduled_messages (app_demo [] [due_row]) = [due_row]" by (simp add: app_demo_def)
  have "list_all (\<lambda>r. m_status r \<noteq> ''pending'') (scheduled_messages w')"
    using w'(2) unfolding rows by (auto simp: list_all2_Cons1 settled_not_pending)
  with w'(1) show ?thesis by blast
qed

end
