(* ===== verification/Scheduler_Api.thy ===== *)
theory Scheduler_Api
  imports Scheduler_Run
begin

text \<open>
  What the endpoints of the scheduled sends promise: when a request is parked, and that a
  cancelled message is not sent.
\<close>

text \<open>The guard of the send endpoints. A request without \<open>send_at\<close>, or with one at most two
  seconds ahead, is sent now and nothing is stored. Any other is either refused with the table
  unchanged, or parked: the session is known, the table has gained one pending row with the
  request's own endpoint and body, the answer names it, and the dispatcher finds it due from
  the second of its \<open>send_at\<close> on and not before.\<close>

theorem maybe_schedule_outcome:
  "(case send_at of
      None \<Rightarrow> maybe_schedule now uuid sid ep body send_at w = (Inr None, w)
    | Some t \<Rightarrow>
        if t \<le> now + 2000000000 then maybe_schedule now uuid sid ep body send_at w = (Inr None, w)
        else (case fst (maybe_schedule now uuid sid ep body send_at w) of
            Inl e \<Rightarrow> scheduled_messages (snd (maybe_schedule now uuid sid ep body send_at w)) = scheduled_messages w
          | Inr None \<Rightarrow> False
          | Inr (Some resp) \<Rightarrow>
              dm_get (gw_sessions w) sid \<noteq> None \<and> resp = send_response_scheduled uuid t \<and>
              (\<exists>row. scheduled_messages (snd (maybe_schedule now uuid sid ep body send_at w)) = scheduled_messages w @ [row] \<and>
                 m_id row = uuid \<and> m_session_id row = sid \<and> m_endpoint row = ep \<and> Inr (m_body row) = body \<and>
                 (\<forall>clock. is_due clock row \<longleftrightarrow> t div 1000000000 \<le> clock))))"
  by (auto simp: maybe_schedule_def should_schedule_def SCHEDULE_GRACE_def insert_scheduled_def db_insert_def
      db_bind_def db_stmt_def db_return_def db_fail_def db_map_err_def is_due_def new_scheduled_def fmt_utc_def
      split: option.splits sum.splits list.splits)

lemma get_or_404_run:
  assumes "db_faults w = []"
  shows "get_scheduled_or_404 sid mid w =
    ((case find (\<lambda>r. m_session_id r = sid \<and> m_id r = mid) (scheduled_messages w) of
        None \<Rightarrow> Inl (MessageNotFound (''scheduled message '' @ mid)) | Some r \<Rightarrow> Inr r), w)"
  using assms by (auto simp: get_scheduled_or_404_def get_scheduled_def db_map_err_def db_bind_def split: option.splits)

lemma find_cancelled:
  "find (\<lambda>r. m_session_id r = sid \<and> m_id r = mid) rows = Some r \<Longrightarrow> m_status r = ''pending'' \<Longrightarrow>
   find (\<lambda>r. m_session_id r = sid \<and> m_id r = mid)
     (update_where (\<lambda>r. m_session_id r = sid \<and> m_id r = mid \<and> m_status r = ''pending'') f rows) = Some (f r)
   \<or> \<not> (m_session_id (f r) = sid \<and> m_id (f r) = mid)"
  by (induction rows) (auto split: if_splits)

text \<open>Cancelling a scheduled message, on a database that answers. A message the session does not
  have is not found and one that is no longer pending is refused by its status, both without
  effect. A pending one becomes cancelled, is returned as such, and no other row changes; from
  then on the dispatcher skips it, whatever row it had read before: it is not sent.\<close>

theorem cancel_scheduled_outcome:
  fixes w :: "'w app_scheme"
  assumes "db_faults w = []" and "distinct (map m_id (scheduled_messages w))"
  shows "(case find (\<lambda>r. m_session_id r = sid \<and> m_id r = mid) (scheduled_messages w) of
      None \<Rightarrow> cancel_scheduled lib sid mid w = (Inl (MessageNotFound (''scheduled message '' @ mid)), w)
    | Some r \<Rightarrow>
        if m_status r \<noteq> ''pending''
        then cancel_scheduled lib sid mid w = (Inl (BadRequest (''scheduled message '' @ mid @ '' is ''
               @ m_status r @ '', only pending messages can be cancelled'')), w)
        else \<exists>m w'. cancel_scheduled lib sid mid w = (Inr m, w') \<and> sm_id m = mid \<and> sm_status m = SchedCancelled \<and>
          list_all2 (\<lambda>s s'. if s = r then m_status s' = ''cancelled'' else s' = s) (scheduled_messages w) (scheduled_messages w') \<and>
          (\<forall>(env :: ('req, 'w app_scheme) sched_env) row. m_id row = mid \<longrightarrow> process_row env row w' = (Inr (), w')))"
proof (cases "find (\<lambda>r. m_session_id r = sid \<and> m_id r = mid) (scheduled_messages w)")
  case None
  then show ?thesis using assms(1) by (simp add: cancel_scheduled_def get_or_404_run db_bind_def)
next
  case (Some r)
  show ?thesis
  proof (cases "m_status r = ''pending''")
    case False
    with Some show ?thesis using assms(1) by (simp add: cancel_scheduled_def get_or_404_run db_bind_def)
  next
    case True
    let ?P = "\<lambda>r :: scheduled_row. m_session_id r = sid \<and> m_id r = mid \<and> m_status r = ''pending''"
    let ?f = "\<lambda>r :: scheduled_row. r\<lparr>m_status := ''cancelled'', m_updated_at := db_now w\<rparr>"
    have r: "r \<in> set (scheduled_messages w)" "m_session_id r = sid" "m_id r = mid" using find_key_SomeD [OF Some] by auto
    define w' where "w' = w\<lparr>scheduled_messages := update_where ?P ?f (scheduled_messages w)\<rparr>"
    have w': "db_faults w' = []" using assms(1) by (simp add: w'_def)
    have cancel: "cancel_pending sid mid w = (Inr True, w')"
    proof -
      have "cancellable_row (sid, mid) (scheduled_messages w)" using r True by (auto simp: cancellable_row_def list_ex_iff)
      then show ?thesis using assms(1)
        by (simp add: cancel_pending_def on_rows_run fst_cancel_rows w'_def) (simp add: cancel_rows_def)
    qed
    have "find (\<lambda>r. m_session_id r = sid \<and> m_id r = mid) (scheduled_messages w') = Some (?f r)"
      using find_cancelled [OF Some True, of ?f] r by (simp add: w'_def)
    then have run: "cancel_scheduled lib sid mid w = (Inr (row_to_model lib (?f r)), w')"
      using Some True assms(1) cancel w'
      by (simp add: cancel_scheduled_def get_or_404_run db_bind_def db_map_err_def)
    have eq: "s = r" if "s \<in> set (scheduled_messages w)" "m_id s = mid" for s
      using assms(2) r that unfolding distinct_map by (blast dest: inj_onD)
    have rows: "list_all2 (\<lambda>s s'. if s = r then m_status s' = ''cancelled'' else s' = s) (scheduled_messages w) (scheduled_messages w')"
    proof -
      have "?P s \<longleftrightarrow> s = r" if "s \<in> set (scheduled_messages w)" for s using eq [OF that] r True by blast
      then have "scheduled_messages w' = map (\<lambda>s. if s = r then ?f s else s) (scheduled_messages w)"
        by (simp add: w'_def update_where_def)
      then show ?thesis by (simp add: list_all2_map2 list.rel_refl_strong)
    qed
    have "\<not> claimable mid (scheduled_messages w')"
    proof
      assume "claimable mid (scheduled_messages w')"
      then obtain s where s: "s \<in> set (scheduled_messages w)"
          "m_id (if ?P s then ?f s else s) = mid" "m_status (if ?P s then ?f s else s) = ''pending''"
        by (auto simp: w'_def claimable_def list_ex_update_where)
      then have "m_id s = mid" "\<not> ?P s" by (auto split: if_splits)
      with eq [OF s(1)] r True show False by blast
    qed
    moreover from this have "update_where (\<lambda>r. m_id r = mid \<and> m_status r = ''pending'') g (scheduled_messages w')
        = scheduled_messages w'" for g
      by (auto simp: claimable_def list_ex_iff update_where_def intro!: map_idI)
    ultimately have skip: "process_row env row w' = (Inr (), w')" if "m_id row = mid" for row and env :: "('req, 'w app_scheme) sched_env"
      using that w' by (simp add: process_row_def claim_scheduled_def on_rows_run fst_claim_rows) (simp add: claim_rows_def)
    from run rows skip Some True r show ?thesis
      by (auto simp: row_to_model_def sched_status_from_str_def)
  qed
qed

lemma cancel_scheduled_outcome_witness:
  "\<exists>m w'. cancel_scheduled demo_libs ''s'' ''m'' (app_demo [] [due_row]) = (Inr m, w') \<and> sm_status m = SchedCancelled \<and>
     process_row echo_sends due_row w' = (Inr (), w')"
  using cancel_scheduled_outcome [where w = "app_demo [] [due_row]" and sid = "''s''" and mid = "''m''"
      and lib = demo_libs and 'req = string]
  by (auto simp: app_demo_def due_row_def new_scheduled_def)

end
