(* ===== verification/Auth_Facts.thy ===== *)
theory Auth_Facts
  imports Jwt_Auth
begin

text \<open>
  What the bearer check guarantees: the comparison of secrets is equality, the requests let
  through without a credential are those of the exempt paths, a minted token reaches exactly
  its sessions, and a revoked one reaches nothing.
\<close>

section \<open>Comparison\<close>

lemma fold_or_zero:
  fixes acc :: "8 word"
  shows "foldl (\<lambda>acc (x, y). acc OR (x XOR y)) acc zs = 0 \<longleftrightarrow> acc = 0 \<and> (\<forall>(x, y) \<in> set zs. x = y)"
proof (induction zs arbitrary: acc)
  case (Cons z zs)
  obtain x y where z: "z = (x, y)" by (cases z)
  have "x XOR y = 0 \<longleftrightarrow> x = y" by (auto simp: bit_eq_iff bit_xor_iff)
  then have "acc OR (x XOR y) = 0 \<longleftrightarrow> acc = 0 \<and> x = y" by (simp add: or_eq_0_iff)
  then show ?case by (auto simp: z Cons.IH)
qed simp

lemma byte_of_char_inj: "word_of_nat (of_char c) = (word_of_nat (of_char d) :: 8 word) \<longleftrightarrow> c = d"
proof -
  have "unat (word_of_nat (of_char e) :: 8 word) = of_char e" for e :: char
    by (simp add: unat_of_nat)
  then show ?thesis by (metis char_of_char)
qed

text \<open>The constant-time comparison is equality of the two texts, whatever their lengths and
  whichever bytes differ.\<close>

theorem constant_time_eq_iff: "constant_time_eq a b \<longleftrightarrow> a = b"
proof -
  have "(\<forall>(x, y) \<in> set (zip (bytes_of a) (bytes_of b)). x = y) \<longleftrightarrow> a = b" if "length a = length b"
    using that by (induction a b rule: list_induct2) (auto simp: bytes_of_def byte_of_char_inj)
  then show ?thesis by (auto simp: constant_time_eq_def fold_or_zero bytes_of_def)
qed

section \<open>Requests without a credential\<close>

lemma split_on_middle: "split_on d (p @ d # q) = split_on d p @ split_on d q"
  by (induction p) (auto split: list.splits)

lemma join_with_append: "xs \<noteq> [] \<Longrightarrow> ys \<noteq> [] \<Longrightarrow> join_with sep (xs @ ys) = join_with sep xs @ sep @ join_with sep ys"
proof (induction xs)
  case (Cons x xs)
  then show ?case by (cases xs; cases ys) auto
qed simp

lemma ends_with_iff: "ends_with p s \<longleftrightarrow> (\<exists>q. s = q @ p)"
proof -
  have "ends_with p s \<longleftrightarrow> (\<exists>r. rev s = rev p @ r)"
    unfolding ends_with_def by (metis starts_withE starts_with_append)
  then show ?thesis by (metis rev_append rev_rev_ident)
qed

text \<open>A path that starts at the root ends with a chain of segments exactly when they are its last.\<close>

lemma ends_with_segments:
  assumes "segs \<noteq> []" and "\<And>x. x \<in> set segs \<Longrightarrow> CHR ''/'' \<notin> set x \<and> x \<noteq> []" and root: "path = CHR ''/'' # rest"
  shows "ends_with (CHR ''/'' # join_with ''/'' segs) path \<longleftrightarrow>
     take (length segs) (rev (split_on (CHR ''/'') path)) = rev segs"
proof
  assume "ends_with (CHR ''/'' # join_with ''/'' segs) path"
  then obtain q where q: "path = q @ CHR ''/'' # join_with ''/'' segs" by (auto simp: ends_with_iff)
  have "split_on (CHR ''/'') (join_with ''/'' segs) = segs" using assms(1,2) by (intro split_on_join_with) auto
  then show "take (length segs) (rev (split_on (CHR ''/'') path)) = rev segs" by (simp add: q split_on_middle)
next
  let ?all = "split_on (CHR ''/'') path"
  assume last: "take (length segs) (rev ?all) = rev segs"
  define xs where "xs = rev (drop (length segs) (rev ?all))"
  have all: "?all = xs @ segs"
    using arg_cong [OF append_take_drop_id [of "length segs" "rev ?all"], of rev] by (simp add: last xs_def)
  have "xs \<noteq> []"
  proof
    assume "xs = []"
    then have "[] # split_on (CHR ''/'') rest = segs" using all root by simp
    then have "[] \<in> set segs" by auto
    then show False using assms(2) by blast
  qed
  then have "path = join_with ''/'' xs @ CHR ''/'' # join_with ''/'' segs"
    using split_on_join [of "CHR ''/''" path] assms(1) by (simp add: all join_with_append)
  then show "ends_with (CHR ''/'' # join_with ''/'' segs) path" by (auto simp: ends_with_iff)
qed

lemma exempt_segments:
  assumes "starts_with ''/api/'' path"
  shows "exempt path \<longleftrightarrow> take 2 (rev (split_on (CHR ''/'') path)) = [''webhook'', ''cloud''] \<or>
    take 3 (rev (split_on (CHR ''/'') path)) = [''exchange'', ''flow-endpoint'', ''cloud'']"
proof -
  obtain rest where path: "path = ''/api/'' @ rest" using assms by (rule starts_withE)
  have root: "path = CHR ''/'' # ''api/'' @ rest" using path by simp
  have "ends_with (CHR ''/'' # join_with ''/'' segs) path \<longleftrightarrow>
      take (length segs) (rev (split_on (CHR ''/'') path)) = rev segs"
    if "segs = [''cloud'', ''webhook''] \<or> segs = [''cloud'', ''flow-endpoint'', ''exchange'']" for segs
    using that by (intro ends_with_segments [OF _ _ root]) auto
  from this [of "[''cloud'', ''webhook'']"] this [of "[''cloud'', ''flow-endpoint'', ''exchange'']"]
  have "ends_with ''/cloud/webhook'' path \<longleftrightarrow> take 2 (rev (split_on (CHR ''/'') path)) = [''webhook'', ''cloud'']"
    "ends_with ''/cloud/flow-endpoint/exchange'' path \<longleftrightarrow>
      take 3 (rev (split_on (CHR ''/'') path)) = [''exchange'', ''flow-endpoint'', ''cloud'']"
    by (simp_all add: numeral_2_eq_2 numeral_3_eq_3)
  moreover have "\<not> is_console_path path" "path \<notin> {''/health'', ''/livez'', ''/readyz'', ''/metrics''}"
    by (simp_all add: path is_console_path_def starts_with_def)
  ultimately show ?thesis unfolding exempt_def by blast
qed

text \<open>C32. A request under \<open>/api/\<close> with neither a bearer header nor the console's cookie gets through,
  without a scope, exactly when the last segments of its path are \<open>cloud/webhook\<close> or
  \<open>cloud/flow-endpoint/exchange\<close>; every other one is answered 401, and the database is not asked
  either way. The end of the path is all that counts: the results of a poll in a chat named
  \<open>cloud\<close> with the message id \<open>webhook\<close>, a route that is no Cloud API call-back, get through too.\<close>

theorem uncredentialed_iff_exempt:
  assumes "request_token rq = None" and "starts_with ''/api/'' (rq_path rq)"
  shows "jwt_auth_middleware jl cfg rq w =
      (if take 2 (rev (split_on (CHR ''/'') (rq_path rq))) = [''webhook'', ''cloud''] \<or>
          take 3 (rev (split_on (CHR ''/'') (rq_path rq))) = [''exchange'', ''flow-endpoint'', ''cloud'']
       then Pass None else Unauthorized ''Missing or invalid Authorization header. Use: Bearer <token>'', w) \<and>
    jwt_auth_middleware jl cfg (rq\<lparr>rq_path := ''/api/v1/sessions/'' @ sid @ ''/polls/cloud/webhook''\<rparr>) w = (Pass None, w)"
proof
  show "jwt_auth_middleware jl cfg rq w =
      (if take 2 (rev (split_on (CHR ''/'') (rq_path rq))) = [''webhook'', ''cloud''] \<or>
          take 3 (rev (split_on (CHR ''/'') (rq_path rq))) = [''exchange'', ''flow-endpoint'', ''cloud'']
       then Pass None else Unauthorized ''Missing or invalid Authorization header. Use: Bearer <token>'', w)"
    by (simp add: jwt_auth_middleware_def exempt_segments [OF assms(2), symmetric] assms(1))
  have "ends_with ''/cloud/webhook'' (''/api/v1/sessions/'' @ sid @ ''/polls/cloud/webhook'')"
    by (simp add: ends_with_def starts_with_def)
  then show "jwt_auth_middleware jl cfg (rq\<lparr>rq_path := ''/api/v1/sessions/'' @ sid @ ''/polls/cloud/webhook''\<rparr>) w = (Pass None, w)"
    by (simp add: jwt_auth_middleware_def exempt_def)
qed

text \<open>A toy of the JWT library: the token is the role and the token id, under a length prefix.\<close>

definition demo_jwt :: jwt_lib where
  "demo_jwt = \<lparr> jwt_encode = (\<lambda>secret c. case cl_jti c of
        None \<Rightarrow> CHR ''n'' # cl_role c
      | Some j \<Rightarrow> CHR ''s'' # replicate (length (cl_role c)) (CHR ''1'') @ CHR ''0'' # cl_role c @ j),
     jwt_decode = (\<lambda>secret now t. case t of
        [] \<Rightarrow> Inl InvalidToken
      | c # r \<Rightarrow>
          if c = CHR ''n'' then Inr \<lparr> cl_sub = [], cl_role = r, cl_exp = 0, cl_iat = 0, cl_jti = None \<rparr>
          else let n = length (takeWhile (\<lambda>d. d = CHR ''1'') r); body = drop (n + 1) r
            in Inr \<lparr> cl_sub = [], cl_role = take n body, cl_exp = 0, cl_iat = 0, cl_jti = Some (drop n body) \<rparr>) \<rparr>"

definition demo_auth :: auth_config where
  "demo_auth = \<lparr> ac_superadmin_token = None, ac_jwt_secret = Some ''k'', ac_fallback_secret = [] \<rparr>"

definition demo_claims :: claims where
  "demo_claims = \<lparr> cl_sub = ''t1'', cl_role = ''superadmin'', cl_exp = 5000, cl_iat = 0, cl_jti = Some ''t1'' \<rparr>"

definition demo_token :: string where
  "demo_token = jwt_encode demo_jwt ''k'' demo_claims"

definition token_world :: "session_row list \<Rightarrow> token_db" where
  "token_world ss = \<lparr> db_driver = SQLite, db_faults = [], db_now = 1000, sessions = ss, webhook_rows = [],
     contact_rows = [], dlq_rows = [], tokens = [], token_sessions = [], token_prefixes = [] \<rparr>"

definition granted_world :: token_db where
  "granted_world = (token_world [])\<lparr>tokens := [\<lparr> t_id = ''t1'', t_name = None, t_created_at = 0, t_expires_at = Some 5000,
     t_revoked_at = None \<rparr>], token_sessions := [(''t1'', ''a'')]\<rparr>"

definition plain_request :: "string \<Rightarrow> string option \<Rightarrow> auth_request" where
  "plain_request path token = \<lparr> rq_method = ''GET'', rq_path = path,
     rq_authorization = map_option (\<lambda>t. ''Bearer '' @ t) token, rq_cookie = None \<rparr>"

lemma strip_prefix_append: "strip_prefix p (p @ s) = Some s"
  by (simp add: strip_prefix_def)

lemma plain_request_token [simp]: "request_token (plain_request path token) = token"
  by (cases token)
    (simp_all add: request_token_def plain_request_def cookie_token_def strip_prefix_append del: append.simps)

lemma uncredentialed_iff_exempt_witness:
  "fst (jwt_auth_middleware demo_jwt demo_auth (plain_request ''/api/v1/sessions'' None) (token_world [])) =
     Unauthorized ''Missing or invalid Authorization header. Use: Bearer <token>'' \<and>
   fst (jwt_auth_middleware demo_jwt demo_auth (plain_request ''/api/v1/sessions/s/cloud/webhook'' None) (token_world [])) = Pass None"
  using uncredentialed_iff_exempt [OF plain_request_token, of "''/api/v1/sessions''" demo_jwt demo_auth "token_world []" "[]"]
    uncredentialed_iff_exempt [OF plain_request_token, of "''/api/v1/sessions/s/cloud/webhook''" demo_jwt demo_auth "token_world []" "[]"]
  by (simp add: plain_request_def starts_with_def numeral_2_eq_2 numeral_3_eq_3)

section \<open>Scope\<close>

definition scope_allows :: "auth_request \<Rightarrow> string list \<Rightarrow> string list \<Rightarrow> bool" where
  "scope_allows rq ids prefixes \<longleftrightarrow>
     (case session_id_from_path (rq_path rq) of
        Some sid \<Rightarrow> sid \<in> set ids \<or> (\<exists>p \<in> set prefixes. \<exists>rest. sid = p @ rest)
      | None \<Rightarrow> rq_path rq \<in> {''/api/v1/sessions'', ''/api/v1/sessions/''} \<and>
          (rq_method rq = ''GET'' \<or> rq_method rq = ''POST'' \<and> prefixes \<noteq> []))"

lemma starts_with_iff: "starts_with p s \<longleftrightarrow> (\<exists>rest. s = p @ rest)"
  by (metis starts_withE starts_with_append)

lemma in_scope_iff: "in_scope rq st \<longleftrightarrow> scope_allows rq (ts_session_ids st) (ts_session_prefixes st)"
  by (auto simp: in_scope_def scope_allows_def covers_def scoped_collection_access_def list_ex_iff starts_with_iff
      split: option.splits)

lemma check_scope_Pass:
  assumes "check_scope rq jti w = (Pass sc, w')"
  shows "\<exists>t st. find_token jti w = Some t \<and> t_revoked_at t = None \<and> sc = Some st \<and>
    ts_session_ids st = values_of jti (token_sessions w) \<and> ts_session_prefixes st = values_of jti (token_prefixes w) \<and>
    in_scope rq st"
proof -
  obtain res w1 where st: "token_status_of jti w = (res, w1)" by fastforce
  with assms obtain s where s: "res = Inr (Some s)" "\<not> ts_revoked s" "in_scope rq s" "sc = Some s"
    by (auto simp: check_scope_def split: sum.splits option.splits if_splits)
  with token_status_frame(5) [OF st s(1)] show ?thesis by auto
qed

lemma check_scope_run:
  "db_faults w = [] \<Longrightarrow> fst (check_scope rq jti w) = Pass sc \<longleftrightarrow>
     (\<exists>t. find_token jti w = Some t \<and> t_revoked_at t = None) \<and>
     scope_allows rq (values_of jti (token_sessions w)) (values_of jti (token_prefixes w)) \<and>
     sc = Some \<lparr> ts_revoked = False, ts_session_ids = values_of jti (token_sessions w),
       ts_session_prefixes = values_of jti (token_prefixes w) \<rparr>"
  by (auto simp: check_scope_def token_status_run in_scope_iff split: option.splits)

text \<open>C31. A minted token opens exactly its sessions and the sessions collection. A request that is not
  exempt and carries a token with a token id gets through only if, whatever the database does
  on the way, the token is recorded and not revoked, and the path names a session that is
  listed for it or starts with one of its prefixes, or is the sessions collection read by GET,
  or posted to with a token that has prefixes; the scope handed on is the recorded one, and the
  same token does not open the console. With a database that answers and the role of every
  minted token, these conditions are also enough.\<close>

theorem scoped_token_confined:
  assumes "\<not> exempt (rq_path rq)" and "request_token rq = Some token" and "\<not> is_superadmin_token cfg token"
    and "validate_token jl cfg (db_now w) token = Inr c" and "cl_jti c = Some jti"
  shows "(\<forall>sc w'. jwt_auth_middleware jl cfg rq w = (Pass sc, w') \<longrightarrow>
      (\<exists>t st. find_token jti w = Some t \<and> t_revoked_at t = None \<and> sc = Some st \<and>
        ts_session_ids st = values_of jti (token_sessions w) \<and> ts_session_prefixes st = values_of jti (token_prefixes w) \<and>
        scope_allows rq (ts_session_ids st) (ts_session_prefixes st))) \<and>
    \<not> token_is_superadmin jl cfg (db_now w) token \<and>
    (db_faults w = [] \<longrightarrow>
      (fst (jwt_auth_middleware jl cfg rq w) = Pass sc \<longleftrightarrow>
        cl_role c = ''superadmin'' \<and> (\<exists>t. find_token jti w = Some t \<and> t_revoked_at t = None) \<and>
        scope_allows rq (values_of jti (token_sessions w)) (values_of jti (token_prefixes w)) \<and>
        sc = Some \<lparr> ts_revoked = False, ts_session_ids = values_of jti (token_sessions w),
          ts_session_prefixes = values_of jti (token_prefixes w) \<rparr>))"
proof -
  have run: "jwt_auth_middleware jl cfg rq w =
      (if is_superadmin c then check_scope rq jti w else (ForbiddenBy ''Superadmin role required'', w))"
    using assms by (simp add: jwt_auth_middleware_def)
  have "\<forall>sc w'. jwt_auth_middleware jl cfg rq w = (Pass sc, w') \<longrightarrow>
      (\<exists>t st. find_token jti w = Some t \<and> t_revoked_at t = None \<and> sc = Some st \<and>
        ts_session_ids st = values_of jti (token_sessions w) \<and> ts_session_prefixes st = values_of jti (token_prefixes w) \<and>
        scope_allows rq (ts_session_ids st) (ts_session_prefixes st))"
    using check_scope_Pass [of rq jti w] by (auto simp: run in_scope_iff)
  moreover have "\<not> token_is_superadmin jl cfg (db_now w) token" using assms(3-5) by (simp add: token_is_superadmin_def)
  moreover have "db_faults w = [] \<longrightarrow>
      (fst (jwt_auth_middleware jl cfg rq w) = Pass sc \<longleftrightarrow>
        cl_role c = ''superadmin'' \<and> (\<exists>t. find_token jti w = Some t \<and> t_revoked_at t = None) \<and>
        scope_allows rq (values_of jti (token_sessions w)) (values_of jti (token_prefixes w)) \<and>
        sc = Some \<lparr> ts_revoked = False, ts_session_ids = values_of jti (token_sessions w),
          ts_session_prefixes = values_of jti (token_prefixes w) \<rparr>)"
    using check_scope_run [of w rq jti sc] by (auto simp: run is_superadmin_def)
  ultimately show ?thesis by blast
qed

lemma demo_token_decoded:
  "validate_token demo_jwt demo_auth now demo_token = Inr \<lparr> cl_sub = [], cl_role = ''superadmin'', cl_exp = 0, cl_iat = 0,
     cl_jti = Some ''t1'' \<rparr>"
  by (simp add: validate_token_def demo_jwt_def demo_token_def demo_claims_def)

lemma scoped_token_confined_witness:
  "fst (jwt_auth_middleware demo_jwt demo_auth (plain_request ''/api/v1/sessions/a/messages'' (Some demo_token)) granted_world)
     = Pass (Some \<lparr> ts_revoked = False, ts_session_ids = [''a''], ts_session_prefixes = [] \<rparr>) \<and>
   fst (jwt_auth_middleware demo_jwt demo_auth (plain_request ''/api/v1/sessions/b/messages'' (Some demo_token)) granted_world)
     \<noteq> Pass (Some \<lparr> ts_revoked = False, ts_session_ids = [''a''], ts_session_prefixes = [] \<rparr>) \<and>
   \<not> token_is_superadmin demo_jwt demo_auth 1000 demo_token"
proof -
  let ?rq = "\<lambda>path. plain_request path (Some demo_token)"
  have ex: "\<not> exempt (rq_path (?rq ''/api/v1/sessions/a/messages''))" "\<not> exempt (rq_path (?rq ''/api/v1/sessions/b/messages''))"
    by (simp_all add: exempt_def ends_with_def starts_with_def is_console_path_def plain_request_def)
  have sa: "\<not> is_superadmin_token demo_auth demo_token"
    by (simp add: is_superadmin_token_def demo_auth_def)
  have w: "db_faults granted_world = []" "db_now granted_world = 1000" "values_of ''t1'' (token_sessions granted_world) = [''a'']"
      "values_of ''t1'' (token_prefixes granted_world) = []" "\<exists>t. find_token ''t1'' granted_world = Some t \<and> t_revoked_at t = None"
    by (simp_all add: granted_world_def token_world_def values_of_def find_token_def)
  have "scope_allows (?rq ''/api/v1/sessions/a/messages'') [''a''] []" "\<not> scope_allows (?rq ''/api/v1/sessions/b/messages'') [''a''] []"
    by (simp_all add: scope_allows_def session_id_from_path_def strip_prefix_def starts_with_def plain_request_def)
  moreover note
    scoped_token_confined [where w = granted_world and jti = "''t1''"
        and sc = "Some \<lparr> ts_revoked = False, ts_session_ids = [''a''], ts_session_prefixes = [] \<rparr>",
      OF ex(1) plain_request_token sa demo_token_decoded]
    scoped_token_confined [where w = granted_world and jti = "''t1''"
        and sc = "Some \<lparr> ts_revoked = False, ts_session_ids = [''a''], ts_session_prefixes = [] \<rparr>",
      OF ex(2) plain_request_token sa demo_token_decoded]
  ultimately show ?thesis using w by (simp add: w del: split_paired_All)
qed

lemma find_token_update:
  "find (\<lambda>t. t_id t = j) (update_where (revocable jti) (revoke_row now) ts) =
     map_option (\<lambda>t. if revocable jti t then revoke_row now t else t) (find (\<lambda>t. t_id t = j) ts)"
  by (induction ts) (auto simp: revocable_def revoke_row_def)

lemma revoke_finds:
  assumes "revoke_db jti w = (Inr b, w1)"
  shows "find_token j w1 = map_option (\<lambda>t. if revocable jti t then revoke_row (db_now w) t else t) (find_token j w)"
  using assms by (auto simp: revoke_db_def db_stmt_def find_token_def find_token_update split: list.splits option.splits)

lemma revoked_after:
  assumes "revoke_db jti w = (Inr b, w1)" and "find_token jti w1 = Some t"
  shows "t_revoked_at t \<noteq> None"
proof -
  obtain t0 where "find_token jti w = Some t0" "t = (if revocable jti t0 then revoke_row (db_now w) t0 else t0)"
    using assms revoke_finds [OF assms(1), of jti] by auto
  then show ?thesis by (auto simp: revocable_def revoke_row_def find_token_def find_Some_iff)
qed

lemma check_scope_revoked:
  assumes "db_faults w = []" and "\<And>t. find_token jti w = Some t \<Longrightarrow> t_revoked_at t \<noteq> None"
  shows "fst (check_scope rq jti w) =
    ForbiddenBy (if find_token jti w = None then ''Token is no longer valid'' else ''Token has been revoked'')"
  using assms by (cases "find_token jti w") (auto simp: check_scope_def token_status_run)

text \<open>C18. Revoking works at once, for good, and for that token only. After a revocation that reached
  the database, whether it found the token live or not, no request that needs the token gets through
  at any later time, however the database then answers, as long as the token's row is as the
  revocation left it. With a database that answers, the refusal tells whether the token was revoked
  or is unknown. The rows of the other tokens are as they were.\<close>

theorem revoked_token_refused:
  assumes "revoke_db jti w = (Inr b, w1)" and "find_token jti w2 = find_token jti w1"
    and "\<not> exempt (rq_path rq)" and "request_token rq = Some token" and "\<not> is_superadmin_token cfg token"
    and "validate_token jl cfg (db_now w2) token = Inr c" and "cl_jti c = Some jti"
  shows "(\<forall>sc. fst (jwt_auth_middleware jl cfg rq w2) \<noteq> Pass sc) \<and>
    (cl_role c = ''superadmin'' \<and> db_faults w2 = [] \<longrightarrow>
      fst (jwt_auth_middleware jl cfg rq w2) =
        ForbiddenBy (if find_token jti w = None then ''Token is no longer valid'' else ''Token has been revoked'')) \<and>
    (j \<noteq> jti \<longrightarrow> find_token j w1 = find_token j w)"
proof -
  have run: "jwt_auth_middleware jl cfg rq w2 =
      (if is_superadmin c then check_scope rq jti w2 else (ForbiddenBy ''Superadmin role required'', w2))"
    using assms(3-7) by (simp add: jwt_auth_middleware_def)
  have revoked: "t_revoked_at t \<noteq> None" if "find_token jti w2 = Some t" for t
    using that assms(2) revoked_after [OF assms(1)] by simp
  have "fst (check_scope rq jti w2) \<noteq> Pass sc" for sc
    using check_scope_Pass [of rq jti w2 sc] revoked by (cases "check_scope rq jti w2") auto
  moreover have "find_token jti w2 = None \<longleftrightarrow> find_token jti w = None"
    using revoke_finds [OF assms(1), of jti] assms(2) by simp
  moreover have "find_token j w1 = find_token j w" if "j \<noteq> jti"
  proof -
    have "\<not> revocable jti t" if "find_token j w = Some t" for t
      using that \<open>j \<noteq> jti\<close> by (auto simp: revocable_def find_token_def find_Some_iff)
    then show ?thesis using revoke_finds [OF assms(1), of j] by (cases "find_token j w") auto
  qed
  ultimately show ?thesis using check_scope_revoked [of w2 jti rq] revoked by (simp add: run is_superadmin_def)
qed

lemma revoked_token_refused_witness:
  "fst (revoke_db ''t1'' granted_world) = Inr True \<and>
   (\<forall>sc. fst (jwt_auth_middleware demo_jwt demo_auth (plain_request ''/api/v1/sessions/a/messages'' (Some demo_token))
       (snd (revoke_db ''t1'' granted_world))) \<noteq> Pass sc)"
proof -
  let ?rq = "plain_request ''/api/v1/sessions/a/messages'' (Some demo_token)"
  have run: "revoke_db ''t1'' granted_world = (Inr True, snd (revoke_db ''t1'' granted_world))"
    by (simp add: revoke_db_def granted_world_def token_world_def revocable_def update_where_def affected_def)
  have ex: "\<not> exempt (rq_path ?rq)"
    by (simp add: exempt_def ends_with_def starts_with_def is_console_path_def plain_request_def)
  have sa: "\<not> is_superadmin_token demo_auth demo_token"
    by (simp add: is_superadmin_token_def demo_auth_def)
  show ?thesis
    using revoked_token_refused [OF run refl ex plain_request_token sa demo_token_decoded] run
    by (metis (no_types) claims.select_convs(5) fst_conv)
qed

section \<open>From minting to use\<close>

text \<open>
  The JWT library gives back the role and the token id of a token it signed with the same
  secret, until the token expires.
\<close>

definition jwt_keeps :: "jwt_lib \<Rightarrow> string \<Rightarrow> unix \<Rightarrow> bool" where
  "jwt_keeps jl secret now \<longleftrightarrow> (\<forall>c. now \<le> int (cl_exp c) \<longrightarrow>
     (\<exists>c'. jwt_decode jl secret now (jwt_encode jl secret c) = Inr c' \<and> cl_role c' = cl_role c \<and> cl_jti c' = cl_jti c))"

lemma require_sessions_frame:
  "require_sessions sids w = (res, w') \<Longrightarrow> tokens w' = tokens w \<and> token_sessions w' = token_sessions w \<and>
     token_prefixes w' = token_prefixes w \<and> db_now w' = db_now w \<and> (db_faults w = [] \<longrightarrow> db_faults w' = [])"
proof (induction sids arbitrary: w)
  case (Cons sid sids)
  have frame: "tokens (snd (get_session sid w)) = tokens w \<and> token_sessions (snd (get_session sid w)) = token_sessions w \<and>
     token_prefixes (snd (get_session sid w)) = token_prefixes w \<and> db_now (snd (get_session sid w)) = db_now w \<and>
     (db_faults w = [] \<longrightarrow> db_faults (snd (get_session sid w)) = [])"
    by (auto simp: get_session_def db_stmt_def split: list.splits option.splits)
  show ?case
    using Cons.prems Cons.IH frame
    by (fastforce simp: db_bind_def db_map_err_def split: prod.splits sum.splits option.splits)
qed (simp add: db_return_def)

lemma mint_token_Inr:
  assumes "mint_token jl cfg uuid rq w = Some (Inr resp, w')"
  shows "\<exists>t hours. tokens w' = tokens w @ [t] \<and> t_id t = uuid \<and> t_revoked_at t = None \<and>
    token_sessions w' = token_sessions w @ map (Pair uuid) (mq_session_ids rq) \<and>
    token_prefixes w' = token_prefixes w @ map (Pair uuid) (mq_session_prefixes rq) \<and>
    (db_faults w = [] \<longrightarrow> db_faults w' = []) \<and>
    mp_token resp = generate_token jl cfg (db_now w') uuid ''superadmin'' hours (Some uuid) \<and>
    mp_expires_at resp = db_now w' + hours * 3600 \<and> mp_expires_at resp \<le> MAX_UTC \<and> 1 \<le> hours \<and> db_now w' = db_now w"
proof -
  obtain u w1 e where w1: "require_sessions (mq_session_ids rq) w = (Inr u, w1)"
      "add_hours (db_now w1) (max 1 (case mq_expires_in_hours rq of None \<Rightarrow> 24 * 30 | Some h \<Rightarrow> h)) = Some e"
      "create_token uuid (mq_name rq) (Some e) (mq_session_ids rq) (mq_session_prefixes rq) w1 = (Inr (), w')"
      "mp_token resp = generate_token jl cfg (db_now w') uuid ''superadmin'' (max 1 (case mq_expires_in_hours rq of None \<Rightarrow> 24 * 30 | Some h \<Rightarrow> h)) (Some uuid)"
      "mp_expires_at resp = e"
    using assms
    by (auto simp: mint_token_def Let_def db_bind_def db_map_err_def split: if_splits option.splits prod.splits sum.splits)
  let ?h = "max 1 (case mq_expires_in_hours rq of None \<Rightarrow> 24 * 30 | Some h \<Rightarrow> h)"
  have e: "e = db_now w1 + ?h * 3600" "e \<le> MAX_UTC" "1 \<le> ?h"
    using w1(2) unfolding add_hours_def by (simp_all split: if_splits)
  obtain t where t: "tokens w' = tokens w1 @ [t]" "t_id t = uuid" "t_revoked_at t = None"
      "token_sessions w' = token_sessions w1 @ map (Pair uuid) (mq_session_ids rq)"
      "token_prefixes w' = token_prefixes w1 @ map (Pair uuid) (mq_session_prefixes rq)"
      "db_now w' = db_now w1" "db_faults w1 = [] \<longrightarrow> db_faults w' = []"
    using create_token_Inr [OF w1(3)] by blast
  show ?thesis
    using t e w1(4,5) require_sessions_frame [OF w1(1)]
    by (intro exI [of _ t] exI [of _ ?h]) simp
qed

text \<open>What is minted is what is granted. After a token was minted on a database that answers,
  under an id not in use, a request that carries it before it expires, and whose path is not
  exempt, gets through exactly when it stays inside the session ids and prefixes of the mint
  request.\<close>

theorem minted_token_scope:
  assumes "mint_token jl cfg uuid mint w = Some (Inr resp, w1)" and "db_faults w = []" and "0 \<le> db_now w"
    and "find_token uuid w = None" and "uuid \<notin> fst ` set (token_sessions w)" and "uuid \<notin> fst ` set (token_prefixes w)"
    and "jwt_keeps jl (auth_secret cfg) now" and "now \<le> mp_expires_at resp"
    and "request_token rq = Some (mp_token resp)" and "\<not> is_superadmin_token cfg (mp_token resp)" and "\<not> exempt (rq_path rq)"
  shows "(\<exists>sc. fst (jwt_auth_middleware jl cfg rq (w1\<lparr>db_now := now\<rparr>)) = Pass sc)
     = scope_allows rq (mq_session_ids mint) (mq_session_prefixes mint)"
proof -
  obtain t hours where m: "tokens w1 = tokens w @ [t]" "t_id t = uuid" "t_revoked_at t = None"
      "token_sessions w1 = token_sessions w @ map (Pair uuid) (mq_session_ids mint)"
      "token_prefixes w1 = token_prefixes w @ map (Pair uuid) (mq_session_prefixes mint)" "db_faults w1 = []"
      "mp_token resp = generate_token jl cfg (db_now w1) uuid ''superadmin'' hours (Some uuid)"
      "mp_expires_at resp = db_now w1 + hours * 3600" "mp_expires_at resp \<le> MAX_UTC" "1 \<le> hours" "db_now w1 = db_now w"
    using mint_token_Inr [OF assms(1)] assms(2) by auto
  have "0 \<le> mp_expires_at resp" using m(8,10,11) assms(3) by simp
  then have exp: "int (as_usize (mp_expires_at resp)) = mp_expires_at resp"
    using m(9) by (simp add: as_usize_def MAX_UTC_def)
  define c where "c = \<lparr> cl_sub = uuid, cl_role = ''superadmin'', cl_exp = as_usize (mp_expires_at resp),
       cl_iat = as_usize (db_now w1), cl_jti = Some uuid \<rparr>"
  have tok: "mp_token resp = jwt_encode jl (auth_secret cfg) c" by (simp add: m(7) generate_token_def c_def m(8))
  have "now \<le> int (cl_exp c)" using exp assms(8) by (simp add: c_def)
  then obtain c' where c': "jwt_decode jl (auth_secret cfg) now (mp_token resp) = Inr c'" "cl_role c' = ''superadmin''" "cl_jti c' = Some uuid"
    using assms(7) unfolding jwt_keeps_def tok by (force simp: c_def)
  let ?w = "w1\<lparr>db_now := now\<rparr>"
  let ?st = "\<lparr> ts_revoked = False, ts_session_ids = mq_session_ids mint, ts_session_prefixes = mq_session_prefixes mint \<rparr>"
  have "find_token uuid ?w = Some t"
    using assms(4) m(1,2) by (simp add: find_token_def find_append)
  then have "token_status_of uuid ?w = (Inr (Some ?st), ?w)"
    using m(3-6) assms(5,6) by (simp add: token_status_run values_of_none)
  then have "check_scope rq uuid ?w = (if in_scope rq ?st then (Pass (Some ?st), ?w) else (ForbiddenBy ''Token is not authorized for this session'', ?w))"
    by (simp add: check_scope_def)
  then show ?thesis
    using assms(9-11) c' by (auto simp: jwt_auth_middleware_def validate_token_def is_superadmin_def in_scope_iff)
qed

lemma demo_jwt_keeps: "jwt_keeps demo_jwt secret now"
proof -
  have w: "takeWhile (\<lambda>d. d = CHR ''1'') (replicate n (CHR ''1'') @ CHR ''0'' # r) = replicate n (CHR ''1'')" for n and r :: string
    by (induction n) simp_all
  show ?thesis
    by (auto simp: jwt_keeps_def demo_jwt_def w split: option.splits)
qed

lemma minted_token_scope_witness:
  "\<exists>resp w1. mint_token demo_jwt demo_auth ''t2'' \<lparr> mq_name = None, mq_session_ids = [], mq_session_prefixes = [''ops-''],
     mq_expires_in_hours = None \<rparr> (token_world []) = Some (Inr resp, w1) \<and>
   (\<exists>sc. fst (jwt_auth_middleware demo_jwt demo_auth (plain_request ''/api/v1/sessions'' (Some (mp_token resp)))
       (w1\<lparr>db_now := 2000\<rparr>)) = Pass sc)"
proof -
  let ?m = "\<lparr> mq_name = None, mq_session_ids = [], mq_session_prefixes = [''ops-''], mq_expires_in_hours = None \<rparr>"
  obtain resp w1 where run: "mint_token demo_jwt demo_auth ''t2'' ?m (token_world []) = Some (Inr resp, w1)"
      and exp: "2000 \<le> mp_expires_at resp"
    by (auto simp: mint_token_def valid_session_prefix_def is_alnum_def Let_def add_hours_def MAX_UTC_def token_world_def db_return_def
        create_token_def insert_token_def db_insert_def db_bind_def db_stmt_def find_token_def insert_token_prefix_def db_map_err_def)
  have ex: "\<not> exempt (rq_path (plain_request ''/api/v1/sessions'' (Some (mp_token resp))))"
    by (simp add: exempt_def ends_with_def starts_with_def is_console_path_def plain_request_def)
  have sa: "\<not> is_superadmin_token demo_auth (mp_token resp)"
    by (simp add: is_superadmin_token_def demo_auth_def)
  have "scope_allows (plain_request ''/api/v1/sessions'' (Some (mp_token resp))) [] [''ops-'']"
    by (simp add: scope_allows_def plain_request_def session_id_from_path_def strip_prefix_def starts_with_def)
  then show ?thesis
    using minted_token_scope [OF run _ _ _ _ _ demo_jwt_keeps exp plain_request_token sa ex] run
    by (auto simp: token_world_def find_token_def)
qed

end
