(* ===== verification/Spec2Isabelle.thy ===== *)
theory Spec2Isabelle
  imports Preview_Facts Cloud_Facts Transfer_Facts Connect_Wait Session_Watchdog Message_Store_Facts Device_Props Gateway_Config Recent_Ids Webhook_Circuit Webhook_Event Webhook_Api Session_Runtime Blast_Control Blast_Create Scheduler_Api Auth_Facts New_Chat_Facts Session_Admin_Facts
begin

text \<open>
  Waxum is an HTTP gateway to WhatsApp: sessions (linked accounts) are created over a REST
  interface, messages are sent through them at once, later or to many recipients, and what
  happens is reported to webhooks. This development models the logic of the gateway itself, in
  the Rust files under \<open>src/src/\<close>; the WhatsApp client library, the HTTP client, the database
  drivers and the other crates are outside and appear as arguments.

  How the code is modelled. A \<open>DashMap\<close> is an association list with distinct keys
  (\<open>Dash_Map\<close>), each operation atomic on its key. The SQL tables are lists of rows; a statement is a
  function that takes effect as a whole or fails with a driver error, and which of the
  statements to come fail is told by \<open>db_faults\<close> (\<open>Sql_Store\<close>), so that a lemma proved for
  every \<open>db_faults\<close> holds at every failure point and one that assumes \<open>db_faults w = []\<close> is
  about a database that answers. Handlers return \<open>api_error + 'a\<close> with the changed state;
  where the code can panic or loop, the result is an option and \<open>None\<close> is that. The three
  database drivers run the same statements; where they differ \<open>db_driver\<close> decides. The state
  grows by record extension: \<open>db\<close>, \<open>session_db\<close>, \<open>hub\<close>, \<open>gateway\<close>, and on top of it the tables of
  the scheduler and the blast worker, or of the new-chat counter, the tags, the history and
  the lifecycle of sessions; the token tables extend \<open>session_db\<close>. Operations are polymorphic in the extension.

  Theories, and what their lemmas show.

  \<^item> \<open>Waxum_Prelude\<close>, \<open>Dash_Map\<close>, \<open>Bounded_Ring\<close>, \<open>Status_Codec\<close>, \<open>Sql_Store\<close>: text, numbers, maps,
    rings, enums stored as text, and statements. Their locales \<open>keyed_store\<close>, \<open>bounded_ring\<close>,
    \<open>status_codec\<close> and \<open>claim_protocol\<close> state the contracts the components rely on, and are
    interpreted on the model's own operations.

  \<^item> \<open>Gateway_Config\<close>, \<open>Recent_Ids\<close>, \<open>Session_Runtime\<close> (\<open>state.rs\<close>): configuration from the
    environment; the window of forwarded message ids refines a list specification; the
    account-lock cooldown and the logout history.

  \<^item> \<open>Device_Props\<close> (\<open>device_props.rs\<close>), \<open>Session_Lifecycle\<close>, \<open>Session_Events\<close>, \<open>Session_Watchdog\<close>
    (\<open>connection.rs\<close>, \<open>events.rs\<close>, \<open>lifecycle.rs\<close> and the status endpoint of \<open>crud.rs\<close>, all under
    \<open>api/shared/sessions/handlers\<close>): how a session connects, pairs, disconnects, logs out, is
    rebuilt and reconnects at start-up, and what each event of its client does. The client and
    the bot are the library's: building one and the answers of a client are arguments, the
    calls made on clients are noted in order (\<open>lib_calls\<close>), the connects spawned and the clients
    running are lists (\<open>connect_tasks\<close>, \<open>run_loops\<close>). \<open>World_Frame\<close> is the contract of a relation
    that the database combinators respect; \<open>Lifecycle_Inv\<close> interprets it. \<open>Lifecycle_Steps\<close> has the
    step relations: \<open>life_step\<close> for the handlers that touch a runtime (connect, disconnect, delete,
    bulk disconnect and purge, export, connecting a Cloud session, events, watchdog), and
    \<open>gateway_step\<close>, in which a connect moves through its parts (bot built, Cloud checked, client
    installed, loop started) with other steps between any two of them; its invariant is
    \<open>gateway_inv\<close>. \<open>Lifecycle_Facts\<close>, \<open>Event_Facts\<close>, \<open>Recovery_Facts\<close> and \<open>Connect_Wait\<close> hold the
    properties: an installed client runs or its connect is about to start it, a replaced one cannot
    act, each message is forwarded once, the watchdog rebuilds exactly the sessions that an
    independent \<open>stuck\<close> describes, a logout keeps the session and unlinks its device before the
    restart, the wait stream closes; and two connects in a row leave two clients running.

  \<^item> \<open>Session_Transfer\<close>, \<open>Transfer_Facts\<close> (\<open>transfer.rs\<close>): a session moves to another instance as a
    zip archive of its directory. An import stays inside the directory, an exported session
    arrives as it was, and the total of an import is bounded only as declared. An entry whose copy
    fails leaves no file in the model, where the code leaves the part written so far.

  \<^item> \<open>Cloud_Client\<close>, \<open>Cloud_Admin\<close>, \<open>Flow_Crypto\<close>, \<open>Cloud_Webhook\<close>, \<open>Cloud_Connection\<close> (\<open>src/cloud\<close>,
    \<open>api/cloud\<close>): the official API of Meta. Each endpoint is the requests it makes, kept in order in
    \<open>http_calls\<close>, and how their answers are read. \<open>Flow_Crypto_Facts\<close> and \<open>Cloud_Facts\<close>: a Flow exchange
    decrypts and answers under its key, deliveries count only when signed, where the path an
    administration id ends up in leads, dots included; and where ids are not checked, and the status
    that tells a step.

  \<^item> \<open>Wa_Proto\<close>, \<open>Fake_Reply\<close>, \<open>Link_Preview\<close>, \<open>Send_Common\<close>, \<open>Send_Preview\<close>, \<open>Send_Text\<close>, \<open>Send_Media\<close>,
    \<open>Send_Other\<close>, \<open>Send_Interactive\<close>, \<open>Send_Dispatch\<close> (\<open>api/shared/messages\<close>, \<open>api/web/fake_reply\<close>,
    \<open>link_preview.rs\<close>): the sends behind every endpoint key. A message is the tree of the fields set in
    it (\<open>pval\<close>); the calls of the client library are noted in order (\<open>client_calls\<close>) and their answers
    are functions of the calls so far. \<open>Send_Facts\<close> proves a contract of the parts (\<open>quiet\<close>: nothing leaves,
    \<open>final\<close>: what the answer says left) and carries it through their composition; \<open>Send_Laws\<close> and
    \<open>Preview_Facts\<close> hold the properties: an answered id is that of the one message that left, the
    new-chat limit stops a send before anything is read, every address the gateway asks the HTTP
    client for passed the URL check, previews and their cache are bounded; and uploaded media is fetched
    again. One such request is one call in the model: a redirect the HTTP client follows within it
    shows only as the final address, and is covered by the resolver alone (see \<open>Net_Guard\<close>).

  \<^item> \<open>Message_Content\<close> (\<open>events.rs\<close>), \<open>Message_Store\<close>, \<open>Message_Store_Facts\<close> (\<open>db/messages.rs\<close>,
    \<open>db/contacts.rs\<close>, \<open>api/shared/search\<close>): what is read out of a message; the history and contact tables,
    their search and listing. A message is stored once per session and listed first, searches
    are literal, contacts remember. \<open>LIKE\<close> compares under the collation of its column: ASCII folding
    on SQLite and in Postgres's \<open>ILIKE\<close>, on MySQL an argument, as the folding is MySQL's
    (utf8mb4_general_ci for the contact columns). The equality of keys is exact in the model; on
    MySQL keys under such a collation that differ in case only are one key.

  \<^item> \<open>Webhook_Event\<close>, \<open>Webhook_Circuit\<close>, \<open>Webhook_Hub\<close>, \<open>Webhook_Delivery\<close>, \<open>Webhook_Api\<close> (\<open>state.rs\<close>,
    \<open>api/shared/webhooks\<close>, \<open>db/webhook_dlq.rs\<close>): subscriptions, the circuit breaker of a URL
    (opening, the single probe, no receiver is suspended for good), a delivery run with its
    retries and signature, dead letters and their replay. \<open>Net_Guard\<close> (\<open>net_guard.rs\<close>): the
    guard accepts a URL, and the resolver a host, exactly when every address it stands for is outside
    the reserved blocks, which the specification lists as ranges of addresses. The resolver does
    not see a host that is an IP literal.

  \<^item> \<open>Session_Db\<close> (\<open>db/session.rs\<close>): the session tables with the failures of every statement.

  \<^item> \<open>Gateway_State\<close>, \<open>Message_Dispatch\<close>, \<open>Scheduled_Db\<close>, \<open>Scheduler\<close>, \<open>Scheduler_Run\<close>,
    \<open>Scheduler_Api\<close> (\<open>db/scheduled.rs\<close>, \<open>api/shared/schedule\<close>): sending later. A message leaves the pending
    state once however cancellations and workers interleave; a tick settles its batch; the
    body checked at creation is the one replayed.

  \<^item> \<open>Blast_Model\<close>, \<open>Blast_Db\<close>, \<open>Blast_Worker\<close>, \<open>Blast_Api\<close>, \<open>Blast_Run\<close>, \<open>Blast_Tick\<close>, \<open>Blast_Facts\<close>,
    \<open>Blast_Control\<close>, \<open>Blast_Create\<close> (\<open>db/blast.rs\<close>, \<open>api/shared/blast\<close>): sending to many. A job ends, its
    recipients are settled and its counters agree with the rows; creation accounts for every
    recipient; cancelling stops the worker; and a recipient left in sending is not sent to when a
    tick resumes its job, which is closed over it.

  \<^item> \<open>Api_Error\<close> (\<open>error.rs\<close>): every error with its response. \<open>Token_Store\<close>, \<open>Jwt_Auth\<close>, \<open>Auth_Facts\<close>
    (\<open>db/tokens.rs\<close>, \<open>middleware/jwt.rs\<close>, \<open>api/shared/tokens\<close>): minted tokens reach their sessions
    and no others until revoked; which requests need no credential, by the segments of their path.

  \<^item> \<open>New_Chat_Db\<close>, \<open>New_Chats\<close>, \<open>New_Chat_Facts\<close> (\<open>db/new_chats.rs\<close>, \<open>api/shared/new_chats\<close>,
    \<open>nats/consumer.rs\<close>): the limit on new chats holds in every window, the wait it names is exact,
    failed sends are taken back, and stored limits keep the handlers from panicking. The composition
    \<open>send_with_admission\<close> of admission, send and roll-back is a device of \<open>New_Chat_Facts\<close> for stating
    this; the code has it spread over the HTTP layer, the send handlers and the NATS consumer.

  \<^item> \<open>Session_Tags\<close>, \<open>Session_Admin\<close>, \<open>Session_Admin_Facts\<close> (\<open>state.rs\<close>, \<open>api/shared/tags\<close>,
    \<open>api/shared/sessions/handlers/crud.rs\<close>, \<open>api/shared/bulk\<close>): tags survive a restart; deleting a session
    removes its rows and its state in memory, purging keeps its tags; a scoped token can have any
    directory removed. What deleting leaves is in \<open>Message_Store_Facts\<close>: the history and its index.

  Loops and bounds. Loops over lists are recursive functions. The batch loop of the blast worker
  (\<open>batch_loop\<close>) and the eviction of dead letters (\<open>dlq_evict\<close>) need not end and are partial
  functions; \<open>process_job_completes\<close> and the lemmas on \<open>dlq_evict\<close> prove that they do, by the
  attempts still owed to the pending recipients and by the length of the ring. Counters keep
  the width the code gives them where they saturate (\<open>sat_succ\<close>) or are cast (\<open>as_i32\<close>, the attempts
  of a dead letter); the i64 counters of the
  blast tables and the times are integers. Times are whole seconds; on Postgres the stored
  times have a finer grain that the model does not show. Text is ASCII.

  What concurrency is modelled. Handlers run to their end in one step unless a lemma says
  otherwise: the interleaving of claims, cancellations and results of scheduled messages is a
  run of single statements; the blast worker meets an environment that may change the state
  between its steps, which the completion theorem assumes quiet; an admission of a new chat
  is one step because the code holds the session's lock for it. A session's handlers, connects,
  events, watchdog and library callbacks interleave freely in \<open>life_step\<close> and \<open>gateway_step\<close>; a handler
  that waits for the library in its middle is split where its second half acts on a state that may
  have changed (\<open>logged_out_finish\<close>, \<open>rebuild_finish\<close>, \<open>pair_finish\<close>, \<open>run_ended\<close>, \<open>late\<close>, \<open>late_remove\<close>), and
  a connect is split where it waits: after building its bot, after asking whether the session is a
  Cloud one, and between installing its client and starting the client's loop.

  Not modelled. The endpoints of the WhatsApp web protocol, the stores the library fills, the console's pages, metrics,
  the DDL of the schema, the set-up of the process, and the foreign keys by which deleting
  a session also deletes its token bindings. Most of them are calls into libraries this
  repository does not contain.
\<close>

end
